(* ===== verification/Nat_Prelude.thy ===== *)
theory Nat_Prelude
  imports Main "HOL-Library.Word" "HOL-Library.AList"
begin

text \<open>
  The prelude of the development: names for the machine types of the Rust
  sources, the clock (\<open>std::time::Instant\<close> and \<open>Duration\<close>), little- and
  big-endian byte conversions, and the parts of \<open>str\<close> the program uses
  (\<open>split\<close>, \<open>trim\<close>, \<open>starts_with\<close>, \<open>parse\<close>, \<open>to_string\<close>).  A Rust
  \<open>String\<close> is its sequence of bytes, an Isabelle \<^typ>\<open>string\<close>; \<open>trim\<close> and
  \<open>to_lowercase\<close> act on the ASCII characters only.
\<close>

unbundle bit_operations_syntax

section \<open>Names\<close>

type_synonym u8 = "8 word"
type_synonym u16 = "16 word"
type_synonym u32 = "32 word"
type_synonym u64 = "64 word"
type_synonym u128 = "128 word"
type_synonym usize = "64 word"
type_synonym bytes = "8 word list"

text \<open>A point in time is a number of nanoseconds.\<close>

type_synonym instant = nat

text \<open>
  \<open>byte_bits\<close> holds the bit-level facts of the byte conversions, \<open>inv_intros\<close>
  the preservation lemmas of the components' invariants and \<open>step_simps\<close> the
  equations that take one operation of a component apart.
\<close>

named_theorems byte_bits
named_theorems inv_intros
named_theorems step_simps

section \<open>Words and bytes\<close>

definition to_le_bytes :: "'a::len word \<Rightarrow> bytes" where
  "to_le_bytes w = map (\<lambda>i. ucast (drop_bit (8 * i) w)) [0 ..< LENGTH('a) div 8]"

primrec from_le_bytes :: "bytes \<Rightarrow> 'a::len word" where
  "from_le_bytes [] = 0"
| "from_le_bytes (b # bs) = push_bit 8 (from_le_bytes bs) OR ucast b"

definition to_be_bytes :: "'a::len word \<Rightarrow> bytes" where
  "to_be_bytes w = rev (to_le_bytes w)"

definition from_be_bytes :: "bytes \<Rightarrow> 'a::len word" where
  "from_be_bytes bs = from_le_bytes (rev bs)"

lemma length_to_le_bytes [simp]: "length (to_le_bytes (w :: 'a::len word)) = LENGTH('a) div 8"
  by (simp add: to_le_bytes_def)

lemma length_to_be_bytes [simp]: "length (to_be_bytes (w :: 'a::len word)) = LENGTH('a) div 8"
  by (simp add: to_be_bytes_def)

lemma bit_from_le_bytes [byte_bits]:
  "bit (from_le_bytes bs :: 'a::len word) n \<longleftrightarrow>
     n < LENGTH('a) \<and> n div 8 < length bs \<and> bit (bs ! (n div 8)) (n mod 8)"
proof (induction bs arbitrary: n)
  case Nil
  then show ?case by simp
next
  case (Cons b bs)
  show ?case
  proof (cases "n < 8")
    case True
    then show ?thesis by (auto simp: bit_simps)
  next
    case False
    then obtain m where m: "n = m + 8" by (metis add.commute le_Suc_ex not_less)
    have "m < LENGTH('a)" if "m + 8 < LENGTH('a)" using that by simp
    moreover have "bit b (m + 8) = False" using bit_imp_le_length [of b "m + 8"] by auto
    moreover have "(m + 8) div 8 = Suc (m div 8)" by simp
    ultimately show ?thesis by (auto simp: m bit_simps Cons.IH simp del: div_add_self2)
  qed
qed

lemma bit_nth_to_le_bytes [byte_bits]:
  "i < LENGTH('a) div 8 \<Longrightarrow>
     bit (to_le_bytes (w :: 'a::len word) ! i) k \<longleftrightarrow> k < 8 \<and> bit w (8 * i + k)"
  by (auto simp: to_le_bytes_def bit_simps)

lemma from_to_le_bytes [simp]:
  assumes "8 dvd LENGTH('a::len)"
  shows "from_le_bytes (to_le_bytes (w :: 'a word)) = w"
proof (rule bit_word_eqI)
  fix n assume n: "n < LENGTH('a)"
  then have "n div 8 < LENGTH('a) div 8"
    using assms by (auto elim!: dvdE)
  then show "bit (from_le_bytes (to_le_bytes w) :: 'a word) n = bit w n"
    using n by (simp add: byte_bits)
qed

lemma from_to_be_bytes [simp]:
  "8 dvd LENGTH('a::len) \<Longrightarrow> from_be_bytes (to_be_bytes (w :: 'a word)) = w"
  by (simp add: from_be_bytes_def to_be_bytes_def)

lemma to_from_le_bytes:
  assumes "length bs = LENGTH('a::len) div 8"
  shows "to_le_bytes (from_le_bytes bs :: 'a word) = bs"
proof (rule nth_equalityI)
  show "length (to_le_bytes (from_le_bytes bs :: 'a word)) = length bs"
    using assms by simp
next
  fix i assume "i < length (to_le_bytes (from_le_bytes bs :: 'a word))"
  then have i: "i < LENGTH('a) div 8" by simp
  show "to_le_bytes (from_le_bytes bs :: 'a word) ! i = bs ! i"
  proof (rule bit_word_eqI)
    fix k assume k: "k < LENGTH(8)"
    have "8 * i + k < LENGTH('a)" using i k by auto
    then show "bit (to_le_bytes (from_le_bytes bs :: 'a word) ! i) k = bit (bs ! i) k"
      using i k assms by (simp add: byte_bits)
  qed
qed

text \<open>Appending zero bytes does not change the value.\<close>

lemma from_le_bytes_append_zeros [simp]:
  "from_le_bytes (bs @ replicate k 0) = from_le_bytes bs"
proof (induction bs)
  case Nil
  show ?case by (induction k) auto
qed simp

lemma bit_less_pow:
  fixes w :: "'a::len word"
  assumes "unat w < 2 ^ k" "k \<le> n"
  shows "\<not> bit w n"
proof -
  have "unat w < 2 ^ n"
    using assms by (meson less_le_trans one_le_numeral power_increasing)
  then have "\<not> bit (unat w) n" by (simp add: bit_iff_odd)
  then show ?thesis by (simp add: bit_simps)
qed

lemma bit_less_powD: "unat (w :: 'a::len word) < 2 ^ k \<Longrightarrow> bit w n \<Longrightarrow> n < k"
  using bit_less_pow [of w k n] by (meson not_le)

section \<open>Time\<close>

text \<open>
  \<open>Instant::elapsed\<close> saturates at zero, which is what subtraction on
  \<^typ>\<open>nat\<close> does.  \<open>as i32\<close> of a \<open>u128\<close> keeps the low 32 bits and reads
  them as a two's complement number.
\<close>

definition nanos_per_sec :: nat where
  "nanos_per_sec = 1000000000"

definition elapsed :: "instant \<Rightarrow> instant \<Rightarrow> nat" where
  "elapsed now t = now - t"

definition as_secs :: "nat \<Rightarrow> nat" where
  "as_secs d = d div nanos_per_sec"

definition as_millis :: "nat \<Rightarrow> nat" where
  "as_millis d = d div 1000000"

definition as_i32 :: "nat \<Rightarrow> int" where
  "as_i32 n = sint (of_nat n :: 32 word)"

lemma as_i32_small [simp]:
  assumes "n < 2 ^ 31"
  shows "as_i32 n = int n"
  using assms by (simp add: as_i32_def signed_of_nat take_bit_nat_eq_self signed_take_bit_int_eq_self)

lemma as_i32_high:
  assumes "2 ^ 31 \<le> n" "n < 2 ^ 32"
  shows "as_i32 n = int n - 2 ^ 32"
proof -
  have "as_i32 n = signed_take_bit 31 (int n)"
    by (simp add: as_i32_def signed_of_nat)
  also have "\<dots> = (int n + 2 ^ 31) mod 2 ^ 32 - 2 ^ 31"
    by (simp add: signed_take_bit_eq_take_bit_shift take_bit_eq_mod)
  also have "(int n + 2 ^ 31) mod 2 ^ 32 = int n + 2 ^ 31 - 2 ^ 32"
    using assms by (intro int_mod_pos_eq [of _ _ 1]) auto
  finally show ?thesis by simp
qed

lemma elapsed_mono: "now \<le> now' \<Longrightarrow> elapsed now t \<le> elapsed now' t"
  by (simp add: elapsed_def)

section \<open>Strings\<close>

primrec split_on :: "'a \<Rightarrow> 'a list \<Rightarrow> 'a list list" where
  "split_on c [] = [[]]"
| "split_on c (x # xs) =
     (if x = c then [] # split_on c xs
      else (case split_on c xs of [] \<Rightarrow> [[x]] | y # ys \<Rightarrow> (x # y) # ys))"

fun join_with :: "'a list \<Rightarrow> 'a list list \<Rightarrow> 'a list" where
  "join_with sep [] = []"
| "join_with sep [x] = x"
| "join_with sep (x # y # ys) = x @ sep @ join_with sep (y # ys)"

definition starts_with :: "'a list \<Rightarrow> 'a list \<Rightarrow> bool" where
  "starts_with s p \<longleftrightarrow> take (length p) s = p"

definition ends_with :: "'a list \<Rightarrow> 'a list \<Rightarrow> bool" where
  "ends_with s p \<longleftrightarrow> length p \<le> length s \<and> drop (length s - length p) s = p"

definition is_space :: "char \<Rightarrow> bool" where
  "is_space c \<longleftrightarrow> c = CHR '' '' \<or> (9 \<le> (of_char c :: nat) \<and> (of_char c :: nat) \<le> 13)"

definition trim :: "string \<Rightarrow> string" where
  "trim s = rev (dropWhile is_space (rev (dropWhile is_space s)))"

definition is_digit :: "char \<Rightarrow> bool" where
  "is_digit c \<longleftrightarrow> 48 \<le> (of_char c :: nat) \<and> (of_char c :: nat) \<le> 57"

definition is_upper :: "char \<Rightarrow> bool" where
  "is_upper c \<longleftrightarrow> 65 \<le> (of_char c :: nat) \<and> (of_char c :: nat) \<le> 90"

definition to_lower_char :: "char \<Rightarrow> char" where
  "to_lower_char c = (if is_upper c then char_of ((of_char c :: nat) + 32) else c)"

definition to_lower :: "string \<Rightarrow> string" where
  "to_lower s = map to_lower_char s"

fun parse_digits :: "nat \<Rightarrow> string \<Rightarrow> nat option" where
  "parse_digits acc [] = Some acc"
| "parse_digits acc (c # cs) =
     (if is_digit c then parse_digits (10 * acc + (of_char c - 48)) cs else None)"

text \<open>
  \<open>str::parse\<close> for an integer type with greatest value \<open>hi\<close>: an optional sign
  (a minus only for a signed type), at least one digit, and no overflow.
\<close>

definition parse_nat :: "string \<Rightarrow> nat option" where
  "parse_nat s = (if s = [] then None else parse_digits 0 s)"

definition parse_unsigned :: "nat \<Rightarrow> string \<Rightarrow> nat option" where
  "parse_unsigned hi s =
     (case parse_nat (case s of c # cs \<Rightarrow> if c = CHR ''+'' then cs else s | [] \<Rightarrow> []) of
        Some n \<Rightarrow> if n \<le> hi then Some n else None
      | None \<Rightarrow> None)"

definition parse_signed :: "nat \<Rightarrow> string \<Rightarrow> int option" where
  "parse_signed hi s =
     (case s of
        c # cs \<Rightarrow>
          if c = CHR ''-'' then
            (case parse_nat cs of
               Some n \<Rightarrow> if n \<le> hi + 1 then Some (- int n) else None
             | None \<Rightarrow> None)
          else map_option int (parse_unsigned hi s)
      | [] \<Rightarrow> None)"

definition i32_max :: nat where "i32_max = 2147483647"
definition i64_max :: nat where "i64_max = 9223372036854775807"

definition parse_usize :: "string \<Rightarrow> nat option" where
  "parse_usize s = parse_unsigned (2 ^ 64 - 1) s"

text \<open>A line feed, and the next argument of a console command.\<close>

definition LF :: string where "LF = [char_of (10 :: nat)]"

definition next_arg :: "string list \<Rightarrow> string option" where
  "next_arg fds = (case fds of x # _ \<Rightarrow> Some x | [] \<Rightarrow> None)"

definition digit_char :: "nat \<Rightarrow> char" where
  "digit_char d = char_of (48 + d)"

fun show_nat :: "nat \<Rightarrow> string" where
  "show_nat n = (if n < 10 then [digit_char n] else show_nat (n div 10) @ [digit_char (n mod 10)])"

declare show_nat.simps [simp del]

lemma split_on_not_Nil [simp]: "split_on c xs \<noteq> []"
  by (induction xs) (auto split: list.splits)

lemma split_on_no_sep [simp]: "c \<notin> set xs \<Longrightarrow> split_on c xs = [xs]"
  by (induction xs) auto

lemma split_on_append_sep [simp]:
  "c \<notin> set xs \<Longrightarrow> split_on c (xs @ c # ys) = xs # split_on c ys"
  by (induction xs) auto

lemma split_on_join_with [simp]:
  "\<lbrakk>xss \<noteq> []; \<And>xs. xs \<in> set xss \<Longrightarrow> c \<notin> set xs\<rbrakk> \<Longrightarrow> split_on c (join_with [c] xss) = xss"
  by (induction "[c]" xss rule: join_with.induct) auto

lemma join_with_split_on [simp]: "join_with [c] (split_on c xs) = xs"
proof (induction xs)
  case (Cons x xs)
  obtain y ys where "split_on c xs = y # ys" by (cases "split_on c xs") auto
  with Cons show ?case by (cases ys) auto
qed simp

lemma split_on_sep_notin: "ys \<in> set (split_on c xs) \<Longrightarrow> c \<notin> set ys"
  by (induction xs arbitrary: ys) (auto split: if_splits list.splits)

lemma is_digit_digit_char [simp]: "d < 10 \<Longrightarrow> is_digit (digit_char d)"
  by (simp add: is_digit_def digit_char_def of_char_of)

lemma of_char_digit_char [simp]: "d < 10 \<Longrightarrow> of_char (digit_char d) = (48 + d :: nat)"
  by (simp add: digit_char_def of_char_of)

lemma parse_digits_append:
  "parse_digits acc (xs @ ys) =
     (case parse_digits acc xs of Some a \<Rightarrow> parse_digits a ys | None \<Rightarrow> None)"
  by (induction acc xs rule: parse_digits.induct) auto

lemma show_nat_not_Nil [simp]: "show_nat n \<noteq> []"
  by (simp add: show_nat.simps)

lemma parse_digits_show_nat: "parse_digits 0 (show_nat n) = Some n"
proof (induction n rule: show_nat.induct)
  case (1 n)
  then show ?case
    by (subst show_nat.simps) (simp add: parse_digits_append)
qed

lemma set_show_nat: "c \<in> set (show_nat n) \<Longrightarrow> is_digit c"
proof (induction n rule: show_nat.induct)
  case (1 n)
  from 1(2) show ?case
    by (subst (asm) show_nat.simps) (auto split: if_splits dest: 1(1))
qed

lemma parse_nat_show_nat [simp]: "parse_nat (show_nat n) = Some n"
  by (simp add: parse_nat_def parse_digits_show_nat)

lemma parse_unsigned_show_nat [simp]:
  "parse_unsigned hi (show_nat n) = (if n \<le> hi then Some n else None)"
proof -
  obtain c cs where s: "show_nat n = c # cs" by (cases "show_nat n") auto
  then have "is_digit c" using set_show_nat [of c n] by simp
  then have "c \<noteq> CHR ''+''" by (auto simp: is_digit_def)
  then show ?thesis using s parse_nat_show_nat [of n] by (simp add: parse_unsigned_def)
qed

lemma trim_id:
  assumes "s = [] \<or> \<not> is_space (hd s) \<and> \<not> is_space (last s)"
  shows "trim s = s"
proof (cases "s = []")
  case False
  then have "dropWhile is_space s = s"
    using assms by (simp add: dropWhile_eq_self_iff)
  moreover have "dropWhile is_space (rev s) = rev s"
    using assms False by (simp add: dropWhile_eq_self_iff hd_rev)
  ultimately show ?thesis by (simp add: trim_def)
qed (simp add: trim_def)

lemma trim_no_space [simp]:
  "(\<And>c. c \<in> set s \<Longrightarrow> \<not> is_space c) \<Longrightarrow> trim s = s"
  by (rule trim_id) (use hd_in_set last_in_set in blast)

lemma starts_with_append [simp]: "starts_with (p @ s) p"
  by (simp add: starts_with_def)

text \<open>Byte-wise comparison of strings, SQLite's \<open>BINARY\<close> collation.\<close>

fun str_less :: "string \<Rightarrow> string \<Rightarrow> bool" where
  "str_less _ [] = False"
| "str_less [] (_ # _) = True"
| "str_less (x # xs) (y # ys) =
     ((of_char x :: nat) < of_char y \<or> (x = y \<and> str_less xs ys))"

text \<open>A non-ASCII literal is given by its UTF-8 bytes.\<close>

definition utf8 :: "nat list \<Rightarrow> string" where
  "utf8 ns = map char_of ns"

lemma str_less_irrefl [simp]: "\<not> str_less x x"
  by (induction x) auto

lemma str_less_trans: "\<lbrakk>str_less x y; str_less y z\<rbrakk> \<Longrightarrow> str_less x z"
proof (induction x y arbitrary: z rule: str_less.induct)
  case (2 v va)
  then show ?case by (cases z) auto
next
  case (3 x xs y ys)
  then show ?case by (cases z) auto
qed simp

lemma str_less_linear: "str_less x y \<or> x = y \<or> str_less y x"
proof (induction x y rule: str_less.induct)
  case (1 x)
  then show ?case by (cases x) auto
next
  case (3 x xs y ys)
  then show ?case by (auto simp: not_less_iff_gr_or_eq)
qed simp

lemma str_less_append [simp]: "str_less (p @ x) (p @ y) \<longleftrightarrow> str_less x y"
  by (induction p) auto

end
