(* ===== verification/Addr_Mangle.thy ===== *)
theory Addr_Mangle
  imports Nat_Prelude
begin

text \<open>
  Socket addresses (\<open>std::net\<close>) and the address obfuscation of
  \<open>libs/core-common/src/lib.rs\<close>: \<open>try_into_v4\<close> and \<open>AddrMangle\<close>.  The main
  result is the round trip \<open>decode (encode a) = try_into_v4 a\<close> for every clock
  value, up to the two fields of an IPv6 socket address that are not sent.
\<close>

section \<open>Addresses\<close>

datatype ipv4_addr = Ipv4Addr u8 u8 u8 u8

datatype ipv6_addr = Ipv6Addr u128

datatype ip_addr = IpV4 ipv4_addr | IpV6 ipv6_addr

text \<open>An IPv6 socket address also carries a flow label and a scope id.\<close>

datatype socket_addr = V4 ipv4_addr u16 | V6 ipv6_addr u16 u32 u32

fun octets4 :: "ipv4_addr \<Rightarrow> bytes" where
  "octets4 (Ipv4Addr a b c d) = [a, b, c, d]"

fun octets6 :: "ipv6_addr \<Rightarrow> bytes" where
  "octets6 (Ipv6Addr w) = to_be_bytes w"

fun sa_port :: "socket_addr \<Rightarrow> u16" where
  "sa_port (V4 _ p) = p"
| "sa_port (V6 _ p _ _) = p"

fun sa_ip :: "socket_addr \<Rightarrow> ip_addr" where
  "sa_ip (V4 a _) = IpV4 a"
| "sa_ip (V6 a _ _ _) = IpV6 a"

fun socket_addr_new :: "ip_addr \<Rightarrow> u16 \<Rightarrow> socket_addr" where
  "socket_addr_new (IpV4 a) p = V4 a p"
| "socket_addr_new (IpV6 a) p = V6 a p 0 0"

fun ip_is_loopback :: "ip_addr \<Rightarrow> bool" where
  "ip_is_loopback (IpV4 (Ipv4Addr a b c d)) \<longleftrightarrow> a = 127"
| "ip_is_loopback (IpV6 (Ipv6Addr w)) \<longleftrightarrow> w = 1"

text \<open>
  \<open>Ipv6Addr::to_ipv4\<close> accepts the IPv4-mapped \<open>::ffff:a.b.c.d\<close> and the
  IPv4-compatible \<open>::a.b.c.d\<close> addresses.
\<close>

fun to_ipv4 :: "ipv6_addr \<Rightarrow> ipv4_addr option" where
  "to_ipv4 (Ipv6Addr w) =
     (if drop_bit 32 w = 0 \<or> drop_bit 32 w = 0xFFFF
      then Some (Ipv4Addr (ucast (drop_bit 24 w)) (ucast (drop_bit 16 w))
                          (ucast (drop_bit 8 w)) (ucast w))
      else None)"

fun try_into_v4 :: "socket_addr \<Rightarrow> socket_addr" where
  "try_into_v4 (V6 ip port flow scope) =
     (if \<not> ip_is_loopback (IpV6 ip) then
        (case to_ipv4 ip of
           Some v4 \<Rightarrow> socket_addr_new (IpV4 v4) port
         | None \<Rightarrow> V6 ip port flow scope)
      else V6 ip port flow scope)"
| "try_into_v4 (V4 ip port) = V4 ip port"

definition get_any_listen_addr :: "bool \<Rightarrow> socket_addr" where
  "get_any_listen_addr is_ipv4 =
     (if is_ipv4 then socket_addr_new (IpV4 (Ipv4Addr 0 0 0 0)) 0
      else socket_addr_new (IpV6 (Ipv6Addr 0)) 0)"

section \<open>AddrMangle\<close>

text \<open>
  \<open>now_micros\<close> is \<open>SystemTime::now()\<close> in microseconds since the epoch; \<open>as u32\<close>
  keeps its low 32 bits.  The sum and the shifts are computed in \<open>u128\<close>.
\<close>

definition mangle_tm :: "nat \<Rightarrow> u128" where
  "mangle_tm now_micros = ucast (of_nat now_micros :: u32)"

definition mangle_v4 :: "ipv4_addr \<Rightarrow> u16 \<Rightarrow> u128 \<Rightarrow> u128" where
  "mangle_v4 a p tm =
     (let ip = ucast (from_le_bytes (octets4 a) :: u32) :: u128;
          port = ucast p :: u128
      in push_bit 49 (ip + tm) OR push_bit 17 tm OR (port + (tm AND 0xFFFF)))"

text \<open>The loop over the reversed bytes counts the trailing zero bytes.\<close>

definition n_padding :: "bytes \<Rightarrow> nat" where
  "n_padding bs = length (takeWhile (\<lambda>b. b = 0) (rev bs))"

definition AddrMangle_encode :: "nat \<Rightarrow> socket_addr \<Rightarrow> bytes" where
  "AddrMangle_encode now_micros addr =
     (case try_into_v4 addr of
        V4 a p \<Rightarrow>
          let bs = to_le_bytes (mangle_v4 a p (mangle_tm now_micros))
          in take (16 - n_padding bs) bs
      | V6 a p _ _ \<Rightarrow> octets6 a @ to_le_bytes p)"

definition demangle_v4 :: "u128 \<Rightarrow> socket_addr" where
  "demangle_v4 number =
     (let tm = drop_bit 17 number AND 0xFFFFFFFF;
          ip = to_le_bytes (ucast (drop_bit 49 number - tm) :: u32);
          port = (number AND 0xFFFFFF) - (tm AND 0xFFFF)
      in V4 (Ipv4Addr (ip ! 0) (ip ! 1) (ip ! 2) (ip ! 3)) (ucast port))"

definition AddrMangle_decode :: "bytes \<Rightarrow> socket_addr" where
  "AddrMangle_decode bs =
     (if length bs > 16 then
        if length bs \<noteq> 18 then get_any_listen_addr False
        else socket_addr_new (IpV6 (Ipv6Addr (from_be_bytes (take 16 bs))))
                             (from_le_bytes (drop 16 bs))
      else demangle_v4 (from_le_bytes (bs @ replicate (16 - length bs) 0)))"

text \<open>What survives the trip: an IPv6 address loses its flow label and scope id.\<close>

fun forget_scope :: "socket_addr \<Rightarrow> socket_addr" where
  "forget_scope (V4 a p) = V4 a p"
| "forget_scope (V6 a p _ _) = V6 a p 0 0"

section \<open>The round trip\<close>

lemma strip_zeros:
  "take (length bs - n_padding bs) bs @ replicate (n_padding bs) 0 = bs"
proof -
  let ?k = "n_padding bs"
  have k: "?k \<le> length bs"
    by (metis n_padding_def length_rev length_takeWhile_le)
  have "rev bs = takeWhile (\<lambda>b. b = 0) (rev bs) @ dropWhile (\<lambda>b. b = 0) (rev bs)" by simp
  moreover have "takeWhile (\<lambda>b. b = 0) (rev bs) = replicate ?k 0"
    unfolding n_padding_def
    by (rule replicate_length_same [symmetric]) (auto dest: set_takeWhileD)
  ultimately have "bs = rev (dropWhile (\<lambda>b. b = 0) (rev bs)) @ replicate ?k 0"
    by (metis rev_append rev_replicate rev_rev_ident)
  then show ?thesis
    by (metis (no_types, lifting) append_eq_conv_conj diff_add_inverse2 length_append length_replicate)
qed

lemma mangle_tm_bound: "unat (mangle_tm n) < 2 ^ 32"
  using unsigned_less [of "of_nat n :: u32", where ?'a = nat]
  by (simp add: mangle_tm_def unsigned_ucast_eq take_bit_nat_eq_self)

lemma ucast_down_add: "(ucast (a + b :: u128) :: u16) = ucast a + ucast b"
proof (rule word_uint_eqI)
  show "uint (ucast (a + b) :: u16) = uint (ucast a + ucast b :: u16)"
    by (simp add: unsigned_ucast_eq uint_word_ariths take_bit_eq_mod mod_mod_cancel mod_simps)
qed

lemma ucast_down_diff: "(ucast (a - b :: u128) :: u16) = ucast a - ucast b"
proof (rule word_uint_eqI)
  show "uint (ucast (a - b) :: u16) = uint (ucast a - ucast b :: u16)"
    by (simp add: unsigned_ucast_eq uint_word_ariths take_bit_eq_mod mod_mod_cancel mod_simps)
qed

lemma ucast_ucast_up:
  "(ucast (ucast (w :: u32) :: u128) :: u32) = w" "(ucast (ucast (p :: u16) :: u128) :: u16) = p"
  by (auto intro!: bit_word_eqI simp: bit_simps)

lemma mask_lits:
  "(0xFFFFFFFF :: u128) = mask 32" "(0xFFFFFF :: u128) = mask 24" "(0xFFFF :: u128) = mask 16"
  by (simp_all add: mask_eq_exp_minus_1)

text \<open>The three fields occupy disjoint bit ranges of the mangled number.\<close>

lemma mangled_fields:
  fixes A T Q :: u128
  assumes "unat A < 2 ^ 33" "unat T < 2 ^ 32" "unat Q < 2 ^ 17"
  defines "v \<equiv> push_bit 49 A OR push_bit 17 T OR Q"
  shows "drop_bit 49 v = A"
    and "drop_bit 17 v AND 0xFFFFFFFF = T"
    and "(ucast (v AND 0xFFFFFF) :: u16) = ucast Q"
proof -
  note hi = bit_less_pow [OF assms(1)] bit_less_pow [OF assms(2)] bit_less_pow [OF assms(3)]
  show "drop_bit 49 v = A"
  proof (rule bit_word_eqI)
    fix n assume "n < LENGTH(128)"
    then show "bit (drop_bit 49 v) n = bit A n"
      using bit_less_powD [OF assms(1), of n] by (auto simp: v_def bit_simps hi)
  qed
  show "drop_bit 17 v AND 0xFFFFFFFF = T"
  proof (rule bit_word_eqI)
    fix n assume "n < LENGTH(128)"
    then show "bit (drop_bit 17 v AND 0xFFFFFFFF) n = bit T n"
      using bit_less_powD [OF assms(2), of n] by (auto simp: v_def mask_lits bit_simps hi)
  qed
  show "(ucast (v AND 0xFFFFFF) :: u16) = ucast Q"
    by (rule bit_word_eqI) (auto simp: v_def mask_lits bit_simps)
qed

lemma mangle_parts_bound:
  "unat (ucast (w :: u32) + mangle_tm n :: u128) < 2 ^ 33"
  "unat (ucast (p :: u16) + (mangle_tm n AND 0xFFFF) :: u128) < 2 ^ 17"
proof -
  have w: "unat (ucast w :: u128) < 2 ^ 32" "unat (ucast p :: u128) < 2 ^ 16"
    using unsigned_less [of w, where ?'a = nat] unsigned_less [of p, where ?'a = nat]
    by (simp_all add: unsigned_ucast_eq take_bit_nat_eq_self)
  have t: "unat (mangle_tm n AND 0xFFFF) < 2 ^ 16"
    using take_bit_nat_less_exp [of 16 "unat (mangle_tm n)"]
    by (simp only: mask_lits unsigned_take_bit_eq flip: take_bit_eq_mask)
  show "unat (ucast w + mangle_tm n :: u128) < 2 ^ 33"
    using w mangle_tm_bound [of n] unat_word_ariths(1) [of "ucast w :: u128" "mangle_tm n"]
    by simp
  show "unat (ucast p + (mangle_tm n AND 0xFFFF) :: u128) < 2 ^ 17"
    using w t unat_word_ariths(1) [of "ucast p :: u128" "mangle_tm n AND 0xFFFF"]
    by simp
qed

lemma octets4_to_le_bytes:
  "to_le_bytes (from_le_bytes (octets4 (Ipv4Addr a b c d)) :: u32) = [a, b, c, d]"
  by (subst to_from_le_bytes) auto

lemma demangle_mangle_v4: "demangle_v4 (mangle_v4 a p (mangle_tm n)) = V4 a p"
proof (cases a)
  case (Ipv4Addr o1 o2 o3 o4)
  let ?ip = "from_le_bytes (octets4 a) :: u32"
  note f = mangled_fields [OF mangle_parts_bound(1) [of ?ip n] mangle_tm_bound [of n]
      mangle_parts_bound(2) [of p n]]
  show ?thesis
    using f octets4_to_le_bytes [of o1 o2 o3 o4]
    by (simp add: demangle_v4_def mangle_v4_def Let_def ucast_down_add ucast_down_diff ucast_ucast_up Ipv4Addr)
qed

lemma decode_v6:
  "AddrMangle_decode (octets6 a @ to_le_bytes p) = V6 a p 0 0"
  by (cases a) (simp add: AddrMangle_decode_def)

lemma n_padding_le: "n_padding bs \<le> length bs"
  by (metis n_padding_def length_rev length_takeWhile_le)

lemma decode_stripped:
  assumes "length bs = 16"
  shows "AddrMangle_decode (take (16 - n_padding bs) bs) = demangle_v4 (from_le_bytes bs)"
proof -
  have "16 - (16 - n_padding bs) = n_padding bs" using n_padding_le [of bs] assms by simp
  then show ?thesis
    using strip_zeros [of bs] assms by (auto simp: AddrMangle_decode_def)
qed

lemma mangle_v4_high_bytes:
  assumes "11 \<le> i" "i < 16"
  shows "to_le_bytes (mangle_v4 a p (mangle_tm n)) ! i = 0"
proof (rule bit_word_eqI)
  fix k assume "k < LENGTH(8)"
  then show "bit (to_le_bytes (mangle_v4 a p (mangle_tm n)) ! i) k = bit (0 :: u8) k"
    using assms bit_less_pow [OF mangle_parts_bound(1)] bit_less_pow [OF mangle_parts_bound(2)]
      bit_less_pow [OF mangle_tm_bound]
    by (simp add: byte_bits mangle_v4_def Let_def bit_simps)
qed

lemma try_into_v4_idem: "try_into_v4 (try_into_v4 a) = try_into_v4 a"
  by (cases a) (auto split: option.splits)

lemma AddrMangle_decode_encode:
  "AddrMangle_decode (AddrMangle_encode now_micros addr) = forget_scope (try_into_v4 addr)"
proof (cases "try_into_v4 addr")
  case (V4 a p)
  then show ?thesis
    by (simp add: AddrMangle_encode_def Let_def decode_stripped demangle_mangle_v4)
next
  case (V6 a p f s)
  then show ?thesis by (simp add: AddrMangle_encode_def decode_v6)
qed

section \<open>Properties\<close>

text \<open>
  C30.  Whatever the clock says, decoding an encoded socket address gives back
  the address normalised by \<open>try_into_v4\<close>; an address that stays IPv6 loses
  its flow label and scope id, which are not part of the message.
\<close>

theorem AddrMangle_roundtrip:
  "AddrMangle_decode (AddrMangle_encode now_micros addr) = forget_scope (try_into_v4 addr)"
  by (rule AddrMangle_decode_encode)

text \<open>
  An encoded address is short: an IPv4 address (or one embedded in IPv6)
  takes at most eleven bytes, and an IPv6 address exactly eighteen, the only
  length above sixteen that \<open>decode\<close> accepts.
\<close>

theorem AddrMangle_encode_length:
  "case try_into_v4 addr of
     V4 _ _ \<Rightarrow> length (AddrMangle_encode now_micros addr) \<le> 11
   | V6 _ _ _ _ \<Rightarrow> length (AddrMangle_encode now_micros addr) = 18"
proof (cases "try_into_v4 addr")
  case (V4 a p)
  let ?bs = "to_le_bytes (mangle_v4 a p (mangle_tm now_micros))"
  have "5 \<le> n_padding ?bs"
    unfolding n_padding_def
  proof (rule length_takeWhile_less_P_nth)
    fix i :: nat assume "i < 5"
    then show "rev ?bs ! i = 0" by (simp add: rev_nth mangle_v4_high_bytes)
  qed simp
  then show ?thesis using V4 by (simp add: AddrMangle_encode_def Let_def)
next
  case (V6 a p f s)
  then show ?thesis by (cases a) (simp add: AddrMangle_encode_def)
qed

end
