(* ===== verification/Bytes_Codec.thy ===== *)
theory Bytes_Codec
  imports Nat_Prelude
begin

text \<open>
  The length-prefixed framing of every TCP connection,
  \<open>libs/core-common/src/bytes_codec.rs\<close>.  The low two bits of the first byte
  give the number of header bytes, the remaining bits the payload length.
  Shown: a frame decodes to its payload and leaves the bytes after it, a
  decoder that waits for more bytes has lost nothing, and the packet bound is
  respected.
\<close>

section \<open>The codec\<close>

datatype decode_state = Head | Data usize

datatype io_error = InvalidData string | InvalidInput string

record bytes_codec =
  bc_state :: decode_state
  bc_raw :: bool
  bc_max_packet_length :: usize

definition codec_new :: bytes_codec where
  "codec_new = \<lparr>bc_state = Head, bc_raw = False, bc_max_packet_length = - 1\<rparr>"

definition set_raw :: "bytes_codec \<Rightarrow> bytes_codec" where
  "set_raw c = c\<lparr>bc_raw := True\<rparr>"

definition set_max_packet_length :: "usize \<Rightarrow> bytes_codec \<Rightarrow> bytes_codec" where
  "set_max_packet_length n c = c\<lparr>bc_max_packet_length := n\<rparr>"

definition head_len :: "u8 \<Rightarrow> nat" where
  "head_len b = unat ((b AND 0x3) + 1)"

text \<open>The header as a little-endian number, before the two low bits are shifted out.\<close>

definition head_word :: "bytes \<Rightarrow> usize" where
  "head_word src =
     (let h = head_len (src ! 0);
          n = ucast (src ! 0) :: usize;
          n = (if h > 1 then n OR push_bit 8 (ucast (src ! 1)) else n);
          n = (if h > 2 then n OR push_bit 16 (ucast (src ! 2)) else n);
          n = (if h > 3 then n OR push_bit 24 (ucast (src ! 3)) else n)
      in n)"

definition decode_head :: "bytes_codec \<Rightarrow> bytes \<Rightarrow> io_error + usize option \<times> bytes" where
  "decode_head c src =
     (if src = [] then Inr (None, src)
      else if length src < head_len (src ! 0) then Inr (None, src)
      else
        let n = drop_bit 2 (head_word src)
        in if n > bc_max_packet_length c then Inl (InvalidData ''Too big packet'')
           else Inr (Some n, drop (head_len (src ! 0)) src))"

definition decode_data :: "usize \<Rightarrow> bytes \<Rightarrow> bytes option \<times> bytes" where
  "decode_data n src =
     (if length src < unat n then (None, src)
      else (Some (take (unat n) src), drop (unat n) src))"

text \<open>
  The decoder and the buffer are updated in place, so a step returns them with
  the result.
\<close>

type_synonym decode_result = "bytes_codec \<times> bytes \<times> (io_error + bytes option)"

definition decode_body :: "bytes_codec \<Rightarrow> usize \<Rightarrow> bytes \<Rightarrow> decode_result" where
  "decode_body c n src =
     (case decode_data n src of
        (Some data, src') \<Rightarrow> (c\<lparr>bc_state := Head\<rparr>, src', Inr (Some data))
      | (None, src') \<Rightarrow> (c, src', Inr None))"

definition codec_decode :: "bytes_codec \<Rightarrow> bytes \<Rightarrow> decode_result" where
  "codec_decode c src =
     (if bc_raw c then
        if src \<noteq> [] then (c, [], Inr (Some src)) else (c, src, Inr None)
      else
        (case bc_state c of
           Head \<Rightarrow>
             (case decode_head c src of
                Inl e \<Rightarrow> (c, src, Inl e)
              | Inr (Some n, src') \<Rightarrow> decode_body (c\<lparr>bc_state := Data n\<rparr>) n src'
              | Inr (None, src') \<Rightarrow> (c, src', Inr None))
         | Data n \<Rightarrow> decode_body c n src))"

text \<open>The header \<open>encode\<close> writes for a payload of the given length.\<close>

definition encode_head :: "nat \<Rightarrow> bytes option" where
  "encode_head len =
     (let n = of_nat len :: usize in
      if len \<le> 0x3F then Some [ucast (push_bit 2 n)]
      else if len \<le> 0x3FFF then Some (to_le_bytes (ucast (push_bit 2 n) OR 0x1 :: u16))
      else if len \<le> 0x3FFFFF then
        let h = ucast (push_bit 2 n) OR 0x2 :: u32
        in Some (to_le_bytes (ucast (h AND 0xFFFF) :: u16) @ [ucast (drop_bit 16 h)])
      else if len \<le> 0x3FFFFFFF then Some (to_le_bytes (ucast (push_bit 2 n) OR 0x3 :: u32))
      else None)"

definition codec_encode :: "bytes_codec \<Rightarrow> bytes \<Rightarrow> bytes \<Rightarrow> io_error + bytes" where
  "codec_encode c data buf =
     (if bc_raw c then Inr (buf @ data)
      else (case encode_head (length data) of
              Some h \<Rightarrow> Inr (buf @ h @ data)
            | None \<Rightarrow> Inl (InvalidInput ''Overflow'')))"

section \<open>Headers\<close>

lemma head_len_bits: "head_len b = 1 + of_bool (bit b 0) + 2 * of_bool (bit b 1)"
proof -
  have "b AND 3 = (if bit b 0 then 1 else 0) OR (if bit b 1 then 2 else 0)"
  proof (rule bit_word_eqI)
    fix n assume "n < LENGTH(8)"
    then have "n = 0 \<or> n = 1 \<or> n \<in> {2 ..< 8}" by auto
    then show "bit (b AND 3) n = bit ((if bit b 0 then 1 else 0) OR (if bit b 1 then 2 else 0) :: u8) n"
      by (auto simp: bit_simps bit_1_iff numeral_eq_Suc less_Suc_eq)
  qed
  then show ?thesis by (auto simp: head_len_def)
qed

lemma head_len_bounds: "1 \<le> head_len b" "head_len b \<le> 4"
  by (auto simp: head_len_bits)

text \<open>
  \<open>is_head h len\<close>: the bytes \<open>h\<close> are a complete header that announces a
  payload of \<open>len\<close> bytes.
\<close>

definition is_head :: "bytes \<Rightarrow> nat \<Rightarrow> bool" where
  "is_head h len \<longleftrightarrow>
     h \<noteq> [] \<and> length h = head_len (h ! 0) \<and> drop_bit 2 (head_word h) = of_nat len"

lemma small_bit: "len < 2 ^ k \<Longrightarrow> bit (len :: nat) n \<Longrightarrow> n < k"
  by (metis bit_take_bit_iff take_bit_nat_eq_self)

lemma encode_head1:
  assumes "len \<le> 0x3F"
  shows "is_head [ucast (push_bit 2 (of_nat len :: usize))] len"
proof -
  let ?n = "of_nat len :: usize"
  have b: "bit len k \<Longrightarrow> k < 6" for k using small_bit [of len 6 k] assms by simp
  have "drop_bit 2 (ucast (ucast (push_bit 2 ?n) :: u8) :: usize) = ?n"
    by (rule bit_word_eqI) (auto simp: bit_simps dest: b)
  then show ?thesis
    by (simp add: is_head_def head_len_bits head_word_def bit_simps)
qed

lemma mask16_lit: "(0xFFFF :: u32) = mask 16"
  by (simp add: mask_eq_exp_minus_1)

lemma to_le_bytes16: "to_le_bytes (h :: u16) = [ucast h, ucast (drop_bit 8 h)]"
  by (simp add: to_le_bytes_def upt_rec)

lemma to_le_bytes32:
  "to_le_bytes (h :: u32) = [ucast h, ucast (drop_bit 8 h), ucast (drop_bit 16 h), ucast (drop_bit 24 h)]"
  by (simp add: to_le_bytes_def upt_rec)

lemma encode_head2:
  assumes "len \<le> 0x3FFF"
  shows "is_head (to_le_bytes (ucast (push_bit 2 (of_nat len :: usize)) OR 0x1 :: u16)) len"
proof -
  let ?n = "of_nat len :: usize" and ?h = "ucast (push_bit 2 (of_nat len :: usize)) OR 0x1 :: u16"
  have b: "bit len k \<Longrightarrow> k < 14" for k using small_bit [of len 14 k] assms by simp
  have "drop_bit 2 (ucast (ucast ?h :: u8) OR push_bit 8 (ucast (ucast (drop_bit 8 ?h) :: u8)) :: usize) = ?n"
  proof (rule bit_word_eqI)
    fix k assume "k < LENGTH(64)"
    then show "bit (drop_bit 2 (ucast (ucast ?h :: u8) OR push_bit 8 (ucast (ucast (drop_bit 8 ?h) :: u8)) :: usize)) k = bit ?n k"
      using b [of k] by (cases "k < 6") (auto simp: bit_simps bit_1_iff)
  qed
  then show ?thesis
    by (simp add: is_head_def to_le_bytes16 head_len_bits head_word_def bit_simps bit_1_iff)
qed

lemma encode_head3:
  assumes "len \<le> 0x3FFFFF"
  shows "is_head (let h = ucast (push_bit 2 (of_nat len :: usize)) OR 0x2 :: u32
                  in to_le_bytes (ucast (h AND 0xFFFF) :: u16) @ [ucast (drop_bit 16 h)]) len"
proof -
  define h where "h = (ucast (push_bit 2 (of_nat len :: usize)) OR 0x2 :: u32)"
  define g where "g = (ucast (h AND 0xFFFF) :: u16)"
  have b: "bit len k \<Longrightarrow> k < 22" for k using small_bit [of len 22 k] assms by simp
  have h: "bit h k \<longleftrightarrow> k = 1 \<or> 2 \<le> k \<and> bit len (k - 2)" for k
    using b [of "k - 2"] by (auto simp: h_def bit_simps bit_2_iff)
  have g: "bit g k \<longleftrightarrow> k < 16 \<and> bit h k" for k
    by (auto simp: g_def bit_simps mask16_lit)
  have "drop_bit 2 (ucast (ucast g :: u8) OR push_bit 8 (ucast (ucast (drop_bit 8 g) :: u8))
          OR push_bit 16 (ucast (ucast (drop_bit 16 h) :: u8)) :: usize) = of_nat len"
  proof (rule bit_word_eqI)
    fix k assume "k < LENGTH(64)"
    then show "bit (drop_bit 2 (ucast (ucast g :: u8) OR push_bit 8 (ucast (ucast (drop_bit 8 g) :: u8))
          OR push_bit 16 (ucast (ucast (drop_bit 16 h) :: u8)) :: usize)) k = bit (of_nat len :: usize) k"
      using b [of k] by (cases "k < 6"; cases "k < 14") (auto simp: bit_simps g h)
  qed
  then show ?thesis
    by (simp add: is_head_def to_le_bytes16 head_len_bits head_word_def bit_simps g h Let_def
        or.assoc flip: h_def g_def)
qed

lemma encode_head4:
  assumes "len \<le> 0x3FFFFFFF"
  shows "is_head (to_le_bytes (ucast (push_bit 2 (of_nat len :: usize)) OR 0x3 :: u32)) len"
proof -
  define h where "h = (ucast (push_bit 2 (of_nat len :: usize)) OR 0x3 :: u32)"
  let ?w = "ucast (ucast h :: u8) OR push_bit 8 (ucast (ucast (drop_bit 8 h) :: u8))
          OR push_bit 16 (ucast (ucast (drop_bit 16 h) :: u8))
          OR push_bit 24 (ucast (ucast (drop_bit 24 h) :: u8)) :: usize"
  have b: "bit len k \<Longrightarrow> k < 30" for k using small_bit [of len 30 k] assms by simp
  have h: "bit h k \<longleftrightarrow> k \<le> 1 \<or> 2 \<le> k \<and> bit len (k - 2)" for k
  proof -
    have "bit (3 :: u32) k \<longleftrightarrow> k \<le> 1"
      using bit_mask_iff [of 2 k, where ?'a = u32] by (auto simp: mask_eq_exp_minus_1)
    then show ?thesis using b [of "k - 2"] by (auto simp: h_def bit_simps)
  qed
  have "drop_bit 2 ?w = of_nat len"
  proof (rule bit_word_eqI)
    fix k assume "k < LENGTH(64)"
    then show "bit (drop_bit 2 ?w) k = bit (of_nat len :: usize) k"
      using b [of k] by (cases "k < 6"; cases "k < 14"; cases "k < 22") (auto simp: bit_simps h)
  qed
  then show ?thesis
    by (simp add: is_head_def to_le_bytes32 head_len_bits head_word_def bit_simps h or.assoc
        flip: h_def)
qed

lemma encode_head_is_head: "encode_head len = Some h \<Longrightarrow> is_head h len"
  using encode_head1 encode_head2 encode_head3 encode_head4
  by (auto simp: encode_head_def Let_def split: if_splits)

lemma is_head_append:
  assumes "is_head h len"
  shows "head_word (h @ rest) = head_word h" "(h @ rest) ! 0 = h ! 0"
proof -
  show z: "(h @ rest) ! 0 = h ! 0" using assms by (cases h) (simp_all add: is_head_def)
  have "k < length h \<Longrightarrow> (h @ rest) ! k = h ! k" for k by (simp add: nth_append)
  then show "head_word (h @ rest) = head_word h"
    using assms z by (simp add: head_word_def is_head_def Let_def)
qed

lemma decode_head_complete:
  assumes "is_head h len" "len < 2 ^ 64" "of_nat len \<le> bc_max_packet_length c"
  shows "decode_head c (h @ rest) = Inr (Some (of_nat len), rest)"
  using assms is_head_append [OF assms(1), of rest]
  by (auto simp: decode_head_def is_head_def Let_def)

section \<open>Waiting for more bytes\<close>

lemma head_word_append:
  "src \<noteq> [] \<Longrightarrow> head_len (src ! 0) \<le> length src \<Longrightarrow> head_word (src @ later) = head_word src"
  by (auto simp: head_word_def Let_def nth_append)

lemma decode_head_more:
  assumes "decode_head c src = Inr (Some n, src')"
  shows "decode_head c (src @ later) = Inr (Some n, src' @ later)"
  using assms head_word_append [of src later]
  by (auto simp: decode_head_def Let_def nth_append split: if_splits)

lemma decode_head_more_err:
  assumes "decode_head c src = Inl e"
  shows "decode_head c (src @ later) = Inl e"
  using assms head_word_append [of src later]
  by (auto simp: decode_head_def Let_def nth_append split: if_splits)

lemma decode_head_bound:
  assumes "decode_head c src = Inr (Some n, src')"
  shows "n \<le> bc_max_packet_length c \<and> length src' < length src"
  using assms head_len_bounds(1) [of "src ! 0"]
  by (auto simp: decode_head_def Let_def not_less split: if_splits)

lemma decode_head_wait: "decode_head c src = Inr (None, src') \<Longrightarrow> src' = src"
  by (auto simp: decode_head_def Let_def split: if_splits)

lemma decode_of_encode:
  assumes "\<not> bc_raw c" "bc_state c = Head"
    and "codec_encode e data [] = Inr frame" "\<not> bc_raw e"
    and "of_nat (length data) \<le> bc_max_packet_length c"
  shows "codec_decode c (frame @ rest) = (c, rest, Inr (Some data))"
proof -
  obtain h where h: "encode_head (length data) = Some h" "frame = h @ data"
    using assms by (auto simp: codec_encode_def split: option.splits)
  have l: "length data < 2 ^ 64"
    using h(1) by (auto simp: encode_head_def Let_def split: if_splits)
  have "decode_head c (h @ data @ rest) = Inr (Some (of_nat (length data)), data @ rest)"
    by (rule decode_head_complete [OF encode_head_is_head [OF h(1)] l assms(5)])
  moreover have "unat (of_nat (length data) :: usize) = length data"
    using l by (simp add: unat_of_nat)
  ultimately show ?thesis
    using assms(1,2) h(2) by (simp add: codec_decode_def decode_body_def decode_data_def)
qed

lemma decode_wait_resume:
  assumes "codec_decode c src = (c', src', Inr None)"
  shows "codec_decode c' (src' @ later) = codec_decode c (src @ later)"
proof (cases "bc_raw c \<or> (\<exists>n. bc_state c = Data n)")
  case True
  then show ?thesis
    using assms
    by (auto simp: codec_decode_def decode_body_def decode_data_def split: if_splits)
next
  case False
  then have c: "\<not> bc_raw c" "bc_state c = Head" by (cases "bc_state c"; auto)+
  show ?thesis
  proof (cases "\<exists>n s. decode_head c src = Inr (Some n, s)")
    case True
    then obtain n s where d: "decode_head c src = Inr (Some n, s)" by blast
    show ?thesis
      using assms c d decode_head_more [OF d, of later]
      by (auto simp: codec_decode_def decode_body_def decode_data_def split: if_splits)
  next
    case False
    then have "c' = c \<and> src' = src"
      using assms c
      by (auto simp: codec_decode_def split: sum.splits option.splits dest: decode_head_wait)
    then show ?thesis by simp
  qed
qed

section \<open>Properties\<close>

text \<open>
  C31.  Framing round trip: whatever \<open>encode\<close> appended to an empty buffer for a
  payload that respects the decoder's packet bound, followed by any bytes of
  later frames, decodes to exactly that payload, leaves exactly the later bytes
  in the buffer and the decoder ready for the next header.
\<close>

theorem codec_roundtrip:
  assumes "\<not> bc_raw c" "bc_state c = Head"
    and "codec_encode e data [] = Inr frame" "\<not> bc_raw e"
    and "of_nat (length data) \<le> bc_max_packet_length c"
  shows "codec_decode c (frame @ rest) = (c, rest, Inr (Some data))"
  using assms by (rule decode_of_encode)

theorem codec_roundtrip_witness:
  "codec_encode codec_new [1, 2, 3] [] = Inr [12, 1, 2, 3] \<and>
   codec_decode codec_new ([12, 1, 2, 3] @ [7]) = (codec_new, [7], Inr (Some [1, 2, 3]))"
proof
  show e: "codec_encode codec_new [1, 2, 3] [] = Inr [12, 1, 2, 3]"
    by (simp add: codec_encode_def codec_new_def encode_head_def Let_def)
  show "codec_decode codec_new ([12, 1, 2, 3] @ [7]) = (codec_new, [7], Inr (Some [1, 2, 3]))"
    by (rule codec_roundtrip [OF _ _ e]) (simp_all add: codec_new_def)
qed

text \<open>
  Waiting loses nothing: when a decoder asks for more bytes, decoding with
  the kept state and buffer once more bytes have arrived gives what decoding
  everything at once would have given.  So the way TCP splits the stream is
  invisible.
\<close>

theorem codec_decode_resume:
  assumes "codec_decode c src = (c', src', Inr None)"
  shows "codec_decode c' (src' @ later) = codec_decode c (src @ later)"
  using assms by (rule decode_wait_resume)

theorem codec_decode_resume_witness:
  "codec_decode (codec_new\<lparr>bc_state := Data 3\<rparr>) ([1] @ [2, 3]) = codec_decode codec_new ([12, 1] @ [2, 3])"
  by (rule codec_decode_resume)
     (simp add: codec_decode_def codec_new_def decode_head_def head_len_def head_word_def
       decode_body_def decode_data_def Let_def)

text \<open>
  The packet bound holds on the wire: from a fresh header the decoder never
  waits for, nor returns, more than \<open>max_packet_length\<close> bytes.
\<close>

theorem codec_max_packet_length:
  assumes "\<not> bc_raw c" "bc_state c = Head" "codec_decode c src = (c', src', Inr r)"
  shows "case r of
      Some data \<Rightarrow> length data \<le> unat (bc_max_packet_length c) \<and> length src' + length data < length src
    | None \<Rightarrow> bc_state c' = Head \<or> (\<exists>n \<le> bc_max_packet_length c. bc_state c' = Data n)"
proof (cases "decode_head c src")
  case (Inl e)
  then show ?thesis using assms by (simp add: codec_decode_def)
next
  case (Inr p)
  show ?thesis
  proof (cases p)
    case (Pair o1 s)
    show ?thesis
    proof (cases o1)
      case None
      then show ?thesis using assms Inr Pair by (auto simp: codec_decode_def)
    next
      case (Some n)
      then have "n \<le> bc_max_packet_length c" "length s < length src"
        using decode_head_bound [of c src n s] Inr Pair by auto
      then show ?thesis
        using assms Inr Pair Some
        by (auto simp: codec_decode_def decode_body_def decode_data_def word_le_nat_alt
            split: if_splits)
    qed
  qed
qed

theorem codec_max_packet_length_witness:
  "length ([1, 2, 3] :: bytes) \<le> unat (bc_max_packet_length (set_max_packet_length 3 codec_new))"
  using codec_max_packet_length
    [of "set_max_packet_length 3 codec_new" "[12, 1, 2, 3, 9]" "set_max_packet_length 3 codec_new"
        "[9]" "Some [1, 2, 3]"]
  by (simp add: codec_decode_def codec_new_def set_max_packet_length_def decode_head_def
      head_len_def head_word_def decode_body_def decode_data_def Let_def)

end
