(* ===== verification/Rendezvous_Msg.thy ===== *)
theory Rendezvous_Msg
  imports Nat_Prelude
begin

text \<open>
  The messages of the rendezvous protocol, one record per message of
  \<open>libs/core-common/protos/rendezvous.proto\<close> with the fields in the order of the
  file.  A protobuf \<open>int32\<close> is a 32-bit word, an enum field keeps numbers the
  enum does not know (\<open>EnumOrUnknown\<close>), an embedded message is an option.
  Unknown fields and cached sizes of the protobuf runtime are not part of a
  message here.
\<close>

section \<open>Enums\<close>

type_synonym i32 = "32 word"

datatype nat_type = UNKNOWN_NAT | ASYMMETRIC | SYMMETRIC

datatype conn_type = DEFAULT_CONN | FILE_TRANSFER | PORT_FORWARD | RDP | VIEW_CAMERA | TERMINAL

datatype register_result =
  OK | UUID_MISMATCH | ID_EXISTS | TOO_FREQUENT | INVALID_ID_FORMAT | NOT_SUPPORT | SERVER_ERROR

datatype punch_failure = ID_NOT_EXIST | OFFLINE | LICENSE_MISMATCH | LICENSE_OVERUSE

datatype 'e enum_or_unknown = Known 'e | Unknown i32

primrec enum_value_or :: "'e \<Rightarrow> 'e enum_or_unknown \<Rightarrow> 'e" where
  "enum_value_or d (Known e) = e"
| "enum_value_or d (Unknown _) = d"

datatype punch_hole_response_union = NatType "nat_type enum_or_unknown" | IsLocal bool

datatype relay_response_union = UnionId string | UnionPk bytes

section \<open>Messages\<close>

record register_peer =
  rp_id :: string
  rp_serial :: i32

record register_peer_response =
  rpr_request_pk :: bool

record punch_hole_request =
  phr_id :: string
  phr_nat_type :: "nat_type enum_or_unknown"
  phr_licence_key :: string
  phr_conn_type :: "conn_type enum_or_unknown"
  phr_token :: string
  phr_version :: string
  phr_udp_port :: i32
  phr_force_relay :: bool
  phr_upnp_port :: i32
  phr_socket_addr_v6 :: bytes

record punch_hole =
  ph_socket_addr :: bytes
  ph_relay_server :: string
  ph_nat_type :: "nat_type enum_or_unknown"
  ph_udp_port :: i32
  ph_force_relay :: bool
  ph_upnp_port :: i32
  ph_socket_addr_v6 :: bytes
  ph_control_permissions :: "u64 option"

record punch_hole_sent =
  phs_socket_addr :: bytes
  phs_id :: string
  phs_relay_server :: string
  phs_nat_type :: "nat_type enum_or_unknown"
  phs_version :: string
  phs_upnp_port :: i32
  phs_socket_addr_v6 :: bytes

record punch_hole_response =
  phres_socket_addr :: bytes
  phres_pk :: bytes
  phres_failure :: "punch_failure enum_or_unknown"
  phres_relay_server :: string
  phres_union :: "punch_hole_response_union option"
  phres_other_failure :: string
  phres_feedback :: i32
  phres_is_udp :: bool
  phres_upnp_port :: i32
  phres_socket_addr_v6 :: bytes

record fetch_local_addr =
  fla_socket_addr :: bytes
  fla_relay_server :: string
  fla_socket_addr_v6 :: bytes
  fla_control_permissions :: "u64 option"

record local_addr =
  la_socket_addr :: bytes
  la_local_addr :: bytes
  la_relay_server :: string
  la_id :: string
  la_version :: string
  la_socket_addr_v6 :: bytes

record config_update =
  cu_serial :: i32
  cu_rendezvous_servers :: "string list"

record register_pk =
  rk_id :: string
  rk_uuid :: bytes
  rk_pk :: bytes
  rk_old_id :: string
  rk_no_register_device :: bool
  rk_user_token :: string

record register_pk_response =
  rkr_result :: "register_result enum_or_unknown"
  rkr_keep_alive :: i32

record software_update =
  su_url :: string

record request_relay =
  rr_id :: string
  rr_uuid :: string
  rr_socket_addr :: bytes
  rr_relay_server :: string
  rr_secure :: bool
  rr_licence_key :: string
  rr_conn_type :: "conn_type enum_or_unknown"
  rr_token :: string
  rr_control_permissions :: "u64 option"

record relay_response =
  rres_socket_addr :: bytes
  rres_uuid :: string
  rres_relay_server :: string
  rres_union :: "relay_response_union option"
  rres_refuse_reason :: string
  rres_version :: string
  rres_feedback :: i32
  rres_socket_addr_v6 :: bytes
  rres_upnp_port :: i32

record test_nat_request =
  tnq_serial :: i32

record test_nat_response =
  tnr_port :: i32
  tnr_cu :: "config_update option"

record peer_discovery =
  pd_cmd :: string
  pd_mac :: string
  pd_id :: string
  pd_username :: string
  pd_hostname :: string
  pd_platform :: string
  pd_misc :: string

record online_request =
  onq_id :: string
  onq_peers :: "string list"

record online_response =
  onr_states :: bytes

record key_exchange =
  ke_keys :: "bytes list"

record health_check =
  hc_token :: string

record header_entry =
  he_name :: string
  he_value :: string

record http_proxy_request =
  hpq_method :: string
  hpq_path :: string
  hpq_headers :: "header_entry list"
  hpq_body :: bytes

record http_proxy_response =
  hpr_status :: i32
  hpr_headers :: "header_entry list"
  hpr_body :: bytes
  hpr_error :: string

datatype rendezvous_union =
    RegisterPeer register_peer
  | RegisterPeerResponse register_peer_response
  | PunchHoleRequest punch_hole_request
  | PunchHole punch_hole
  | PunchHoleSent punch_hole_sent
  | PunchHoleResponse punch_hole_response
  | FetchLocalAddr fetch_local_addr
  | LocalAddr local_addr
  | ConfigureUpdate config_update
  | RegisterPk register_pk
  | RegisterPkResponse register_pk_response
  | SoftwareUpdate software_update
  | RequestRelay request_relay
  | RelayResponse relay_response
  | TestNatRequest test_nat_request
  | TestNatResponse test_nat_response
  | PeerDiscovery peer_discovery
  | OnlineRequest online_request
  | OnlineResponse online_response
  | KeyExchange key_exchange
  | Hc health_check
  | HttpProxyRequest http_proxy_request
  | HttpProxyResponse http_proxy_response

text \<open>\<open>RendezvousMessage\<close> has one field, the union, which may be absent.\<close>

type_synonym rendezvous_message = "rendezvous_union option"

end
