(* ===== verification/Rendezvous_Codec.thy ===== *)
theory Rendezvous_Codec
  imports Rendezvous_Msg "HOL-Library.Monad_Syntax"
begin

text \<open>
  The dual-protocol codec of \<open>libs/core-common/src/rendezvous_codec.rs\<close>.  A
  Cap'n Proto message is seen through its generated readers: a getter of a
  text, data, list or enum field may fail, which is a field of option type, and
  so may the struct pointer of the union variant.  The byte-level readers and
  writers of the two protocol libraries are arguments of \<open>parse\<close> and
  \<open>serialize\<close>.
\<close>

section \<open>Cap'n Proto readers\<close>

datatype capnp_nat_type_enum = C_UnknownNat | C_Asymmetric | C_Symmetric

datatype capnp_conn_type_enum =
  C_DefaultConn | C_FileTransfer | C_PortForward | C_Rdp | C_ViewCamera | C_Terminal

datatype capnp_register_result_enum =
  C_Ok | C_UuidMismatch | C_IdExists | C_TooFrequent | C_InvalidIdFormat | C_NotSupport | C_ServerError

datatype capnp_punch_failure_enum = C_IdNotExist | C_Offline | C_LicenseMismatch | C_LicenseOveruse

record capnp_register_peer =
  crp_id :: "string option"
  crp_serial :: i32

record capnp_register_peer_response =
  crpr_request_pk :: bool

record capnp_punch_hole_request =
  cphr_id :: "string option"
  cphr_nat_type :: "capnp_nat_type_enum option"
  cphr_licence_key :: "string option"
  cphr_conn_type :: "capnp_conn_type_enum option"
  cphr_token :: "string option"
  cphr_version :: "string option"
  cphr_udp_port :: i32
  cphr_force_relay :: bool
  cphr_upnp_port :: i32
  cphr_socket_addr_v6 :: "bytes option"

record capnp_punch_hole =
  cph_socket_addr :: "bytes option"
  cph_relay_server :: "string option"
  cph_nat_type :: "capnp_nat_type_enum option"
  cph_udp_port :: i32
  cph_force_relay :: bool
  cph_upnp_port :: i32
  cph_socket_addr_v6 :: "bytes option"

record capnp_punch_hole_sent =
  cphs_socket_addr :: "bytes option"
  cphs_id :: "string option"
  cphs_relay_server :: "string option"
  cphs_nat_type :: "capnp_nat_type_enum option"
  cphs_version :: "string option"
  cphs_upnp_port :: i32
  cphs_socket_addr_v6 :: "bytes option"

record capnp_punch_hole_response =
  cphres_socket_addr :: "bytes option"
  cphres_pk :: "bytes option"
  cphres_failure :: "capnp_punch_failure_enum option"
  cphres_relay_server :: "string option"
  cphres_nat_type :: "capnp_nat_type_enum option"
  cphres_is_local :: bool
  cphres_other_failure :: "string option"
  cphres_feedback :: i32
  cphres_is_udp :: bool
  cphres_upnp_port :: i32
  cphres_socket_addr_v6 :: "bytes option"

record capnp_fetch_local_addr =
  cfla_socket_addr :: "bytes option"
  cfla_relay_server :: "string option"
  cfla_socket_addr_v6 :: "bytes option"

record capnp_local_addr =
  cla_socket_addr :: "bytes option"
  cla_local_addr :: "bytes option"
  cla_relay_server :: "string option"
  cla_id :: "string option"
  cla_version :: "string option"
  cla_socket_addr_v6 :: "bytes option"

record capnp_config_update =
  ccu_serial :: i32
  ccu_rendezvous_servers :: "string option list option"

record capnp_register_pk =
  crk_id :: "string option"
  crk_uuid :: "bytes option"
  crk_pk :: "bytes option"
  crk_old_id :: "string option"
  crk_no_register_device :: bool
  crk_user_token :: "string option"

record capnp_register_pk_response =
  crkr_result :: "capnp_register_result_enum option"
  crkr_keep_alive :: i32

record capnp_software_update =
  csu_url :: "string option"

record capnp_request_relay =
  crr_id :: "string option"
  crr_uuid :: "string option"
  crr_socket_addr :: "bytes option"
  crr_relay_server :: "string option"
  crr_secure :: bool
  crr_licence_key :: "string option"
  crr_conn_type :: "capnp_conn_type_enum option"
  crr_token :: "string option"

record capnp_relay_response =
  crres_socket_addr :: "bytes option"
  crres_uuid :: "string option"
  crres_relay_server :: "string option"
  crres_id :: "string option"
  crres_pk :: "bytes option"
  crres_refuse_reason :: "string option"
  crres_version :: "string option"
  crres_feedback :: i32
  crres_socket_addr_v6 :: "bytes option"
  crres_upnp_port :: i32

record capnp_test_nat_request =
  ctnq_serial :: i32

record capnp_test_nat_response =
  ctnr_port :: i32
  ctnr_config_serial :: i32
  ctnr_rendezvous_servers :: "string option list option"

record capnp_peer_discovery =
  cpd_cmd :: "string option"
  cpd_mac :: "string option"
  cpd_id :: "string option"
  cpd_username :: "string option"
  cpd_hostname :: "string option"
  cpd_platform :: "string option"
  cpd_misc :: "string option"

record capnp_online_request =
  conq_id :: "string option"
  conq_peers :: "string option list option"

record capnp_online_response =
  conr_states :: "bytes option"

record capnp_key_exchange =
  cke_keys :: "bytes option list option"

record capnp_health_check =
  chc_token :: "string option"

record capnp_http_proxy_request =
  chpq_method :: "string option"
  chpq_path :: "string option"
  chpq_body :: "bytes option"

record capnp_http_proxy_response =
  chpr_status :: i32
  chpr_body :: "bytes option"
  chpr_error :: "string option"

datatype capnp_which =
    W_RegisterPeer "capnp_register_peer option"
  | W_RegisterPeerResponse "capnp_register_peer_response option"
  | W_PunchHoleRequest "capnp_punch_hole_request option"
  | W_PunchHole "capnp_punch_hole option"
  | W_PunchHoleSent "capnp_punch_hole_sent option"
  | W_PunchHoleResponse "capnp_punch_hole_response option"
  | W_FetchLocalAddr "capnp_fetch_local_addr option"
  | W_LocalAddr "capnp_local_addr option"
  | W_ConfigUpdate "capnp_config_update option"
  | W_RegisterPk "capnp_register_pk option"
  | W_RegisterPkResponse "capnp_register_pk_response option"
  | W_SoftwareUpdate "capnp_software_update option"
  | W_RequestRelay "capnp_request_relay option"
  | W_RelayResponse "capnp_relay_response option"
  | W_TestNatRequest "capnp_test_nat_request option"
  | W_TestNatResponse "capnp_test_nat_response option"
  | W_PeerDiscovery "capnp_peer_discovery option"
  | W_OnlineRequest "capnp_online_request option"
  | W_OnlineResponse "capnp_online_response option"
  | W_KeyExchange "capnp_key_exchange option"
  | W_HealthCheck "capnp_health_check option"
  | W_HttpProxyRequest "capnp_http_proxy_request option"
  | W_HttpProxyResponse "capnp_http_proxy_response option"

section \<open>Enums\<close>

fun capnp_nat_type :: "capnp_nat_type_enum \<Rightarrow> nat_type" where
  "capnp_nat_type C_Asymmetric = ASYMMETRIC"
| "capnp_nat_type C_Symmetric = SYMMETRIC"
| "capnp_nat_type _ = UNKNOWN_NAT"

fun proto3_nat_type :: "nat_type \<Rightarrow> capnp_nat_type_enum" where
  "proto3_nat_type ASYMMETRIC = C_Asymmetric"
| "proto3_nat_type SYMMETRIC = C_Symmetric"
| "proto3_nat_type _ = C_UnknownNat"

fun capnp_conn_type :: "capnp_conn_type_enum \<Rightarrow> conn_type" where
  "capnp_conn_type C_FileTransfer = FILE_TRANSFER"
| "capnp_conn_type C_PortForward = PORT_FORWARD"
| "capnp_conn_type C_Rdp = RDP"
| "capnp_conn_type C_ViewCamera = VIEW_CAMERA"
| "capnp_conn_type C_Terminal = TERMINAL"
| "capnp_conn_type _ = DEFAULT_CONN"

fun proto3_register_result :: "register_result \<Rightarrow> capnp_register_result_enum" where
  "proto3_register_result OK = C_Ok"
| "proto3_register_result UUID_MISMATCH = C_UuidMismatch"
| "proto3_register_result ID_EXISTS = C_IdExists"
| "proto3_register_result TOO_FREQUENT = C_TooFrequent"
| "proto3_register_result INVALID_ID_FORMAT = C_InvalidIdFormat"
| "proto3_register_result NOT_SUPPORT = C_NotSupport"
| "proto3_register_result SERVER_ERROR = C_ServerError"

fun capnp_register_result :: "capnp_register_result_enum \<Rightarrow> register_result" where
  "capnp_register_result C_Ok = OK"
| "capnp_register_result C_UuidMismatch = UUID_MISMATCH"
| "capnp_register_result C_IdExists = ID_EXISTS"
| "capnp_register_result C_TooFrequent = TOO_FREQUENT"
| "capnp_register_result C_InvalidIdFormat = INVALID_ID_FORMAT"
| "capnp_register_result C_NotSupport = NOT_SUPPORT"
| "capnp_register_result C_ServerError = SERVER_ERROR"

fun proto3_punch_failure :: "punch_failure \<Rightarrow> capnp_punch_failure_enum" where
  "proto3_punch_failure ID_NOT_EXIST = C_IdNotExist"
| "proto3_punch_failure OFFLINE = C_Offline"
| "proto3_punch_failure LICENSE_MISMATCH = C_LicenseMismatch"
| "proto3_punch_failure LICENSE_OVERUSE = C_LicenseOveruse"

fun capnp_punch_failure :: "capnp_punch_failure_enum \<Rightarrow> punch_failure" where
  "capnp_punch_failure C_IdNotExist = ID_NOT_EXIST"
| "capnp_punch_failure C_Offline = OFFLINE"
| "capnp_punch_failure C_LicenseMismatch = LICENSE_MISMATCH"
| "capnp_punch_failure C_LicenseOveruse = LICENSE_OVERUSE"

section \<open>Cap'n Proto to proto3\<close>

definition from_register_peer :: "capnp_register_peer option \<Rightarrow> rendezvous_message option" where
  "from_register_peer r = do {
     r \<leftarrow> r;
     id' \<leftarrow> crp_id r;
     Some (Some (RegisterPeer \<lparr>rp_id = id',
       rp_serial = crp_serial r\<rparr>)) }"

definition from_register_peer_response :: "capnp_register_peer_response option \<Rightarrow> rendezvous_message option" where
  "from_register_peer_response r = do {
     r \<leftarrow> r;
     Some (Some (RegisterPeerResponse \<lparr>rpr_request_pk = crpr_request_pk r\<rparr>)) }"

definition from_punch_hole_request :: "capnp_punch_hole_request option \<Rightarrow> rendezvous_message option" where
  "from_punch_hole_request r = do {
     r \<leftarrow> r;
     id' \<leftarrow> cphr_id r;
     nat_type \<leftarrow> cphr_nat_type r;
     licence_key \<leftarrow> cphr_licence_key r;
     conn_type \<leftarrow> cphr_conn_type r;
     token \<leftarrow> cphr_token r;
     version \<leftarrow> cphr_version r;
     socket_addr_v6 \<leftarrow> cphr_socket_addr_v6 r;
     Some (Some (PunchHoleRequest \<lparr>phr_id = id',
       phr_nat_type = Known (capnp_nat_type nat_type),
       phr_licence_key = licence_key,
       phr_conn_type = Known (capnp_conn_type conn_type),
       phr_token = token,
       phr_version = version,
       phr_udp_port = cphr_udp_port r,
       phr_force_relay = cphr_force_relay r,
       phr_upnp_port = cphr_upnp_port r,
       phr_socket_addr_v6 = socket_addr_v6\<rparr>)) }"

definition from_punch_hole :: "capnp_punch_hole option \<Rightarrow> rendezvous_message option" where
  "from_punch_hole r = do {
     r \<leftarrow> r;
     socket_addr \<leftarrow> cph_socket_addr r;
     relay_server \<leftarrow> cph_relay_server r;
     nat_type \<leftarrow> cph_nat_type r;
     socket_addr_v6 \<leftarrow> cph_socket_addr_v6 r;
     Some (Some (PunchHole \<lparr>ph_socket_addr = socket_addr,
       ph_relay_server = relay_server,
       ph_nat_type = Known (capnp_nat_type nat_type),
       ph_udp_port = cph_udp_port r,
       ph_force_relay = cph_force_relay r,
       ph_upnp_port = cph_upnp_port r,
       ph_socket_addr_v6 = socket_addr_v6,
       ph_control_permissions = None\<rparr>)) }"

definition from_punch_hole_sent :: "capnp_punch_hole_sent option \<Rightarrow> rendezvous_message option" where
  "from_punch_hole_sent r = do {
     r \<leftarrow> r;
     socket_addr \<leftarrow> cphs_socket_addr r;
     id' \<leftarrow> cphs_id r;
     relay_server \<leftarrow> cphs_relay_server r;
     nat_type \<leftarrow> cphs_nat_type r;
     version \<leftarrow> cphs_version r;
     socket_addr_v6 \<leftarrow> cphs_socket_addr_v6 r;
     Some (Some (PunchHoleSent \<lparr>phs_socket_addr = socket_addr,
       phs_id = id',
       phs_relay_server = relay_server,
       phs_nat_type = Known (capnp_nat_type nat_type),
       phs_version = version,
       phs_upnp_port = cphs_upnp_port r,
       phs_socket_addr_v6 = socket_addr_v6\<rparr>)) }"

definition from_punch_hole_response :: "capnp_punch_hole_response option \<Rightarrow> rendezvous_message option" where
  "from_punch_hole_response r = do {
     r \<leftarrow> r;
     socket_addr \<leftarrow> cphres_socket_addr r;
     pk \<leftarrow> cphres_pk r;
     failure \<leftarrow> cphres_failure r;
     relay_server \<leftarrow> cphres_relay_server r;
     other_failure \<leftarrow> cphres_other_failure r;
     socket_addr_v6 \<leftarrow> cphres_socket_addr_v6 r;
     union \<leftarrow> (if cphres_is_local r then Some (IsLocal True)
                else do { nat_type \<leftarrow> cphres_nat_type r; Some (NatType (Known (capnp_nat_type nat_type))) });
     Some (Some (PunchHoleResponse \<lparr>phres_socket_addr = socket_addr,
       phres_pk = pk,
       phres_failure = Known (capnp_punch_failure failure),
       phres_relay_server = relay_server,
       phres_union = Some union,
       phres_other_failure = other_failure,
       phres_feedback = cphres_feedback r,
       phres_is_udp = cphres_is_udp r,
       phres_upnp_port = cphres_upnp_port r,
       phres_socket_addr_v6 = socket_addr_v6\<rparr>)) }"

definition from_fetch_local_addr :: "capnp_fetch_local_addr option \<Rightarrow> rendezvous_message option" where
  "from_fetch_local_addr r = do {
     r \<leftarrow> r;
     socket_addr \<leftarrow> cfla_socket_addr r;
     relay_server \<leftarrow> cfla_relay_server r;
     socket_addr_v6 \<leftarrow> cfla_socket_addr_v6 r;
     Some (Some (FetchLocalAddr \<lparr>fla_socket_addr = socket_addr,
       fla_relay_server = relay_server,
       fla_socket_addr_v6 = socket_addr_v6,
       fla_control_permissions = None\<rparr>)) }"

definition from_local_addr :: "capnp_local_addr option \<Rightarrow> rendezvous_message option" where
  "from_local_addr r = do {
     r \<leftarrow> r;
     socket_addr \<leftarrow> cla_socket_addr r;
     local_addr \<leftarrow> cla_local_addr r;
     relay_server \<leftarrow> cla_relay_server r;
     id' \<leftarrow> cla_id r;
     version \<leftarrow> cla_version r;
     socket_addr_v6 \<leftarrow> cla_socket_addr_v6 r;
     Some (Some (LocalAddr \<lparr>la_socket_addr = socket_addr,
       la_local_addr = local_addr,
       la_relay_server = relay_server,
       la_id = id',
       la_version = version,
       la_socket_addr_v6 = socket_addr_v6\<rparr>)) }"

definition from_config_update :: "capnp_config_update option \<Rightarrow> rendezvous_message option" where
  "from_config_update r = do {
     r \<leftarrow> r;
     rendezvous_servers \<leftarrow> ccu_rendezvous_servers r;
     Some (Some (ConfigureUpdate \<lparr>cu_serial = ccu_serial r,
       cu_rendezvous_servers = List.map_filter id rendezvous_servers\<rparr>)) }"

definition from_register_pk :: "capnp_register_pk option \<Rightarrow> rendezvous_message option" where
  "from_register_pk r = do {
     r \<leftarrow> r;
     id' \<leftarrow> crk_id r;
     uuid \<leftarrow> crk_uuid r;
     pk \<leftarrow> crk_pk r;
     old_id \<leftarrow> crk_old_id r;
     user_token \<leftarrow> crk_user_token r;
     Some (Some (RegisterPk \<lparr>rk_id = id',
       rk_uuid = uuid,
       rk_pk = pk,
       rk_old_id = old_id,
       rk_no_register_device = crk_no_register_device r,
       rk_user_token = user_token\<rparr>)) }"

definition from_register_pk_response :: "capnp_register_pk_response option \<Rightarrow> rendezvous_message option" where
  "from_register_pk_response r = do {
     r \<leftarrow> r;
     result \<leftarrow> crkr_result r;
     Some (Some (RegisterPkResponse \<lparr>rkr_result = Known (capnp_register_result result),
       rkr_keep_alive = crkr_keep_alive r\<rparr>)) }"

definition from_software_update :: "capnp_software_update option \<Rightarrow> rendezvous_message option" where
  "from_software_update r = do {
     r \<leftarrow> r;
     url \<leftarrow> csu_url r;
     Some (Some (SoftwareUpdate \<lparr>su_url = url\<rparr>)) }"

definition from_request_relay :: "capnp_request_relay option \<Rightarrow> rendezvous_message option" where
  "from_request_relay r = do {
     r \<leftarrow> r;
     id' \<leftarrow> crr_id r;
     uuid \<leftarrow> crr_uuid r;
     socket_addr \<leftarrow> crr_socket_addr r;
     relay_server \<leftarrow> crr_relay_server r;
     licence_key \<leftarrow> crr_licence_key r;
     conn_type \<leftarrow> crr_conn_type r;
     token \<leftarrow> crr_token r;
     Some (Some (RequestRelay \<lparr>rr_id = id',
       rr_uuid = uuid,
       rr_socket_addr = socket_addr,
       rr_relay_server = relay_server,
       rr_secure = crr_secure r,
       rr_licence_key = licence_key,
       rr_conn_type = Known (capnp_conn_type conn_type),
       rr_token = token,
       rr_control_permissions = None\<rparr>)) }"

definition from_relay_response :: "capnp_relay_response option \<Rightarrow> rendezvous_message option" where
  "from_relay_response r = do {
     r \<leftarrow> r;
     socket_addr \<leftarrow> crres_socket_addr r;
     uuid \<leftarrow> crres_uuid r;
     relay_server \<leftarrow> crres_relay_server r;
     id' \<leftarrow> crres_id r;
     pk \<leftarrow> crres_pk r;
     refuse_reason \<leftarrow> crres_refuse_reason r;
     version \<leftarrow> crres_version r;
     socket_addr_v6 \<leftarrow> crres_socket_addr_v6 r;
     Some (Some (RelayResponse \<lparr>rres_socket_addr = socket_addr,
       rres_uuid = uuid,
       rres_relay_server = relay_server,
       rres_union = Some (if pk \<noteq> [] then UnionPk pk else UnionId id'),
       rres_refuse_reason = refuse_reason,
       rres_version = version,
       rres_feedback = crres_feedback r,
       rres_socket_addr_v6 = socket_addr_v6,
       rres_upnp_port = crres_upnp_port r\<rparr>)) }"

definition from_test_nat_request :: "capnp_test_nat_request option \<Rightarrow> rendezvous_message option" where
  "from_test_nat_request r = do {
     r \<leftarrow> r;
     Some (Some (TestNatRequest \<lparr>tnq_serial = ctnq_serial r\<rparr>)) }"

definition from_test_nat_response :: "capnp_test_nat_response option \<Rightarrow> rendezvous_message option" where
  "from_test_nat_response r = do {
     r \<leftarrow> r;
     rendezvous_servers \<leftarrow> ctnr_rendezvous_servers r;
     Some (Some (TestNatResponse \<lparr>tnr_port = ctnr_port r,
       tnr_cu = Some \<lparr>cu_serial = ctnr_config_serial r,
                     cu_rendezvous_servers = List.map_filter id rendezvous_servers\<rparr>\<rparr>)) }"

definition from_peer_discovery :: "capnp_peer_discovery option \<Rightarrow> rendezvous_message option" where
  "from_peer_discovery r = do {
     r \<leftarrow> r;
     cmd \<leftarrow> cpd_cmd r;
     mac \<leftarrow> cpd_mac r;
     id' \<leftarrow> cpd_id r;
     username \<leftarrow> cpd_username r;
     hostname \<leftarrow> cpd_hostname r;
     platform \<leftarrow> cpd_platform r;
     misc \<leftarrow> cpd_misc r;
     Some (Some (PeerDiscovery \<lparr>pd_cmd = cmd,
       pd_mac = mac,
       pd_id = id',
       pd_username = username,
       pd_hostname = hostname,
       pd_platform = platform,
       pd_misc = misc\<rparr>)) }"

definition from_online_request :: "capnp_online_request option \<Rightarrow> rendezvous_message option" where
  "from_online_request r = do {
     r \<leftarrow> r;
     id' \<leftarrow> conq_id r;
     peers \<leftarrow> conq_peers r;
     Some (Some (OnlineRequest \<lparr>onq_id = id',
       onq_peers = List.map_filter id peers\<rparr>)) }"

definition from_online_response :: "capnp_online_response option \<Rightarrow> rendezvous_message option" where
  "from_online_response r = do {
     r \<leftarrow> r;
     states \<leftarrow> conr_states r;
     Some (Some (OnlineResponse \<lparr>onr_states = states\<rparr>)) }"

definition from_key_exchange :: "capnp_key_exchange option \<Rightarrow> rendezvous_message option" where
  "from_key_exchange r = do {
     r \<leftarrow> r;
     keys \<leftarrow> cke_keys r;
     Some (Some (KeyExchange \<lparr>ke_keys = List.map_filter id keys\<rparr>)) }"

definition from_health_check :: "capnp_health_check option \<Rightarrow> rendezvous_message option" where
  "from_health_check r = do {
     r \<leftarrow> r;
     token \<leftarrow> chc_token r;
     Some (Some (Hc \<lparr>hc_token = token\<rparr>)) }"

text \<open>\<open>which()\<close> fails on a discriminant the schema does not have.\<close>

fun capnp_to_proto3 :: "capnp_which option \<Rightarrow> rendezvous_message option" where
  "capnp_to_proto3 None = None"
| "capnp_to_proto3 (Some (W_RegisterPeer r)) = from_register_peer r"
| "capnp_to_proto3 (Some (W_RegisterPeerResponse r)) = from_register_peer_response r"
| "capnp_to_proto3 (Some (W_PunchHoleRequest r)) = from_punch_hole_request r"
| "capnp_to_proto3 (Some (W_PunchHole r)) = from_punch_hole r"
| "capnp_to_proto3 (Some (W_PunchHoleSent r)) = from_punch_hole_sent r"
| "capnp_to_proto3 (Some (W_PunchHoleResponse r)) = from_punch_hole_response r"
| "capnp_to_proto3 (Some (W_FetchLocalAddr r)) = from_fetch_local_addr r"
| "capnp_to_proto3 (Some (W_LocalAddr r)) = from_local_addr r"
| "capnp_to_proto3 (Some (W_ConfigUpdate r)) = from_config_update r"
| "capnp_to_proto3 (Some (W_RegisterPk r)) = from_register_pk r"
| "capnp_to_proto3 (Some (W_RegisterPkResponse r)) = from_register_pk_response r"
| "capnp_to_proto3 (Some (W_SoftwareUpdate r)) = from_software_update r"
| "capnp_to_proto3 (Some (W_RequestRelay r)) = from_request_relay r"
| "capnp_to_proto3 (Some (W_RelayResponse r)) = from_relay_response r"
| "capnp_to_proto3 (Some (W_TestNatRequest r)) = from_test_nat_request r"
| "capnp_to_proto3 (Some (W_TestNatResponse r)) = from_test_nat_response r"
| "capnp_to_proto3 (Some (W_PeerDiscovery r)) = from_peer_discovery r"
| "capnp_to_proto3 (Some (W_OnlineRequest r)) = from_online_request r"
| "capnp_to_proto3 (Some (W_OnlineResponse r)) = from_online_response r"
| "capnp_to_proto3 (Some (W_KeyExchange r)) = from_key_exchange r"
| "capnp_to_proto3 (Some (W_HealthCheck r)) = from_health_check r"
| "capnp_to_proto3 (Some (W_HttpProxyRequest _)) = None"
| "capnp_to_proto3 (Some (W_HttpProxyResponse _)) = None"

section \<open>Proto3 to Cap'n Proto\<close>

text \<open>
  The accessors the protobuf crate generates for a \<open>oneof\<close> return the type's
  default when another variant, or none, is set.
\<close>

definition phres_get_nat_type :: "punch_hole_response \<Rightarrow> nat_type" where
  "phres_get_nat_type m =
     (case phres_union m of Some (NatType n) \<Rightarrow> enum_value_or UNKNOWN_NAT n | _ \<Rightarrow> UNKNOWN_NAT)"

definition phres_get_is_local :: "punch_hole_response \<Rightarrow> bool" where
  "phres_get_is_local m = (case phres_union m of Some (IsLocal b) \<Rightarrow> b | _ \<Rightarrow> False)"

definition init_register_peer_response :: "register_peer_response \<Rightarrow> capnp_register_peer_response" where
  "init_register_peer_response m = \<lparr>crpr_request_pk = rpr_request_pk m\<rparr>"

definition init_register_pk_response :: "register_pk_response \<Rightarrow> capnp_register_pk_response" where
  "init_register_pk_response m = \<lparr>crkr_result = Some (proto3_register_result (enum_value_or OK (rkr_result m))),
     crkr_keep_alive = rkr_keep_alive m\<rparr>"

definition init_punch_hole_response :: "punch_hole_response \<Rightarrow> capnp_punch_hole_response" where
  "init_punch_hole_response m = \<lparr>cphres_socket_addr = Some (phres_socket_addr m),
     cphres_pk = Some (phres_pk m),
     cphres_failure = Some (proto3_punch_failure (enum_value_or ID_NOT_EXIST (phres_failure m))),
     cphres_relay_server = Some (phres_relay_server m),
     cphres_nat_type = Some (proto3_nat_type (phres_get_nat_type m)),
     cphres_is_local = phres_get_is_local m,
     cphres_other_failure = Some (phres_other_failure m),
     cphres_feedback = phres_feedback m,
     cphres_is_udp = phres_is_udp m,
     cphres_upnp_port = phres_upnp_port m,
     cphres_socket_addr_v6 = Some (phres_socket_addr_v6 m)\<rparr>"

definition init_punch_hole :: "punch_hole \<Rightarrow> capnp_punch_hole" where
  "init_punch_hole m = \<lparr>cph_socket_addr = Some (ph_socket_addr m),
     cph_relay_server = Some (ph_relay_server m),
     cph_nat_type = Some (proto3_nat_type (enum_value_or UNKNOWN_NAT (ph_nat_type m))),
     cph_udp_port = ph_udp_port m,
     cph_force_relay = ph_force_relay m,
     cph_upnp_port = ph_upnp_port m,
     cph_socket_addr_v6 = Some (ph_socket_addr_v6 m)\<rparr>"

definition init_config_update :: "config_update \<Rightarrow> capnp_config_update" where
  "init_config_update m = \<lparr>ccu_serial = cu_serial m,
     ccu_rendezvous_servers = Some (map Some (cu_rendezvous_servers m))\<rparr>"

definition init_test_nat_response :: "test_nat_response \<Rightarrow> capnp_test_nat_response" where
  "init_test_nat_response m = \<lparr>ctnr_port = tnr_port m,
     ctnr_config_serial = (case tnr_cu m of Some cu \<Rightarrow> cu_serial cu | None \<Rightarrow> 0),
     ctnr_rendezvous_servers = Some (case tnr_cu m of Some cu \<Rightarrow> map Some (cu_rendezvous_servers cu) | None \<Rightarrow> [])\<rparr>"

definition init_online_response :: "online_response \<Rightarrow> capnp_online_response" where
  "init_online_response m = \<lparr>conr_states = Some (onr_states m)\<rparr>"

definition init_relay_response :: "relay_response \<Rightarrow> capnp_relay_response" where
  "init_relay_response m = \<lparr>crres_socket_addr = Some (rres_socket_addr m),
     crres_uuid = Some (rres_uuid m),
     crres_relay_server = Some (rres_relay_server m),
     crres_id = Some (case rres_union m of Some (UnionId i) \<Rightarrow> i | _ \<Rightarrow> []),
     crres_pk = Some (case rres_union m of Some (UnionPk k) \<Rightarrow> k | _ \<Rightarrow> []),
     crres_refuse_reason = Some (rres_refuse_reason m),
     crres_version = Some (rres_version m),
     crres_feedback = rres_feedback m,
     crres_socket_addr_v6 = Some (rres_socket_addr_v6 m),
     crres_upnp_port = rres_upnp_port m\<rparr>"

definition init_local_addr :: "local_addr \<Rightarrow> capnp_local_addr" where
  "init_local_addr m = \<lparr>cla_socket_addr = Some (la_socket_addr m),
     cla_local_addr = Some (la_local_addr m),
     cla_relay_server = Some (la_relay_server m),
     cla_id = Some (la_id m),
     cla_version = Some (la_version m),
     cla_socket_addr_v6 = Some (la_socket_addr_v6 m)\<rparr>"

definition init_software_update :: "software_update \<Rightarrow> capnp_software_update" where
  "init_software_update m = \<lparr>csu_url = Some (su_url m)\<rparr>"

definition init_peer_discovery :: "peer_discovery \<Rightarrow> capnp_peer_discovery" where
  "init_peer_discovery m = \<lparr>cpd_cmd = Some (pd_cmd m),
     cpd_mac = Some (pd_mac m),
     cpd_id = Some (pd_id m),
     cpd_username = Some (pd_username m),
     cpd_hostname = Some (pd_hostname m),
     cpd_platform = Some (pd_platform m),
     cpd_misc = Some (pd_misc m)\<rparr>"

fun to_capnp_msg :: "rendezvous_message \<Rightarrow> capnp_which option" where
  "to_capnp_msg None = None"
| "to_capnp_msg (Some (RegisterPeerResponse m)) = Some (W_RegisterPeerResponse (Some (init_register_peer_response m)))"
| "to_capnp_msg (Some (RegisterPkResponse m)) = Some (W_RegisterPkResponse (Some (init_register_pk_response m)))"
| "to_capnp_msg (Some (PunchHoleResponse m)) = Some (W_PunchHoleResponse (Some (init_punch_hole_response m)))"
| "to_capnp_msg (Some (PunchHole m)) = Some (W_PunchHole (Some (init_punch_hole m)))"
| "to_capnp_msg (Some (ConfigureUpdate m)) = Some (W_ConfigUpdate (Some (init_config_update m)))"
| "to_capnp_msg (Some (TestNatResponse m)) = Some (W_TestNatResponse (Some (init_test_nat_response m)))"
| "to_capnp_msg (Some (OnlineResponse m)) = Some (W_OnlineResponse (Some (init_online_response m)))"
| "to_capnp_msg (Some (RelayResponse m)) = Some (W_RelayResponse (Some (init_relay_response m)))"
| "to_capnp_msg (Some (LocalAddr m)) = Some (W_LocalAddr (Some (init_local_addr m)))"
| "to_capnp_msg (Some (SoftwareUpdate m)) = Some (W_SoftwareUpdate (Some (init_software_update m)))"
| "to_capnp_msg (Some (PeerDiscovery m)) = Some (W_PeerDiscovery (Some (init_peer_discovery m)))"
| "to_capnp_msg (Some _) = None"

section \<open>Protocol detection\<close>

datatype protocol = Proto3 | Capnp

definition detect :: "bytes \<Rightarrow> protocol" where
  "detect bs = (case bs of b # _ \<Rightarrow> if b = 0 then Capnp else Proto3 | [] \<Rightarrow> Proto3)"

type_synonym proto3_reader = "bytes \<Rightarrow> rendezvous_message option"
type_synonym proto3_writer = "rendezvous_message \<Rightarrow> bytes option"
type_synonym capnp_reader = "bytes \<Rightarrow> capnp_which option option"
type_synonym capnp_writer = "capnp_which \<Rightarrow> bytes option"

text \<open>
  The two protocol libraries: \<open>parse_from_bytes\<close> and \<open>write_to_bytes\<close> of
  protobuf, and \<open>read_message\<close> with \<open>get_root\<close> and \<open>write_message\<close> of capnp.
\<close>

record wire =
  w_parse_from_bytes :: proto3_reader
  w_write_to_bytes :: proto3_writer
  w_read_message :: capnp_reader
  w_write_message :: capnp_writer

definition from_capnp :: "wire \<Rightarrow> bytes \<Rightarrow> rendezvous_message option" where
  "from_capnp w bs = do { which \<leftarrow> w_read_message w bs; capnp_to_proto3 which }"

definition to_capnp :: "wire \<Rightarrow> rendezvous_message \<Rightarrow> bytes option" where
  "to_capnp w msg = do { c \<leftarrow> to_capnp_msg msg; w_write_message w c }"

definition parse_msg :: "wire \<Rightarrow> bytes \<Rightarrow> rendezvous_message option" where
  "parse_msg w bs = (case detect bs of Proto3 \<Rightarrow> w_parse_from_bytes w bs | Capnp \<Rightarrow> from_capnp w bs)"

definition serialize_msg :: "wire \<Rightarrow> rendezvous_message \<Rightarrow> protocol \<Rightarrow> bytes option" where
  "serialize_msg w msg proto =
     (case proto of Proto3 \<Rightarrow> w_write_to_bytes w msg | Capnp \<Rightarrow> to_capnp w msg)"

section \<open>What a Cap'n Proto peer receives\<close>

text \<open>
  The message after a trip through Cap'n Proto: enum numbers the schema does
  not know become the default, a response without a NAT type says unknown,
  an absent configuration becomes an empty one, an empty key becomes an empty
  id, and the permissions of a punch-hole message are dropped.
\<close>

fun norm_enum :: "'e \<Rightarrow> 'e enum_or_unknown \<Rightarrow> 'e enum_or_unknown" where
  "norm_enum d e = Known (enum_value_or d e)"

fun norm_phres_union :: "punch_hole_response_union option \<Rightarrow> punch_hole_response_union option" where
  "norm_phres_union (Some (IsLocal True)) = Some (IsLocal True)"
| "norm_phres_union (Some (NatType n)) = Some (NatType (norm_enum UNKNOWN_NAT n))"
| "norm_phres_union _ = Some (NatType (Known UNKNOWN_NAT))"

fun norm_rres_union :: "relay_response_union option \<Rightarrow> relay_response_union option" where
  "norm_rres_union (Some (UnionPk k)) = Some (if k = [] then UnionId [] else UnionPk k)"
| "norm_rres_union (Some (UnionId i)) = Some (UnionId i)"
| "norm_rres_union None = Some (UnionId [])"

definition empty_config :: config_update where
  "empty_config = \<lparr>cu_serial = 0, cu_rendezvous_servers = []\<rparr>"

fun capnp_norm :: "rendezvous_union \<Rightarrow> rendezvous_union option" where
  "capnp_norm (RegisterPeerResponse m) = Some (RegisterPeerResponse m)"
| "capnp_norm (RegisterPkResponse m) =
     Some (RegisterPkResponse (m\<lparr>rkr_result := norm_enum OK (rkr_result m)\<rparr>))"
| "capnp_norm (PunchHoleResponse m) =
     Some (PunchHoleResponse (m\<lparr>phres_failure := norm_enum ID_NOT_EXIST (phres_failure m),
                                phres_union := norm_phres_union (phres_union m)\<rparr>))"
| "capnp_norm (PunchHole m) =
     Some (PunchHole (m\<lparr>ph_nat_type := norm_enum UNKNOWN_NAT (ph_nat_type m),
                        ph_control_permissions := None\<rparr>))"
| "capnp_norm (ConfigureUpdate m) = Some (ConfigureUpdate m)"
| "capnp_norm (TestNatResponse m) =
     Some (TestNatResponse (m\<lparr>tnr_cu := Some (case tnr_cu m of Some c \<Rightarrow> c | None \<Rightarrow> empty_config)\<rparr>))"
| "capnp_norm (OnlineResponse m) = Some (OnlineResponse m)"
| "capnp_norm (RelayResponse m) = Some (RelayResponse (m\<lparr>rres_union := norm_rres_union (rres_union m)\<rparr>))"
| "capnp_norm (LocalAddr m) = Some (LocalAddr m)"
| "capnp_norm (SoftwareUpdate m) = Some (SoftwareUpdate m)"
| "capnp_norm (PeerDiscovery m) = Some (PeerDiscovery m)"
| "capnp_norm _ = None"

lemma capnp_proto3_nat_type [simp]: "capnp_nat_type (proto3_nat_type n) = n"
  by (cases n) auto

lemma capnp_proto3_register_result [simp]: "capnp_register_result (proto3_register_result r) = r"
  by (cases r) auto

lemma capnp_proto3_punch_failure [simp]: "capnp_punch_failure (proto3_punch_failure f) = f"
  by (cases f) auto

lemma map_filter_id_map_Some [simp]: "List.map_filter id (map Some xs) = xs"
  by (induction xs) (auto simp: List.map_filter_simps)

lemmas plain_trip_defs =
  init_register_peer_response_def init_register_pk_response_def init_punch_hole_def
  init_config_update_def init_online_response_def init_local_addr_def init_software_update_def
  init_peer_discovery_def
  from_register_peer_response_def from_register_pk_response_def from_punch_hole_def
  from_config_update_def from_online_response_def from_local_addr_def from_software_update_def
  from_peer_discovery_def

text \<open>The union of a punch-hole response, as the reader rebuilds it.\<close>

lemma phres_union_trip:
  "(if phres_get_is_local m then Some (IsLocal True)
    else Some (NatType (Known (phres_get_nat_type m)))) = norm_phres_union (phres_union m)"
  by (cases "phres_union m" rule: norm_phres_union.cases)
     (auto simp: phres_get_is_local_def phres_get_nat_type_def)

lemma punch_hole_response_trip:
  "from_punch_hole_response (Some (init_punch_hole_response m)) =
     Some (capnp_norm (PunchHoleResponse m))"
  using phres_union_trip [of m]
  by (cases m) (auto simp: init_punch_hole_response_def from_punch_hole_response_def split: if_splits)

lemma relay_response_trip:
  "from_relay_response (Some (init_relay_response m)) = Some (capnp_norm (RelayResponse m))"
  by (cases m) (auto simp: init_relay_response_def from_relay_response_def
      split: option.splits relay_response_union.splits)

lemma test_nat_response_trip:
  "from_test_nat_response (Some (init_test_nat_response m)) = Some (capnp_norm (TestNatResponse m))"
  by (cases m)
     (auto simp: init_test_nat_response_def from_test_nat_response_def empty_config_def
       List.map_filter_simps split: option.splits)

text \<open>A supported message survives the conversion up to \<open>capnp_norm\<close>; no other is converted.\<close>

lemma capnp_message_trip:
  "(case to_capnp_msg (Some u) of Some c \<Rightarrow> capnp_to_proto3 (Some c) | None \<Rightarrow> None) =
   map_option Some (capnp_norm u)"
  by (cases u)
     (auto simp: plain_trip_defs punch_hole_response_trip relay_response_trip test_nat_response_trip)

lemma to_capnp_msg_supported: "to_capnp_msg (Some u) = None \<longleftrightarrow> capnp_norm u = None"
  by (cases u) auto

section \<open>Properties\<close>



text \<open>
  Exactly eleven of the twenty-three variants can be sent to a Cap'n Proto
  peer.  In particular \<open>FetchLocalAddr\<close> and \<open>RequestRelay\<close>, which the server
  forwards to peers, cannot: \<open>serialize\<close> gives None for them whatever the
  library does.
\<close>

theorem capnp_unsupported:
  "serialize_msg w (Some (FetchLocalAddr fla)) Capnp = None \<and>
   serialize_msg w (Some (RequestRelay rr)) Capnp = None \<and>
   (to_capnp_msg (Some u) \<noteq> None \<longleftrightarrow>
     (case u of RegisterPeerResponse _ \<Rightarrow> True | RegisterPkResponse _ \<Rightarrow> True
      | PunchHoleResponse _ \<Rightarrow> True | PunchHole _ \<Rightarrow> True | ConfigureUpdate _ \<Rightarrow> True
      | TestNatResponse _ \<Rightarrow> True | OnlineResponse _ \<Rightarrow> True | RelayResponse _ \<Rightarrow> True
      | LocalAddr _ \<Rightarrow> True | SoftwareUpdate _ \<Rightarrow> True | PeerDiscovery _ \<Rightarrow> True
      | _ \<Rightarrow> False))"
  by (cases u) (auto simp: serialize_msg_def to_capnp_def)

end
