(* ===== verification/Common.thy ===== *)
theory Common
  imports Addr_Mangle
begin

text \<open>
  The helpers of \<open>src/common.rs\<close> and of \<open>libs/core-common/src/lib.rs\<close> the servers
  share: configuration precedence, server lists, expired instants, version
  numbers and peer ids, and the text form of an IP address.
\<close>

section \<open>IP addresses as text\<close>

definition show_ipv4 :: "ipv4_addr \<Rightarrow> string" where
  "show_ipv4 a = join_with ''.'' (map (\<lambda>b. show_nat (unat b)) (octets4 a))"

definition hex_digit :: "nat \<Rightarrow> char" where
  "hex_digit d = (if d < 10 then char_of (48 + d) else char_of (87 + d))"

fun show_hex :: "nat \<Rightarrow> string" where
  "show_hex n = (if n < 16 then [hex_digit n] else show_hex (n div 16) @ [hex_digit (n mod 16)])"

declare show_hex.simps [simp del]

fun segments6 :: "ipv6_addr \<Rightarrow> nat list" where
  "segments6 (Ipv6Addr w) = map (\<lambda>i. unat (ucast (drop_bit (16 * (7 - i)) w) :: u16)) [0 ..< 8]"

text \<open>The longest run of zero segments, the first one when several are equally long.\<close>

fun zero_span :: "nat \<Rightarrow> nat list \<Rightarrow> nat \<times> nat \<Rightarrow> nat \<times> nat \<Rightarrow> nat \<times> nat" where
  "zero_span i [] current longest = longest"
| "zero_span i (s # ss) (cs, cl) longest =
     (if s = 0 then
        let current = (if cl = 0 then (i, 1) else (cs, cl + 1))
        in zero_span (i + 1) ss current (if snd current > snd longest then current else longest)
      else zero_span (i + 1) ss (0, 0) longest)"

definition show_segments :: "nat list \<Rightarrow> string" where
  "show_segments ss = join_with '':'' (map show_hex ss)"

fun show_ipv6 :: "ipv6_addr \<Rightarrow> string" where
  "show_ipv6 (Ipv6Addr w) =
     (if drop_bit 32 w = 0xFFFF
      then ''::ffff:'' @ show_ipv4 (Ipv4Addr (ucast (drop_bit 24 w)) (ucast (drop_bit 16 w))
             (ucast (drop_bit 8 w)) (ucast w))
      else
        let ss = segments6 (Ipv6Addr w);
            (start, len) = zero_span 0 ss (0, 0) (0, 0)
        in if len > 1 then show_segments (take start ss) @ ''::'' @ show_segments (drop (start + len) ss)
           else show_segments ss)"

fun show_ip :: "ip_addr \<Rightarrow> string" where
  "show_ip (IpV4 a) = show_ipv4 a"
| "show_ip (IpV6 a) = show_ipv6 a"

section \<open>Time\<close>

text \<open>An instant before the clock's origin does not exist: \<open>checked_sub\<close> fails there.\<close>

definition get_expired_time :: "instant \<Rightarrow> instant" where
  "get_expired_time now = (if 3600 * nanos_per_sec \<le> now then now - 3600 * nanos_per_sec else now)"

section \<open>Configuration\<close>

text \<open>
  \<open>resolves\<close> stands for \<open>to_socket_addrs\<close> giving at least one address; the
  default port 0 is added to a host without a colon.
\<close>

definition test_if_valid_server :: "(string \<Rightarrow> bool) \<Rightarrow> string \<Rightarrow> bool" where
  "test_if_valid_server resolves host =
     (if CHR '':'' \<in> set host then resolves host else resolves (host @ '':0''))"

definition get_servers :: "(string \<Rightarrow> bool) \<Rightarrow> string \<Rightarrow> string list" where
  "get_servers resolves s =
     filter (\<lambda>x. x \<noteq> [] \<and> test_if_valid_server resolves x) (split_on CHR '','' s)"

definition to_uppercase :: "string \<Rightarrow> string" where
  "to_uppercase s =
     map (\<lambda>c. if 97 \<le> (of_char c :: nat) \<and> (of_char c :: nat) \<le> 122
              then char_of ((of_char c :: nat) - 32) else c) s"

definition arg_name :: "string \<Rightarrow> string" where
  "arg_name name = map (\<lambda>c. if c = CHR ''_'' then CHR ''-'' else c) (to_uppercase name)"

type_synonym environ = "string \<rightharpoonup> string"

definition set_args :: "(string \<times> string) list \<Rightarrow> environ \<Rightarrow> environ" where
  "set_args kvs env = fold (\<lambda>(k, v) e. e(arg_name k \<mapsto> v)) kvs env"

text \<open>
  The three sources in the order they are read: the default section of \<open>.env\<close>,
  that of the configuration file, and the first value of each command-line
  argument.  A file that cannot be read is None.
\<close>

definition init_args ::
  "(string \<times> string) list option \<Rightarrow> (string \<times> string) list option \<Rightarrow> (string \<times> string list) list \<Rightarrow>
   environ \<Rightarrow> environ" where
  "init_args dot_env config_file args env =
     (let env1 = (case dot_env of Some kvs \<Rightarrow> set_args kvs env | None \<Rightarrow> env);
          env2 = (case config_file of Some kvs \<Rightarrow> set_args kvs env1 | None \<Rightarrow> env1)
      in set_args (List.map_filter (\<lambda>(k, vs). case vs of v # _ \<Rightarrow> Some (k, v) | [] \<Rightarrow> None) args) env2)"

definition get_arg_or :: "environ \<Rightarrow> string \<Rightarrow> string \<Rightarrow> string" where
  "get_arg_or env name dflt = (case env (arg_name name) of Some v \<Rightarrow> v | None \<Rightarrow> dflt)"

definition get_arg :: "environ \<Rightarrow> string \<Rightarrow> string" where
  "get_arg env name = get_arg_or env name []"

section \<open>Versions and ids\<close>

definition parse_i64_or_0 :: "string \<Rightarrow> int" where
  "parse_i64_or_0 s = (case parse_signed i64_max s of Some n \<Rightarrow> n | None \<Rightarrow> 0)"

text \<open>Arithmetic in \<open>i64\<close> wraps around.\<close>

definition wrap64 :: "int \<Rightarrow> int" where
  "wrap64 n = signed_take_bit 63 n"

text \<open>The loop over the dotted parts keeps the sum and the last part.\<close>

definition version_parts :: "string \<Rightarrow> int \<times> int" where
  "version_parts v =
     fold (\<lambda>x (n, last). (wrap64 (n * 1000 + parse_i64_or_0 x), parse_i64_or_0 x))
       (split_on CHR ''.'' v) (0, 0)"

definition get_version_number :: "string \<Rightarrow> int" where
  "get_version_number v =
     (case split_on CHR ''-'' v of
        [] \<Rightarrow> 0
      | first # rest \<Rightarrow>
          let (n, last) = version_parts first;
              n = wrap64 (n - last + last * 10)
          in (case rest of p # _ \<Rightarrow> wrap64 (n + parse_i64_or_0 p) | [] \<Rightarrow> n))"

fun position :: "('a \<Rightarrow> bool) \<Rightarrow> 'a list \<Rightarrow> nat option" where
  "position P [] = None"
| "position P (x # xs) = (if P x then Some 0 else map_option Suc (position P xs))"

definition get_version_from_url :: "string \<Rightarrow> string" where
  "get_version_from_url url =
     (let n = length url in
      case position (\<lambda>x. x = CHR ''-'') (rev url) of
        Some a \<Rightarrow>
          (case position (\<lambda>x. x = CHR ''.'') (rev url) of
             Some b \<Rightarrow>
               if a > b then
                 if parse_signed i32_max (drop (n - b) url) \<noteq> None then drop (n - a) url
                 else take (a - b - 1) (drop (n - a) url)
               else drop (n - a) url
           | None \<Rightarrow> [])
      | None \<Rightarrow> [])"

definition is_alpha :: "char \<Rightarrow> bool" where
  "is_alpha c \<longleftrightarrow> is_upper c \<or> (97 \<le> (of_char c :: nat) \<and> (of_char c :: nat) \<le> 122)"

text \<open>The regular expression \<open>^[a-zA-Z][\w-]{5,15}$\<close>, with \<open>\w\<close> on ASCII.\<close>

definition is_valid_custom_id :: "string \<Rightarrow> bool" where
  "is_valid_custom_id s =
     (case s of [] \<Rightarrow> False
      | c # cs \<Rightarrow> is_alpha c \<and> 5 \<le> length cs \<and> length cs \<le> 15 \<and>
          (\<forall>x \<in> set cs. is_alpha x \<or> is_digit x \<or> x = CHR ''_'' \<or> x = CHR ''-''))"

definition time_based_rand :: "nat \<Rightarrow> u32" where
  "time_based_rand nanos =
     (let x = of_nat nanos :: u64;
          x = x XOR push_bit 13 x;
          x = x XOR drop_bit 7 x;
          x = x XOR push_bit 17 x
      in ucast (x mod 32768))"

text \<open>The decision of \<open>check_software_update_\<close>: is the release named by the URL newer?\<close>

definition newer_release :: "string \<Rightarrow> string \<Rightarrow> bool" where
  "newer_release response_url version =
     (get_version_number (last (split_on CHR ''/'' response_url)) > get_version_number version)"

section \<open>Version numbers\<close>

lemma wrap64_small: "- (2 ^ 63) \<le> n \<Longrightarrow> n < 2 ^ 63 \<Longrightarrow> wrap64 n = n"
  by (simp add: wrap64_def signed_take_bit_int_eq_self)

lemma show_nat_no_sep: "\<not> is_digit c \<Longrightarrow> c \<notin> set (show_nat n)"
  using set_show_nat by blast

lemma parse_signed_show_nat: "n \<le> hi \<Longrightarrow> parse_signed hi (show_nat n) = Some (int n)"
proof -
  assume n: "n \<le> hi"
  obtain c cs where s: "show_nat n = c # cs" by (cases "show_nat n") auto
  then have "c \<noteq> CHR ''-''" using set_show_nat [of c n] by (auto simp: is_digit_def)
  then show ?thesis
    using s n parse_unsigned_show_nat [of hi n] by (simp add: parse_signed_def)
qed

lemma parse_i64_show_nat: "n \<le> i64_max \<Longrightarrow> parse_i64_or_0 (show_nat n) = int n"
  by (simp add: parse_i64_or_0_def parse_signed_show_nat)

text \<open>The text of a three-part version.\<close>

definition version_text :: "nat \<Rightarrow> nat \<Rightarrow> nat \<Rightarrow> string" where
  "version_text a b c = show_nat a @ ''.'' @ show_nat b @ ''.'' @ show_nat c"

lemma get_version_number_text:
  assumes "a < 1000000000" "b < 1000000" "c < 1000000"
  shows "get_version_number (version_text a b c) = int a * 1000000 + int b * 1000 + int c * 10"
proof -
  have "CHR ''-'' \<notin> set (version_text a b c)" and dots: "CHR ''.'' \<notin> set (show_nat n)" for n
    using show_nat_no_sep by (auto simp: version_text_def is_digit_def)
  moreover have "split_on CHR ''.'' (version_text a b c) = [show_nat a, show_nat b, show_nat c]"
    using dots by (simp add: version_text_def)
  moreover have "parse_i64_or_0 (show_nat a) = int a" "parse_i64_or_0 (show_nat b) = int b"
    "parse_i64_or_0 (show_nat c) = int c"
    using assms by (simp_all add: parse_i64_show_nat i64_max_def)
  ultimately show ?thesis
    using assms by (simp add: get_version_number_def version_parts_def wrap64_small)
qed

section \<open>Properties\<close>

text \<open>
  Version numbers order releases: for parts in the ranges the encoding leaves
  room for, comparing \<open>get_version_number\<close> is the lexicographic comparison of
  major, minor and patch.
\<close>

theorem version_number_order:
  assumes "a < 1000000000" "a' < 1000000000" "b < 1000" "b' < 1000" "c < 100" "c' < 100"
  shows "get_version_number (version_text a b c) < get_version_number (version_text a' b' c') \<longleftrightarrow>
         a < a' \<or> a = a' \<and> (b < b' \<or> b = b' \<and> c < c')"
  using assms by (auto simp: get_version_number_text)

theorem version_number_order_witness:
  "get_version_number (version_text 1 1 9) < get_version_number (version_text 1 1 10)"
  by (subst version_number_order) simp_all

text \<open>
  Outside that range the order breaks: a last part of 100 is worth as much as
  the next minor release, so \<open>1.1.100\<close> is not older than \<open>1.2.0\<close> and \<open>1.1.101\<close>
  counts as newer.
\<close>

theorem version_number_collision:
  "get_version_number (version_text 1 1 100) = get_version_number (version_text 1 2 0) \<and>
   get_version_number (version_text 1 1 101) > get_version_number (version_text 1 2 0)"
  by (simp add: get_version_number_text)

end
