(* ===== verification/Sql_Table.thy ===== *)
theory Sql_Table
  imports Nat_Prelude
begin

text \<open>
  SQL tables as the program uses them: \<open>update ... where\<close>, \<open>delete ... where\<close>,
  \<open>count(*)\<close>, \<open>order by ... desc\<close> and \<open>integer primary key autoincrement\<close>, with
  the contract of an autoincrement key as the locale \<open>auto_table\<close>.  Where SQLite
  leaves the order of equal sort keys open, \<open>order_desc\<close> keeps the row order.
\<close>

section \<open>Rows\<close>

text \<open>
  A table is the list of its rows.  A table with an \<open>autoincrement\<close> key also
  remembers the largest key it ever gave out.
\<close>

definition update_where :: "('r \<Rightarrow> bool) \<Rightarrow> ('r \<Rightarrow> 'r) \<Rightarrow> 'r list \<Rightarrow> 'r list" where
  "update_where P f rs = map (\<lambda>r. if P r then f r else r) rs"

definition delete_where :: "('r \<Rightarrow> bool) \<Rightarrow> 'r list \<Rightarrow> 'r list" where
  "delete_where P rs = filter (\<lambda>r. \<not> P r) rs"

definition count_where :: "('r \<Rightarrow> bool) \<Rightarrow> 'r list \<Rightarrow> int" where
  "count_where P rs = int (length (filter P rs))"

fun insert_desc :: "('r \<Rightarrow> string) \<Rightarrow> 'r \<Rightarrow> 'r list \<Rightarrow> 'r list" where
  "insert_desc key r [] = [r]"
| "insert_desc key r (x # xs) =
     (if str_less (key r) (key x) then x # insert_desc key r xs else r # x # xs)"

definition order_desc :: "('r \<Rightarrow> string) \<Rightarrow> 'r list \<Rightarrow> 'r list" where
  "order_desc key rs = foldr (insert_desc key) rs []"

record 'r tbl =
  rows :: "'r list"
  seq :: int

definition tbl_empty :: "'r tbl" where
  "tbl_empty = \<lparr>rows = [], seq = 0\<rparr>"

definition tbl_insert :: "(int \<Rightarrow> 'r \<Rightarrow> 'r) \<Rightarrow> 'r \<Rightarrow> 'r tbl \<Rightarrow> 'r tbl" where
  "tbl_insert setk r t = \<lparr>rows = rows t @ [setk (seq t + 1) r], seq = seq t + 1\<rparr>"

definition tbl_update :: "('r \<Rightarrow> bool) \<Rightarrow> ('r \<Rightarrow> 'r) \<Rightarrow> 'r tbl \<Rightarrow> 'r tbl" where
  "tbl_update P f t = t\<lparr>rows := update_where P f (rows t)\<rparr>"

definition tbl_delete :: "('r \<Rightarrow> bool) \<Rightarrow> 'r tbl \<Rightarrow> 'r tbl" where
  "tbl_delete P t = t\<lparr>rows := delete_where P (rows t)\<rparr>"

definition tbl_ok :: "('r \<Rightarrow> int) \<Rightarrow> 'r tbl \<Rightarrow> bool" where
  "tbl_ok key t \<longleftrightarrow> distinct (map key (rows t)) \<and> (\<forall>r \<in> set (rows t). 0 < key r \<and> key r \<le> seq t) \<and> 0 \<le> seq t"

lemma find_append:
  "find P (xs @ ys) = (case find P xs of Some x \<Rightarrow> Some x | None \<Rightarrow> find P ys)"
  by (induction xs) auto

lemma find_SomeD: "find P xs = Some x \<Longrightarrow> x \<in> set xs \<and> P x"
  by (induction xs) (auto split: if_splits)

lemma find_exists: "x \<in> set xs \<Longrightarrow> P x \<Longrightarrow> \<exists>y. find P xs = Some y"
  by (induction xs) auto

lemma set_update_where: "set (update_where P f rs) = (\<lambda>r. if P r then f r else r) ` set rs"
  by (simp add: update_where_def)

lemma map_update_where:
  "(\<And>r. r \<in> set rs \<Longrightarrow> P r \<Longrightarrow> key (f r) = key r) \<Longrightarrow> map key (update_where P f rs) = map key rs"
  by (auto simp: update_where_def)

lemma set_delete_where [simp]: "set (delete_where P rs) = {r \<in> set rs. \<not> P r}"
  by (auto simp: delete_where_def)

lemma set_insert_desc [simp]: "set (insert_desc key r xs) = insert r (set xs)"
  by (induction xs) auto

lemma set_order_desc [simp]: "set (order_desc key rs) = set rs"
  by (induction rs) (auto simp: order_desc_def)

lemma length_insert_desc [simp]: "length (insert_desc key r xs) = Suc (length xs)"
  by (induction xs) auto

lemma length_order_desc [simp]: "length (order_desc key rs) = length rs"
  by (induction rs) (auto simp: order_desc_def)

lemma count_where_nonneg [simp]: "0 \<le> count_where P rs"
  by (simp add: count_where_def)

lemma count_where_pos: "0 < count_where P rs \<longleftrightarrow> (\<exists>r \<in> set rs. P r)"
  by (auto simp: count_where_def filter_empty_conv)

lemma count_where_append [simp]: "count_where P (xs @ ys) = count_where P xs + count_where P ys"
  by (simp add: count_where_def)

lemma count_where_Cons [simp]: "count_where P (x # xs) = of_bool (P x) + count_where P xs"
  by (simp add: count_where_def)

lemma count_where_Nil [simp]: "count_where P [] = 0"
  by (simp add: count_where_def)

lemma count_where_update:
  "(\<And>r. r \<in> set rs \<Longrightarrow> P r \<Longrightarrow> Q (f r) = Q r) \<Longrightarrow> count_where Q (update_where P f rs) = count_where Q rs"
  by (induction rs) (auto simp: update_where_def)

text \<open>
  The contract of an autoincrement table: a key column that can be written, so
  that inserting, updating other columns and deleting keep the keys distinct
  and below the sequence number, and an inserted row is found under its key.
\<close>

locale auto_table =
  fixes key :: "'r \<Rightarrow> int"
    and setk :: "int \<Rightarrow> 'r \<Rightarrow> 'r"
  assumes key_setk: "key (setk k r) = k"
begin

lemma ok_empty: "tbl_ok key tbl_empty"
  by (simp add: tbl_ok_def tbl_empty_def)

lemma ok_insert: "tbl_ok key t \<Longrightarrow> tbl_ok key (tbl_insert setk r t)"
  by (force simp: tbl_ok_def tbl_insert_def key_setk)

lemma ok_update:
  assumes "tbl_ok key t" "\<And>r. r \<in> set (rows t) \<Longrightarrow> P r \<Longrightarrow> key (f r) = key r"
  shows "tbl_ok key (tbl_update P f t)"
  using assms map_update_where [of "rows t" P key f]
  by (auto simp: tbl_ok_def tbl_update_def set_update_where)

lemma ok_delete: "tbl_ok key t \<Longrightarrow> tbl_ok key (tbl_delete P t)"
  by (auto simp: tbl_ok_def tbl_delete_def delete_where_def distinct_map_filter)

lemma find_insert:
  assumes "tbl_ok key t"
  shows "find (\<lambda>r. key r = seq t + 1) (rows (tbl_insert setk r t)) = Some (setk (seq t + 1) r)"
proof -
  have "find (\<lambda>r. key r = seq t + 1) (rows t) = None"
    using assms by (force simp: tbl_ok_def find_None_iff)
  then show ?thesis by (simp add: tbl_insert_def find_append key_setk)
qed

lemma key_unique:
  "\<lbrakk>tbl_ok key t; r \<in> set (rows t); r' \<in> set (rows t); key r = key r'\<rbrakk> \<Longrightarrow> r = r'"
  by (auto simp: tbl_ok_def distinct_map inj_on_def)

lemma find_key:
  "\<lbrakk>tbl_ok key t; r \<in> set (rows t)\<rbrakk> \<Longrightarrow> find (\<lambda>x. key x = key r) (rows t) = Some r"
  by (metis (mono_tags, lifting) find_exists find_SomeD key_unique)

end

end
