(* ===== verification/Database.thy ===== *)
theory Database
  imports Sql_Table
begin

text \<open>
  The SQLite database of \<open>src/database.rs\<close> and \<open>src/database_simple.rs\<close>: one record
  per table row, one field of \<open>database\<close> per table, one definition per method.
  A method that writes returns the new database; the error of a violated
  constraint or an \<open>anyhow!\<close> is a value of \<open>db_error\<close>.  Losing the connection is
  not modelled.  Time stamps are the texts SQLite stores, so a comparison of
  two of them is the comparison of strings SQLite makes; \<open>now\<close> is the text of
  \<open>current_timestamp\<close> (equally of \<open>datetime('now')\<close>).
\<close>

section \<open>Rows\<close>

type_synonym i64 = int
type_synonym timestamp = string

record peer_row =
  pr_guid :: bytes
  pr_id :: string
  pr_uuid :: bytes
  pr_pk :: bytes
  pr_user :: "bytes option"
  pr_status :: "i64 option"
  pr_info :: string
  pr_created_at :: timestamp
  pr_user_id :: "i64 option"
  pr_device_id :: "i64 option"

record user =
  u_id :: i64
  u_username :: string
  u_email :: string
  u_password_hash :: string
  u_created_at :: timestamp
  u_updated_at :: timestamp
  u_is_active :: bool
  u_role :: string

record user_device =
  ud_id :: i64
  ud_user_id :: i64
  ud_device_id :: string
  ud_device_name :: "string option"
  ud_created_at :: timestamp
  ud_is_active :: bool

record reset_token =
  rt_id :: i64
  rt_user_id :: i64
  rt_token :: string
  rt_expires_at :: timestamp
  rt_created_at :: timestamp
  rt_is_used :: bool

text \<open>A price is in hundredths of the currency unit.\<close>

record subscription_plan =
  sp_id :: i64
  sp_name :: string
  sp_display_name :: string
  sp_device_limit :: i64
  sp_speed_limit_kbps :: i64
  sp_price_cents :: int
  sp_description :: string
  sp_is_active :: bool

record sub_row =
  us_id :: i64
  us_user_id :: i64
  us_plan_id :: i64
  us_started_at :: timestamp
  us_expires_at :: "timestamp option"
  us_is_active :: bool
  us_notes :: "string option"
  us_created_at :: timestamp
  us_updated_at :: timestamp

record order_row =
  o_id :: i64
  o_order_no :: string
  o_user_id :: i64
  o_plan_id :: i64
  o_amount :: string
  o_currency :: string
  o_payment_method :: string
  o_status :: string
  o_gateway_order_id :: "string option"
  o_gateway_qr :: "string option"
  o_stripe_checkout_url :: "string option"
  o_paid_at :: "timestamp option"
  o_created_at :: timestamp
  o_updated_at :: timestamp

record database =
  db_peer :: "peer_row list"
  db_users :: "user tbl"
  db_user_devices :: "user_device tbl"
  db_reset_tokens :: "reset_token tbl"
  db_plans :: "subscription_plan tbl"
  db_subscriptions :: "sub_row tbl"
  db_orders :: "order_row tbl"
  db_settings :: "(string \<times> string) list"

datatype db_error =
    UniqueViolation
  | ForeignKeyViolation
  | NoSuchColumn string
  | HashFailed
  | UserMissingOrDisabled
  | DeviceLimitReached i64
  | DeviceIdExists
  | OldPasswordWrong
  | UserNotFound
  | BadUdid
  | UdidPeerMismatch
  | PeerNotADevice

text \<open>The password hash of the \<open>bcrypt\<close> crate, which is not part of the sources.\<close>

record bcrypt =
  bc_hash :: "string \<Rightarrow> string option"
  bc_verify :: "string \<Rightarrow> string \<Rightarrow> bool option"

definition USER_ROLE_USER :: string where "USER_ROLE_USER = ''user''"
definition USER_ROLE_ADMIN :: string where "USER_ROLE_ADMIN = ''admin''"

abbreviation set_u_id :: "i64 \<Rightarrow> user \<Rightarrow> user" where "set_u_id k r \<equiv> r\<lparr>u_id := k\<rparr>"
abbreviation set_ud_id :: "i64 \<Rightarrow> user_device \<Rightarrow> user_device" where "set_ud_id k r \<equiv> r\<lparr>ud_id := k\<rparr>"
abbreviation set_rt_id :: "i64 \<Rightarrow> reset_token \<Rightarrow> reset_token" where "set_rt_id k r \<equiv> r\<lparr>rt_id := k\<rparr>"
abbreviation set_sp_id :: "i64 \<Rightarrow> subscription_plan \<Rightarrow> subscription_plan" where "set_sp_id k r \<equiv> r\<lparr>sp_id := k\<rparr>"
abbreviation set_us_id :: "i64 \<Rightarrow> sub_row \<Rightarrow> sub_row" where "set_us_id k r \<equiv> r\<lparr>us_id := k\<rparr>"
abbreviation set_o_id :: "i64 \<Rightarrow> order_row \<Rightarrow> order_row" where "set_o_id k r \<equiv> r\<lparr>o_id := k\<rparr>"

section \<open>Administrators\<close>

definition count_admins :: "database \<Rightarrow> i64" where
  "count_admins d = count_where (\<lambda>u. u_role u = ''admin'') (rows (db_users d))"

text \<open>\<open>min(id)\<close> of a table, NULL when it is empty: then no row matches.\<close>

definition min_user_id :: "database \<Rightarrow> i64 option" where
  "min_user_id d =
     (case map u_id (rows (db_users d)) of [] \<Rightarrow> None | k # ks \<Rightarrow> Some (fold min ks k))"

definition bootstrap_admin_if_none :: "string option \<Rightarrow> database \<Rightarrow> database" where
  "bootstrap_admin_if_none env d =
     (if count_admins d > 0 then d
      else if rows (db_users d) = [] then d
      else
        let by_name = (case env of
              Some name \<Rightarrow>
                if trim name \<noteq> [] then
                  (count_where (\<lambda>u. u_username u = trim name) (rows (db_users d)),
                   d\<lparr>db_users := tbl_update (\<lambda>u. u_username u = trim name)
                       (\<lambda>u. u\<lparr>u_role := ''admin''\<rparr>) (db_users d)\<rparr>)
                else (0, d)
            | None \<Rightarrow> (0, d))
        in if fst by_name = 0 then
             d\<lparr>db_users := tbl_update (\<lambda>u. Some (u_id u) = min_user_id d)
                (\<lambda>u. u\<lparr>u_role := ''admin''\<rparr>) (db_users d)\<rparr>
           else snd by_name)"

definition set_user_role :: "timestamp \<Rightarrow> i64 \<Rightarrow> string \<Rightarrow> database \<Rightarrow> database" where
  "set_user_role now user_id role d =
     (let role = (if role = USER_ROLE_ADMIN then USER_ROLE_ADMIN else USER_ROLE_USER)
      in d\<lparr>db_users := tbl_update (\<lambda>u. u_id u = user_id)
            (\<lambda>u. u\<lparr>u_role := role, u_updated_at := now\<rparr>) (db_users d)\<rparr>)"

section \<open>Peers\<close>

text \<open>
  \<open>get_peer\<close> reads the \<open>info\<close> column with \<open>serde_json::from_str\<close> into a \<open>String\<close>;
  \<open>json_str\<close> is that call.  The row is returned as it is otherwise.
\<close>

definition get_peer :: "(string \<Rightarrow> string option) \<Rightarrow> string \<Rightarrow> database \<Rightarrow> peer_row option" where
  "get_peer json_str pid d =
     (case find (\<lambda>r. pr_id r = pid) (db_peer d) of
        Some r \<Rightarrow> Some (r\<lparr>pr_info := (case json_str (pr_info r) of Some s \<Rightarrow> s | None \<Rightarrow> [])\<rparr>)
      | None \<Rightarrow> None)"

definition resolve_peer_device_binding ::
  "i64 \<Rightarrow> i64 option \<Rightarrow> string \<Rightarrow> database \<Rightarrow> db_error + i64" where
  "resolve_peer_device_binding user_id udid_from_claim rustdesk_peer_id d =
     (case udid_from_claim of
        Some udid \<Rightarrow>
          (case find (\<lambda>r. ud_id r = udid \<and> ud_user_id r = user_id \<and> ud_is_active r)
                     (rows (db_user_devices d)) of
             None \<Rightarrow> Inl BadUdid
           | Some r \<Rightarrow> if ud_device_id r \<noteq> rustdesk_peer_id then Inl UdidPeerMismatch else Inr udid)
      | None \<Rightarrow>
          (case find (\<lambda>r. ud_user_id r = user_id \<and> ud_device_id r = rustdesk_peer_id \<and> ud_is_active r)
                     (rows (db_user_devices d)) of
             Some r \<Rightarrow> Inr (ud_id r)
           | None \<Rightarrow> Inl PeerNotADevice))"

definition get_user_device_row_id :: "i64 \<Rightarrow> string \<Rightarrow> database \<Rightarrow> i64 option" where
  "get_user_device_row_id user_id device_id d =
     map_option ud_id (find (\<lambda>r. ud_user_id r = user_id \<and> ud_device_id r = device_id \<and> ud_is_active r)
       (rows (db_user_devices d)))"

text \<open>
  \<open>insert or replace\<close> first deletes the rows that clash on the primary key or
  on the unique index of \<open>id\<close>.  The guid is the fresh \<open>Uuid::new_v4\<close>.
\<close>

definition insert_peer_with_user ::
  "timestamp \<Rightarrow> bytes \<Rightarrow> string \<Rightarrow> bytes \<Rightarrow> bytes \<Rightarrow> string \<Rightarrow> i64 option \<Rightarrow> i64 option \<Rightarrow>
   database \<Rightarrow> database \<times> bytes" where
  "insert_peer_with_user now guid pid uuid pk info user_id device_id d =
     (d\<lparr>db_peer := delete_where (\<lambda>r. pr_guid r = guid \<or> pr_id r = pid) (db_peer d) @
         [\<lparr>pr_guid = guid, pr_id = pid, pr_uuid = uuid, pr_pk = pk, pr_user = None,
           pr_status = None, pr_info = info, pr_created_at = now, pr_user_id = user_id,
           pr_device_id = device_id\<rparr>]\<rparr>, guid)"

definition insert_peer ::
  "timestamp \<Rightarrow> bytes \<Rightarrow> string \<Rightarrow> bytes \<Rightarrow> bytes \<Rightarrow> string \<Rightarrow> database \<Rightarrow> database \<times> bytes" where
  "insert_peer now guid pid uuid pk info d =
     (d\<lparr>db_peer := delete_where (\<lambda>r. pr_guid r = guid \<or> pr_id r = pid) (db_peer d) @
         [\<lparr>pr_guid = guid, pr_id = pid, pr_uuid = uuid, pr_pk = pk, pr_user = None,
           pr_status = None, pr_info = info, pr_created_at = now, pr_user_id = None,
           pr_device_id = None\<rparr>]\<rparr>, guid)"

definition db_update_pk :: "bytes \<Rightarrow> string \<Rightarrow> bytes \<Rightarrow> string \<Rightarrow> database \<Rightarrow> database" where
  "db_update_pk guid pid pk info d =
     d\<lparr>db_peer := update_where (\<lambda>r. pr_guid r = guid \<and> pr_id r = pid)
        (\<lambda>r. r\<lparr>pr_pk := pk, pr_info := info\<rparr>) (db_peer d)\<rparr>"

definition update_pk_with_user ::
  "bytes \<Rightarrow> string \<Rightarrow> bytes \<Rightarrow> string \<Rightarrow> i64 option \<Rightarrow> i64 option \<Rightarrow> database \<Rightarrow> database" where
  "update_pk_with_user guid pid pk info user_id device_id d =
     d\<lparr>db_peer := update_where (\<lambda>r. pr_guid r = guid \<and> pr_id r = pid)
        (\<lambda>r. r\<lparr>pr_pk := pk, pr_info := info, pr_user_id := user_id, pr_device_id := device_id\<rparr>)
        (db_peer d)\<rparr>"

section \<open>Users\<close>

record create_user_request =
  cur_username :: string
  cur_email :: string
  cur_password :: string

definition insert_user_row :: "timestamp \<Rightarrow> string \<Rightarrow> string \<Rightarrow> string \<Rightarrow> string \<Rightarrow> database \<Rightarrow> db_error + database \<times> i64" where
  "insert_user_row now username email password_hash role d =
     (if \<exists>u \<in> set (rows (db_users d)). u_username u = username \<or> u_email u = email
      then Inl UniqueViolation
      else let t = tbl_insert set_u_id
             \<lparr>u_id = 0, u_username = username, u_email = email, u_password_hash = password_hash,
              u_created_at = now, u_updated_at = now, u_is_active = True, u_role = role\<rparr> (db_users d)
           in Inr (d\<lparr>db_users := t\<rparr>, seq t))"

definition create_user :: "bcrypt \<Rightarrow> timestamp \<Rightarrow> create_user_request \<Rightarrow> database \<Rightarrow> db_error + database \<times> i64" where
  "create_user bc now request d =
     (case bc_hash bc (cur_password request) of
        None \<Rightarrow> Inl HashFailed
      | Some password_hash \<Rightarrow>
          insert_user_row now (cur_username request) (cur_email request) password_hash USER_ROLE_USER d)"

definition get_user_by_id :: "i64 \<Rightarrow> database \<Rightarrow> user option" where
  "get_user_by_id user_id d = find (\<lambda>u. u_id u = user_id) (rows (db_users d))"

definition get_user_by_username :: "string \<Rightarrow> database \<Rightarrow> user option" where
  "get_user_by_username username d = find (\<lambda>u. u_username u = username) (rows (db_users d))"

definition get_user_by_email :: "string \<Rightarrow> database \<Rightarrow> user option" where
  "get_user_by_email email d = find (\<lambda>u. u_email u = email) (rows (db_users d))"

text \<open>
  An \<open>update\<close> that would give two rows the same username or email is refused as
  a whole.
\<close>

definition update_user ::
  "timestamp \<Rightarrow> i64 \<Rightarrow> string option \<Rightarrow> string option \<Rightarrow> database \<Rightarrow> db_error + database" where
  "update_user now user_id username email d =
     (let f = (\<lambda>u. u\<lparr>u_updated_at := now,
                    u_username := (case username of Some n \<Rightarrow> n | None \<Rightarrow> u_username u),
                    u_email := (case email of Some e \<Rightarrow> e | None \<Rightarrow> u_email u)\<rparr>);
          t = tbl_update (\<lambda>u. u_id u = user_id) f (db_users d)
      in if distinct (map u_username (rows t)) \<and> distinct (map u_email (rows t))
         then Inr (d\<lparr>db_users := t\<rparr>) else Inl UniqueViolation)"

text \<open>Deleting a user cascades to the rows that refer to it; peers keep their \<open>user_id\<close>.\<close>

definition delete_user :: "i64 \<Rightarrow> database \<Rightarrow> database" where
  "delete_user user_id d =
     d\<lparr>db_users := tbl_delete (\<lambda>u. u_id u = user_id) (db_users d),
       db_user_devices := tbl_delete (\<lambda>r. ud_user_id r = user_id) (db_user_devices d),
       db_reset_tokens := tbl_delete (\<lambda>r. rt_user_id r = user_id) (db_reset_tokens d),
       db_subscriptions := tbl_delete (\<lambda>r. us_user_id r = user_id) (db_subscriptions d),
       db_orders := tbl_delete (\<lambda>r. o_user_id r = user_id) (db_orders d)\<rparr>"

text \<open>\<open>LIMIT\<close> and \<open>OFFSET\<close>: a negative limit is no limit, a negative offset is zero.\<close>

definition sql_limit :: "i64 \<Rightarrow> i64 \<Rightarrow> 'r list \<Rightarrow> 'r list" where
  "sql_limit limit off rs =
     (let rest = drop (nat off) rs in if limit < 0 then rest else take (nat limit) rest)"

definition list_users :: "i64 option \<Rightarrow> i64 option \<Rightarrow> database \<Rightarrow> user list" where
  "list_users limit off d =
     sql_limit (case limit of Some l \<Rightarrow> l | None \<Rightarrow> 50) (case off of Some x \<Rightarrow> x | None \<Rightarrow> 0)
       (order_desc u_created_at (rows (db_users d)))"

section \<open>Devices\<close>

definition active_devices_of :: "i64 \<Rightarrow> user_device \<Rightarrow> bool" where
  "active_devices_of user_id r \<longleftrightarrow> ud_user_id r = user_id \<and> ud_is_active r"

definition get_user_devices :: "i64 \<Rightarrow> database \<Rightarrow> user_device list" where
  "get_user_devices user_id d =
     order_desc ud_created_at (filter (active_devices_of user_id) (rows (db_user_devices d)))"

definition validate_device_ownership :: "i64 \<Rightarrow> string \<Rightarrow> database \<Rightarrow> bool" where
  "validate_device_ownership user_id device_id d \<longleftrightarrow>
     count_where (\<lambda>r. ud_user_id r = user_id \<and> ud_device_id r = device_id \<and> ud_is_active r)
       (rows (db_user_devices d)) > 0"

text \<open>
  The columns of \<open>user_devices\<close> as \<open>create_tables\<close> declares them.  An update that
  names another column is refused by SQLite before it runs.
\<close>

definition user_devices_columns :: "string list" where
  "user_devices_columns =
     [''id'', ''user_id'', ''device_id'', ''device_name'', ''created_at'', ''is_active'']"

definition set_columns_ok :: "string list \<Rightarrow> string list \<Rightarrow> string option" where
  "set_columns_ok cols sets = find (\<lambda>c. c \<notin> set cols) sets"

definition remove_device_from_user :: "i64 \<Rightarrow> string \<Rightarrow> database \<Rightarrow> db_error + database" where
  "remove_device_from_user user_id device_id d =
     (case set_columns_ok user_devices_columns [''is_active'', ''deleted_at''] of
        Some c \<Rightarrow> Inl (NoSuchColumn c)
      | None \<Rightarrow> Inr (d\<lparr>db_user_devices :=
          tbl_update (\<lambda>r. ud_user_id r = user_id \<and> ud_device_id r = device_id)
            (\<lambda>r. r\<lparr>ud_is_active := False\<rparr>) (db_user_devices d)\<rparr>))"

definition remove_device_from_user_simple :: "i64 \<Rightarrow> string \<Rightarrow> database \<Rightarrow> db_error + database" where
  "remove_device_from_user_simple user_id device_id d =
     (case set_columns_ok user_devices_columns [''is_active''] of
        Some c \<Rightarrow> Inl (NoSuchColumn c)
      | None \<Rightarrow> Inr (d\<lparr>db_user_devices :=
          tbl_update (\<lambda>r. ud_user_id r = user_id \<and> ud_device_id r = device_id)
            (\<lambda>r. r\<lparr>ud_is_active := False\<rparr>) (db_user_devices d)\<rparr>))"

text \<open>The join of users and devices in table order; \<open>fetch_optional\<close> takes the first row.\<close>

definition get_device_owner :: "string \<Rightarrow> database \<Rightarrow> user option" where
  "get_device_owner device_id d =
     (case [u. u \<leftarrow> rows (db_users d), r \<leftarrow> rows (db_user_devices d),
               u_id u = ud_user_id r \<and> ud_device_id r = device_id \<and> ud_is_active r \<and> u_is_active u] of
        u # _ \<Rightarrow> Some u
      | [] \<Rightarrow> None)"

section \<open>The simple variants\<close>

definition create_user_simple :: "bcrypt \<Rightarrow> timestamp \<Rightarrow> create_user_request \<Rightarrow> database \<Rightarrow> db_error + database \<times> i64" where
  "create_user_simple bc now request d =
     (case bc_hash bc (cur_password request) of
        None \<Rightarrow> Inl HashFailed
      | Some password_hash \<Rightarrow>
          insert_user_row now (cur_username request) (cur_email request) password_hash USER_ROLE_USER d)"

definition get_user_by_id_simple :: "i64 \<Rightarrow> database \<Rightarrow> user option" where
  "get_user_by_id_simple user_id d = find (\<lambda>u. u_id u = user_id) (rows (db_users d))"

definition get_user_by_username_simple :: "string \<Rightarrow> database \<Rightarrow> user option" where
  "get_user_by_username_simple username d = find (\<lambda>u. u_username u = username) (rows (db_users d))"

definition get_user_by_email_simple :: "string \<Rightarrow> database \<Rightarrow> user option" where
  "get_user_by_email_simple email d = find (\<lambda>u. u_email u = email) (rows (db_users d))"

definition list_users_simple :: "i64 option \<Rightarrow> i64 option \<Rightarrow> database \<Rightarrow> user list" where
  "list_users_simple limit off d =
     sql_limit (case limit of Some l \<Rightarrow> l | None \<Rightarrow> 50) (case off of Some x \<Rightarrow> x | None \<Rightarrow> 0)
       (order_desc u_created_at (rows (db_users d)))"

definition delete_user_simple :: "i64 \<Rightarrow> database \<Rightarrow> database" where
  "delete_user_simple user_id d =
     d\<lparr>db_users := tbl_delete (\<lambda>u. u_id u = user_id) (db_users d),
       db_user_devices := tbl_delete (\<lambda>r. ud_user_id r = user_id) (db_user_devices d),
       db_reset_tokens := tbl_delete (\<lambda>r. rt_user_id r = user_id) (db_reset_tokens d),
       db_subscriptions := tbl_delete (\<lambda>r. us_user_id r = user_id) (db_subscriptions d),
       db_orders := tbl_delete (\<lambda>r. o_user_id r = user_id) (db_orders d)\<rparr>"

definition get_user_devices_simple :: "i64 \<Rightarrow> database \<Rightarrow> user_device list" where
  "get_user_devices_simple user_id d =
     order_desc ud_created_at (filter (active_devices_of user_id) (rows (db_user_devices d)))"

definition get_device_owner_simple :: "string \<Rightarrow> database \<Rightarrow> user option" where
  "get_device_owner_simple device_id d =
     (case [u. u \<leftarrow> rows (db_users d), r \<leftarrow> rows (db_user_devices d),
               u_id u = ud_user_id r \<and> ud_device_id r = device_id \<and> ud_is_active r \<and> u_is_active u] of
        u # _ \<Rightarrow> Some u
      | [] \<Rightarrow> None)"

section \<open>Passwords\<close>

definition verify_password :: "bcrypt \<Rightarrow> string \<Rightarrow> string \<Rightarrow> bool" where
  "verify_password bc password hash = (case bc_verify bc password hash of Some b \<Rightarrow> b | None \<Rightarrow> False)"

text \<open>\<open>expires_at\<close> is the text the driver stores for the time one hour from now.\<close>

definition create_password_reset_token ::
  "timestamp \<Rightarrow> timestamp \<Rightarrow> string \<Rightarrow> i64 \<Rightarrow> database \<Rightarrow> db_error + database \<times> string" where
  "create_password_reset_token now expires_at token user_id d =
     (if \<exists>r \<in> set (rows (db_reset_tokens d)). rt_token r = token then Inl UniqueViolation
      else if \<forall>u \<in> set (rows (db_users d)). u_id u \<noteq> user_id then Inl ForeignKeyViolation
      else Inr (d\<lparr>db_reset_tokens := tbl_insert set_rt_id
             \<lparr>rt_id = 0, rt_user_id = user_id, rt_token = token, rt_expires_at = expires_at,
              rt_created_at = now, rt_is_used = False\<rparr> (db_reset_tokens d)\<rparr>, token))"

definition validate_password_reset_token :: "timestamp \<Rightarrow> string \<Rightarrow> database \<Rightarrow> i64 option" where
  "validate_password_reset_token now token d =
     map_option rt_user_id
       (find (\<lambda>r. rt_token r = token \<and> str_less now (rt_expires_at r) \<and> \<not> rt_is_used r)
         (rows (db_reset_tokens d)))"

definition set_password :: "timestamp \<Rightarrow> i64 \<Rightarrow> string \<Rightarrow> database \<Rightarrow> database" where
  "set_password now user_id password_hash d =
     d\<lparr>db_users := tbl_update (\<lambda>u. u_id u = user_id)
        (\<lambda>u. u\<lparr>u_password_hash := password_hash, u_updated_at := now\<rparr>) (db_users d)\<rparr>"

definition reset_password :: "bcrypt \<Rightarrow> timestamp \<Rightarrow> i64 \<Rightarrow> string \<Rightarrow> database \<Rightarrow> db_error + database" where
  "reset_password bc now user_id new_password d =
     (case bc_hash bc new_password of
        None \<Rightarrow> Inl HashFailed
      | Some password_hash \<Rightarrow>
          let d1 = set_password now user_id password_hash d
          in Inr (d1\<lparr>db_reset_tokens := tbl_update (\<lambda>r. rt_user_id r = user_id \<and> \<not> rt_is_used r)
                      (\<lambda>r. r\<lparr>rt_is_used := True\<rparr>) (db_reset_tokens d1)\<rparr>))"

definition update_password ::
  "bcrypt \<Rightarrow> timestamp \<Rightarrow> i64 \<Rightarrow> string \<Rightarrow> string \<Rightarrow> database \<Rightarrow> db_error + database" where
  "update_password bc now user_id old_password new_password d =
     (case get_user_by_id user_id d of
        None \<Rightarrow> Inl UserNotFound
      | Some user \<Rightarrow>
          if \<not> verify_password bc old_password (u_password_hash user) then Inl OldPasswordWrong
          else (case bc_hash bc new_password of
                  None \<Rightarrow> Inl HashFailed
                | Some password_hash \<Rightarrow> Inr (set_password now user_id password_hash d)))"

definition change_password :: "bcrypt \<Rightarrow> timestamp \<Rightarrow> i64 \<Rightarrow> string \<Rightarrow> database \<Rightarrow> db_error + database" where
  "change_password bc now user_id new_password d =
     (case bc_hash bc new_password of
        None \<Rightarrow> Inl HashFailed
      | Some password_hash \<Rightarrow> Inr (set_password now user_id password_hash d))"

section \<open>Settings\<close>

definition get_all_settings :: "database \<Rightarrow> string \<rightharpoonup> string" where
  "get_all_settings d = map_of (db_settings d)"

definition get_setting :: "string \<Rightarrow> database \<Rightarrow> string option" where
  "get_setting key d = map_of (db_settings d) key"

definition set_setting :: "string \<Rightarrow> string \<Rightarrow> database \<Rightarrow> database" where
  "set_setting key val d = d\<lparr>db_settings := AList.update key val (db_settings d)\<rparr>"

definition default_settings :: "(string \<times> string) list" where
  "default_settings =
     [(''smtp_enabled'', ''false''), (''smtp_port'', ''465''), (''smtp_tls'', ''true''),
      (''smtp_host'', []), (''smtp_user'', []), (''smtp_pass'', []), (''smtp_from'', [])]"

definition migrate_settings :: "database \<Rightarrow> database" where
  "migrate_settings d =
     d\<lparr>db_settings := fold (\<lambda>(k, v) s. if map_of s k = None then s @ [(k, v)] else s)
        default_settings (db_settings d)\<rparr>"

end
