(* ===== verification/Subscription.thy ===== *)
theory Subscription
  imports Database
begin

text \<open>
  Subscriptions, \<open>src/subscription.rs\<close>: the plan table with its seed rows, the
  active subscription of a user and the limits it grants, and the writes.  The
  device registration of \<open>src/database.rs\<close> and \<open>src/database_simple.rs\<close>, which
  asks for the plan's limit, is here too.
\<close>

definition FREE_DEVICE_LIMIT :: i64 where "FREE_DEVICE_LIMIT = 2"
definition FREE_SPEED_KBPS :: i64 where "FREE_SPEED_KBPS = 1024"

section \<open>Plans\<close>

definition seed_plans :: "subscription_plan list" where
  "seed_plans =
     [\<lparr>sp_id = 0, sp_name = ''free'',
        sp_display_name = utf8 [229, 133, 141, 232, 180, 185, 231, 137, 136],
        sp_device_limit = 2, sp_speed_limit_kbps = 1024, sp_price_cents = 0,
        sp_description = utf8 [230, 156, 128, 229, 164, 154, 50, 229, 143, 176, 232, 174, 190, 229, 164,
          135, 239, 188, 140, 233, 153, 144, 233, 128, 159, 49, 77, 98, 112, 115],
        sp_is_active = True\<rparr>,
      \<lparr>sp_id = 0, sp_name = ''basic'',
        sp_display_name = utf8 [229, 159, 186, 231, 161, 128, 231, 137, 136],
        sp_device_limit = 5, sp_speed_limit_kbps = 5120, sp_price_cents = 990,
        sp_description = utf8 [230, 156, 128, 229, 164, 154, 53, 229, 143, 176, 232, 174, 190, 229, 164,
          135, 239, 188, 140, 233, 153, 144, 233, 128, 159, 53, 77, 98, 112, 115],
        sp_is_active = True\<rparr>,
      \<lparr>sp_id = 0, sp_name = ''pro'',
        sp_display_name = utf8 [228, 184, 147, 228, 184, 154, 231, 137, 136],
        sp_device_limit = 20, sp_speed_limit_kbps = 0, sp_price_cents = 2990,
        sp_description = utf8 [230, 156, 128, 229, 164, 154, 50, 48, 229, 143, 176, 232, 174, 190, 229,
          164, 135, 239, 188, 140, 228, 184, 141, 233, 153, 144, 233, 128, 159],
        sp_is_active = True\<rparr>,
      \<lparr>sp_id = 0, sp_name = ''enterprise'',
        sp_display_name = utf8 [228, 188, 129, 228, 184, 154, 231, 137, 136],
        sp_device_limit = 0, sp_speed_limit_kbps = 0, sp_price_cents = 9990,
        sp_description = utf8 [230, 151, 160, 233, 153, 144, 232, 174, 190, 229, 164, 135, 239, 188, 140,
          228, 184, 141, 233, 153, 144, 233, 128, 159, 239, 188, 140, 228, 188, 152, 229,
          133, 136, 230, 148, 175, 230, 140, 129],
        sp_is_active = True\<rparr>]"

text \<open>\<open>INSERT OR IGNORE\<close> skips a plan whose name is taken.\<close>

definition insert_plan_or_ignore :: "subscription_plan \<Rightarrow> subscription_plan tbl \<Rightarrow> subscription_plan tbl" where
  "insert_plan_or_ignore p t =
     (if \<exists>q \<in> set (rows t). sp_name q = sp_name p then t else tbl_insert set_sp_id p t)"

definition migrate_subscriptions :: "database \<Rightarrow> database" where
  "migrate_subscriptions d = d\<lparr>db_plans := fold insert_plan_or_ignore seed_plans (db_plans d)\<rparr>"

definition get_subscription_plans :: "database \<Rightarrow> subscription_plan list" where
  "get_subscription_plans d = sort_key sp_price_cents (rows (db_plans d))"

definition get_plan_id_by_name :: "string \<Rightarrow> database \<Rightarrow> i64 option" where
  "get_plan_id_by_name plan_name d =
     map_option sp_id (find (\<lambda>p. sp_name p = plan_name) (rows (db_plans d)))"

section \<open>Subscriptions\<close>

record user_subscription =
  sub_id :: i64
  sub_user_id :: i64
  sub_plan_id :: i64
  sub_plan_name :: string
  sub_plan_display_name :: string
  sub_device_limit :: i64
  sub_speed_limit_kbps :: i64
  sub_started_at :: timestamp
  sub_expires_at :: "timestamp option"
  sub_is_active :: bool
  sub_notes :: "string option"
  sub_created_at :: timestamp

text \<open>The row of the join of \<open>user_subscriptions\<close> and \<open>subscription_plans\<close>.\<close>

definition join_plan :: "database \<Rightarrow> sub_row \<Rightarrow> user_subscription list" where
  "join_plan d r =
     map (\<lambda>p. \<lparr>sub_id = us_id r, sub_user_id = us_user_id r, sub_plan_id = us_plan_id r,
               sub_plan_name = sp_name p, sub_plan_display_name = sp_display_name p,
               sub_device_limit = sp_device_limit p, sub_speed_limit_kbps = sp_speed_limit_kbps p,
               sub_started_at = us_started_at r, sub_expires_at = us_expires_at r,
               sub_is_active = us_is_active r, sub_notes = us_notes r,
               sub_created_at = us_created_at r\<rparr>)
       (filter (\<lambda>p. sp_id p = us_plan_id r) (rows (db_plans d)))"

definition sub_current :: "timestamp \<Rightarrow> i64 \<Rightarrow> sub_row \<Rightarrow> bool" where
  "sub_current now user_id r \<longleftrightarrow>
     us_user_id r = user_id \<and> us_is_active r \<and>
     (case us_expires_at r of None \<Rightarrow> True | Some e \<Rightarrow> str_less now e)"

definition get_user_active_subscription :: "timestamp \<Rightarrow> i64 \<Rightarrow> database \<Rightarrow> user_subscription option" where
  "get_user_active_subscription now user_id d =
     (case order_desc sub_created_at
             (concat (map (join_plan d) (filter (sub_current now user_id) (rows (db_subscriptions d))))) of
        s # _ \<Rightarrow> Some s
      | [] \<Rightarrow> None)"

definition get_user_device_limit :: "timestamp \<Rightarrow> i64 \<Rightarrow> database \<Rightarrow> i64" where
  "get_user_device_limit now user_id d =
     (case get_user_active_subscription now user_id d of
        Some sub \<Rightarrow> sub_device_limit sub | None \<Rightarrow> FREE_DEVICE_LIMIT)"

definition get_user_speed_limit :: "timestamp \<Rightarrow> i64 \<Rightarrow> database \<Rightarrow> i64" where
  "get_user_speed_limit now user_id d =
     (case get_user_active_subscription now user_id d of
        Some sub \<Rightarrow> sub_speed_limit_kbps sub | None \<Rightarrow> FREE_SPEED_KBPS)"

text \<open>
  The old subscriptions are switched off by a statement of their own: when the
  insert that follows violates a foreign key, they stay off.
\<close>

definition deactivate_all :: "timestamp \<Rightarrow> i64 \<Rightarrow> database \<Rightarrow> database" where
  "deactivate_all now user_id d =
     d\<lparr>db_subscriptions := tbl_update (\<lambda>r. us_user_id r = user_id \<and> us_is_active r)
        (\<lambda>r. r\<lparr>us_is_active := False, us_updated_at := now\<rparr>) (db_subscriptions d)\<rparr>"

definition create_user_subscription ::
  "timestamp \<Rightarrow> i64 \<Rightarrow> i64 \<Rightarrow> timestamp option \<Rightarrow> string option \<Rightarrow> database \<Rightarrow> database \<times> (db_error + i64)" where
  "create_user_subscription now user_id plan_id expires_at notes d =
     (let d1 = deactivate_all now user_id d in
      if (\<forall>u \<in> set (rows (db_users d1)). u_id u \<noteq> user_id) \<or>
         (\<forall>p \<in> set (rows (db_plans d1)). sp_id p \<noteq> plan_id)
      then (d1, Inl ForeignKeyViolation)
      else
        let t = tbl_insert set_us_id
              \<lparr>us_id = 0, us_user_id = user_id, us_plan_id = plan_id, us_started_at = now,
               us_expires_at = expires_at, us_is_active = True, us_notes = notes,
               us_created_at = now, us_updated_at = now\<rparr> (db_subscriptions d1)
        in (d1\<lparr>db_subscriptions := t\<rparr>, Inr (seq t)))"

definition update_user_subscription ::
  "timestamp \<Rightarrow> i64 \<Rightarrow> i64 option \<Rightarrow> timestamp option option \<Rightarrow> string option \<Rightarrow>
   database \<Rightarrow> db_error + database" where
  "update_user_subscription now sid plan_id expires_at notes d =
     (if plan_id = None \<and> expires_at = None \<and> notes = None then Inr d
      else if (\<exists>r \<in> set (rows (db_subscriptions d)). us_id r = sid) \<and>
              (case plan_id of Some p \<Rightarrow> \<forall>q \<in> set (rows (db_plans d)). sp_id q \<noteq> p | None \<Rightarrow> False)
      then Inl ForeignKeyViolation
      else Inr (d\<lparr>db_subscriptions := tbl_update (\<lambda>r. us_id r = sid)
        (\<lambda>r. r\<lparr>us_updated_at := now,
               us_plan_id := (case plan_id of Some p \<Rightarrow> p | None \<Rightarrow> us_plan_id r),
               us_expires_at := (case expires_at of Some e \<Rightarrow> e | None \<Rightarrow> us_expires_at r),
               us_notes := (case notes of Some n \<Rightarrow> Some n | None \<Rightarrow> us_notes r)\<rparr>)
        (db_subscriptions d)\<rparr>))"

definition deactivate_user_subscription :: "timestamp \<Rightarrow> i64 \<Rightarrow> database \<Rightarrow> database" where
  "deactivate_user_subscription now sid d =
     d\<lparr>db_subscriptions := tbl_update (\<lambda>r. us_id r = sid)
        (\<lambda>r. r\<lparr>us_is_active := False, us_updated_at := now\<rparr>) (db_subscriptions d)\<rparr>"

definition list_subscriptions :: "i64 option \<Rightarrow> i64 option \<Rightarrow> database \<Rightarrow> user_subscription list" where
  "list_subscriptions limit off d =
     sql_limit (case limit of Some l \<Rightarrow> l | None \<Rightarrow> 50) (case off of Some x \<Rightarrow> x | None \<Rightarrow> 0)
       (order_desc sub_created_at (concat (map (join_plan d) (rows (db_subscriptions d)))))"

definition count_user_active_devices :: "i64 \<Rightarrow> database \<Rightarrow> i64" where
  "count_user_active_devices user_id d =
     count_where (active_devices_of user_id) (rows (db_user_devices d))"

section \<open>Adding a device\<close>

record create_device_request =
  cdr_user_id :: i64
  cdr_device_id :: string
  cdr_device_name :: "string option"

text \<open>
  \<open>insert or replace into user_devices\<close>: a row with the same user and device id
  is deleted first, and the new row gets a new id.
\<close>

definition replace_device_row :: "timestamp \<Rightarrow> create_device_request \<Rightarrow> database \<Rightarrow> db_error + database \<times> i64" where
  "replace_device_row now request d =
     (if \<forall>u \<in> set (rows (db_users d)). u_id u \<noteq> cdr_user_id request then Inl ForeignKeyViolation
      else
        let t = tbl_insert set_ud_id
              \<lparr>ud_id = 0, ud_user_id = cdr_user_id request, ud_device_id = cdr_device_id request,
               ud_device_name = cdr_device_name request, ud_created_at = now, ud_is_active = True\<rparr>
              (tbl_delete (\<lambda>r. ud_user_id r = cdr_user_id request \<and> ud_device_id r = cdr_device_id request)
                (db_user_devices d))
        in Inr (d\<lparr>db_user_devices := t\<rparr>, seq t))"

definition add_device_to_user :: "timestamp \<Rightarrow> create_device_request \<Rightarrow> database \<Rightarrow> db_error + database \<times> i64" where
  "add_device_to_user now request d =
     (let user_exists = count_where (\<lambda>u. u_id u = cdr_user_id request \<and> u_is_active u) (rows (db_users d)) > 0;
          device_count = count_where (active_devices_of (cdr_user_id request)) (rows (db_user_devices d));
          device_limit = get_user_device_limit now (cdr_user_id request) d;
          device_exists = count_where (\<lambda>r. ud_user_id r = cdr_user_id request \<and>
            ud_device_id r = cdr_device_id request \<and> ud_is_active r) (rows (db_user_devices d)) > 0
      in if \<not> user_exists then Inl UserMissingOrDisabled
         else if device_limit > 0 \<and> device_count \<ge> device_limit then Inl (DeviceLimitReached device_limit)
         else if device_exists then Inl DeviceIdExists
         else replace_device_row now request d)"

definition add_device_to_user_simple :: "timestamp \<Rightarrow> create_device_request \<Rightarrow> database \<Rightarrow> db_error + database \<times> i64" where
  "add_device_to_user_simple now request d =
     (let device_count = count_where (active_devices_of (cdr_user_id request)) (rows (db_user_devices d));
          device_limit = get_user_device_limit now (cdr_user_id request) d
      in if device_limit > 0 \<and> device_count \<ge> device_limit then Inl (DeviceLimitReached device_limit)
         else replace_device_row now request d)"

end
