(* ===== verification/Payment.thy ===== *)
theory Payment
  imports Subscription
begin

text \<open>
  Orders and the payment callbacks, \<open>src/payment.rs\<close>.  The RSA and HMAC
  primitives, JSON and the HTTP client are arguments (\<open>pay_env\<close>); the strings
  that are signed, the order life cycle and the activation of a subscription
  are modelled.
\<close>

section \<open>Orders\<close>

definition to_upper_char :: "char \<Rightarrow> char" where
  "to_upper_char c =
     (if 97 \<le> (of_char c :: nat) \<and> (of_char c :: nat) \<le> 122 then char_of ((of_char c :: nat) - 32) else c)"

text \<open>\<open>stamp\<close> is the time as \<open>%Y%m%d%H%M%S\<close> and \<open>uuid\<close> the text of a fresh UUID.\<close>

definition order_no_of :: "string \<Rightarrow> string \<Rightarrow> string" where
  "order_no_of stamp uuid =
     ''ORD'' @ stamp @ map to_upper_char (take 6 (filter (\<lambda>c. c \<noteq> CHR ''-'') uuid))"

definition create_order ::
  "timestamp \<Rightarrow> string \<Rightarrow> string \<Rightarrow> i64 \<Rightarrow> i64 \<Rightarrow> string \<Rightarrow> string \<Rightarrow> string \<Rightarrow>
   database \<Rightarrow> db_error + database \<times> string" where
  "create_order now stamp uuid user_id plan_id amount currency payment_method d =
     (let order_no = order_no_of stamp uuid in
      if \<exists>r \<in> set (rows (db_orders d)). o_order_no r = order_no then Inl UniqueViolation
      else if (\<forall>u \<in> set (rows (db_users d)). u_id u \<noteq> user_id) \<or>
              (\<forall>p \<in> set (rows (db_plans d)). sp_id p \<noteq> plan_id) then Inl ForeignKeyViolation
      else Inr (d\<lparr>db_orders := tbl_insert set_o_id
             \<lparr>o_id = 0, o_order_no = order_no, o_user_id = user_id, o_plan_id = plan_id,
              o_amount = amount, o_currency = currency, o_payment_method = payment_method,
              o_status = ''pending'', o_gateway_order_id = None, o_gateway_qr = None,
              o_stripe_checkout_url = None, o_paid_at = None, o_created_at = now,
              o_updated_at = now\<rparr> (db_orders d)\<rparr>, order_no))"

definition set_order_gateway ::
  "timestamp \<Rightarrow> string \<Rightarrow> string option \<Rightarrow> string option \<Rightarrow> database \<Rightarrow> database" where
  "set_order_gateway now order_no qr stripe_url d =
     d\<lparr>db_orders := tbl_update (\<lambda>r. o_order_no r = order_no)
        (\<lambda>r. r\<lparr>o_gateway_qr := qr, o_stripe_checkout_url := stripe_url, o_updated_at := now\<rparr>)
        (db_orders d)\<rparr>"

definition mark_order_paid ::
  "timestamp \<Rightarrow> string \<Rightarrow> string \<Rightarrow> database \<Rightarrow> database \<times> (i64 \<times> i64) option" where
  "mark_order_paid now order_no gateway_order_id d =
     (case find (\<lambda>r. o_order_no r = order_no) (rows (db_orders d)) of
        None \<Rightarrow> (d, None)
      | Some r \<Rightarrow>
          if o_status r = ''paid'' then (d, None)
          else
            (d\<lparr>db_orders := tbl_update (\<lambda>r. o_order_no r = order_no \<and> o_status r = ''pending'')
                (\<lambda>r. r\<lparr>o_status := ''paid'', o_gateway_order_id := Some gateway_order_id,
                       o_paid_at := Some now, o_updated_at := now\<rparr>) (db_orders d)\<rparr>,
             Some (o_user_id r, o_plan_id r)))"

text \<open>An order as \<open>get_order_by_no\<close> returns it: the row with the plan's name.\<close>

definition get_order_by_no :: "string \<Rightarrow> i64 \<Rightarrow> database \<Rightarrow> (order_row \<times> string) option" where
  "get_order_by_no order_no user_id d =
     (case [(r, sp_name p). r \<leftarrow> rows (db_orders d), p \<leftarrow> rows (db_plans d),
              o_plan_id r = sp_id p \<and> o_order_no r = order_no \<and> o_user_id r = user_id] of
        x # _ \<Rightarrow> Some x
      | [] \<Rightarrow> None)"

section \<open>Signed strings\<close>

text \<open>The argument record: cryptography, JSON and the gateways.\<close>

record stripe_event =
  ev_type :: "string option"
  ev_order_no :: "string option"
  ev_payment_intent :: "string option"

record pay_env =
  pe_rsa_sign :: "string \<Rightarrow> string \<Rightarrow> string option"
  pe_rsa_verify :: "string \<Rightarrow> string \<Rightarrow> string \<Rightarrow> bool"
  pe_hmac_sha256_hex :: "string \<Rightarrow> string \<Rightarrow> string"
  pe_utf8_lossy :: "bytes \<Rightarrow> string"
  pe_json_event :: "bytes \<Rightarrow> stripe_event option"

fun chunks :: "nat \<Rightarrow> 'a list \<Rightarrow> 'a list list" where
  "chunks n [] = []"
| "chunks n (x # xs) = (if n = 0 then [] else take n (x # xs) # chunks n (drop n (x # xs)))"

definition contains :: "string \<Rightarrow> string \<Rightarrow> bool" where
  "contains s p \<longleftrightarrow> (\<exists>i \<in> set [0 ..< length s + 1]. starts_with (drop i s) p)"

definition NL :: string where "NL = [char_of (10 :: nat)]"

definition wrap_pem :: "string \<Rightarrow> string \<Rightarrow> string" where
  "wrap_pem raw label =
     (let raw = trim raw in
      if contains raw ''-----BEGIN'' then raw
      else ''-----BEGIN '' @ label @ ''-----'' @ NL @ join_with NL (chunks 64 raw) @ NL @
           ''-----END '' @ label @ ''-----'')"

definition rsa2_sign :: "pay_env \<Rightarrow> string \<Rightarrow> string \<Rightarrow> string option" where
  "rsa2_sign pe private_key_raw content =
     pe_rsa_sign pe (wrap_pem private_key_raw ''PRIVATE KEY'') content"

definition rsa2_verify :: "pay_env \<Rightarrow> string \<Rightarrow> string \<Rightarrow> string \<Rightarrow> bool" where
  "rsa2_verify pe public_key_raw content sig_b64 \<longleftrightarrow>
     pe_rsa_verify pe (wrap_pem public_key_raw ''PUBLIC KEY'') content sig_b64"

text \<open>A \<open>BTreeMap\<close> is its list of entries in ascending key order.\<close>

fun btree_insert :: "string \<Rightarrow> string \<Rightarrow> (string \<times> string) list \<Rightarrow> (string \<times> string) list" where
  "btree_insert k v [] = [(k, v)]"
| "btree_insert k v ((k', v') # r) =
     (if k = k' then (k, v) # r
      else if str_less k k' then (k, v) # (k', v') # r
      else (k', v') # btree_insert k v r)"

definition kv_pair :: "string \<times> string \<Rightarrow> string" where
  "kv_pair = (\<lambda>(k, v). k @ ''='' @ v)"

definition signed_param :: "string \<times> string \<Rightarrow> bool" where
  "signed_param = (\<lambda>(k, v). k \<noteq> ''sign'' \<and> k \<noteq> ''sign_type'' \<and> v \<noteq> [])"

definition alipay_build_sign_str :: "(string \<times> string) list \<Rightarrow> string" where
  "alipay_build_sign_str params = join_with ''&'' (map kv_pair (filter signed_param params))"

text \<open>
  \<open>alipay_notify\<close> rebuilds the string from the form fields, in the order its
  \<open>HashMap\<close> happens to iterate.
\<close>

definition notify_sign_str :: "(string \<times> string) list \<Rightarrow> string" where
  "notify_sign_str params =
     join_with ''&'' (map kv_pair
       (fold (\<lambda>(k, v) m. if signed_param (k, v) then btree_insert k v m else m) params []))"

definition strip_prefix :: "string \<Rightarrow> string \<Rightarrow> string option" where
  "strip_prefix p s = (if starts_with s p then Some (drop (length p) s) else None)"

definition stripe_sig_part :: "string \<Rightarrow> string \<times> string \<Rightarrow> string \<times> string" where
  "stripe_sig_part part acc =
     (case acc of (ts, v1) \<Rightarrow>
        (case strip_prefix ''t='' (trim part) of
           Some val \<Rightarrow> (val, v1)
         | None \<Rightarrow> (case strip_prefix ''v1='' (trim part) of
                    Some val \<Rightarrow> (ts, val)
                  | None \<Rightarrow> (ts, v1))))"

definition stripe_verify_webhook :: "pay_env \<Rightarrow> string \<Rightarrow> bytes \<Rightarrow> string \<Rightarrow> bool" where
  "stripe_verify_webhook pe secret payload sig_header \<longleftrightarrow>
     (case fold stripe_sig_part (split_on CHR '','' sig_header) ([], []) of
        (ts, v1) \<Rightarrow>
          if ts = [] \<or> v1 = [] then False
          else pe_hmac_sha256_hex pe secret (ts @ ''.'' @ pe_utf8_lossy pe payload) = v1)"

section \<open>Activation\<close>

text \<open>Errors of the two calls are logged and dropped; \<open>expires\<close> is 30 days from now.\<close>

definition activate_subscription_for_order ::
  "timestamp \<Rightarrow> timestamp \<Rightarrow> i64 \<Rightarrow> i64 \<Rightarrow> database \<Rightarrow> database" where
  "activate_subscription_for_order now expires user_id plan_id d =
     (let d1 = (case get_user_active_subscription now user_id d of
                  Some sub \<Rightarrow> deactivate_user_subscription now (sub_id sub) d
                | None \<Rightarrow> d)
      in fst (create_user_subscription now user_id plan_id (Some expires) None d1))"

definition or_empty :: "string option \<Rightarrow> string" where
  "or_empty x = (case x of Some s \<Rightarrow> s | None \<Rightarrow> [])"

definition settle_order ::
  "timestamp \<Rightarrow> timestamp \<Rightarrow> string \<Rightarrow> string \<Rightarrow> database \<Rightarrow> database" where
  "settle_order now expires order_no gateway_id d =
     (case mark_order_paid now order_no gateway_id d of
        (d1, Some (user_id, plan_id)) \<Rightarrow> activate_subscription_for_order now expires user_id plan_id d1
      | (d1, None) \<Rightarrow> d1)"

definition alipay_notify ::
  "pay_env \<Rightarrow> timestamp \<Rightarrow> timestamp \<Rightarrow> (string \<times> string) list \<Rightarrow> database \<Rightarrow> database \<times> string" where
  "alipay_notify pe now expires params d =
     (let get = (\<lambda>k. or_empty (map_of params k));
          public_key = or_empty (get_setting ''payment.alipay_public_key'' d)
      in if public_key = [] then (d, ''fail'')
         else if \<not> rsa2_verify pe public_key (notify_sign_str params) (get ''sign'') then (d, ''fail'')
         else if get ''trade_status'' \<noteq> ''TRADE_SUCCESS'' \<and> get ''trade_status'' \<noteq> ''TRADE_FINISHED''
         then (d, ''success'')
         else (settle_order now expires (get ''out_trade_no'') (get ''trade_no'') d, ''success''))"

datatype status_code =
    SC_OK | SC_BAD_REQUEST | SC_UNAUTHORIZED | SC_FORBIDDEN | SC_NOT_FOUND | SC_INTERNAL_SERVER_ERROR

definition stripe_webhook ::
  "pay_env \<Rightarrow> timestamp \<Rightarrow> timestamp \<Rightarrow> string option \<Rightarrow> bytes \<Rightarrow> database \<Rightarrow> database \<times> status_code" where
  "stripe_webhook pe now expires sig_header body d =
     (let webhook_secret = or_empty (get_setting ''payment.stripe_webhook_secret'' d)
      in if webhook_secret = [] then (d, SC_INTERNAL_SERVER_ERROR)
         else if \<not> stripe_verify_webhook pe webhook_secret body (or_empty sig_header) then (d, SC_BAD_REQUEST)
         else (case pe_json_event pe body of
                 None \<Rightarrow> (d, SC_BAD_REQUEST)
               | Some event \<Rightarrow>
                   if ev_type event = Some ''checkout.session.completed'' \<and> or_empty (ev_order_no event) \<noteq> []
                   then (settle_order now expires (or_empty (ev_order_no event))
                           (or_empty (ev_payment_intent event)) d, SC_OK)
                   else (d, SC_OK)))"

end
