(* ===== verification/Db_Invariant.thy ===== *)
theory Db_Invariant
  imports Payment
begin

text \<open>
  The integrity of the database: keys and unique columns stay unique, every
  reference points to an existing row, roles are the two known ones, and a
  user has at most one active subscription.  \<open>db_step\<close> has one rule per
  method that writes; the invariant holds in every database reachable from the
  freshly migrated one.
\<close>

section \<open>The invariant\<close>

definition user_ids :: "database \<Rightarrow> i64 set" where
  "user_ids d = u_id ` set (rows (db_users d))"

definition plan_ids :: "database \<Rightarrow> i64 set" where
  "plan_ids d = sp_id ` set (rows (db_plans d))"

definition peers_ok :: "database \<Rightarrow> bool" where
  "peers_ok d \<longleftrightarrow> distinct (map pr_guid (db_peer d)) \<and> distinct (map pr_id (db_peer d))"

definition users_ok :: "database \<Rightarrow> bool" where
  "users_ok d \<longleftrightarrow>
     tbl_ok u_id (db_users d) \<and> distinct (map u_username (rows (db_users d))) \<and>
     distinct (map u_email (rows (db_users d))) \<and>
     (\<forall>u \<in> set (rows (db_users d)). u_role u \<in> {USER_ROLE_ADMIN, USER_ROLE_USER})"

definition device_key :: "user_device \<Rightarrow> i64 \<times> string" where
  "device_key r = (ud_user_id r, ud_device_id r)"

definition devices_ok :: "database \<Rightarrow> bool" where
  "devices_ok d \<longleftrightarrow>
     tbl_ok ud_id (db_user_devices d) \<and> distinct (map device_key (rows (db_user_devices d))) \<and>
     ud_user_id ` set (rows (db_user_devices d)) \<subseteq> user_ids d"

definition tokens_ok :: "database \<Rightarrow> bool" where
  "tokens_ok d \<longleftrightarrow>
     tbl_ok rt_id (db_reset_tokens d) \<and> distinct (map rt_token (rows (db_reset_tokens d))) \<and>
     rt_user_id ` set (rows (db_reset_tokens d)) \<subseteq> user_ids d"

definition plans_ok :: "database \<Rightarrow> bool" where
  "plans_ok d \<longleftrightarrow> tbl_ok sp_id (db_plans d) \<and> distinct (map sp_name (rows (db_plans d)))"

definition active_subs :: "i64 \<Rightarrow> database \<Rightarrow> int" where
  "active_subs user_id d =
     count_where (\<lambda>r. us_user_id r = user_id \<and> us_is_active r) (rows (db_subscriptions d))"

definition subs_ok :: "database \<Rightarrow> bool" where
  "subs_ok d \<longleftrightarrow>
     tbl_ok us_id (db_subscriptions d) \<and>
     us_user_id ` set (rows (db_subscriptions d)) \<subseteq> user_ids d \<and>
     us_plan_id ` set (rows (db_subscriptions d)) \<subseteq> plan_ids d \<and>
     (\<forall>user_id. active_subs user_id d \<le> 1)"

definition orders_ok :: "database \<Rightarrow> bool" where
  "orders_ok d \<longleftrightarrow>
     tbl_ok o_id (db_orders d) \<and> distinct (map o_order_no (rows (db_orders d))) \<and>
     o_user_id ` set (rows (db_orders d)) \<subseteq> user_ids d \<and>
     o_plan_id ` set (rows (db_orders d)) \<subseteq> plan_ids d"

definition settings_ok :: "database \<Rightarrow> bool" where
  "settings_ok d \<longleftrightarrow> distinct (map fst (db_settings d))"

definition db_ok :: "database \<Rightarrow> bool" where
  "db_ok d \<longleftrightarrow> peers_ok d \<and> users_ok d \<and> devices_ok d \<and> tokens_ok d \<and> plans_ok d \<and>
     subs_ok d \<and> orders_ok d \<and> settings_ok d"

lemmas table_ok_defs =
  peers_ok_def users_ok_def devices_ok_def tokens_ok_def plans_ok_def subs_ok_def orders_ok_def
  settings_ok_def

interpretation users: auto_table u_id set_u_id
  by unfold_locales simp

interpretation devices: auto_table ud_id set_ud_id
  by unfold_locales simp

interpretation tokens: auto_table rt_id set_rt_id
  by unfold_locales simp

interpretation plans: auto_table sp_id set_sp_id
  by unfold_locales simp

interpretation subs: auto_table us_id set_us_id
  by unfold_locales simp

interpretation orders: auto_table o_id set_o_id
  by unfold_locales simp

section \<open>Rows under updates\<close>

lemma rows_tbl_update [simp]: "rows (tbl_update P f t) = update_where P f (rows t)"
  by (simp add: tbl_update_def)

lemma rows_tbl_delete [simp]: "rows (tbl_delete P t) = delete_where P (rows t)"
  by (simp add: tbl_delete_def)

lemma rows_tbl_insert [simp]: "rows (tbl_insert setk r t) = rows t @ [setk (seq t + 1) r]"
  by (simp add: tbl_insert_def)

lemma image_update_where:
  "(\<And>r. r \<in> set rs \<Longrightarrow> P r \<Longrightarrow> g (f r) = g r) \<Longrightarrow> g ` set (update_where P f rs) = g ` set rs"
  by (metis image_set map_update_where)

lemma distinct_map_delete_where: "distinct (map f rs) \<Longrightarrow> distinct (map f (delete_where P rs))"
  by (simp add: delete_where_def distinct_map_filter)

lemma count_where_delete: "count_where Q (delete_where P rs) \<le> count_where Q rs"
  by (induction rs) (auto simp: delete_where_def)

lemma ids_frame [simp]:
  "user_ids (d\<lparr>db_peer := x0\<rparr>) = user_ids d"
  "user_ids (d\<lparr>db_user_devices := x1\<rparr>) = user_ids d"
  "user_ids (d\<lparr>db_reset_tokens := x2\<rparr>) = user_ids d"
  "user_ids (d\<lparr>db_subscriptions := x3\<rparr>) = user_ids d"
  "user_ids (d\<lparr>db_orders := x4\<rparr>) = user_ids d"
  "user_ids (d\<lparr>db_settings := x5\<rparr>) = user_ids d"
  "plan_ids (d\<lparr>db_peer := x0\<rparr>) = plan_ids d"
  "plan_ids (d\<lparr>db_user_devices := x1\<rparr>) = plan_ids d"
  "plan_ids (d\<lparr>db_reset_tokens := x2\<rparr>) = plan_ids d"
  "plan_ids (d\<lparr>db_subscriptions := x3\<rparr>) = plan_ids d"
  "plan_ids (d\<lparr>db_orders := x4\<rparr>) = plan_ids d"
  "plan_ids (d\<lparr>db_settings := x5\<rparr>) = plan_ids d"
  "plan_ids (d\<lparr>db_users := x6\<rparr>) = plan_ids d"
  "user_ids (d\<lparr>db_plans := y\<rparr>) = user_ids d"
  by (simp_all add: user_ids_def plan_ids_def)

lemma devices_write:
  "\<lbrakk>db_ok d; devices_ok (d\<lparr>db_user_devices := t\<rparr>)\<rbrakk> \<Longrightarrow> db_ok (d\<lparr>db_user_devices := t\<rparr>)"
  by (auto simp: db_ok_def table_ok_defs active_subs_def)

lemma tokens_write:
  "\<lbrakk>db_ok d; tokens_ok (d\<lparr>db_reset_tokens := t\<rparr>)\<rbrakk> \<Longrightarrow> db_ok (d\<lparr>db_reset_tokens := t\<rparr>)"
  by (auto simp: db_ok_def table_ok_defs active_subs_def)

lemma subs_write:
  "\<lbrakk>db_ok d; subs_ok (d\<lparr>db_subscriptions := t\<rparr>)\<rbrakk> \<Longrightarrow> db_ok (d\<lparr>db_subscriptions := t\<rparr>)"
  by (auto simp: db_ok_def table_ok_defs active_subs_def)

lemma orders_write:
  "\<lbrakk>db_ok d; orders_ok (d\<lparr>db_orders := t\<rparr>)\<rbrakk> \<Longrightarrow> db_ok (d\<lparr>db_orders := t\<rparr>)"
  by (auto simp: db_ok_def table_ok_defs active_subs_def)

text \<open>An update of users that keeps the ids keeps every reference intact.\<close>

lemma users_write:
  assumes "db_ok d" "user_ids (d\<lparr>db_users := t\<rparr>) = user_ids d" "users_ok (d\<lparr>db_users := t\<rparr>)"
  shows "db_ok (d\<lparr>db_users := t\<rparr>)"
  using assms by (auto simp: db_ok_def table_ok_defs active_subs_def plan_ids_def)

lemma user_ids_update:
  "(\<And>u. u_id (f u) = u_id u) \<Longrightarrow> user_ids (d\<lparr>db_users := tbl_update P f (db_users d)\<rparr>) = user_ids d"
  by (simp add: user_ids_def image_update_where)

text \<open>
  Updates of one table that touch neither its key, nor a unique column, nor a
  reference.
\<close>

lemma users_update_ok:
  assumes "db_ok d" "\<And>u. u_id (f u) = u_id u" "\<And>u. u_username (f u) = u_username u"
    "\<And>u. u_email (f u) = u_email u" "\<And>u. u_role u \<in> {USER_ROLE_ADMIN, USER_ROLE_USER} \<Longrightarrow> u_role (f u) \<in> {USER_ROLE_ADMIN, USER_ROLE_USER}"
  shows "db_ok (d\<lparr>db_users := tbl_update P f (db_users d)\<rparr>)"
proof (rule users_write)
  have "tbl_ok u_id (tbl_update P f (db_users d))"
    using assms(1,2) by (auto simp: db_ok_def users_ok_def intro!: users.ok_update)
  moreover have "u_role u \<in> {USER_ROLE_ADMIN, USER_ROLE_USER}"
    if "u \<in> set (update_where P f (rows (db_users d)))" for u
    using that assms(1,5) by (auto simp: set_update_where db_ok_def users_ok_def simp del: insert_iff)
  ultimately show "users_ok (d\<lparr>db_users := tbl_update P f (db_users d)\<rparr>)"
    using assms by (simp add: db_ok_def users_ok_def map_update_where)
qed (use assms in \<open>simp_all add: user_ids_update\<close>)

lemma subs_update_ok:
  assumes "db_ok d" "\<And>r. us_id (f r) = us_id r" "\<And>r. us_user_id (f r) = us_user_id r"
    "\<And>r. us_plan_id r \<in> plan_ids d \<Longrightarrow> P r \<Longrightarrow> r \<in> set (rows (db_subscriptions d)) \<Longrightarrow> us_plan_id (f r) \<in> plan_ids d"
    "\<And>r. us_is_active (f r) \<Longrightarrow> us_is_active r"
  shows "db_ok (d\<lparr>db_subscriptions := tbl_update P f (db_subscriptions d)\<rparr>)"
proof -
  let ?Q = "\<lambda>i r. us_user_id r = i \<and> us_is_active r"
  have "count_where (?Q i) (update_where P f rs) \<le> count_where (?Q i) rs" for i rs
    using assms(3,5) by (induction rs) (auto simp: update_where_def)
  then have "count_where (?Q i) (update_where P f (rows (db_subscriptions d))) \<le> 1" for i
    using assms(1) by (force simp: db_ok_def subs_ok_def active_subs_def intro: order_trans)
  moreover have "tbl_ok us_id (tbl_update P f (db_subscriptions d))"
    using assms(1,2) by (auto simp: db_ok_def subs_ok_def intro!: subs.ok_update)
  ultimately show ?thesis
    using assms
    by (auto simp: db_ok_def table_ok_defs active_subs_def user_ids_def plan_ids_def set_update_where)
qed

lemma orders_update_ok:
  assumes "db_ok d" "\<And>r. o_id (f r) = o_id r" "\<And>r. o_order_no (f r) = o_order_no r"
    "\<And>r. o_user_id (f r) = o_user_id r" "\<And>r. o_plan_id (f r) = o_plan_id r"
  shows "db_ok (d\<lparr>db_orders := tbl_update P f (db_orders d)\<rparr>)"
proof -
  have "tbl_ok o_id (tbl_update P f (db_orders d))"
    using assms(1,2) by (auto simp: db_ok_def orders_ok_def intro!: orders.ok_update)
  then show ?thesis
    using assms
    by (auto simp: db_ok_def table_ok_defs active_subs_def user_ids_def plan_ids_def
        set_update_where map_update_where)
qed

lemma devices_update_ok:
  assumes "db_ok d" "\<And>r. ud_id (f r) = ud_id r" "\<And>r. device_key (f r) = device_key r"
  shows "db_ok (d\<lparr>db_user_devices := tbl_update P f (db_user_devices d)\<rparr>)"
proof -
  have "tbl_ok ud_id (tbl_update P f (db_user_devices d))"
    using assms(1,2) by (auto simp: db_ok_def devices_ok_def intro!: devices.ok_update)
  then show ?thesis
    using assms
    by (auto simp: db_ok_def table_ok_defs active_subs_def user_ids_def plan_ids_def
        set_update_where map_update_where device_key_def)
qed

lemma tokens_update_ok:
  assumes "db_ok d" "\<And>r. rt_id (f r) = rt_id r" "\<And>r. rt_token (f r) = rt_token r"
    "\<And>r. rt_user_id (f r) = rt_user_id r"
  shows "db_ok (d\<lparr>db_reset_tokens := tbl_update P f (db_reset_tokens d)\<rparr>)"
proof -
  have "tbl_ok rt_id (tbl_update P f (db_reset_tokens d))"
    using assms(1,2) by (auto simp: db_ok_def tokens_ok_def intro!: tokens.ok_update)
  then show ?thesis
    using assms
    by (auto simp: db_ok_def table_ok_defs active_subs_def user_ids_def plan_ids_def
        set_update_where map_update_where)
qed

lemma peers_write:
  "\<lbrakk>db_ok d; peers_ok (d\<lparr>db_peer := t\<rparr>)\<rbrakk> \<Longrightarrow> db_ok (d\<lparr>db_peer := t\<rparr>)"
  by (auto simp: db_ok_def table_ok_defs active_subs_def user_ids_def plan_ids_def)

section \<open>Every method keeps the invariant\<close>

lemma ok_set_user_role [inv_intros]: "db_ok d \<Longrightarrow> db_ok (set_user_role now i r d)"
  unfolding set_user_role_def Let_def by (rule users_update_ok) auto

lemma ok_set_password [inv_intros]: "db_ok d \<Longrightarrow> db_ok (set_password now i h d)"
  unfolding set_password_def by (rule users_update_ok) auto

lemma ok_bootstrap [inv_intros]: "db_ok d \<Longrightarrow> db_ok (bootstrap_admin_if_none env d)"
  unfolding bootstrap_admin_if_none_def Let_def
  by (auto simp: USER_ROLE_ADMIN_def split: option.splits intro!: users_update_ok)

lemma ok_insert_peer [inv_intros]:
  "db_ok d \<Longrightarrow> db_ok (fst (insert_peer_with_user now g i u k info a b d))"
  "db_ok d \<Longrightarrow> db_ok (fst (insert_peer now g i u k info d))"
  unfolding insert_peer_with_user_def insert_peer_def fst_conv
  by (rule peers_write; force simp: db_ok_def peers_ok_def distinct_map_delete_where)+

lemma ok_update_pk [inv_intros]:
  "db_ok d \<Longrightarrow> db_ok (db_update_pk g i k info d)"
  "db_ok d \<Longrightarrow> db_ok (update_pk_with_user g i k info a b d)"
  unfolding db_update_pk_def update_pk_with_user_def
  by (rule peers_write; simp add: db_ok_def peers_ok_def map_update_where)+

lemma ok_create_user [inv_intros]:
  assumes "db_ok d" "insert_user_row now n e h USER_ROLE_USER d = Inr (d', i)"
  shows "db_ok d'"
proof -
  let ?r = "\<lparr>u_id = 0, u_username = n, u_email = e, u_password_hash = h,
              u_created_at = now, u_updated_at = now, u_is_active = True, u_role = USER_ROLE_USER\<rparr>"
  have d': "d' = d\<lparr>db_users := tbl_insert set_u_id ?r (db_users d)\<rparr>"
    and "\<forall>u \<in> set (rows (db_users d)). u_username u \<noteq> n \<and> u_email u \<noteq> e"
    using assms(2) by (auto simp: insert_user_row_def Let_def split: if_splits)
  moreover have "tbl_ok u_id (tbl_insert set_u_id ?r (db_users d))"
    using assms(1) by (auto simp: db_ok_def users_ok_def intro: users.ok_insert)
  ultimately show ?thesis
    using assms(1)
    by (auto simp: db_ok_def table_ok_defs active_subs_def user_ids_def plan_ids_def)
qed

lemma ok_update_user [inv_intros]:
  assumes "db_ok d" "update_user now i n e d = Inr d'"
  shows "db_ok d'"
proof -
  let ?f = "\<lambda>u. u\<lparr>u_updated_at := now,
                    u_username := (case n of Some n \<Rightarrow> n | None \<Rightarrow> u_username u),
                    u_email := (case e of Some e \<Rightarrow> e | None \<Rightarrow> u_email u)\<rparr>"
  let ?t = "tbl_update (\<lambda>u. u_id u = i) ?f (db_users d)"
  have "tbl_ok u_id ?t" using assms(1) by (auto simp: db_ok_def users_ok_def intro!: users.ok_update)
  then have "users_ok (d\<lparr>db_users := ?t\<rparr>)"
    using assms by (auto simp: db_ok_def users_ok_def update_user_def Let_def set_update_where split: if_splits)
  then show ?thesis
    using assms users_write [OF assms(1) user_ids_update]
    by (auto simp: update_user_def Let_def split: if_splits)
qed

lemma ok_delete_user [inv_intros]:
  assumes "db_ok d"
  shows "db_ok (delete_user i d)"
proof -
  have "tbl_ok u_id (tbl_delete P (db_users d))" "tbl_ok ud_id (tbl_delete Q (db_user_devices d))"
    "tbl_ok rt_id (tbl_delete R (db_reset_tokens d))" "tbl_ok us_id (tbl_delete S (db_subscriptions d))"
    "tbl_ok o_id (tbl_delete T (db_orders d))" for P Q R S T
    using assms by (auto simp: db_ok_def table_ok_defs intro: users.ok_delete devices.ok_delete
        tokens.ok_delete subs.ok_delete orders.ok_delete)
  moreover have "count_where Q (delete_where P (rows (db_subscriptions d))) \<le> 1"
    if "count_where Q (rows (db_subscriptions d)) \<le> 1" for P Q
    using that count_where_delete order_trans by blast
  ultimately show ?thesis
    using assms
    by (auto simp: delete_user_def db_ok_def table_ok_defs active_subs_def user_ids_def plan_ids_def
        distinct_map_delete_where)
qed

lemma ok_delete_user_simple [inv_intros]: "db_ok d \<Longrightarrow> db_ok (delete_user_simple i d)"
  using ok_delete_user [of d i] by (simp add: delete_user_def delete_user_simple_def)

lemma ok_remove_device [inv_intros]:
  "\<lbrakk>db_ok d; remove_device_from_user_simple i dev d = Inr d'\<rbrakk> \<Longrightarrow> db_ok d'"
  by (auto simp: remove_device_from_user_simple_def device_key_def split: option.splits
      intro!: devices_update_ok)

lemma mem_user_ids: "i \<in> user_ids d \<longleftrightarrow> \<not> (\<forall>u \<in> set (rows (db_users d)). u_id u \<noteq> i)"
  by (auto simp: user_ids_def)

lemma mem_plan_ids: "i \<in> plan_ids d \<longleftrightarrow> \<not> (\<forall>p \<in> set (rows (db_plans d)). sp_id p \<noteq> i)"
  by (auto simp: plan_ids_def)

lemma ok_replace_device [inv_intros]:
  assumes "db_ok d" "replace_device_row now req d = Inr (d', i)"
  shows "db_ok d'"
proof -
  define r where "r = \<lparr>ud_id = 0, ud_user_id = cdr_user_id req, ud_device_id = cdr_device_id req,
               ud_device_name = cdr_device_name req, ud_created_at = now, ud_is_active = True\<rparr>"
  define t where "t = tbl_insert set_ud_id r
     (tbl_delete (\<lambda>r. ud_user_id r = cdr_user_id req \<and> ud_device_id r = cdr_device_id req)
              (db_user_devices d))"
  have d': "d' = d\<lparr>db_user_devices := t\<rparr>" and u: "cdr_user_id req \<in> user_ids d"
    using assms(2) by (auto simp: replace_device_row_def Let_def t_def r_def mem_user_ids split: if_splits)
  have "tbl_ok ud_id t"
    using assms(1) by (auto simp: t_def db_ok_def devices_ok_def intro: devices.ok_insert devices.ok_delete)
  then have "devices_ok (d\<lparr>db_user_devices := t\<rparr>)"
    using assms(1) u
    by (auto simp: db_ok_def devices_ok_def t_def r_def distinct_map_delete_where device_key_def)
  then show ?thesis unfolding d' by (rule devices_write [OF assms(1)])
qed

lemma ok_add_device [inv_intros]:
  "\<lbrakk>db_ok d; add_device_to_user now req d = Inr (d', i)\<rbrakk> \<Longrightarrow> db_ok d'"
  "\<lbrakk>db_ok d; add_device_to_user_simple now req d = Inr (d', i)\<rbrakk> \<Longrightarrow> db_ok d'"
  by (auto simp: add_device_to_user_def add_device_to_user_simple_def Let_def
      intro: ok_replace_device split: if_splits)

lemma ok_create_token [inv_intros]:
  assumes "db_ok d" "create_password_reset_token now e tok i d = Inr (d', tok')"
  shows "db_ok d'"
proof -
  define r where "r = \<lparr>rt_id = 0, rt_user_id = i, rt_token = tok, rt_expires_at = e,
              rt_created_at = now, rt_is_used = False\<rparr>"
  define t where "t = tbl_insert set_rt_id r (db_reset_tokens d)"
  have d': "d' = d\<lparr>db_reset_tokens := t\<rparr>" and u: "i \<in> user_ids d"
    "tok \<notin> rt_token ` set (rows (db_reset_tokens d))"
    using assms(2)
    by (auto simp: create_password_reset_token_def t_def r_def mem_user_ids split: if_splits)
  have "tbl_ok rt_id t"
    using assms(1) by (auto simp: t_def db_ok_def tokens_ok_def intro: tokens.ok_insert)
  then have "tokens_ok (d\<lparr>db_reset_tokens := t\<rparr>)"
    using assms(1) u by (auto simp: db_ok_def tokens_ok_def t_def r_def)
  then show ?thesis unfolding d' by (rule tokens_write [OF assms(1)])
qed

lemma ok_reset_password [inv_intros]:
  "\<lbrakk>db_ok d; reset_password bc now i p d = Inr d'\<rbrakk> \<Longrightarrow> db_ok d'"
  by (auto simp: reset_password_def Let_def split: option.splits
      intro!: tokens_update_ok ok_set_password)

lemma ok_update_password [inv_intros]:
  "\<lbrakk>db_ok d; update_password bc now i p q d = Inr d'\<rbrakk> \<Longrightarrow> db_ok d'"
  "\<lbrakk>db_ok d; change_password bc now i p d = Inr d'\<rbrakk> \<Longrightarrow> db_ok d'"
  by (auto simp: update_password_def change_password_def split: option.splits if_splits
      intro!: ok_set_password)

lemma settings_write:
  "\<lbrakk>db_ok d; distinct (map fst s)\<rbrakk> \<Longrightarrow> db_ok (d\<lparr>db_settings := s\<rparr>)"
  by (auto simp: db_ok_def table_ok_defs active_subs_def user_ids_def plan_ids_def)

lemma ok_set_setting [inv_intros]: "db_ok d \<Longrightarrow> db_ok (set_setting k v d)"
  unfolding set_setting_def
  by (rule settings_write) (auto simp: db_ok_def settings_ok_def intro: distinct_update)

lemma ok_migrate_settings [inv_intros]: "db_ok d \<Longrightarrow> db_ok (migrate_settings d)"
proof -
  have "distinct (map fst (fold (\<lambda>(k, v) s. if map_of s k = None then s @ [(k, v)] else s) xs s))"
    if "distinct (map fst s)" for xs s
    using that by (induction xs arbitrary: s) (auto simp: map_of_eq_None_iff)
  then show "db_ok d \<Longrightarrow> db_ok (migrate_settings d)"
    unfolding migrate_settings_def by (intro settings_write) (auto simp: db_ok_def settings_ok_def)
qed

lemma ok_insert_plan:
  assumes "tbl_ok sp_id t" "distinct (map sp_name (rows t))"
  shows "tbl_ok sp_id (insert_plan_or_ignore p t) \<and>
         distinct (map sp_name (rows (insert_plan_or_ignore p t))) \<and>
         set (rows t) \<subseteq> set (rows (insert_plan_or_ignore p t))"
  using assms plans.ok_insert [OF assms(1)] by (force simp: insert_plan_or_ignore_def)

lemma ok_insert_plans:
  assumes "tbl_ok sp_id t" "distinct (map sp_name (rows t))"
  shows "tbl_ok sp_id (fold insert_plan_or_ignore ps t) \<and>
         distinct (map sp_name (rows (fold insert_plan_or_ignore ps t))) \<and>
         set (rows t) \<subseteq> set (rows (fold insert_plan_or_ignore ps t))"
  using assms
proof (induction ps arbitrary: t)
  case (Cons p ps)
  then show ?case using ok_insert_plan [of t p] Cons.IH [of "insert_plan_or_ignore p t"] by auto
qed simp

lemma ok_migrate_subscriptions [inv_intros]:
  assumes "db_ok d"
  shows "db_ok (migrate_subscriptions d)"
proof -
  let ?t = "fold insert_plan_or_ignore seed_plans (db_plans d)"
  have "tbl_ok sp_id ?t" "distinct (map sp_name (rows ?t))" "set (rows (db_plans d)) \<subseteq> set (rows ?t)"
    using assms ok_insert_plans [of "db_plans d" seed_plans] by (auto simp: db_ok_def plans_ok_def)
  moreover from this(3) have "plan_ids d \<subseteq> plan_ids (migrate_subscriptions d)"
    by (auto simp: migrate_subscriptions_def plan_ids_def)
  ultimately show ?thesis
    using assms
    by (auto simp: db_ok_def table_ok_defs active_subs_def user_ids_def migrate_subscriptions_def)
qed

lemma ok_deactivate [inv_intros]:
  "db_ok d \<Longrightarrow> db_ok (deactivate_user_subscription now i d)"
  "db_ok d \<Longrightarrow> db_ok (deactivate_all now u d)"
  unfolding deactivate_user_subscription_def deactivate_all_def by (rule subs_update_ok; simp)+

lemma active_subs_deactivate_all: "active_subs u (deactivate_all now v d) = (if u = v then 0 else active_subs u d)"
proof -
  have "count_where (\<lambda>r. us_user_id r = u \<and> us_is_active r)
          (update_where (\<lambda>r. us_user_id r = v \<and> us_is_active r)
             (\<lambda>r. r\<lparr>us_is_active := False, us_updated_at := now\<rparr>) rs) =
        (if u = v then 0 else count_where (\<lambda>r. us_user_id r = u \<and> us_is_active r) rs)" for rs
    by (induction rs) (auto simp: update_where_def)
  from this [of "rows (db_subscriptions d)"] show ?thesis
    by (cases "u = v") (simp_all add: active_subs_def deactivate_all_def)
qed

lemma create_user_subscription_cases:
  obtains (fk) "create_user_subscription now u p e n d = (deactivate_all now u d, Inl ForeignKeyViolation)"
      "u \<notin> user_ids d \<or> p \<notin> plan_ids d"
  | (ok) "create_user_subscription now u p e n d =
      ((deactivate_all now u d)\<lparr>db_subscriptions := tbl_insert set_us_id
         \<lparr>us_id = 0, us_user_id = u, us_plan_id = p, us_started_at = now,
          us_expires_at = e, us_is_active = True, us_notes = n,
          us_created_at = now, us_updated_at = now\<rparr> (db_subscriptions (deactivate_all now u d))\<rparr>,
       Inr (seq (db_subscriptions d) + 1))"
      "u \<in> user_ids d" "p \<in> plan_ids d"
proof -
  have "user_ids (deactivate_all now u d) = user_ids d" "plan_ids (deactivate_all now u d) = plan_ids d"
    by (simp_all add: deactivate_all_def)
  then show thesis
    using fk ok unfolding create_user_subscription_def Let_def mem_user_ids mem_plan_ids
    by (auto simp: tbl_insert_def deactivate_all_def tbl_update_def split: if_splits)
qed

lemma ok_create_subscription [inv_intros]:
  assumes "db_ok d"
  shows "db_ok (fst (create_user_subscription now u p e n d))"
proof (cases rule: create_user_subscription_cases [of now u p e n d])
  case fk
  then show ?thesis using ok_deactivate(2) [OF assms] by simp
next
  case ok
  let ?d = "deactivate_all now u d"
  have d1: "db_ok ?d" "user_ids ?d = user_ids d" "plan_ids ?d = plan_ids d"
    using ok_deactivate(2) [OF assms] by (simp_all add: deactivate_all_def)
  have t: "tbl_ok us_id (tbl_insert set_us_id r (db_subscriptions ?d))" for r
    using d1(1) by (auto simp: db_ok_def subs_ok_def intro: subs.ok_insert)
  have "count_where (\<lambda>r. us_user_id r = u \<and> us_is_active r) (rows (db_subscriptions ?d)) = 0"
    using active_subs_deactivate_all [of u now u d] by (simp add: active_subs_def)
  then have "subs_ok (fst (create_user_subscription now u p e n d))"
    using ok d1 t by (auto simp: db_ok_def subs_ok_def active_subs_def)
  then show ?thesis using ok(1) by (auto intro: subs_write [OF d1(1)])
qed

lemma ok_update_subscription [inv_intros]:
  assumes "db_ok d" "update_user_subscription now i p e n d = Inr d'"
  shows "db_ok d'"
proof (cases "p = None \<and> e = None \<and> n = None")
  case True
  then show ?thesis using assms by (auto simp: update_user_subscription_def)
next
  case False
  let ?f = "\<lambda>r. r\<lparr>us_updated_at := now,
               us_plan_id := (case p of Some p \<Rightarrow> p | None \<Rightarrow> us_plan_id r),
               us_expires_at := (case e of Some e \<Rightarrow> e | None \<Rightarrow> us_expires_at r),
               us_notes := (case n of Some n \<Rightarrow> Some n | None \<Rightarrow> us_notes r)\<rparr>"
  have d': "d' = d\<lparr>db_subscriptions := tbl_update (\<lambda>r. us_id r = i) ?f (db_subscriptions d)\<rparr>"
    and fk: "\<And>r q. r \<in> set (rows (db_subscriptions d)) \<Longrightarrow> us_id r = i \<Longrightarrow> p = Some q \<Longrightarrow> q \<in> plan_ids d"
    using assms(2) False by (auto simp: update_user_subscription_def mem_plan_ids split: if_splits option.splits)
  show ?thesis
    unfolding d' by (rule subs_update_ok [OF assms(1)]) (auto split: option.splits intro: fk)
qed

lemma ok_create_order [inv_intros]:
  assumes "db_ok d" "create_order now st uu u p a c m d = Inr (d', no)"
  shows "db_ok d'"
proof -
  define r where "r = \<lparr>o_id = 0, o_order_no = order_no_of st uu, o_user_id = u, o_plan_id = p,
              o_amount = a, o_currency = c, o_payment_method = m,
              o_status = ''pending'', o_gateway_order_id = None, o_gateway_qr = None,
              o_stripe_checkout_url = None, o_paid_at = None, o_created_at = now,
              o_updated_at = now\<rparr>"
  define t where "t = tbl_insert set_o_id r (db_orders d)"
  have d': "d' = d\<lparr>db_orders := t\<rparr>" and u: "u \<in> user_ids d" "p \<in> plan_ids d"
    "order_no_of st uu \<notin> o_order_no ` set (rows (db_orders d))"
    using assms(2)
    by (auto simp: create_order_def Let_def t_def r_def mem_user_ids mem_plan_ids split: if_splits)
  have "tbl_ok o_id t"
    using assms(1) by (auto simp: t_def db_ok_def orders_ok_def intro: orders.ok_insert)
  then have "orders_ok (d\<lparr>db_orders := t\<rparr>)"
    using assms(1) u by (auto simp: db_ok_def orders_ok_def t_def r_def)
  then show ?thesis unfolding d' by (rule orders_write [OF assms(1)])
qed

lemma ok_set_order_gateway [inv_intros]: "db_ok d \<Longrightarrow> db_ok (set_order_gateway now no q s d)"
  unfolding set_order_gateway_def by (rule orders_update_ok) auto

lemma ok_mark_order_paid [inv_intros]: "db_ok d \<Longrightarrow> db_ok (fst (mark_order_paid now no g d))"
  by (auto simp: mark_order_paid_def split: option.splits intro!: orders_update_ok)

section \<open>Reachable databases\<close>

definition fresh_db :: database where
  "fresh_db = migrate_settings (migrate_subscriptions
     \<lparr>db_peer = [], db_users = tbl_empty, db_user_devices = tbl_empty, db_reset_tokens = tbl_empty,
      db_plans = tbl_empty, db_subscriptions = tbl_empty, db_orders = tbl_empty, db_settings = []\<rparr>)"

inductive db_step :: "database \<Rightarrow> database \<Rightarrow> bool" where
  step_bootstrap: "db_step d (bootstrap_admin_if_none env d)"
| step_role: "db_step d (set_user_role now i role d)"
| step_insert_peer: "db_step d (fst (insert_peer now g pid uuid pk info d))"
| step_insert_peer_user: "db_step d (fst (insert_peer_with_user now g pid uuid pk info a b d))"
| step_update_pk: "db_step d (db_update_pk g pid pk info d)"
| step_update_pk_user: "db_step d (update_pk_with_user g pid pk info a b d)"
| step_create_user: "create_user bc now req d = Inr (d', i) \<Longrightarrow> db_step d d'"
| step_create_user_simple: "create_user_simple bc now req d = Inr (d', i) \<Longrightarrow> db_step d d'"
| step_update_user: "update_user now i n e d = Inr d' \<Longrightarrow> db_step d d'"
| step_delete_user: "db_step d (delete_user i d)"
| step_delete_user_simple: "db_step d (delete_user_simple i d)"
| step_add_device: "add_device_to_user now dreq d = Inr (d', i) \<Longrightarrow> db_step d d'"
| step_add_device_simple: "add_device_to_user_simple now dreq d = Inr (d', i) \<Longrightarrow> db_step d d'"
| step_remove_device: "remove_device_from_user i dev d = Inr d' \<Longrightarrow> db_step d d'"
| step_remove_device_simple: "remove_device_from_user_simple i dev d = Inr d' \<Longrightarrow> db_step d d'"
| step_token: "create_password_reset_token now e tok i d = Inr (d', tok') \<Longrightarrow> db_step d d'"
| step_reset_password: "reset_password bc now i pw d = Inr d' \<Longrightarrow> db_step d d'"
| step_update_password: "update_password bc now i old pw d = Inr d' \<Longrightarrow> db_step d d'"
| step_change_password: "change_password bc now i pw d = Inr d' \<Longrightarrow> db_step d d'"
| step_set_setting: "db_step d (set_setting k v d)"
| step_migrate_settings: "db_step d (migrate_settings d)"
| step_migrate_subscriptions: "db_step d (migrate_subscriptions d)"
| step_create_sub: "db_step d (fst (create_user_subscription now i p eo n d))"
| step_update_sub: "update_user_subscription now i po eoo n d = Inr d' \<Longrightarrow> db_step d d'"
| step_deactivate_sub: "db_step d (deactivate_user_subscription now i d)"
| step_create_order: "create_order now st uu i p am cu me d = Inr (d', no) \<Longrightarrow> db_step d d'"
| step_set_gateway: "db_step d (set_order_gateway now no q u d)"
| step_mark_paid: "db_step d (fst (mark_order_paid now no g d))"

inductive db_reachable :: "database \<Rightarrow> bool" where
  reach_fresh: "db_reachable fresh_db"
| reach_step: "db_reachable d \<Longrightarrow> db_step d d' \<Longrightarrow> db_reachable d'"

lemma remove_device_fails: "remove_device_from_user i dev d = Inl (NoSuchColumn ''deleted_at'')"
  by (simp add: remove_device_from_user_def set_columns_ok_def user_devices_columns_def)

lemma db_step_ok: "db_step d d' \<Longrightarrow> db_ok d \<Longrightarrow> db_ok d'"
proof (induction rule: db_step.induct)
  case (step_create_user bc now req d d' i)
  then show ?case by (auto simp: create_user_def intro: ok_create_user split: option.splits)
next
  case (step_create_user_simple bc now req d d' i)
  then show ?case by (auto simp: create_user_simple_def intro: ok_create_user split: option.splits)
next
  case (step_remove_device i dev d d')
  then show ?case by (simp add: remove_device_fails)
qed (auto intro: inv_intros)

lemma fresh_db_ok: "db_ok fresh_db"
  unfolding fresh_db_def
  by (intro ok_migrate_settings ok_migrate_subscriptions)
     (simp add: db_ok_def table_ok_defs active_subs_def tbl_empty_def tbl_ok_def)

lemma mem_update_where:
  "r \<in> set (update_where P f rs) \<longleftrightarrow> (\<exists>x \<in> set rs. P x \<and> r = f x) \<or> r \<in> set rs \<and> \<not> P r"
  by (auto simp: update_where_def)

lemma update_where_all:
  "\<lbrakk>r \<in> set (update_where P f rs); \<And>x. P x \<Longrightarrow> Q (f x); \<And>x. \<not> P x \<Longrightarrow> Q x\<rbrakk> \<Longrightarrow> Q r"
  by (auto simp: update_where_def)

lemma min_user_id_mem:
  assumes "rows (db_users d) \<noteq> []"
  shows "\<exists>u \<in> set (rows (db_users d)). Some (u_id u) = min_user_id d"
proof -
  have mem: "fold min ks k \<in> insert k (set ks)" for ks and k :: i64
    by (induction ks arbitrary: k) (auto, metis insertE min_def)
  obtain k ks where "map u_id (rows (db_users d)) = k # ks"
    using assms by (cases "rows (db_users d)") auto
  moreover from this have "set (k # ks) = u_id ` set (rows (db_users d))" by (metis set_map)
  ultimately show ?thesis using mem [of ks k] by (auto simp: min_user_id_def image_iff)
qed

lemma count_where_eq_0: "count_where P rs = 0 \<longleftrightarrow> \<not> (\<exists>r \<in> set rs. P r)"
  using count_where_pos [of P rs] count_where_nonneg [of P rs] by linarith

lemma count_admins_promoted:
  assumes "\<exists>u \<in> set (rows (db_users d)). P u"
  shows "0 < count_admins (d\<lparr>db_users := tbl_update P (\<lambda>u. u\<lparr>u_role := ''admin''\<rparr>) (db_users d)\<rparr>)"
proof -
  obtain u where "u \<in> set (rows (db_users d))" "P u" using assms by blast
  then have "u\<lparr>u_role := ''admin''\<rparr> \<in> set (update_where P (\<lambda>u. u\<lparr>u_role := ''admin''\<rparr>) (rows (db_users d)))"
    by (auto simp: mem_update_where)
  then show ?thesis by (force simp: count_admins_def count_where_pos)
qed

section \<open>Properties\<close>

text \<open>
  C3.  Integrity: in every database reachable from the migrated empty one by the
  program's write methods, keys and unique columns are unique, every foreign
  key points to a row, every role is one of the two, and no user has two
  active subscriptions.
\<close>

theorem db_reachable_ok:
  assumes "db_reachable d"
  shows "db_ok d"
  using assms by (induction rule: db_reachable.induct) (auto intro: fresh_db_ok db_step_ok)

theorem db_reachable_ok_witness: "db_ok (set_setting ''smtp_port'' ''25'' fresh_db)"
  by (rule db_reachable_ok) (auto intro: db_reachable.intros db_step.intros)

text \<open>
  \<open>bootstrap_admin_if_none\<close> leaves the server manageable: whenever there is a
  user, there is an administrator afterwards, whatever the environment names.
\<close>

theorem bootstrap_has_admin:
  assumes "rows (db_users d) \<noteq> []"
  shows "count_admins (bootstrap_admin_if_none env d) > 0"
proof (cases "count_admins d > 0")
  case True
  then show ?thesis by (simp add: bootstrap_admin_if_none_def)
next
  case False
  obtain u where "u \<in> set (rows (db_users d))" "Some (u_id u) = min_user_id d"
    using min_user_id_mem [OF assms] by blast
  then have "\<exists>u \<in> set (rows (db_users d)). Some (u_id u) = min_user_id d" by blast
  then show ?thesis
    using False assms
    by (auto simp: bootstrap_admin_if_none_def Let_def count_admins_promoted count_where_eq_0
        split: option.splits)
qed

theorem bootstrap_has_admin_witness:
  "count_admins (bootstrap_admin_if_none None
     (fresh_db\<lparr>db_users := \<lparr>rows = [\<lparr>u_id = 1, u_username = ''ann'', u_email = ''a@x'', u_password_hash = [],
        u_created_at = [], u_updated_at = [], u_is_active = True, u_role = ''user''\<rparr>], seq = 1\<rparr>\<rparr>)) > 0"
  by (rule bootstrap_has_admin) simp

text \<open>
  A password reset consumes every outstanding token of the user: after
  \<open>reset_password\<close> succeeded, no token, at whatever time, resets that user's
  password again, and the user's stored hash is the new one.
\<close>

theorem reset_password_single_use:
  assumes "reset_password bc now user_id new_password d = Inr d'"
  shows "validate_password_reset_token now' token d' \<noteq> Some user_id \<and>
         (\<forall>u \<in> set (rows (db_users d')). u_id u = user_id \<longrightarrow>
            Some (u_password_hash u) = bc_hash bc new_password)"
proof -
  obtain h where h: "bc_hash bc new_password = Some h"
    "d' = (set_password now user_id h d)\<lparr>db_reset_tokens :=
       tbl_update (\<lambda>r. rt_user_id r = user_id \<and> \<not> rt_is_used r) (\<lambda>r. r\<lparr>rt_is_used := True\<rparr>)
         (db_reset_tokens (set_password now user_id h d))\<rparr>"
    using assms by (auto simp: reset_password_def Let_def split: option.splits)
  have "rt_user_id r = user_id \<longrightarrow> rt_is_used r" if "r \<in> set (rows (db_reset_tokens d'))" for r
  proof -
    have "r \<in> set (update_where (\<lambda>r. rt_user_id r = user_id \<and> \<not> rt_is_used r)
        (\<lambda>r. r\<lparr>rt_is_used := True\<rparr>) (rows (db_reset_tokens (set_password now user_id h d))))"
      using that h(2) by simp
    then show ?thesis by (rule update_where_all) simp_all
  qed
  then have "validate_password_reset_token now' token d' \<noteq> Some user_id"
    by (auto simp: validate_password_reset_token_def dest!: find_SomeD)
  moreover have "u_id u = user_id \<longrightarrow> u_password_hash u = h" if "u \<in> set (rows (db_users d'))" for u
  proof -
    have "u \<in> set (update_where (\<lambda>u. u_id u = user_id)
        (\<lambda>u. u\<lparr>u_password_hash := h, u_updated_at := now\<rparr>) (rows (db_users d)))"
      using that h(2) by (simp add: set_password_def)
    then show ?thesis by (rule update_where_all) simp_all
  qed
  ultimately show ?thesis using h(1) by simp
qed

definition db_one_user :: database where
  "db_one_user = fresh_db\<lparr>db_users := \<lparr>rows = [\<lparr>u_id = 1, u_username = ''ann'', u_email = ''a@x'',
     u_password_hash = ''old'', u_created_at = [], u_updated_at = [], u_is_active = True,
     u_role = ''admin''\<rparr>], seq = 1\<rparr>,
     db_reset_tokens := \<lparr>rows = [\<lparr>rt_id = 1, rt_user_id = 1, rt_token = ''tok'',
       rt_expires_at = ''2024-01-01T01:00:00+00:00'', rt_created_at = ''2024-01-01 00:00:00'',
       rt_is_used = False\<rparr>], seq = 1\<rparr>\<rparr>"

definition plain_bcrypt :: bcrypt where
  "plain_bcrypt = \<lparr>bc_hash = \<lambda>p. Some (CHR ''h'' # p), bc_verify = \<lambda>p h. Some (h = CHR ''h'' # p)\<rparr>"

theorem reset_password_single_use_witness:
  "\<exists>d'. reset_password plain_bcrypt ''2024-01-01 00:10:00'' 1 ''new'' db_one_user = Inr d' \<and>
        validate_password_reset_token ''2024-01-01 00:20:00'' ''tok'' d' \<noteq> Some 1"
proof -
  obtain d' where d: "reset_password plain_bcrypt ''2024-01-01 00:10:00'' 1 ''new'' db_one_user = Inr d'"
    by (simp add: reset_password_def plain_bcrypt_def Let_def)
  then show ?thesis using reset_password_single_use [OF d] by blast
qed

text \<open>
  The expiry of a reset token is a comparison of texts.  The driver stores
  \<open>expires_at\<close> in RFC 3339 form, with a \<open>T\<close> between date and time, and SQLite's
  \<open>datetime('now')\<close> has a blank there, so on the day of its expiry date a token is
  accepted at every time of the day, however long the hour is over.
\<close>

theorem reset_token_valid_all_day:
  assumes "find (\<lambda>r. rt_token r = token) (rows (db_reset_tokens d)) = Some r"
    and "rt_expires_at r = date @ CHR ''T'' # expiry_time" "\<not> rt_is_used r"
  shows "validate_password_reset_token (date @ CHR '' '' # clock_time) token d = Some (rt_user_id r)"
proof -
  have "find (\<lambda>r. rt_token r = token \<and> str_less (date @ CHR '' '' # clock_time) (rt_expires_at r) \<and>
           \<not> rt_is_used r) rs = Some r"
    if "find (\<lambda>r. rt_token r = token) rs = Some r" for rs
    using that assms(2,3) by (induction rs) (auto split: if_splits)
  then show ?thesis using assms(1) by (simp add: validate_password_reset_token_def)
qed

theorem reset_token_valid_all_day_witness:
  "validate_password_reset_token (''2024-01-01'' @ CHR '' '' # ''23:59:59'') ''tok'' db_one_user = Some 1"
  using reset_token_valid_all_day
    [of "''tok''" db_one_user "hd (rows (db_reset_tokens db_one_user))" "''2024-01-01''" "''01:00:00+00:00''"]
  by (simp add: db_one_user_def)

text \<open>
  Removing a device through \<open>remove_device_from_user\<close> never succeeds: the
  statement sets a column \<open>deleted_at\<close> that the table does not have.  The simple
  variant, without that column, deactivates exactly the addressed rows.
\<close>

theorem remove_device_results:
  "remove_device_from_user user_id device_id d = Inl (NoSuchColumn ''deleted_at'') \<and>
   (\<exists>d'. remove_device_from_user_simple user_id device_id d = Inr d' \<and>
         \<not> validate_device_ownership user_id device_id d' \<and>
         rows (db_user_devices d') =
           map (\<lambda>r. if ud_user_id r = user_id \<and> ud_device_id r = device_id
                     then r\<lparr>ud_is_active := False\<rparr> else r) (rows (db_user_devices d)))"
proof -
  let ?P = "\<lambda>r. ud_user_id r = user_id \<and> ud_device_id r = device_id"
  let ?d = "d\<lparr>db_user_devices := tbl_update ?P (\<lambda>r. r\<lparr>ud_is_active := False\<rparr>) (db_user_devices d)\<rparr>"
  have "remove_device_from_user_simple user_id device_id d = Inr ?d"
    by (simp add: remove_device_from_user_simple_def set_columns_ok_def user_devices_columns_def)
  moreover have "\<not> (?P r \<and> ud_is_active r)" if "r \<in> set (rows (db_user_devices ?d))" for r
  proof -
    have "r \<in> set (update_where ?P (\<lambda>r. r\<lparr>ud_is_active := False\<rparr>) (rows (db_user_devices d)))"
      using that by simp
    then show ?thesis by (rule update_where_all) auto
  qed
  then have "\<not> validate_device_ownership user_id device_id ?d"
    by (simp add: validate_device_ownership_def count_where_pos)
  moreover have "rows (db_user_devices ?d) =
      map (\<lambda>r. if ?P r then r\<lparr>ud_is_active := False\<rparr> else r) (rows (db_user_devices d))"
    by (simp add: update_where_def)
  ultimately show ?thesis using remove_device_fails [of user_id device_id d] by blast
qed

end
