(* ===== verification/Billing.thy ===== *)
theory Billing
  imports Db_Invariant
begin

text \<open>
  What a subscription buys and how a payment is settled: the device limit, the
  active subscription after a payment, replayed and forged notifications, and
  the string both sides sign.
\<close>

section \<open>Devices\<close>

lemma count_active_replace:
  assumes "replace_device_row now req d = Inr (d', i)"
  shows "count_user_active_devices (cdr_user_id req) d' \<le> count_user_active_devices (cdr_user_id req) d + 1"
    and "validate_device_ownership (cdr_user_id req) (cdr_device_id req) d'"
  using assms count_where_delete
  by (auto simp: replace_device_row_def Let_def count_user_active_devices_def active_devices_of_def
      validate_device_ownership_def count_where_pos split: if_splits)

section \<open>Orders\<close>

lemma find_paid_after:
  assumes "find (\<lambda>r. o_order_no r = no) rs = Some r" "o_status r = ''pending''"
  shows "\<exists>r'. find (\<lambda>r. o_order_no r = no)
       (update_where (\<lambda>r. o_order_no r = no \<and> o_status r = ''pending'')
         (\<lambda>r. r\<lparr>o_status := ''paid'', o_gateway_order_id := g, o_paid_at := t, o_updated_at := u\<rparr>) rs) = Some r'
       \<and> o_status r' = ''paid''"
  using assms by (induction rs) (auto simp: update_where_def split: if_splits)

lemma orders_activate [simp]:
  "db_orders (activate_subscription_for_order now e u p d) = db_orders d"
  "db_settings (activate_subscription_for_order now e u p d) = db_settings d"
  by (cases rule: create_user_subscription_cases
        [of now u p "Some e" None
          "case get_user_active_subscription now u d of
             Some sub \<Rightarrow> deactivate_user_subscription now (sub_id sub) d | None \<Rightarrow> d"];
      simp add: activate_subscription_for_order_def deactivate_all_def
        deactivate_user_subscription_def Let_def split: option.splits)+

lemma settings_mark_paid [simp]: "db_settings (fst (mark_order_paid now no g d)) = db_settings d"
  by (auto simp: mark_order_paid_def split: option.splits)

lemma settings_settle [simp]: "db_settings (settle_order now e no g d) = db_settings d"
  by (auto simp: settle_order_def mark_order_paid_def split: option.splits)

text \<open>A paid order is settled: doing it again changes nothing.\<close>

lemma settle_paid:
  "find (\<lambda>r. o_order_no r = no) (rows (db_orders d)) = Some r \<Longrightarrow> o_status r = ''paid'' \<Longrightarrow>
   settle_order now e no g d = d"
  by (simp add: settle_order_def mark_order_paid_def)

lemma settle_marks_paid:
  assumes "find (\<lambda>r. o_order_no r = no) (rows (db_orders d)) = Some r"
    "o_status r = ''pending'' \<or> o_status r = ''paid''"
  shows "\<exists>r'. find (\<lambda>r. o_order_no r = no) (rows (db_orders (settle_order now e no g d))) = Some r' \<and>
              o_status r' = ''paid''"
proof (cases "o_status r = ''paid''")
  case True
  then show ?thesis using assms(1) settle_paid by simp
next
  case False
  then show ?thesis
    using assms find_paid_after [OF assms(1)]
    by (simp add: settle_order_def mark_order_paid_def)
qed

lemma settle_twice:
  assumes "find (\<lambda>r. o_order_no r = no) (rows (db_orders d)) = Some r"
    "o_status r = ''pending'' \<or> o_status r = ''paid''"
  shows "settle_order now' e' no g' (settle_order now e no g d) = settle_order now e no g d"
  using settle_marks_paid [OF assms, of now e g] settle_paid by blast

section \<open>The active subscription after a payment\<close>

lemma filter_key_singleton:
  "distinct (map f xs) \<Longrightarrow> x \<in> set xs \<Longrightarrow> filter (\<lambda>y. f y = f x) xs = [x]"
proof (induction xs)
  case (Cons y ys)
  then have "f z \<noteq> f y" if "z \<in> set ys" for z using that by (metis distinct.simps(2) image_eqI list.simps(9) set_map)
  then show ?case using Cons by (auto simp: filter_empty_conv)
qed simp

lemma no_current_after_deactivate:
  "filter (sub_current now u) (rows (db_subscriptions (deactivate_all now' u d))) = []"
  using active_subs_deactivate_all [of u now' u d]
  by (auto simp: active_subs_def count_where_eq_0 filter_empty_conv sub_current_def)

lemma active_after_create:
  assumes "db_ok d" "u \<in> user_ids d" "p \<in> plan_ids d" "str_less now e"
  shows "\<exists>s. get_user_active_subscription now u (fst (create_user_subscription now u p (Some e) n d)) = Some s \<and>
             sub_user_id s = u \<and> sub_plan_id s = p \<and> sub_expires_at s = Some e"
proof (cases rule: create_user_subscription_cases [of now u p "Some e" n d])
  case fk
  then show ?thesis using assms by auto
next
  case ok
  obtain q where q: "q \<in> set (rows (db_plans d))" "sp_id q = p"
    using assms(3) by (auto simp: plan_ids_def)
  then have "filter (\<lambda>x. sp_id x = p) (rows (db_plans d)) = [q]"
    using assms(1) filter_key_singleton [of sp_id "rows (db_plans d)" q]
    by (auto simp: db_ok_def plans_ok_def tbl_ok_def)
  then show ?thesis
    using ok(1) assms(4) no_current_after_deactivate [of now u now d]
    by (simp add: get_user_active_subscription_def sub_current_def join_plan_def order_desc_def)
       (simp add: deactivate_all_def)
qed

lemma active_after_activate:
  assumes "db_ok d" "u \<in> user_ids d" "p \<in> plan_ids d" "str_less now e"
  shows "\<exists>s. get_user_active_subscription now u (activate_subscription_for_order now e u p d) = Some s \<and>
             sub_user_id s = u \<and> sub_plan_id s = p \<and> sub_expires_at s = Some e"
proof -
  let ?d = "case get_user_active_subscription now u d of
      Some sub \<Rightarrow> deactivate_user_subscription now (sub_id sub) d | None \<Rightarrow> d"
  have "db_ok ?d" "user_ids ?d = user_ids d" "plan_ids ?d = plan_ids d"
    using assms(1) ok_deactivate(1)
    by (auto simp: deactivate_user_subscription_def split: option.splits)
  then show ?thesis
    using active_after_create [of ?d u p now e None] assms
    by (simp add: activate_subscription_for_order_def Let_def)
qed

section \<open>Signed strings\<close>

definition btree_of :: "(string \<times> string) list \<Rightarrow> (string \<times> string) list" where
  "btree_of params = fold (\<lambda>(k, v) m. btree_insert k v m) params []"

definition btree_sorted :: "(string \<times> string) list \<Rightarrow> bool" where
  "btree_sorted m \<longleftrightarrow> sorted_wrt str_less (map fst m)"

lemma set_btree_insert:
  "k \<notin> fst ` set m \<Longrightarrow> set (btree_insert k v m) = insert (k, v) (set m)"
  by (induction k v m rule: btree_insert.induct) auto

lemma btree_sorted_insert: "btree_sorted m \<Longrightarrow> k \<notin> fst ` set m \<Longrightarrow> btree_sorted (btree_insert k v m)"
proof (induction k v m rule: btree_insert.induct)
  case (2 k v k' v' r)
  then have "k \<noteq> k'" by auto
  then show ?case
    using 2 str_less_linear [of k k'] set_btree_insert [of k r v]
    by (auto simp: btree_sorted_def intro: str_less_trans)
qed (simp add: btree_sorted_def)

lemma btree_sorted_distinct: "btree_sorted m \<Longrightarrow> distinct (map fst m)"
  by (induction m) (auto simp: btree_sorted_def)

lemma sorted_unique:
  "btree_sorted xs \<Longrightarrow> btree_sorted ys \<Longrightarrow> set xs = set ys \<Longrightarrow> xs = ys"
proof (induction xs arbitrary: ys)
  case (Cons x xs)
  then obtain y ys' where ys: "ys = y # ys'" by (cases ys) auto
  have nx: "x \<notin> set xs" and ny: "y \<notin> set ys'"
    using Cons.prems ys by (auto simp: btree_sorted_def)
  have "x = y"
  proof (rule ccontr)
    assume "x \<noteq> y"
    then have "x \<in> set ys'" "y \<in> set xs" using Cons.prems(3) ys by auto
    then have "str_less (fst y) (fst x)" "str_less (fst x) (fst y)"
      using Cons.prems(1,2) ys by (auto simp: btree_sorted_def)
    then show False using str_less_trans str_less_irrefl by blast
  qed
  moreover from this have "set xs = set ys'" using Cons.prems(3) ys nx ny by auto
  ultimately show ?case using Cons ys by (simp add: btree_sorted_def)
qed simp

lemma fold_btree_insert:
  assumes "distinct (map fst ps @ map fst m)" "btree_sorted m"
  shows "btree_sorted (fold (\<lambda>(k, v) m. btree_insert k v m) ps m) \<and>
         set (fold (\<lambda>(k, v) m. btree_insert k v m) ps m) = set ps \<union> set m"
  using assms
proof (induction ps arbitrary: m)
  case (Cons p ps)
  obtain k v where p: "p = (k, v)" by (cases p)
  have k: "k \<notin> fst ` set m" using Cons.prems(1) p by auto
  have "distinct (map fst (btree_insert k v m))"
    by (rule btree_sorted_distinct [OF btree_sorted_insert [OF Cons.prems(2) k]])
  then have "distinct (map fst ps @ map fst (btree_insert k v m))"
    using Cons.prems(1) p set_btree_insert [OF k, of v] by (auto simp: image_iff)
  then show ?case
    using Cons.IH [of "btree_insert k v m"] btree_sorted_insert [OF Cons.prems(2) k, of v] p
      set_btree_insert [OF k, of v] by simp
qed simp

lemma btree_of_sorted:
  "distinct (map fst ps) \<Longrightarrow> btree_sorted (btree_of ps) \<and> set (btree_of ps) = set ps"
  using fold_btree_insert [of ps "[]"] by (simp add: btree_of_def btree_sorted_def)

lemma notify_map_filter:
  "fold (\<lambda>(k, v) m. if signed_param (k, v) then btree_insert k v m else m) ps m =
   fold (\<lambda>(k, v) m. btree_insert k v m) (filter signed_param ps) m"
  by (induction ps arbitrary: m) auto

section \<open>Properties\<close>

text \<open>
  C40.  The string the server verifies on an Alipay notification does not depend on
  the order in which the form's hash map is iterated, and is the string
  \<open>alipay_build_sign_str\<close> builds for the same parameters.
\<close>

theorem notify_sign_str_canonical:
  assumes "distinct (map fst ps)" "distinct (map fst qs)" "set qs = set ps"
  shows "notify_sign_str qs = alipay_build_sign_str (btree_of ps)"
proof -
  have "btree_of (filter signed_param qs) = filter signed_param (btree_of ps)"
  proof (rule sorted_unique)
    show "btree_sorted (btree_of (filter signed_param qs))"
      using assms(2) by (simp add: btree_of_sorted distinct_map_filter)
    show "btree_sorted (filter signed_param (btree_of ps))"
      using btree_of_sorted [OF assms(1)] by (simp add: btree_sorted_def sorted_wrt_map sorted_wrt_filter)
    show "set (btree_of (filter signed_param qs)) = set (filter signed_param (btree_of ps))"
      using assms btree_of_sorted [of ps] btree_of_sorted [of "filter signed_param qs"]
      by (simp add: distinct_map_filter)
  qed
  then show ?thesis
    by (simp add: notify_sign_str_def alipay_build_sign_str_def notify_map_filter btree_of_def)
qed

theorem notify_sign_str_canonical_witness:
  "notify_sign_str [(''b'', ''2''), (''sign'', ''x''), (''a'', ''1'')] = ''a=1&b=2''"
proof -
  have "alipay_build_sign_str (btree_of [(''a'', ''1''), (''b'', ''2''), (''sign'', ''x'')]) = ''a=1&b=2''"
    by (simp add: btree_of_def alipay_build_sign_str_def signed_param_def kv_pair_def)
  then show ?thesis
    using notify_sign_str_canonical
      [of "[(''a'', ''1''), (''b'', ''2''), (''sign'', ''x'')]"
          "[(''b'', ''2''), (''sign'', ''x''), (''a'', ''1'')]"]
    by (auto simp del: btree_insert.simps)
qed

text \<open>
  The device limit holds: after a successful registration of a device, by
  either variant, the user owns the device and has at most as many active
  devices as the plan allows, unless the plan is unlimited.
\<close>

theorem add_device_within_limit:
  assumes "add = add_device_to_user \<or> add = add_device_to_user_simple"
    and "add now req d = Inr (d', i)"
    and "0 < get_user_device_limit now (cdr_user_id req) d"
  shows "count_user_active_devices (cdr_user_id req) d' \<le> get_user_device_limit now (cdr_user_id req) d \<and>
         validate_device_ownership (cdr_user_id req) (cdr_device_id req) d'"
proof -
  have "replace_device_row now req d = Inr (d', i)"
    and "count_user_active_devices (cdr_user_id req) d < get_user_device_limit now (cdr_user_id req) d"
    using assms
    by (auto simp: add_device_to_user_def add_device_to_user_simple_def Let_def
        count_user_active_devices_def split: if_splits)
  then show ?thesis using count_active_replace [of now req d d' i] by simp
qed

theorem add_device_within_limit_witness:
  "\<exists>d' i. add_device_to_user [] \<lparr>cdr_user_id = 1, cdr_device_id = ''pc'', cdr_device_name = None\<rparr> db_one_user = Inr (d', i) \<and>
     count_user_active_devices 1 d' \<le> 2"
proof -
  let ?r = "\<lparr>cdr_user_id = 1, cdr_device_id = ''pc'', cdr_device_name = None\<rparr>"
  have e: "rows (db_user_devices db_one_user) = []" "rows (db_subscriptions db_one_user) = []"
    by (simp_all add: db_one_user_def fresh_db_def migrate_settings_def migrate_subscriptions_def tbl_empty_def)
  then have l: "get_user_device_limit [] 1 db_one_user = 2"
    by (simp add: get_user_device_limit_def get_user_active_subscription_def order_desc_def FREE_DEVICE_LIMIT_def)
  have u: "rows (db_users db_one_user) = [\<lparr>u_id = 1, u_username = ''ann'', u_email = ''a@x'',
     u_password_hash = ''old'', u_created_at = [], u_updated_at = [], u_is_active = True,
     u_role = ''admin''\<rparr>]" by (simp add: db_one_user_def)
  obtain d' i where "add_device_to_user [] ?r db_one_user = Inr (d', i)"
    by (simp add: add_device_to_user_def Let_def e u l replace_device_row_def)
  then show ?thesis using add_device_within_limit [of add_device_to_user "[]" ?r db_one_user d' i] l by auto
qed

text \<open>
  A notification is settled once: replaying an accepted Alipay notification,
  at any later time, leaves the database as the first delivery left it.
\<close>

theorem alipay_notify_replay:
  assumes "find (\<lambda>r. o_order_no r = or_empty (map_of params ''out_trade_no'')) (rows (db_orders d)) = Some r"
    and "o_status r = ''pending'' \<or> o_status r = ''paid''"
  shows "fst (alipay_notify pe now' expires' params (fst (alipay_notify pe now expires params d))) =
         fst (alipay_notify pe now expires params d)"
  using settle_twice [OF assms]
  by (simp add: alipay_notify_def Let_def get_setting_def)

definition order_example :: order_row where
  "order_example = \<lparr>o_id = 1, o_order_no = ''ORD1'', o_user_id = 1, o_plan_id = 2, o_amount = ''9.90'',
     o_currency = ''CNY'', o_payment_method = ''alipay'', o_status = ''pending'',
     o_gateway_order_id = None, o_gateway_qr = None, o_stripe_checkout_url = None,
     o_paid_at = None, o_created_at = [], o_updated_at = []\<rparr>"

definition db_one_order :: database where
  "db_one_order = db_one_user\<lparr>db_orders := \<lparr>rows = [order_example], seq = 1\<rparr>,
     db_settings := [(''payment.alipay_public_key'', ''key'')]\<rparr>"

definition accepting_env :: pay_env where
  "accepting_env = \<lparr>pe_rsa_sign = \<lambda>_ _. None, pe_rsa_verify = \<lambda>_ _ _. True,
     pe_hmac_sha256_hex = \<lambda>_ _. [], pe_utf8_lossy = \<lambda>_. [], pe_json_event = \<lambda>_. None\<rparr>"

theorem alipay_notify_replay_witness:
  "let ps = [(''out_trade_no'', ''ORD1''), (''trade_status'', ''TRADE_SUCCESS'')];
       d1 = fst (alipay_notify accepting_env ''1'' ''2'' ps db_one_order)
   in fst (alipay_notify accepting_env ''3'' ''4'' ps d1) = d1"
  using alipay_notify_replay
    [of "[(''out_trade_no'', ''ORD1''), (''trade_status'', ''TRADE_SUCCESS'')]" db_one_order order_example
        accepting_env "''3''" "''4''" "''1''" "''2''"]
  by (simp add: Let_def db_one_order_def order_example_def or_empty_def)


lemma fresh_plan_ids: "map sp_id (rows (db_plans fresh_db)) = [1, 2, 3, 4]"
  by (simp add: fresh_db_def migrate_settings_def migrate_subscriptions_def seed_plans_def
      insert_plan_or_ignore_def tbl_insert_def tbl_empty_def)

lemma db_one_order_ok: "db_ok db_one_order"
proof -
  have "set (map sp_id (rows (db_plans fresh_db))) = {1, 2, 3, 4}" unfolding fresh_plan_ids by auto
  then have p: "sp_id ` set (rows (db_plans fresh_db)) = {1, 2, 3, 4}" by (simp only: set_map)
  have e: "db_peer fresh_db = []" "db_user_devices fresh_db = tbl_empty" "db_subscriptions fresh_db = tbl_empty"
    by (simp_all add: fresh_db_def migrate_settings_def migrate_subscriptions_def)
  have "plans_ok fresh_db" using fresh_db_ok by (simp add: db_ok_def)
  then show ?thesis
    by (simp add: db_ok_def table_ok_defs db_one_order_def db_one_user_def order_example_def tbl_ok_def
        user_ids_def plan_ids_def p e tbl_empty_def active_subs_def USER_ROLE_ADMIN_def)
qed


text \<open>
  Forged notifications change nothing: when a callback of either gateway
  changes the database, a key was configured and the signature over the
  received content verified under it.
\<close>

theorem callbacks_need_signature:
  "(fst (alipay_notify pe now expires params d) \<noteq> d \<longrightarrow>
      or_empty (get_setting ''payment.alipay_public_key'' d) \<noteq> [] \<and>
      rsa2_verify pe (or_empty (get_setting ''payment.alipay_public_key'' d)) (notify_sign_str params)
        (or_empty (map_of params ''sign''))) \<and>
   (fst (stripe_webhook pe now expires sig body d) \<noteq> d \<longrightarrow>
      or_empty (get_setting ''payment.stripe_webhook_secret'' d) \<noteq> [] \<and>
      stripe_verify_webhook pe (or_empty (get_setting ''payment.stripe_webhook_secret'' d)) body (or_empty sig))"
  by (auto simp: alipay_notify_def stripe_webhook_def Let_def split: if_splits option.splits)

theorem callbacks_need_signature_witness:
  "let ps = [(''out_trade_no'', ''ORD1''), (''trade_status'', ''TRADE_SUCCESS'')]
   in fst (alipay_notify accepting_env ''1'' ''2'' ps db_one_order) \<noteq> db_one_order \<and>
      rsa2_verify accepting_env ''key'' (notify_sign_str ps) []"
proof -
  let ?ps = "[(''out_trade_no'', ''ORD1''), (''trade_status'', ''TRADE_SUCCESS'')]"
  have f: "find (\<lambda>r. o_order_no r = ''ORD1'') (rows (db_orders db_one_order)) = Some order_example"
    by (simp add: db_one_order_def order_example_def)
  have "settle_order ''1'' ''2'' ''ORD1'' [] db_one_order \<noteq> db_one_order"
    using settle_marks_paid [OF f, of "''1''" "''2''" "[]"] f by (auto simp: order_example_def)
  then have "fst (alipay_notify accepting_env ''1'' ''2'' ?ps db_one_order) \<noteq> db_one_order"
    by (simp add: alipay_notify_def Let_def get_setting_def db_one_order_def or_empty_def
        rsa2_verify_def accepting_env_def)
  then show ?thesis
    using callbacks_need_signature [of accepting_env "''1''" "''2''" ?ps db_one_order]
    by (simp add: Let_def get_setting_def db_one_order_def or_empty_def)
qed

end
