(* ===== verification/Peer_Map.thy ===== *)
theory Peer_Map
  imports Common Db_Invariant Rendezvous_Codec
begin

text \<open>
  The peers of \<open>src/peer.rs\<close>: the in-memory map in front of the \<open>peer\<close> table, the
  registration of a public key with its binding to a user's device, and the
  global table of online peers.  A peer is shared between handlers behind an
  \<open>Arc<RwLock<Peer>>\<close>; as entries are never removed, writing through the
  shared reference is writing the map's entry.  The environment variables,
  JSON and JWT libraries and the random guid are fields of \<open>peer_env\<close>.
\<close>

section \<open>Peers\<close>

definition IP_CHANGE_DUR :: nat where "IP_CHANGE_DUR = 180"
definition IP_CHANGE_DUR_X2 :: nat where "IP_CHANGE_DUR_X2 = IP_CHANGE_DUR * 2"
definition DAY_SECONDS :: nat where "DAY_SECONDS = 3600 * 24"
definition IP_BLOCK_DUR :: nat where "IP_BLOCK_DUR = 60"

record peer =
  p_socket_addr :: socket_addr
  p_last_reg_time :: instant
  p_guid :: bytes
  p_uuid :: bytes
  p_pk :: bytes
  p_user_id :: "i64 option"
  p_device_id :: "i64 option"
  p_info_ip :: string
  p_disabled :: bool
  p_reg_pk :: "nat \<times> instant"
  p_protocol :: protocol

definition default_peer :: "instant \<Rightarrow> peer" where
  "default_peer now = \<lparr>p_socket_addr = V4 (Ipv4Addr 0 0 0 0) 0,
     p_last_reg_time = get_expired_time now, p_guid = [], p_uuid = [], p_pk = [],
     p_user_id = None, p_device_id = None, p_info_ip = [], p_disabled = False,
     p_reg_pk = (0, get_expired_time now), p_protocol = Proto3\<rparr>"

record online_conn =
  oc_peer_id :: string
  oc_ip :: string
  oc_user_id :: "i64 option"
  oc_connected_at :: instant
  oc_last_seen :: instant

record peer_map =
  pm_map :: "(string \<times> peer) list"
  pm_db :: database
  pm_online :: "(string \<times> online_conn) list"

text \<open>A JWT's claims as \<open>serde_json\<close> values: \<open>sub\<close> may be a number, a text or neither.\<close>

datatype json_sub = SubNumber "i64 option" | SubString string | SubOther

record jwt_claims =
  jc_sub :: "json_sub option"
  jc_udid :: "i64 option"

record peer_env =
  env_now :: instant
  env_timestamp :: timestamp
  env_require_peer_jwt :: "string option"
  env_jwt_decode :: "string \<Rightarrow> jwt_claims option"
  env_info_to_json :: "string \<Rightarrow> string"
  env_info_from_json :: "string \<Rightarrow> string option"
  env_json_str :: "string \<Rightarrow> string option"
  env_guid :: bytes
  env_db_up :: bool

definition eq_ignore_ascii_case :: "string \<Rightarrow> string \<Rightarrow> bool" where
  "eq_ignore_ascii_case a b \<longleftrightarrow> to_lower a = to_lower b"

definition require_jwt :: "peer_env \<Rightarrow> bool" where
  "require_jwt env =
     (case env_require_peer_jwt env of
        Some v \<Rightarrow> v = ''1'' \<or> eq_ignore_ascii_case v ''true''
      | None \<Rightarrow> False)"

definition parse_i64 :: "string \<Rightarrow> i64 option" where
  "parse_i64 s = parse_signed i64_max s"

definition validate_peer_token :: "peer_env \<Rightarrow> string \<Rightarrow> string \<Rightarrow> database \<Rightarrow> (i64 \<times> i64) option" where
  "validate_peer_token env token pk_peer_id d =
     (case env_jwt_decode env token of
        None \<Rightarrow> None
      | Some claims \<Rightarrow>
          (case (case jc_sub claims of
                   Some (SubNumber n) \<Rightarrow> n
                 | Some (SubString s) \<Rightarrow> parse_i64 (trim s)
                 | _ \<Rightarrow> None) of
             None \<Rightarrow> None
           | Some user_id \<Rightarrow>
               if \<not> env_db_up env then None
               else (case resolve_peer_device_binding user_id (jc_udid claims) pk_peer_id d of
                  Inl _ \<Rightarrow> None
                | Inr device_row_id \<Rightarrow> Some (user_id, device_row_id))))"

section \<open>Lookups\<close>

definition get_in_memory :: "string \<Rightarrow> peer_map \<Rightarrow> peer option" where
  "get_in_memory pid pm = map_of (pm_map pm) pid"

definition is_in_memory :: "string \<Rightarrow> peer_map \<Rightarrow> bool" where
  "is_in_memory pid pm \<longleftrightarrow> map_of (pm_map pm) pid \<noteq> None"

definition put_peer :: "string \<Rightarrow> peer \<Rightarrow> peer_map \<Rightarrow> peer_map" where
  "put_peer pid p pm = pm\<lparr>pm_map := AList.update pid p (pm_map pm)\<rparr>"

definition load_peer :: "peer_env \<Rightarrow> peer_row \<Rightarrow> peer" where
  "load_peer env v =
     (default_peer (env_now env))\<lparr>p_guid := pr_guid v, p_uuid := pr_uuid v, p_pk := pr_pk v,
        p_user_id := pr_user_id v, p_device_id := pr_device_id v,
        p_info_ip := (case env_info_from_json env (pr_info v) of Some ip \<Rightarrow> ip | None \<Rightarrow> [])\<rparr>"

definition pm_get :: "peer_env \<Rightarrow> string \<Rightarrow> peer_map \<Rightarrow> peer_map \<times> peer option" where
  "pm_get env pid pm =
     (case map_of (pm_map pm) pid of
        Some p \<Rightarrow> (pm, Some p)
      | None \<Rightarrow>
          if \<not> env_db_up env then (pm, None)
          else (case get_peer (env_json_str env) pid (pm_db pm) of
                  Some v \<Rightarrow> (put_peer pid (load_peer env v) pm, Some (load_peer env v))
                | None \<Rightarrow> (pm, None)))"

definition pm_get_or :: "peer_env \<Rightarrow> string \<Rightarrow> peer_map \<Rightarrow> peer_map \<times> peer" where
  "pm_get_or env pid pm =
     (case pm_get env pid pm of
        (pm1, Some p) \<Rightarrow> (pm1, p)
      | (pm1, None) \<Rightarrow>
          (case map_of (pm_map pm1) pid of
             Some p \<Rightarrow> (pm1, p)
           | None \<Rightarrow> (put_peer pid (default_peer (env_now env)) pm1, default_peer (env_now env))))"

text \<open>The first peer, in the map's order, that was seen at the address.\<close>

definition protocol_for_addr :: "socket_addr \<Rightarrow> peer_map \<Rightarrow> protocol" where
  "protocol_for_addr addr pm =
     (case find (\<lambda>(_, p). try_into_v4 (p_socket_addr p) = try_into_v4 addr) (pm_map pm) of
        Some (_, p) \<Rightarrow> p_protocol p
      | None \<Rightarrow> Proto3)"

section \<open>Registering a public key\<close>

definition token_trimmed :: "string option \<Rightarrow> string option" where
  "token_trimmed user_token =
     (case user_token of
        None \<Rightarrow> None
      | Some t \<Rightarrow> if trim t = [] then None else Some (trim t))"

definition touch_online :: "peer_env \<Rightarrow> string \<Rightarrow> peer \<Rightarrow> peer_map \<Rightarrow> peer_map" where
  "touch_online env pid p pm =
     (let now = env_now env;
          entry = (case map_of (pm_online pm) pid of
              Some e \<Rightarrow> e
            | None \<Rightarrow> \<lparr>oc_peer_id = pid, oc_ip = p_info_ip p, oc_user_id = p_user_id p,
                       oc_connected_at = now, oc_last_seen = now\<rparr>)
      in pm\<lparr>pm_online := AList.update pid
              (entry\<lparr>oc_last_seen := now, oc_ip := p_info_ip p, oc_user_id := p_user_id p\<rparr>) (pm_online pm)\<rparr>)"

text \<open>
  The part of \<open>update_pk\<close> after the token check: the peer \<open>p\<close> of the map is
  written first, then the row is inserted or updated.
\<close>

definition store_pk ::
  "peer_env \<Rightarrow> string \<Rightarrow> peer \<Rightarrow> socket_addr \<Rightarrow> bytes \<Rightarrow> bytes \<Rightarrow> string \<Rightarrow> peer_map \<Rightarrow>
   peer_map \<times> register_result" where
  "store_pk env pid p addr uuid pk ip pm =
     (let w = p\<lparr>p_socket_addr := addr, p_uuid := uuid, p_pk := pk,
                p_last_reg_time := env_now env, p_info_ip := ip\<rparr>;
          info_str = env_info_to_json env ip;
          pm1 = put_peer pid w pm
      in if p_guid w = [] then
           if \<not> env_db_up env then (pm1, SERVER_ERROR)
           else
             let (d', guid) = insert_peer_with_user (env_timestamp env) (env_guid env) pid uuid pk info_str
                                (p_user_id w) (p_device_id w) (pm_db pm1);
                 w' = w\<lparr>p_guid := guid\<rparr>
             in (touch_online env pid w' (put_peer pid w' (pm1\<lparr>pm_db := d'\<rparr>)), OK)
         else
           if \<not> env_db_up env then (pm1, SERVER_ERROR)
           else
             let d' = update_pk_with_user (p_guid w) pid pk info_str (p_user_id w) (p_device_id w) (pm_db pm1)
             in (touch_online env pid w (pm1\<lparr>pm_db := d'\<rparr>), OK))"

definition update_pk ::
  "peer_env \<Rightarrow> string \<Rightarrow> peer \<Rightarrow> socket_addr \<Rightarrow> bytes \<Rightarrow> bytes \<Rightarrow> string \<Rightarrow> string option \<Rightarrow> peer_map \<Rightarrow>
   peer_map \<times> register_result" where
  "update_pk env pid p addr uuid pk ip user_token pm =
     (if require_jwt env \<and> token_trimmed user_token = None then (pm, SERVER_ERROR)
      else
        (case token_trimmed user_token of
           None \<Rightarrow> store_pk env pid p addr uuid pk ip pm
         | Some token \<Rightarrow>
             (case validate_peer_token env token pid (pm_db pm) of
                None \<Rightarrow> (pm, SERVER_ERROR)
              | Some (user_id, device_row_id) \<Rightarrow>
                  let p1 = p\<lparr>p_user_id := Some user_id, p_device_id := Some device_row_id\<rparr>
                  in store_pk env pid p1 addr uuid pk ip (put_peer pid p1 pm))))"

section \<open>The store contract\<close>

text \<open>
  What the handlers rely on: an entry is found after it was written, and other
  entries are untouched.
\<close>

locale peer_store =
  fixes look :: "string \<Rightarrow> 's \<Rightarrow> 'p option"
    and put :: "string \<Rightarrow> 'p \<Rightarrow> 's \<Rightarrow> 's"
  assumes look_put: "look k (put k' p s) = (if k = k' then Some p else look k s)"
begin

lemma look_put_same: "look k (put k p s) = Some p"
  by (simp add: look_put)

lemma look_put_other: "k \<noteq> k' \<Longrightarrow> look k (put k' p s) = look k s"
  by (simp add: look_put)

lemma look_put_put: "look k (put k' p (put k' q s)) = look k (put k' p s)"
  by (simp add: look_put)

end

interpretation mem: peer_store get_in_memory put_peer
  by unfold_locales (simp add: get_in_memory_def put_peer_def update_conv')

interpretation online: peer_store "\<lambda>k pm. map_of (pm_online pm) k"
    "\<lambda>k c pm. pm\<lparr>pm_online := AList.update k c (pm_online pm)\<rparr>"
  by unfold_locales (simp add: update_conv')

lemma put_peer_frame [simp]:
  "pm_db (put_peer k p pm) = pm_db pm" "pm_online (put_peer k p pm) = pm_online pm"
  by (simp_all add: put_peer_def)

lemma touch_online_frame [simp]:
  "pm_db (touch_online env k p pm) = pm_db pm" "pm_map (touch_online env k p pm) = pm_map pm"
  "get_in_memory k' (touch_online env k p pm) = get_in_memory k' pm"
  by (simp_all add: touch_online_def Let_def get_in_memory_def)

lemma get_in_memory_db [simp]: "get_in_memory k (pm\<lparr>pm_db := d\<rparr>) = get_in_memory k pm"
  by (simp add: get_in_memory_def)

lemma pm_get_frame [simp]: "pm_db (fst (pm_get env k pm)) = pm_db pm"
  by (auto simp: pm_get_def split: option.splits)

lemma pm_get_memory:
  "pm_get env k pm = (pm', r) \<Longrightarrow> get_in_memory k pm' = r \<and> (k' \<noteq> k \<longrightarrow> get_in_memory k' pm' = get_in_memory k' pm)"
  using mem.look_put_same [of k] mem.look_put_other [of k' k]
  by (auto simp: pm_get_def get_in_memory_def split: option.splits if_splits)

lemma pm_get_or_memory:
  "pm_get_or env k pm = (pm', p) \<Longrightarrow>
   get_in_memory k pm' = Some p \<and> (k' \<noteq> k \<longrightarrow> get_in_memory k' pm' = get_in_memory k' pm) \<and> pm_db pm' = pm_db pm"
proof -
  assume a: "pm_get_or env k pm = (pm', p)"
  obtain pm1 r where g: "pm_get env k pm = (pm1, r)" by (cases "pm_get env k pm")
  have f: "pm_db pm1 = pm_db pm" using pm_get_frame [of env k pm] g by simp
  show ?thesis
    using a g f pm_get_memory [OF g, of k'] mem.look_put_same [of k] mem.look_put_other [of k' k]
    by (auto simp: pm_get_or_def get_in_memory_def split: option.splits)
qed

section \<open>What a registration stores\<close>

lemma find_update_where_peer:
  "\<lbrakk>find (\<lambda>r. pr_id r = k) rs = Some r; \<And>r. pr_id (f r) = pr_id r\<rbrakk> \<Longrightarrow>
   find (\<lambda>r. pr_id r = k) (update_where P f rs) = Some (if P r then f r else r)"
  by (induction rs) (auto simp: update_where_def split: if_splits)

definition db_peer_of :: "string \<Rightarrow> database \<Rightarrow> peer_row option" where
  "db_peer_of k d = find (\<lambda>r. pr_id r = k) (db_peer d)"

lemma db_peer_of_insert:
  "db_peer_of k (fst (insert_peer_with_user t g k u pk info a b d)) =
     Some \<lparr>pr_guid = g, pr_id = k, pr_uuid = u, pr_pk = pk, pr_user = None,
           pr_status = None, pr_info = info, pr_created_at = t, pr_user_id = a, pr_device_id = b\<rparr>"
proof -
  have "find (\<lambda>r. pr_id r = k) (delete_where (\<lambda>r. pr_guid r = g \<or> pr_id r = k) (db_peer d)) = None"
    by (auto simp: find_None_iff)
  then show ?thesis by (simp add: db_peer_of_def insert_peer_with_user_def find_append)
qed

lemma db_peer_of_update:
  "db_peer_of k d = Some r \<Longrightarrow> pr_guid r = g \<Longrightarrow>
   db_peer_of k (update_pk_with_user g k pk info a b d) =
     Some (r\<lparr>pr_pk := pk, pr_info := info, pr_user_id := a, pr_device_id := b\<rparr>)"
  by (auto simp: db_peer_of_def update_pk_with_user_def find_update_where_peer dest: find_SomeD)

text \<open>
  A peer of the map is backed by its row: a known guid is the guid of the row
  with the peer's id.
\<close>

definition backed :: "string \<Rightarrow> peer \<Rightarrow> database \<Rightarrow> bool" where
  "backed k p d \<longleftrightarrow> p_guid p \<noteq> [] \<longrightarrow> (\<exists>r. db_peer_of k d = Some r \<and> pr_guid r = p_guid p)"

lemma store_pk_OK:
  assumes "store_pk env k p addr uuid pk ip pm = (pm', OK)" "backed k p (pm_db pm)"
  shows "\<exists>w r. get_in_memory k pm' = Some w \<and> p_uuid w = uuid \<and> p_pk w = pk \<and> p_socket_addr w = addr \<and>
     p_info_ip w = ip \<and> p_last_reg_time w = env_now env \<and> p_user_id w = p_user_id p \<and> p_device_id w = p_device_id p \<and>
     db_peer_of k (pm_db pm') = Some r \<and> pr_guid r = p_guid w \<and> pr_pk r = pk \<and>
     pr_info r = env_info_to_json env ip \<and> pr_user_id r = p_user_id p \<and> pr_device_id r = p_device_id p"
proof (cases "p_guid p = []")
  case True
  obtain d' g where i: "insert_peer_with_user (env_timestamp env) (env_guid env) k uuid pk
      (env_info_to_json env ip) (p_user_id p) (p_device_id p) (pm_db pm) = (d', g)" by fastforce
  have "db_peer_of k d' = Some \<lparr>pr_guid = env_guid env, pr_id = k, pr_uuid = uuid, pr_pk = pk, pr_user = None,
           pr_status = None, pr_info = env_info_to_json env ip, pr_created_at = env_timestamp env,
           pr_user_id = p_user_id p, pr_device_id = p_device_id p\<rparr>"
    using db_peer_of_insert i by (metis fst_conv)
  moreover have "g = env_guid env" using i by (simp add: insert_peer_with_user_def)
  ultimately show ?thesis
    using assms(1) True i
    by (auto simp: store_pk_def Let_def mem.look_put_same split: if_splits)
next
  case False
  then obtain r where r: "db_peer_of k (pm_db pm) = Some r" "pr_guid r = p_guid p"
    using assms(2) by (auto simp: backed_def)
  show ?thesis
    using assms(1) False db_peer_of_update [OF r]
    by (auto simp: store_pk_def Let_def mem.look_put_same r split: if_splits)
qed

lemma store_pk_fail: "store_pk env k p addr uuid pk ip pm = (pm', res) \<Longrightarrow> res \<noteq> OK \<Longrightarrow> pm_db pm' = pm_db pm \<and> res = SERVER_ERROR"
  by (auto simp: store_pk_def Let_def split: if_splits prod.splits)

lemma resolve_binding_owned:
  "resolve_peer_device_binding u udid k d = Inr i \<Longrightarrow>
   \<exists>r \<in> set (rows (db_user_devices d)). ud_id r = i \<and> ud_user_id r = u \<and> ud_device_id r = k \<and> ud_is_active r"
  by (auto simp: resolve_peer_device_binding_def split: option.splits if_splits dest!: find_SomeD)

lemma validate_peer_token_owned:
  "validate_peer_token env tok k d = Some (u, i) \<Longrightarrow>
   \<exists>r \<in> set (rows (db_user_devices d)). ud_id r = i \<and> ud_user_id r = u \<and> ud_device_id r = k \<and> ud_is_active r"
  by (auto simp: validate_peer_token_def dest!: resolve_binding_owned
      split: option.splits sum.splits if_splits)

lemma backed_same: "backed k p d \<Longrightarrow> p_guid q = p_guid p \<Longrightarrow> backed k q d"
  by (simp add: backed_def)

section \<open>Properties\<close>

text \<open>
  A successful \<open>update_pk\<close> stores the key in memory and in the peer's row, and
  when a user token was given, binds the peer to a user who owns an active
  device of that very id; without a token the peer keeps the binding it had.
\<close>

theorem update_pk_stores:
  assumes "update_pk env k p addr uuid pk ip user_token pm = (pm', OK)" "backed k p (pm_db pm)"
  shows "\<exists>w r. get_in_memory k pm' = Some w \<and> p_uuid w = uuid \<and> p_pk w = pk \<and>
     p_socket_addr w = addr \<and> p_last_reg_time w = env_now env \<and>
     db_peer_of k (pm_db pm') = Some r \<and> pr_guid r = p_guid w \<and> pr_pk r = pk \<and>
     pr_user_id r = p_user_id w \<and> pr_device_id r = p_device_id w \<and>
     (case token_trimmed user_token of
        None \<Rightarrow> p_user_id w = p_user_id p \<and> p_device_id w = p_device_id p \<and> \<not> require_jwt env
      | Some _ \<Rightarrow> \<exists>dev \<in> set (rows (db_user_devices (pm_db pm))).
          p_user_id w = Some (ud_user_id dev) \<and> p_device_id w = Some (ud_id dev) \<and>
          ud_device_id dev = k \<and> ud_is_active dev)"
proof (cases "token_trimmed user_token")
  case None
  then have "store_pk env k p addr uuid pk ip pm = (pm', OK)" "\<not> require_jwt env"
    using assms(1) by (auto simp: update_pk_def split: if_splits)
  then show ?thesis using store_pk_OK [OF _ assms(2)] None by fastforce
next
  case (Some tok)
  then obtain u i where v: "validate_peer_token env tok k (pm_db pm) = Some (u, i)"
    using assms(1) by (auto simp: update_pk_def split: option.splits)
  let ?p = "p\<lparr>p_user_id := Some u, p_device_id := Some i\<rparr>"
  have st: "store_pk env k ?p addr uuid pk ip (put_peer k ?p pm) = (pm', OK)"
    using assms(1) Some v by (simp add: update_pk_def Let_def)
  have b: "backed k ?p (pm_db (put_peer k ?p pm))"
    using assms(2) by (simp add: backed_def)
  obtain w r where "get_in_memory k pm' = Some w \<and> p_uuid w = uuid \<and> p_pk w = pk \<and>
     p_socket_addr w = addr \<and> p_last_reg_time w = env_now env \<and> p_user_id w = Some u \<and> p_device_id w = Some i \<and>
     db_peer_of k (pm_db pm') = Some r \<and> pr_guid r = p_guid w \<and> pr_pk r = pk \<and>
     pr_user_id r = Some u \<and> pr_device_id r = Some i"
    using store_pk_OK [OF st b] by auto
  then show ?thesis using validate_peer_token_owned [OF v] Some by auto
qed

definition test_env :: peer_env where
  "test_env = \<lparr>env_now = 10000 * nanos_per_sec, env_timestamp = ''2024-01-01 00:00:00'',
     env_require_peer_jwt = None, env_jwt_decode = \<lambda>_. None,
     env_info_to_json = \<lambda>ip. CHR ''{'' # ip,
     env_info_from_json = \<lambda>s. case s of c # cs \<Rightarrow> if c = CHR ''{'' then Some cs else None | [] \<Rightarrow> None,
     env_json_str = \<lambda>s. case s of c # cs \<Rightarrow> if c = CHR ''{'' then None else Some s | [] \<Rightarrow> None,
     env_guid = [7], env_db_up = True\<rparr>"

definition empty_pm :: peer_map where
  "empty_pm = \<lparr>pm_map = [], pm_db = fresh_db, pm_online = []\<rparr>"

theorem update_pk_stores_witness:
  "\<exists>pm' w. update_pk test_env ''peer-1'' (default_peer 0) (V4 (Ipv4Addr 1 2 3 4) 5) [1] [2] ''1.2.3.4'' None empty_pm = (pm', OK)
     \<and> get_in_memory ''peer-1'' pm' = Some w \<and> p_pk w = [2]"
proof -
  let ?u = "update_pk test_env ''peer-1'' (default_peer 0) (V4 (Ipv4Addr 1 2 3 4) 5) [1] [2] ''1.2.3.4'' None empty_pm"
  have "snd ?u = OK"
    by (simp add: update_pk_def require_jwt_def test_env_def token_trimmed_def store_pk_def Let_def
        default_peer_def insert_peer_with_user_def)
  then obtain pm' where e: "?u = (pm', OK)" by (metis prod.collapse)
  have "backed ''peer-1'' (default_peer 0) (pm_db empty_pm)" by (simp add: backed_def default_peer_def)
  then show ?thesis using update_pk_stores [OF e] e by auto
qed

text \<open>
  A refused \<open>update_pk\<close> answers \<open>SERVER_ERROR\<close> and leaves the database as it
  was; when the token is missing though required, or does not validate, the
  peers in memory are untouched as well.
\<close>

theorem update_pk_refused:
  assumes "update_pk env k p addr uuid pk ip user_token pm = (pm', res)" "res \<noteq> OK"
  shows "res = SERVER_ERROR \<and> pm_db pm' = pm_db pm \<and>
     ((case token_trimmed user_token of
         None \<Rightarrow> require_jwt env
       | Some tok \<Rightarrow> validate_peer_token env tok k (pm_db pm) = None) \<longrightarrow> pm' = pm)"
  using assms store_pk_fail
  by (fastforce simp: update_pk_def Let_def split: if_splits option.splits)

theorem update_pk_refused_witness:
  "snd (update_pk (test_env\<lparr>env_require_peer_jwt := Some ''1''\<rparr>) ''peer-1'' (default_peer 0)
     (V4 (Ipv4Addr 1 2 3 4) 5) [1] [2] ''1.2.3.4'' None empty_pm) = SERVER_ERROR"
proof -
  let ?u = "update_pk (test_env\<lparr>env_require_peer_jwt := Some ''1''\<rparr>) ''peer-1'' (default_peer 0)
     (V4 (Ipv4Addr 1 2 3 4) 5) [1] [2] ''1.2.3.4'' None empty_pm"
  have "snd ?u \<noteq> OK"
    by (simp add: update_pk_def require_jwt_def test_env_def token_trimmed_def)
  then show ?thesis using update_pk_refused [OF prod.collapse [symmetric]] by metis
qed

text \<open>
  Restart: a peer that was registered and is not in memory is loaded from the
  database with its guid, key, uuid and binding, but not its address: \<open>get_peer\<close> reads the
  JSON object in \<open>info\<close> as a JSON string, which fails, and so the IP address
  is lost.  The hypotheses on the JSON library say that an object is not a
  string and that the empty text is not an object.
\<close>

theorem reload_loses_ip:
  assumes "get_in_memory k pm = None" "env_db_up env" "db_peer_of k (pm_db pm) = Some r"
    and "pr_info r = env_info_to_json env ip"
    and "env_json_str env (env_info_to_json env ip) = None" "env_info_from_json env [] = None"
  shows "\<exists>w. pm_get env k pm = (put_peer k w pm, Some w) \<and> p_guid w = pr_guid r \<and> p_uuid w = pr_uuid r \<and>
     p_pk w = pr_pk r \<and> p_user_id w = pr_user_id r \<and> p_device_id w = pr_device_id r \<and> p_info_ip w = []"
proof -
  let ?v = "r\<lparr>pr_info := []\<rparr>"
  have "get_peer (env_json_str env) k (pm_db pm) = Some ?v"
    using assms(3-5) by (simp add: get_peer_def db_peer_of_def)
  then show ?thesis
    using assms(1,2,6) by (simp add: pm_get_def get_in_memory_def load_peer_def)
qed

theorem reload_loses_ip_witness:
  "\<exists>w. snd (pm_get test_env ''peer-1'' (empty_pm\<lparr>pm_db :=
       fst (insert_peer_with_user [] [7] ''peer-1'' [1] [2] (env_info_to_json test_env ''1.2.3.4'') None None fresh_db)\<rparr>))
     = Some w \<and> p_pk w = [2] \<and> p_info_ip w = []"
proof -
  let ?d = "fst (insert_peer_with_user [] [7] ''peer-1'' [1] [2] (env_info_to_json test_env ''1.2.3.4'') None None fresh_db)"
  let ?r = "\<lparr>pr_guid = [7], pr_id = ''peer-1'', pr_uuid = [1], pr_pk = [2],
     pr_user = None, pr_status = None, pr_info = env_info_to_json test_env ''1.2.3.4'',
     pr_created_at = [], pr_user_id = None, pr_device_id = None\<rparr>"
  have "db_peer_of ''peer-1'' ?d = Some ?r" by (rule db_peer_of_insert)
  then show ?thesis
    using reload_loses_ip [of "''peer-1''" "empty_pm\<lparr>pm_db := ?d\<rparr>" test_env ?r "''1.2.3.4''"]
    by (auto simp: empty_pm_def get_in_memory_def test_env_def)
qed

end
