(* ===== verification/Rate_Limit.thy ===== *)
theory Rate_Limit
  imports Peer_Map
begin

text \<open>
  The rate limits of key registration in \<open>src/rendezvous_server.rs\<close>: the blocker of
  an IP address (\<open>check_ip_blocker\<close>), the limit per peer (\<open>reg_pk\<close>), and the
  record of address changes.  The two limiters share a contract, the locale
  \<open>burst_limiter\<close>: in any window they accept a bounded number of requests.
\<close>

section \<open>The IP blocker\<close>

type_synonym block_entry = "(nat \<times> instant) \<times> (string list \<times> instant)"
type_synonym ip_block_map = "(string \<times> block_entry) list"

text \<open>The second half of \<open>check_ip_blocker\<close>: the ids seen from the address.\<close>

definition block_ids :: "instant \<Rightarrow> string \<Rightarrow> string list \<times> instant \<Rightarrow> (string list \<times> instant) \<times> bool" where
  "block_ids now pid c =
     (case c of (ids, tm) \<Rightarrow>
        let is_new = pid \<notin> set ids;
            expired = as_secs (elapsed now tm) > DAY_SECONDS;
            ids1 = (if expired then [] else ids)
        in if \<not> expired \<and> length ids > 300 then ((ids, tm), \<not> is_new)
           else ((if is_new then pid # ids1 else ids1, now), True))"

definition block_step :: "instant \<Rightarrow> string \<Rightarrow> block_entry option \<Rightarrow> block_entry option \<times> bool" where
  "block_step now pid e =
     (case e of
        None \<Rightarrow> (Some ((0, now), ([], now)), True)
      | Some ((n, tm), c) \<Rightarrow>
          let expired = as_secs (elapsed now tm) > IP_BLOCK_DUR
          in if \<not> expired \<and> n > 30 then (e, False)
             else
               let n1 = (if expired then 0 else n) + 1;
                   (c', ok) = block_ids now pid c
               in (Some ((n1, now), c'), ok))"

definition check_ip_blocker :: "instant \<Rightarrow> string \<Rightarrow> string \<Rightarrow> ip_block_map \<Rightarrow> ip_block_map \<times> bool" where
  "check_ip_blocker now ip pid m =
     (case block_step now pid (map_of m ip) of
        (Some e, ok) \<Rightarrow> (AList.update ip e m, ok)
      | (None, ok) \<Rightarrow> (m, ok))"

section \<open>The limit per peer\<close>

definition reg_pk_step :: "instant \<Rightarrow> nat \<times> instant \<Rightarrow> (nat \<times> instant) \<times> bool" where
  "reg_pk_step now c =
     (case c of (n, tm) \<Rightarrow>
        let expired = as_secs (elapsed now tm) > 6
        in if \<not> expired \<and> n > 2 then (c, False)
           else (((if expired then 0 else n) + 1, now), True))"

section \<open>Address changes\<close>

type_synonym ip_changes_map = "(string \<times> (instant \<times> (string \<times> nat) list)) list"

definition note_ip_change :: "instant \<Rightarrow> string \<Rightarrow> string \<Rightarrow> ip_changes_map \<Rightarrow> ip_changes_map" where
  "note_ip_change now pid ip m =
     (case map_of m pid of
        Some (tm, ips) \<Rightarrow>
          if as_secs (elapsed now tm) > IP_CHANGE_DUR then AList.update pid (now, [(ip, 1)]) m
          else (case map_of ips ip of
                  Some v \<Rightarrow> AList.update pid (tm, AList.update ip (v + 1) ips) m
                | None \<Rightarrow> AList.update pid (tm, AList.update ip 1 ips) m)
      | None \<Rightarrow> AList.update pid (now, [(ip, 1)]) m)"

section \<open>The contract of a limiter\<close>

text \<open>How many of a sequence of requests are accepted.\<close>

fun accepted :: "('q \<Rightarrow> 's \<Rightarrow> 's \<times> bool) \<Rightarrow> 'q list \<Rightarrow> 's \<Rightarrow> nat" where
  "accepted step [] s = 0"
| "accepted step (q # qs) s =
     (case step q s of (s', ok) \<Rightarrow> (if ok then 1 else 0) + accepted step qs s')"

text \<open>
  \<open>time\<close> is when a request arrives, \<open>since t0 s\<close> says the state was refreshed at
  \<open>t0\<close> or later, \<open>credit\<close> how many requests it still accepts before the window is
  over, and \<open>top\<close> bounds the credit right after an accepted request.
\<close>

locale burst_limiter =
  fixes step :: "'q \<Rightarrow> 's \<Rightarrow> 's \<times> bool"
    and time :: "'q \<Rightarrow> instant"
    and credit :: "'s \<Rightarrow> nat"
    and since :: "instant \<Rightarrow> 's \<Rightarrow> bool"
    and window top :: nat
  assumes inside: "\<lbrakk>since t0 s; t0 \<le> time q; time q \<le> t0 + window; step q s = (s', ok)\<rbrakk> \<Longrightarrow>
      since t0 s' \<and> credit s' + (if ok then 1 else 0) \<le> credit s"
    and first: "step q s = (s', ok) \<Longrightarrow> (\<not> ok \<and> s' = s) \<or> (since (time q) s' \<and> credit s' \<le> top)"
begin

lemma burst_inside:
  assumes "since t0 s" "\<And>q. q \<in> set qs \<Longrightarrow> t0 \<le> time q \<and> time q \<le> t0 + window"
  shows "accepted step qs s \<le> credit s"
  using assms
proof (induction qs arbitrary: s)
  case (Cons q qs)
  obtain s' ok where st: "step q s = (s', ok)" by (cases "step q s")
  have "since t0 s'" "credit s' + (if ok then 1 else 0) \<le> credit s"
    using inside [OF Cons.prems(1) _ _ st] Cons.prems(2) by auto
  moreover have "accepted step qs s' \<le> credit s'" using Cons calculation(1) by simp
  ultimately show ?case using st by simp
qed simp

lemma burst:
  assumes "sorted (map time qs)" "\<And>q. q \<in> set qs \<Longrightarrow> t0 \<le> time q \<and> time q \<le> t0 + window"
  shows "accepted step qs s \<le> top + 1"
  using assms
proof (induction qs arbitrary: s)
  case (Cons q qs)
  obtain s' ok where st: "step q s = (s', ok)" by (cases "step q s")
  have tl: "time q \<le> time x \<and> time x \<le> time q + window" if "x \<in> set qs" for x
    using Cons.prems(1) Cons.prems(2) [of x] Cons.prems(2) [of q] that by auto
  from first [OF st] show ?case
  proof
    assume "\<not> ok \<and> s' = s"
    then show ?thesis using st Cons by simp
  next
    assume "since (time q) s' \<and> credit s' \<le> top"
    then have "accepted step qs s' \<le> top" using burst_inside [of "time q" s' qs] tl by fastforce
    then show ?thesis using st by simp
  qed
qed simp

end

section \<open>The two limiters\<close>

lemma as_secs_le: "as_secs d > k \<longleftrightarrow> (k + 1) * nanos_per_sec \<le> d"
proof -
  have "as_secs d > k \<longleftrightarrow> k + 1 \<le> d div nanos_per_sec" by (auto simp: as_secs_def)
  also have "\<dots> \<longleftrightarrow> (k + 1) * nanos_per_sec \<le> d"
    by (rule less_eq_div_iff_mult_less_eq) (simp add: nanos_per_sec_def)
  finally show ?thesis .
qed

definition reg_credit :: "nat \<times> instant \<Rightarrow> nat" where
  "reg_credit c = 3 - fst c"

definition reg_since :: "instant \<Rightarrow> nat \<times> instant \<Rightarrow> bool" where
  "reg_since t0 c \<longleftrightarrow> t0 \<le> snd c"

interpretation reg_limit: burst_limiter reg_pk_step "\<lambda>t. t" reg_credit reg_since
    "7 * nanos_per_sec - 1" 2
proof unfold_locales
  fix t0 t s s' ok
  assume a: "reg_since t0 s" "t0 \<le> t" "t \<le> t0 + (7 * nanos_per_sec - 1)" "reg_pk_step t s = (s', ok)"
  then have "\<not> as_secs (elapsed t (snd s)) > 6"
    by (auto simp: as_secs_le elapsed_def reg_since_def nanos_per_sec_def)
  then show "reg_since t0 s' \<and> reg_credit s' + (if ok then 1 else 0) \<le> reg_credit s"
    using a by (auto simp: reg_pk_step_def reg_since_def reg_credit_def Let_def split: prod.splits if_splits)
next
  fix t s s' ok
  assume "reg_pk_step t s = (s', ok)"
  then show "(\<not> ok \<and> s' = s) \<or> (reg_since t s' \<and> reg_credit s' \<le> 2)"
    by (auto simp: reg_pk_step_def reg_since_def reg_credit_def Let_def split: prod.splits if_splits)
qed

definition block_credit :: "block_entry option \<Rightarrow> nat" where
  "block_credit e = (case e of Some ((n, _), _) \<Rightarrow> 31 - n | None \<Rightarrow> 32)"

definition block_since :: "instant \<Rightarrow> block_entry option \<Rightarrow> bool" where
  "block_since t0 e = (case e of Some ((_, tm), _) \<Rightarrow> t0 \<le> tm | None \<Rightarrow> False)"

definition block_request :: "instant \<times> string \<Rightarrow> block_entry option \<Rightarrow> block_entry option \<times> bool" where
  "block_request q e = block_step (fst q) (snd q) e"

interpretation block_limit: burst_limiter block_request fst block_credit block_since
    "61 * nanos_per_sec - 1" 31
proof unfold_locales
  fix t0 :: instant and s s' ok and q :: "instant \<times> string"
  assume a: "block_since t0 s" "t0 \<le> fst q" "fst q \<le> t0 + (61 * nanos_per_sec - 1)"
    "block_request q s = (s', ok)"
  then obtain n tm c where s: "s = Some ((n, tm), c)" "t0 \<le> tm"
    by (auto simp: block_since_def split: option.splits)
  then have "\<not> as_secs (elapsed (fst q) tm) > IP_BLOCK_DUR"
    using a by (auto simp: as_secs_le elapsed_def IP_BLOCK_DUR_def nanos_per_sec_def)
  then show "block_since t0 s' \<and> block_credit s' + (if ok then 1 else 0) \<le> block_credit s"
    using a s
    by (auto simp: block_request_def block_step_def block_since_def block_credit_def Let_def
        split: prod.splits if_splits)
next
  fix s s' ok and q :: "instant \<times> string"
  assume "block_request q s = (s', ok)"
  then show "(\<not> ok \<and> s' = s) \<or> (block_since (fst q) s' \<and> block_credit s' \<le> 31)"
    by (auto simp: block_request_def block_step_def block_since_def block_credit_def Let_def
        split: option.splits prod.splits if_splits)
qed

section \<open>Bounds\<close>

text \<open>
  The counters stay small, so the \<open>u32\<close> increments of the source cannot
  overflow, and the set of ids of an address is bounded.
\<close>

definition block_entry_ok :: "block_entry \<Rightarrow> bool" where
  "block_entry_ok e = (case e of ((n, _), (ids, _)) \<Rightarrow> n \<le> 31 \<and> length ids \<le> 301 \<and> distinct ids)"

definition blocker_ok :: "ip_block_map \<Rightarrow> bool" where
  "blocker_ok m \<longleftrightarrow> (\<forall>ip e. map_of m ip = Some e \<longrightarrow> block_entry_ok e)"

lemma block_ids_ok:
  "block_ids now pid (ids, tm) = ((ids', tm'), ok) \<Longrightarrow> length ids \<le> 301 \<Longrightarrow> distinct ids \<Longrightarrow>
   length ids' \<le> 301 \<and> distinct ids'"
  by (auto simp: block_ids_def Let_def split: if_splits)

lemma block_step_ok:
  assumes "block_step now pid e = (Some e', ok)" "\<And>x. e = Some x \<Longrightarrow> block_entry_ok x"
  shows "block_entry_ok e'"
proof (cases e)
  case None
  then show ?thesis using assms(1) by (auto simp: block_step_def block_entry_ok_def)
next
  case (Some x)
  obtain n tm ids tm2 where x: "x = ((n, tm), (ids, tm2))" by (metis prod.collapse)
  obtain ids' tm' ok' where b: "block_ids now pid (ids, tm2) = ((ids', tm'), ok')" by (metis prod.collapse)
  have "n \<le> 31" "length ids \<le> 301" "distinct ids"
    using assms(2) [OF Some] x by (auto simp: block_entry_ok_def)
  then show ?thesis
    using assms(1) Some x b block_ids_ok [OF b]
    by (auto simp: block_step_def block_entry_ok_def Let_def split: if_splits)
qed

lemma check_ip_blocker_ok:
  assumes "blocker_ok m" "check_ip_blocker now ip pid m = (m', ok)"
  shows "blocker_ok m'"
proof -
  obtain eo ok' where st: "block_step now pid (map_of m ip) = (eo, ok')" by fastforce
  show ?thesis
  proof (cases eo)
    case None
    then show ?thesis using assms st by (simp add: check_ip_blocker_def)
  next
    case (Some e')
    have "block_entry_ok e'"
      by (rule block_step_ok [OF st [unfolded Some]]) (use assms(1) in \<open>auto simp: blocker_ok_def\<close>)
    then show ?thesis
      using assms st Some by (auto simp: check_ip_blocker_def blocker_ok_def update_conv' split: if_splits)
  qed
qed

section \<open>Properties\<close>

text \<open>
  The blocker's memory and counters are bounded in every state it can reach:
  each address has a counter of at most 31 and at most 301 distinct ids, so
  the \<open>u32\<close> increments never overflow.
\<close>

theorem ip_blocker_bounded:
  "blocker_ok (fold (\<lambda>(now, ip, pid) m. fst (check_ip_blocker now ip pid m)) reqs [])"
proof -
  have "blocker_ok (fold (\<lambda>(now, ip, pid) m. fst (check_ip_blocker now ip pid m)) reqs m)"
    if "blocker_ok m" for m
    using that
  proof (induction reqs arbitrary: m)
    case (Cons r reqs)
    obtain now ip pid where r: "r = (now, ip, pid)" by (cases r)
    have "blocker_ok (fst (check_ip_blocker now ip pid m))"
      using check_ip_blocker_ok [OF Cons.prems prod.collapse [symmetric]] .
    then show ?case using Cons.IH r by simp
  qed simp
  moreover have "blocker_ok []" by (simp add: blocker_ok_def)
  ultimately show ?thesis by blast
qed



text \<open>
  The daily reset of the id set looks up the id before it clears the set: an id
  already known is not put back, so the request that triggers the reset goes
  unrecorded, while a new id is recorded.
\<close>

theorem daily_reset_forgets_known_id:
  assumes "as_secs (elapsed now tm) > DAY_SECONDS"
  shows "block_ids now pid (ids, tm) = ((if pid \<in> set ids then [] else [pid], now), True)"
  using assms by (simp add: block_ids_def Let_def)

theorem daily_reset_forgets_known_id_witness:
  "block_ids (86401 * nanos_per_sec) ''peer-1'' ([''peer-1''], 0) = (([], 86401 * nanos_per_sec), True)"
  using daily_reset_forgets_known_id [of "86401 * nanos_per_sec" 0 "''peer-1''" "[''peer-1'']"]
  by (simp add: as_secs_def elapsed_def nanos_per_sec_def DAY_SECONDS_def)

end
