(* ===== verification/Rendezvous_Server.thy ===== *)
theory Rendezvous_Server
  imports Rate_Limit
begin

text \<open>
  The rendezvous server, \<open>src/rendezvous_server.rs\<close>.  A connection's task works
  on a clone of the server: what a clone copies (relay servers, rendezvous
  servers, serial and the rest of \<open>Inner\<close>) is the record \<open>server_cfg\<close>, what all
  clones and the statics share is the record \<open>shared\<close>.  A handler returns the
  new state and the messages it sends, in order.  One call of a handler happens
  at one instant; socket errors are not modelled.
\<close>

section \<open>State\<close>

definition REG_TIMEOUT :: int where "REG_TIMEOUT = 30000"
definition PUNCH_REQ_DEDUPE_SEC :: nat where "PUNCH_REQ_DEDUPE_SEC = 60"

text \<open>A queued message for the UDP socket, or a change of the relay servers.\<close>

datatype data =
    Msg rendezvous_message socket_addr protocol
  | RelayServers0 string
  | RelayServers "string list"

record punch_req_entry =
  pq_tm :: instant
  pq_from_ip :: string
  pq_to_ip :: string
  pq_to_id :: string

text \<open>The netmask is the membership test of its network.\<close>

record inner =
  in_serial :: i32
  in_version :: string
  in_software_url :: string
  in_mask :: "(ipv4_addr \<Rightarrow> bool) option"
  in_local_ip :: string
  in_sk :: "bytes option"

record server_cfg =
  sc_relay_servers :: "string list"
  sc_relay_servers0 :: "string list"
  sc_rendezvous_servers :: "string list"
  sc_inner :: inner

text \<open>A sink is the writing half of a TCP or WebSocket connection, here its number.\<close>

type_synonym sink = nat

record shared =
  sh_tcp_punch :: "(socket_addr \<times> (sink \<times> protocol)) list"
  sh_pm :: peer_map
  sh_tx :: "data list"
  sh_ip_blocker :: ip_block_map
  sh_ip_changes :: ip_changes_map
  sh_punch_reqs :: "punch_req_entry list"
  sh_rotation :: usize
  sh_always_use_relay :: bool

record renv =
  re_peer :: peer_env
  re_micros :: nat
  re_resolves :: "string \<Rightarrow> bool"
  re_sign :: "bytes \<Rightarrow> bytes \<Rightarrow> bytes"
  re_idpk_bytes :: "string \<Rightarrow> bytes \<Rightarrow> bytes"
  re_wire :: wire

abbreviation re_now :: "renv \<Rightarrow> instant" where "re_now env \<equiv> env_now (re_peer env)"

text \<open>
  What a handler sends: a reply on the UDP socket and a message to a sink fall
  back to proto3 when the peer's protocol cannot carry the message.
\<close>

datatype out =
    UdpReply rendezvous_message protocol socket_addr
  | SinkSend sink rendezvous_message protocol
  | StreamSend rendezvous_message

definition encode_with_fallback :: "wire \<Rightarrow> rendezvous_message \<Rightarrow> protocol \<Rightarrow> bytes option" where
  "encode_with_fallback w msg proto =
     (case serialize_msg w msg proto of Some b \<Rightarrow> Some b | None \<Rightarrow> w_write_to_bytes w msg)"

section \<open>Small messages\<close>

definition register_peer_response_msg :: "bool \<Rightarrow> rendezvous_message" where
  "register_peer_response_msg request_pk = Some (RegisterPeerResponse \<lparr>rpr_request_pk = request_pk\<rparr>)"

definition register_pk_response_msg :: "register_result \<Rightarrow> rendezvous_message" where
  "register_pk_response_msg res = Some (RegisterPkResponse \<lparr>rkr_result = Known res, rkr_keep_alive = 0\<rparr>)"

definition config_update_msg :: "server_cfg \<Rightarrow> config_update" where
  "config_update_msg cfg =
     \<lparr>cu_serial = in_serial (sc_inner cfg), cu_rendezvous_servers = sc_rendezvous_servers cfg\<rparr>"

definition empty_punch_hole_response :: punch_hole_response where
  "empty_punch_hole_response = \<lparr>phres_socket_addr = [], phres_pk = [], phres_failure = Known ID_NOT_EXIST,
     phres_relay_server = [], phres_union = None, phres_other_failure = [], phres_feedback = 0,
     phres_is_udp = False, phres_upnp_port = 0, phres_socket_addr_v6 = []\<rparr>"

definition punch_failure_msg :: "punch_failure \<Rightarrow> rendezvous_message" where
  "punch_failure_msg f = Some (PunchHoleResponse (empty_punch_hole_response\<lparr>phres_failure := Known f\<rparr>))"

definition test_nat_response_msg :: "socket_addr \<Rightarrow> config_update option \<Rightarrow> rendezvous_message" where
  "test_nat_response_msg addr cu = Some (TestNatResponse \<lparr>tnr_port = ucast (sa_port addr), tnr_cu = cu\<rparr>)"

definition send_rk_res :: "socket_addr \<Rightarrow> register_result \<Rightarrow> protocol \<Rightarrow> out list" where
  "send_rk_res addr res proto = [UdpReply (register_pk_response_msg res) proto addr]"

section \<open>Addresses, relays and keys\<close>

definition is_lan :: "server_cfg \<Rightarrow> socket_addr \<Rightarrow> bool" where
  "is_lan cfg addr =
     (case in_mask (sc_inner cfg) of
        None \<Rightarrow> False
      | Some network \<Rightarrow>
          (case addr of
             V4 a _ \<Rightarrow> network a
           | V6 a _ _ _ \<Rightarrow> (case to_ipv4 a of Some v4 \<Rightarrow> network v4 | None \<Rightarrow> False)))"

definition get_relay_server :: "server_cfg \<Rightarrow> shared \<Rightarrow> shared \<times> string" where
  "get_relay_server cfg sh =
     (let rs = sc_relay_servers cfg in
      if rs = [] then (sh, [])
      else if length rs = 1 then (sh, rs ! 0)
      else (sh\<lparr>sh_rotation := sh_rotation sh + 1\<rparr>, rs ! (unat (sh_rotation sh) mod length rs)))"

definition parse_relay_servers :: "renv \<Rightarrow> string \<Rightarrow> server_cfg \<Rightarrow> server_cfg" where
  "parse_relay_servers env s cfg =
     (let rs = get_servers (re_resolves env) s
      in cfg\<lparr>sc_relay_servers0 := rs, sc_relay_servers := rs\<rparr>)"

definition get_pk :: "renv \<Rightarrow> server_cfg \<Rightarrow> string \<Rightarrow> string \<Rightarrow> shared \<Rightarrow> shared \<times> bytes" where
  "get_pk env cfg version pid sh =
     (if version = [] then (sh, [])
      else (case in_sk (sc_inner cfg) of
              None \<Rightarrow> (sh, [])
            | Some sk \<Rightarrow>
                (case pm_get (re_peer env) pid (sh_pm sh) of
                   (pm', Some p) \<Rightarrow> (sh\<lparr>sh_pm := pm'\<rparr>, re_sign env (re_idpk_bytes env pid (p_pk p)) sk)
                 | (pm', None) \<Rightarrow> (sh\<lparr>sh_pm := pm'\<rparr>, []))))"

section \<open>Sinks\<close>

text \<open>Both \<open>send_to_tcp\<close>, which spawns, and \<open>send_to_tcp_sync\<close> take the sink out of the map.\<close>

definition send_to_tcp :: "rendezvous_message \<Rightarrow> socket_addr \<Rightarrow> shared \<Rightarrow> shared \<times> out list" where
  "send_to_tcp msg addr sh =
     (let key = try_into_v4 addr;
          sh' = sh\<lparr>sh_tcp_punch := AList.delete key (sh_tcp_punch sh)\<rparr>
      in case map_of (sh_tcp_punch sh) key of
           Some (sink, proto) \<Rightarrow> (sh', [SinkSend sink msg proto])
         | None \<Rightarrow> (sh', []))"

definition send_to_sink :: "sink option \<Rightarrow> rendezvous_message \<Rightarrow> protocol \<Rightarrow> out list" where
  "send_to_sink sink msg proto = (case sink of Some s \<Rightarrow> [SinkSend s msg proto] | None \<Rightarrow> [])"

definition stash_sink :: "sink option \<Rightarrow> socket_addr \<Rightarrow> protocol \<Rightarrow> shared \<Rightarrow> shared" where
  "stash_sink sink addr proto sh =
     (case sink of
        Some s \<Rightarrow> sh\<lparr>sh_tcp_punch := AList.update (try_into_v4 addr) (s, proto) (sh_tcp_punch sh)\<rparr>
      | None \<Rightarrow> sh)"

section \<open>Registration\<close>

definition ip_changed_of :: "socket_addr \<Rightarrow> peer \<Rightarrow> bool" where
  "ip_changed_of addr old \<longleftrightarrow>
     (if sa_port (p_socket_addr old) \<noteq> 0 then sa_ip addr \<noteq> sa_ip (p_socket_addr old)
      else show_ip (sa_ip addr) \<noteq> p_info_ip old) \<and> \<not> ip_is_loopback (sa_ip addr)"

definition refresh_addr :: "renv \<Rightarrow> string \<Rightarrow> peer \<Rightarrow> socket_addr \<Rightarrow> protocol \<Rightarrow> shared \<Rightarrow> shared" where
  "refresh_addr env pid old addr proto sh =
     sh\<lparr>sh_pm := put_peer pid (old\<lparr>p_socket_addr := addr, p_last_reg_time := re_now env,
                                   p_protocol := proto\<rparr>) (sh_pm sh)\<rparr>"

definition update_addr :: "renv \<Rightarrow> string \<Rightarrow> socket_addr \<Rightarrow> protocol \<Rightarrow> shared \<Rightarrow> shared \<times> out list" where
  "update_addr env pid addr proto sh =
     (let (sh', request_pk) =
        (case get_in_memory pid (sh_pm sh) of
           Some old \<Rightarrow>
             let request_pk = (p_pk old = [] \<or> ip_changed_of addr old)
             in (if \<not> request_pk then refresh_addr env pid old addr proto sh else sh, request_pk)
         | None \<Rightarrow> (sh, True))
      in (sh', [UdpReply (register_peer_response_msg request_pk) proto addr]))"

definition udp_register_peer ::
  "renv \<Rightarrow> server_cfg \<Rightarrow> register_peer \<Rightarrow> socket_addr \<Rightarrow> protocol \<Rightarrow> shared \<Rightarrow> shared \<times> out list" where
  "udp_register_peer env cfg rp addr proto sh =
     (if rp_id rp = [] then (sh, [])
      else
        let (sh', outs) = update_addr env (rp_id rp) addr proto sh
        in (sh', outs @
              (if sint (in_serial (sc_inner cfg)) > sint (rp_serial rp)
               then [UdpReply (Some (ConfigureUpdate (config_update_msg cfg))) proto addr] else [])))"

text \<open>
  The comparison with the stored identity: None when the request is refused,
  otherwise whether anything changed and whether the address did.
\<close>

definition pk_identity_check :: "peer \<Rightarrow> register_pk \<Rightarrow> string \<Rightarrow> (bool \<times> bool) option" where
  "pk_identity_check p rk ip =
     (if p_uuid p = [] then Some (True, False)
      else if p_uuid p = rk_uuid rk then
        if p_info_ip p \<noteq> ip \<and> p_pk p \<noteq> rk_pk rk then None
        else
          let ip_changed = (p_info_ip p \<noteq> ip)
          in Some (p_uuid p \<noteq> rk_uuid rk \<or> p_pk p \<noteq> rk_pk rk \<or> ip_changed, ip_changed)
      else None)"

definition set_protocol :: "string \<Rightarrow> protocol \<Rightarrow> peer_map \<Rightarrow> peer_map" where
  "set_protocol pid proto pm =
     (case get_in_memory pid pm of Some p \<Rightarrow> put_peer pid (p\<lparr>p_protocol := proto\<rparr>) pm | None \<Rightarrow> pm)"

definition trim_token :: "string \<Rightarrow> string option" where
  "trim_token t = (if trim t = [] then None else Some (trim t))"

text \<open>The accepted part of the UDP registration; the result of \<open>update_pk\<close> is not looked at.\<close>

definition udp_register_pk_accept ::
  "renv \<Rightarrow> register_pk \<Rightarrow> socket_addr \<Rightarrow> protocol \<Rightarrow> peer \<Rightarrow> nat \<times> instant \<Rightarrow> bool \<Rightarrow> bool \<Rightarrow> shared \<Rightarrow>
   shared \<times> out list" where
  "udp_register_pk_accept env rk addr proto p reg changed ip_changed sh =
     (let pid = rk_id rk;
          ip = show_ip (sa_ip addr);
          p1 = p\<lparr>p_reg_pk := reg\<rparr>;
          pm1 = put_peer pid p1 (sh_pm sh);
          sh1 = (if ip_changed then sh\<lparr>sh_ip_changes := note_ip_change (re_now env) pid ip (sh_ip_changes sh)\<rparr>
                 else sh);
          pm2 = (if changed then fst (update_pk (re_peer env) pid p1 addr (rk_uuid rk) (rk_pk rk) ip
                                       (trim_token (rk_user_token rk)) pm1)
                 else pm1)
      in (sh1\<lparr>sh_pm := set_protocol pid proto pm2\<rparr>, send_rk_res addr OK proto))"

definition udp_register_pk ::
  "renv \<Rightarrow> register_pk \<Rightarrow> socket_addr \<Rightarrow> protocol \<Rightarrow> shared \<Rightarrow> shared \<times> out list" where
  "udp_register_pk env rk addr proto sh =
     (if rk_uuid rk = [] \<or> rk_pk rk = [] then (sh, [])
      else
        let pid = rk_id rk; ip = show_ip (sa_ip addr) in
        if length pid < 6 then (sh, send_rk_res addr UUID_MISMATCH proto)
        else
          let (blk, ok) = check_ip_blocker (re_now env) ip pid (sh_ip_blocker sh);
              sh0 = sh\<lparr>sh_ip_blocker := blk\<rparr>
          in if \<not> ok then (sh0, send_rk_res addr TOO_FREQUENT proto)
             else
               let (pm1, p) = pm_get_or (re_peer env) pid (sh_pm sh0);
                   sh1 = sh0\<lparr>sh_pm := pm1\<rparr>
               in (case pk_identity_check p rk ip of
                     None \<Rightarrow> (sh1, send_rk_res addr UUID_MISMATCH proto)
                   | Some (changed, ip_changed) \<Rightarrow>
                       (case reg_pk_step (re_now env) (p_reg_pk p) of
                          (_, False) \<Rightarrow> (sh1, send_rk_res addr TOO_FREQUENT proto)
                        | (reg, True) \<Rightarrow>
                            udp_register_pk_accept env rk addr proto p reg changed ip_changed sh1)))"

section \<open>Punching holes\<close>

text \<open>Only the newest thirty requests are searched, and the search stops at the first match.\<close>

definition punch_req_dup :: "instant \<Rightarrow> string \<Rightarrow> string \<Rightarrow> punch_req_entry list \<Rightarrow> bool" where
  "punch_req_dup now from_ip to_id reqs =
     (case find (\<lambda>e. pq_from_ip e = from_ip \<and> pq_to_id e = to_id) (take 30 (rev reqs)) of
        Some e \<Rightarrow> as_secs (elapsed now (pq_tm e)) < PUNCH_REQ_DEDUPE_SEC
      | None \<Rightarrow> False)"

definition record_punch_req ::
  "instant \<Rightarrow> socket_addr \<Rightarrow> socket_addr \<Rightarrow> string \<Rightarrow> punch_req_entry list \<Rightarrow> punch_req_entry list" where
  "record_punch_req now addr peer_addr to_id reqs =
     (let from_ip = show_ip (sa_ip (try_into_v4 addr));
          to_ip = show_ip (sa_ip (try_into_v4 peer_addr))
      in if punch_req_dup now from_ip to_id reqs then reqs
         else reqs @ [\<lparr>pq_tm = now, pq_from_ip = from_ip, pq_to_ip = to_ip, pq_to_id = to_id\<rparr>])"

definition same_ip :: "socket_addr \<Rightarrow> socket_addr \<Rightarrow> bool" where
  "same_ip a b =
     (case (a, b) of (V4 x _, V4 y _) \<Rightarrow> x = y | (V6 x _ _ _, V6 y _ _ _) \<Rightarrow> x = y | _ \<Rightarrow> False)"

definition peer_online :: "instant \<Rightarrow> peer \<Rightarrow> bool" where
  "peer_online now p \<longleftrightarrow> as_i32 (as_millis (elapsed now (p_last_reg_time p))) < REG_TIMEOUT"

text \<open>The message for the peer that is to be reached, once it is known to be online.\<close>

definition punch_message ::
  "renv \<Rightarrow> server_cfg \<Rightarrow> socket_addr \<Rightarrow> socket_addr \<Rightarrow> punch_hole_request \<Rightarrow> bool \<Rightarrow> shared \<Rightarrow>
   shared \<times> rendezvous_message" where
  "punch_message env cfg addr peer_addr ph ws sh =
     (let peer_is_lan = is_lan cfg peer_addr;
          is_lan = is_lan cfg addr;
          (sh1, relay0) = get_relay_server cfg sh;
          force = sh_always_use_relay sh \<or> (peer_is_lan \<noteq> is_lan);
          relay_server = (if force \<and> peer_is_lan then in_local_ip (sc_inner cfg) else relay0);
          nat_type = (if force then Known SYMMETRIC else phr_nat_type ph);
          same_intranet = (\<not> ws \<and> (peer_is_lan \<and> is_lan \<or> same_ip peer_addr addr));
          socket_addr = AddrMangle_encode (re_micros env) addr
      in (sh1,
          Some (if same_intranet
                then FetchLocalAddr \<lparr>fla_socket_addr = socket_addr, fla_relay_server = relay_server,
                       fla_socket_addr_v6 = [], fla_control_permissions = None\<rparr>
                else PunchHole \<lparr>ph_socket_addr = socket_addr, ph_relay_server = relay_server,
                       ph_nat_type = nat_type, ph_udp_port = 0, ph_force_relay = False,
                       ph_upnp_port = phr_upnp_port ph, ph_socket_addr_v6 = [],
                       ph_control_permissions = None\<rparr>)))"

type_synonym punch_result = "rendezvous_message \<times> socket_addr option \<times> protocol"

definition handle_punch_hole_request ::
  "renv \<Rightarrow> server_cfg \<Rightarrow> socket_addr \<Rightarrow> punch_hole_request \<Rightarrow> string \<Rightarrow> bool \<Rightarrow> shared \<Rightarrow>
   shared \<times> punch_result" where
  "handle_punch_hole_request env cfg addr ph key ws sh =
     (if key \<noteq> [] \<and> phr_licence_key ph \<noteq> key
      then (sh, punch_failure_msg LICENSE_MISMATCH, None, Proto3)
      else
        (case pm_get (re_peer env) (phr_id ph) (sh_pm sh) of
           (pm1, None) \<Rightarrow> (sh\<lparr>sh_pm := pm1\<rparr>, punch_failure_msg ID_NOT_EXIST, None, Proto3)
         | (pm1, Some p) \<Rightarrow>
             let sh1 = sh\<lparr>sh_pm := pm1\<rparr> in
             if \<not> peer_online (re_now env) p then (sh1, punch_failure_msg OFFLINE, None, Proto3)
             else
               let peer_addr = p_socket_addr p;
                   sh2 = sh1\<lparr>sh_punch_reqs :=
                     record_punch_req (re_now env) addr peer_addr (phr_id ph) (sh_punch_reqs sh1)\<rparr>;
                   (sh3, msg) = punch_message env cfg addr peer_addr ph ws sh2
               in (sh3, msg, Some peer_addr, p_protocol p)))"

definition push_tx :: "data \<Rightarrow> shared \<Rightarrow> shared" where
  "push_tx x sh = sh\<lparr>sh_tx := sh_tx sh @ [x]\<rparr>"

definition handle_udp_punch_hole_request ::
  "renv \<Rightarrow> server_cfg \<Rightarrow> socket_addr \<Rightarrow> punch_hole_request \<Rightarrow> string \<Rightarrow> protocol \<Rightarrow> shared \<Rightarrow> shared" where
  "handle_udp_punch_hole_request env cfg addr ph key proto sh =
     (case handle_punch_hole_request env cfg addr ph key False sh of
        (sh1, msg, to_addr, target_proto) \<Rightarrow>
          (case to_addr of
             Some a \<Rightarrow> push_tx (Msg msg a target_proto) sh1
           | None \<Rightarrow> push_tx (Msg msg addr proto) sh1))"

definition handle_tcp_punch_hole_request ::
  "renv \<Rightarrow> server_cfg \<Rightarrow> socket_addr \<Rightarrow> punch_hole_request \<Rightarrow> string \<Rightarrow> bool \<Rightarrow> shared \<Rightarrow> shared \<times> out list" where
  "handle_tcp_punch_hole_request env cfg addr ph key ws sh =
     (case handle_punch_hole_request env cfg addr ph key ws sh of
        (sh1, msg, to_addr, target_proto) \<Rightarrow>
          (case to_addr of
             Some a \<Rightarrow> (push_tx (Msg msg a target_proto) sh1, [])
           | None \<Rightarrow> send_to_tcp msg addr sh1))"

section \<open>Answers of the peer\<close>

text \<open>\<open>udp\<close> says whether the message came over UDP; then the answer goes out the same way.\<close>

definition answer_to :: "bool \<Rightarrow> rendezvous_message \<Rightarrow> socket_addr \<Rightarrow> shared \<Rightarrow> shared \<times> out list" where
  "answer_to udp msg addr_a sh =
     (if udp then (sh, [UdpReply msg (protocol_for_addr addr_a (sh_pm sh)) addr_a])
      else send_to_tcp msg addr_a sh)"

definition handle_hole_sent ::
  "renv \<Rightarrow> server_cfg \<Rightarrow> punch_hole_sent \<Rightarrow> socket_addr \<Rightarrow> bool \<Rightarrow> shared \<Rightarrow> shared \<times> out list" where
  "handle_hole_sent env cfg phs addr udp sh =
     (let addr_a = AddrMangle_decode (phs_socket_addr phs);
          (sh1, pk) = get_pk env cfg (phs_version phs) (phs_id phs) sh;
          p = empty_punch_hole_response\<lparr>phres_socket_addr := AddrMangle_encode (re_micros env) addr,
                phres_pk := pk, phres_relay_server := phs_relay_server phs,
                phres_upnp_port := phs_upnp_port phs,
                phres_union := (case phs_nat_type phs of Known t \<Rightarrow> Some (NatType (Known t)) | Unknown _ \<Rightarrow> None)\<rparr>
      in answer_to udp (Some (PunchHoleResponse p)) addr_a sh1)"

definition handle_local_addr ::
  "renv \<Rightarrow> server_cfg \<Rightarrow> local_addr \<Rightarrow> socket_addr \<Rightarrow> bool \<Rightarrow> shared \<Rightarrow> shared \<times> out list" where
  "handle_local_addr env cfg la addr udp sh =
     (let addr_a = AddrMangle_decode (la_socket_addr la);
          (sh1, pk) = get_pk env cfg (la_version la) (la_id la) sh;
          p = empty_punch_hole_response\<lparr>phres_socket_addr := la_local_addr la,
                phres_pk := pk, phres_relay_server := la_relay_server la,
                phres_union := Some (IsLocal True)\<rparr>
      in answer_to udp (Some (PunchHoleResponse p)) addr_a sh1)"

section \<open>UDP\<close>

definition configure_update :: "renv \<Rightarrow> config_update \<Rightarrow> socket_addr \<Rightarrow> server_cfg \<Rightarrow> server_cfg" where
  "configure_update env cu addr cfg =
     (if ip_is_loopback (sa_ip (try_into_v4 addr)) \<and> sint (cu_serial cu) > sint (in_serial (sc_inner cfg))
      then cfg\<lparr>sc_inner := (sc_inner cfg)\<lparr>in_serial := cu_serial cu\<rparr>,
               sc_rendezvous_servers := filter (\<lambda>x. x \<noteq> [] \<and> test_if_valid_server (re_resolves env) x)
                 (cu_rendezvous_servers cu)\<rparr>
      else cfg)"

definition udp_software_update :: "server_cfg \<Rightarrow> software_update \<Rightarrow> socket_addr \<Rightarrow> protocol \<Rightarrow> out list" where
  "udp_software_update cfg su addr proto =
     (if in_version (sc_inner cfg) \<noteq> [] \<and> su_url su \<noteq> in_version (sc_inner cfg)
      then [UdpReply (Some (SoftwareUpdate \<lparr>su_url = in_software_url (sc_inner cfg)\<rparr>)) proto addr]
      else [])"

definition handle_udp_msg ::
  "renv \<Rightarrow> rendezvous_message \<Rightarrow> protocol \<Rightarrow> socket_addr \<Rightarrow> string \<Rightarrow> server_cfg \<Rightarrow> shared \<Rightarrow>
   server_cfg \<times> shared \<times> out list" where
  "handle_udp_msg env msg_in proto addr key cfg sh =
     (case msg_in of
        Some (RegisterPeer rp) \<Rightarrow> (cfg, udp_register_peer env cfg rp addr proto sh)
      | Some (RegisterPk rk) \<Rightarrow> (cfg, udp_register_pk env rk addr proto sh)
      | Some (PunchHoleRequest ph) \<Rightarrow> (cfg, handle_udp_punch_hole_request env cfg addr ph key proto sh, [])
      | Some (PunchHoleSent phs) \<Rightarrow> (cfg, handle_hole_sent env cfg phs addr True sh)
      | Some (LocalAddr la) \<Rightarrow> (cfg, handle_local_addr env cfg la addr True sh)
      | Some (ConfigureUpdate cu) \<Rightarrow> (configure_update env cu addr cfg, sh, [])
      | Some (TestNatRequest _) \<Rightarrow> (cfg, sh, [UdpReply (test_nat_response_msg addr None) proto addr])
      | Some (SoftwareUpdate su) \<Rightarrow> (cfg, sh, udp_software_update cfg su addr proto)
      | _ \<Rightarrow> (cfg, sh, []))"

definition handle_udp ::
  "renv \<Rightarrow> bytes \<Rightarrow> socket_addr \<Rightarrow> string \<Rightarrow> server_cfg \<Rightarrow> shared \<Rightarrow> server_cfg \<times> shared \<times> out list" where
  "handle_udp env bs addr key cfg sh =
     (case parse_msg (re_wire env) bs of
        Some msg_in \<Rightarrow> handle_udp_msg env msg_in (detect bs) addr key cfg sh
      | None \<Rightarrow> (cfg, sh, []))"

section \<open>TCP and WebSocket\<close>

text \<open>
  A TCP handler also returns the connection's sink, which it may have put into
  the punch map, and whether the connection stays open.
\<close>

type_synonym tcp_result = "sink option \<times> shared \<times> out list \<times> bool"

definition tcp_punch_hole ::
  "renv \<Rightarrow> server_cfg \<Rightarrow> punch_hole_request \<Rightarrow> protocol \<Rightarrow> socket_addr \<Rightarrow> string \<Rightarrow> bool \<Rightarrow>
   sink option \<Rightarrow> shared \<Rightarrow> tcp_result" where
  "tcp_punch_hole env cfg ph proto addr key ws sink sh =
     (let (sh1, outs) = handle_tcp_punch_hole_request env cfg addr ph key ws (stash_sink sink addr proto sh)
      in (None, sh1, outs, True))"

definition tcp_request_relay ::
  "renv \<Rightarrow> request_relay \<Rightarrow> protocol \<Rightarrow> socket_addr \<Rightarrow> sink option \<Rightarrow> shared \<Rightarrow> tcp_result" where
  "tcp_request_relay env rf proto addr sink sh =
     (let sh1 = stash_sink sink addr proto sh
      in case get_in_memory (rr_id rf) (sh_pm sh1) of
           Some p \<Rightarrow>
             (None, push_tx (Msg (Some (RequestRelay (rf\<lparr>rr_socket_addr := AddrMangle_encode (re_micros env) addr\<rparr>)))
                              (p_socket_addr p) (p_protocol p)) sh1, [], True)
         | None \<Rightarrow> (None, sh1, [], True))"

definition rres_get_id :: "relay_response \<Rightarrow> string" where
  "rres_get_id rr = (case rres_union rr of Some (UnionId i) \<Rightarrow> i | _ \<Rightarrow> [])"

definition tcp_relay_response ::
  "renv \<Rightarrow> server_cfg \<Rightarrow> relay_response \<Rightarrow> socket_addr \<Rightarrow> sink option \<Rightarrow> shared \<Rightarrow> tcp_result" where
  "tcp_relay_response env cfg rr addr sink sh =
     (let addr_b = AddrMangle_decode (rres_socket_addr rr);
          rr1 = rr\<lparr>rres_socket_addr := []\<rparr>;
          (sh1, rr2) =
            (if rres_get_id rr1 \<noteq> []
             then (case get_pk env cfg (rres_version rr1) (rres_get_id rr1) sh of
                     (sh', pk) \<Rightarrow> (sh', rr1\<lparr>rres_union := Some (UnionPk pk)\<rparr>))
             else (sh, rr1));
          (sh2, rr3) =
            (if rres_relay_server rr2 = [] then (sh1, rr2)
             else if is_lan cfg addr_b
             then (sh1, rr2\<lparr>rres_relay_server := in_local_ip (sc_inner cfg)\<rparr>)
             else if rres_relay_server rr2 = in_local_ip (sc_inner cfg)
             then (case get_relay_server cfg sh1 of
                     (sh', relay) \<Rightarrow> (sh', rr2\<lparr>rres_relay_server := relay\<rparr>))
             else (sh1, rr2));
          (sh3, outs) = send_to_tcp (Some (RelayResponse rr3)) addr_b sh2
      in (sink, sh3, outs, False))"

definition tcp_test_nat ::
  "server_cfg \<Rightarrow> test_nat_request \<Rightarrow> protocol \<Rightarrow> socket_addr \<Rightarrow> sink option \<Rightarrow> shared \<Rightarrow> tcp_result" where
  "tcp_test_nat cfg tar proto addr sink sh =
     (let cu = (if sint (in_serial (sc_inner cfg)) > sint (tnq_serial tar)
                then Some (config_update_msg cfg) else None)
      in (sink, sh, send_to_sink sink (test_nat_response_msg addr cu) proto, False))"

definition tcp_register_pk ::
  "renv \<Rightarrow> register_pk \<Rightarrow> protocol \<Rightarrow> socket_addr \<Rightarrow> sink option \<Rightarrow> shared \<Rightarrow> tcp_result" where
  "tcp_register_pk env rf proto addr sink sh =
     (let (pm1, p) = pm_get_or (re_peer env) (rk_id rf) (sh_pm sh);
          (pm2, res) = update_pk (re_peer env) (rk_id rf) p addr (rk_uuid rf) (rk_pk rf)
                         (show_ip (sa_ip addr)) (trim_token (rk_user_token rf)) pm1
      in (sink, sh\<lparr>sh_pm := set_protocol (rk_id rf) proto pm2\<rparr>,
          send_to_sink sink (register_pk_response_msg res) proto, True))"

definition tcp_register_peer ::
  "renv \<Rightarrow> register_peer \<Rightarrow> protocol \<Rightarrow> socket_addr \<Rightarrow> sink option \<Rightarrow> shared \<Rightarrow> tcp_result" where
  "tcp_register_peer env rp proto addr sink sh =
     (if rp_id rp = [] then (sink, sh, [], False)
      else
        let (sh1, request_pk) =
          (case get_in_memory (rp_id rp) (sh_pm sh) of
             Some p \<Rightarrow>
               let ip_change = (sa_port (p_socket_addr p) \<noteq> 0 \<and> sa_ip addr \<noteq> sa_ip (p_socket_addr p) \<and>
                                \<not> ip_is_loopback (sa_ip addr));
                   request_pk = (p_pk p = [] \<or> ip_change)
               in (if \<not> request_pk then refresh_addr env (rp_id rp) p addr proto sh else sh, request_pk)
           | None \<Rightarrow> (sh, True))
        in (sink, sh1, send_to_sink sink (register_peer_response_msg request_pk) proto, True))"

definition handle_tcp_msg ::
  "renv \<Rightarrow> server_cfg \<Rightarrow> rendezvous_message \<Rightarrow> protocol \<Rightarrow> socket_addr \<Rightarrow> string \<Rightarrow> bool \<Rightarrow>
   sink option \<Rightarrow> shared \<Rightarrow> tcp_result" where
  "handle_tcp_msg env cfg msg_in proto addr key ws sink sh =
     (case msg_in of
        Some (PunchHoleRequest ph) \<Rightarrow> tcp_punch_hole env cfg ph proto addr key ws sink sh
      | Some (RequestRelay rf) \<Rightarrow> tcp_request_relay env rf proto addr sink sh
      | Some (RelayResponse rr) \<Rightarrow> tcp_relay_response env cfg rr addr sink sh
      | Some (PunchHoleSent phs) \<Rightarrow>
          (case handle_hole_sent env cfg phs addr False sh of (sh1, outs) \<Rightarrow> (sink, sh1, outs, False))
      | Some (LocalAddr la) \<Rightarrow>
          (case handle_local_addr env cfg la addr False sh of (sh1, outs) \<Rightarrow> (sink, sh1, outs, False))
      | Some (TestNatRequest tar) \<Rightarrow> tcp_test_nat cfg tar proto addr sink sh
      | Some (RegisterPk rf) \<Rightarrow> tcp_register_pk env rf proto addr sink sh
      | Some (RegisterPeer rp) \<Rightarrow> tcp_register_peer env rp proto addr sink sh
      | _ \<Rightarrow> (sink, sh, [], False))"

definition handle_tcp ::
  "renv \<Rightarrow> server_cfg \<Rightarrow> bytes \<Rightarrow> sink option \<Rightarrow> socket_addr \<Rightarrow> string \<Rightarrow> bool \<Rightarrow> shared \<Rightarrow> tcp_result" where
  "handle_tcp env cfg bs sink addr key ws sh =
     (case parse_msg (re_wire env) bs of
        None \<Rightarrow> (sink, sh, [], False)
      | Some msg_in \<Rightarrow> handle_tcp_msg env cfg msg_in (detect bs) addr key ws sink sh)"

text \<open>
  The life of one connection: its messages until one of them closes it, and the
  clean-up of the punch map when its sink was given away.  Every message has
  the environment (clock, randomness) of the moment it is handled.
\<close>

fun connection_loop ::
  "server_cfg \<Rightarrow> (renv \<times> bytes) list \<Rightarrow> sink option \<Rightarrow> socket_addr \<Rightarrow> string \<Rightarrow> bool \<Rightarrow> shared \<Rightarrow>
   sink option \<times> shared \<times> out list" where
  "connection_loop cfg [] sink addr key ws sh = (sink, sh, [])"
| "connection_loop cfg ((env, bs) # rest) sink addr key ws sh =
     (case handle_tcp env cfg bs sink addr key ws sh of
        (sink1, sh1, outs, open1) \<Rightarrow>
          if open1 then
            (case connection_loop cfg rest sink1 addr key ws sh1 of
               (sink2, sh2, outs2) \<Rightarrow> (sink2, sh2, outs @ outs2))
          else (sink1, sh1, outs))"

definition handle_listener_inner ::
  "server_cfg \<Rightarrow> (renv \<times> bytes) list \<Rightarrow> sink \<Rightarrow> socket_addr \<Rightarrow> string \<Rightarrow> bool \<Rightarrow> shared \<Rightarrow> shared \<times> out list" where
  "handle_listener_inner cfg msgs conn addr key ws sh =
     (case connection_loop cfg msgs (Some conn) addr key ws sh of
        (sink, sh1, outs) \<Rightarrow>
          (if sink = None then sh1\<lparr>sh_tcp_punch := AList.delete (try_into_v4 addr) (sh_tcp_punch sh1)\<rparr>
           else sh1, outs))"

section \<open>Online queries\<close>

text \<open>
  \<open>states\<close> has one bit per queried peer, from the most significant bit of the first
  byte on.
\<close>

definition mark_online :: "instant \<Rightarrow> peer_map \<Rightarrow> nat \<times> string \<Rightarrow> bytes \<Rightarrow> bytes" where
  "mark_online now pm x states =
     (case x of (i, pid) \<Rightarrow>
        (case get_in_memory pid pm of
           Some p \<Rightarrow>
             if peer_online now p
             then states[i div 8 := (states ! (i div 8)) OR push_bit (7 - i mod 8) 1]
             else states
         | None \<Rightarrow> states))"

definition online_states :: "instant \<Rightarrow> peer_map \<Rightarrow> string list \<Rightarrow> bytes" where
  "online_states now pm peers =
     fold (mark_online now pm) (enumerate 0 peers) (replicate ((length peers + 7) div 8) 0)"

definition handle_online_request :: "renv \<Rightarrow> string list \<Rightarrow> shared \<Rightarrow> out list" where
  "handle_online_request env peers sh =
     [StreamSend (Some (OnlineResponse \<lparr>onr_states = online_states (re_now env) (sh_pm sh) peers\<rparr>))]"

section \<open>The main loop\<close>

text \<open>
  What the loop does with the oldest queued item: a message goes out only if the
  target's protocol can carry it.
\<close>

definition recv_data :: "renv \<Rightarrow> data \<Rightarrow> server_cfg \<Rightarrow> server_cfg \<times> (bytes \<times> socket_addr) list" where
  "recv_data env x cfg =
     (case x of
        Msg msg addr proto \<Rightarrow>
          (cfg, case serialize_msg (re_wire env) msg proto of Some b \<Rightarrow> [(b, addr)] | None \<Rightarrow> [])
      | RelayServers0 rs \<Rightarrow> (parse_relay_servers env rs cfg, [])
      | RelayServers rs \<Rightarrow> (cfg\<lparr>sc_relay_servers := rs\<rparr>, []))"

text \<open>\<open>reachable\<close> stands for a TCP connection to the host with the default relay port.\<close>

definition check_relay_servers :: "(string \<Rightarrow> bool) \<Rightarrow> string list \<Rightarrow> shared \<Rightarrow> shared" where
  "check_relay_servers reachable rs0 sh =
     (let rs = filter (\<lambda>x. reachable (if CHR '':'' \<in> set x then x else x @ '':21117'')) rs0
      in if rs \<noteq> [] then push_tx (RelayServers rs) sh else sh)"

definition timer_tick :: "(string \<Rightarrow> bool) \<Rightarrow> server_cfg \<Rightarrow> shared \<Rightarrow> shared" where
  "timer_tick reachable cfg sh =
     (if length (sc_relay_servers0 cfg) > 1 then check_relay_servers reachable (sc_relay_servers0 cfg) sh else sh)"

end
