(* ===== verification/Server_Cmd.thy ===== *)
theory Server_Cmd
  imports Rendezvous_Server
begin

text \<open>
  The console of the rendezvous server (\<open>check_cmd\<close> in \<open>src/rendezvous_server.rs\<close>), its
  second listener, and the choice of the server key.  The \<open>Debug\<close> texts and the ISO
  time stamps in the answers, and base64, are arguments.
\<close>

section \<open>The console\<close>

record cmd_env =
  ce_debug_ips :: "(string \<times> nat) list \<Rightarrow> string"
  ce_debug_str :: "string \<Rightarrow> string"
  ce_iso :: "nat \<Rightarrow> string"
  ce_is_ip :: "string \<Rightarrow> bool"

definition cmd_help :: string where
  "cmd_help = concat (map (\<lambda>l. l @ LF)
     [''relay-servers(rs) <separated by ,>'', ''reload-geo(rg)'', ''ip-blocker(ib) [<ip>|<number>] [-]'',
      ''ip-changes(ic) [<id>|<number>] [-]'', ''punch-requests(pr) [<number>] [-]'',
      ''always-use-relay(aur)'', ''test-geo(tg) <ip1> <ip2>''])"

definition cmd_relay_servers :: "server_cfg \<Rightarrow> string list \<Rightarrow> shared \<Rightarrow> shared \<times> string" where
  "cmd_relay_servers cfg fds sh =
     (case next_arg fds of
        Some rs \<Rightarrow> (push_tx (RelayServers0 rs) sh, [])
      | None \<Rightarrow> (sh, concat (map (\<lambda>ip. ip @ LF) (sc_relay_servers cfg))))"

definition block_text :: "instant \<Rightarrow> block_entry \<Rightarrow> string" where
  "block_text now e =
     (case e of ((n, t1), (ids, t2)) \<Rightarrow>
        show_nat n @ ''/'' @ show_nat (as_secs (elapsed now t1)) @ ''s '' @
        show_nat (length ids) @ ''/'' @ show_nat (as_secs (elapsed now t2)) @ ''s'')"

definition start_arg :: "string option \<Rightarrow> int" where
  "start_arg a =
     (case a of
        Some x \<Rightarrow> (case parse_signed i32_max x of Some n \<Rightarrow> n | None \<Rightarrow> - 1)
      | None \<Rightarrow> - 1)"

text \<open>
  The page of ten entries from \<open>start\<close> on; \<open>start + 10\<close> is an \<open>i32\<close>, whose
  overflow leaves an empty range.
\<close>

definition page_of :: "int \<Rightarrow> 'a list \<Rightarrow> 'a list" where
  "page_of start xs = (if start + 10 > int i32_max then [] else take 10 (drop (nat start) xs))"

definition cmd_ip_blocker :: "instant \<Rightarrow> string list \<Rightarrow> ip_block_map \<Rightarrow> ip_block_map \<times> string" where
  "cmd_ip_blocker now fds m =
     (let m1 = filter (\<lambda>(_, ((_, t1), (_, t2))).
              as_secs (elapsed now t1) \<le> IP_BLOCK_DUR \<or> as_secs (elapsed now t2) \<le> DAY_SECONDS) m;
          res = show_nat (length m1) @ LF;
          ip = next_arg fds;
          start = start_arg ip;
          page = (\<lambda>s. concat (map (\<lambda>(ip, e). ip @ '': '' @ block_text now e @ LF) (page_of s m1)))
      in if start < 0 then
           (case ip of
              Some ip \<Rightarrow>
                (if next_arg (tl fds) = Some ''-'' then AList.delete ip m1 else m1,
                 res @ (case map_of m1 ip of Some e \<Rightarrow> block_text now e @ LF | None \<Rightarrow> []))
            | None \<Rightarrow> (m1, res @ page 0))
         else (m1, res @ page start))"

definition cmd_ip_changes :: "cmd_env \<Rightarrow> instant \<Rightarrow> string list \<Rightarrow> ip_changes_map \<Rightarrow> ip_changes_map \<times> string" where
  "cmd_ip_changes ce now fds m =
     (let m1 = filter (\<lambda>(_, (tm, ips)). as_secs (elapsed now tm) < IP_CHANGE_DUR_X2 \<and> length ips > 1) m;
          res = show_nat (length m1) @ LF;
          pid = next_arg fds;
          start = start_arg pid;
          line = (\<lambda>(tm, ips). show_nat (as_secs (elapsed now tm)) @ ''s '' @ ce_debug_ips ce ips @ LF);
          page = (\<lambda>s m. concat (map (\<lambda>(k, v). k @ '': '' @ line v) (page_of s m)))
      in if \<not> (0 \<le> start \<and> start \<le> 10000000) then
           (case pid of
              Some k \<Rightarrow>
                let m2 = (if next_arg (tl fds) = Some ''-'' then AList.delete k m1 else m1);
                    res1 = res @ (case map_of m1 k of Some v \<Rightarrow> line v | None \<Rightarrow> [])
                in (m2, if start \<ge> 0 then res1 @ page start m2 else res1)
            | None \<Rightarrow> (m1, res @ page 0 m1))
         else (m1, res @ page start m1))"

definition cmd_punch_requests ::
  "cmd_env \<Rightarrow> instant \<Rightarrow> string list \<Rightarrow> punch_req_entry list \<Rightarrow> punch_req_entry list \<times> string" where
  "cmd_punch_requests ce now fds reqs =
     (if next_arg fds = Some ''-'' then ([], [])
      else
        let start = (case next_arg fds of
                       Some x \<Rightarrow> (case parse_usize x of Some n \<Rightarrow> n | None \<Rightarrow> 0) | None \<Rightarrow> 0);
            page0 = (case next_arg (tl fds) of
                       Some x \<Rightarrow> (case parse_usize x of Some n \<Rightarrow> n | None \<Rightarrow> 10) | None \<Rightarrow> 10);
            page_size = (if page0 = 0 then 10 else page0)
        in (reqs, concat (map (\<lambda>e. ce_iso ce (elapsed now (pq_tm e)) @ '' '' @ pq_from_ip e @ '' -> '' @
              pq_to_id e @ ''@'' @ pq_to_ip e @ LF) (take page_size (drop start reqs)))))"

definition cmd_always_use_relay :: "string list \<Rightarrow> shared \<Rightarrow> shared \<times> string" where
  "cmd_always_use_relay fds sh =
     (case next_arg fds of
        Some rs \<Rightarrow> (push_tx (RelayServers0 rs) (sh\<lparr>sh_always_use_relay := (to_uppercase rs = ''Y'')\<rparr>), [])
      | None \<Rightarrow> (sh, ''ALWAYS_USE_RELAY: '' @ (if sh_always_use_relay sh then ''true'' else ''false'') @ LF))"

definition cmd_test_geo :: "cmd_env \<Rightarrow> server_cfg \<Rightarrow> string list \<Rightarrow> shared \<Rightarrow> shared \<times> string" where
  "cmd_test_geo ce cfg fds sh =
     (case fds of
        a # rest \<Rightarrow>
          if \<not> ce_is_ip ce a then (sh, [])
          else (case rest of
                  b # _ \<Rightarrow>
                    if ce_is_ip ce b
                    then (case get_relay_server cfg sh of (sh', r) \<Rightarrow> (sh', ce_debug_str ce r)) else (sh, [])
                | [] \<Rightarrow> (case get_relay_server cfg sh of (sh', r) \<Rightarrow> (sh', ce_debug_str ce r)))
      | [] \<Rightarrow> (sh, []))"

definition check_cmd :: "cmd_env \<Rightarrow> instant \<Rightarrow> server_cfg \<Rightarrow> string \<Rightarrow> shared \<Rightarrow> shared \<times> string" where
  "check_cmd ce now cfg cmd sh =
     (case split_on CHR '' '' (trim cmd) of
        [] \<Rightarrow> (sh, [])
      | c # fds \<Rightarrow>
          if c = ''h'' then (sh, cmd_help)
          else if c = ''relay-servers'' \<or> c = ''rs'' then cmd_relay_servers cfg fds sh
          else if c = ''ip-blocker'' \<or> c = ''ib'' then
            (case cmd_ip_blocker now fds (sh_ip_blocker sh) of (m, res) \<Rightarrow> (sh\<lparr>sh_ip_blocker := m\<rparr>, res))
          else if c = ''ip-changes'' \<or> c = ''ic'' then
            (case cmd_ip_changes ce now fds (sh_ip_changes sh) of (m, res) \<Rightarrow> (sh\<lparr>sh_ip_changes := m\<rparr>, res))
          else if c = ''punch-requests'' \<or> c = ''pr'' then
            (case cmd_punch_requests ce now fds (sh_punch_reqs sh) of (r, res) \<Rightarrow> (sh\<lparr>sh_punch_reqs := r\<rparr>, res))
          else if c = ''always-use-relay'' \<or> c = ''aur'' then cmd_always_use_relay fds sh
          else if c = ''test-geo'' \<or> c = ''tg'' then cmd_test_geo ce cfg fds sh
          else (sh, []))"

section \<open>The second listener\<close>

text \<open>
  A loopback connection is the console (\<open>from_utf8\<close> decodes what was read), any other
  is a NAT test or an online query.
\<close>

definition handle_listener2 ::
  "cmd_env \<Rightarrow> renv \<Rightarrow> server_cfg \<Rightarrow> (bytes \<Rightarrow> string option) \<Rightarrow> bytes \<Rightarrow> socket_addr \<Rightarrow> shared \<Rightarrow>
   shared \<times> (string + out) list" where
  "handle_listener2 ce env cfg from_utf8 bs addr sh =
     (if ip_is_loopback (sa_ip (try_into_v4 addr)) then
        (case from_utf8 bs of
           Some cmd \<Rightarrow> (case check_cmd ce (re_now env) cfg cmd sh of (sh', res) \<Rightarrow> (sh', [Inl res]))
         | None \<Rightarrow> (sh, []))
      else
        (case parse_msg (re_wire env) bs of
           Some (Some (TestNatRequest _)) \<Rightarrow> (sh, [Inr (StreamSend (test_nat_response_msg addr None))])
         | Some (Some (OnlineRequest oq)) \<Rightarrow> (sh, map Inr (handle_online_request env (onq_peers oq) sh))
         | _ \<Rightarrow> (sh, [])))"

section \<open>The server key\<close>

text \<open>
  \<open>gen\<close> is \<open>gen_sk(0)\<close>: the public key text and the secret key, if one could be
  read or made.  A key that decodes to 64 bytes is a secret key, whose second
  half is the public key.
\<close>

definition get_server_sk ::
  "(string \<Rightarrow> bytes option) \<Rightarrow> (bytes \<Rightarrow> string) \<Rightarrow> string \<times> bytes option \<Rightarrow> string \<Rightarrow> string \<times> bytes option" where
  "get_server_sk b64_decode b64_encode gen key =
     (let (key1, out_sk) =
        (case b64_decode key of
           Some sk \<Rightarrow> if length sk = 64 then (b64_encode (drop 32 sk), Some sk) else (key, None)
         | None \<Rightarrow> (key, None))
      in if key1 = [] \<or> key1 = ''-'' \<or> key1 = ''_''
         then (if key1 \<noteq> [] then fst gen else key1, snd gen)
         else (key1, out_sk))"

end
