(* ===== verification/Rendezvous_Props.thy ===== *)
theory Rendezvous_Props
  imports Server_Cmd
begin

text \<open>
  What the rendezvous server guarantees: who may change a peer's key, where a
  punch-hole exchange is delivered, the answers of every branch, the online
  bitmap, the relay rotation and configuration updates.
\<close>

section \<open>Helpers\<close>

lemma pm_get_present: "get_in_memory k pm = Some p \<Longrightarrow> pm_get env k pm = (pm, Some p)"
  by (simp add: pm_get_def get_in_memory_def)

lemma pm_get_or_present: "get_in_memory k pm = Some p \<Longrightarrow> pm_get_or env k pm = (pm, p)"
  by (simp add: pm_get_or_def pm_get_present)

lemma get_relay_server_frame:
  "sh_pm (fst (get_relay_server cfg sh)) = sh_pm sh"
  "sh_tcp_punch (fst (get_relay_server cfg sh)) = sh_tcp_punch sh"
  "sh_tx (fst (get_relay_server cfg sh)) = sh_tx sh"
  by (simp_all add: get_relay_server_def Let_def)

lemma punch_message_frame:
  "sh_pm (fst (punch_message env cfg a b ph ws sh)) = sh_pm sh"
  "sh_tcp_punch (fst (punch_message env cfg a b ph ws sh)) = sh_tcp_punch sh"
  "sh_tx (fst (punch_message env cfg a b ph ws sh)) = sh_tx sh"
  using get_relay_server_frame [of cfg sh]
  by (auto simp: punch_message_def Let_def split: prod.splits)

text \<open>The requester's address inside the message for the other peer.\<close>

fun punch_origin :: "rendezvous_message \<Rightarrow> bytes option" where
  "punch_origin (Some (PunchHole m)) = Some (ph_socket_addr m)"
| "punch_origin (Some (FetchLocalAddr m)) = Some (fla_socket_addr m)"
| "punch_origin _ = None"

lemma punch_message_origin:
  "punch_origin (snd (punch_message env cfg a b ph ws sh)) = Some (AddrMangle_encode (re_micros env) a)"
  by (auto simp: punch_message_def Let_def split: prod.splits)

lemma try_into_v4_forget: "try_into_v4 (forget_scope (try_into_v4 a)) = forget_scope (try_into_v4 a)"
  by (cases a) (auto split: option.splits)

lemma update_pk_untokened_OK:
  "\<not> require_jwt env \<Longrightarrow> env_db_up env \<Longrightarrow> snd (update_pk env k p addr uuid pk ip None pm) = OK"
  by (simp add: update_pk_def token_trimmed_def store_pk_def Let_def split: prod.splits)

lemma update_pk_store_fields:
  assumes "update_pk env k p addr uuid pk ip None pm = (pm', OK)" "backed k p (pm_db pm)"
  shows "\<exists>w r. get_in_memory k pm' = Some w \<and> p_uuid w = uuid \<and> p_pk w = pk \<and>
     db_peer_of k (pm_db pm') = Some r \<and> pr_pk r = pk"
proof -
  have "store_pk env k p addr uuid pk ip pm = (pm', OK)"
    using assms(1) by (auto simp: update_pk_def token_trimmed_def split: if_splits)
  from store_pk_OK [OF this assms(2)] show ?thesis by blast
qed

lemma set_protocol_look:
  "get_in_memory k (set_protocol k proto pm) =
     map_option (\<lambda>p. p\<lparr>p_protocol := proto\<rparr>) (get_in_memory k pm)"
  "pm_db (set_protocol k proto pm) = pm_db pm"
  by (auto simp: set_protocol_def mem.look_put_same split: option.splits)

lemma punch_request_frame:
  assumes "handle_punch_hole_request env cfg addr ph key ws sh = (sh', msg, to_addr, proto)"
  shows "sh_tcp_punch sh' = sh_tcp_punch sh" "sh_tx sh' = sh_tx sh"
    and "to_addr = Some a \<Longrightarrow> punch_origin msg = Some (AddrMangle_encode (re_micros env) addr)"
proof -
  obtain pm1 r where g: "pm_get (re_peer env) (phr_id ph) (sh_pm sh) = (pm1, r)" by fastforce
  have p: "punch_origin m = Some (AddrMangle_encode (re_micros env) addr) \<and> sh_tx s1 = sh_tx s0 \<and>
      sh_tcp_punch s1 = sh_tcp_punch s0"
    if "punch_message env cfg addr b ph ws s0 = (s1, m)" for b s0 s1 m
    using punch_message_origin [of env cfg addr b ph ws s0] punch_message_frame [of env cfg addr b ph ws s0]
      that by simp
  show "sh_tcp_punch sh' = sh_tcp_punch sh" "sh_tx sh' = sh_tx sh"
    using assms g p
    by (fastforce simp: handle_punch_hole_request_def Let_def split: option.splits prod.splits if_splits)+
  show "to_addr = Some a \<Longrightarrow> punch_origin msg = Some (AddrMangle_encode (re_micros env) addr)"
    using assms g p
    by (auto simp: handle_punch_hole_request_def Let_def split: option.splits prod.splits if_splits)
qed

lemma get_pk_frame:
  "sh_tcp_punch (fst (get_pk env cfg v k sh)) = sh_tcp_punch sh"
  by (auto simp: get_pk_def split: option.splits prod.splits)

section \<open>Properties: identity\<close>


text \<open>
  Over TCP there is no such check: where no user token is required, a
  \<open>RegisterPk\<close> without a token replaces uuid and key of any peer, known or not,
  in memory and in the database, and is answered with \<open>OK\<close>.
\<close>

theorem tcp_register_pk_overwrites:
  assumes "\<not> require_jwt (re_peer env)" "env_db_up (re_peer env)" "trim (rk_user_token rf) = []"
    and "get_in_memory (rk_id rf) (sh_pm sh) = Some p" "backed (rk_id rf) p (pm_db (sh_pm sh))"
    and "tcp_register_pk env rf proto addr (Some conn) sh = (sink', sh', outs, open')"
  shows "(\<exists>w r. get_in_memory (rk_id rf) (sh_pm sh') = Some w \<and> p_uuid w = rk_uuid rf \<and> p_pk w = rk_pk rf \<and>
            db_peer_of (rk_id rf) (pm_db (sh_pm sh')) = Some r \<and> pr_pk r = rk_pk rf) \<and>
         outs = [SinkSend conn (register_pk_response_msg OK) proto]"
proof -
  let ?u = "update_pk (re_peer env) (rk_id rf) p addr (rk_uuid rf) (rk_pk rf) (show_ip (sa_ip addr)) None (sh_pm sh)"
  obtain pm2 where u: "?u = (pm2, OK)"
    using update_pk_untokened_OK [OF assms(1,2)] by (metis prod.collapse)
  obtain w r where w: "get_in_memory (rk_id rf) pm2 = Some w" "p_uuid w = rk_uuid rf" "p_pk w = rk_pk rf"
    "db_peer_of (rk_id rf) (pm_db pm2) = Some r" "pr_pk r = rk_pk rf"
    using update_pk_store_fields [OF u assms(5)] by blast
  have "sh' = sh\<lparr>sh_pm := set_protocol (rk_id rf) proto pm2\<rparr>"
    "outs = [SinkSend conn (register_pk_response_msg OK) proto]"
    using assms(3,4,6) u
    by (auto simp: tcp_register_pk_def Let_def pm_get_or_present trim_token_def send_to_sink_def)
  then show ?thesis using w set_protocol_look [of "rk_id rf" proto pm2] by auto
qed

definition test_renv :: renv where
  "test_renv = \<lparr>re_peer = test_env, re_micros = 12345, re_resolves = \<lambda>_. True,
     re_sign = \<lambda>m sk. sk @ m, re_idpk_bytes = \<lambda>_ pk. pk,
     re_wire = \<lparr>w_parse_from_bytes = \<lambda>_. None, w_write_to_bytes = \<lambda>_. Some [8],
       w_read_message = \<lambda>_. None, w_write_message = \<lambda>_. Some [0]\<rparr>\<rparr>"

definition test_shared :: shared where
  "test_shared = \<lparr>sh_tcp_punch = [],
     sh_pm = empty_pm\<lparr>pm_map := [(''peer-1'', (default_peer (10000 * nanos_per_sec))\<lparr>p_uuid := [9], p_pk := [9],
       p_socket_addr := V4 (Ipv4Addr 9 9 9 9) 99, p_last_reg_time := 9999 * nanos_per_sec\<rparr>)]\<rparr>,
     sh_tx = [], sh_ip_blocker = [], sh_ip_changes = [], sh_punch_reqs = [], sh_rotation = 0,
     sh_always_use_relay = False\<rparr>"

definition test_rk :: register_pk where
  "test_rk = \<lparr>rk_id = ''peer-1'', rk_uuid = [1], rk_pk = [2], rk_old_id = [], rk_no_register_device = False,
     rk_user_token = []\<rparr>"


theorem tcp_register_pk_overwrites_witness:
  "\<exists>w. get_in_memory ''peer-1''
       (sh_pm (fst (snd (tcp_register_pk test_renv test_rk Proto3 (V4 (Ipv4Addr 1 2 3 4) 5) (Some 3) test_shared))))
     = Some w \<and> p_pk w = [2]"
proof -
  let ?t = "tcp_register_pk test_renv test_rk Proto3 (V4 (Ipv4Addr 1 2 3 4) 5) (Some 3) test_shared"
  obtain a b c d where t: "?t = (a, b, c, d)" by (metis prod.collapse)
  have "\<not> require_jwt (re_peer test_renv)" "env_db_up (re_peer test_renv)" "trim (rk_user_token test_rk) = []"
    by (simp_all add: test_renv_def test_env_def require_jwt_def test_rk_def trim_def)
  then show ?thesis
    using tcp_register_pk_overwrites [OF _ _ _ _ _ t] t
    by (auto simp: test_rk_def test_shared_def get_in_memory_def default_peer_def backed_def)
qed

text \<open>
  Over UDP a refused registration is reported as success: when user tokens
  are required and the request of an unknown peer carries none, \<open>update_pk\<close>
  refuses and nothing is stored in the database, but the answer is \<open>OK\<close>.
\<close>

theorem udp_register_pk_reports_OK:
  assumes "require_jwt (re_peer env)" "trim (rk_user_token rk) = []"
    and "rk_uuid rk \<noteq> []" "rk_pk rk \<noteq> []" "6 \<le> length (rk_id rk)"
    and "snd (check_ip_blocker (re_now env) (show_ip (sa_ip addr)) (rk_id rk) (sh_ip_blocker sh))"
    and "get_in_memory (rk_id rk) (sh_pm sh) = Some p" "p_uuid p = []"
    and "snd (reg_pk_step (re_now env) (p_reg_pk p))"
    and "udp_register_pk env rk addr proto sh = (sh', outs)"
  shows "outs = send_rk_res addr OK proto \<and> pm_db (sh_pm sh') = pm_db (sh_pm sh) \<and>
         (\<exists>w. get_in_memory (rk_id rk) (sh_pm sh') = Some w \<and> p_pk w = p_pk p \<and> p_uuid w = [])"
proof -
  have ref: "update_pk (re_peer env) k q a u pk i None pm = (pm, SERVER_ERROR)" for k q a u pk i pm
    using assms(1) by (simp add: update_pk_def token_trimmed_def)
  have t: "trim_token (rk_user_token rk) = None" using assms(2) by (simp add: trim_token_def)
  obtain reg where reg: "reg_pk_step (re_now env) (p_reg_pk p) = (reg, True)"
    using assms(9) by (metis (full_types) prod.collapse)
  obtain blk where blk: "check_ip_blocker (re_now env) (show_ip (sa_ip addr)) (rk_id rk) (sh_ip_blocker sh) = (blk, True)"
    using assms(6) by (metis (full_types) prod.collapse)
  have "pk_identity_check p rk (show_ip (sa_ip addr)) = Some (True, False)"
    using assms(8) by (simp add: pk_identity_check_def)
  then have "udp_register_pk env rk addr proto sh =
      udp_register_pk_accept env rk addr proto p reg True False (sh\<lparr>sh_ip_blocker := blk\<rparr>)"
    using assms(3-5,7) blk reg
    by (simp add: udp_register_pk_def Let_def pm_get_or_present)
  then show ?thesis
    using assms(8,10) ref t set_protocol_look mem.look_put_same
    by (auto simp: udp_register_pk_accept_def Let_def)
qed

theorem udp_register_pk_reports_OK_witness:
  "snd (udp_register_pk (test_renv\<lparr>re_peer := test_env\<lparr>env_require_peer_jwt := Some ''1''\<rparr>\<rparr>) test_rk
      (V4 (Ipv4Addr 1 2 3 4) 5) Proto3
      (test_shared\<lparr>sh_pm := empty_pm\<lparr>pm_map := [(''peer-1'', default_peer 0)]\<rparr>\<rparr>))
   = send_rk_res (V4 (Ipv4Addr 1 2 3 4) 5) OK Proto3"
  using udp_register_pk_reports_OK
    [of "test_renv\<lparr>re_peer := test_env\<lparr>env_require_peer_jwt := Some ''1''\<rparr>\<rparr>" test_rk "V4 (Ipv4Addr 1 2 3 4) 5"
        "test_shared\<lparr>sh_pm := empty_pm\<lparr>pm_map := [(''peer-1'', default_peer 0)]\<rparr>\<rparr>" "default_peer 0" Proto3,
     OF _ _ _ _ _ _ _ _ _ prod.collapse [symmetric]]
  by (simp add: test_renv_def require_jwt_def test_rk_def trim_def get_in_memory_def default_peer_def
      test_shared_def check_ip_blocker_def block_step_def reg_pk_step_def test_env_def)

section \<open>Properties: punching holes\<close>


definition test_cfg :: server_cfg where
  "test_cfg = \<lparr>sc_relay_servers = [''r1'', ''r2''], sc_relay_servers0 = [''r1'', ''r2''], sc_rendezvous_servers = [],
     sc_inner = \<lparr>in_serial = 0, in_version = [], in_software_url = [], in_mask = None, in_local_ip = [],
       in_sk = Some [5]\<rparr>\<rparr>"

definition test_ph :: punch_hole_request where
  "test_ph = \<lparr>phr_id = ''peer-1'', phr_nat_type = Known ASYMMETRIC, phr_licence_key = ''k'',
     phr_conn_type = Known DEFAULT_CONN, phr_token = [], phr_version = ''1'', phr_udp_port = 0,
     phr_force_relay = False, phr_upnp_port = 0, phr_socket_addr_v6 = []\<rparr>"


text \<open>
  C33.  A TCP punch-hole exchange comes back to the connection that asked: after
  A's request was forwarded, B's \<open>PunchHoleSent\<close> with the address bytes B received is
  answered on A's sink, in A's protocol, and the sink has left the map.  This
  needs A's address to survive the encoding: an IPv6 address with a flow label
  or scope id does not.
\<close>

theorem tcp_punch_exchange:
  assumes "forget_scope (try_into_v4 addr_a) = try_into_v4 addr_a"
    and "tcp_punch_hole env cfg ph proto addr_a key ws (Some conn) sh = (sink', sh1, outs1, True)"
    and "sh_tx sh1 = sh_tx sh @ [Msg msg addr_b target_proto]"
    and "punch_origin msg = Some (phs_socket_addr phs)"
    and "handle_hole_sent env' cfg' phs addr_b' False sh1 = (sh2, outs2)"
  shows "(\<exists>m. outs2 = [SinkSend conn (Some (PunchHoleResponse m)) proto] \<and>
              AddrMangle_decode (phres_socket_addr m) = forget_scope (try_into_v4 addr_b')) \<and>
         map_of (sh_tcp_punch sh2) (try_into_v4 addr_a) = None"
proof -
  let ?k = "try_into_v4 addr_a"
  let ?s = "stash_sink (Some conn) addr_a proto sh"
  obtain sh0 m to_addr tp where h: "handle_punch_hole_request env cfg addr_a ph key ws ?s = (sh0, m, to_addr, tp)"
    by (metis prod.collapse)
  note f = punch_request_frame [OF h]
  have s: "map_of (sh_tcp_punch ?s) ?k = Some (conn, proto)" "sh_tx ?s = sh_tx sh"
    by (simp_all add: stash_sink_def update_conv')
  obtain a where a: "to_addr = Some a" "sh1 = push_tx (Msg m a tp) sh0"
    using assms(2,3) h f s(2)
    by (cases to_addr)
       (auto simp: tcp_punch_hole_def handle_tcp_punch_hole_request_def send_to_tcp_def Let_def
         split: option.splits prod.splits)
  then have "m = msg" using assms(3) f(2) s(2) by (simp add: push_tx_def)
  then have d: "AddrMangle_decode (phs_socket_addr phs) = ?k"
    using assms(1,4) f(3) [OF a(1)] by (simp add: AddrMangle_decode_encode)
  obtain sh' pk where g: "get_pk env' cfg' (phs_version phs) (phs_id phs) sh1 = (sh', pk)" by fastforce
  have t: "sh_tcp_punch sh' = sh_tcp_punch ?s" "map_of (sh_tcp_punch ?s) ?k = Some (conn, proto)"
    using get_pk_frame [of env' cfg' "phs_version phs" "phs_id phs" sh1] g a(2) f(1) s(1)
    by (auto simp: push_tx_def)
  show ?thesis
    using assms(5) d g t
    by (auto simp: handle_hole_sent_def Let_def answer_to_def send_to_tcp_def try_into_v4_idem
        AddrMangle_decode_encode delete_conv')
qed

definition test_phs :: "bytes \<Rightarrow> punch_hole_sent" where
  "test_phs bs = \<lparr>phs_socket_addr = bs, phs_id = ''peer-1'', phs_relay_server = [], phs_nat_type = Known ASYMMETRIC,
     phs_version = ''1'', phs_upnp_port = 0, phs_socket_addr_v6 = []\<rparr>"

theorem tcp_punch_exchange_witness:
  "\<exists>m. snd (handle_hole_sent test_renv test_cfg
        (test_phs (AddrMangle_encode 12345 (V4 (Ipv4Addr 1 2 3 4) 5))) (V4 (Ipv4Addr 9 9 9 9) 99) False
        (fst (snd (tcp_punch_hole test_renv test_cfg test_ph Capnp (V4 (Ipv4Addr 1 2 3 4) 5) ''k'' False (Some 7) test_shared))))
     = [SinkSend 7 m Capnp]"
proof -
  let ?a = "V4 (Ipv4Addr 1 2 3 4) 5"
  let ?t = "tcp_punch_hole test_renv test_cfg test_ph Capnp ?a ''k'' False (Some 7) test_shared"
  let ?p = "PunchHole \<lparr>ph_socket_addr = AddrMangle_encode 12345 ?a, ph_relay_server = ''r1'', ph_nat_type = Known ASYMMETRIC,
      ph_udp_port = 0, ph_force_relay = False, ph_upnp_port = 0, ph_socket_addr_v6 = [], ph_control_permissions = None\<rparr>"
  have t: "?t = (None, fst (snd ?t), fst (snd (snd ?t)), True)"
    by (simp add: tcp_punch_hole_def Let_def split: prod.splits)
  have tx: "sh_tx (fst (snd ?t)) = sh_tx test_shared @ [Msg (Some ?p) (V4 (Ipv4Addr 9 9 9 9) 99) Proto3]"
    by (simp add: tcp_punch_hole_def handle_tcp_punch_hole_request_def handle_punch_hole_request_def Let_def
        test_ph_def test_shared_def pm_get_def peer_online_def default_peer_def test_renv_def stash_sink_def
        test_env_def as_millis_def elapsed_def nanos_per_sec_def REG_TIMEOUT_def punch_message_def
        get_relay_server_def test_cfg_def is_lan_def same_ip_def push_tx_def)
  obtain s2 o2 where e: "handle_hole_sent test_renv test_cfg (test_phs (AddrMangle_encode 12345 ?a))
      (V4 (Ipv4Addr 9 9 9 9) 99) False (fst (snd ?t)) = (s2, o2)" by fastforce
  have "\<exists>m. o2 = [SinkSend 7 (Some (PunchHoleResponse m)) Capnp]"
    using tcp_punch_exchange [OF _ t tx _ e] by (auto simp: test_phs_def)
  then show ?thesis using e by auto
qed

section \<open>Properties: online peers\<close>

definition online_in :: "instant \<Rightarrow> peer_map \<Rightarrow> string \<Rightarrow> bool" where
  "online_in now pm pid = (case get_in_memory pid pm of Some p \<Rightarrow> peer_online now p | None \<Rightarrow> False)"

lemma length_mark_online [simp]: "length (mark_online now pm x ss) = length ss"
  by (simp add: mark_online_def split: prod.splits option.splits)

lemma length_fold_mark_online [simp]: "length (fold (mark_online now pm) xs ss) = length ss"
  by (induction xs arbitrary: ss) simp_all

lemma bit_position_inj:
  assumes "i div 8 = j div 8" "7 - i mod 8 = 7 - j mod (8 :: nat)"
  shows "i = j"
proof -
  have "i mod 8 < 8" "j mod 8 < 8" by simp_all
  then have "i mod 8 = j mod 8" using assms(2) by linarith
  then show ?thesis using assms(1) by (metis div_mult_mod_eq)
qed

lemma bit_mark_online:
  assumes "i div 8 < length ss" "j div 8 < length ss"
  shows "bit (mark_online now pm (i, pid) ss ! (j div 8)) (7 - j mod 8) \<longleftrightarrow>
     bit (ss ! (j div 8)) (7 - j mod 8) \<or> i = j \<and> online_in now pm pid"
proof -
  have "bit (push_bit (7 - i mod 8) 1 :: u8) (7 - j mod 8) \<longleftrightarrow> 7 - i mod 8 = 7 - j mod 8"
    by (auto simp: bit_simps bit_1_iff)
  then show ?thesis
    using assms bit_position_inj [of i j]
    by (auto simp: mark_online_def online_in_def nth_list_update bit_or_iff split: option.splits)
qed

lemma bit_fold_mark_online:
  assumes "\<And>i pid. (i, pid) \<in> set xs \<Longrightarrow> i div 8 < length ss" "j div 8 < length ss"
  shows "bit (fold (mark_online now pm) xs ss ! (j div 8)) (7 - j mod 8) \<longleftrightarrow>
     bit (ss ! (j div 8)) (7 - j mod 8) \<or> (\<exists>pid. (j, pid) \<in> set xs \<and> online_in now pm pid)"
  using assms
proof (induction xs arbitrary: ss)
  case (Cons x xs)
  obtain i pid where x: "x = (i, pid)" by (cases x)
  have i: "i div 8 < length ss" using Cons.prems(1) [of i pid] x by simp
  show ?case
    using Cons.IH [of "mark_online now pm x ss"] Cons.prems bit_mark_online [OF i Cons.prems(2), of now pm pid]
    by (auto simp: x)
qed simp

text \<open>
  The online bitmap: the answer to a query of \<open>n\<close> peers has \<open>n\<close> bits rounded up
  to bytes, and the \<open>i\<close>-th bit, counted from the most significant bit of the
  first byte, is set exactly when the \<open>i\<close>-th peer is in memory and online.
\<close>

theorem online_states_bitmap:
  assumes "i < length peers"
  shows "length (online_states now pm peers) = (length peers + 7) div 8 \<and>
         (bit (online_states now pm peers ! (i div 8)) (7 - i mod 8) \<longleftrightarrow>
          (case get_in_memory (peers ! i) pm of Some p \<Rightarrow> peer_online now p | None \<Rightarrow> False))"
proof
  let ?ss = "replicate ((length peers + 7) div 8) (0 :: u8)"
  show "length (online_states now pm peers) = (length peers + 7) div 8"
    by (simp add: online_states_def)
  have b: "k div 8 < length ?ss" if "k < length peers" for k using that by simp
  have "bit (online_states now pm peers ! (i div 8)) (7 - i mod 8) \<longleftrightarrow>
      bit (?ss ! (i div 8)) (7 - i mod 8) \<or> (\<exists>pid. (i, pid) \<in> set (enumerate 0 peers) \<and> online_in now pm pid)"
    unfolding online_states_def
    by (rule bit_fold_mark_online) (use b assms in \<open>auto simp: in_set_enumerate_eq\<close>)
  also have "\<dots> \<longleftrightarrow> online_in now pm (peers ! i)"
    using assms b [OF assms] by (auto simp: in_set_enumerate_eq)
  finally show "bit (online_states now pm peers ! (i div 8)) (7 - i mod 8) \<longleftrightarrow>
      (case get_in_memory (peers ! i) pm of Some p \<Rightarrow> peer_online now p | None \<Rightarrow> False)"
    by (simp add: online_in_def)
qed

theorem online_states_bitmap_witness:
  "bit (online_states (10000 * nanos_per_sec) (sh_pm test_shared) [''other'', ''peer-1''] ! 0) 6"
  using online_states_bitmap [of 1 "[''other'', ''peer-1'']" "10000 * nanos_per_sec" "sh_pm test_shared"]
  by (simp add: test_shared_def get_in_memory_def peer_online_def as_millis_def elapsed_def nanos_per_sec_def
      REG_TIMEOUT_def default_peer_def)

text \<open>
  A peer counts as online while it registered within the last 30 seconds; but the
  age in milliseconds is cut to an \<open>i32\<close>, so a peer that has been silent for
  between \<open>2^31\<close> and \<open>2^32\<close> milliseconds (about 25 to 50 days) counts as
  online again.
\<close>

theorem online_after_overflow:
  assumes "ms = as_millis (elapsed now (p_last_reg_time p))" "ms < 2 ^ 32"
  shows "peer_online now p \<longleftrightarrow> ms < 30000 \<or> 2 ^ 31 \<le> ms"
proof (cases "ms < 2 ^ 31")
  case True
  then show ?thesis using assms(1) by (simp add: peer_online_def REG_TIMEOUT_def)
next
  case False
  then have "as_i32 ms = int ms - 2 ^ 32" using as_i32_high [of ms] assms(2) by simp
  then show ?thesis using assms False by (simp add: peer_online_def REG_TIMEOUT_def)
qed

theorem online_after_overflow_witness:
  "peer_online (2000000 * nanos_per_sec) (default_peer 0) = False \<and>
   peer_online (2246400 * nanos_per_sec) (default_peer 0)"
  using online_after_overflow [of _ "2000000 * nanos_per_sec" "default_peer 0", OF refl]
    online_after_overflow [of _ "2246400 * nanos_per_sec" "default_peer 0", OF refl]
  by (simp add: default_peer_def get_expired_time_def as_millis_def elapsed_def nanos_per_sec_def)

section \<open>Properties: configuration and relays\<close>

lemma handle_udp_cfg:
  assumes "handle_udp env bs addr key cfg sh = (cfg', sh', outs)"
  shows "cfg' = cfg \<or> (ip_is_loopback (sa_ip (try_into_v4 addr)) \<and>
     sint (in_serial (sc_inner cfg')) > sint (in_serial (sc_inner cfg)) \<and>
     sc_relay_servers cfg' = sc_relay_servers cfg \<and>
     (\<forall>x \<in> set (sc_rendezvous_servers cfg'). x \<noteq> [] \<and> test_if_valid_server (re_resolves env) x))"
  using assms
  by (auto simp: handle_udp_def handle_udp_msg_def configure_update_def
      split: option.splits rendezvous_union.splits if_splits)

text \<open>
  Only the local host configures the server: a UDP datagram changes the
  configuration only when it comes from a loopback address and raises the
  serial number, so the serial never falls over any sequence of datagrams,
  and the servers it then announces are non-empty and resolvable.
\<close>

theorem configuration_guard:
  assumes "run = (\<lambda>(env, bs, addr) (cfg, sh). case handle_udp env bs addr key cfg sh of (cfg', sh', _) \<Rightarrow> (cfg', sh'))"
  shows "(handle_udp env bs addr key cfg sh = (cfg', sh', outs) \<and> cfg' \<noteq> cfg \<longrightarrow>
           ip_is_loopback (sa_ip (try_into_v4 addr)) \<and>
           (\<forall>x \<in> set (sc_rendezvous_servers cfg'). x \<noteq> [] \<and> test_if_valid_server (re_resolves env) x)) \<and>
         sint (in_serial (sc_inner cfg)) \<le> sint (in_serial (sc_inner (fst (fold run datagrams (cfg, sh)))))"
proof
  show "handle_udp env bs addr key cfg sh = (cfg', sh', outs) \<and> cfg' \<noteq> cfg \<longrightarrow>
           ip_is_loopback (sa_ip (try_into_v4 addr)) \<and>
           (\<forall>x \<in> set (sc_rendezvous_servers cfg'). x \<noteq> [] \<and> test_if_valid_server (re_resolves env) x)"
    using handle_udp_cfg by blast
  show "sint (in_serial (sc_inner cfg)) \<le> sint (in_serial (sc_inner (fst (fold run datagrams (cfg, sh)))))"
  proof (induction datagrams arbitrary: cfg sh)
    case (Cons d ds)
    obtain e b a where d: "d = (e, b, a)" by (cases d)
    obtain c' s' o' where h: "handle_udp e b a key cfg sh = (c', s', o')" by (metis prod.collapse)
    have "sint (in_serial (sc_inner cfg)) \<le> sint (in_serial (sc_inner c'))"
      using handle_udp_cfg [OF h] by auto
    also have "\<dots> \<le> sint (in_serial (sc_inner (fst (fold run ds (c', s')))))" by (rule Cons.IH)
    finally show ?case using d h assms by simp
  qed simp
qed

theorem configuration_guard_witness:
  "sint (in_serial (sc_inner test_cfg)) \<le> sint (in_serial (sc_inner (fst (fold
     (\<lambda>(env, bs, addr) (cfg, sh). case handle_udp env bs addr [] cfg sh of (cfg', sh', _) \<Rightarrow> (cfg', sh'))
     [(test_renv, [8], V4 (Ipv4Addr 127 0 0 1) 1)] (test_cfg, test_shared)))))"
  using configuration_guard [OF refl, of test_renv "[8]" "V4 (Ipv4Addr 127 0 0 1) 1" "[]" test_cfg test_shared
      _ _ _ "[(test_renv, [8], V4 (Ipv4Addr 127 0 0 1) 1)]"]
  by blast

text \<open>The relay chosen by the \<open>k\<close>-th of a series of requests.\<close>

fun relay_series :: "server_cfg \<Rightarrow> nat \<Rightarrow> shared \<Rightarrow> string list" where
  "relay_series cfg 0 sh = []"
| "relay_series cfg (Suc n) sh =
     (case get_relay_server cfg sh of (sh', r) \<Rightarrow> r # relay_series cfg n sh')"

lemma relay_series_rotation:
  assumes "1 < length (sc_relay_servers cfg)" "unat (sh_rotation sh) + n \<le> 2 ^ 64"
  shows "relay_series cfg n sh =
     map (\<lambda>k. sc_relay_servers cfg ! ((unat (sh_rotation sh) + k) mod length (sc_relay_servers cfg))) [0 ..< n]"
  using assms
proof (induction n arbitrary: sh)
  case (Suc n)
  let ?sh = "sh\<lparr>sh_rotation := sh_rotation sh + 1\<rparr>"
  show ?case
  proof (cases n)
    case 0
    then show ?thesis using Suc.prems(1) by (auto simp: get_relay_server_def Let_def)
  next
    case (Suc m)
    have u: "unat (sh_rotation ?sh) = unat (sh_rotation sh) + 1"
      using Suc.prems(2) Suc by (simp add: unat_word_ariths)
    have "relay_series cfg n ?sh = map (\<lambda>k. sc_relay_servers cfg !
        ((unat (sh_rotation sh) + 1 + k) mod length (sc_relay_servers cfg))) [0 ..< n]"
      using Suc.IH [of ?sh] Suc.prems u by simp
    moreover have "[0 ..< Suc n] = 0 # map Suc [0 ..< n]" by (simp add: upt_conv_Cons map_Suc_upt del: upt_Suc)
    ultimately show ?thesis
      using Suc.prems(1) by (auto simp: get_relay_server_def Let_def simp del: upt_Suc)
  qed
qed simp

lemma rotation_inj:
  assumes "(r + k) mod n = (r + k') mod n" "k < n" "k' < (n :: nat)"
  shows "k = k'"
proof -
  have "a = b" if "(r + a) mod n = (r + b) mod n" "a \<le> b" "b < n" for a b
  proof -
    have "n dvd (r + b) - (r + a)" using that mod_eq_dvd_iff_nat [of "r + a" "r + b" n] by simp
    then have "n dvd b - a" by simp
    then show ?thesis using that by (meson diff_is_0_eq' dvd_imp_le le_antisym less_imp_diff_less not_le zero_less_diff)
  qed
  then show ?thesis using assms by (metis nat_le_linear)
qed

text \<open>
  Relays are chosen in turn: with \<open>n > 1\<close> relay servers, any \<open>n\<close> consecutive
  requests, before the 64-bit counter wraps, use every relay server.
\<close>

theorem relay_rotation_fair:
  assumes "1 < length (sc_relay_servers cfg)"
    and "unat (sh_rotation sh) + length (sc_relay_servers cfg) \<le> 2 ^ 64"
  shows "set (relay_series cfg (length (sc_relay_servers cfg)) sh) = set (sc_relay_servers cfg)"
proof -
  let ?n = "length (sc_relay_servers cfg)" and ?r = "unat (sh_rotation sh)"
  have "(\<lambda>k. (?r + k) mod ?n) ` {0 ..< ?n} = {0 ..< ?n}"
  proof (rule endo_inj_surj)
    show "inj_on (\<lambda>k. (?r + k) mod ?n) {0 ..< ?n}"
      by (auto simp: inj_on_def intro: rotation_inj)
  next
    show "(\<lambda>k. (?r + k) mod ?n) ` {0 ..< ?n} \<subseteq> {0 ..< ?n}"
    proof (rule image_subsetI)
      fix k
      have "(?r + k) mod ?n < ?n" using assms(1) by (intro mod_less_divisor) linarith
      then show "(?r + k) mod ?n \<in> {0 ..< ?n}" by simp
    qed
  qed simp
  then have "(!) (sc_relay_servers cfg) ` (\<lambda>k. (?r + k) mod ?n) ` {0 ..< ?n} = (!) (sc_relay_servers cfg) ` {0 ..< ?n}"
    by (rule arg_cong)
  then show ?thesis
    unfolding relay_series_rotation [OF assms] by (simp add: image_image nth_image)
qed

theorem relay_rotation_fair_witness:
  "set (relay_series test_cfg 2 test_shared) = {''r1'', ''r2''}"
proof -
  have "length (sc_relay_servers test_cfg) = 2" "set (sc_relay_servers test_cfg) = {''r1'', ''r2''}"
    "unat (sh_rotation test_shared) = 0"
    by (simp_all add: test_cfg_def test_shared_def)
  then show ?thesis using relay_rotation_fair [of test_cfg test_shared] by simp
qed

text \<open>
  The console command that switches the forced relay on also throws the relay
  servers away: \<open>always-use-relay Y\<close> queues its argument as a server list, and
  when the loop takes it from the queue, the relay servers are whatever
  \<open>Y\<close> resolves to.
\<close>

theorem always_use_relay_replaces_servers:
  assumes "check_cmd ce now cfg ''aur Y'' sh = (sh', res)"
  shows "sh_always_use_relay sh' \<and> sh_tx sh' = sh_tx sh @ [RelayServers0 ''Y''] \<and>
         sc_relay_servers (fst (recv_data env (RelayServers0 ''Y'') cfg)) = get_servers (re_resolves env) ''Y''"
proof -
  have "trim ''aur Y'' = ''aur Y''" by (rule trim_id) (simp add: is_space_def)
  then show ?thesis
    using assms
    by (auto simp: check_cmd_def cmd_always_use_relay_def next_arg_def push_tx_def to_uppercase_def
        recv_data_def parse_relay_servers_def Let_def)
qed

definition test_ce :: cmd_env where
  "test_ce = \<lparr>ce_debug_ips = \<lambda>_. [], ce_debug_str = id, ce_iso = show_nat, ce_is_ip = \<lambda>_. False\<rparr>"

theorem always_use_relay_replaces_servers_witness:
  "sc_relay_servers (fst (recv_data (test_renv\<lparr>re_resolves := \<lambda>_. False\<rparr>) (RelayServers0 ''Y'') test_cfg)) = []"
  using always_use_relay_replaces_servers [of test_ce 0 test_cfg test_shared, OF prod.collapse [symmetric],
      of "test_renv\<lparr>re_resolves := \<lambda>_. False\<rparr>"]
  by (simp add: get_servers_def test_if_valid_server_def)

text \<open>
  A Cap'n Proto peer in the requester's network is never asked for its local
  address: the server decides for \<open>FetchLocalAddr\<close> and queues it, but the loop
  finds no Cap'n Proto form for it and sends nothing; relay requests to such a
  peer are lost in the same way.
\<close>

theorem capnp_peer_unreachable:
  assumes "handle_punch_hole_request env cfg addr ph key False sh = (sh', msg, Some a, Capnp)"
    and "same_ip a addr"
  shows "recv_data env' (Msg msg a Capnp) cfg' = (cfg', []) \<and>
         recv_data env' (Msg (Some (RequestRelay rr)) a Capnp) cfg' = (cfg', [])"
proof -
  obtain pm1 r where g: "pm_get (re_peer env) (phr_id ph) (sh_pm sh) = (pm1, r)" by fastforce
  have "\<exists>m. msg = Some (FetchLocalAddr m)"
    using assms g
    by (auto simp: handle_punch_hole_request_def punch_message_def Let_def
        split: option.splits prod.splits if_splits)
  then show ?thesis by (auto simp: recv_data_def serialize_msg_def to_capnp_def)
qed

definition capnp_shared :: shared where
  "capnp_shared = test_shared\<lparr>sh_pm := empty_pm\<lparr>pm_map := [(''peer-1'', (default_peer (10000 * nanos_per_sec))\<lparr>
       p_uuid := [9], p_pk := [9], p_socket_addr := V4 (Ipv4Addr 9 9 9 9) 99,
       p_last_reg_time := 9999 * nanos_per_sec, p_protocol := Capnp\<rparr>)]\<rparr>\<rparr>"

theorem capnp_peer_unreachable_witness:
  "\<exists>sh' msg. handle_punch_hole_request test_renv test_cfg (V4 (Ipv4Addr 9 9 9 9) 5) test_ph ''k'' False capnp_shared =
     (sh', msg, Some (V4 (Ipv4Addr 9 9 9 9) 99), Capnp) \<and>
     recv_data test_renv (Msg msg (V4 (Ipv4Addr 9 9 9 9) 99) Capnp) test_cfg = (test_cfg, [])"
proof -
  let ?h = "handle_punch_hole_request test_renv test_cfg (V4 (Ipv4Addr 9 9 9 9) 5) test_ph ''k'' False capnp_shared"
  have "snd (snd ?h) = (Some (V4 (Ipv4Addr 9 9 9 9) 99), Capnp)"
    by (simp add: handle_punch_hole_request_def Let_def test_ph_def test_shared_def capnp_shared_def pm_get_def
        peer_online_def default_peer_def test_renv_def test_env_def as_millis_def elapsed_def nanos_per_sec_def
        REG_TIMEOUT_def split: prod.splits)
  then obtain a b where h: "?h = (a, b, Some (V4 (Ipv4Addr 9 9 9 9) 99), Capnp)" by (metis prod.collapse)
  then show ?thesis using capnp_peer_unreachable [OF h] by (simp add: same_ip_def)
qed

end
