(* ===== verification/Float64.thy ===== *)
theory Float64
  imports Nat_Prelude
begin

text \<open>
  The part of \<open>f64\<close> the servers use on their settings: \<open>str::parse\<close>, products and
  quotients with round-to-nearest-even, \<open>as f64\<close>, the saturating \<open>as usize\<close>, and
  the text with two decimals.  A finite value is \<open>m * 2 powi e\<close> with a sign; the
  shortest decimal text of a value (\<open>Display\<close>) is left to the users as an argument.
\<close>

section \<open>Values\<close>

datatype f64 = Fin bool nat int | Infinite bool | NaN

text \<open>The number of binary digits.\<close>

fun bits :: "nat \<Rightarrow> nat" where
  "bits n = (if n = 0 then 0 else Suc (bits (n div 2)))"

declare bits.simps [simp del]

definition round_even :: "nat \<Rightarrow> nat \<Rightarrow> nat" where
  "round_even p q =
     (let n = p div q; r = p mod q
      in if 2 * r < q then n else if q < 2 * r then n + 1 else if even n then n else n + 1)"

text \<open>\<open>p / q * 2 powi (- e)\<close> as a quotient of naturals.\<close>

definition scale :: "nat \<Rightarrow> nat \<Rightarrow> int \<Rightarrow> nat \<times> nat" where
  "scale p q e = (if 0 \<le> e then (p, q * 2 ^ nat e) else (p * 2 ^ nat (- e), q))"

text \<open>
  The double nearest to \<open>p / q\<close>: a significand of 53 digits, fewer below the least
  normal exponent; what is too large becomes an infinity.
\<close>

definition pick_exp :: "nat \<Rightarrow> nat \<Rightarrow> int" where
  "pick_exp p q =
     (let e = int (bits p) - int (bits q) - 53;
          (a, b) = scale p q e
      in max (- 1074) (if b * 2 ^ 53 \<le> a then e + 1 else e))"

definition round_f64 :: "bool \<Rightarrow> nat \<Rightarrow> nat \<Rightarrow> f64" where
  "round_f64 s p q =
     (let e = pick_exp p q;
          (a, b) = scale p q e;
          m = round_even a b
      in if e > 971 \<or> (e = 971 \<and> 2 ^ 53 \<le> m) then Infinite s else Fin s m e)"

section \<open>Arithmetic\<close>

definition num_of :: "nat \<Rightarrow> int \<Rightarrow> nat" where
  "num_of m e = (if 0 \<le> e then m * 2 ^ nat e else m)"

definition den_of :: "int \<Rightarrow> nat" where
  "den_of e = (if 0 \<le> e then 1 else 2 ^ nat (- e))"

text \<open>A product and a quotient with a positive natural constant, as the code has them.\<close>

fun mul_n :: "f64 \<Rightarrow> nat \<Rightarrow> f64" where
  "mul_n (Fin s m e) c = round_f64 s (num_of m e * c) (den_of e)"
| "mul_n x c = x"

fun div_n :: "f64 \<Rightarrow> nat \<Rightarrow> f64" where
  "div_n (Fin s m e) c = round_f64 s (num_of m e) (den_of e * c)"
| "div_n x c = x"

fun mul_f64 :: "f64 \<Rightarrow> f64 \<Rightarrow> f64" where
  "mul_f64 (Fin s m e) (Fin t k f) = round_f64 (s \<noteq> t) (num_of m e * num_of k f) (den_of e * den_of f)"
| "mul_f64 NaN y = NaN"
| "mul_f64 x NaN = NaN"
| "mul_f64 (Infinite s) (Fin t k f) = (if k = 0 then NaN else Infinite (s \<noteq> t))"
| "mul_f64 (Fin s m e) (Infinite t) = (if m = 0 then NaN else Infinite (s \<noteq> t))"
| "mul_f64 (Infinite s) (Infinite t) = Infinite (s \<noteq> t)"

fun gt_zero :: "f64 \<Rightarrow> bool" where
  "gt_zero (Fin s m e) \<longleftrightarrow> \<not> s \<and> m \<noteq> 0"
| "gt_zero (Infinite s) \<longleftrightarrow> \<not> s"
| "gt_zero NaN \<longleftrightarrow> False"

definition f64_of_nat :: "nat \<Rightarrow> f64" where
  "f64_of_nat n = round_f64 False n 1"

definition f64_of_usize :: "usize \<Rightarrow> f64" where
  "f64_of_usize n = f64_of_nat (unat n)"

definition usize_max :: nat where "usize_max = 18446744073709551615"

fun f64_to_usize :: "f64 \<Rightarrow> usize" where
  "f64_to_usize (Fin s m e) = (if s then 0 else of_nat (min usize_max (num_of m e div den_of e)))"
| "f64_to_usize (Infinite s) = (if s then 0 else of_nat usize_max)"
| "f64_to_usize NaN = 0"

section \<open>Text\<close>

definition split_at_char :: "(char \<Rightarrow> bool) \<Rightarrow> string \<Rightarrow> string \<times> string option" where
  "split_at_char P s =
     (takeWhile (\<lambda>c. \<not> P c) s, case dropWhile (\<lambda>c. \<not> P c) s of [] \<Rightarrow> None | _ # r \<Rightarrow> Some r)"

definition parse_exponent :: "string option \<Rightarrow> int option" where
  "parse_exponent x =
     (case x of
        None \<Rightarrow> Some 0
      | Some (CHR ''-'' # ds) \<Rightarrow> map_option (\<lambda>n. - int n) (parse_nat ds)
      | Some (CHR ''+'' # ds) \<Rightarrow> map_option int (parse_nat ds)
      | Some ds \<Rightarrow> map_option int (parse_nat ds))"

text \<open>The digits before and after the point, of which at least one is there.\<close>

definition parse_unsigned_f64 :: "bool \<Rightarrow> string \<Rightarrow> f64 option" where
  "parse_unsigned_f64 neg s =
     (let t = to_lower s in
      if t = ''inf'' \<or> t = ''infinity'' then Some (Infinite neg)
      else if t = ''nan'' then Some NaN
      else
        let (mant, ex) = split_at_char (\<lambda>c. c = CHR ''e'' \<or> c = CHR ''E'') s;
            (ip, fp0) = split_at_char (\<lambda>c. c = CHR ''.'') mant;
            fp = (case fp0 of None \<Rightarrow> [] | Some d \<Rightarrow> d)
        in case (parse_nat (ip @ fp), parse_exponent ex) of
             (Some n, Some x) \<Rightarrow>
               let k = x - int (length fp)
               in Some (if 0 \<le> k then round_f64 neg (n * 10 ^ nat k) 1 else round_f64 neg n (10 ^ nat (- k)))
           | _ \<Rightarrow> None)"

definition parse_f64 :: "string \<Rightarrow> f64 option" where
  "parse_f64 s =
     (case s of
        c # cs \<Rightarrow> if c = CHR ''-'' then parse_unsigned_f64 True cs
                  else if c = CHR ''+'' then parse_unsigned_f64 False cs
                  else parse_unsigned_f64 False s
      | [] \<Rightarrow> None)"

text \<open>The text with two decimals of a value that is not negative.\<close>

fun show_fixed2 :: "f64 \<Rightarrow> string" where
  "show_fixed2 (Fin s m e) =
     (let n = round_even (num_of m e * 100) (den_of e)
      in (if s then ''-'' else []) @ show_nat (n div 100) @ ''.'' @ show_nat (n div 10 mod 10) @ show_nat (n mod 10))"
| "show_fixed2 (Infinite s) = (if s then ''-inf'' else ''inf'')"
| "show_fixed2 NaN = ''NaN''"

section \<open>Exactness\<close>

lemma bits_bounds:
  assumes "0 < n"
  shows "2 ^ (bits n - 1) \<le> n \<and> n < 2 ^ bits n \<and> 0 < bits n"
  using assms
proof (induction n rule: bits.induct)
  case (1 n)
  show ?case
  proof (cases "n < 2")
    case True
    with 1 have "n = 1" by simp
    then show ?thesis by (simp add: bits.simps)
  next
    case False
    then have ih: "2 ^ (bits (n div 2) - 1) \<le> n div 2" "n div 2 < 2 ^ bits (n div 2)" "0 < bits (n div 2)"
      using 1 by auto
    moreover have "bits n = Suc (bits (n div 2))" using 1 by (simp add: bits.simps)
    moreover obtain k where "bits (n div 2) = Suc k" using ih by (auto simp: gr0_conv_Suc)
    ultimately show ?thesis by auto
  qed
qed

lemma round_even_exact [simp]: "0 < q \<Longrightarrow> round_even (k * q) q = k"
  by (simp add: round_even_def Let_def)

text \<open>A natural below \<open>2\<^sup>53\<close> is a double: \<open>as f64\<close> and back changes nothing.\<close>

lemma bits_le: "n < 2 ^ k \<Longrightarrow> bits n \<le> k"
proof (cases "n = 0")
  case False
  assume "n < 2 ^ k"
  moreover have "2 ^ (bits n - 1) \<le> n" "0 < bits n" using bits_bounds [of n] False by auto
  ultimately have "(2 :: nat) ^ (bits n - 1) < 2 ^ k" by linarith
  then have "bits n - 1 < k" by (simp add: power_strict_increasing_iff)
  then show ?thesis using \<open>0 < bits n\<close> by linarith
qed (simp add: bits.simps)

lemma f64_of_nat_roundtrip:
  assumes "n < 2 ^ 53"
  shows "f64_to_usize (f64_of_nat n) = of_nat n"
proof -
  have b1: "bits 1 = 1" by (simp add: bits.simps)
  have b: "bits n \<le> 53" using assms by (rule bits_le)
  obtain e' where p: "pick_exp n 1 = e'" and e': "e' < 1" "- 1074 \<le> e'"
  proof -
    have "pick_exp n 1 < 1" "- 1074 \<le> pick_exp n 1"
      using b b1 unfolding pick_exp_def Let_def by (auto split: prod.splits)
    then show ?thesis using that by blast
  qed
  show ?thesis
  proof (cases "e' = 0")
    case True
    have "min usize_max n = n" using assms by (simp add: usize_max_def)
    then show ?thesis
      using True p round_even_exact [of 1 n]
      by (simp add: f64_of_nat_def round_f64_def Let_def scale_def num_of_def den_of_def)
  next
    case False
    then have neg: "e' < 0" using e' by simp
    have "scale n 1 e' = (n * 2 ^ nat (- e'), 1)" using neg by (simp add: scale_def)
    moreover have "min usize_max n = n" using assms by (simp add: usize_max_def)
    ultimately show ?thesis
      using neg p round_even_exact [of 1 "n * 2 ^ nat (- e')"]
      by (simp add: f64_of_nat_def round_f64_def Let_def num_of_def den_of_def)
  qed
qed

text \<open>Evaluation of the arithmetic on literals.\<close>

lemmas f64_eval = f64_of_usize_def f64_of_nat_def round_f64_def pick_exp_def scale_def round_even_def
  num_of_def den_of_def bits.simps usize_max_def

lemma f64_example_scale: "f64_to_usize (mul_n (f64_of_nat 134217728) 66) = 8858370048"
  by (simp add: f64_eval)

lemma f64_example_parse: "map_option (\<lambda>x. f64_to_usize (mul_n x 100)) (parse_f64 ''0.29'') = Some 28"
  by (simp add: f64_eval parse_f64_def parse_unsigned_f64_def split_at_char_def parse_exponent_def parse_nat_def
      to_lower_def to_lower_char_def is_upper_def is_digit_def)

end
