(* ===== verification/Relay_Server.thy ===== *)
theory Relay_Server
  imports Common Float64 Rendezvous_Codec
begin

text \<open>
  The relay server, \<open>src/relay_server.rs\<close>: its settings and lists with the console
  that changes them, the admission of a connection, the pairing of two connections
  that ask for the same uuid, and the relay loop with its accounting.  The statics
  are the record \<open>relay_shared\<close>.  A hash set is a list, whose order stands for the
  unspecified order of the set; the speed limiters of \<open>async_speed_limit\<close> only
  delay, so the model records what is charged to which.
\<close>

section \<open>State\<close>

type_synonym usage = "usize \<times> usize \<times> usize \<times> usize"

text \<open>A connection: its stream, its address, its kind, and the request it has sent.\<close>

record conn =
  cn_stream :: nat
  cn_addr :: socket_addr
  cn_ws :: bool
  cn_request :: request_relay

record relay_params =
  dp_threshold_100 :: usize
  dp_start_check :: usize
  dp_limit_speed :: usize
  dp_total_bandwidth :: usize
  dp_single_bandwidth :: usize

record relay_shared =
  rl_peers :: "(string \<times> conn) list"
  rl_usage :: "(string \<times> usage) list"
  rl_blacklist :: "string list"
  rl_blocklist :: "string list"
  rl_params :: relay_params
  rl_limiter :: usize

definition default_params :: relay_params where
  "default_params = \<lparr>dp_threshold_100 = 66, dp_start_check = 1800000, dp_limit_speed = 32 * 1024 * 1024,
     dp_total_bandwidth = 1024 * 1024 * 1024, dp_single_bandwidth = 128 * 1024 * 1024\<rparr>"

section \<open>Start and settings\<close>

text \<open>The first word of every line of the file, an empty line included, enters the list.\<close>

definition first_word :: "string \<Rightarrow> string" where
  "first_word x = hd (split_on CHR '' '' (trim x))"

definition load_list :: "string option \<Rightarrow> string list \<Rightarrow> string list" where
  "load_list contents xs =
     (case contents of
        Some text \<Rightarrow> fold (\<lambda>x. List.insert (first_word x)) (split_on (char_of (10 :: nat)) text) xs
      | None \<Rightarrow> xs)"

definition env_f64 :: "(string \<Rightarrow> string option) \<Rightarrow> string \<Rightarrow> f64" where
  "env_f64 env name =
     (case env name of
        Some x \<Rightarrow> (case parse_f64 x of Some v \<Rightarrow> v | None \<Rightarrow> Fin False 0 0)
      | None \<Rightarrow> Fin False 0 0)"

definition env_usize :: "(string \<Rightarrow> string option) \<Rightarrow> string \<Rightarrow> nat" where
  "env_usize env name =
     (case env name of
        Some x \<Rightarrow> (case parse_usize x of Some v \<Rightarrow> v | None \<Rightarrow> 0)
      | None \<Rightarrow> 0)"

definition percent :: "f64 \<Rightarrow> usize" where
  "percent v = f64_to_usize (mul_n v 100)"

definition mega :: "f64 \<Rightarrow> usize" where
  "mega v = f64_to_usize (mul_n (mul_n v 1024) 1024)"

definition check_params :: "(string \<Rightarrow> string option) \<Rightarrow> relay_params \<Rightarrow> relay_params" where
  "check_params env p =
     (let t = env_f64 env ''DOWNGRADE_THRESHOLD'';
          p1 = (if gt_zero t then p\<lparr>dp_threshold_100 := percent t\<rparr> else p);
          c = env_usize env ''DOWNGRADE_START_CHECK'';
          p2 = (if c > 0 then p1\<lparr>dp_start_check := of_nat c * 1000\<rparr> else p1);
          l = env_f64 env ''LIMIT_SPEED'';
          p3 = (if gt_zero l then p2\<lparr>dp_limit_speed := mega l\<rparr> else p2);
          b = env_f64 env ''TOTAL_BANDWIDTH'';
          p4 = (if gt_zero b then p3\<lparr>dp_total_bandwidth := mega b\<rparr> else p3);
          s = env_f64 env ''SINGLE_BANDWIDTH''
      in if gt_zero s then p4\<lparr>dp_single_bandwidth := mega s\<rparr> else p4)"

text \<open>Start of the server up to the loop: the two lists, the settings and the total limiter.\<close>

definition relay_init :: "(string \<Rightarrow> string option) \<Rightarrow> string option \<Rightarrow> string option \<Rightarrow> relay_shared" where
  "relay_init env black block =
     (let p = check_params env default_params
      in \<lparr>rl_peers = [], rl_usage = [], rl_blacklist = load_list black [], rl_blocklist = load_list block [],
          rl_params = p, rl_limiter = dp_total_bandwidth p\<rparr>)"

section \<open>The console\<close>

definition relay_help :: string where
  "relay_help = concat (map (\<lambda>l. l @ LF)
     [''blacklist-add(ba) <ip>'', ''blacklist-remove(br) <ip>'', ''blacklist(b) <ip>'',
      ''blocklist-add(Ba) <ip>'', ''blocklist-remove(Br) <ip>'', ''blocklist(B) <ip>'',
      ''downgrade-threshold(dt) [value]'', ''downgrade-start-check(t) [value(second)]'',
      ''limit-speed(ls) [value(Mb/s)]'', ''total-bandwidth(tb) [value(Mb/s)]'',
      ''single-bandwidth(sb) [value(Mb/s)]'', ''usage(u)''])"

definition list_add :: "string list \<Rightarrow> string list \<Rightarrow> string list" where
  "list_add fds xs =
     (case next_arg fds of Some ip \<Rightarrow> fold List.insert (split_on CHR ''|'' ip) xs | None \<Rightarrow> xs)"

definition list_remove :: "string list \<Rightarrow> string list \<Rightarrow> string list" where
  "list_remove fds xs =
     (case next_arg fds of
        Some ip \<Rightarrow> if ip = ''all'' then [] else fold removeAll (split_on CHR ''|'' ip) xs
      | None \<Rightarrow> xs)"

definition show_bool :: "bool \<Rightarrow> string" where
  "show_bool b = (if b then ''true'' else ''false'')"

definition list_show :: "string list \<Rightarrow> string list \<Rightarrow> string" where
  "list_show fds xs =
     (case next_arg fds of
        Some ip \<Rightarrow> show_bool (ip \<in> set xs) @ LF
      | None \<Rightarrow> concat (map (\<lambda>ip. ip @ LF) xs))"

text \<open>A setting of type \<open>f64\<close>: a positive argument is stored, no argument shows the value.\<close>

definition set_f64 :: "string list \<Rightarrow> f64 option" where
  "set_f64 fds =
     (case next_arg fds of
        Some v \<Rightarrow> (case parse_f64 v of Some x \<Rightarrow> if gt_zero x then Some x else None | None \<Rightarrow> None)
      | None \<Rightarrow> None)"

definition show_setting :: "string list \<Rightarrow> string \<Rightarrow> string" where
  "show_setting fds s = (if next_arg fds = None then s else [])"

definition show_mega :: "(f64 \<Rightarrow> string) \<Rightarrow> usize \<Rightarrow> string" where
  "show_mega show_f64 v = show_f64 (div_n (div_n (f64_of_usize v) 1024) 1024) @ ''Mb/s'' @ LF"

definition usage_line :: "string \<times> usage \<Rightarrow> string" where
  "usage_line u =
     (case u of (ip, (el, tot, highest, speed)) \<Rightarrow>
        if el = 0 then []
        else ip @ '': '' @ show_nat (unat (el div 1000)) @ ''s '' @
             show_fixed2 (div_n (div_n (div_n (f64_of_usize tot) 1024) 1024) 8) @ ''MB '' @
             show_nat (unat highest) @ ''kb/s '' @ show_nat (unat (tot div el)) @ ''kb/s '' @
             show_nat (unat speed) @ ''kb/s'' @ LF)"

definition usage_text :: "(string \<times> usage) list \<Rightarrow> string" where
  "usage_text us = concat (map usage_line (sort_key (\<lambda>(_, (_, tot, _)). - uint tot) us))"

definition cmd_start_check :: "string list \<Rightarrow> relay_params \<Rightarrow> relay_params \<times> string" where
  "cmd_start_check fds p =
     (case next_arg fds of
        Some v \<Rightarrow>
          (case parse_usize v of
             Some n \<Rightarrow> (if n > 0 then p\<lparr>dp_start_check := of_nat n * 1000\<rparr> else p, [])
           | None \<Rightarrow> (p, []))
      | None \<Rightarrow> (p, show_nat (unat (dp_start_check p div 1000)) @ ''s'' @ LF))"

definition relay_check_cmd :: "(f64 \<Rightarrow> string) \<Rightarrow> string \<Rightarrow> relay_shared \<Rightarrow> relay_shared \<times> string" where
  "relay_check_cmd show_f64 cmd sh =
     (let fields = split_on CHR '' '' (trim cmd); c = hd fields; fds = tl fields; p = rl_params sh in
      if c = ''h'' then (sh, relay_help)
      else if c = ''blacklist-add'' \<or> c = ''ba'' then (sh\<lparr>rl_blacklist := list_add fds (rl_blacklist sh)\<rparr>, [])
      else if c = ''blacklist-remove'' \<or> c = ''br'' then (sh\<lparr>rl_blacklist := list_remove fds (rl_blacklist sh)\<rparr>, [])
      else if c = ''blacklist'' \<or> c = ''b'' then (sh, list_show fds (rl_blacklist sh))
      else if c = ''blocklist-add'' \<or> c = ''Ba'' then (sh\<lparr>rl_blocklist := list_add fds (rl_blocklist sh)\<rparr>, [])
      else if c = ''blocklist-remove'' \<or> c = ''Br'' then (sh\<lparr>rl_blocklist := list_remove fds (rl_blocklist sh)\<rparr>, [])
      else if c = ''blocklist'' \<or> c = ''B'' then (sh, list_show fds (rl_blocklist sh))
      else if c = ''downgrade-threshold'' \<or> c = ''dt'' then
        (case set_f64 fds of
           Some v \<Rightarrow> (sh\<lparr>rl_params := p\<lparr>dp_threshold_100 := percent v\<rparr>\<rparr>, [])
         | None \<Rightarrow> (sh, show_setting fds (show_f64 (div_n (f64_of_usize (dp_threshold_100 p)) 100) @ LF)))
      else if c = ''downgrade-start-check'' \<or> c = ''t'' then
        (case cmd_start_check fds p of (p', res) \<Rightarrow> (sh\<lparr>rl_params := p'\<rparr>, res))
      else if c = ''limit-speed'' \<or> c = ''ls'' then
        (case set_f64 fds of
           Some v \<Rightarrow> (sh\<lparr>rl_params := p\<lparr>dp_limit_speed := mega v\<rparr>\<rparr>, [])
         | None \<Rightarrow> (sh, show_setting fds (show_mega show_f64 (dp_limit_speed p))))
      else if c = ''total-bandwidth'' \<or> c = ''tb'' then
        (case set_f64 fds of
           Some v \<Rightarrow> (sh\<lparr>rl_params := p\<lparr>dp_total_bandwidth := mega v\<rparr>, rl_limiter := mega v\<rparr>, [])
         | None \<Rightarrow> (sh, show_setting fds (show_mega show_f64 (dp_total_bandwidth p))))
      else if c = ''single-bandwidth'' \<or> c = ''sb'' then
        (case set_f64 fds of
           Some v \<Rightarrow> (sh\<lparr>rl_params := p\<lparr>dp_single_bandwidth := mega v\<rparr>\<rparr>, [])
         | None \<Rightarrow> (sh, show_setting fds (show_mega show_f64 (dp_single_bandwidth p))))
      else if c = ''usage'' \<or> c = ''u'' then (sh, usage_text (rl_usage sh))
      else (sh, []))"

section \<open>Admission\<close>

datatype admission = Console | Refused | Admitted

definition handle_connection :: "relay_shared \<Rightarrow> socket_addr \<Rightarrow> bool \<Rightarrow> admission" where
  "handle_connection sh addr ws =
     (let ip = sa_ip (try_into_v4 addr) in
      if \<not> ws \<and> ip_is_loopback ip then Console
      else if show_ip ip \<in> set (rl_blocklist sh) then Refused
      else Admitted)"

text \<open>\<open>str::parse\<close> for the two address forms a proxy may put into its header.\<close>

definition parse_octet :: "string \<Rightarrow> u8 option" where
  "parse_octet s =
     (if length s > 3 \<or> (length s > 1 \<and> hd s = CHR ''0'') then None
      else (case parse_nat s of Some n \<Rightarrow> if n < 256 then Some (of_nat n) else None | None \<Rightarrow> None))"

definition parse_ipv4 :: "string \<Rightarrow> ipv4_addr option" where
  "parse_ipv4 s =
     (case map parse_octet (split_on CHR ''.'' s) of
        [Some a, Some b, Some c, Some d] \<Rightarrow> Some (Ipv4Addr a b c d)
      | _ \<Rightarrow> None)"

definition hex_value :: "char \<Rightarrow> nat option" where
  "hex_value c =
     (let n = of_char (to_lower_char c) in
      if is_digit c then Some (n - 48) else if 97 \<le> n \<and> n \<le> 102 then Some (n - 87) else None)"

fun parse_hex :: "nat \<Rightarrow> string \<Rightarrow> nat option" where
  "parse_hex acc [] = Some acc"
| "parse_hex acc (c # cs) = (case hex_value c of Some v \<Rightarrow> parse_hex (16 * acc + v) cs | None \<Rightarrow> None)"

fun parse_groups :: "string list \<Rightarrow> nat list option" where
  "parse_groups [] = Some []"
| "parse_groups (s # ss) =
     (if s = [] \<or> length s > 4 then None
      else (case (parse_hex 0 s, parse_groups ss) of (Some v, Some vs) \<Rightarrow> Some (v # vs) | _ \<Rightarrow> None))"

definition groups_of :: "string \<Rightarrow> nat list option" where
  "groups_of s = (if s = [] then Some [] else parse_groups (split_on CHR '':'' s))"

text \<open>The text before and after the first double colon.\<close>

fun split_double :: "string \<Rightarrow> (string \<times> string) option" where
  "split_double (a # b # cs) =
     (if a = CHR '':'' \<and> b = CHR '':'' then Some ([], cs)
      else map_option (\<lambda>(h, t). (a # h, t)) (split_double (b # cs)))"
| "split_double _ = None"

definition ipv6_of_groups :: "nat list \<Rightarrow> ipv6_addr" where
  "ipv6_of_groups vs = Ipv6Addr (fold (\<lambda>v w. push_bit 16 w + of_nat v) vs 0)"

definition parse_ipv6 :: "string \<Rightarrow> ipv6_addr option" where
  "parse_ipv6 s =
     (case split_double s of
        None \<Rightarrow> (case groups_of s of Some vs \<Rightarrow> if length vs = 8 then Some (ipv6_of_groups vs) else None | None \<Rightarrow> None)
      | Some (h, t) \<Rightarrow>
          (case (groups_of h, groups_of t) of
             (Some hs, Some ts) \<Rightarrow>
               if length hs + length ts \<le> 7
               then Some (ipv6_of_groups (hs @ replicate (8 - length hs - length ts) 0 @ ts)) else None
           | _ \<Rightarrow> None))"

definition parse_scoped_v6 :: "string \<Rightarrow> socket_addr option" where
  "parse_scoped_v6 s =
     (case split_on CHR ''%'' s of
        [a] \<Rightarrow> map_option (\<lambda>ip. V6 ip 0 0 0) (parse_ipv6 a)
      | [a, z] \<Rightarrow>
          (case (parse_ipv6 a, parse_nat z) of
             (Some ip, Some n) \<Rightarrow> if n < 2 ^ 32 then Some (V6 ip 0 0 (of_nat n)) else None
           | _ \<Rightarrow> None)
      | _ \<Rightarrow> None)"

text \<open>
  The address of a WebSocket client: the first of the two proxy headers that is
  there, if its text is an address, otherwise the address of the connection.
\<close>

definition ws_addr :: "string option \<Rightarrow> string option \<Rightarrow> socket_addr \<Rightarrow> socket_addr" where
  "ws_addr x_real_ip x_forwarded_for addr =
     (case (case x_real_ip of Some h \<Rightarrow> Some h | None \<Rightarrow> x_forwarded_for) of
        Some ip \<Rightarrow>
          (if CHR ''.'' \<in> set ip
           then (case parse_ipv4 ip of Some a \<Rightarrow> V4 a 0 | None \<Rightarrow> addr)
           else (case parse_scoped_v6 ip of Some a \<Rightarrow> a | None \<Rightarrow> addr))
      | None \<Rightarrow> addr)"

section \<open>Pairing\<close>

text \<open>The request of a connection's first message, if the message is one that is served.\<close>

definition relay_request :: "wire \<Rightarrow> string \<Rightarrow> bytes \<Rightarrow> request_relay option" where
  "relay_request w key bs =
     (case w_parse_from_bytes w bs of
        Some (Some (RequestRelay rf)) \<Rightarrow>
          if key \<noteq> [] \<and> rr_licence_key rf \<noteq> key then None
          else if rr_uuid rf = [] then None
          else Some rf
      | _ \<Rightarrow> None)"

section \<open>The relay loop\<close>

record relay_st =
  rt_tm :: instant
  rt_elapsed :: usize
  rt_total :: usize
  rt_total_s :: usize
  rt_highest_s :: usize
  rt_downgrade :: bool
  rt_blacked :: bool
  rt_last_recv :: instant

definition relay_start :: "instant \<Rightarrow> relay_st" where
  "relay_start now = \<lparr>rt_tm = now, rt_elapsed = 0, rt_total = 0, rt_total_s = 0, rt_highest_s = 0,
     rt_downgrade = False, rt_blacked = False, rt_last_recv = now\<rparr>"

text \<open>The threshold in bit/ms, computed from the settings when the relay starts.\<close>

definition downgrade_threshold :: "relay_params \<Rightarrow> usize" where
  "downgrade_threshold p =
     f64_to_usize (div_n (div_n (mul_f64 (f64_of_usize (dp_single_bandwidth p))
                                         (f64_of_usize (dp_threshold_100 p))) 100) 1000)"

datatype relay_input = FromPeer "bytes option" | FromStream "bytes option" | Tick

text \<open>
  One turn of the loop: what \<open>select\<close> took and when, whether the chunk could be
  sent on, and the time at the end of the turn.
\<close>

record relay_event =
  ev_input :: relay_input
  ev_at :: instant
  ev_sent :: bool
  ev_after :: instant

datatype limiter = Single | Blacklisted | Total

datatype relay_out = Charge limiter usize | ToStream bytes | ToPeer bytes

datatype relay_end = Closed | Blocked | TimedOut | SendFailed

definition chunk_bits :: "bytes \<Rightarrow> usize" where
  "chunk_bits bs = of_nat (length bs) * 8"

definition relay_chunk ::
  "(bytes \<Rightarrow> relay_out) \<Rightarrow> bytes option \<Rightarrow> relay_event \<Rightarrow> relay_st \<Rightarrow> relay_out list \<times> (relay_end + relay_st)" where
  "relay_chunk send res ev st =
     (case res of
        None \<Rightarrow> ([], Inl Closed)
      | Some bs \<Rightarrow>
          let nb = chunk_bits bs;
              lim = (if rt_blacked st \<or> rt_downgrade st then Blacklisted else Single);
              st' = st\<lparr>rt_last_recv := ev_at ev, rt_total := rt_total st + nb, rt_total_s := rt_total_s st + nb\<rparr>;
              charges = [Charge lim nb, Charge Total nb]
          in if bs = [] then (charges, Inr st')
             else if ev_sent ev then (charges @ [send bs], Inr st')
             else (charges, Inl SendFailed))"

definition relay_select :: "relay_event \<Rightarrow> relay_st \<Rightarrow> relay_out list \<times> (relay_end + relay_st)" where
  "relay_select ev st =
     (case ev_input ev of
        FromPeer res \<Rightarrow> relay_chunk ToStream res ev st
      | FromStream res \<Rightarrow> relay_chunk ToPeer res ev st
      | Tick \<Rightarrow> ([], if as_secs (elapsed (ev_at ev) (rt_last_recv st)) > 30 then Inl TimedOut else Inr st))"

definition relay_account ::
  "string \<Rightarrow> string \<Rightarrow> usize \<Rightarrow> instant \<Rightarrow> relay_st \<Rightarrow> relay_shared \<Rightarrow> relay_shared \<times> (relay_end + relay_st)" where
  "relay_account ip rid threshold now st sh =
     (let n = of_nat (as_millis (elapsed now (rt_tm st))) :: usize in
      if n < 1000 then (sh, Inr st)
      else if ip \<in> set (rl_blocklist sh) then (sh, Inl Blocked)
      else
        let speed = rt_total_s st div n;
            highest = (if speed > rt_highest_s st then speed else rt_highest_s st);
            el = rt_elapsed st + n;
            dg = (rt_downgrade st \<or> (el > dp_start_check (rl_params sh) \<and> rt_total st > el * threshold))
        in (sh\<lparr>rl_usage := AList.update rid (el, rt_total st, highest, speed) (rl_usage sh)\<rparr>,
            Inr (st\<lparr>rt_blacked := ip \<in> set (rl_blacklist sh), rt_tm := now, rt_highest_s := highest,
                    rt_elapsed := el, rt_total_s := 0, rt_downgrade := dg\<rparr>)))"

definition relay_turn ::
  "string \<Rightarrow> string \<Rightarrow> usize \<Rightarrow> relay_event \<Rightarrow> relay_st \<Rightarrow> relay_shared \<Rightarrow>
   relay_shared \<times> relay_out list \<times> (relay_end + relay_st)" where
  "relay_turn ip rid threshold ev st sh =
     (case relay_select ev st of
        (outs, Inl e) \<Rightarrow> (sh, outs, Inl e)
      | (outs, Inr st1) \<Rightarrow>
          (case relay_account ip rid threshold (ev_after ev) st1 sh of (sh', r) \<Rightarrow> (sh', outs, r)))"

text \<open>The loop over the turns seen so far, with the shared state each of them finds.\<close>

fun relay :: "string \<Rightarrow> string \<Rightarrow> usize \<Rightarrow> (relay_event \<times> relay_shared) list \<Rightarrow> relay_st \<Rightarrow>
   relay_out list \<times> (relay_end + relay_st)" where
  "relay ip rid threshold [] st = ([], Inr st)"
| "relay ip rid threshold ((ev, sh) # evs) st =
     (case relay_turn ip rid threshold ev st sh of
        (_, outs, Inl e) \<Rightarrow> (outs, Inl e)
      | (_, outs, Inr st') \<Rightarrow>
          (case relay ip rid threshold evs st' of (outs', r) \<Rightarrow> (outs @ outs', r)))"

section \<open>Tasks\<close>

text \<open>
  A connection's task between two acquisitions of the lock on \<open>PEERS\<close>: it is
  about to look its uuid up, about to enter its stream, asleep, or relaying.
\<close>

datatype task =
    Lookup conn
  | Enter conn
  | Asleep string instant
  | Relaying conn conn bool usize relay_st

definition relay_id :: "socket_addr \<Rightarrow> string" where
  "relay_id addr = show_ip (sa_ip addr) @ '':'' @ show_nat (unat (sa_port addr))"

definition WAIT_PEER :: nat where "WAIT_PEER = 30 * nanos_per_sec"

definition pair_lookup :: "instant \<Rightarrow> conn \<Rightarrow> relay_shared \<Rightarrow> relay_shared \<times> task" where
  "pair_lookup now c sh =
     (let uuid = rr_uuid (cn_request c) in
      case map_of (rl_peers sh) uuid of
        Some peer \<Rightarrow>
          (sh\<lparr>rl_peers := AList.delete uuid (rl_peers sh),
              rl_usage := AList.update (relay_id (cn_addr c)) (0, 0, 0, 0) (rl_usage sh)\<rparr>,
           Relaying c peer (\<not> cn_ws c \<and> \<not> cn_ws peer) (downgrade_threshold (rl_params sh)) (relay_start now))
      | None \<Rightarrow> (sh\<lparr>rl_peers := AList.delete uuid (rl_peers sh)\<rparr>, Enter c))"

definition pair_enter :: "instant \<Rightarrow> conn \<Rightarrow> relay_shared \<Rightarrow> relay_shared \<times> task" where
  "pair_enter now c sh =
     (let uuid = rr_uuid (cn_request c)
      in (sh\<lparr>rl_peers := AList.update uuid c (rl_peers sh)\<rparr>, Asleep uuid (now + WAIT_PEER)))"

definition pair_expire :: "string \<Rightarrow> relay_shared \<Rightarrow> relay_shared" where
  "pair_expire uuid sh = sh\<lparr>rl_peers := AList.delete uuid (rl_peers sh)\<rparr>"

text \<open>A turn of a relay; at its end the entry of the usage table is removed.\<close>

definition relaying_turn ::
  "relay_event \<Rightarrow> conn \<Rightarrow> usize \<Rightarrow> relay_st \<Rightarrow> relay_shared \<Rightarrow>
   relay_shared \<times> relay_out list \<times> (relay_end + relay_st)" where
  "relaying_turn ev c threshold st sh =
     (case relay_turn (show_ip (sa_ip (cn_addr c))) (relay_id (cn_addr c)) threshold ev st sh of
        (sh', outs, Inl e) \<Rightarrow> (sh'\<lparr>rl_usage := AList.delete (relay_id (cn_addr c)) (rl_usage sh')\<rparr>, outs, Inl e)
      | (sh', outs, Inr st') \<Rightarrow> (sh', outs, Inr st'))"

text \<open>\<open>get_server_sk\<close>: \<open>gen\<close> is the public key text of \<open>gen_sk(300)\<close>.\<close>

definition relay_get_server_sk ::
  "(string \<Rightarrow> bytes option) \<Rightarrow> (bytes \<Rightarrow> string) \<Rightarrow> string \<Rightarrow> string \<Rightarrow> string" where
  "relay_get_server_sk b64_decode b64_encode gen key =
     (let key1 = (case b64_decode key of
                    Some sk \<Rightarrow> if length sk = 64 then b64_encode (drop 32 sk) else key
                  | None \<Rightarrow> key)
      in if key1 = ''-'' \<or> key1 = ''_'' then gen else key1)"

end
