(* ===== verification/Relay_Props.thy ===== *)
theory Relay_Props
  imports Relay_Server "HOL-Library.Multiset"
begin

text \<open>
  The relay server: the loop passes on every byte and charges every bit, a
  downgraded relay stays on the slow limiter, and the system of connection tasks,
  interleaved at the lock on \<open>PEERS\<close>, pairs only streams that asked for the same
  uuid with the right key, each with one other, and forgets no waiting stream.
  Two runs show what the separate lookup and entry of a uuid, and the removal after
  the sleep, can do.
\<close>

section \<open>The loop\<close>

fun out_to_peer :: "relay_out \<Rightarrow> bytes" where
  "out_to_peer (ToPeer bs) = bs"
| "out_to_peer _ = []"

fun out_to_stream :: "relay_out \<Rightarrow> bytes" where
  "out_to_stream (ToStream bs) = bs"
| "out_to_stream _ = []"

fun in_from_stream :: "relay_input \<Rightarrow> bytes" where
  "in_from_stream (FromStream (Some bs)) = bs"
| "in_from_stream _ = []"

fun in_from_peer :: "relay_input \<Rightarrow> bytes" where
  "in_from_peer (FromPeer (Some bs)) = bs"
| "in_from_peer _ = []"

fun charged :: "limiter \<Rightarrow> relay_out \<Rightarrow> usize" where
  "charged l (Charge l' n) = (if l = l' then n else 0)"
| "charged l _ = 0"

definition input_bits :: "relay_input \<Rightarrow> usize" where
  "input_bits i = chunk_bits (in_from_stream i) + chunk_bits (in_from_peer i)"

lemma chunk_bits_Nil [simp]: "chunk_bits [] = 0"
  by (simp add: chunk_bits_def)

text \<open>One turn that goes on: what it sends, charges and counts.\<close>

lemma relay_account_total:
  "relay_account ip rid th now st sh = (sh', Inr st') \<Longrightarrow> rt_total st' = rt_total st"
  by (auto simp: relay_account_def Let_def split: if_splits)

lemma relay_turn_goes_on:
  assumes "relay_turn ip rid th ev st sh = (sh', outs, Inr st')"
  shows "concat (map out_to_peer outs) = in_from_stream (ev_input ev)"
    and "concat (map out_to_stream outs) = in_from_peer (ev_input ev)"
    and "sum_list (map (charged Total) outs) = input_bits (ev_input ev)"
    and "rt_total st' = rt_total st + input_bits (ev_input ev)"
  using assms relay_account_total
  by (fastforce simp: relay_turn_def relay_select_def relay_chunk_def input_bits_def Let_def
      split: relay_input.splits option.splits if_splits prod.splits sum.splits)+

text \<open>
  C35.  While the relay runs, the bytes sent to one side are exactly the bytes received
  from the other, in order; the counted total is the number of bits passed on,
  modulo \<open>2\<^sup>64\<close>, and the same number is charged to the limiter of the whole server.
\<close>

theorem relay_forwards:
  assumes "relay ip rid th evs st = (outs, Inr st')"
  shows "concat (map out_to_peer outs) = concat (map (\<lambda>(ev, _). in_from_stream (ev_input ev)) evs) \<and>
         concat (map out_to_stream outs) = concat (map (\<lambda>(ev, _). in_from_peer (ev_input ev)) evs) \<and>
         rt_total st' = rt_total st + sum_list (map (\<lambda>(ev, _). input_bits (ev_input ev)) evs) \<and>
         sum_list (map (charged Total) outs) = sum_list (map (\<lambda>(ev, _). input_bits (ev_input ev)) evs)"
  using assms
proof (induction evs arbitrary: st outs)
  case (Cons e evs)
  obtain ev sh where e: "e = (ev, sh)" by fastforce
  from Cons.prems obtain sh1 outs1 st1 outs2 where
    1: "relay_turn ip rid th ev st sh = (sh1, outs1, Inr st1)" and
    2: "relay ip rid th evs st1 = (outs2, Inr st')" "outs = outs1 @ outs2"
    by (auto simp: e split: prod.splits sum.splits)
  show ?case using Cons.IH [OF 2(1)] relay_turn_goes_on [OF 1] 2(2) by (simp add: e add.assoc)
qed simp

definition test_relay_shared :: relay_shared where
  "test_relay_shared = \<lparr>rl_peers = [], rl_usage = [], rl_blacklist = [], rl_blocklist = [],
     rl_params = default_params, rl_limiter = 0\<rparr>"

definition turn_of :: "relay_input \<Rightarrow> relay_event \<times> relay_shared" where
  "turn_of i = (\<lparr>ev_input = i, ev_at = 5, ev_sent = True, ev_after = 6\<rparr>, test_relay_shared)"

definition test_turns :: "(relay_event \<times> relay_shared) list" where
  "test_turns = [turn_of (FromStream (Some [1, 2])), turn_of (FromPeer (Some [3])), turn_of (FromStream (Some [4]))]"

lemmas relay_eval = relay_turn_def relay_select_def relay_chunk_def relay_account_def turn_of_def
  relay_start_def as_millis_def elapsed_def Let_def

theorem relay_forwards_witness:
  "\<exists>st'. relay ''1.1.1.1'' ''1.1.1.1:7'' 9 test_turns (relay_start 0) =
         ([Charge Single 16, Charge Total 16, ToPeer [1, 2], Charge Single 8, Charge Total 8, ToStream [3],
           Charge Single 8, Charge Total 8, ToPeer [4]], Inr st') \<and> rt_total st' = 32"
proof -
  obtain st' where r: "relay ''1.1.1.1'' ''1.1.1.1:7'' 9 test_turns (relay_start 0) =
     ([Charge Single 16, Charge Total 16, ToPeer [1, 2], Charge Single 8, Charge Total 8, ToStream [3],
       Charge Single 8, Charge Total 8, ToPeer [4]], Inr st')"
    by (simp add: test_turns_def relay_eval chunk_bits_def)
  have "rt_total st' = 32"
    using relay_forwards [OF r] by (simp add: relay_start_def)
  with r show ?thesis by blast
qed

lemma relay_turn_downgraded:
  assumes "relay_turn ip rid th ev st sh = (sh', outs, r)" "rt_downgrade st"
  shows "Charge Single n \<notin> set outs" and "r = Inr st' \<Longrightarrow> rt_downgrade st'"
  using assms
  by (auto simp: relay_turn_def relay_select_def relay_chunk_def relay_account_def Let_def
      split: relay_input.splits option.splits if_splits prod.splits sum.splits)

text \<open>
  A relay once downgraded stays so: for the rest of the connection nothing is
  charged to its own limiter, everything goes through the slow one.
\<close>

theorem relay_downgrade_sticky:
  assumes "relay ip rid th evs st = (outs, r)" "rt_downgrade st"
  shows "Charge Single n \<notin> set outs \<and> (\<forall>st'. r = Inr st' \<longrightarrow> rt_downgrade st')"
  using assms
proof (induction evs arbitrary: st outs)
  case (Cons e evs)
  obtain ev sh where e: "e = (ev, sh)" by fastforce
  obtain sh1 outs1 r1 where 1: "relay_turn ip rid th ev st sh = (sh1, outs1, r1)" by (metis prod_cases3)
  note d = relay_turn_downgraded [OF 1 Cons.prems(2)]
  show ?case
  proof (cases r1)
    case (Inl end_of)
    then show ?thesis using Cons.prems(1) 1 d by (auto simp: e)
  next
    case (Inr st1)
    then obtain outs2 where 2: "relay ip rid th evs st1 = (outs2, r)" "outs = outs1 @ outs2"
      using Cons.prems(1) 1 by (auto simp: e split: prod.splits)
    then show ?thesis using Cons.IH [OF 2(1)] d Inr by auto
  qed
qed auto

theorem relay_downgrade_sticky_witness:
  "Charge Single 16 \<notin> set (fst (relay ''1.1.1.1'' ''1.1.1.1:7'' 9 test_turns ((relay_start 0)\<lparr>rt_downgrade := True\<rparr>)))"
proof -
  have "rt_downgrade ((relay_start 0)\<lparr>rt_downgrade := True\<rparr>)" by simp
  from relay_downgrade_sticky [OF prod.collapse [symmetric] this] show ?thesis by blast
qed

section \<open>The tasks\<close>

record relay_sys =
  ry_now :: instant
  ry_next :: nat
  ry_shared :: relay_shared
  ry_tasks :: "task list"

definition relay_boot :: "instant \<Rightarrow> relay_shared \<Rightarrow> relay_sys" where
  "relay_boot now sh = \<lparr>ry_now = now, ry_next = 0, ry_shared = sh, ry_tasks = []\<rparr>"

definition new_conn :: "nat \<Rightarrow> socket_addr \<Rightarrow> bool \<Rightarrow> string option \<Rightarrow> string option \<Rightarrow> request_relay \<Rightarrow> conn" where
  "new_conn n addr ws x_real_ip x_forwarded_for rf =
     \<lparr>cn_stream = n, cn_addr = (if ws then ws_addr x_real_ip x_forwarded_for addr else addr), cn_ws = ws,
      cn_request = rf\<rparr>"

text \<open>
  One step: a connection is admitted and has sent its request, a task takes the lock,
  a sleeper wakes, a relay makes a turn, the console runs a command, time passes.
\<close>

inductive relay_step :: "string \<Rightarrow> wire \<Rightarrow> relay_sys \<Rightarrow> relay_sys \<Rightarrow> bool" for key w where
  accept: "handle_connection (ry_shared s) addr ws = Admitted \<Longrightarrow> relay_request w key bs = Some rf \<Longrightarrow>
    relay_step key w s (s\<lparr>ry_next := Suc (ry_next s),
      ry_tasks := ry_tasks s @ [Lookup (new_conn (ry_next s) addr ws xr xf rf)]\<rparr>)"
| lookup: "ry_tasks s = ts1 @ Lookup c # ts2 \<Longrightarrow> pair_lookup (ry_now s) c (ry_shared s) = (sh', t) \<Longrightarrow>
    relay_step key w s (s\<lparr>ry_shared := sh', ry_tasks := ts1 @ t # ts2\<rparr>)"
| enter: "ry_tasks s = ts1 @ Enter c # ts2 \<Longrightarrow> pair_enter (ry_now s) c (ry_shared s) = (sh', t) \<Longrightarrow>
    relay_step key w s (s\<lparr>ry_shared := sh', ry_tasks := ts1 @ t # ts2\<rparr>)"
| wake: "ry_tasks s = ts1 @ Asleep uuid d # ts2 \<Longrightarrow> d \<le> ry_now s \<Longrightarrow>
    relay_step key w s (s\<lparr>ry_shared := pair_expire uuid (ry_shared s), ry_tasks := ts1 @ ts2\<rparr>)"
| turn: "ry_tasks s = ts1 @ Relaying c p raw th st # ts2 \<Longrightarrow>
    relaying_turn ev c th st (ry_shared s) = (sh', outs, Inr st') \<Longrightarrow>
    relay_step key w s (s\<lparr>ry_shared := sh', ry_tasks := ts1 @ Relaying c p raw th st' # ts2\<rparr>)"
| finish: "ry_tasks s = ts1 @ Relaying c p raw th st # ts2 \<Longrightarrow>
    relaying_turn ev c th st (ry_shared s) = (sh', outs, Inl e) \<Longrightarrow>
    relay_step key w s (s\<lparr>ry_shared := sh', ry_tasks := ts1 @ ts2\<rparr>)"
| console: "relay_check_cmd show_f64 cmd (ry_shared s) = (sh', res) \<Longrightarrow>
    relay_step key w s (s\<lparr>ry_shared := sh'\<rparr>)"
| clock: "ry_now s \<le> now \<Longrightarrow> relay_step key w s (s\<lparr>ry_now := now\<rparr>)"

inductive relay_reachable :: "string \<Rightarrow> wire \<Rightarrow> relay_sys \<Rightarrow> bool" for key w where
  boot: "relay_reachable key w (relay_boot now (relay_init env black block))"
| step: "relay_reachable key w s \<Longrightarrow> relay_step key w s s' \<Longrightarrow> relay_reachable key w s'"

section \<open>The invariant\<close>

definition served :: "string \<Rightarrow> conn \<Rightarrow> bool" where
  "served key c \<longleftrightarrow> rr_uuid (cn_request c) \<noteq> [] \<and> (key = [] \<or> rr_licence_key (cn_request c) = key)"

fun task_ok :: "string \<Rightarrow> task \<Rightarrow> bool" where
  "task_ok key (Lookup c) \<longleftrightarrow> served key c"
| "task_ok key (Enter c) \<longleftrightarrow> served key c"
| "task_ok key (Asleep _ _) \<longleftrightarrow> True"
| "task_ok key (Relaying c p raw th st) \<longleftrightarrow>
     served key c \<and> served key p \<and> rr_uuid (cn_request c) = rr_uuid (cn_request p) \<and>
     raw = (\<not> cn_ws c \<and> \<not> cn_ws p)"

definition peer_ok :: "string \<Rightarrow> string \<times> conn \<Rightarrow> bool" where
  "peer_ok key x \<longleftrightarrow> served key (snd x) \<and> rr_uuid (cn_request (snd x)) = fst x"

fun task_streams :: "task \<Rightarrow> nat list" where
  "task_streams (Lookup c) = [cn_stream c]"
| "task_streams (Enter c) = [cn_stream c]"
| "task_streams (Asleep _ _) = []"
| "task_streams (Relaying c p _ _ _) = [cn_stream c, cn_stream p]"

text \<open>Every place that holds a stream, as a multiset.\<close>

definition peer_streams :: "(string \<times> conn) list \<Rightarrow> nat multiset" where
  "peer_streams ps = image_mset (cn_stream \<circ> snd) (mset ps)"

definition tasks_streams :: "task list \<Rightarrow> nat multiset" where
  "tasks_streams ts = mset (concat (map task_streams ts))"

definition held :: "relay_sys \<Rightarrow> nat multiset" where
  "held s = peer_streams (rl_peers (ry_shared s)) + tasks_streams (ry_tasks s)"

definition sleeper :: "relay_sys \<Rightarrow> string \<Rightarrow> bool" where
  "sleeper s uuid \<longleftrightarrow> (\<exists>d. Asleep uuid d \<in> set (ry_tasks s) \<and> d \<le> ry_now s + WAIT_PEER)"

definition relay_ok :: "string \<Rightarrow> relay_sys \<Rightarrow> bool" where
  "relay_ok key s \<longleftrightarrow>
     (\<forall>t \<in> set (ry_tasks s). task_ok key t) \<and> (\<forall>x \<in> set (rl_peers (ry_shared s)). peer_ok key x) \<and>
     distinct (map fst (rl_peers (ry_shared s))) \<and>
     (\<forall>n. count (held s) n \<le> (if n < ry_next s then 1 else 0))"

definition waiting_ok :: "relay_sys \<Rightarrow> bool" where
  "waiting_ok s \<longleftrightarrow> (\<forall>(uuid, c) \<in> set (rl_peers (ry_shared s)). sleeper s uuid)"

lemma alist_delete_mset:
  assumes "map_of ps k = Some v" "distinct (map fst ps)"
  shows "mset ps = add_mset (k, v) (mset (AList.delete k ps))"
  using assms
proof (induction ps)
  case (Cons x ps)
  show ?case
  proof (cases "fst x = k")
    case True
    then have "AList.delete k ps = ps" using Cons.prems by (simp add: AList.delete_id)
    then show ?thesis using True Cons.prems by (cases x) auto
  next
    case False
    then show ?thesis using Cons by (cases x) (auto simp: add_mset_commute)
  qed
qed simp

lemma alist_update_mset:
  "distinct (map fst ps) \<Longrightarrow> mset (AList.update k v ps) = add_mset (k, v) (mset (AList.delete k ps))"
proof (induction ps)
  case (Cons x ps)
  show ?case
  proof (cases "fst x = k")
    case True
    then have "AList.delete k ps = ps" using Cons.prems by (simp add: AList.delete_id)
    then show ?thesis using True by (cases x) auto
  next
    case False
    then show ?thesis using Cons by (cases x) (auto simp: add_mset_commute)
  qed
qed simp

lemma peer_streams_delete_le: "peer_streams (AList.delete k ps) \<subseteq># peer_streams ps"
  unfolding peer_streams_def AList.delete_eq mset_filter by (intro image_mset_subseteq_mono) simp

lemma peer_streams_take:
  "map_of ps k = Some c \<Longrightarrow> distinct (map fst ps) \<Longrightarrow>
   peer_streams ps = add_mset (cn_stream c) (peer_streams (AList.delete k ps))"
  unfolding peer_streams_def by (subst alist_delete_mset) auto

lemma peer_streams_put:
  "distinct (map fst ps) \<Longrightarrow>
   peer_streams (AList.update k c ps) \<subseteq># add_mset (cn_stream c) (peer_streams ps)"
  using peer_streams_delete_le [of k ps] by (simp add: peer_streams_def alist_update_mset)

lemma tasks_streams_simps [simp]:
  "tasks_streams [] = {#}" "tasks_streams (t # ts) = mset (task_streams t) + tasks_streams ts"
  "tasks_streams (ts1 @ ts2) = tasks_streams ts1 + tasks_streams ts2"
  by (simp_all add: tasks_streams_def)

lemma held_mono:
  assumes "relay_ok key s" "held s' \<subseteq># held s" "ry_next s' = ry_next s"
  shows "count (held s') n \<le> (if n < ry_next s' then 1 else 0)"
  using assms mset_subset_eq_count [OF assms(2), of n]
  by (metis (no_types, lifting) le_trans relay_ok_def)

lemma relay_check_cmd_peers:
  "relay_check_cmd show_f64 cmd sh = (sh', res) \<Longrightarrow> rl_peers sh' = rl_peers sh"
  by (auto simp: relay_check_cmd_def Let_def split: if_splits option.splits prod.splits)

lemma relay_account_peers:
  "relay_account ip rid th now st sh = (sh', r) \<Longrightarrow> rl_peers sh' = rl_peers sh"
  by (auto simp: relay_account_def Let_def split: if_splits)

lemma relaying_turn_peers:
  "relaying_turn ev c th st sh = (sh', outs, r) \<Longrightarrow> rl_peers sh' = rl_peers sh"
  by (auto simp: relaying_turn_def relay_turn_def dest!: relay_account_peers
      split: prod.splits sum.splits)

lemma relay_request_served:
  "relay_request w key bs = Some rf \<Longrightarrow> served key (new_conn n addr ws xr xf rf)"
  by (auto simp: relay_request_def served_def new_conn_def split: option.splits rendezvous_union.splits if_splits)

lemma alist_delete_fst [simp]: "distinct (map fst ps) \<Longrightarrow> distinct (map fst (AList.delete k ps))"
  by (rule AList.distinct_delete)

lemma alist_update_fst [simp]: "distinct (map fst ps) \<Longrightarrow> distinct (map fst (AList.update k v ps))"
  by (rule AList.distinct_update)

lemma set_alist_update: "x \<in> set (AList.update k v ps) \<Longrightarrow> x = (k, v) \<or> x \<in> set ps"
  by (induction ps) (auto split: if_splits)

lemma set_alist_delete: "x \<in> set (AList.delete k ps) \<longleftrightarrow> x \<in> set ps \<and> fst x \<noteq> k"
  by (auto simp: AList.delete_eq)

lemma relay_ok_I:
  assumes "relay_ok key s" "held s' \<subseteq># held s" "ry_next s' = ry_next s"
    and "\<And>t. t \<in> set (ry_tasks s') \<Longrightarrow> task_ok key t"
    and "\<And>x. x \<in> set (rl_peers (ry_shared s')) \<Longrightarrow> peer_ok key x"
    and "distinct (map fst (rl_peers (ry_shared s')))"
  shows "relay_ok key s'"
  unfolding relay_ok_def using assms(4-6) held_mono [OF assms(1-3)] by blast

lemma lookup_relay_ok:
  assumes ok: "relay_ok key s" and ts: "ry_tasks s = ts1 @ Lookup c # ts2"
    and l: "pair_lookup (ry_now s) c (ry_shared s) = (sh', t)"
  shows "relay_ok key (s\<lparr>ry_shared := sh', ry_tasks := ts1 @ t # ts2\<rparr>)"
proof -
  let ?ps = "rl_peers (ry_shared s)" and ?u = "rr_uuid (cn_request c)"
  have d: "distinct (map fst ?ps)" and c: "served key c" using ok ts by (auto simp: relay_ok_def)
  have ps': "rl_peers sh' = AList.delete ?u ?ps" using l by (auto simp: pair_lookup_def Let_def split: option.splits)
  have "task_ok key t \<and> peer_streams (AList.delete ?u ?ps) + mset (task_streams t) \<subseteq># peer_streams ?ps + {#cn_stream c#}"
  proof (cases "map_of ?ps ?u")
    case None
    then show ?thesis
      using l c peer_streams_delete_le [of ?u ?ps] by (auto simp: pair_lookup_def Let_def)
  next
    case (Some p)
    then have "peer_ok key (?u, p)" using ok by (auto simp: relay_ok_def dest: map_of_SomeD)
    then show ?thesis
      using Some l c peer_streams_take [OF Some d] by (auto simp: pair_lookup_def Let_def peer_ok_def)
  qed
  then show ?thesis
    using ok ts ps' d
    by (intro relay_ok_I [OF ok]) (auto simp: held_def relay_ok_def set_alist_delete
        subset_mset.add_right_mono ac_simps union_mset_add_mset_left)
qed

lemma enter_relay_ok:
  assumes ok: "relay_ok key s" and ts: "ry_tasks s = ts1 @ Enter c # ts2"
    and e: "pair_enter (ry_now s) c (ry_shared s) = (sh', t)"
  shows "relay_ok key (s\<lparr>ry_shared := sh', ry_tasks := ts1 @ t # ts2\<rparr>)"
proof -
  let ?ps = "rl_peers (ry_shared s)" and ?u = "rr_uuid (cn_request c)"
  have d: "distinct (map fst ?ps)" and c: "served key c" using ok ts by (auto simp: relay_ok_def)
  have t: "t = Asleep ?u (ry_now s + WAIT_PEER)" and ps': "rl_peers sh' = AList.update ?u c ?ps"
    using e by (auto simp: pair_enter_def Let_def)
  have "held (s\<lparr>ry_shared := sh', ry_tasks := ts1 @ t # ts2\<rparr>) \<subseteq># held s"
    using peer_streams_put [OF d, of ?u c] ts t ps'
    by (simp add: held_def subset_mset.add_right_mono ac_simps)
  then show ?thesis
    using ok ts t c d ps'
    by (intro relay_ok_I [OF ok]) (auto simp: relay_ok_def peer_ok_def dest!: set_alist_update)
qed

lemma accept_relay_ok:
  assumes ok: "relay_ok key s" and r: "relay_request w key bs = Some rf"
  shows "relay_ok key (s\<lparr>ry_next := Suc (ry_next s),
           ry_tasks := ry_tasks s @ [Lookup (new_conn (ry_next s) addr ws xr xf rf)]\<rparr>)"
proof -
  let ?s = "s\<lparr>ry_next := Suc (ry_next s),
              ry_tasks := ry_tasks s @ [Lookup (new_conn (ry_next s) addr ws xr xf rf)]\<rparr>"
  have h: "held ?s = add_mset (ry_next s) (held s)" by (simp add: held_def new_conn_def)
  have "count (held ?s) n \<le> (if n < Suc (ry_next s) then 1 else 0)" for n
  proof -
    have "count (held s) n \<le> (if n < ry_next s then 1 else 0)" using ok unfolding relay_ok_def by blast
    then show ?thesis unfolding h by (auto split: if_splits)
  qed
  then show ?thesis
    using ok relay_request_served [OF r] by (auto simp: relay_ok_def)
qed

lemma relay_step_ok:
  assumes "relay_step key w s s'" "relay_ok key s"
  shows "relay_ok key s'"
  using assms
proof (cases rule: relay_step.cases)
  case (wake ts1 uuid d ts2)
  then show ?thesis
    using assms(2) peer_streams_delete_le [of uuid "rl_peers (ry_shared s)"]
    by (intro relay_ok_I [OF assms(2)])
      (auto simp: held_def relay_ok_def pair_expire_def set_alist_delete subset_mset.add_right_mono)
next
  case (turn ts1 c p raw th st ts2 ev sh' outs st')
  then show ?thesis
    using assms(2) relaying_turn_peers [OF turn(3)]
    by (intro relay_ok_I [OF assms(2)]) (auto simp: held_def relay_ok_def)
next
  case (finish ts1 c p raw th st ts2 ev sh' outs e)
  then show ?thesis
    using assms(2) relaying_turn_peers [OF finish(3)]
    by (intro relay_ok_I [OF assms(2)]) (auto simp: held_def relay_ok_def)
next
  case (console show_f64 cmd sh' res)
  then show ?thesis
    using assms(2) relay_check_cmd_peers [OF console(2)]
    by (intro relay_ok_I [OF assms(2)]) (auto simp: held_def relay_ok_def)
next
  case (clock now)
  then show ?thesis using assms(2) by (auto simp: relay_ok_def held_def)
qed (use assms(2) in \<open>auto intro: lookup_relay_ok enter_relay_ok accept_relay_ok\<close>)

lemma relay_boot_ok: "relay_ok key (relay_boot now (relay_init env black block))"
  by (auto simp: relay_ok_def relay_boot_def relay_init_def held_def peer_streams_def Let_def)

lemma relay_reachable_ok: "relay_reachable key w s \<Longrightarrow> relay_ok key s"
  by (induction rule: relay_reachable.induct) (auto intro: relay_boot_ok relay_step_ok)

lemma sleeper_cong:
  "sleeper s u \<Longrightarrow> ry_now s \<le> ry_now s' \<Longrightarrow>
   (\<And>d. Asleep u d \<in> set (ry_tasks s) \<Longrightarrow> Asleep u d \<in> set (ry_tasks s')) \<Longrightarrow> sleeper s' u"
  unfolding sleeper_def by (meson add_le_mono1 le_trans)

lemma relay_step_waiting:
  assumes "relay_step key w s s'" "waiting_ok s"
  shows "waiting_ok s'"
  using assms
proof (cases rule: relay_step.cases)
  case (lookup ts1 c ts2 sh' t)
  then have "set (rl_peers sh') \<subseteq> set (rl_peers (ry_shared s))"
    by (auto simp: pair_lookup_def Let_def set_alist_delete split: option.splits)
  then show ?thesis using lookup assms(2) by (fastforce simp: waiting_ok_def elim!: sleeper_cong)
next
  case (enter ts1 c ts2 sh' t)
  show ?thesis
    unfolding waiting_ok_def
  proof (clarify)
    fix u p assume "(u, p) \<in> set (rl_peers (ry_shared s'))"
    then consider "u = rr_uuid (cn_request c)" | "(u, p) \<in> set (rl_peers (ry_shared s))"
      using enter by (auto simp: pair_enter_def Let_def dest!: set_alist_update)
    then show "sleeper s' u"
    proof cases
      case 1
      then show ?thesis using enter by (auto simp: sleeper_def pair_enter_def Let_def)
    next
      case 2
      then show ?thesis using enter assms(2) by (fastforce simp: waiting_ok_def elim!: sleeper_cong)
    qed
  qed
next
  case (wake ts1 uuid d ts2)
  then show ?thesis using assms(2)
    by (fastforce simp: waiting_ok_def pair_expire_def set_alist_delete elim!: sleeper_cong)
next
  case (turn ts1 c p raw th st ts2 ev sh' outs st')
  then show ?thesis
    using assms(2) relaying_turn_peers [OF turn(3)] by (fastforce simp: waiting_ok_def elim!: sleeper_cong)
next
  case (finish ts1 c p raw th st ts2 ev sh' outs e)
  then show ?thesis
    using assms(2) relaying_turn_peers [OF finish(3)] by (fastforce simp: waiting_ok_def elim!: sleeper_cong)
next
  case (console show_f64 cmd sh' res)
  then show ?thesis
    using assms(2) relay_check_cmd_peers [OF console(2)] by (fastforce simp: waiting_ok_def elim!: sleeper_cong)
qed (fastforce simp: waiting_ok_def elim!: sleeper_cong)+

lemma relay_reachable_waiting: "relay_reachable key w s \<Longrightarrow> waiting_ok s"
proof (induction rule: relay_reachable.induct)
  case (boot now env black block)
  then show ?case by (simp add: waiting_ok_def relay_boot_def relay_init_def Let_def)
qed (rule relay_step_waiting)

section \<open>What holds of every run\<close>

text \<open>
  C1.  Whatever the interleaving of connections, console commands and time, a relay
  joins two different streams whose requests name the same uuid and carry the
  server's key, in raw mode exactly when neither is a WebSocket; and neither stream
  is at the same time waiting, or in any other task.
\<close>

theorem relay_pairs_sound:
  assumes "relay_reachable key w s" and ts: "ry_tasks s = ts1 @ Relaying c p raw th st # ts2"
  shows "rr_uuid (cn_request c) = rr_uuid (cn_request p) \<and> rr_uuid (cn_request c) \<noteq> [] \<and>
         (key = [] \<or> rr_licence_key (cn_request c) = key \<and> rr_licence_key (cn_request p) = key) \<and>
         raw = (\<not> cn_ws c \<and> \<not> cn_ws p) \<and> cn_stream c \<noteq> cn_stream p \<and>
         cn_stream ` {c, p} \<inter> cn_stream ` snd ` set (rl_peers (ry_shared s)) = {} \<and>
         (\<forall>t \<in> set (ts1 @ ts2). cn_stream ` {c, p} \<inter> set (task_streams t) = {})"
proof -
  note ok = relay_reachable_ok [OF assms(1)]
  let ?rest = "peer_streams (rl_peers (ry_shared s)) + tasks_streams (ts1 @ ts2)"
  have "held s = add_mset (cn_stream c) (add_mset (cn_stream p) ?rest)"
    using ts by (simp add: held_def)
  moreover have "count (held s) n \<le> 1" for n
    using ok unfolding relay_ok_def by (metis le_zero_eq linorder_le_cases zero_neq_one)
  ultimately have "count (add_mset (cn_stream c) (add_mset (cn_stream p) ?rest)) n \<le> 1" for n by metis
  from this [of "cn_stream c"] this [of "cn_stream p"]
  have "cn_stream c \<noteq> cn_stream p" "cn_stream c \<notin># ?rest" "cn_stream p \<notin># ?rest"
    by (auto simp: not_in_iff split: if_splits)
  moreover have "task_ok key (Relaying c p raw th st)" using ok ts by (auto simp: relay_ok_def)
  ultimately show ?thesis
    by (auto simp: served_def peer_streams_def tasks_streams_def)
qed

text \<open>
  C39.  No stream waits for ever: for each waiting stream a task is asleep that will
  remove it at most thirty seconds from now.
\<close>

theorem relay_no_leak:
  assumes "relay_reachable key w s" "(uuid, c) \<in> set (rl_peers (ry_shared s))"
  shows "\<exists>d. Asleep uuid d \<in> set (ry_tasks s) \<and> d \<le> ry_now s + 30 * nanos_per_sec"
  using relay_reachable_waiting [OF assms(1)] assms(2)
  by (auto simp: waiting_ok_def sleeper_def WAIT_PEER_def)

section \<open>Runs\<close>

definition any_addr :: socket_addr where
  "any_addr = V4 (Ipv4Addr 1 2 3 4) 5"

definition plain_conn :: "nat \<Rightarrow> request_relay \<Rightarrow> conn" where
  "plain_conn n rf = \<lparr>cn_stream = n, cn_addr = any_addr, cn_ws = False, cn_request = rf\<rparr>"

definition shared_of :: "(string \<times> conn) list \<Rightarrow> (string \<times> usage) list \<Rightarrow> relay_shared" where
  "shared_of ps us = \<lparr>rl_peers = ps, rl_usage = us, rl_blacklist = [], rl_blocklist = [],
     rl_params = check_params (\<lambda>_. None) default_params,
     rl_limiter = dp_total_bandwidth (check_params (\<lambda>_. None) default_params)\<rparr>"

definition sys_of :: "instant \<Rightarrow> nat \<Rightarrow> (string \<times> conn) list \<Rightarrow> (string \<times> usage) list \<Rightarrow> task list \<Rightarrow> relay_sys" where
  "sys_of now n ps us ts = \<lparr>ry_now = now, ry_next = n, ry_shared = shared_of ps us, ry_tasks = ts\<rparr>"

lemma shared_of_simps [simp]:
  "rl_blocklist (shared_of ps us) = []" "rl_peers (shared_of ps us) = ps" "rl_usage (shared_of ps us) = us"
  "(shared_of ps us)\<lparr>rl_peers := ps'\<rparr> = shared_of ps' us" "(shared_of ps us)\<lparr>rl_usage := us'\<rparr> = shared_of ps us'"
  by (simp_all add: shared_of_def)

lemma run_boot: "relay_reachable key w (sys_of 0 0 [] [] [])"
proof -
  have "sys_of 0 0 [] [] [] = relay_boot 0 (relay_init (\<lambda>_. None) None None)"
    by (simp add: sys_of_def shared_of_def relay_boot_def relay_init_def load_list_def Let_def)
  then show ?thesis by (simp add: relay_reachable.boot)
qed

lemma run_accept:
  assumes "relay_reachable key w (sys_of now n ps us ts)" "relay_request w key bs = Some rf"
  shows "relay_reachable key w (sys_of now (Suc n) ps us (ts @ [Lookup (plain_conn n rf)]))"
proof -
  have "handle_connection (ry_shared (sys_of now n ps us ts)) any_addr False = Admitted"
    by (simp add: handle_connection_def sys_of_def any_addr_def)
  from relay_reachable.step [OF assms(1) relay_step.accept [OF this assms(2)]] show ?thesis
    by (simp add: sys_of_def new_conn_def plain_conn_def)
qed

lemma run_miss:
  assumes "relay_reachable key w (sys_of now n ps us (ts1 @ Lookup c # ts2))"
    and "map_of ps (rr_uuid (cn_request c)) = None"
  shows "relay_reachable key w (sys_of now n ps us (ts1 @ Enter c # ts2))"
proof -
  have "AList.delete (rr_uuid (cn_request c)) ps = ps"
    using assms(2) by (intro AList.delete_id) (simp add: map_of_eq_None_iff)
  then show ?thesis
    using relay_reachable.step [OF assms(1) relay_step.lookup [of _ ts1 c ts2, OF _ surjective_pairing]] assms(2)
    by (simp add: sys_of_def pair_lookup_def Let_def)
qed

lemma run_hit:
  assumes "relay_reachable key w (sys_of now n ps us (ts1 @ Lookup c # ts2))"
    and "map_of ps (rr_uuid (cn_request c)) = Some p"
  shows "\<exists>us' raw th st. relay_reachable key w (sys_of now n (AList.delete (rr_uuid (cn_request c)) ps) us'
           (ts1 @ Relaying c p raw th st # ts2))"
  using relay_reachable.step [OF assms(1) relay_step.lookup [of _ ts1 c ts2, OF _ surjective_pairing]] assms(2)
  by (fastforce simp: sys_of_def pair_lookup_def Let_def)

lemma run_enter:
  assumes "relay_reachable key w (sys_of now n ps us (ts1 @ Enter c # ts2))"
  shows "relay_reachable key w (sys_of now n (AList.update (rr_uuid (cn_request c)) c ps) us
           (ts1 @ Asleep (rr_uuid (cn_request c)) (now + WAIT_PEER) # ts2))"
  using relay_reachable.step [OF assms relay_step.enter [of _ ts1 c ts2, OF _ surjective_pairing]]
  by (simp add: sys_of_def pair_enter_def Let_def)

lemma run_wake:
  assumes "relay_reachable key w (sys_of now n ps us (ts1 @ Asleep u d # ts2))" "d \<le> now"
  shows "relay_reachable key w (sys_of now n (AList.delete u ps) us (ts1 @ ts2))"
  using relay_reachable.step [OF assms(1) relay_step.wake [of _ ts1 u d ts2]] assms(2)
  by (simp add: sys_of_def pair_expire_def)

lemma run_clock:
  assumes "relay_reachable key w (sys_of now n ps us ts)" "now \<le> now'"
  shows "relay_reachable key w (sys_of now' n ps us ts)"
  using relay_reachable.step [OF assms(1) relay_step.clock [of _ now']] assms(2) by (simp add: sys_of_def)

lemma plain_conn_simps [simp]:
  "cn_stream (plain_conn n rf) = n" "cn_request (plain_conn n rf) = rf" "cn_addr (plain_conn n rf) = any_addr"
  by (simp_all add: plain_conn_def)

text \<open>A first stream waits; a second one with its uuid is joined to it.\<close>

lemma run_wait:
  assumes "relay_request w key bs = Some rf"
  shows "relay_reachable key w (sys_of 0 1 [(rr_uuid rf, plain_conn 0 rf)] [] [Asleep (rr_uuid rf) WAIT_PEER])"
  using run_enter [of key w 0 1 "[]" "[]" "[]" "plain_conn 0 rf" "[]"]
    run_miss [of key w 0 1 "[]" "[]" "[]" "plain_conn 0 rf" "[]"] run_accept [OF run_boot assms]
  by simp

lemma run_pair:
  assumes "relay_request w key bs = Some rf"
  shows "\<exists>us raw th st. relay_reachable key w (sys_of 0 2 [] us
           [Asleep (rr_uuid rf) WAIT_PEER, Relaying (plain_conn 1 rf) (plain_conn 0 rf) raw th st])"
  using run_hit [of key w 0 2 "[(rr_uuid rf, plain_conn 0 rf)]" "[]" "[Asleep (rr_uuid rf) WAIT_PEER]" "plain_conn 1 rf" "[]" "plain_conn 0 rf"]
    run_accept [OF run_wait [OF assms] assms]
  by (simp add: numeral_2_eq_2)

text \<open>
  Two connections that ask for the same uuid at the same time may miss each other:
  when both look the uuid up before either enters its stream, the second entry
  replaces the first, whose stream is then held by nobody, and no relay is made.
\<close>

theorem relay_pairing_race:
  assumes r: "relay_request w key bs = Some rf"
  shows "\<exists>s. relay_reachable key w s \<and> ry_next s = 2 \<and> 0 \<notin># held s \<and>
           ry_tasks s = replicate 2 (Asleep (rr_uuid rf) (30 * nanos_per_sec)) \<and>
           rl_peers (ry_shared s) = [(rr_uuid rf, plain_conn 1 rf)]"
proof -
  let ?c = "plain_conn 0 rf" and ?d = "plain_conn 1 rf" and ?z = "Asleep (rr_uuid rf) WAIT_PEER"
  have "relay_reachable key w (sys_of 0 2 [] [] [Lookup ?c, Lookup ?d])"
    using run_accept [OF run_accept [OF run_boot r] r] by (simp add: numeral_2_eq_2)
  then have "relay_reachable key w (sys_of 0 2 [] [] [Enter ?c, Lookup ?d])"
    using run_miss [of key w 0 2 "[]" "[]" "[]" ?c] by simp
  then have "relay_reachable key w (sys_of 0 2 [] [] [Enter ?c, Enter ?d])"
    using run_miss [of key w 0 2 "[]" "[]" "[Enter ?c]" ?d "[]"] by simp
  then have "relay_reachable key w (sys_of 0 2 [(rr_uuid rf, ?c)] [] [?z, Enter ?d])"
    using run_enter [of key w 0 2 "[]" "[]" "[]" ?c] by simp
  then have "relay_reachable key w (sys_of 0 2 [(rr_uuid rf, ?d)] [] [?z, ?z])"
    using run_enter [of key w 0 2 "[(rr_uuid rf, ?c)]" "[]" "[?z]" ?d "[]"] by simp
  then show ?thesis
    by (intro exI conjI) (auto simp: sys_of_def held_def peer_streams_def numeral_2_eq_2 WAIT_PEER_def)
qed

text \<open>
  A stream can be removed long before its thirty seconds are over: the task of an
  earlier stream with the same uuid, which was paired meanwhile, still wakes and
  removes whatever waits under the uuid.  Here a stream that entered ten seconds
  ago is gone while its own task would sleep another twenty.
\<close>

theorem relay_early_removal:
  assumes r: "relay_request w key bs = Some rf"
  shows "\<exists>s. relay_reachable key w s \<and> ry_now s = 30 * nanos_per_sec \<and>
           Asleep (rr_uuid rf) (50 * nanos_per_sec) \<in> set (ry_tasks s) \<and>
           rl_peers (ry_shared s) = [] \<and> 2 \<notin># held s"
proof -
  let ?c = "plain_conn 2 rf" and ?z = "Asleep (rr_uuid rf) WAIT_PEER"
    and ?t = "20 * nanos_per_sec" and ?e = "30 * nanos_per_sec"
  from run_pair [OF r] obtain us raw th st where
    "relay_reachable key w (sys_of 0 2 [] us [?z, Relaying (plain_conn 1 rf) (plain_conn 0 rf) raw th st])"
    (is "relay_reachable key w (sys_of 0 2 [] us [?z, ?r])") by blast
  then have "relay_reachable key w (sys_of ?t 2 [] us [?z, ?r])" by (rule run_clock) simp
  from run_accept [OF this r] have "relay_reachable key w (sys_of ?t 3 [] us [?z, ?r, Lookup ?c])"
    by (simp add: numeral_3_eq_3 numeral_2_eq_2)
  then have "relay_reachable key w (sys_of ?t 3 [] us [?z, ?r, Enter ?c])"
    using run_miss [of key w ?t 3 "[]" us "[?z, ?r]" ?c "[]"] by simp
  then have "relay_reachable key w (sys_of ?t 3 [(rr_uuid rf, ?c)] us [?z, ?r, Asleep (rr_uuid rf) (?t + WAIT_PEER)])"
    using run_enter [of key w ?t 3 "[]" us "[?z, ?r]" ?c "[]"] by simp
  then have "relay_reachable key w (sys_of ?e 3 [(rr_uuid rf, ?c)] us [?z, ?r, Asleep (rr_uuid rf) (?t + WAIT_PEER)])"
    by (rule run_clock) (simp add: nanos_per_sec_def)
  then have "relay_reachable key w (sys_of ?e 3 [] us [?r, Asleep (rr_uuid rf) (?t + WAIT_PEER)])"
    using run_wake [of key w ?e 3 "[(rr_uuid rf, ?c)]" us "[]" "rr_uuid rf" WAIT_PEER] by (simp add: WAIT_PEER_def)
  then show ?thesis
    by (intro exI conjI) (auto simp: sys_of_def held_def peer_streams_def WAIT_PEER_def)
qed

text \<open>
  The listener is dual-stack, so an IPv4 client has an IPv4-mapped IPv6 address.  A
  listed IPv4 address is recognised when such a client connects, but not while it is
  relayed: the loop compares the text of the mapped address, so a client that is put
  on the lists during a relay is neither stopped nor slowed down.
\<close>

theorem relay_lists_miss_mapped:
  assumes "drop_bit 32 ip6 = 0xFFFF" and c: "cn_addr c = V6 (Ipv6Addr ip6) port flow scope"
    and ip: "ip = show_ip (sa_ip (try_into_v4 (cn_addr c)))"
    and lists: "rl_blocklist sh = [ip]" "rl_blacklist sh = [ip]"
    and "relaying_turn ev c th st sh = (sh', outs, r)" "\<not> rt_blacked st"
  shows "handle_connection sh (cn_addr c) True = Refused \<and> r \<noteq> Inl Blocked \<and>
         (\<forall>st'. r = Inr st' \<longrightarrow> \<not> rt_blacked st')"
proof -
  have "ip6 \<noteq> 1" using assms(1) by auto
  with assms(1) c ip have "show_ip (sa_ip (cn_addr c)) = ''::ffff:'' @ ip" by auto
  then have "show_ip (sa_ip (cn_addr c)) \<noteq> ip" by (metis append_self_conv2 list.distinct(1))
  moreover have "handle_connection sh (cn_addr c) True = Refused"
    using ip lists by (simp add: handle_connection_def)
  ultimately show ?thesis
    using lists assms(6,7)
    by (auto simp: relaying_turn_def relay_turn_def relay_select_def relay_chunk_def relay_account_def Let_def
        split: relay_input.splits option.splits if_splits prod.splits sum.splits)
qed

section \<open>Examples\<close>

definition test_request :: request_relay where
  "test_request = \<lparr>rr_id = [], rr_uuid = ''u-1'', rr_socket_addr = [], rr_relay_server = [], rr_secure = True,
     rr_licence_key = ''k'', rr_conn_type = Known DEFAULT_CONN, rr_token = [], rr_control_permissions = None\<rparr>"

definition relay_wire :: wire where
  "relay_wire = \<lparr>w_parse_from_bytes = \<lambda>_. Some (Some (RequestRelay test_request)), w_write_to_bytes = \<lambda>_. None,
     w_read_message = \<lambda>_. None, w_write_message = \<lambda>_. None\<rparr>"

lemma test_request_served: "relay_request relay_wire ''k'' [] = Some test_request"
  by (simp add: relay_request_def relay_wire_def test_request_def)

theorem relay_pairs_sound_witness:
  "\<exists>s c p raw th st. relay_reachable ''k'' relay_wire s \<and> Relaying c p raw th st \<in> set (ry_tasks s) \<and>
     rr_licence_key (cn_request c) = ''k'' \<and> cn_stream c \<noteq> cn_stream p"
proof -
  from run_pair [OF test_request_served] obtain us raw th st where
    r: "relay_reachable ''k'' relay_wire (sys_of 0 2 [] us ([Asleep (rr_uuid test_request) WAIT_PEER] @
      Relaying (plain_conn 1 test_request) (plain_conn 0 test_request) raw th st # []))" by auto
  from relay_pairs_sound [OF this, of "[Asleep (rr_uuid test_request) WAIT_PEER]"] r show ?thesis
    by (fastforce simp: sys_of_def)
qed

theorem relay_no_leak_witness:
  "\<exists>s. relay_reachable ''k'' relay_wire s \<and> rl_peers (ry_shared s) \<noteq> [] \<and>
     (\<exists>d. Asleep ''u-1'' d \<in> set (ry_tasks s) \<and> d \<le> ry_now s + 30 * nanos_per_sec)"
proof -
  note r = run_wait [OF test_request_served]
  have "(''u-1'', plain_conn 0 test_request) \<in>
      set (rl_peers (ry_shared (sys_of 0 1 [(rr_uuid test_request, plain_conn 0 test_request)] []
        [Asleep (rr_uuid test_request) WAIT_PEER])))"
    by (simp add: sys_of_def test_request_def)
  from relay_no_leak [OF r this] r show ?thesis by (fastforce simp: sys_of_def)
qed

theorem relay_pairing_race_witness:
  "\<exists>s. relay_reachable ''k'' relay_wire s \<and> 0 \<notin># held s \<and>
     rl_peers (ry_shared s) = [(''u-1'', plain_conn 1 test_request)]"
  using relay_pairing_race [OF test_request_served] by (auto simp: test_request_def)

theorem relay_early_removal_witness:
  "\<exists>s. relay_reachable ''k'' relay_wire s \<and> Asleep ''u-1'' (50 * nanos_per_sec) \<in> set (ry_tasks s) \<and>
     rl_peers (ry_shared s) = []"
  using relay_early_removal [OF test_request_served] by (auto simp: test_request_def)

definition mapped_conn :: conn where
  "mapped_conn = \<lparr>cn_stream = 0, cn_addr = V6 (Ipv6Addr 0xFFFF01020304) 5 0 0, cn_ws = False,
     cn_request = test_request\<rparr>"

definition slow_turn :: relay_event where
  "slow_turn = \<lparr>ev_input = Tick, ev_at = 2000000000, ev_sent = True, ev_after = 2000000000\<rparr>"

definition listing_shared :: relay_shared where
  "listing_shared = test_relay_shared\<lparr>rl_blacklist := [''1.2.3.4''], rl_blocklist := [''1.2.3.4'']\<rparr>"

theorem relay_lists_miss_mapped_witness:
  "handle_connection listing_shared (cn_addr mapped_conn) True = Refused \<and>
   snd (snd (relaying_turn slow_turn mapped_conn 9 (relay_start 0) listing_shared)) \<noteq> Inl Blocked"
proof -
  have m: "drop_bit 32 (0xFFFF01020304 :: u128) = 0xFFFF" by code_simp
  have a: "cn_addr mapped_conn = V6 (Ipv6Addr 0xFFFF01020304) 5 0 0" by (simp add: mapped_conn_def)
  have i: "''1.2.3.4'' = show_ip (sa_ip (try_into_v4 (cn_addr mapped_conn)))" by code_simp
  have l: "rl_blocklist listing_shared = [''1.2.3.4'']" "rl_blacklist listing_shared = [''1.2.3.4'']"
    by (simp_all add: listing_shared_def)
  have b: "\<not> rt_blacked (relay_start 0)" by (simp add: relay_start_def)
  obtain sh' outs r where t: "relaying_turn slow_turn mapped_conn 9 (relay_start 0) listing_shared = (sh', outs, r)"
    by (metis prod_cases3)
  show ?thesis using relay_lists_miss_mapped [OF m a i l t b] unfolding t by simp
qed

end
