(* ===== verification/Web_Api.thy ===== *)
theory Web_Api
  imports Peer_Map
begin

text \<open>
  The HTTP interface over the database: \<open>src/api.rs\<close>, \<open>src/device_api.rs\<close>,
  \<open>src/password_reset.rs\<close>, the login and registration of \<open>src/web.rs\<close>, the settings
  of \<open>src/settings_api.rs\<close> and the payment requests of \<open>src/payment.rs\<close>.  A handler
  takes the \<open>Authorization\<close> header and its request and returns the new database
  with the answer: a status code, or an answer whose \<open>success\<close> is false with a
  message, or the data.  The JWT library, the parsing of dates and the payment
  gateways are arguments; the database is up.
\<close>

section \<open>Answers and the environment\<close>

datatype api_status = Unauthorized | Forbidden | NotFound | InternalServerError

datatype api_error =
    BadEmail | NoSuchUser | LastAdmin | EmptyUsername | EmptyEmail | PasswordTooShort
  | PasswordsDiffer | UsernameTaken | EmailTaken | CreateFailed | DbFailure db_error
  | NoSuchPlan string | NoPlanGiven | BadDate | NoOwner | DeviceVanished | EmptyToken
  | BadToken | AccountDisabled | WrongPassword | NotYourDevice | TokenFailed | MissingSetting
  | FreePlan | NotConfigured | UnknownMethod | GatewayFailed | NoSuchOrder | JwtNotImplemented
  | NotLoggedIn | EmptyIp | IpListed | IpMissing | WriteFailed

type_synonym 'a answer = "api_status + (api_error + 'a)"

abbreviation ok_answer :: "'a \<Rightarrow> 'a answer" where "ok_answer x \<equiv> Inr (Inr x)"
abbreviation err_answer :: "api_error \<Rightarrow> 'a answer" where "err_answer e \<equiv> Inr (Inl e)"

record claims =
  cl_sub :: string
  cl_username :: string
  cl_exp :: int
  cl_iat :: int
  cl_udid :: "i64 option"
  cl_role :: string

record api_env =
  ae_jwt_decode :: "string \<Rightarrow> claims option"
  ae_jwt_encode :: "claims \<Rightarrow> string option"
  ae_bcrypt :: bcrypt
  ae_now :: timestamp
  ae_unix :: int
  ae_instant :: instant
  ae_hour_from_now :: timestamp
  ae_uuid :: string
  ae_stamp :: string
  ae_parse_date :: "string \<Rightarrow> timestamp option"
  ae_rfc3339 :: "timestamp \<Rightarrow> string"
  ae_alipay_precreate :: "string \<Rightarrow> string \<Rightarrow> string \<Rightarrow> bool \<Rightarrow> string \<Rightarrow> string \<Rightarrow> string \<Rightarrow> string option"
  ae_stripe_session :: "string \<Rightarrow> string \<Rightarrow> string \<Rightarrow> string \<Rightarrow> nat \<Rightarrow> string \<Rightarrow> string option"

type_synonym auth = "string option"

section \<open>Callers\<close>

definition extract_bearer_token :: "auth \<Rightarrow> string option" where
  "extract_bearer_token hdr =
     (case hdr of
        None \<Rightarrow> None
      | Some raw \<Rightarrow>
          let token = (case strip_prefix ''Bearer '' raw of Some rest \<Rightarrow> trim rest | None \<Rightarrow> trim raw)
          in if token = [] then None else Some token)"

definition jwt_sub_user_id :: "api_env \<Rightarrow> string \<Rightarrow> i64 option" where
  "jwt_sub_user_id env token =
     (case ae_jwt_decode env token of Some c \<Rightarrow> parse_i64 (trim (cl_sub c)) | None \<Rightarrow> None)"

definition jwt_user_id_from_headers :: "api_env \<Rightarrow> auth \<Rightarrow> i64 option" where
  "jwt_user_id_from_headers env hdr =
     (case extract_bearer_token hdr of Some t \<Rightarrow> jwt_sub_user_id env t | None \<Rightarrow> None)"

definition db_user_is_admin :: "database \<Rightarrow> i64 \<Rightarrow> bool" where
  "db_user_is_admin d user_id =
     (case get_user_by_id user_id d of Some u \<Rightarrow> u_role u = USER_ROLE_ADMIN | None \<Rightarrow> False)"

text \<open>The three openings of a handler: any caller, an administrator, the user itself or an administrator.\<close>

definition with_caller ::
  "api_env \<Rightarrow> auth \<Rightarrow> database \<Rightarrow> (i64 \<Rightarrow> database \<times> 'a answer) \<Rightarrow> database \<times> 'a answer" where
  "with_caller env hdr d body =
     (case jwt_user_id_from_headers env hdr of None \<Rightarrow> (d, Inl Unauthorized) | Some caller \<Rightarrow> body caller)"

definition with_admin ::
  "api_env \<Rightarrow> auth \<Rightarrow> database \<Rightarrow> database \<times> 'a answer \<Rightarrow> database \<times> 'a answer" where
  "with_admin env hdr d body =
     with_caller env hdr d (\<lambda>caller. if db_user_is_admin d caller then body else (d, Inl Forbidden))"

definition with_self ::
  "api_env \<Rightarrow> auth \<Rightarrow> i64 \<Rightarrow> database \<Rightarrow> database \<times> 'a answer \<Rightarrow> database \<times> 'a answer" where
  "with_self env hdr user_id d body =
     with_caller env hdr d (\<lambda>caller.
       if caller \<noteq> user_id \<and> \<not> db_user_is_admin d caller then (d, Inl Forbidden) else body)"

section \<open>Users\<close>

record user_info =
  ui_id :: i64
  ui_username :: string
  ui_email :: string
  ui_created_at :: string
  ui_is_active :: bool
  ui_role :: string

definition user_info_of :: "api_env \<Rightarrow> user \<Rightarrow> user_info" where
  "user_info_of env u = \<lparr>ui_id = u_id u, ui_username = u_username u, ui_email = u_email u,
     ui_created_at = ae_rfc3339 env (u_created_at u), ui_is_active = u_is_active u, ui_role = u_role u\<rparr>"

definition answer_user :: "api_env \<Rightarrow> api_error \<Rightarrow> i64 \<Rightarrow> database \<Rightarrow> user_info answer" where
  "answer_user env missing user_id d =
     (case get_user_by_id user_id d of
        Some u \<Rightarrow> ok_answer (user_info_of env u) | None \<Rightarrow> err_answer missing)"

definition api_list_users ::
  "api_env \<Rightarrow> auth \<Rightarrow> i64 option \<Rightarrow> i64 option \<Rightarrow> database \<Rightarrow> database \<times> user_info list answer" where
  "api_list_users env hdr limit off d =
     with_admin env hdr d (d, ok_answer (map (user_info_of env) (list_users_simple limit off d)))"

definition api_get_user :: "api_env \<Rightarrow> auth \<Rightarrow> i64 \<Rightarrow> database \<Rightarrow> database \<times> user_info answer" where
  "api_get_user env hdr user_id d = with_self env hdr user_id d (d, answer_user env NoSuchUser user_id d)"

definition api_update_user ::
  "api_env \<Rightarrow> auth \<Rightarrow> i64 \<Rightarrow> (string \<rightharpoonup> string) \<Rightarrow> database \<Rightarrow> database \<times> user_info answer" where
  "api_update_user env hdr user_id request d =
     with_self env hdr user_id d
       (let username = request ''username''; email = request ''email'' in
        if (case email of Some e \<Rightarrow> CHR ''@'' \<notin> set e | None \<Rightarrow> False) then (d, err_answer BadEmail)
        else (case update_user (ae_now env) user_id username email d of
                Inr d' \<Rightarrow> (d', answer_user env NoSuchUser user_id d')
              | Inl e \<Rightarrow> (d, err_answer (DbFailure e))))"

definition last_admin :: "i64 \<Rightarrow> database \<Rightarrow> bool" where
  "last_admin user_id d =
     (case get_user_by_id user_id d of
        Some target \<Rightarrow> u_role target = USER_ROLE_ADMIN \<and> count_admins d \<le> 1
      | None \<Rightarrow> False)"

definition api_delete_user :: "api_env \<Rightarrow> auth \<Rightarrow> i64 \<Rightarrow> database \<Rightarrow> database \<times> unit answer" where
  "api_delete_user env hdr user_id d =
     with_self env hdr user_id d
       (if last_admin user_id d then (d, err_answer LastAdmin)
        else (delete_user_simple user_id d, ok_answer ()))"

record register_request =
  rq_username :: string
  rq_email :: string
  rq_password :: string
  rq_confirm_password :: string

text \<open>The checks and the insertion that the two ways to create a user share.\<close>

definition create_checked :: "api_env \<Rightarrow> register_request \<Rightarrow> database \<Rightarrow> database \<times> user_info answer" where
  "create_checked env rq d =
     (if get_user_by_username (rq_username rq) d \<noteq> None then (d, err_answer UsernameTaken)
      else if get_user_by_email (rq_email rq) d \<noteq> None then (d, err_answer EmailTaken)
      else (case create_user (ae_bcrypt env) (ae_now env)
                   \<lparr>cur_username = rq_username rq, cur_email = rq_email rq, cur_password = rq_password rq\<rparr> d of
              Inr (d', user_id) \<Rightarrow> (d', answer_user env CreateFailed user_id d')
            | Inl _ \<Rightarrow> (d, err_answer CreateFailed)))"

definition admin_create_user ::
  "api_env \<Rightarrow> auth \<Rightarrow> register_request \<Rightarrow> database \<Rightarrow> database \<times> user_info answer" where
  "admin_create_user env hdr rq d =
     with_admin env hdr d
       (if trim (rq_username rq) = [] then (d, err_answer EmptyUsername)
        else if trim (rq_email rq) = [] then (d, err_answer EmptyEmail)
        else if length (rq_password rq) < 6 then (d, err_answer PasswordTooShort)
        else if rq_password rq \<noteq> rq_confirm_password rq then (d, err_answer PasswordsDiffer)
        else create_checked env rq d)"

definition update_user_role ::
  "api_env \<Rightarrow> auth \<Rightarrow> i64 \<Rightarrow> string \<Rightarrow> database \<Rightarrow> database \<times> user_info answer" where
  "update_user_role env hdr user_id role d =
     with_admin env hdr d
       (let new_role = (if trim role = USER_ROLE_ADMIN then USER_ROLE_ADMIN else USER_ROLE_USER) in
        if new_role = USER_ROLE_USER \<and> last_admin user_id d then (d, err_answer LastAdmin)
        else let d' = set_user_role (ae_now env) user_id new_role d
             in (d', answer_user env NoSuchUser user_id d'))"

section \<open>Login and registration\<close>

record subscription_info =
  si_id :: "i64 option"
  si_plan_name :: string
  si_plan_display_name :: string
  si_device_limit :: i64
  si_speed_limit_kbps :: i64
  si_started_at :: "string option"
  si_expires_at :: "string option"
  si_is_active :: bool
  si_current_device_count :: i64
  si_notes :: "string option"

definition build_subscription_info :: "api_env \<Rightarrow> i64 \<Rightarrow> database \<Rightarrow> subscription_info" where
  "build_subscription_info env user_id d =
     (case get_user_active_subscription (ae_now env) user_id d of
        Some s \<Rightarrow> \<lparr>si_id = Some (sub_id s), si_plan_name = sub_plan_name s,
          si_plan_display_name = sub_plan_display_name s, si_device_limit = sub_device_limit s,
          si_speed_limit_kbps = sub_speed_limit_kbps s, si_started_at = Some (ae_rfc3339 env (sub_started_at s)),
          si_expires_at = map_option (ae_rfc3339 env) (sub_expires_at s), si_is_active = sub_is_active s,
          si_current_device_count = count_user_active_devices user_id d, si_notes = sub_notes s\<rparr>
      | None \<Rightarrow> \<lparr>si_id = None, si_plan_name = ''free'', si_plan_display_name = utf8 [229, 133, 141, 232, 180, 185, 231, 137, 136],
          si_device_limit = FREE_DEVICE_LIMIT, si_speed_limit_kbps = FREE_SPEED_KBPS, si_started_at = None,
          si_expires_at = None, si_is_active = True,
          si_current_device_count = count_user_active_devices user_id d, si_notes = None\<rparr>)"

definition show_i64 :: "i64 \<Rightarrow> string" where
  "show_i64 n = (if n < 0 then CHR ''-'' # show_nat (nat (- n)) else show_nat (nat n))"

definition login_claims :: "api_env \<Rightarrow> user \<Rightarrow> i64 option \<Rightarrow> claims" where
  "login_claims env u udid = \<lparr>cl_sub = show_i64 (u_id u), cl_username = u_username u,
     cl_exp = ae_unix env + 24 * 3600, cl_iat = ae_unix env, cl_udid = udid, cl_role = u_role u\<rparr>"

record login_response =
  lr_token :: string
  lr_user :: user_info
  lr_subscription :: subscription_info

text \<open>The device named at login: none, a device of the user, or an error.\<close>

definition login_device :: "i64 \<Rightarrow> string option \<Rightarrow> database \<Rightarrow> i64 option option" where
  "login_device user_id device_id d =
     (case device_id of
        Some s \<Rightarrow>
          if trim s = [] then Some None
          else map_option Some (get_user_device_row_id user_id (trim s) d)
      | None \<Rightarrow> Some None)"

definition login :: "api_env \<Rightarrow> string \<Rightarrow> string \<Rightarrow> string option \<Rightarrow> database \<Rightarrow> login_response answer" where
  "login env username password device_id d =
     (case get_user_by_username username d of
        None \<Rightarrow> err_answer NoSuchUser
      | Some u \<Rightarrow>
          if \<not> u_is_active u then err_answer AccountDisabled
          else if \<not> verify_password (ae_bcrypt env) password (u_password_hash u) then err_answer WrongPassword
          else
            (case login_device (u_id u) device_id d of
               None \<Rightarrow> err_answer NotYourDevice
             | Some udid \<Rightarrow>
                 (case ae_jwt_encode env (login_claims env u udid) of
                    None \<Rightarrow> err_answer TokenFailed
                  | Some token \<Rightarrow> ok_answer \<lparr>lr_token = token, lr_user = user_info_of env u,
                      lr_subscription = build_subscription_info env (u_id u) d\<rparr>)))"

definition register :: "api_env \<Rightarrow> register_request \<Rightarrow> database \<Rightarrow> database \<times> user_info answer" where
  "register env rq d =
     (if rq_password rq \<noteq> rq_confirm_password rq then (d, err_answer PasswordsDiffer)
      else create_checked env rq d)"

section \<open>Password reset\<close>

definition api_forgot_password :: "api_env \<Rightarrow> string \<Rightarrow> database \<Rightarrow> database \<times> unit answer" where
  "api_forgot_password env email d =
     (if trim email = [] then (d, err_answer EmptyEmail)
      else (case get_user_by_email email d of
              Some u \<Rightarrow>
                (case create_password_reset_token (ae_now env) (ae_hour_from_now env) (ae_uuid env) (u_id u) d of
                   Inr (d', _) \<Rightarrow> (d', ok_answer ())
                 | Inl e \<Rightarrow> (d, err_answer (DbFailure e)))
            | None \<Rightarrow> (d, ok_answer ())))"

definition api_reset_password ::
  "api_env \<Rightarrow> string \<Rightarrow> string \<Rightarrow> string \<Rightarrow> database \<Rightarrow> database \<times> unit answer" where
  "api_reset_password env token new_password confirm_password d =
     (if trim token = [] then (d, err_answer EmptyToken)
      else if length new_password < 6 then (d, err_answer PasswordTooShort)
      else if new_password \<noteq> confirm_password then (d, err_answer PasswordsDiffer)
      else (case validate_password_reset_token (ae_now env) token d of
              Some user_id \<Rightarrow>
                (case reset_password (ae_bcrypt env) (ae_now env) user_id new_password d of
                   Inr d' \<Rightarrow> (d', ok_answer ())
                 | Inl e \<Rightarrow> (d, err_answer (DbFailure e)))
            | None \<Rightarrow> (d, err_answer BadToken)))"

definition api_change_password :: "string \<Rightarrow> string \<Rightarrow> unit answer" where
  "api_change_password new_password confirm_password =
     (if length new_password < 6 then err_answer PasswordTooShort
      else if new_password \<noteq> confirm_password then err_answer PasswordsDiffer
      else err_answer JwtNotImplemented)"

text \<open>The handlers of the same name in \<open>web.rs\<close>, which only pretend.\<close>

definition web_forgot_password :: "string \<Rightarrow> database \<Rightarrow> string answer" where
  "web_forgot_password email d = ok_answer ''success''"

definition web_reset_password :: "string \<Rightarrow> string \<Rightarrow> string answer" where
  "web_reset_password token password =
     (if token = [] then err_answer BadToken else ok_answer ''success'')"

section \<open>Devices\<close>

record device_info =
  di_id :: i64
  di_device_id :: string
  di_device_name :: "string option"
  di_created_at :: string
  di_is_active :: bool
  di_online :: bool

definition device_info_of :: "api_env \<Rightarrow> bool \<Rightarrow> user_device \<Rightarrow> device_info" where
  "device_info_of env online r = \<lparr>di_id = ud_id r, di_device_id = ud_device_id r,
     di_device_name = ud_device_name r, di_created_at = ae_rfc3339 env (ud_created_at r),
     di_is_active = ud_is_active r, di_online = online\<rparr>"

definition api_get_user_devices ::
  "api_env \<Rightarrow> auth \<Rightarrow> i64 \<Rightarrow> (string \<times> online_conn) list \<Rightarrow> database \<Rightarrow> database \<times> device_info list answer" where
  "api_get_user_devices env hdr user_id online d =
     with_self env hdr user_id d
       (d, ok_answer (map (\<lambda>r. device_info_of env (ud_device_id r \<in> fst ` set online) r)
             (get_user_devices_simple user_id d)))"

definition api_remove_device :: "api_env \<Rightarrow> auth \<Rightarrow> i64 \<Rightarrow> string \<Rightarrow> database \<Rightarrow> database \<times> unit answer" where
  "api_remove_device env hdr user_id device_id d =
     with_caller env hdr d (\<lambda>caller.
       if caller \<noteq> user_id then (d, Inl Forbidden)
       else (case remove_device_from_user_simple user_id device_id d of
               Inr d' \<Rightarrow> (d', ok_answer ())
             | Inl e \<Rightarrow> (d, err_answer (DbFailure e))))"

definition api_get_device_owner :: "api_env \<Rightarrow> string \<Rightarrow> database \<Rightarrow> user_info answer" where
  "api_get_device_owner env device_id d =
     (case get_device_owner_simple device_id d of
        Some u \<Rightarrow> ok_answer (user_info_of env u) | None \<Rightarrow> err_answer NoOwner)"

definition api_add_device ::
  "api_env \<Rightarrow> auth \<Rightarrow> string \<Rightarrow> string option \<Rightarrow> database \<Rightarrow> database \<times> device_info answer" where
  "api_add_device env hdr device_id device_name d =
     with_caller env hdr d (\<lambda>user_id.
       (case add_device_to_user (ae_now env)
               \<lparr>cdr_user_id = user_id, cdr_device_id = device_id, cdr_device_name = device_name\<rparr> d of
          Inr (d', _) \<Rightarrow>
            (d', case find (\<lambda>r. ud_device_id r = device_id) (get_user_devices user_id d') of
                   Some r \<Rightarrow> ok_answer (device_info_of env False r)
                 | None \<Rightarrow> err_answer DeviceVanished)
        | Inl e \<Rightarrow> (d, err_answer (DbFailure e))))"

definition remove_device_by_id :: "api_env \<Rightarrow> auth \<Rightarrow> string \<Rightarrow> database \<Rightarrow> database \<times> unit answer" where
  "remove_device_by_id env hdr device_id d =
     with_caller env hdr d (\<lambda>user_id.
       (case remove_device_from_user user_id device_id d of
          Inr d' \<Rightarrow> (d', ok_answer ())
        | Inl e \<Rightarrow> (d, err_answer (DbFailure e))))"

section \<open>Monitoring\<close>

definition seen_recently :: "instant \<Rightarrow> online_conn \<Rightarrow> bool" where
  "seen_recently now c \<longleftrightarrow> as_millis (elapsed now (oc_last_seen c)) < 30000"

definition monitor_connections ::
  "api_env \<Rightarrow> auth \<Rightarrow> (string \<times> online_conn) list \<Rightarrow> (online_conn \<times> nat) list answer" where
  "monitor_connections env hdr online =
     (if jwt_user_id_from_headers env hdr = None then err_answer NotLoggedIn
      else ok_answer (map (\<lambda>c. (c, as_secs (elapsed (ae_instant env) (oc_last_seen c))))
             (filter (seen_recently (ae_instant env)) (map snd online))))"

text \<open>The number online, the number of peers, and for administrators the number of users.\<close>

definition monitor_stats ::
  "api_env \<Rightarrow> auth \<Rightarrow> (string \<times> online_conn) list \<Rightarrow> database \<Rightarrow> (nat \<times> nat \<times> nat option) answer" where
  "monitor_stats env hdr online d =
     (case jwt_user_id_from_headers env hdr of
        None \<Rightarrow> err_answer NotLoggedIn
      | Some caller \<Rightarrow>
          ok_answer (length (filter (seen_recently (ae_instant env)) (map snd online)), length online,
            if db_user_is_admin d caller then Some (length (list_users (Some 10000) (Some 0) d)) else None))"

section \<open>Subscriptions\<close>

definition get_my_subscription :: "api_env \<Rightarrow> auth \<Rightarrow> database \<Rightarrow> database \<times> subscription_info answer" where
  "get_my_subscription env hdr d =
     with_caller env hdr d (\<lambda>user_id. (d, ok_answer (build_subscription_info env user_id d)))"

record plan_info =
  pi_id :: i64
  pi_name :: string
  pi_display_name :: string
  pi_device_limit :: i64
  pi_speed_limit_kbps :: i64
  pi_price_cents :: int
  pi_description :: string

definition plan_info_of :: "subscription_plan \<Rightarrow> plan_info" where
  "plan_info_of p = \<lparr>pi_id = sp_id p, pi_name = sp_name p, pi_display_name = sp_display_name p,
     pi_device_limit = sp_device_limit p, pi_speed_limit_kbps = sp_speed_limit_kbps p,
     pi_price_cents = sp_price_cents p, pi_description = sp_description p\<rparr>"

definition list_subscription_plans :: "database \<Rightarrow> plan_info list answer" where
  "list_subscription_plans d = ok_answer (map plan_info_of (get_subscription_plans d))"

record create_sub_request =
  cs_user_id :: i64
  cs_plan_id :: "i64 option"
  cs_plan_name :: "string option"
  cs_expires_at :: "string option"
  cs_notes :: "string option"

definition wanted_plan :: "create_sub_request \<Rightarrow> database \<Rightarrow> api_error + i64" where
  "wanted_plan rq d =
     (case cs_plan_id rq of
        Some pid \<Rightarrow> Inr pid
      | None \<Rightarrow>
          (case cs_plan_name rq of
             Some pname \<Rightarrow>
               (case get_plan_id_by_name pname d of Some i \<Rightarrow> Inr i | None \<Rightarrow> Inl (NoSuchPlan pname))
           | None \<Rightarrow> Inl NoPlanGiven))"

definition parse_expiry :: "api_env \<Rightarrow> string option \<Rightarrow> timestamp option option" where
  "parse_expiry env s =
     (case s of
        Some t \<Rightarrow> (case ae_parse_date env t of Some dt \<Rightarrow> Some (Some dt) | None \<Rightarrow> None)
      | None \<Rightarrow> Some None)"

definition admin_create_subscription ::
  "api_env \<Rightarrow> auth \<Rightarrow> create_sub_request \<Rightarrow> database \<Rightarrow> database \<times> i64 answer" where
  "admin_create_subscription env hdr rq d =
     with_admin env hdr d
       (case wanted_plan rq d of
          Inl e \<Rightarrow> (d, err_answer e)
        | Inr plan_id \<Rightarrow>
            (case parse_expiry env (cs_expires_at rq) of
               None \<Rightarrow> (d, err_answer BadDate)
             | Some expires_at \<Rightarrow>
                 (case create_user_subscription (ae_now env) (cs_user_id rq) plan_id expires_at (cs_notes rq) d of
                    (d', Inr i) \<Rightarrow> (d', ok_answer i)
                  | (d', Inl e) \<Rightarrow> (d', err_answer (DbFailure e)))))"

definition admin_list_subscriptions ::
  "api_env \<Rightarrow> auth \<Rightarrow> i64 option \<Rightarrow> i64 option \<Rightarrow> database \<Rightarrow> database \<times> user_subscription list answer" where
  "admin_list_subscriptions env hdr limit off d =
     with_admin env hdr d (d, ok_answer (list_subscriptions limit off d))"

definition admin_update_subscription ::
  "api_env \<Rightarrow> auth \<Rightarrow> i64 \<Rightarrow> i64 option \<Rightarrow> string option option \<Rightarrow> string option \<Rightarrow> database \<Rightarrow>
   database \<times> unit answer" where
  "admin_update_subscription env hdr sid plan_id expires_at notes d =
     with_admin env hdr d
       (case (case expires_at of
                None \<Rightarrow> Some None
              | Some e \<Rightarrow> map_option Some (parse_expiry env e)) of
          None \<Rightarrow> (d, err_answer BadDate)
        | Some exp \<Rightarrow>
            (case update_user_subscription (ae_now env) sid plan_id exp notes d of
               Inr d' \<Rightarrow> (d', ok_answer ())
             | Inl e \<Rightarrow> (d, err_answer (DbFailure e))))"

definition admin_deactivate_subscription ::
  "api_env \<Rightarrow> auth \<Rightarrow> i64 \<Rightarrow> database \<Rightarrow> database \<times> unit answer" where
  "admin_deactivate_subscription env hdr sid d =
     with_admin env hdr d (deactivate_user_subscription (ae_now env) sid d, ok_answer ())"

section \<open>Settings\<close>

definition get_settings :: "api_env \<Rightarrow> auth \<Rightarrow> database \<Rightarrow> database \<times> (string \<rightharpoonup> string) answer" where
  "get_settings env hdr d = with_admin env hdr d (d, ok_answer (get_all_settings d))"

definition update_settings ::
  "api_env \<Rightarrow> auth \<Rightarrow> string option \<Rightarrow> string option \<Rightarrow> (string \<times> string) list option \<Rightarrow> database \<Rightarrow>
   database \<times> unit answer" where
  "update_settings env hdr key val settings d =
     with_admin env hdr d
       (case settings of
          Some kvs \<Rightarrow> (fold (\<lambda>(k, v). set_setting k v) kvs d, ok_answer ())
        | None \<Rightarrow>
            (case (key, val) of
               (Some k, Some v) \<Rightarrow> (set_setting k v d, ok_answer ())
             | _ \<Rightarrow> (d, err_answer MissingSetting)))"

section \<open>The language and the client version\<close>

text \<open>\<open>detect\<close> of \<open>i18n.rs\<close>: the cookie decides; the \<open>Accept-Language\<close> header never does.\<close>

definition i18n_detect :: "string option \<Rightarrow> string option \<Rightarrow> string" where
  "i18n_detect lang_cookie accept_lang =
     (if lang_cookie = Some ''en'' then ''en''
      else if lang_cookie = Some ''zh'' then ''zh''
      else if (case accept_lang of Some al \<Rightarrow> contains al ''zh'' | None \<Rightarrow> False) then ''zh''
      else ''zh'')"

fun lang_cookie :: "string list \<Rightarrow> string option" where
  "lang_cookie [] = None"
| "lang_cookie (part # parts) =
     (case strip_prefix ''lang='' (trim part) of Some v \<Rightarrow> Some (trim v) | None \<Rightarrow> lang_cookie parts)"

definition detect_lang :: "string option \<Rightarrow> string option \<Rightarrow> string" where
  "detect_lang cookies accept_lang =
     i18n_detect (case cookies of Some c \<Rightarrow> lang_cookie (split_on CHR '';'' c) | None \<Rightarrow> None) accept_lang"

text \<open>The redirection and the cookie that \<open>set_lang\<close> answers with.\<close>

definition set_lang :: "string option \<Rightarrow> string option \<Rightarrow> string \<times> string" where
  "set_lang lang referer =
     (case referer of Some r \<Rightarrow> r | None \<Rightarrow> ''/dashboard'',
      ''lang='' @ (if lang = Some ''en'' then ''en'' else ''zh'') @ ''; Path=/; SameSite=Lax; Max-Age=31536000'')"

definition client_version :: "database \<Rightarrow> (string \<times> string) list" where
  "client_version d =
     (let get = (\<lambda>key. case get_setting key d of Some v \<Rightarrow> v | None \<Rightarrow> [])
      in [(''version'', get ''client_latest_version''), (''download_url_windows'', get ''client_dl_win''),
          (''download_url_macos'', get ''client_dl_mac''), (''download_url_linux'', get ''client_dl_linux''),
          (''sha256_windows'', get ''client_sha256_win''), (''sha256_macos'', get ''client_sha256_mac''),
          (''sha256_linux'', get ''client_sha256_linux''), (''changelog'', get ''client_changelog'')])"

section \<open>Payments\<close>

record payment_response =
  py_order_no :: string
  py_method :: string
  py_qr_content :: "string option"
  py_checkout_url :: "string option"

definition amount_text :: "int \<Rightarrow> string" where
  "amount_text cents =
     show_nat (nat cents div 100) @ ''.'' @ show_nat (nat cents div 10 mod 10) @ show_nat (nat cents mod 10)"

definition setting_or :: "string \<Rightarrow> string \<Rightarrow> database \<Rightarrow> string" where
  "setting_or key def d = (case get_all_settings d key of Some v \<Rightarrow> v | None \<Rightarrow> def)"

definition payment_subject :: "subscription_plan \<Rightarrow> string" where
  "payment_subject plan = ''NAT'' @ utf8 [231, 169, 191, 233, 128, 143] @ '' - '' @ sp_display_name plan"

definition pay_alipay ::
  "api_env \<Rightarrow> subscription_plan \<Rightarrow> string \<Rightarrow> string \<Rightarrow> database \<Rightarrow> database \<times> payment_response answer" where
  "pay_alipay env plan order_no amount d =
     (let app_id = setting_or ''payment.alipay_app_id'' [] d;
          private_key = setting_or ''payment.alipay_private_key'' [] d;
          notify_url = setting_or ''payment.alipay_notify_url'' [] d;
          sandbox = (get_all_settings d ''payment.alipay_sandbox'' = Some ''1'')
      in if app_id = [] \<or> private_key = [] \<or> notify_url = [] then (d, err_answer NotConfigured)
         else (case ae_alipay_precreate env app_id private_key notify_url sandbox order_no amount
                      (payment_subject plan) of
                 Some qr \<Rightarrow> (set_order_gateway (ae_now env) order_no (Some qr) None d,
                    ok_answer \<lparr>py_order_no = order_no, py_method = ''alipay'', py_qr_content = Some qr,
                               py_checkout_url = None\<rparr>)
               | None \<Rightarrow> (d, err_answer GatewayFailed)))"

definition pay_stripe ::
  "api_env \<Rightarrow> subscription_plan \<Rightarrow> string \<Rightarrow> database \<Rightarrow> database \<times> payment_response answer" where
  "pay_stripe env plan order_no d =
     (let secret_key = setting_or ''payment.stripe_secret_key'' [] d;
          base = get_all_settings d ''payment.base_url'';
          with_base = (\<lambda>s. case base of Some b \<Rightarrow> b @ s | None \<Rightarrow> s);
          success_url = setting_or ''payment.stripe_success_url'' (with_base ''/subscription?payment=success'') d;
          cancel_url = with_base ''/subscription''
      in if secret_key = [] then (d, err_answer NotConfigured)
         else (case ae_stripe_session env secret_key success_url cancel_url order_no (nat (sp_price_cents plan))
                      (payment_subject plan) of
                 Some url \<Rightarrow> (set_order_gateway (ae_now env) order_no None (Some url) d,
                    ok_answer \<lparr>py_order_no = order_no, py_method = ''stripe'', py_qr_content = None,
                               py_checkout_url = Some url\<rparr>)
               | None \<Rightarrow> (d, err_answer GatewayFailed)))"

definition create_payment ::
  "api_env \<Rightarrow> auth \<Rightarrow> i64 \<Rightarrow> string \<Rightarrow> database \<Rightarrow> database \<times> payment_response answer" where
  "create_payment env hdr plan_id meth d =
     with_caller env hdr d (\<lambda>user_id.
       (case find (\<lambda>p. sp_id p = plan_id) (get_subscription_plans d) of
          None \<Rightarrow> (d, Inl NotFound)
        | Some plan \<Rightarrow>
            if sp_price_cents plan \<le> 0 then (d, err_answer FreePlan)
            else
              let amount = amount_text (sp_price_cents plan);
                  currency = (if meth = ''stripe'' then ''USD'' else ''CNY'')
              in (case create_order (ae_now env) (ae_stamp env) (ae_uuid env) user_id (sp_id plan) amount currency
                         meth d of
                    Inl _ \<Rightarrow> (d, Inl InternalServerError)
                  | Inr (d', order_no) \<Rightarrow>
                      if meth = ''alipay'' then pay_alipay env plan order_no amount d'
                      else if meth = ''stripe'' then pay_stripe env plan order_no d'
                      else (d', err_answer UnknownMethod))))"

definition query_order :: "api_env \<Rightarrow> auth \<Rightarrow> string \<Rightarrow> database \<Rightarrow> database \<times> (order_row \<times> string) answer" where
  "query_order env hdr order_no d =
     with_caller env hdr d (\<lambda>user_id.
       (d, case get_order_by_no order_no user_id d of Some r \<Rightarrow> ok_answer r | None \<Rightarrow> err_answer NoSuchOrder))"

end
