(* ===== verification/Api_Props.thy ===== *)
theory Api_Props
  imports Web_Api
begin

text \<open>
  The HTTP interface: every handler acts on the database through its operations
  only, so its invariant is kept; the last administrator stays; a caller who is not
  an administrator is refused; a login token identifies the user who logged in.
\<close>

section \<open>Requests as steps\<close>

inductive api_step :: "database \<Rightarrow> database \<Rightarrow> bool" where
  "api_step d (fst (api_update_user env hdr i rq d))"
| "api_step d (fst (api_delete_user env hdr i d))"
| "api_step d (fst (admin_create_user env hdr reg d))"
| "api_step d (fst (update_user_role env hdr i role d))"
| "api_step d (fst (register env reg d))"
| "api_step d (fst (api_forgot_password env email d))"
| "api_step d (fst (api_reset_password env token pw pw' d))"
| "api_step d (fst (api_remove_device env hdr i dev d))"
| "api_step d (fst (api_add_device env hdr dev name d))"
| "api_step d (fst (remove_device_by_id env hdr dev d))"
| "api_step d (fst (admin_create_subscription env hdr sreq d))"
| "api_step d (fst (admin_update_subscription env hdr i po eo n d))"
| "api_step d (fst (admin_deactivate_subscription env hdr i d))"
| "api_step d (fst (update_settings env hdr k v kvs d))"
| "api_step d (fst (create_payment env hdr i meth d))"

lemmas guard_defs = with_admin_def with_self_def with_caller_def

lemma with_admin_cases:
  "with_admin env hdr d body = (d, Inl Unauthorized) \<or> with_admin env hdr d body = (d, Inl Forbidden) \<or>
   with_admin env hdr d body = body"
  by (auto simp: guard_defs split: option.splits)

lemma with_self_cases:
  "with_self env hdr i d body = (d, Inl Unauthorized) \<or> with_self env hdr i d body = (d, Inl Forbidden) \<or>
   with_self env hdr i d body = body"
  by (auto simp: guard_defs split: option.splits)

lemma with_caller_cases:
  "with_caller env hdr d body = (d, Inl Unauthorized) \<or> (\<exists>c. with_caller env hdr d body = body c)"
  by (auto simp: with_caller_def split: option.splits)

text \<open>A property of the database that every operation a handler may reach keeps.\<close>

lemma fst_with_admin: "P d \<Longrightarrow> P (fst body) \<Longrightarrow> P (fst (with_admin env hdr d body))"
  using with_admin_cases [of env hdr d body] by auto

lemma fst_with_self: "P d \<Longrightarrow> P (fst body) \<Longrightarrow> P (fst (with_self env hdr i d body))"
  using with_self_cases [of env hdr i d body] by auto

lemma fst_with_caller: "P d \<Longrightarrow> (\<And>c. P (fst (body c))) \<Longrightarrow> P (fst (with_caller env hdr d body))"
  using with_caller_cases [of env hdr d body] by auto

lemma fst_create_checked:
  assumes "P d" "\<And>bc now req d' i. create_user bc now req d = Inr (d', i) \<Longrightarrow> P d'"
  shows "P (fst (create_checked env rq d))"
  using assms by (auto simp: create_checked_def split: sum.splits)

lemma fold_settings_step: "db_step\<^sup>*\<^sup>* d (fold (\<lambda>(k, v). set_setting k v) kvs d)"
proof (induction kvs arbitrary: d)
  case (Cons kv kvs)
  then show ?case
    by (cases kv) (auto intro: converse_rtranclp_into_rtranclp db_step.step_set_setting)
qed simp

lemma fst_pay:
  assumes "\<And>now q u. P (set_order_gateway now no q u d)" "P d"
  shows "P (fst (pay_alipay env plan no amount d))" "P (fst (pay_stripe env plan no d))"
  using assms by (auto simp: pay_alipay_def pay_stripe_def Let_def split: option.splits)

lemma fst_create_payment:
  assumes "P d"
    and c: "\<And>now st uu i p am cu me d' no. create_order now st uu i p am cu me d = Inr (d', no) \<Longrightarrow> P d'"
    and g: "\<And>now st uu i p am cu me d' no n no' q u. create_order now st uu i p am cu me d = Inr (d', no) \<Longrightarrow>
              P (set_order_gateway n no' q u d')"
  shows "P (fst (create_payment env hdr i meth d))"
  unfolding create_payment_def Let_def
proof (rule fst_with_caller)
  fix c
  show "P (fst (case find (\<lambda>p. sp_id p = i) (get_subscription_plans d) of None \<Rightarrow> (d, Inl NotFound)
      | Some plan \<Rightarrow> if sp_price_cents plan \<le> 0 then (d, err_answer FreePlan)
          else case create_order (ae_now env) (ae_stamp env) (ae_uuid env) c (sp_id plan)
              (amount_text (sp_price_cents plan)) (if meth = ''stripe'' then ''USD'' else ''CNY'') meth d of
              Inl _ \<Rightarrow> (d, Inl InternalServerError)
            | Inr (d', order_no) \<Rightarrow> if meth = ''alipay'' then pay_alipay env plan order_no (amount_text (sp_price_cents plan)) d'
                else if meth = ''stripe'' then pay_stripe env plan order_no d' else (d', err_answer UnknownMethod)))"
    using assms(1) by (auto split: option.split sum.split intro: c fst_pay(1) [where P = P, OF g c] fst_pay(2) [where P = P, OF g c])
qed (rule assms(1))

lemma create_sub_step:
  "create_user_subscription now i p eo n d = (d', r) \<Longrightarrow> db_step d d'"
  by (metis db_step.step_create_sub fst_conv)

lemmas step1 = r_into_rtranclp [of db_step]

lemma api_step_db: "api_step d d' \<Longrightarrow> db_step\<^sup>*\<^sup>* d d'"
proof (induction rule: api_step.induct)
  case (1 d env hdr i rq)
  show ?case unfolding api_update_user_def Let_def
    by (rule fst_with_self) (auto intro: step1 db_step.step_update_user split: sum.split)
next
  case (2 d env hdr i)
  show ?case unfolding api_delete_user_def
    by (rule fst_with_self) (auto intro: step1 db_step.step_delete_user_simple)
next
  case (3 d env hdr reg)
  show ?case unfolding admin_create_user_def
    by (rule fst_with_admin) (auto intro: step1 db_step.step_create_user fst_create_checked)
next
  case (4 d env hdr i role)
  show ?case unfolding update_user_role_def Let_def
    by (rule fst_with_admin) (auto intro: step1 db_step.step_role)
next
  case (5 d env reg)
  show ?case by (auto simp: register_def intro: step1 db_step.step_create_user fst_create_checked)
next
  case (6 d env email)
  show ?case by (auto simp: api_forgot_password_def intro: step1 db_step.step_token split: option.split sum.split)
next
  case (7 d env token pw pw')
  show ?case by (auto simp: api_reset_password_def intro: step1 db_step.step_reset_password split: option.split sum.split)
next
  case (8 d env hdr i dev)
  show ?case unfolding api_remove_device_def
    by (rule fst_with_caller) (auto intro: step1 db_step.step_remove_device_simple split: sum.split)
next
  case (9 d env hdr dev name)
  show ?case unfolding api_add_device_def
    by (rule fst_with_caller) (auto intro: step1 db_step.step_add_device split: sum.split)
next
  case (10 d env hdr dev)
  show ?case unfolding remove_device_by_id_def
    by (rule fst_with_caller) (auto intro: step1 db_step.step_remove_device split: sum.split)
next
  case (11 d env hdr sreq)
  show ?case unfolding admin_create_subscription_def
    by (rule fst_with_admin) (auto intro: step1 create_sub_step split: sum.split option.split prod.split)
next
  case (12 d env hdr i po eo n)
  show ?case unfolding admin_update_subscription_def
    by (rule fst_with_admin) (auto intro: step1 db_step.step_update_sub split: sum.split option.split)
next
  case (13 d env hdr i)
  show ?case unfolding admin_deactivate_subscription_def
    by (rule fst_with_admin) (auto intro: step1 db_step.step_deactivate_sub)
next
  case (14 d env hdr k v kvs)
  show ?case unfolding update_settings_def
    by (rule fst_with_admin) (auto simp: fold_settings_step intro: step1 db_step.step_set_setting split: option.split)
next
  case (15 d env hdr i meth)
  show ?case
    by (rule fst_create_payment)
      (auto intro: step1 rtranclp.rtrancl_into_rtrancl db_step.step_create_order db_step.step_set_gateway)
qed

lemma db_steps_ok: "db_step\<^sup>*\<^sup>* d d' \<Longrightarrow> db_ok d \<Longrightarrow> db_ok d'"
  by (induction rule: rtranclp_induct) (auto intro: db_step_ok)

section \<open>Administrators\<close>

definition admins :: "database \<Rightarrow> user list" where
  "admins d = filter (\<lambda>u. u_role u = ''admin'') (rows (db_users d))"

lemma count_admins_alt: "count_admins d = int (length (admins d))"
  by (simp add: count_admins_def count_where_def admins_def)

lemma has_admin_iff: "0 < count_admins d \<longleftrightarrow> (\<exists>u \<in> set (rows (db_users d)). u_role u = ''admin'')"
  by (simp add: count_admins_def count_where_pos)

lemma other_admin:
  assumes "\<not> last_admin i d" "users_ok d" "0 < count_admins d"
  shows "\<exists>u \<in> set (rows (db_users d)). u_role u = ''admin'' \<and> u_id u \<noteq> i"
proof (rule ccontr)
  assume none: "\<not> ?thesis"
  obtain a where a: "a \<in> set (rows (db_users d))" "u_role a = ''admin''" using assms(3) by (auto simp: has_admin_iff)
  then have i: "u_id a = i" using none by blast
  have dist: "distinct (map u_id (rows (db_users d)))" using assms(2) by (simp add: users_ok_def tbl_ok_def)
  then have inj: "u = a" if "u \<in> set (rows (db_users d))" "u_id u = i" for u
    using that a(1) i by (metis distinct_map inj_on_eq_iff)
  have "get_user_by_id i d = Some a"
  proof -
    obtain u where u: "get_user_by_id i d = Some u"
      using a(1) i by (cases "get_user_by_id i d") (auto simp: get_user_by_id_def find_None_iff)
    then have "u \<in> set (rows (db_users d))" "u_id u = i"
      by (auto simp: get_user_by_id_def find_Some_iff)
    then show ?thesis using u inj by simp
  qed
  moreover have "set (admins d) = {a}"
  proof (rule set_eqI)
    fix u
    show "u \<in> set (admins d) \<longleftrightarrow> u \<in> {a}"
      using none a inj [of u] unfolding admins_def by auto
  qed
  moreover have "distinct (admins d)"
    using dist unfolding admins_def by (intro distinct_filter) (simp add: distinct_map)
  ultimately have "last_admin i d"
    using a(2) distinct_card [of "admins d"] by (simp add: last_admin_def USER_ROLE_ADMIN_def count_admins_alt)
  with assms(1) show False by blast
qed

lemma count_admins_frame [simp]:
  "count_admins (d\<lparr>db_peer := x0\<rparr>) = count_admins d" "count_admins (d\<lparr>db_user_devices := x1\<rparr>) = count_admins d"
  "count_admins (d\<lparr>db_reset_tokens := x2\<rparr>) = count_admins d" "count_admins (d\<lparr>db_subscriptions := x3\<rparr>) = count_admins d"
  "count_admins (d\<lparr>db_orders := x4\<rparr>) = count_admins d" "count_admins (d\<lparr>db_settings := x5\<rparr>) = count_admins d"
  by (simp_all add: count_admins_def)

lemma count_admins_delete:
  "count_admins (delete_user_simple i d) = count_where (\<lambda>u. u_role u = ''admin'') (delete_where (\<lambda>u. u_id u = i) (rows (db_users d)))"
  by (simp add: delete_user_simple_def count_admins_def)

lemma admin_delete:
  assumes "\<not> last_admin i d" "users_ok d" "0 < count_admins d"
  shows "0 < count_admins (delete_user_simple i d)"
  using other_admin [OF assms] by (auto simp: count_admins_delete count_where_pos delete_where_def)

lemma admin_role:
  assumes "r = USER_ROLE_ADMIN \<or> r = USER_ROLE_USER \<and> \<not> last_admin i d" "users_ok d" "0 < count_admins d"
  shows "0 < count_admins (set_user_role now i r d)"
proof -
  have upd: "rows (db_users (set_user_role now i r d)) =
      update_where (\<lambda>u. u_id u = i) (\<lambda>u. u\<lparr>u_role := r, u_updated_at := now\<rparr>) (rows (db_users d))"
    using assms(1) by (auto simp: set_user_role_def Let_def USER_ROLE_USER_def USER_ROLE_ADMIN_def)
  from assms(1) show ?thesis
  proof
    assume r: "r = USER_ROLE_ADMIN"
    obtain a where a: "a \<in> set (rows (db_users d))" "u_role a = ''admin''"
      using assms(3) by (auto simp: has_admin_iff)
    have "(if u_id a = i then a\<lparr>u_role := r, u_updated_at := now\<rparr> else a) \<in>
        set (rows (db_users (set_user_role now i r d)))"
      unfolding upd mem_update_where using a by auto
    then show ?thesis
      unfolding has_admin_iff by (rule rev_bexI) (use a r in \<open>auto simp: USER_ROLE_ADMIN_def\<close>)
  next
    assume "r = USER_ROLE_USER \<and> \<not> last_admin i d"
    then show ?thesis
      using other_admin [of i d] assms(2,3) unfolding has_admin_iff upd by (auto simp: mem_update_where)
  qed
qed

lemma admin_update_user: "update_user now i n e d = Inr d' \<Longrightarrow> count_admins d' = count_admins d"
  by (auto simp: update_user_def Let_def count_admins_def intro!: count_where_update split: if_splits)

lemma admin_create_user_row: "create_user bc now rq d = Inr (d', i) \<Longrightarrow> 0 < count_admins d \<Longrightarrow> 0 < count_admins d'"
  by (auto simp: create_user_def insert_user_row_def Let_def has_admin_iff split: option.splits if_splits)

lemma admin_reset_password: "reset_password bc now i pw d = Inr d' \<Longrightarrow> count_admins d' = count_admins d"
  by (auto simp: reset_password_def set_password_def Let_def count_admins_def intro!: count_where_update
      split: option.splits)

lemma admin_other_ops:
  "create_password_reset_token now e tok i d = Inr (d', tok') \<Longrightarrow> count_admins d' = count_admins d"
  "remove_device_from_user_simple i dev d = Inr d' \<Longrightarrow> count_admins d' = count_admins d"
  "add_device_to_user now dreq d = Inr (d', k) \<Longrightarrow> count_admins d' = count_admins d"
  "create_user_subscription now i p eo n d = (d', r) \<Longrightarrow> count_admins d' = count_admins d"
  "update_user_subscription now i po eoo n d = Inr d' \<Longrightarrow> count_admins d' = count_admins d"
  "create_order now st uu i p am cu me d = Inr (d', no) \<Longrightarrow> count_admins d' = count_admins d"
  "count_admins (deactivate_user_subscription now i d) = count_admins d"
  "count_admins (set_order_gateway now no q u d) = count_admins d"
  "count_admins (set_setting key val d) = count_admins d"
  by (auto simp: create_password_reset_token_def remove_device_from_user_simple_def add_device_to_user_def
      replace_device_row_def create_user_subscription_def deactivate_all_def update_user_subscription_def
      create_order_def deactivate_user_subscription_def set_order_gateway_def set_setting_def Let_def
      split: if_splits option.splits)

lemma admin_settings: "count_admins (fold (\<lambda>(k, v). set_setting k v) kvs d) = count_admins d"
  by (induction kvs arbitrary: d) (auto simp: admin_other_ops)

lemmas admin_with_self = fst_with_self [where P = "\<lambda>d. 0 < count_admins d"]
lemmas admin_with_admin = fst_with_admin [where P = "\<lambda>d. 0 < count_admins d"]
lemmas admin_with_caller = fst_with_caller [where P = "\<lambda>d. 0 < count_admins d"]
lemmas admin_create_checked = fst_create_checked [where P = "\<lambda>d. 0 < count_admins d"]
lemmas admin_create_payment = fst_create_payment [where P = "\<lambda>d. 0 < count_admins d"]

lemma api_step_admin:
  assumes "api_step d d'" "users_ok d" "0 < count_admins d"
  shows "0 < count_admins d'"
  using assms
proof (induction rule: api_step.induct)
  case (1 d env hdr i rq)
  then show ?case unfolding api_update_user_def Let_def
    by (intro admin_with_self) (auto simp: admin_update_user split: sum.split)
next
  case (2 d env hdr i)
  then show ?case unfolding api_delete_user_def by (intro admin_with_self) (auto intro: admin_delete)
next
  case (3 d env hdr reg)
  then show ?case unfolding admin_create_user_def
    by (intro admin_with_admin) (auto intro: admin_create_user_row admin_create_checked)
next
  case (4 d env hdr i role)
  then show ?case unfolding update_user_role_def Let_def by (intro admin_with_admin) (auto intro: admin_role)
next
  case (5 d env reg)
  then show ?case by (auto simp: register_def intro: admin_create_user_row admin_create_checked)
next
  case (6 d env email)
  then show ?case by (auto simp: api_forgot_password_def admin_other_ops split: option.split sum.split)
next
  case (7 d env token pw pw')
  then show ?case by (auto simp: api_reset_password_def admin_reset_password split: option.split sum.split)
next
  case (8 d env hdr i dev)
  then show ?case unfolding api_remove_device_def
    by (intro admin_with_caller) (auto simp: admin_other_ops split: sum.split)
next
  case (9 d env hdr dev name)
  then show ?case unfolding api_add_device_def
    by (intro admin_with_caller) (auto simp: admin_other_ops split: sum.split)
next
  case (10 d env hdr dev)
  then show ?case unfolding remove_device_by_id_def
    by (intro admin_with_caller) (auto simp: remove_device_fails split: sum.split)
next
  case (11 d env hdr sreq)
  then show ?case unfolding admin_create_subscription_def
    by (intro admin_with_admin) (auto simp: admin_other_ops split: sum.split option.split prod.split)
next
  case (12 d env hdr i po eo n)
  then show ?case unfolding admin_update_subscription_def
    by (intro admin_with_admin) (auto simp: admin_other_ops split: sum.split option.split)
next
  case (13 d env hdr i)
  then show ?case unfolding admin_deactivate_subscription_def by (intro admin_with_admin) (auto simp: admin_other_ops)
next
  case (14 d env hdr k v kvs)
  then show ?case unfolding update_settings_def
    by (intro admin_with_admin) (auto simp: admin_settings admin_other_ops split: option.split)
next
  case (15 d env hdr i meth)
  then show ?case by (intro admin_create_payment) (auto simp: admin_other_ops)
qed

section \<open>Properties\<close>

text \<open>
  C4.  Whatever requests are served one after the other, whoever sends them, the
  database keeps its invariant and never loses its last administrator.
\<close>

theorem api_keeps_admin:
  assumes "api_step\<^sup>*\<^sup>* d d'" "db_ok d" "0 < count_admins d"
  shows "db_ok d' \<and> 0 < count_admins d'"
  using assms
proof (induction rule: rtranclp_induct)
  case (step e f)
  then have "db_ok e" "users_ok e" by (auto simp: db_ok_def)
  then show ?case
    using step api_step_admin [of e f] db_steps_ok [OF api_step_db] by blast
qed simp

definition db_two_admins :: database where
  "db_two_admins = fresh_db\<lparr>db_users := \<lparr>rows =
     [\<lparr>u_id = 1, u_username = ''ann'', u_email = ''a@x'', u_password_hash = ''pw1'', u_created_at = [],
       u_updated_at = [], u_is_active = True, u_role = ''admin''\<rparr>,
      \<lparr>u_id = 2, u_username = ''bob'', u_email = ''b@x'', u_password_hash = ''pw2'', u_created_at = [],
       u_updated_at = [], u_is_active = True, u_role = ''admin''\<rparr>], seq = 2\<rparr>\<rparr>"

lemma db_two_admins_ok: "db_ok db_two_admins"
proof -
  have "db_ok fresh_db" by (rule fresh_db_ok)
  then show ?thesis
    by (auto simp: db_two_admins_def db_ok_def table_ok_defs active_subs_def tbl_ok_def user_ids_def
        USER_ROLE_ADMIN_def fresh_db_def migrate_settings_def migrate_subscriptions_def tbl_empty_def)
qed

lemma db_two_admins_count: "count_admins db_two_admins = 2"
  by (simp add: db_two_admins_def count_admins_def)

text \<open>A token is the claims' subject after a letter; the hash of \<open>p\<close> is \<open>h\<close> and \<open>p\<close>.\<close>

definition test_claims :: "string \<Rightarrow> claims" where
  "test_claims sub = \<lparr>cl_sub = sub, cl_username = [], cl_exp = 0, cl_iat = 0, cl_udid = None, cl_role = []\<rparr>"

definition test_api_env :: api_env where
  "test_api_env = \<lparr>ae_jwt_decode = \<lambda>t. Some (test_claims (tl t)), ae_jwt_encode = \<lambda>c. Some (CHR ''t'' # cl_sub c),
     ae_bcrypt = plain_bcrypt, ae_now = ''2024-01-01 00:00:00'', ae_unix = 0, ae_instant = 0,
     ae_hour_from_now = ''2024-01-01T01:00:00+00:00'', ae_uuid = ''uuid'', ae_stamp = ''20240101000000'',
     ae_parse_date = Some, ae_rfc3339 = id, ae_alipay_precreate = \<lambda>_ _ _ _ _ _ _. None,
     ae_stripe_session = \<lambda>_ _ _ _ _ _. None\<rparr>"

theorem api_keeps_admin_witness:
  "0 < count_admins (fst (api_delete_user test_api_env (Some ''Bearer t1'') 1 db_two_admins))"
  using api_keeps_admin [OF r_into_rtranclp, OF api_step.intros(2) db_two_admins_ok, of test_api_env "Some ''Bearer t1''" 1]
  by (simp add: db_two_admins_count)


lemma bearer_token: "trim t = t \<Longrightarrow> t \<noteq> [] \<Longrightarrow> extract_bearer_token (Some (''Bearer '' @ t)) = Some t"
  by (simp add: extract_bearer_token_def strip_prefix_def starts_with_def)

definition db_user_and_admin :: database where
  "db_user_and_admin = set_user_role [] 2 ''user'' db_two_admins"


text \<open>The text of a positive number read back.\<close>

lemma parse_show_i64:
  assumes "0 < n" "n \<le> int i64_max"
  shows "parse_i64 (trim (show_i64 n)) = Some n"
proof -
  have "\<not> is_space c" if "c \<in> set (show_nat (nat n))" for c
    using set_show_nat [OF that] by (auto simp: is_digit_def is_space_def)
  then have "trim (show_nat (nat n)) = show_nat (nat n)" by simp
  then show ?thesis
    using assms parse_signed_show_nat [of "nat n" i64_max] by (simp add: show_i64_def parse_i64_def)
qed

lemma login_ok:
  assumes "login env username password device_id d = ok_answer r"
  obtains u udid where "get_user_by_username username d = Some u" "u_is_active u"
    "verify_password (ae_bcrypt env) password (u_password_hash u)" "login_device (u_id u) device_id d = Some udid"
    "ae_jwt_encode env (login_claims env u udid) = Some (lr_token r)"
  using assms by (auto simp: login_def split: option.splits if_splits)

lemma login_user_id:
  assumes "get_user_by_username username d = Some u" "db_ok d" "seq (db_users d) \<le> int i64_max"
  shows "0 < u_id u" "u_id u \<le> int i64_max"
proof -
  have "u \<in> set (rows (db_users d))" using assms(1) by (auto simp: get_user_by_username_def find_Some_iff)
  then show "0 < u_id u" "u_id u \<le> int i64_max"
    using assms(2,3) by (auto simp: db_ok_def users_ok_def tbl_ok_def)
qed

lemma binding_of_row:
  assumes "get_user_device_row_id i dev d = Some k" "devices_ok d"
  shows "resolve_peer_device_binding i (Some k) dev d = Inr k"
proof -
  let ?rs = "rows (db_user_devices d)"
  obtain r where r: "r \<in> set ?rs" "ud_user_id r = i" "ud_device_id r = dev" "ud_is_active r" "ud_id r = k"
    using assms(1) by (auto simp: get_user_device_row_id_def dest!: find_SomeD)
  have inj: "x = r" if "x \<in> set ?rs" "ud_id x = k" for x
    using assms(2) that r(1,5) by (metis devices_ok_def distinct_map inj_on_eq_iff tbl_ok_def)
  let ?P = "\<lambda>x. ud_id x = k \<and> ud_user_id x = i \<and> ud_is_active x"
  have "find ?P ?rs = Some r"
  proof (cases "find ?P ?rs")
    case None
    then show ?thesis using r by (auto simp: find_None_iff)
  next
    case (Some x)
    then have "x \<in> set ?rs" "ud_id x = k" by (auto dest!: find_SomeD)
    then show ?thesis using inj Some by simp
  qed
  then show ?thesis using r(3) by (simp add: resolve_peer_device_binding_def)
qed

text \<open>
  A login succeeds only with the password of an active user, and as long as the
  JWT library reads back what it has signed, the token stands for that user in
  every later request.
\<close>

theorem login_token_identifies:
  assumes "login env username password device_id d = ok_answer r"
    and "db_ok d" "seq (db_users d) \<le> int i64_max"
    and jwt: "\<And>c t. ae_jwt_encode env c = Some t \<Longrightarrow>
           ae_jwt_decode env t = Some c \<and> t \<noteq> [] \<and> (\<forall>x \<in> set t. \<not> is_space x)"
  shows "\<exists>u. get_user_by_username username d = Some u \<and> u_is_active u \<and>
           verify_password (ae_bcrypt env) password (u_password_hash u) \<and>
           jwt_user_id_from_headers env (Some (''Bearer '' @ lr_token r)) = Some (u_id u)"
proof -
  obtain u udid where u: "get_user_by_username username d = Some u" "u_is_active u"
    "verify_password (ae_bcrypt env) password (u_password_hash u)"
    "ae_jwt_encode env (login_claims env u udid) = Some (lr_token r)"
    using login_ok [OF assms(1)] by metis
  have "trim (lr_token r) = lr_token r" using jwt [OF u(4)] by simp
  then have "extract_bearer_token (Some (''Bearer '' @ lr_token r)) = Some (lr_token r)"
    using jwt [OF u(4)] by (intro bearer_token) auto
  then have "jwt_user_id_from_headers env (Some (''Bearer '' @ lr_token r)) = Some (u_id u)"
    using jwt [OF u(4)] parse_show_i64 [OF login_user_id [OF u(1) assms(2,3)]]
    by (simp add: jwt_user_id_from_headers_def jwt_sub_user_id_def login_claims_def)
  then show ?thesis using u by blast
qed


definition ann :: user where
  "ann = \<lparr>u_id = 1, u_username = ''ann'', u_email = ''a@x'', u_password_hash = ''hpw'', u_created_at = [],
     u_updated_at = [], u_is_active = True, u_role = ''user''\<rparr>"

definition db_ann :: database where
  "db_ann = fresh_db\<lparr>db_users := \<lparr>rows = [ann], seq = 1\<rparr>,
     db_user_devices := \<lparr>rows = [\<lparr>ud_id = 7, ud_user_id = 1, ud_device_id = ''dev-01'', ud_device_name = None,
       ud_created_at = [], ud_is_active = True\<rparr>], seq = 7\<rparr>\<rparr>"

lemma db_ann_ok: "db_ok db_ann"
proof -
  have "db_ok fresh_db" by (rule fresh_db_ok)
  then show ?thesis
    by (auto simp: db_ann_def ann_def db_ok_def table_ok_defs active_subs_def tbl_ok_def user_ids_def device_key_def
        USER_ROLE_USER_def fresh_db_def migrate_settings_def migrate_subscriptions_def tbl_empty_def)
qed

definition ann_claims :: claims where
  "ann_claims = login_claims test_api_env ann (Some 7)"

definition ann_env :: api_env where
  "ann_env = test_api_env\<lparr>ae_jwt_encode := (\<lambda>c. if c = ann_claims then Some ''tok'' else None),
     ae_jwt_decode := (\<lambda>t. if t = ''tok'' then Some ann_claims else None)\<rparr>"

lemma ann_login: "\<exists>r. login ann_env ''ann'' ''pw'' (Some ''dev-01'') db_ann = ok_answer r \<and> lr_token r = ''tok''"
proof -
  have "trim ''dev-01'' = ''dev-01''" by (rule trim_id) (simp add: is_space_def)
  then have "login_device 1 (Some ''dev-01'') db_ann = Some (Some 7)"
    by (simp add: login_device_def get_user_device_row_id_def db_ann_def)
  moreover have "login_claims ann_env ann (Some 7) = ann_claims"
    by (simp add: ann_env_def ann_claims_def login_claims_def)
  moreover have "get_user_by_username ''ann'' db_ann = Some ann"
    by (simp add: get_user_by_username_def db_ann_def ann_def)
  moreover have "u_id ann = 1" "u_is_active ann" "verify_password (ae_bcrypt ann_env) ''pw'' (u_password_hash ann)"
    by (simp_all add: ann_def ann_env_def test_api_env_def verify_password_def plain_bcrypt_def)
  moreover have "ae_jwt_encode ann_env ann_claims = Some ''tok''" by (simp add: ann_env_def)
  ultimately show ?thesis by (simp add: login_def)
qed

theorem login_token_identifies_witness:
  "\<exists>r (u::user). login ann_env ''ann'' ''pw'' (Some ''dev-01'') db_ann = ok_answer r \<and> u_is_active u \<and>
     jwt_user_id_from_headers ann_env (Some (''Bearer '' @ lr_token r)) = Some (u_id u)"
proof -
  obtain r where r: "login ann_env ''ann'' ''pw'' (Some ''dev-01'') db_ann = ok_answer r" using ann_login by blast
  have s: "seq (db_users db_ann) \<le> int i64_max" by (simp add: db_ann_def i64_max_def)
  have j: "ae_jwt_decode ann_env t = Some c \<and> t \<noteq> [] \<and> (\<forall>x \<in> set t. \<not> is_space x)"
    if "ae_jwt_encode ann_env c = Some t" for c t
    using that by (auto simp: ann_env_def is_space_def split: if_splits)
  have "\<exists>u. get_user_by_username ''ann'' db_ann = Some u \<and> u_is_active u \<and>
      verify_password (ae_bcrypt ann_env) ''pw'' (u_password_hash u) \<and>
      jwt_user_id_from_headers ann_env (Some (''Bearer '' @ lr_token r)) = Some (u_id u)"
    by (rule login_token_identifies [OF r db_ann_ok s j])
  then obtain u :: user where u: "u_is_active u"
      "jwt_user_id_from_headers ann_env (Some (''Bearer '' @ lr_token r)) = Some (u_id u)" by blast
  show ?thesis by (rule exI [of _ r], rule exI [of _ u]) (simp only: r u simp_thms)
qed

lemma ann_caller: "jwt_user_id_from_headers (ann_env\<lparr>ae_instant := t\<rparr>) (Some ''Bearer tok'') = Some 1"
proof -
  have "trim ''tok'' = ''tok''" by (rule trim_id) (simp add: is_space_def)
  then have "extract_bearer_token (Some ''Bearer tok'') = Some ''tok''" using bearer_token [of "''tok''"] by simp
  moreover have "parse_i64 (trim (cl_sub ann_claims)) = Some 1"
    using parse_show_i64 [of 1] by (simp add: ann_claims_def login_claims_def ann_def i64_max_def)
  ultimately show ?thesis
    by (simp add: jwt_user_id_from_headers_def jwt_sub_user_id_def ann_env_def)
qed

definition ann_penv :: peer_env where
  "ann_penv = test_env\<lparr>env_db_up := True, env_jwt_decode := (\<lambda>t. if t = ''tok'' then
     Some \<lparr>jc_sub = Some (SubString (cl_sub ann_claims)), jc_udid = cl_udid ann_claims\<rparr> else None)\<rparr>"


text \<open>
  The check for the last administrator and the deletion are separate statements.
  When two administrators are deleted at the same time, both checks can pass before
  either deletion, and then no administrator is left.
\<close>

theorem delete_admins_race:
  "db_ok db_two_admins \<and> \<not> last_admin 1 db_two_admins \<and> \<not> last_admin 2 db_two_admins \<and>
   count_admins (delete_user_simple 2 (delete_user_simple 1 db_two_admins)) = 0"
proof -
  have "count_admins (delete_user_simple 2 (delete_user_simple 1 db_two_admins)) = 0"
    by (simp add: db_two_admins_def count_admins_def delete_user_simple_def delete_where_def)
  then show ?thesis
    using db_two_admins_ok db_two_admins_count by (auto simp: last_admin_def split: option.splits)
qed

text \<open>
  A payment request leaves a pending order behind even when it is answered with
  an error: the order is entered before the method and the settings are looked at.
\<close>

theorem create_payment_leaves_order:
  assumes "jwt_user_id_from_headers env hdr = Some c"
    and "find (\<lambda>p. sp_id p = plan_id) (get_subscription_plans d) = Some plan" "0 < sp_price_cents plan"
    and "create_order (ae_now env) (ae_stamp env) (ae_uuid env) c (sp_id plan) (amount_text (sp_price_cents plan))
           ''CNY'' meth d = Inr (d', no)"
    and "meth \<noteq> ''alipay''" "meth \<noteq> ''stripe''"
  shows "create_payment env hdr plan_id meth d = (d', err_answer UnknownMethod) \<and>
         (\<exists>x \<in> set (rows (db_orders d')). o_order_no x = no \<and> o_status x = ''pending'')"
  using assms
  by (auto simp: create_payment_def with_caller_def Let_def create_order_def split: if_splits)

text \<open>
  The list of devices shows a device as online once its peer has registered, for
  ever; the monitor calls the same peer online only for thirty seconds.
\<close>

theorem device_shown_online:
  assumes "jwt_user_id_from_headers env hdr = Some i" "r \<in> set (get_user_devices_simple i d)"
    and "(ud_device_id r, c) \<in> set online"
    and "30 * nanos_per_sec \<le> elapsed (ae_instant env) (oc_last_seen c)"
  shows "(\<exists>ds. api_get_user_devices env hdr i online d = (d, ok_answer ds) \<and>
            (\<exists>x \<in> set ds. di_device_id x = ud_device_id r \<and> di_online x)) \<and>
         (\<exists>cs. monitor_connections env hdr online = ok_answer cs \<and> c \<notin> fst ` set cs)"
proof -
  have "\<not> seen_recently (ae_instant env) c"
    using assms(4) by (simp add: seen_recently_def as_millis_def nanos_per_sec_def)
  moreover have "ud_device_id r \<in> fst ` set online" using assms(3) by force
  ultimately show ?thesis
    using assms(1,2)
    by (auto simp: api_get_user_devices_def monitor_connections_def guard_defs device_info_of_def intro!: rev_bexI)
qed

text \<open>A pending order after a request with an unknown method, and a device seen a minute ago.\<close>

definition paid_plan :: subscription_plan where
  "paid_plan = \<lparr>sp_id = 2, sp_name = ''basic'', sp_display_name = ''basic'', sp_device_limit = 5,
     sp_speed_limit_kbps = 5120, sp_price_cents = 990, sp_description = [], sp_is_active = True\<rparr>"

definition db_ann_plan :: database where
  "db_ann_plan = db_ann\<lparr>db_plans := \<lparr>rows = [paid_plan], seq = 2\<rparr>, db_orders := tbl_empty\<rparr>"

theorem create_payment_leaves_order_witness:
  "\<exists>d'. create_payment (ann_env\<lparr>ae_instant := 0\<rparr>) (Some ''Bearer tok'') 2 ''cash'' db_ann_plan =
         (d', err_answer UnknownMethod) \<and> rows (db_orders d') \<noteq> []"
proof -
  let ?env = "ann_env\<lparr>ae_instant := 0\<rparr>"
  have p: "find (\<lambda>p. sp_id p = 2) (get_subscription_plans db_ann_plan) = Some paid_plan" "0 < sp_price_cents paid_plan"
    by (simp_all add: db_ann_plan_def get_subscription_plans_def paid_plan_def)
  obtain d' no where "create_order (ae_now ?env) (ae_stamp ?env) (ae_uuid ?env) 1 (sp_id paid_plan)
      (amount_text (sp_price_cents paid_plan)) ''CNY'' ''cash'' db_ann_plan = Inr (d', no)"
    by (simp add: create_order_def Let_def db_ann_plan_def db_ann_def ann_def paid_plan_def tbl_empty_def)
  from create_payment_leaves_order [OF ann_caller p this] show ?thesis by auto
qed

definition old_conn :: online_conn where
  "old_conn = \<lparr>oc_peer_id = ''dev-01'', oc_ip = [], oc_user_id = None, oc_connected_at = 0, oc_last_seen = 0\<rparr>"

theorem device_shown_online_witness:
  "\<exists>ds. api_get_user_devices (ann_env\<lparr>ae_instant := 60 * nanos_per_sec\<rparr>) (Some ''Bearer tok'') 1
      [(''dev-01'', old_conn)] db_ann = (db_ann, ok_answer ds) \<and> (\<exists>x \<in> set ds. di_online x)"
proof -
  let ?r = "\<lparr>ud_id = 7, ud_user_id = 1, ud_device_id = ''dev-01'', ud_device_name = None,
    ud_created_at = [], ud_is_active = True\<rparr>"
  have "?r \<in> set (get_user_devices_simple 1 db_ann)"
    by (simp add: get_user_devices_simple_def db_ann_def active_devices_of_def order_desc_def)
  moreover have "(ud_device_id ?r, old_conn) \<in> set [(''dev-01'', old_conn)]" by simp
  moreover have "30 * nanos_per_sec \<le> elapsed (ae_instant (ann_env\<lparr>ae_instant := 60 * nanos_per_sec\<rparr>)) (oc_last_seen old_conn)"
    by (simp add: elapsed_def old_conn_def)
  ultimately show ?thesis using device_shown_online [OF ann_caller] by blast
qed

end
