(* ===== verification/Text_Lines.thy ===== *)
theory Text_Lines
  imports Nat_Prelude
begin

text \<open>
  The rest of \<open>str\<close> that the programs which read and write text files use: lines,
  trimming, splitting at the first separator, insertion into a list of lines; and
  the facts about them.
\<close>

section \<open>Definitions\<close>

abbreviation NLc :: char where "NLc \<equiv> char_of (10 :: nat)"
abbreviation CRc :: char where "CRc \<equiv> char_of (13 :: nat)"

text \<open>\<open>str::lines\<close>: a line ends at a line feed, with the carriage return before it.\<close>

definition strip_cr :: "string \<Rightarrow> string" where
  "strip_cr l = (if l \<noteq> [] \<and> last l = CRc then butlast l else l)"

definition str_lines :: "string \<Rightarrow> string list" where
  "str_lines s =
     (let ls = split_on NLc s
      in map strip_cr (butlast ls) @ (if last ls = [] then [] else [last ls]))"

text \<open>\<open>splitn(2, c)\<close>: the text before the first separator, and the rest if there is one.\<close>

fun splitn2 :: "char \<Rightarrow> string \<Rightarrow> string \<times> string option" where
  "splitn2 c [] = ([], None)"
| "splitn2 c (x # xs) =
     (if x = c then ([], Some xs) else (case splitn2 c xs of (a, b) \<Rightarrow> (x # a, b)))"

definition trim_start :: "string \<Rightarrow> string" where
  "trim_start s = dropWhile is_space s"

definition trim_matches :: "char \<Rightarrow> string \<Rightarrow> string" where
  "trim_matches c s = rev (dropWhile (\<lambda>x. x = c) (rev (dropWhile (\<lambda>x. x = c) s)))"

definition position :: "('a \<Rightarrow> bool) \<Rightarrow> 'a list \<Rightarrow> nat option" where
  "position P xs = (let i = length (takeWhile (\<lambda>x. \<not> P x) xs) in if i < length xs then Some i else None)"

definition insert_at :: "nat \<Rightarrow> 'a \<Rightarrow> 'a list \<Rightarrow> 'a list" where
  "insert_at i x xs = take i xs @ x # drop i xs"

definition lines_text :: "string list \<Rightarrow> string" where
  "lines_text lines = join_with [NLc] lines @ [NLc]"

section \<open>Lines\<close>

lemma split_on_append: "split_on c (xs @ c # ys) = split_on c xs @ split_on c ys"
proof (induction xs)
  case (Cons x xs)
  obtain y zs where "split_on c xs = y # zs" by (cases "split_on c xs") auto
  with Cons show ?case by auto
qed simp

lemma split_on_join: "ls \<noteq> [] \<Longrightarrow> split_on c (join_with [c] ls) = concat (map (split_on c) ls)"
  by (induction "[c]" ls rule: join_with.induct) (auto simp: split_on_append)

lemma str_lines_text:
  "str_lines (lines_text ls) = (if ls = [] then [[]] else map strip_cr (concat (map (split_on NLc) ls)))"
proof -
  have "split_on NLc (lines_text ls) = split_on NLc (join_with [NLc] ls) @ [[]]"
    by (simp add: lines_text_def split_on_append)
  then show ?thesis by (simp add: str_lines_def split_on_join strip_cr_def)
qed

lemma str_lines_no_NL: "l \<in> set (str_lines s) \<Longrightarrow> NLc \<notin> set l"
proof -
  assume l: "l \<in> set (str_lines s)"
  have "\<exists>x \<in> set (split_on NLc s). set l \<subseteq> set x"
  proof (cases "l \<in> set (map strip_cr (butlast (split_on NLc s)))")
    case True
    then obtain x where "x \<in> set (butlast (split_on NLc s))" "l = strip_cr x" by auto
    then show ?thesis by (auto simp: strip_cr_def dest: in_set_butlastD intro!: bexI [of _ x])
  next
    case False
    with l have "l = last (split_on NLc s)" by (auto simp: str_lines_def Let_def split: if_splits)
    then show ?thesis using last_in_set [of "split_on NLc s"] by auto
  qed
  then show ?thesis using split_on_sep_notin [of _ NLc s] by blast
qed

section \<open>Trimming\<close>

lemma trim_snoc [simp]: "is_space x \<Longrightarrow> trim (s @ [x]) = trim s"
  by (cases "\<forall>y \<in> set s. is_space y") (auto simp: trim_def dropWhile_append dest: set_dropWhileD)

lemma trim_Cons [simp]: "is_space x \<Longrightarrow> trim (x # s) = trim s"
  by (simp add: trim_def)

lemma trim_Nil [simp]: "trim [] = []"
  by (simp add: trim_def)

lemma is_space_NLc [simp]: "is_space NLc" and is_space_CRc [simp]: "is_space CRc"
  by (simp_all add: is_space_def)

lemma is_space_blank [simp]: "is_space CHR '' ''"
  by (simp add: is_space_def)

lemma NLc_noteq [simp]: "NLc \<noteq> CHR '' ''" "NLc \<noteq> CHR ''=''" "NLc \<noteq> CHR ''[''" "NLc \<noteq> CHR '']''"
  by code_simp+

lemma trim_strip_cr [simp]: "trim (strip_cr l) = trim l"
proof (cases "l \<noteq> [] \<and> last l = CRc")
  case True
  then have "l = butlast l @ [CRc]" by (metis append_butlast_last_id)
  then have "trim l = trim (butlast l)" by (metis is_space_CRc trim_snoc)
  with True show ?thesis by (simp add: strip_cr_def)
qed (auto simp: strip_cr_def)

lemma trim_ends: "trim s = [] \<or> \<not> is_space (hd (trim s)) \<and> \<not> is_space (last (trim s))"
proof -
  let ?a = "dropWhile is_space s"
  let ?b = "dropWhile is_space (rev ?a)"
  have "last (rev ?b) = hd ?b" if "?b \<noteq> []" using that by (simp add: last_rev)
  moreover have "\<not> is_space (hd ?b)" if "?b \<noteq> []" using that hd_dropWhile by blast
  moreover have "\<not> is_space (hd (rev ?b))" if "?b \<noteq> []"
  proof -
    have "rev ?a = takeWhile is_space (rev ?a) @ ?b" by simp
    then have "?a = rev ?b @ rev (takeWhile is_space (rev ?a))" by (metis rev_append rev_rev_ident)
    then have "hd (rev ?b) = hd ?a" using that by (metis hd_append2 rev_is_Nil_conv)
    moreover have "?a \<noteq> []" using that by (metis dropWhile.simps(1) rev.simps(1))
    ultimately show ?thesis using hd_dropWhile [of is_space s] by simp
  qed
  ultimately show ?thesis by (cases "?b = []") (simp_all add: trim_def del: dropWhile_eq_Nil_conv)
qed

lemma trim_trim [simp]: "trim (trim s) = trim s"
  using trim_id [OF trim_ends] .

lemma set_trim: "set (trim s) \<subseteq> set s"
  by (auto simp: trim_def dest!: set_dropWhileD)

lemma trim_eqD: "trim s = s \<Longrightarrow> s \<noteq> [] \<Longrightarrow> \<not> is_space (hd s) \<and> \<not> is_space (last s)"
  using trim_ends [of s] by auto

lemma trim_Nil_iff: "trim s = [] \<longleftrightarrow> (\<forall>x \<in> set s. is_space x)"
proof
  assume "trim s = []"
  then have "\<forall>x \<in> set (dropWhile is_space s). is_space x" by (simp add: trim_def dropWhile_eq_Nil_conv)
  then have "dropWhile is_space s = []" using hd_dropWhile [of is_space s] hd_in_set by blast
  then show "\<forall>x \<in> set s. is_space x" by (simp add: dropWhile_eq_Nil_conv)
qed (auto simp: trim_def dest: set_dropWhileD)

lemma trim_append_spaces: "trim b = [] \<Longrightarrow> trim (a @ b) = trim a"
  unfolding trim_Nil_iff
  by (induction b rule: rev_induct) (simp_all add: append_assoc [symmetric] del: append_assoc)

lemma trim_append_right:
  assumes "a \<noteq> []" "\<not> is_space (hd a)" "trim b \<noteq> []"
  shows "\<exists>b'. trim (a @ b) = a @ b' \<and> trim b' = trim b"
proof -
  let ?b' = "rev (dropWhile is_space (rev b))"
  have "\<exists>x \<in> set b. \<not> is_space x" using assms(3) by (simp add: trim_Nil_iff)
  then have "rev (dropWhile is_space (rev b @ rev a)) = a @ ?b'" by (auto simp: dropWhile_append)
  moreover have "dropWhile is_space (a @ b) = a @ b" using assms by (cases a) auto
  ultimately have "trim (a @ b) = a @ ?b'" by (simp add: trim_def)
  moreover have "b = ?b' @ rev (takeWhile is_space (rev b))"
    by (metis rev_append rev_rev_ident takeWhile_dropWhile_id)
  moreover have "trim (rev (takeWhile is_space (rev b))) = []" by (auto simp: trim_Nil_iff dest: set_takeWhileD)
  ultimately have "trim (a @ b) = a @ ?b'" "trim b = trim ?b'" using trim_append_spaces by metis+
  then show ?thesis by metis
qed

section \<open>Splitting once\<close>

lemma splitn2_hit [simp]: "c \<notin> set a \<Longrightarrow> splitn2 c (a @ c # b) = (a, Some b)"
  by (induction a) auto

lemma splitn2_miss [simp]: "c \<notin> set a \<Longrightarrow> splitn2 c a = (a, None)"
  by (induction a) auto

lemma splitn2_parts:
  "splitn2 c s = (a, b) \<Longrightarrow> c \<notin> set a \<and> s = a @ (case b of Some r \<Rightarrow> c # r | None \<Rightarrow> [])"
  by (induction s arbitrary: a) (auto split: if_splits prod.splits)


lemma concat_split_on_no_NL: "(\<And>l. l \<in> set ls \<Longrightarrow> NLc \<notin> set l) \<Longrightarrow> concat (map (split_on NLc) ls) = ls"
  by (induction ls) auto

section \<open>Positions in a list of lines\<close>

lemma map_filter_append: "List.map_filter f (xs @ ys) = List.map_filter f xs @ List.map_filter f ys"
  by (simp add: List.map_filter_def)

lemma fold_insert_at: "i \<le> length ls \<Longrightarrow> fold (insert_at i) (rev xs) ls = take i ls @ xs @ drop i ls"
  by (induction xs arbitrary: ls) (simp_all add: insert_at_def)

lemma position_Some:
  assumes "position P xs = Some i"
  shows "xs = take i xs @ xs ! i # drop (Suc i) xs" "P (xs ! i)" "\<And>x. x \<in> set (take i xs) \<Longrightarrow> \<not> P x"
proof -
  have i: "i = length (takeWhile (\<lambda>x. \<not> P x) xs)" "i < length xs"
    using assms by (auto simp: position_def Let_def split: if_splits)
  show "xs = take i xs @ xs ! i # drop (Suc i) xs" using i(2) by (rule id_take_nth_drop)
  show "P (xs ! i)" using nth_length_takeWhile [of "\<lambda>x. \<not> P x" xs] i by simp
  show "\<And>x. x \<in> set (take i xs) \<Longrightarrow> \<not> P x"
    using i(1) takeWhile_eq_take [of "\<lambda>x. \<not> P x" xs] set_takeWhileD by metis
qed

lemma position_None:
  assumes "position P xs = None" "x \<in> set xs"
  shows "\<not> P x"
proof -
  have "length (takeWhile (\<lambda>x. \<not> P x) xs) = length xs"
    using assms(1) length_takeWhile_le [of "\<lambda>x. \<not> P x" xs] by (auto simp: position_def Let_def split: if_splits)
  then have "takeWhile (\<lambda>x. \<not> P x) xs = xs" using takeWhile_eq_take [of "\<lambda>x. \<not> P x" xs] by simp
  then show ?thesis using assms(2) set_takeWhileD [of x "\<lambda>x. \<not> P x" xs] by simp
qed

lemma insert_at_append: "insert_at (length xs) x (xs @ ys) = xs @ x # ys"
  by (simp add: insert_at_def)

section \<open>Lookups in a list where the last entry wins\<close>

lemma map_of_map_keyed: "map_of (map (\<lambda>(k, v). (k, g k v)) xs) key = map_option (g key) (map_of xs key)"
  by (induction xs) auto

abbreviation look :: "('k \<times> 'v) list \<Rightarrow> 'k \<Rightarrow> 'v option" where
  "look xs key \<equiv> map_of (rev xs) key"

lemma look_map: "look (map (\<lambda>(k, v). (k, g k v)) xs) key = map_option (g key) (look xs key)"
  by (simp only: rev_map map_of_map_keyed)

lemma look_insert: "fst x \<noteq> key \<Longrightarrow> look (A @ x # B) key = look (A @ B) key"
  by (cases x) (simp add: map_add_def split: option.splits)

lemma look_new: "key \<notin> fst ` set (A @ B) \<Longrightarrow> look (A @ (key, v) # B) key = Some v"
proof -
  assume "key \<notin> fst ` set (A @ B)"
  then have "map_of (rev B) key = None" by (metis Un_iff image_Un map_of_eq_None_iff set_append set_rev)
  then show ?thesis by (simp add: map_add_def)
qed

lemma look_None: "look xs key = None \<longleftrightarrow> key \<notin> fst ` set xs"
  by (simp add: map_of_eq_None_iff)

end
