(* ===== verification/Settings_Files.thy ===== *)
theory Settings_Files
  imports Web_Api Relay_Server Text_Lines
begin

text \<open>
  The administrator's files of \<open>src/settings_api.rs\<close> -- the two lists of addresses
  and the parameters in \<open>config.toml\<close> and \<open>hbbr.toml\<close> -- and the start of the relay
  server in \<open>src/hbbr.rs\<close>, which reads them.  A file is the text that
  \<open>read_to_string\<close> returns for it, if it can be read.  A write can fail; what is
  then in the file is up to the environment.
\<close>

section \<open>Files and lines\<close>

type_synonym files = "string \<rightharpoonup> string"

text \<open>\<open>None\<close>: the write succeeds.  \<open>Some c\<close>: it fails and leaves the contents \<open>c\<close>.\<close>

type_synonym io_faults = "string \<Rightarrow> string option option"

definition fs_write :: "io_faults \<Rightarrow> string \<Rightarrow> string \<Rightarrow> files \<Rightarrow> files \<times> bool" where
  "fs_write io path text fs =
     (case io path of None \<Rightarrow> (fs(path \<mapsto> text), True) | Some c \<Rightarrow> (fs(path := c), False))"

section \<open>The lists of addresses\<close>

record ip_entry =
  ie_ip :: string
  ie_comment :: string

definition ip_line :: "string \<Rightarrow> bool" where
  "ip_line l \<longleftrightarrow> trim l \<noteq> [] \<and> \<not> starts_with (trim_start l) ''#''"

definition ip_entry_of :: "string \<Rightarrow> ip_entry" where
  "ip_entry_of l =
     (case splitn2 CHR '' '' l of
        (a, b) \<Rightarrow> \<lparr>ie_ip = trim a, ie_comment = trim (case b of Some r \<Rightarrow> r | None \<Rightarrow> [])\<rparr>)"

definition parse_ip_file :: "string \<Rightarrow> ip_entry list" where
  "parse_ip_file content =
     filter (\<lambda>e. ie_ip e \<noteq> []) (map ip_entry_of (filter ip_line (str_lines content)))"

definition ip_entry_text :: "ip_entry \<Rightarrow> string" where
  "ip_entry_text e = (if ie_comment e = [] then ie_ip e else ie_ip e @ '' '' @ ie_comment e)"

definition serialize_ip_file :: "ip_entry list \<Rightarrow> string" where
  "serialize_ip_file entries = join_with [NLc] (map ip_entry_text entries) @ [NLc]"

definition read_ip_file :: "string \<Rightarrow> files \<Rightarrow> ip_entry list" where
  "read_ip_file path fs = (case fs path of Some content \<Rightarrow> parse_ip_file content | None \<Rightarrow> [])"

definition write_ip_file :: "io_faults \<Rightarrow> string \<Rightarrow> ip_entry list \<Rightarrow> files \<Rightarrow> files \<times> bool" where
  "write_ip_file io path entries fs = fs_write io path (serialize_ip_file entries) fs"

definition BLACKLIST_FILE :: string where "BLACKLIST_FILE = ''blacklist.txt''"
definition BLOCKLIST_FILE :: string where "BLOCKLIST_FILE = ''blocklist.txt''"

text \<open>The opening that every handler here shares, and the answer to a write.\<close>

definition admin_files ::
  "api_env \<Rightarrow> auth \<Rightarrow> database \<Rightarrow> files \<Rightarrow> files \<times> 'a answer \<Rightarrow> files \<times> 'a answer" where
  "admin_files env hdr d fs body =
     (case jwt_user_id_from_headers env hdr of
        None \<Rightarrow> (fs, Inl Unauthorized)
      | Some caller \<Rightarrow> if db_user_is_admin d caller then body else (fs, Inl Forbidden))"

definition written :: "files \<times> bool \<Rightarrow> files \<times> unit answer" where
  "written r = (fst r, if snd r then ok_answer () else err_answer WriteFailed)"

definition get_ip_list ::
  "string \<Rightarrow> api_env \<Rightarrow> auth \<Rightarrow> database \<Rightarrow> files \<Rightarrow> files \<times> ip_entry list answer" where
  "get_ip_list path env hdr d fs = admin_files env hdr d fs (fs, ok_answer (read_ip_file path fs))"

definition add_ip ::
  "string \<Rightarrow> io_faults \<Rightarrow> api_env \<Rightarrow> auth \<Rightarrow> string \<Rightarrow> string \<Rightarrow> database \<Rightarrow> files \<Rightarrow> files \<times> unit answer" where
  "add_ip path io env hdr body_ip body_comment d fs =
     admin_files env hdr d fs
       (let ip = trim body_ip in
        if ip = [] then (fs, err_answer EmptyIp)
        else
          let entries = read_ip_file path fs in
          if \<exists>e \<in> set entries. ie_ip e = ip then (fs, err_answer IpListed)
          else written (write_ip_file io path (entries @ [\<lparr>ie_ip = ip, ie_comment = body_comment\<rparr>]) fs))"

definition delete_ip ::
  "string \<Rightarrow> io_faults \<Rightarrow> api_env \<Rightarrow> auth \<Rightarrow> string \<Rightarrow> database \<Rightarrow> files \<Rightarrow> files \<times> unit answer" where
  "delete_ip path io env hdr ip d fs =
     admin_files env hdr d fs
       (let entries = read_ip_file path fs;
            kept = filter (\<lambda>e. ie_ip e \<noteq> ip) entries
        in if length kept = length entries then (fs, err_answer IpMissing)
           else written (write_ip_file io path kept fs))"

definition get_blacklist :: "api_env \<Rightarrow> auth \<Rightarrow> database \<Rightarrow> files \<Rightarrow> files \<times> ip_entry list answer" where
  "get_blacklist = get_ip_list BLACKLIST_FILE"

definition add_blacklist ::
  "io_faults \<Rightarrow> api_env \<Rightarrow> auth \<Rightarrow> string \<Rightarrow> string \<Rightarrow> database \<Rightarrow> files \<Rightarrow> files \<times> unit answer" where
  "add_blacklist = add_ip BLACKLIST_FILE"

definition delete_blacklist ::
  "io_faults \<Rightarrow> api_env \<Rightarrow> auth \<Rightarrow> string \<Rightarrow> database \<Rightarrow> files \<Rightarrow> files \<times> unit answer" where
  "delete_blacklist = delete_ip BLACKLIST_FILE"

definition get_blocklist :: "api_env \<Rightarrow> auth \<Rightarrow> database \<Rightarrow> files \<Rightarrow> files \<times> ip_entry list answer" where
  "get_blocklist = get_ip_list BLOCKLIST_FILE"

definition add_blocklist ::
  "io_faults \<Rightarrow> api_env \<Rightarrow> auth \<Rightarrow> string \<Rightarrow> string \<Rightarrow> database \<Rightarrow> files \<Rightarrow> files \<times> unit answer" where
  "add_blocklist = add_ip BLOCKLIST_FILE"

definition delete_blocklist ::
  "io_faults \<Rightarrow> api_env \<Rightarrow> auth \<Rightarrow> string \<Rightarrow> database \<Rightarrow> files \<Rightarrow> files \<times> unit answer" where
  "delete_blocklist = delete_ip BLOCKLIST_FILE"

section \<open>The server parameters\<close>

definition CONFIG_TOML :: string where "CONFIG_TOML = ''config.toml''"
definition HBBR_TOML :: string where "HBBR_TOML = ''hbbr.toml''"

definition split_ini_kv :: "string \<Rightarrow> (string \<times> string) option" where
  "split_ini_kv line =
     (case splitn2 CHR ''='' line of
        (_, None) \<Rightarrow> None
      | (a, Some b) \<Rightarrow>
          let k = trim a; v = trim_matches CHR ''\"'' (trim b)
          in if k = [] then None else Some (k, v))"

text \<open>The two tables that pair the names of the interface with those in the files.\<close>

definition config_keys :: "(string \<times> string) list" where
  "config_keys = [(''hbbs_port'', ''port''), (''hbbs_serial'', ''serial''), (''hbbs_key'', ''key''),
     (''hbbs_lan_mask'', ''mask''), (''hbbr_relay_host'', ''relay_servers'')]"

definition hbbr_keys :: "(string \<times> string \<times> string) list" where
  "hbbr_keys = [(''hbbr_port'', ''server'', ''port''), (''hbbr_websocket_port'', ''server'', ''websocket_port''),
     (''hbbr_key'', ''key'', ''secret''), (''hbbr_max_connections'', ''connection'', ''max_connections''),
     (''hbbr_total_bandwidth'', ''bandwidth'', ''total_limit''),
     (''hbbr_single_bandwidth'', ''bandwidth'', ''single_limit'')]"

definition config_api_key :: "string \<Rightarrow> string option" where
  "config_api_key k = map_of (map (\<lambda>(a, t). (t, a)) config_keys) k"

definition hbbr_api_key :: "string \<Rightarrow> string \<Rightarrow> string option" where
  "hbbr_api_key sec k = map_of (map (\<lambda>(a, t). (t, a)) hbbr_keys) (sec, k)"

definition comment_or_blank :: "string \<Rightarrow> bool" where
  "comment_or_blank t \<longleftrightarrow> starts_with t ''#'' \<or> t = []"

fun read_config_lines :: "bool \<Rightarrow> string list \<Rightarrow> (string \<rightharpoonup> string) \<Rightarrow> (string \<rightharpoonup> string)" where
  "read_config_lines in_section [] m = m"
| "read_config_lines in_section (line # lines) m =
     (let t = trim line in
      if starts_with t ''['' then read_config_lines True lines m
      else if in_section \<or> comment_or_blank t then read_config_lines in_section lines m
      else read_config_lines in_section lines
             (case split_ini_kv t of
                Some (k, v) \<Rightarrow> (case config_api_key k of Some a \<Rightarrow> m(a \<mapsto> v) | None \<Rightarrow> m)
              | None \<Rightarrow> m))"

definition read_config_toml :: "files \<Rightarrow> (string \<rightharpoonup> string)" where
  "read_config_toml fs =
     (case fs CONFIG_TOML of
        None \<Rightarrow> Map.empty
      | Some content \<Rightarrow> read_config_lines False (str_lines content) Map.empty)"

definition section_header :: "string \<Rightarrow> bool" where
  "section_header t \<longleftrightarrow> starts_with t ''['' \<and> ends_with t '']''"

definition section_name :: "string \<Rightarrow> string" where
  "section_name t = butlast (tl t)"

fun read_hbbr_lines :: "string \<Rightarrow> string list \<Rightarrow> (string \<rightharpoonup> string) \<Rightarrow> (string \<rightharpoonup> string)" where
  "read_hbbr_lines sec [] m = m"
| "read_hbbr_lines sec (line # lines) m =
     (let t = trim line in
      if section_header t then read_hbbr_lines (section_name t) lines m
      else if comment_or_blank t then read_hbbr_lines sec lines m
      else read_hbbr_lines sec lines
             (case split_ini_kv t of
                Some (k, v) \<Rightarrow> (case hbbr_api_key sec k of Some a \<Rightarrow> m(a \<mapsto> v) | None \<Rightarrow> m)
              | None \<Rightarrow> m))"

definition read_hbbr_toml :: "files \<Rightarrow> (string \<rightharpoonup> string)" where
  "read_hbbr_toml fs =
     (case fs HBBR_TOML of
        None \<Rightarrow> Map.empty
      | Some content \<Rightarrow> read_hbbr_lines [] (str_lines content) Map.empty)"

definition kv_line :: "string \<Rightarrow> string \<Rightarrow> string" where
  "kv_line k v = k @ '' = '' @ v"

text \<open>The loop over the lines returns them with the keys it has updated.\<close>

fun update_flat_lines ::
  "(string \<rightharpoonup> string) \<Rightarrow> bool \<Rightarrow> string list \<Rightarrow> string list \<times> string list" where
  "update_flat_lines upd in_section [] = ([], [])"
| "update_flat_lines upd in_section (line # lines) =
     (let t = trim line;
          skip = (\<lambda>sec. map_prod (Cons line) (\<lambda>u. u) (update_flat_lines upd sec lines))
      in if starts_with t ''['' then skip True
         else if in_section \<or> comment_or_blank t then skip in_section
         else (case split_ini_kv t of
                 Some (k, _) \<Rightarrow>
                   (case upd k of
                      Some v \<Rightarrow> map_prod (Cons (kv_line k v)) (Cons k) (update_flat_lines upd in_section lines)
                    | None \<Rightarrow> skip in_section)
               | None \<Rightarrow> skip in_section))"

definition content_lines :: "string \<Rightarrow> files \<Rightarrow> string list" where
  "content_lines path fs = str_lines (case fs path of Some c \<Rightarrow> c | None \<Rightarrow> [])"

text \<open>\<open>updates\<close> is the map in the order in which it is iterated.\<close>

definition update_flat_keys ::
  "io_faults \<Rightarrow> string \<Rightarrow> (string \<times> string) list \<Rightarrow> files \<Rightarrow> files \<times> bool" where
  "update_flat_keys io path updates fs =
     (let (lines, updated) = update_flat_lines (map_of updates) False (content_lines path fs);
          extra = map (\<lambda>(k, v). kv_line k v) (filter (\<lambda>(k, _). k \<notin> set updated) updates);
          insert_pos = (case position (\<lambda>l. starts_with (trim l) ''['') lines of
                          Some i \<Rightarrow> i | None \<Rightarrow> length lines);
          lines' = (if extra = [] then lines else fold (insert_at insert_pos) (rev extra) lines)
      in fs_write io path (lines_text lines') fs)"

type_synonym sec_update = "string \<times> string \<times> string"

fun find_update :: "sec_update list \<Rightarrow> string \<Rightarrow> string \<Rightarrow> string option" where
  "find_update [] sec k = None"
| "find_update ((s, t, v) # us) sec k = (if s = sec \<and> t = k then Some v else find_update us sec k)"

fun update_section_lines ::
  "sec_update list \<Rightarrow> string \<Rightarrow> string list \<Rightarrow> string list \<times> (string \<times> string) list" where
  "update_section_lines upd sec [] = ([], [])"
| "update_section_lines upd sec (line # lines) =
     (let t = trim line;
          skip = (\<lambda>s. map_prod (Cons line) (\<lambda>u. u) (update_section_lines upd s lines))
      in if section_header t then skip (section_name t)
         else if comment_or_blank t then skip sec
         else (case split_ini_kv t of
                 Some (k, _) \<Rightarrow>
                   (case find_update upd sec k of
                      Some v \<Rightarrow> map_prod (Cons (kv_line k v)) (Cons (sec, k)) (update_section_lines upd sec lines)
                    | None \<Rightarrow> skip sec)
               | None \<Rightarrow> skip sec))"

definition bracketed :: "string \<Rightarrow> string" where
  "bracketed sec = ''['' @ sec @ '']''"

text \<open>A new section is pushed as one element that begins with a line feed.\<close>

definition add_missing :: "(string \<times> string) list \<Rightarrow> sec_update \<Rightarrow> string list \<Rightarrow> string list" where
  "add_missing updated u lines =
     (case u of (sec, k, v) \<Rightarrow>
        if (sec, k) \<in> set updated then lines
        else (case position (\<lambda>l. trim l = bracketed sec) lines of
                Some start \<Rightarrow>
                  let end = (case position (\<lambda>l. starts_with (trim l) ''['') (drop (start + 1) lines) of
                               Some i \<Rightarrow> start + 1 + i | None \<Rightarrow> length lines)
                  in insert_at end (kv_line k v) lines
              | None \<Rightarrow> lines @ [NLc # bracketed sec, kv_line k v]))"

definition update_sectioned_keys :: "io_faults \<Rightarrow> string \<Rightarrow> sec_update list \<Rightarrow> files \<Rightarrow> files \<times> bool" where
  "update_sectioned_keys io path updates fs =
     (let (lines, updated) = update_section_lines updates [] (content_lines path fs)
      in fs_write io path (lines_text (fold (add_missing updated) updates lines)) fs)"

text \<open>\<open>perm\<close> is the order in which the hash map of the updates is iterated.\<close>

definition config_updates :: "(string \<rightharpoonup> string) \<Rightarrow> (string \<times> string) list" where
  "config_updates updates =
     List.map_filter (\<lambda>(a, t). map_option (\<lambda>v. (t, v)) (updates a)) config_keys"

definition write_config_toml ::
  "io_faults \<Rightarrow> ((string \<times> string) list \<Rightarrow> (string \<times> string) list) \<Rightarrow> (string \<rightharpoonup> string) \<Rightarrow> files \<Rightarrow> files \<times> bool" where
  "write_config_toml io perm updates fs =
     (let toml_updates = config_updates updates
      in if toml_updates = [] then (fs, True)
         else update_flat_keys io CONFIG_TOML (perm toml_updates) fs)"

definition hbbr_updates :: "(string \<rightharpoonup> string) \<Rightarrow> sec_update list" where
  "hbbr_updates updates =
     List.map_filter (\<lambda>(a, s, t). map_option (\<lambda>v. (s, t, v)) (updates a)) hbbr_keys"

definition write_hbbr_toml :: "io_faults \<Rightarrow> (string \<rightharpoonup> string) \<Rightarrow> files \<Rightarrow> files \<times> bool" where
  "write_hbbr_toml io updates fs =
     (let sectioned = hbbr_updates updates
      in if sectioned = [] then (fs, True) else update_sectioned_keys io HBBR_TOML sectioned fs)"

definition server_params :: "files \<Rightarrow> (string \<rightharpoonup> string)" where
  "server_params fs = read_config_toml fs ++ read_hbbr_toml fs"

definition get_server_params ::
  "api_env \<Rightarrow> auth \<Rightarrow> database \<Rightarrow> files \<Rightarrow> files \<times> (string \<rightharpoonup> string) answer" where
  "get_server_params env hdr d fs = admin_files env hdr d fs (fs, ok_answer (server_params fs))"

definition update_server_params ::
  "io_faults \<Rightarrow> ((string \<times> string) list \<Rightarrow> (string \<times> string) list) \<Rightarrow> api_env \<Rightarrow> auth \<Rightarrow>
   (string \<rightharpoonup> string) \<Rightarrow> database \<Rightarrow> files \<Rightarrow> files \<times> unit answer" where
  "update_server_params io perm env hdr params d fs =
     admin_files env hdr d fs
       (case write_config_toml io perm params fs of
          (fs1, False) \<Rightarrow> (fs1, err_answer WriteFailed)
        | (fs1, True) \<Rightarrow> written (write_hbbr_toml io params fs1))"

section \<open>The start of the relay server\<close>

type_synonym environ = "string \<rightharpoonup> string"

definition to_upper_char :: "char \<Rightarrow> char" where
  "to_upper_char c = (if 97 \<le> (of_char c :: nat) \<and> (of_char c :: nat) \<le> 122
     then char_of ((of_char c :: nat) - 32) else c)"

text \<open>\<open>ini\<close> stands for \<open>Ini::load_from_file\<close>: the pairs of the section without a name.\<close>

definition load_flat_env :: "(string \<Rightarrow> (string \<times> string) list option) \<Rightarrow> string option \<Rightarrow> environ \<Rightarrow> environ" where
  "load_flat_env ini content env =
     (case Option.bind content ini of
        Some kvs \<Rightarrow> fold (\<lambda>(k, v) e. e(map to_upper_char k \<mapsto> v)) kvs env
      | None \<Rightarrow> env)"

fun hbbr_env_lines :: "string \<Rightarrow> string list \<Rightarrow> environ \<Rightarrow> environ" where
  "hbbr_env_lines sec [] env = env"
| "hbbr_env_lines sec (line # lines) env =
     (let t = trim line in
      if section_header t then hbbr_env_lines (section_name t) lines env
      else if comment_or_blank t then hbbr_env_lines sec lines env
      else hbbr_env_lines sec lines
             (case splitn2 CHR ''='' t of
                (_, None) \<Rightarrow> env
              | (a, Some b) \<Rightarrow>
                  let k = trim a; v = trim_matches CHR ''\"'' (trim b)
                  in if sec = ''server'' \<and> k = ''port'' then env(''PORT'' \<mapsto> v)
                     else if sec = ''key'' \<and> k = ''secret'' then env(''KEY'' \<mapsto> v)
                     else env))"

definition load_hbbr_toml_env :: "string option \<Rightarrow> environ \<Rightarrow> environ" where
  "load_hbbr_toml_env content env =
     (case content of None \<Rightarrow> env | Some c \<Rightarrow> hbbr_env_lines [] (str_lines c) env)"

definition RELAY_PORT :: int where "RELAY_PORT = 21117"

definition env_port :: "environ \<Rightarrow> int" where
  "env_port env =
     (case env ''PORT'' of
        Some v \<Rightarrow> (case parse_signed i32_max v of Some p \<Rightarrow> if p > 0 then p else RELAY_PORT | None \<Rightarrow> RELAY_PORT)
      | None \<Rightarrow> RELAY_PORT)"

text \<open>
  What \<open>main\<close> of the relay server hands to \<open>start\<close>: the text of the port and the
  key, from the options of the command line, and else from the environment after the
  three files.
\<close>

definition hbbr_main ::
  "(string \<Rightarrow> (string \<times> string) list option) \<Rightarrow> string option \<Rightarrow> string option \<Rightarrow> files \<Rightarrow> environ \<Rightarrow>
   string \<times> string" where
  "hbbr_main ini opt_port opt_key fs env0 =
     (let env = load_hbbr_toml_env (fs HBBR_TOML)
                  (load_flat_env ini (fs CONFIG_TOML) (load_flat_env ini (fs ''.env'') env0));
          key = (case opt_key of Some k \<Rightarrow> k | None \<Rightarrow> (case env ''KEY'' of Some k \<Rightarrow> k | None \<Rightarrow> []));
          port = (case opt_port of Some p \<Rightarrow> p | None \<Rightarrow> show_i64 (env_port env))
      in (port, key))"

end
