(* ===== verification/Settings_Props.thy ===== *)
theory Settings_Props
  imports Settings_Files Api_Props "HOL-Library.Multiset"
begin

text \<open>
  The files of the administrator: what is written is read back, the lists of
  addresses reach the relay server, and the parameters of the relay server take
  effect at its next start.
\<close>

lemma content_lines_no_NL: "l \<in> set (content_lines path fs) \<Longrightarrow> NLc \<notin> set l"
  unfolding content_lines_def by (rule str_lines_no_NL)

section \<open>The lists of addresses\<close>

definition sound_ip :: "string \<Rightarrow> bool" where
  "sound_ip ip \<longleftrightarrow> ip \<noteq> [] \<and> trim ip = ip \<and> CHR '' '' \<notin> set ip \<and> NLc \<notin> set ip \<and> hd ip \<noteq> CHR ''#''"

definition sound_entry :: "ip_entry \<Rightarrow> bool" where
  "sound_entry e \<longleftrightarrow> sound_ip (ie_ip e) \<and> NLc \<notin> set (ie_comment e)"

definition trimmed_entry :: "ip_entry \<Rightarrow> ip_entry" where
  "trimmed_entry e = e\<lparr>ie_comment := trim (ie_comment e)\<rparr>"

lemma ip_entry_text_parts:
  assumes "sound_entry e"
  shows "NLc \<notin> set (ip_entry_text e)"
    and "ip_line (strip_cr (ip_entry_text e))"
    and "ip_entry_of (strip_cr (ip_entry_text e)) = trimmed_entry e"
    and "first_word (ip_entry_text e) = ie_ip e"
proof -
  let ?ip = "ie_ip e" and ?c = "ie_comment e"
  have ip: "?ip \<noteq> []" "\<not> is_space (hd ?ip)" "\<not> is_space (last ?ip)" "CHR '' '' \<notin> set ?ip" "NLc \<notin> set ?ip"
      "hd ?ip \<noteq> CHR ''#''" "trim ?ip = ?ip"
    using assms trim_eqD [of ?ip] by (auto simp: sound_entry_def sound_ip_def)
  show "NLc \<notin> set (ip_entry_text e)"
    using assms ip by (auto simp: ip_entry_text_def sound_entry_def)
  obtain b where b: "strip_cr (ip_entry_text e) = ?ip @ b" "b = [] \<and> ?c = [] \<or> (\<exists>r. b = CHR '' '' # r \<and> trim r = trim ?c)"
  proof (cases "?c = []")
    case True
    then have "strip_cr (ip_entry_text e) = ?ip" using ip by (auto simp: ip_entry_text_def strip_cr_def)
    then show ?thesis using that [of "[]"] True by simp
  next
    case False
    then have "strip_cr (ip_entry_text e) = ?ip @ CHR '' '' # strip_cr ?c"
      by (simp add: ip_entry_text_def strip_cr_def butlast_append)
    then show ?thesis using that [of "CHR '' '' # strip_cr ?c"] by simp
  qed
  have hd: "hd (?ip @ b) = hd ?ip" using ip by simp
  have "trim (?ip @ b) \<noteq> []" using ip set_trim [of "?ip @ b"]
    by (metis append_is_Nil_conv hd_append2 trim_def dropWhile_eq_self_iff rev_is_Nil_conv dropWhile_eq_Nil_conv hd_in_set set_rev)
  moreover have "trim_start (?ip @ b) = ?ip @ b" using ip hd by (simp add: trim_start_def dropWhile_eq_self_iff)
  ultimately show "ip_line (strip_cr (ip_entry_text e))"
    using ip by (cases ?ip) (auto simp: b ip_line_def starts_with_def)
  show "ip_entry_of (strip_cr (ip_entry_text e)) = trimmed_entry e"
    using b(2) ip by (auto simp: b(1) ip_entry_of_def trimmed_entry_def)
  show "first_word (ip_entry_text e) = ?ip"
  proof (cases "trim ?c = []")
    case True
    have "trim (ip_entry_text e) = trim (strip_cr (ip_entry_text e))" by simp
    also have "\<dots> = ?ip"
      using b(2) True ip trim_append_spaces [of b ?ip] by (auto simp: b(1))
    finally show ?thesis using ip by (simp add: first_word_def)
  next
    case False
    then have c: "ip_entry_text e = ?ip @ '' '' @ ?c" by (auto simp: ip_entry_text_def)
    obtain b' where "trim (ip_entry_text e) = (?ip @ '' '') @ b'"
      using trim_append_right [of "?ip @ '' ''" ?c] ip False c by auto
    then show ?thesis using ip by (simp add: first_word_def)
  qed
qed


lemma parse_serialize:
  assumes "\<And>e. e \<in> set es \<Longrightarrow> sound_entry e"
  shows "parse_ip_file (serialize_ip_file es) = map trimmed_entry es"
proof -
  have "str_lines (serialize_ip_file es) = (if es = [] then [[]] else map (\<lambda>e. strip_cr (ip_entry_text e)) es)"
  proof -
    have "concat (map (\<lambda>e. split_on NLc (ip_entry_text e)) es) = map ip_entry_text es"
      using assms ip_entry_text_parts(1) by (induction es) auto
    then show ?thesis
      using str_lines_text [of "map ip_entry_text es"] by (auto simp: serialize_ip_file_def lines_text_def o_def)
  qed
  moreover have "filter ip_line (map (\<lambda>e. strip_cr (ip_entry_text e)) es) = map (\<lambda>e. strip_cr (ip_entry_text e)) es"
    using assms ip_entry_text_parts(2) by (auto simp: filter_id_conv)
  moreover have "map (\<lambda>e. ip_entry_of (strip_cr (ip_entry_text e))) es = map trimmed_entry es"
    using assms ip_entry_text_parts(3) by auto
  moreover have "filter (\<lambda>e. ie_ip e \<noteq> []) (map trimmed_entry es) = map trimmed_entry es"
    using assms by (auto simp: filter_id_conv trimmed_entry_def sound_entry_def sound_ip_def)
  ultimately show ?thesis
    by (cases "es = []") (simp_all add: parse_ip_file_def ip_line_def o_def del: map_eq_conv)
qed

lemma parse_ip_file_sound:
  assumes "e \<in> set (parse_ip_file content)"
  shows "sound_entry e" "trimmed_entry e = e"
proof -
  obtain l where l: "l \<in> set (str_lines content)" "ip_line l" "e = ip_entry_of l" "ie_ip e \<noteq> []"
    using assms by (auto simp: parse_ip_file_def)
  obtain a b where ab: "splitn2 CHR '' '' l = (a, b)" by (cases "splitn2 CHR '' '' l")
  note parts = splitn2_parts [OF ab]
  have e: "ie_ip e = trim a" "ie_comment e = trim (case b of Some r \<Rightarrow> r | None \<Rightarrow> [])"
    using l(3) ab by (auto simp: ip_entry_of_def)
  have nl: "NLc \<notin> set l" using str_lines_no_NL [OF l(1)] .
  have "set a \<subseteq> set l" "set (case b of Some r \<Rightarrow> r | None \<Rightarrow> []) \<subseteq> set l"
    using parts by (auto split: option.splits)
  then have no: "NLc \<notin> set (ie_ip e)" "NLc \<notin> set (ie_comment e)"
    using nl set_trim e by (metis in_mono)+
  have "hd (trim a) \<noteq> CHR ''#''"
  proof
    assume h: "hd (trim a) = CHR ''#''"
    have "\<not> (\<forall>x \<in> set a. is_space x)"
      using l(4) e(1) by (simp add: trim_Nil_iff)
    then have d: "dropWhile is_space l = dropWhile is_space a @ (case b of Some r \<Rightarrow> CHR '' '' # r | None \<Rightarrow> [])"
        "dropWhile is_space a \<noteq> []"
      using parts by (auto simp: dropWhile_append dropWhile_eq_Nil_conv)
    have "hd (dropWhile is_space a) = hd (trim a)"
    proof -
      let ?d = "dropWhile is_space a"
      have "?d = trim a @ rev (takeWhile is_space (rev ?d))"
        unfolding trim_def by (metis rev_append rev_rev_ident takeWhile_dropWhile_id)
      then show ?thesis using l(4) e(1) by (metis hd_append2)
    qed
    with h d have "starts_with (trim_start l) ''#''"
      by (cases "dropWhile is_space a") (auto simp: trim_start_def starts_with_def)
    with l(2) show False by (simp add: ip_line_def)
  qed
  moreover have "CHR '' '' \<notin> set (trim a)" using parts set_trim by blast
  ultimately show "sound_entry e" using no l(4) e by (simp add: sound_entry_def sound_ip_def)
  show "trimmed_entry e = e" using e by (simp add: trimmed_entry_def)
qed

lemma read_ip_file_entry:
  "e \<in> set (read_ip_file path fs) \<Longrightarrow> sound_entry e \<and> trimmed_entry e = e"
  using parse_ip_file_sound by (auto simp: read_ip_file_def split: option.splits)

lemma trimmed_entry_ip [simp]: "ie_ip (trimmed_entry e) = ie_ip e"
  by (simp add: trimmed_entry_def)

lemma set_load_list:
  "set (load_list (Some text) xs) = set xs \<union> first_word ` set (split_on NLc text)"
proof -
  have "set (fold (\<lambda>x. List.insert (first_word x)) ls xs) = set xs \<union> first_word ` set ls" for ls
    by (induction ls arbitrary: xs) auto
  then show ?thesis by (simp add: load_list_def)
qed

lemma load_serialized:
  assumes "\<And>e. e \<in> set es \<Longrightarrow> sound_entry e"
  shows "set (load_list (Some (serialize_ip_file es)) []) = insert [] (ie_ip ` set es)"
proof -
  have "concat (map (\<lambda>e. split_on NLc (ip_entry_text e)) es) = map ip_entry_text es"
    using assms ip_entry_text_parts(1) by (induction es) auto
  then have "set (split_on NLc (serialize_ip_file es)) = insert [] (ip_entry_text ` set es)"
    by (cases "es = []") (auto simp: serialize_ip_file_def split_on_append split_on_join o_def)
  moreover have "first_word [] = []" by (simp add: first_word_def)
  ultimately show ?thesis using assms ip_entry_text_parts(4) by (force simp: set_load_list image_iff)
qed


text \<open>Every file is put into a canonical form by one write; from then on it is read as it was.\<close>

lemma written_list_read:
  assumes "\<And>e. e \<in> set es \<Longrightarrow> sound_entry e"
  shows "read_ip_file path (fs(path \<mapsto> serialize_ip_file es)) = map trimmed_entry es"
  using parse_serialize [OF assms] by (simp add: read_ip_file_def)

lemma admin_files_admin [simp]:
  "\<lbrakk>jwt_user_id_from_headers env hdr = Some caller; db_user_is_admin d caller\<rbrakk> \<Longrightarrow>
     admin_files env hdr d fs body = body"
  by (simp add: admin_files_def)

lemma add_ip_result:
  assumes "jwt_user_id_from_headers env hdr = Some caller" "db_user_is_admin d caller" "io path = None"
    "sound_ip (trim ip)" "trim ip \<notin> ie_ip ` set (read_ip_file path fs)"
  shows "add_ip path io env hdr ip comment d fs =
    (fs(path \<mapsto> serialize_ip_file (read_ip_file path fs @ [\<lparr>ie_ip = trim ip, ie_comment = comment\<rparr>])), ok_answer ())"
proof -
  have "trim ip \<noteq> []" using assms(4) by (simp add: sound_ip_def)
  moreover have "\<not> (\<exists>e \<in> set (read_ip_file path fs). ie_ip e = trim ip)" using assms(5) by (metis image_eqI)
  ultimately show ?thesis
    using assms(1-3) by (simp add: add_ip_def written_def write_ip_file_def fs_write_def Let_def)
qed

lemma delete_ip_result:
  assumes "jwt_user_id_from_headers env hdr = Some caller" "db_user_is_admin d caller" "io path = None"
    "ip \<in> ie_ip ` set (read_ip_file path fs)"
  shows "delete_ip path io env hdr ip d fs =
    (fs(path \<mapsto> serialize_ip_file (filter (\<lambda>e. ie_ip e \<noteq> ip) (read_ip_file path fs))), ok_answer ())"
proof -
  have "length (filter (\<lambda>e. ie_ip e \<noteq> ip) (read_ip_file path fs)) < length (read_ip_file path fs)"
    using assms(4) by (auto intro: length_filter_less)
  then show ?thesis
    using assms(1-3) by (simp add: delete_ip_def written_def write_ip_file_def fs_write_def Let_def)
qed

lemma map_trimmed_read: "set es \<subseteq> set (read_ip_file path fs) \<Longrightarrow> map trimmed_entry es = es"
  using read_ip_file_entry by (intro map_idI) blast

lemma show_ip_not_Nil [simp]: "show_ip a \<noteq> []"
proof (cases a)
  case (IpV4 x)
  then show ?thesis by (cases x) (simp add: show_ipv4_def)
next
  case (IpV6 x)
  then show ?thesis by (cases x) (auto simp: Let_def show_segments_def upt_rec [of _ 8] split: prod.splits if_splits)
qed


section \<open>Key and value lines\<close>

definition plain_value :: "string \<Rightarrow> bool" where
  "plain_value v \<longleftrightarrow> trim v = v \<and> NLc \<notin> set v \<and> trim_matches CHR ''\"'' v = v"

definition plain_key :: "string \<Rightarrow> bool" where
  "plain_key k \<longleftrightarrow> k \<noteq> [] \<and> trim k = k \<and> CHR ''='' \<notin> set k \<and> NLc \<notin> set k \<and> hd k \<noteq> CHR ''['' \<and> hd k \<noteq> CHR ''#''"

definition line_kv :: "string \<Rightarrow> (string \<times> string) option" where
  "line_kv l = (if comment_or_blank (trim l) then None else split_ini_kv (trim l))"

lemma line_kv_trim: "trim l = trim l' \<Longrightarrow> line_kv l = line_kv l'"
  by (simp add: line_kv_def)

lemma line_kv_blank [simp]: "line_kv [] = None"
  by (simp add: line_kv_def comment_or_blank_def)

lemma trim_kv_line:
  assumes "plain_key k" "plain_value v"
  shows "trim (kv_line k v) = (if v = [] then k @ '' ='' else kv_line k v)"
proof -
  have k: "k \<noteq> []" "\<not> is_space (hd k)" using assms(1) trim_eqD [of k] by (auto simp: plain_key_def)
  have e: "\<not> is_space CHR ''=''" by (simp add: is_space_def)
  show ?thesis
  proof (cases "v = []")
    case True
    have "trim (kv_line k v) = trim (k @ '' ='')" using True trim_snoc [of "CHR '' ''" "k @ '' =''"] by (simp add: kv_line_def)
    also have "\<dots> = k @ '' =''" using k e by (intro trim_id) simp
    finally show ?thesis using True by simp
  next
    case False
    then have "\<not> is_space (last v)" using assms(2) trim_eqD [of v] by (auto simp: plain_value_def)
    then show ?thesis using k False by (simp add: kv_line_def trim_id)
  qed
qed

lemma kv_line_read:
  assumes "plain_key k" "plain_value v"
  shows "line_kv (kv_line k v) = Some (k, v)" "\<not> starts_with (trim (kv_line k v)) ''[''" "NLc \<notin> set (kv_line k v)"
proof -
  obtain c cs where k: "k = c # cs" "c \<noteq> CHR ''[''" "c \<noteq> CHR ''#''"
    using assms(1) by (cases k) (auto simp: plain_key_def)
  obtain r where r: "trim (kv_line k v) = c # r" using trim_kv_line [OF assms] by (cases "v = []") (auto simp: k kv_line_def)
  then show "\<not> starts_with (trim (kv_line k v)) ''[''" using k by (simp add: starts_with_def)
  show "NLc \<notin> set (kv_line k v)" using assms by (auto simp: kv_line_def plain_key_def plain_value_def)
  have kt: "trim (k @ '' '') = k" using assms(1) by (simp add: plain_key_def)
  have n: "CHR ''='' \<notin> set (k @ '' '')" using assms(1) by (simp add: plain_key_def)
  have "splitn2 CHR ''='' (trim (kv_line k v)) = (k @ '' '', Some (if v = [] then [] else CHR '' '' # v))"
    using splitn2_hit [OF n] by (simp add: trim_kv_line [OF assms]) (simp add: kv_line_def)
  moreover have "trim_matches CHR ''\"'' (trim (if v = [] then [] else CHR '' '' # v)) = v"
    using assms(2) by (simp add: plain_value_def trim_matches_def)
  ultimately have "split_ini_kv (trim (kv_line k v)) = Some (k, v)"
    using kt k by (simp add: split_ini_kv_def)
  moreover have "\<not> comment_or_blank (trim (kv_line k v))"
    using r k by (simp add: comment_or_blank_def starts_with_def)
  ultimately show "line_kv (kv_line k v) = Some (k, v)" by (simp add: line_kv_def)
qed

lemma plain_show_nat: "plain_value (show_nat n)"
proof -
  have d: "is_digit c" if "c \<in> set (show_nat n)" for c using that by (rule set_show_nat)
  then have "\<not> is_space c \<and> c \<noteq> CHR ''\"''" if "c \<in> set (show_nat n)" for c
    using that by (fastforce simp: is_digit_def is_space_def)
  note c = this
  have "NLc \<notin> set (show_nat n)" using c is_space_NLc by blast
  moreover have "trim (show_nat n) = show_nat n"
      "dropWhile (\<lambda>c. c = CHR ''\"'') (show_nat n) = show_nat n"
      "dropWhile (\<lambda>c. c = CHR ''\"'') (rev (show_nat n)) = rev (show_nat n)"
    using c hd_in_set [of "show_nat n"] last_in_set [of "show_nat n"]
    by (auto simp: dropWhile_eq_self_iff hd_rev)
  ultimately show ?thesis by (simp add: plain_value_def trim_matches_def)
qed

section \<open>The parameters of the rendezvous server\<close>

definition top_region :: "string list \<Rightarrow> string list" where
  "top_region ls = takeWhile (\<lambda>l. \<not> starts_with (trim l) ''['') ls"

definition top_kvs :: "string list \<Rightarrow> (string \<times> string) list" where
  "top_kvs ls = List.map_filter line_kv (top_region ls)"

lemma top_kvs_Nil [simp]: "top_kvs [] = []"
  by (simp add: top_kvs_def top_region_def map_filter_simps)

lemma top_kvs_Cons [simp]:
  "top_kvs (l # ls) =
     (if starts_with (trim l) ''['' then [] else (case line_kv l of Some kv \<Rightarrow> [kv] | None \<Rightarrow> []) @ top_kvs ls)"
  by (simp add: top_kvs_def top_region_def map_filter_simps split: option.split)

definition put_config :: "string \<times> string \<Rightarrow> (string \<rightharpoonup> string) \<Rightarrow> (string \<rightharpoonup> string)" where
  "put_config kv m = (case config_api_key (fst kv) of Some a \<Rightarrow> m(a \<mapsto> snd kv) | None \<Rightarrow> m)"

lemma read_config_lines_True: "read_config_lines True ls m = m"
  by (induction ls arbitrary: m) (auto simp: Let_def)

lemma read_config_lines_top: "read_config_lines False ls m = fold put_config (top_kvs ls) m"
  by (induction ls arbitrary: m)
    (auto simp: read_config_lines_True line_kv_def put_config_def Let_def split: option.splits)

lemma config_keys_distinct:
  "distinct (map fst config_keys)" "distinct (map (fst \<circ> (\<lambda>(a, t). (t, a))) config_keys)"
  by (simp_all add: config_keys_def)

lemma config_api_key_iff: "config_api_key k = Some a \<longleftrightarrow> (a, k) \<in> set config_keys"
  using map_of_eq_Some_iff [of "map (\<lambda>(a, t). (t, a)) config_keys" k a] config_keys_distinct(2)
  by (force simp: config_api_key_def)

lemma config_keys_unique: "\<lbrakk>(a, t) \<in> set config_keys; (a, t') \<in> set config_keys\<rbrakk> \<Longrightarrow> t = t'"
  using config_keys_distinct(1) by (metis eq_key_imp_eq_value)

lemma fold_put_config:
  assumes "(a, t) \<in> set config_keys"
  shows "fold put_config kvs m a = (case look kvs t of Some v \<Rightarrow> Some v | None \<Rightarrow> m a)"
proof (induction kvs rule: rev_induct)
  case (snoc kv kvs)
  have "config_api_key (fst kv) = Some a \<longleftrightarrow> fst kv = t"
    using assms config_api_key_iff config_keys_unique by metis
  with snoc show ?case
    by (cases kv) (auto simp: put_config_def split: option.splits)
qed simp

lemma fold_put_config_other: "a \<notin> fst ` set config_keys \<Longrightarrow> fold put_config kvs m a = m a"
proof (induction kvs rule: rev_induct)
  case (snoc kv kvs)
  then have "config_api_key (fst kv) \<noteq> Some a" by (force simp: config_api_key_iff)
  with snoc show ?case by (auto simp: put_config_def split: option.splits)
qed simp


lemma read_config_toml_look:
  "(a, t) \<in> set config_keys \<Longrightarrow> read_config_toml fs a = look (top_kvs (content_lines CONFIG_TOML fs)) t"
  "a \<notin> fst ` set config_keys \<Longrightarrow> read_config_toml fs a = None"
  by (auto simp: read_config_toml_def content_lines_def read_config_lines_top fold_put_config fold_put_config_other
      str_lines_def split: option.splits)

lemma top_kvs_strip_cr [simp]: "top_kvs (map strip_cr ls) = top_kvs ls"
proof -
  have "line_kv (strip_cr l) = line_kv l" for l by (rule line_kv_trim) simp
  then show ?thesis by (induction ls) auto
qed

lemma top_kvs_text: "(\<And>l. l \<in> set ls \<Longrightarrow> NLc \<notin> set l) \<Longrightarrow> top_kvs (str_lines (lines_text ls)) = top_kvs ls"
  by (simp add: str_lines_text concat_split_on_no_NL)

lemma top_region_append: "(\<And>l. l \<in> set xs \<Longrightarrow> \<not> starts_with (trim l) ''['') \<Longrightarrow> top_region (xs @ ys) = xs @ top_region ys"
  by (induction xs) (auto simp: top_region_def)

lemma position_top: "(case position (\<lambda>l. starts_with (trim l) ''['') ls of Some i \<Rightarrow> i | None \<Rightarrow> length ls) =
    length (top_region ls)"
  using length_takeWhile_le [of "\<lambda>l. \<not> starts_with (trim l) ''[''" ls]
  by (auto simp: position_def top_region_def Let_def)

lemma top_region_take_drop: "take (length (top_region ls)) ls = top_region ls"
    "top_region (drop (length (top_region ls)) ls) = []"
    "l \<in> set (top_region ls) \<Longrightarrow> \<not> starts_with (trim l) ''[''"
proof -
  show "take (length (top_region ls)) ls = top_region ls" by (simp add: top_region_def takeWhile_eq_take [symmetric])
  show "top_region (drop (length (top_region ls)) ls) = []"
  proof -
    have "takeWhile P (dropWhile P xs) = []" for P and xs :: "string list" by (induction xs) auto
    then show ?thesis by (simp only: top_region_def dropWhile_eq_drop [symmetric])
  qed
  show "l \<in> set (top_region ls) \<Longrightarrow> \<not> starts_with (trim l) ''[''" by (auto simp: top_region_def dest: set_takeWhileD)
qed

lemma top_kvs_extra:
  assumes "\<And>k v. (k, v) \<in> set xs \<Longrightarrow> plain_key k \<and> plain_value v"
  shows "top_kvs (fold (insert_at (length (top_region ls))) (rev (map (\<lambda>(k, v). kv_line k v) xs)) ls) = top_kvs ls @ xs"
proof -
  let ?n = "length (top_region ls)" and ?xs = "map (\<lambda>(k, v). kv_line k v) xs"
  have n: "?n \<le> length ls" by (simp add: top_region_def length_takeWhile_le)
  have hd: "\<not> starts_with (trim l) ''[''" if "l \<in> set ?xs" for l
    using that assms kv_line_read(2) by fastforce
  have "List.map_filter line_kv ?xs = xs"
    using assms kv_line_read(1) by (induction xs) (force simp: map_filter_simps)+
  moreover have "top_region (top_region ls @ ?xs @ drop ?n ls) = top_region ls @ ?xs"
    using top_region_append [of "top_region ls @ ?xs" "drop ?n ls"] hd top_region_take_drop(2) [of ls]
      top_region_take_drop(3) [of _ ls] by auto
  ultimately show ?thesis
    by (simp add: fold_insert_at [OF n] top_region_take_drop(1) top_kvs_def map_filter_append)
qed

lemma update_flat_lines_True: "update_flat_lines upd True ls = (ls, [])"
  by (induction ls) (auto simp: Let_def)

lemma update_flat_lines_kvs:
  assumes "\<And>k v. upd k = Some v \<Longrightarrow> plain_key k \<and> plain_value v"
  shows "top_kvs (fst (update_flat_lines upd False ls)) =
      map (\<lambda>(k, v). (k, case upd k of Some v' \<Rightarrow> v' | None \<Rightarrow> v)) (top_kvs ls)"
    "set (snd (update_flat_lines upd False ls)) = fst ` set (top_kvs ls) \<inter> dom upd"
proof (induction ls)
  case (Cons l ls)
  have *: "line_kv (kv_line k v) = Some (k, v) \<and> \<not> starts_with (trim (kv_line k v)) ''[''" if "upd k = Some v" for k v
    using kv_line_read [of k v] assms [OF that] by blast
  {
    case 1
    show ?case
      using Cons * by (cases "starts_with (trim l) ''[''"; cases "line_kv l")
        (auto simp: Let_def update_flat_lines_True line_kv_def split: option.splits if_splits)
  next
    case 2
    show ?case
      using Cons * by (cases "starts_with (trim l) ''[''"; cases "line_kv l")
        (auto simp: Let_def update_flat_lines_True line_kv_def split: option.splits if_splits)
  }
qed simp_all

lemma update_flat_lines_no_NL:
  assumes "\<And>k v. upd k = Some v \<Longrightarrow> plain_key k \<and> plain_value v" "\<And>l. l \<in> set ls \<Longrightarrow> NLc \<notin> set l"
  shows "l \<in> set (fst (update_flat_lines upd b ls)) \<Longrightarrow> NLc \<notin> set l"
  using assms kv_line_read(3)
  by (induction ls arbitrary: b) (auto simp: Let_def split: if_splits option.splits)


lemma update_flat_keys_look:
  assumes io: "io path = None" and d: "distinct (map fst us)"
    and plain: "\<And>k v. (k, v) \<in> set us \<Longrightarrow> plain_key k \<and> plain_value v"
  obtains fs' where "update_flat_keys io path us fs = (fs', True)" "\<And>p. p \<noteq> path \<Longrightarrow> fs' p = fs p"
    "\<And>t. look (top_kvs (content_lines path fs')) t =
       (case map_of us t of Some v \<Rightarrow> Some v | None \<Rightarrow> look (top_kvs (content_lines path fs)) t)"
proof -
  let ?ls = "content_lines path fs" and ?upd = "map_of us"
  obtain lines updated where lu: "update_flat_lines ?upd False ?ls = (lines, updated)" by fastforce
  have pl: "plain_key k \<and> plain_value v" if "?upd k = Some v" for k v using plain map_of_SomeD [OF that] by blast
  note kvs = update_flat_lines_kvs [of ?upd ?ls, OF pl, unfolded lu fst_conv snd_conv]
  define miss where "miss = filter (\<lambda>(k, _). k \<notin> set updated) us"
  define lines' where "lines' = fold (insert_at (length (top_region lines))) (rev (map (\<lambda>(k, v). kv_line k v) miss)) lines"
  have pm: "plain_key k \<and> plain_value v" if "(k, v) \<in> set miss" for k v using that plain by (auto simp: miss_def)
  have "length (top_region lines) \<le> length lines" by (simp add: top_region_def length_takeWhile_le)
  then have "set lines' = set lines \<union> (\<lambda>(k, v). kv_line k v) ` set miss"
    unfolding lines'_def by (subst fold_insert_at) (auto dest: in_set_takeD in_set_dropD, metis Un_iff append_take_drop_id set_append)
  then have nl: "NLc \<notin> set l" if "l \<in> set lines'" for l
    using that update_flat_lines_no_NL [of ?upd ?ls l False, OF pl content_lines_no_NL] pm kv_line_read(3) lu by force
  define fs' where "fs' = fs(path \<mapsto> lines_text lines')"
  have "top_kvs (content_lines path fs') = top_kvs lines @ miss"
    using top_kvs_text [of lines'] nl top_kvs_extra [of miss lines] pm by (simp add: content_lines_def fs'_def lines'_def)
  moreover have "look (top_kvs lines @ miss) t =
      (case ?upd t of Some v \<Rightarrow> Some v | None \<Rightarrow> look (top_kvs ?ls) t)" for t
  proof (cases "?upd t")
    case None
    then have "t \<notin> fst ` set miss" by (auto simp: miss_def map_of_eq_None_iff)
    then have "look miss t = None" by (simp add: look_None)
    then show ?thesis using None look_map [of "\<lambda>k v. case ?upd k of Some v' \<Rightarrow> v' | None \<Rightarrow> v" "top_kvs ?ls" t] kvs(1)
      by (simp add: map_add_def option.map_ident)
  next
    case (Some v)
    show ?thesis
    proof (cases "t \<in> set updated")
      case True
      then have "look miss t = None" by (auto simp: look_None miss_def)
      moreover obtain w where "look (top_kvs ?ls) t = Some w"
        using True kvs(2) look_None [of "top_kvs ?ls" t] by auto
      ultimately show ?thesis
        using Some look_map [of "\<lambda>k v. case ?upd k of Some v' \<Rightarrow> v' | None \<Rightarrow> v" "top_kvs ?ls" t] kvs(1)
        by (simp add: map_add_def)
    next
      case False
      have "(t, v) \<in> set miss" using False map_of_SomeD [OF Some] by (auto simp: miss_def)
      moreover have "distinct (map fst (rev miss))" using d by (simp add: miss_def rev_map [symmetric] distinct_map_filter)
      ultimately have "look miss t = Some v" by (simp add: map_of_is_SomeI)
      then show ?thesis using Some by (simp add: map_add_def)
    qed
  qed
  moreover have "update_flat_keys io path us fs = (fs', True)"
    using io by (cases "miss = []")
      (simp_all add: update_flat_keys_def lu position_top fs_write_def fs'_def lines'_def miss_def [symmetric])
  ultimately show ?thesis using that [of fs'] by (simp add: fs'_def)
qed


section \<open>The parameters of the relay server\<close>

fun sec_kvs :: "string \<Rightarrow> string list \<Rightarrow> ((string \<times> string) \<times> string) list" where
  "sec_kvs sec [] = []"
| "sec_kvs sec (l # ls) =
     (if section_header (trim l) then sec_kvs (section_name (trim l)) ls
      else (case line_kv l of Some (k, v) \<Rightarrow> [((sec, k), v)] | None \<Rightarrow> []) @ sec_kvs sec ls)"

fun final_sec :: "string \<Rightarrow> string list \<Rightarrow> string" where
  "final_sec sec [] = sec"
| "final_sec sec (l # ls) = final_sec (if section_header (trim l) then section_name (trim l) else sec) ls"

lemma sec_kvs_append: "sec_kvs s (xs @ ys) = sec_kvs s xs @ sec_kvs (final_sec s xs) ys"
  by (induction xs arbitrary: s) auto

lemma final_sec_append: "final_sec s (xs @ ys) = final_sec (final_sec s xs) ys"
  by (induction xs arbitrary: s) auto

lemma final_sec_plain: "(\<And>l. l \<in> set xs \<Longrightarrow> \<not> starts_with (trim l) ''['') \<Longrightarrow> final_sec s xs = s"
  by (induction xs) (auto simp: section_header_def)

definition put_hbbr :: "(string \<times> string) \<times> string \<Rightarrow> (string \<rightharpoonup> string) \<Rightarrow> (string \<rightharpoonup> string)" where
  "put_hbbr kv m = (case hbbr_api_key (fst (fst kv)) (snd (fst kv)) of Some a \<Rightarrow> m(a \<mapsto> snd kv) | None \<Rightarrow> m)"

lemma read_hbbr_lines_sec: "read_hbbr_lines sec ls m = fold put_hbbr (sec_kvs sec ls) m"
  by (induction ls arbitrary: sec m) (auto simp: line_kv_def put_hbbr_def Let_def split: option.splits)

lemma hbbr_keys_distinct:
  "distinct (map fst hbbr_keys)" "distinct (map (fst \<circ> (\<lambda>(a, t). (t, a))) hbbr_keys)" "distinct (map snd hbbr_keys)"
  by (simp_all add: hbbr_keys_def)

lemma hbbr_api_key_iff: "hbbr_api_key s k = Some a \<longleftrightarrow> (a, s, k) \<in> set hbbr_keys"
  using map_of_eq_Some_iff [of "map (\<lambda>(a, t). (t, a)) hbbr_keys" "(s, k)" a] hbbr_keys_distinct(2)
  by (force simp: hbbr_api_key_def)

lemma hbbr_keys_unique: "\<lbrakk>(a, t) \<in> set hbbr_keys; (a, t') \<in> set hbbr_keys\<rbrakk> \<Longrightarrow> t = t'"
  using hbbr_keys_distinct(1) by (metis eq_key_imp_eq_value)

lemma fold_put_hbbr:
  assumes "(a, st) \<in> set hbbr_keys"
  shows "fold put_hbbr kvs m a = (case look kvs st of Some v \<Rightarrow> Some v | None \<Rightarrow> m a)"
proof (induction kvs rule: rev_induct)
  case (snoc kv kvs)
  have "hbbr_api_key (fst (fst kv)) (snd (fst kv)) = Some a \<longleftrightarrow> fst kv = st"
    using assms hbbr_api_key_iff hbbr_keys_unique by (metis prod.collapse)
  with snoc show ?case
    by (cases kv) (auto simp: put_hbbr_def split: option.splits)
qed simp

lemma fold_put_hbbr_other: "a \<notin> fst ` set hbbr_keys \<Longrightarrow> fold put_hbbr kvs m a = m a"
proof (induction kvs rule: rev_induct)
  case (snoc kv kvs)
  then have "hbbr_api_key (fst (fst kv)) (snd (fst kv)) \<noteq> Some a" by (force simp: hbbr_api_key_iff)
  with snoc show ?case by (auto simp: put_hbbr_def split: option.splits)
qed simp

lemma read_hbbr_toml_look:
  "(a, st) \<in> set hbbr_keys \<Longrightarrow> read_hbbr_toml fs a = look (sec_kvs [] (content_lines HBBR_TOML fs)) st"
  "a \<notin> fst ` set hbbr_keys \<Longrightarrow> read_hbbr_toml fs a = None"
  by (auto simp: read_hbbr_toml_def content_lines_def read_hbbr_lines_sec fold_put_hbbr fold_put_hbbr_other
      str_lines_def split: option.splits)

text \<open>The element that opens a new section holds two lines.\<close>

definition line_element :: "string \<Rightarrow> bool" where
  "line_element l \<longleftrightarrow> NLc \<notin> set l \<or> (\<exists>x. l = NLc # x \<and> NLc \<notin> set x)"

lemma sec_kvs_flat:
  "(\<And>l. l \<in> set ls \<Longrightarrow> line_element l) \<Longrightarrow> sec_kvs s (concat (map (split_on NLc) ls)) = sec_kvs s ls"
proof (induction ls arbitrary: s)
  case (Cons l ls)
  have blank: "section_header [] = False" by (simp add: section_header_def starts_with_def)
  consider "NLc \<notin> set l" | x where "l = NLc # x" "NLc \<notin> set x"
    using Cons.prems by (auto simp: line_element_def)
  then show ?case
  proof cases
    case 2
    then have "line_kv l = line_kv x" "trim l = trim x" by (simp_all add: line_kv_def)
    with 2 Cons blank show ?thesis by simp
  qed (use Cons in simp)
qed simp

lemma sec_kvs_strip_cr: "sec_kvs s (map strip_cr ls) = sec_kvs s ls"
proof -
  have "line_kv (strip_cr l) = line_kv l" for l by (rule line_kv_trim) simp
  then show ?thesis by (induction ls arbitrary: s) auto
qed

lemma sec_kvs_text: "(\<And>l. l \<in> set ls \<Longrightarrow> line_element l) \<Longrightarrow> sec_kvs s (str_lines (lines_text ls)) = sec_kvs s ls"
  by (simp add: str_lines_text sec_kvs_strip_cr sec_kvs_flat section_header_def starts_with_def)

lemma find_update_map_of: "find_update us s k = map_of (map (\<lambda>(s, t, v). ((s, t), v)) us) (s, k)"
  by (induction us s k rule: find_update.induct) auto

lemma find_update_None: "find_update us s k = None \<longleftrightarrow> (s, k) \<notin> set (map (\<lambda>(s, t, v). (s, t)) us)"
  by (induction us s k rule: find_update.induct) auto

lemma section_bracketed [simp]: "section_header (bracketed sec)" "section_name (bracketed sec) = sec"
  by (simp_all add: section_header_def section_name_def bracketed_def starts_with_def ends_with_def)

lemma kv_line_header: "plain_key k \<Longrightarrow> plain_value v \<Longrightarrow> \<not> section_header (trim (kv_line k v))"
  using kv_line_read(2) by (auto simp: section_header_def)

lemma update_section_lines_kvs:
  assumes "\<And>s k v. find_update us s k = Some v \<Longrightarrow> plain_key k \<and> plain_value v"
  shows "sec_kvs s (fst (update_section_lines us s ls)) =
      map (\<lambda>(k, v). (k, case find_update us (fst k) (snd k) of Some v' \<Rightarrow> v' | None \<Rightarrow> v)) (sec_kvs s ls) \<and>
    set (snd (update_section_lines us s ls)) =
      {k \<in> fst ` set (sec_kvs s ls). find_update us (fst k) (snd k) \<noteq> None}"
proof (induction ls arbitrary: s)
  case (Cons l ls)
  have *: "line_kv (kv_line k v) = Some (k, v) \<and> \<not> section_header (trim (kv_line k v))"
    if "find_update us s k = Some v" for s k v
    using kv_line_read(1) [of k v] kv_line_header [of k v] assms [OF that] by blast
  show ?case
    using Cons * by (cases "section_header (trim l)"; cases "line_kv l")
      (auto simp: Let_def line_kv_def split: option.splits if_splits)
qed simp

lemma update_section_lines_no_NL:
  assumes "\<And>s k v. find_update us s k = Some v \<Longrightarrow> plain_key k \<and> plain_value v" "\<And>l. l \<in> set ls \<Longrightarrow> NLc \<notin> set l"
  shows "l \<in> set (fst (update_section_lines us s ls)) \<Longrightarrow> NLc \<notin> set l"
  using assms kv_line_read(3)
  by (induction ls arbitrary: s) (auto simp: Let_def split: if_splits option.splits)


lemma add_missing_kvs:
  assumes new: "(sec, k) \<notin> set updated" and pl: "plain_key k" "plain_value v"
  obtains A B where "sec_kvs s lines = A @ B" "sec_kvs s (add_missing updated (sec, k, v) lines) = A @ ((sec, k), v) # B"
proof (cases "position (\<lambda>l. trim l = bracketed sec) lines")
  case None
  have "trim (NLc # bracketed sec) = bracketed sec"
    by (simp add: bracketed_def trim_id is_space_def)
  then have "sec_kvs s (add_missing updated (sec, k, v) lines) = sec_kvs s lines @ [((sec, k), v)]"
    using None new kv_line_header [OF pl] kv_line_read(1) [OF pl] by (simp add: add_missing_def sec_kvs_append)
  then show ?thesis using that [of "sec_kvs s lines" "[]"] by simp
next
  case (Some start)
  let ?rest = "drop (start + 1) lines" and ?hd = "\<lambda>l. starts_with (trim l) ''[''"
  note st = position_Some [OF Some]
  define j where "j = (case position ?hd ?rest of Some i \<Rightarrow> i | None \<Rightarrow> length ?rest)"
  have j: "\<not> ?hd x" if "x \<in> set (take j ?rest)" for x
    using that position_Some(3) [of ?hd ?rest j x] position_None [of ?hd ?rest x]
    by (auto simp: j_def split: option.splits dest: in_set_takeD)
  have start: "start < length lines" using Some by (auto simp: position_def Let_def split: if_splits)
  define pre where "pre = take start lines @ lines ! start # take j ?rest"
  have lines: "lines = pre @ drop j ?rest" using st(1) by (simp add: pre_def del: drop_drop)
  have "j \<le> length ?rest"
    by (auto simp: j_def position_def Let_def split: option.splits if_splits)
  then have len: "start + 1 + j = length pre" using start by (simp add: pre_def)
  have L: "Suc (length lines - Suc 0) = length lines" "Suc (start + (length lines - Suc start)) = length lines"
    using start by simp_all
  have "add_missing updated (sec, k, v) lines = insert_at (start + 1 + j) (kv_line k v) lines"
    using Some new L by (auto simp: add_missing_def j_def Let_def split: option.splits)
  also have "\<dots> = pre @ kv_line k v # drop j ?rest"
    unfolding len using lines insert_at_append by metis
  finally have a: "add_missing updated (sec, k, v) lines = pre @ kv_line k v # drop j ?rest" .
  have f: "final_sec s pre = sec"
    using st(2) j by (simp add: pre_def final_sec_append final_sec_plain)
  have "sec_kvs s (add_missing updated (sec, k, v) lines) = sec_kvs s pre @ ((sec, k), v) # sec_kvs sec (drop j ?rest)"
    unfolding a sec_kvs_append f using kv_line_header [OF pl] kv_line_read(1) [OF pl] by simp
  moreover have "sec_kvs s lines = sec_kvs s pre @ sec_kvs sec (drop j ?rest)"
    using sec_kvs_append [of s pre "drop j ?rest"] lines f by metis
  ultimately show ?thesis using that by blast
qed

lemma add_missing_elements:
  assumes "plain_key k" "plain_value v" "NLc \<notin> set sec" "\<And>l. l \<in> set lines \<Longrightarrow> line_element l"
  shows "l \<in> set (add_missing updated (sec, k, v) lines) \<Longrightarrow> line_element l"
  using assms kv_line_read(3) [OF assms(1,2)]
  by (auto simp: add_missing_def insert_at_def line_element_def bracketed_def Let_def split: if_splits option.splits
      dest: in_set_takeD in_set_dropD)

lemma fold_add_missing:
  assumes "distinct (map (\<lambda>(s, t, v). (s, t)) us)"
    "\<And>s t v. (s, t, v) \<in> set us \<Longrightarrow> plain_key t \<and> plain_value v \<and> NLc \<notin> set s"
    "\<And>s t v. (s, t, v) \<in> set us \<Longrightarrow> (s, t) \<notin> set updated \<Longrightarrow> (s, t) \<notin> fst ` set (sec_kvs [] lines)"
    "\<And>l. l \<in> set lines \<Longrightarrow> line_element l"
  shows "look (sec_kvs [] (fold (add_missing updated) us lines)) key =
      (case find_update us (fst key) (snd key) of
         Some v \<Rightarrow> if key \<in> set updated then look (sec_kvs [] lines) key else Some v
       | None \<Rightarrow> look (sec_kvs [] lines) key) \<and>
    (\<forall>l \<in> set (fold (add_missing updated) us lines). line_element l)"
  using assms
proof (induction us arbitrary: lines)
  case (Cons u us)
  obtain s t v where u: "u = (s, t, v)" by (cases u) auto
  show ?case
  proof (cases "(s, t) \<in> set updated")
    case True
    then have "add_missing updated u lines = lines" by (simp add: add_missing_def u)
    moreover have "(s, t) \<noteq> key \<Longrightarrow> find_update (u # us) (fst key) (snd key) = find_update us (fst key) (snd key)"
      by (auto simp: u)
    moreover have "find_update us s t = None" using Cons.prems(1) u by (simp add: find_update_None)
    moreover have k: "(s', t') \<notin> fst ` set (sec_kvs [] lines)" if "(s', t', v') \<in> set us" "(s', t') \<notin> set updated" for s' t' v'
      using Cons.prems(3) [of s' t' v'] that by simp
    moreover have "look (sec_kvs [] (fold (add_missing updated) us lines)) key =
        (case find_update us (fst key) (snd key) of
           Some v \<Rightarrow> if key \<in> set updated then look (sec_kvs [] lines) key else Some v
         | None \<Rightarrow> look (sec_kvs [] lines) key) \<and>
        (\<forall>l \<in> set (fold (add_missing updated) us lines). line_element l)"
      by (rule Cons.IH [OF _ _ k Cons.prems(4)]) (use Cons.prems(1,2) u in auto)
    ultimately show ?thesis using True u by (cases "(s, t) = key") auto
  next
    case False
    have pl: "plain_key t" "plain_value v" using Cons.prems(2) [of s t v] u by simp_all
    obtain A B where AB: "sec_kvs [] lines = A @ B" "sec_kvs [] (add_missing updated u lines) = A @ ((s, t), v) # B"
      using add_missing_kvs [OF False pl, of "[]" lines] u by metis
    have e: "line_element l" if "l \<in> set (add_missing updated u lines)" for l
      using add_missing_elements [of t v s lines l updated] that Cons.prems(2,4) u by auto
    have k: "(s', t') \<notin> fst ` set (sec_kvs [] (add_missing updated u lines))"
      if "(s', t', v') \<in> set us" "(s', t') \<notin> set updated" for s' t' v'
    proof -
      have "(s', t') \<in> set (map (\<lambda>(s, t, v). (s, t)) us)" using that(1) by force
      then have "(s', t') \<noteq> (s, t)" using Cons.prems(1) u by (metis (no_types, lifting) case_prod_conv distinct.simps(2) list.simps(9))
      moreover have "(s', t') \<notin> fst ` set (A @ B)" using Cons.prems(3) [of s' t' v'] that AB(1) by simp
      ultimately show ?thesis unfolding AB(2) by auto
    qed
    have IH: "look (sec_kvs [] (fold (add_missing updated) us (add_missing updated u lines))) key =
        (case find_update us (fst key) (snd key) of
           Some v \<Rightarrow> if key \<in> set updated then look (sec_kvs [] (add_missing updated u lines)) key else Some v
         | None \<Rightarrow> look (sec_kvs [] (add_missing updated u lines)) key) \<and>
        (\<forall>l \<in> set (fold (add_missing updated) us (add_missing updated u lines)). line_element l)"
      by (rule Cons.IH [OF _ _ k e]) (use Cons.prems u in auto)
    have "find_update us s t = None" using Cons.prems(1) u by (simp add: find_update_None)
    moreover have "look (sec_kvs [] (add_missing updated u lines)) (s, t) = Some v"
      unfolding AB(2) using Cons.prems(3) [of s t v] False AB(1) u by (intro look_new) auto
    moreover have "key \<noteq> (s, t) \<Longrightarrow> look (sec_kvs [] (add_missing updated u lines)) key = look (sec_kvs [] lines) key"
      unfolding AB by (rule look_insert) simp
    ultimately show ?thesis using IH False u by (cases "key = (s, t)") (auto split: option.splits)
  qed
qed simp


lemma update_sectioned_keys_look:
  assumes io: "io path = None" and d: "distinct (map (\<lambda>(s, t, v). (s, t)) us)"
    and plain: "\<And>s t v. (s, t, v) \<in> set us \<Longrightarrow> plain_key t \<and> plain_value v \<and> NLc \<notin> set s"
  obtains fs' where "update_sectioned_keys io path us fs = (fs', True)" "\<And>p. p \<noteq> path \<Longrightarrow> fs' p = fs p"
    "\<And>key. look (sec_kvs [] (content_lines path fs')) key =
       (case find_update us (fst key) (snd key) of
          Some v \<Rightarrow> Some v | None \<Rightarrow> look (sec_kvs [] (content_lines path fs)) key)"
proof -
  let ?ls = "content_lines path fs"
  obtain lines updated where lu: "update_section_lines us [] ?ls = (lines, updated)" by fastforce
  have found: "(s, k, v) \<in> set us" if "find_update us s k = Some v" for s k v
    using that map_of_SomeD by (fastforce simp: find_update_map_of)
  have pl: "plain_key k \<and> plain_value v" if "find_update us s k = Some v" for s k v using plain found [OF that] by blast
  have kvs: "sec_kvs [] lines =
        map (\<lambda>(k, v). (k, case find_update us (fst k) (snd k) of Some v' \<Rightarrow> v' | None \<Rightarrow> v)) (sec_kvs [] ?ls)"
      "set updated = {k \<in> fst ` set (sec_kvs [] ?ls). find_update us (fst k) (snd k) \<noteq> None}"
    using update_section_lines_kvs [of us "[]" ?ls, OF pl] lu by auto
  define lines' where "lines' = fold (add_missing updated) us lines"
  have keys: "fst ` set (sec_kvs [] lines) = fst ` set (sec_kvs [] ?ls)"
    by (simp add: kvs(1) image_image split_beta)
  have miss: "(s, t) \<notin> fst ` set (sec_kvs [] lines)" if "(s, t, v) \<in> set us" "(s, t) \<notin> set updated" for s t v
  proof -
    have "find_update us s t \<noteq> None" using that(1) by (induction us) auto
    then show ?thesis using that(2) keys kvs(2) by auto
  qed
  have el: "line_element l" if "l \<in> set lines" for l
    using update_section_lines_no_NL [of us ?ls l "[]", OF pl content_lines_no_NL] that lu by (simp add: line_element_def)
  have fold: "look (sec_kvs [] lines') key =
        (case find_update us (fst key) (snd key) of
           Some v \<Rightarrow> if key \<in> set updated then look (sec_kvs [] lines) key else Some v
         | None \<Rightarrow> look (sec_kvs [] lines) key) \<and>
      (\<forall>l \<in> set lines'. line_element l)" for key
    unfolding lines'_def by (rule fold_add_missing [OF d]) (use plain miss el in blast)+
  define fs' where "fs' = fs(path \<mapsto> lines_text lines')"
  have "update_sectioned_keys io path us fs = (fs', True)"
    using io by (simp add: update_sectioned_keys_def lu fs_write_def fs'_def lines'_def)
  moreover have "sec_kvs [] (content_lines path fs') = sec_kvs [] lines'"
    using sec_kvs_text [of lines' "[]"] fold by (simp add: content_lines_def fs'_def)
  moreover have "look (sec_kvs [] lines') key =
      (case find_update us (fst key) (snd key) of Some v \<Rightarrow> Some v | None \<Rightarrow> look (sec_kvs [] ?ls) key)" for key
  proof -
    have l: "look (sec_kvs [] lines) key =
        map_option (\<lambda>v. case find_update us (fst key) (snd key) of Some v' \<Rightarrow> v' | None \<Rightarrow> v) (look (sec_kvs [] ?ls) key)"
      unfolding kvs(1) by (rule look_map)
    show ?thesis
    proof (cases "find_update us (fst key) (snd key)")
      case None
      with l fold [of key] show ?thesis by (simp add: option.map_ident)
    next
      case (Some v)
      have "look (sec_kvs [] ?ls) key \<noteq> None" if "key \<in> set updated" using that kvs(2) look_None by fastforce
      with Some l fold [of key] show ?thesis by (cases "key \<in> set updated") auto
    qed
  qed
  ultimately show ?thesis using that [of fs'] by (simp add: fs'_def)
qed


section \<open>The parameters as the administrator sees them\<close>

definition renamed :: "(string \<times> 'k) list \<Rightarrow> (string \<rightharpoonup> string) \<Rightarrow> ('k \<times> string) list" where
  "renamed ks params = List.map_filter (\<lambda>(a, t). map_option (\<lambda>v. (t, v)) (params a)) ks"

lemma renamed_keys: "fst ` set (renamed ks params) \<subseteq> snd ` set ks"
  by (force simp: renamed_def List.map_filter_def)

lemma renamed_values: "(t, v) \<in> set (renamed ks params) \<Longrightarrow> \<exists>a. (a, t) \<in> set ks \<and> params a = Some v"
  by (force simp: renamed_def List.map_filter_def)

lemma renamed_Cons: "renamed ((a, t) # ks) params = (case params a of Some v \<Rightarrow> [(t, v)] | None \<Rightarrow> []) @ renamed ks params"
  by (auto simp: renamed_def map_filter_simps split: option.splits)

lemma map_of_renamed:
  "\<lbrakk>(a, t) \<in> set ks; distinct (map snd ks)\<rbrakk> \<Longrightarrow> map_of (renamed ks params) t = params a"
proof (induction ks)
  case (Cons k ks)
  obtain a' t' where k: "k = (a', t')" by (cases k)
  show ?case
  proof (cases "k = (a, t)")
    case True
    then have "map_of (renamed ks params) t = None"
      using Cons.prems(2) renamed_keys [of ks params] by (auto simp: map_of_eq_None_iff)
    then show ?thesis using True by (simp add: renamed_Cons split: option.split)
  next
    case False
    then have "t \<in> set (map snd ks)" using Cons.prems(1) by force
    then have "t' \<noteq> t" using Cons.prems(2) k by auto
    then show ?thesis using Cons False k by (auto simp: renamed_Cons split: option.split)
  qed
qed simp

lemma distinct_renamed: "distinct (map snd ks) \<Longrightarrow> distinct (map fst (renamed ks params))"
proof (induction ks)
  case (Cons k ks)
  then show ?case using renamed_keys [of ks params] by (cases k) (auto simp: renamed_Cons split: option.split)
qed (simp add: renamed_def map_filter_simps)

lemma config_updates_renamed: "config_updates params = renamed config_keys params"
  by (simp add: config_updates_def renamed_def)

lemma hbbr_updates_renamed: "map (\<lambda>(s, t, v). ((s, t), v)) (hbbr_updates params) = renamed hbbr_keys params"
proof -
  have "map (\<lambda>(s, t, v). ((s, t), v)) (List.map_filter (\<lambda>(a, s, t). map_option (\<lambda>v. (s, t, v)) (params a)) ks) =
      renamed ks params" for ks
    by (induction ks) (auto simp: renamed_def map_filter_simps split: option.splits)
  then show ?thesis by (simp add: hbbr_updates_def)
qed

lemma keys_plain:
  "(a, t) \<in> set config_keys \<Longrightarrow> plain_key t"
  "(a, s, t) \<in> set hbbr_keys \<Longrightarrow> plain_key t \<and> NLc \<notin> set s"
proof -
  have "\<forall>x \<in> set config_keys. plain_key (snd x)" "\<forall>x \<in> set hbbr_keys. plain_key (snd (snd x)) \<and> NLc \<notin> set (fst (snd x))"
    by code_simp+
  then show "(a, t) \<in> set config_keys \<Longrightarrow> plain_key t" "(a, s, t) \<in> set hbbr_keys \<Longrightarrow> plain_key t \<and> NLc \<notin> set s"
    by force+
qed

lemma write_config_toml_effect:
  assumes "io CONFIG_TOML = None" "\<And>xs. mset (perm xs) = mset xs"
    "\<And>a v. params a = Some v \<Longrightarrow> plain_value v"
  obtains fs' where "write_config_toml io perm params fs = (fs', True)" "fs' HBBR_TOML = fs HBBR_TOML"
    "\<And>a. a \<in> fst ` set config_keys \<Longrightarrow>
       read_config_toml fs' a = (case params a of Some v \<Rightarrow> Some v | None \<Rightarrow> read_config_toml fs a)"
proof (cases "config_updates params = []")
  case True
  then have "params a = None" if "(a, t) \<in> set config_keys" for a t
    using map_of_renamed [OF that, of params] by (simp add: config_updates_renamed config_keys_def)
  then show ?thesis using that [of fs] True by (force simp: write_config_toml_def)
next
  case False
  let ?us = "perm (config_updates params)"
  have d0: "distinct (map fst (renamed config_keys params))" by (rule distinct_renamed) (simp add: config_keys_def)
  have d: "distinct (map fst ?us)"
    using d0 assms(2) [of "renamed config_keys params"]
    by (metis config_updates_renamed mset_eq_imp_distinct_iff mset_map)
  have m: "map_of ?us = map_of (renamed config_keys params)"
    using map_of_inject_set [OF d d0] mset_eq_setD [OF assms(2)] by (metis config_updates_renamed)
  have p: "plain_key k \<and> plain_value v" if "(k, v) \<in> set ?us" for k v
    using that mset_eq_setD [OF assms(2) [of "config_updates params"]] renamed_values [of k v config_keys params]
      keys_plain(1) assms(3) by (auto simp: config_updates_renamed)
  obtain fs' where fs': "update_flat_keys io CONFIG_TOML ?us fs = (fs', True)" "\<And>p. p \<noteq> CONFIG_TOML \<Longrightarrow> fs' p = fs p"
      "\<And>t. look (top_kvs (content_lines CONFIG_TOML fs')) t =
         (case map_of ?us t of Some v \<Rightarrow> Some v | None \<Rightarrow> look (top_kvs (content_lines CONFIG_TOML fs)) t)"
    using update_flat_keys_look [of io CONFIG_TOML ?us fs, OF assms(1) d p] by blast
  show ?thesis
  proof (rule that [of fs'])
    show "write_config_toml io perm params fs = (fs', True)" using fs'(1) False by (simp add: write_config_toml_def)
    show "fs' HBBR_TOML = fs HBBR_TOML" using fs'(2) by (simp add: HBBR_TOML_def CONFIG_TOML_def)
    fix a assume "a \<in> fst ` set config_keys"
    then obtain t where t: "(a, t) \<in> set config_keys" by force
    then have "map_of ?us t = params a" using map_of_renamed [OF t, of params] m by (simp add: config_keys_def)
    then show "read_config_toml fs' a = (case params a of Some v \<Rightarrow> Some v | None \<Rightarrow> read_config_toml fs a)"
      using fs'(3) [of t] read_config_toml_look(1) [OF t] by (simp split: option.splits)
  qed
qed


lemma write_hbbr_toml_effect:
  assumes "io HBBR_TOML = None" "\<And>a v. params a = Some v \<Longrightarrow> plain_value v"
  obtains fs' where "write_hbbr_toml io params fs = (fs', True)" "fs' CONFIG_TOML = fs CONFIG_TOML"
    "\<And>a. a \<in> fst ` set hbbr_keys \<Longrightarrow>
       read_hbbr_toml fs' a = (case params a of Some v \<Rightarrow> Some v | None \<Rightarrow> read_hbbr_toml fs a)"
    "\<And>a s t. (a, s, t) \<in> set hbbr_keys \<Longrightarrow> look (sec_kvs [] (content_lines HBBR_TOML fs')) (s, t) = read_hbbr_toml fs' a"
proof (cases "hbbr_updates params = []")
  case True
  then have "params a = None" if "(a, st) \<in> set hbbr_keys" for a st
    using map_of_renamed [OF that hbbr_keys_distinct(3), of params] hbbr_updates_renamed [of params] by simp
  then show ?thesis using that [of fs] True read_hbbr_toml_look(1) by (force simp: write_hbbr_toml_def)
next
  case False
  let ?us = "hbbr_updates params"
  have "map (\<lambda>(s, t, v). (s, t)) ?us = map fst (renamed hbbr_keys params)"
    unfolding hbbr_updates_renamed [symmetric] by (simp add: split_beta)
  then have d: "distinct (map (\<lambda>(s, t, v). (s, t)) ?us)"
    using distinct_renamed [OF hbbr_keys_distinct(3), of params] by simp
  have p: "plain_key t \<and> plain_value v \<and> NLc \<notin> set s" if "(s, t, v) \<in> set ?us" for s t v
  proof -
    have "((s, t), v) \<in> set (renamed hbbr_keys params)"
      unfolding hbbr_updates_renamed [symmetric] using that by force
    then show ?thesis using renamed_values [of "(s, t)" v] keys_plain(2) assms(2) by blast
  qed
  obtain fs' where fs': "update_sectioned_keys io HBBR_TOML ?us fs = (fs', True)" "\<And>p. p \<noteq> HBBR_TOML \<Longrightarrow> fs' p = fs p"
      "\<And>key. look (sec_kvs [] (content_lines HBBR_TOML fs')) key =
         (case find_update ?us (fst key) (snd key) of
            Some v \<Rightarrow> Some v | None \<Rightarrow> look (sec_kvs [] (content_lines HBBR_TOML fs)) key)"
    using update_sectioned_keys_look [of io HBBR_TOML ?us fs, OF assms(1) d p] by blast
  show ?thesis
  proof (rule that [of fs'])
    show "write_hbbr_toml io params fs = (fs', True)" using fs'(1) False by (simp add: write_hbbr_toml_def)
    show "fs' CONFIG_TOML = fs CONFIG_TOML" using fs'(2) by (simp add: HBBR_TOML_def CONFIG_TOML_def)
    show "look (sec_kvs [] (content_lines HBBR_TOML fs')) (s, t) = read_hbbr_toml fs' a" if "(a, s, t) \<in> set hbbr_keys" for a s t
      using read_hbbr_toml_look(1) [OF that] by simp
    fix a assume "a \<in> fst ` set hbbr_keys"
    then obtain s t where t: "(a, s, t) \<in> set hbbr_keys" by force
    then have "find_update ?us s t = params a"
      using map_of_renamed [OF t hbbr_keys_distinct(3), of params] by (simp add: find_update_map_of hbbr_updates_renamed)
    then show "read_hbbr_toml fs' a = (case params a of Some v \<Rightarrow> Some v | None \<Rightarrow> read_hbbr_toml fs a)"
      using fs'(3) [of "(s, t)"] read_hbbr_toml_look(1) [OF t] by (simp split: option.splits)
  qed
qed

lemma keys_disjoint: "fst ` set config_keys \<inter> fst ` set hbbr_keys = {}"
  by (simp add: config_keys_def hbbr_keys_def)

lemma server_params_cases:
  "a \<in> fst ` set hbbr_keys \<Longrightarrow> server_params fs a = read_hbbr_toml fs a"
  "a \<in> fst ` set config_keys \<Longrightarrow> server_params fs a = read_config_toml fs a"
  "a \<notin> fst ` set config_keys \<union> fst ` set hbbr_keys \<Longrightarrow> server_params fs a = None"
proof -
  have *: "server_params fs a = (case read_hbbr_toml fs a of Some v \<Rightarrow> Some v | None \<Rightarrow> read_config_toml fs a)"
    by (simp add: server_params_def map_add_def)
  show "a \<in> fst ` set hbbr_keys \<Longrightarrow> server_params fs a = read_hbbr_toml fs a"
    using * keys_disjoint read_config_toml_look(2) [of a fs] by (auto split: option.splits)
  show "a \<in> fst ` set config_keys \<Longrightarrow> server_params fs a = read_config_toml fs a"
    using * keys_disjoint read_hbbr_toml_look(2) [of a fs] by (metis disjoint_iff option.simps(4))
  show "a \<notin> fst ` set config_keys \<union> fst ` set hbbr_keys \<Longrightarrow> server_params fs a = None"
    using * read_config_toml_look(2) [of a fs] read_hbbr_toml_look(2) [of a fs] by simp
qed

lemma update_server_params_effect:
  assumes "jwt_user_id_from_headers env hdr = Some caller" "db_user_is_admin d caller"
    "\<And>path. io path = None" "\<And>xs. mset (perm xs) = mset xs" "\<And>a v. params a = Some v \<Longrightarrow> plain_value v"
  obtains fs' where "update_server_params io perm env hdr params d fs = (fs', ok_answer ())"
    "\<And>a. a \<in> fst ` set config_keys \<union> fst ` set hbbr_keys \<Longrightarrow>
       server_params fs' a = (case params a of Some v \<Rightarrow> Some v | None \<Rightarrow> server_params fs a)"
proof -
  obtain fs1 where f1: "write_config_toml io perm params fs = (fs1, True)" "fs1 HBBR_TOML = fs HBBR_TOML"
      "\<And>a. a \<in> fst ` set config_keys \<Longrightarrow>
         read_config_toml fs1 a = (case params a of Some v \<Rightarrow> Some v | None \<Rightarrow> read_config_toml fs a)"
    using write_config_toml_effect [of io perm params fs] assms(3-5) by blast
  obtain fs2 where f2: "write_hbbr_toml io params fs1 = (fs2, True)" "fs2 CONFIG_TOML = fs1 CONFIG_TOML"
      "\<And>a. a \<in> fst ` set hbbr_keys \<Longrightarrow>
         read_hbbr_toml fs2 a = (case params a of Some v \<Rightarrow> Some v | None \<Rightarrow> read_hbbr_toml fs1 a)"
    using write_hbbr_toml_effect [of io params fs1] assms(3,5) by metis
  have "update_server_params io perm env hdr params d fs = (fs2, ok_answer ())"
    using assms(1,2) f1(1) f2(1) by (simp add: update_server_params_def written_def)
  moreover have "read_config_toml fs2 = read_config_toml fs1" using f2(2) by (simp add: read_config_toml_def)
  moreover have "read_hbbr_toml fs1 = read_hbbr_toml fs" using f1(2) by (simp add: read_hbbr_toml_def)
  moreover have "server_params fs2 a = (case params a of Some v \<Rightarrow> Some v | None \<Rightarrow> server_params fs a)"
    if "a \<in> fst ` set config_keys \<union> fst ` set hbbr_keys" for a
    using that
  proof
    assume a: "a \<in> fst ` set config_keys"
    with f1(3) [OF a] server_params_cases(2) [OF a] calculation(2) show ?thesis by (simp split: option.split)
  next
    assume a: "a \<in> fst ` set hbbr_keys"
    with f2(3) [OF a] server_params_cases(1) [OF a] calculation(3) show ?thesis by (simp split: option.split)
  qed
  ultimately show ?thesis using that by blast
qed

text \<open>
  C6.  The list of blocked addresses that an administrator edits is the list the relay
  server applies when it is started next: after an address is added to whatever file
  there was, the list shows the old entries and the new one, and a connection from
  outside is refused exactly when its address is one of them; after it is deleted again
  the file says what it said before, and exactly the old addresses are refused.
\<close>
theorem blocklist_reaches_relay:
  assumes admin: "jwt_user_id_from_headers env hdr = Some caller" "db_user_is_admin d caller"
    and io: "io BLOCKLIST_FILE = None"
    and ip: "sound_ip (trim ip)" "NLc \<notin> set comment" "trim ip \<notin> ie_ip ` set old"
    and old: "old = read_ip_file BLOCKLIST_FILE fs"
    and fs1: "fs1 = fst (add_blocklist io env hdr ip comment d fs)"
    and fs2: "fs2 = fst (delete_blocklist io env hdr (trim ip) d fs1)"
    and conn: "ws \<or> \<not> ip_is_loopback (sa_ip (try_into_v4 addr))"
  shows "snd (get_blocklist env hdr d fs1) = ok_answer (old @ [\<lparr>ie_ip = trim ip, ie_comment = trim comment\<rparr>]) \<and>
    (handle_connection (relay_init renv black (fs1 BLOCKLIST_FILE)) addr ws = Refused \<longleftrightarrow>
       show_ip (sa_ip (try_into_v4 addr)) \<in> insert (trim ip) (ie_ip ` set old)) \<and>
    snd (get_blocklist env hdr d fs2) = ok_answer old \<and>
    (handle_connection (relay_init renv black (fs2 BLOCKLIST_FILE)) addr ws = Refused \<longleftrightarrow>
       show_ip (sa_ip (try_into_v4 addr)) \<in> ie_ip ` set old)"
proof -
  let ?new = "\<lparr>ie_ip = trim ip, ie_comment = comment\<rparr>"
  have sound: "sound_entry e" if "e \<in> set (old @ [?new])" for e
    using that read_ip_file_entry [of e BLOCKLIST_FILE fs] ip by (auto simp: old sound_entry_def)
  have f1: "fs1 = fs(BLOCKLIST_FILE \<mapsto> serialize_ip_file (old @ [?new]))"
    using add_ip_result [where io = io and path = BLOCKLIST_FILE, OF admin io ip(1), of fs comment] ip(3) by (simp add: fs1 old add_blocklist_def)
  have r1: "read_ip_file BLOCKLIST_FILE fs1 = old @ [trimmed_entry ?new]"
    using written_list_read [of "old @ [?new]" BLOCKLIST_FILE fs] sound map_trimmed_read [of old BLOCKLIST_FILE fs]
    by (simp add: f1 old)
  then have keep: "filter (\<lambda>e. ie_ip e \<noteq> trim ip) (read_ip_file BLOCKLIST_FILE fs1) = old"
    using ip(3) by (simp add: filter_id_conv) (metis image_eqI)
  have f2: "fs2 = fs1(BLOCKLIST_FILE \<mapsto> serialize_ip_file old)"
    using delete_ip_result [where io = io and path = BLOCKLIST_FILE, OF admin io, of "trim ip" fs1] r1 keep by (simp add: fs2 delete_blocklist_def)
  have r2: "read_ip_file BLOCKLIST_FILE fs2 = old"
    using written_list_read [of old BLOCKLIST_FILE fs1] sound map_trimmed_read [of old BLOCKLIST_FILE fs]
    by (simp add: f2 old)
  have conn': "handle_connection (relay_init renv black (Some (serialize_ip_file es))) addr ws = Refused \<longleftrightarrow>
      show_ip (sa_ip (try_into_v4 addr)) \<in> ie_ip ` set es" if "\<And>e. e \<in> set es \<Longrightarrow> sound_entry e" for es
    using load_serialized [OF that] conn by (simp add: handle_connection_def relay_init_def Let_def)
  have "snd (get_blocklist env hdr d fs1) = ok_answer (old @ [\<lparr>ie_ip = trim ip, ie_comment = trim comment\<rparr>])"
    using admin r1 by (simp add: get_blocklist_def get_ip_list_def trimmed_entry_def)
  moreover have "handle_connection (relay_init renv black (fs1 BLOCKLIST_FILE)) addr ws = Refused \<longleftrightarrow>
      show_ip (sa_ip (try_into_v4 addr)) \<in> insert (trim ip) (ie_ip ` set old)"
    using conn' [of "old @ [?new]"] sound by (auto simp: f1)
  moreover have "snd (get_blocklist env hdr d fs2) = ok_answer old"
    using admin r2 by (simp add: get_blocklist_def get_ip_list_def)
  moreover have "handle_connection (relay_init renv black (fs2 BLOCKLIST_FILE)) addr ws = Refused \<longleftrightarrow>
      show_ip (sa_ip (try_into_v4 addr)) \<in> ie_ip ` set old"
    using conn' [of old] sound by (auto simp: f2)
  ultimately show ?thesis by blast
qed

text \<open>
  The file of a list of addresses has a canonical form: what is read from any file
  is read again, entry for entry, after it has been written.
\<close>
theorem ip_file_roundtrip: "parse_ip_file (serialize_ip_file (parse_ip_file content)) = parse_ip_file content"
  using parse_serialize [of "parse_ip_file content"] parse_ip_file_sound [of _ content]
  by (simp add: map_idI)




section \<open>The start of the relay server\<close>

definition put_env :: "(string \<times> string) \<times> string \<Rightarrow> environ \<Rightarrow> environ" where
  "put_env kv env =
     (if fst kv = (''server'', ''port'') then env(''PORT'' \<mapsto> snd kv)
      else if fst kv = (''key'', ''secret'') then env(''KEY'' \<mapsto> snd kv) else env)"

lemma hbbr_env_lines_sec: "hbbr_env_lines sec ls env = fold put_env (sec_kvs sec ls) env"
proof (induction ls arbitrary: sec env)
  case (Cons l ls)
  obtain a b where ab: "splitn2 CHR ''='' (trim l) = (a, b)" by fastforce
  then show ?case
    by (cases b) (auto simp: Cons line_kv_def split_ini_kv_def put_env_def Let_def)
qed simp

lemma fold_put_env:
  "fold put_env kvs env ''PORT'' = (case look kvs (''server'', ''port'') of Some v \<Rightarrow> Some v | None \<Rightarrow> env ''PORT'')"
  "fold put_env kvs env ''KEY'' = (case look kvs (''key'', ''secret'') of Some v \<Rightarrow> Some v | None \<Rightarrow> env ''KEY'')"
  "x \<noteq> ''PORT'' \<Longrightarrow> x \<noteq> ''KEY'' \<Longrightarrow> fold put_env kvs env x = env x"
  by (induction kvs rule: rev_induct) (auto simp: put_env_def)

lemma load_hbbr_toml_env_look:
  "load_hbbr_toml_env (fs HBBR_TOML) env ''PORT'' =
     (case read_hbbr_toml fs ''hbbr_port'' of Some v \<Rightarrow> Some v | None \<Rightarrow> env ''PORT'')"
  "load_hbbr_toml_env (fs HBBR_TOML) env ''KEY'' =
     (case read_hbbr_toml fs ''hbbr_key'' of Some v \<Rightarrow> Some v | None \<Rightarrow> env ''KEY'')"
  "x \<noteq> ''PORT'' \<Longrightarrow> x \<noteq> ''KEY'' \<Longrightarrow> load_hbbr_toml_env (fs HBBR_TOML) env x = env x"
proof -
  have k: "(''hbbr_port'', ''server'', ''port'') \<in> set hbbr_keys" "(''hbbr_key'', ''key'', ''secret'') \<in> set hbbr_keys"
    by (simp_all add: hbbr_keys_def)
  have r: "load_hbbr_toml_env (fs HBBR_TOML) env = fold put_env (sec_kvs [] (content_lines HBBR_TOML fs)) env"
    by (simp add: load_hbbr_toml_env_def content_lines_def hbbr_env_lines_sec str_lines_def split: option.split)
  show "load_hbbr_toml_env (fs HBBR_TOML) env ''PORT'' =
      (case read_hbbr_toml fs ''hbbr_port'' of Some v \<Rightarrow> Some v | None \<Rightarrow> env ''PORT'')"
    unfolding r fold_put_env(1) read_hbbr_toml_look(1) [OF k(1)] ..
  show "load_hbbr_toml_env (fs HBBR_TOML) env ''KEY'' =
      (case read_hbbr_toml fs ''hbbr_key'' of Some v \<Rightarrow> Some v | None \<Rightarrow> env ''KEY'')"
    unfolding r fold_put_env(2) read_hbbr_toml_look(1) [OF k(2)] ..
  show "x \<noteq> ''PORT'' \<Longrightarrow> x \<noteq> ''KEY'' \<Longrightarrow> load_hbbr_toml_env (fs HBBR_TOML) env x = env x"
    unfolding r by (rule fold_put_env(3))
qed

text \<open>
  A port and a key that the administrator sets for the relay server are the ones it
  starts with, whatever its files contained, unless the command line overrides them;
  nothing else in \<open>hbbr.toml\<close> has an effect: no other variable of the environment,
  such as those of the bandwidth limits, depends on it.
\<close>
theorem hbbr_params_take_effect:
  assumes "jwt_user_id_from_headers env hdr = Some caller" "db_user_is_admin d caller"
    and "\<And>path. io path = None" and "\<And>xs. mset (perm xs) = mset xs"
    and "\<And>a v. params a = Some v \<Longrightarrow> plain_value v"
    and "update_server_params io perm env hdr params d fs = (fs', res)"
    and "params ''hbbr_port'' = Some (show_nat p)" "0 < p" "p < 65536" "params ''hbbr_key'' = Some k"
  shows "hbbr_main ini None None fs' env0 = (show_nat p, k) \<and>
    (\<forall>x. x \<noteq> ''PORT'' \<longrightarrow> x \<noteq> ''KEY'' \<longrightarrow> load_hbbr_toml_env (fs' HBBR_TOML) env0 x = env0 x)"
proof -
  obtain fs1 where f: "update_server_params io perm env hdr params d fs = (fs1, ok_answer ())"
      "\<And>a. a \<in> fst ` set config_keys \<union> fst ` set hbbr_keys \<Longrightarrow>
         server_params fs1 a = (case params a of Some v \<Rightarrow> Some v | None \<Rightarrow> server_params fs a)"
    using update_server_params_effect [of env hdr caller d io perm params fs] assms(1-5) by blast
  have k: "''hbbr_port'' \<in> fst ` set hbbr_keys" "''hbbr_key'' \<in> fst ` set hbbr_keys"
    by (simp_all add: hbbr_keys_def)
  have "fs1 = fs'" using f(1) assms(6) by simp
  then have r: "read_hbbr_toml fs' ''hbbr_port'' = Some (show_nat p)" "read_hbbr_toml fs' ''hbbr_key'' = Some k"
    using f(2) [of "''hbbr_port''"] f(2) [of "''hbbr_key''"] k server_params_cases(1) [OF k(1)]
      server_params_cases(1) [OF k(2)] assms(7,10) by simp_all
  have "parse_signed i32_max (show_nat p) = Some (int p)"
    using assms(9) by (simp add: parse_signed_show_nat i32_max_def)
  then have "hbbr_main ini None None fs' env0 = (show_nat p, k)"
    using r assms(8) by (simp add: hbbr_main_def load_hbbr_toml_env_look env_port_def show_i64_def Let_def)
  then show ?thesis using load_hbbr_toml_env_look(3) [of _ fs' env0] by blast
qed


section \<open>Witnesses\<close>

text \<open>Ann, the first administrator of \<^const>\<open>db_two_admins\<close>, and files nobody has written yet.\<close>

lemma ann_is_admin:
  "jwt_user_id_from_headers test_api_env (Some ''Bearer t1'') = Some 1" "db_user_is_admin db_two_admins 1"
proof -
  have "trim ''t1'' = ''t1''" by (rule trim_id) (simp add: is_space_def)
  moreover have "trim ''1'' = ''1''" by (rule trim_id) (simp add: is_space_def)
  then have "parse_i64 (trim ''1'') = Some 1"
    by (simp add: parse_i64_def parse_signed_def parse_unsigned_def parse_nat_def is_digit_def i64_max_def)
  ultimately show "jwt_user_id_from_headers test_api_env (Some ''Bearer t1'') = Some 1"
    using bearer_token [of "''t1''"]
    by (simp add: jwt_user_id_from_headers_def jwt_sub_user_id_def test_api_env_def test_claims_def)
  show "db_user_is_admin db_two_admins 1"
    by (simp add: db_user_is_admin_def db_two_admins_def get_user_by_id_def USER_ROLE_ADMIN_def)
qed

definition no_faults :: io_faults where "no_faults = (\<lambda>_. None)"

definition intruder :: socket_addr where "intruder = V4 (Ipv4Addr 9 9 9 9) 4000"

theorem blocklist_reaches_relay_witness:
  "\<exists>fs1. fs1 = fst (add_blocklist no_faults test_api_env (Some ''Bearer t1'') '' 9.9.9.9'' ''scanner'' db_two_admins Map.empty) \<and>
     handle_connection (relay_init (\<lambda>_. None) None (fs1 BLOCKLIST_FILE)) intruder False = Refused"
proof -
  let ?fs1 = "fst (add_blocklist no_faults test_api_env (Some ''Bearer t1'') '' 9.9.9.9'' ''scanner'' db_two_admins Map.empty)"
  have t: "trim '' 9.9.9.9'' = ''9.9.9.9''" by code_simp
  have s: "sound_ip (trim '' 9.9.9.9'')" by code_simp
  have c: "NLc \<notin> set ''scanner''" by code_simp
  have i: "no_faults BLOCKLIST_FILE = None" by (simp add: no_faults_def)
  have oc: "False \<or> \<not> ip_is_loopback (sa_ip (try_into_v4 intruder))" by code_simp
  have e: "trim '' 9.9.9.9'' \<notin> ie_ip ` set (read_ip_file BLOCKLIST_FILE Map.empty)" by (simp add: read_ip_file_def)
  have ip: "show_ip (sa_ip (try_into_v4 intruder)) = ''9.9.9.9''" by code_simp
  have "handle_connection (relay_init (\<lambda>_. None) None (?fs1 BLOCKLIST_FILE)) intruder False = Refused \<longleftrightarrow>
      show_ip (sa_ip (try_into_v4 intruder)) \<in>
        insert (trim '' 9.9.9.9'') (ie_ip ` set (read_ip_file BLOCKLIST_FILE Map.empty))"
    using blocklist_reaches_relay [where io = no_faults and black = None and renv = "\<lambda>_. None",
      OF ann_is_admin i s c e refl refl refl oc] by blast
  then show ?thesis using ip t by simp
qed

definition some_params :: "string \<rightharpoonup> string" where
  "some_params = [''hbbr_port'' \<mapsto> show_nat 21200, ''hbbr_key'' \<mapsto> ''secret'', ''hbbs_port'' \<mapsto> ''21116'']"

lemma some_params_plain: "some_params a = Some v \<Longrightarrow> plain_value v"
proof -
  have "plain_value ''secret''" "plain_value ''21116''" by code_simp+
  with plain_show_nat [of 21200] show "some_params a = Some v \<Longrightarrow> ?thesis" by (auto simp: some_params_def split: if_splits)
qed

definition given_files :: files where
  "given_files = [HBBR_TOML \<mapsto> lines_text [''# relay'', ''[server]'', ''port = 21117'', ''[bandwidth]'', ''total_limit = 5'']]"


theorem hbbr_params_take_effect_witness:
  "\<exists>fs'. fs' = fst (update_server_params no_faults (\<lambda>xs. xs) test_api_env (Some ''Bearer t1'') some_params db_two_admins given_files) \<and>
     hbbr_main (\<lambda>_. None) None None fs' (\<lambda>_. None) = (show_nat 21200, ''secret'')"
proof -
  obtain fs' res where u: "update_server_params no_faults (\<lambda>xs. xs) test_api_env (Some ''Bearer t1'') some_params db_two_admins given_files = (fs', res)"
    by fastforce
  have p: "some_params ''hbbr_port'' = Some (show_nat 21200)" "some_params ''hbbr_key'' = Some ''secret''"
    by (simp_all add: some_params_def)
  have "hbbr_main (\<lambda>_. None) None None fs' (\<lambda>_. None) = (show_nat 21200, ''secret'')"
    using hbbr_params_take_effect [OF ann_is_admin _ refl some_params_plain u p(1) _ _ p(2)] by (simp add: no_faults_def)
  then show ?thesis using u by simp
qed

end
