(* ===== verification/Secure_Stream.thy ===== *)
theory Secure_Stream
  imports Bytes_Codec
begin

text \<open>
  The encrypted message stream of \<open>libs/core-common/src/tcp.rs\<close>: \<open>Encrypt\<close> numbers
  the messages of each direction and seals them, \<open>FramedStream\<close> puts them into
  frames.  The sodium library is an argument; Tokio's \<open>Framed\<close>, which calls the
  decoder on what has been read and reads more when it asks for more, is modelled
  by its documented behaviour.  Connecting, local addresses and the time limit of a
  send are not modelled.  Shown: two such streams with the same key are a queue.
\<close>

section \<open>Encryption\<close>

text \<open>\<open>secretbox::seal\<close>, \<open>secretbox::open\<close> with message, nonce and key; \<open>box_::open\<close> with the two keys.\<close>

record sodium =
  sb_seal :: "bytes \<Rightarrow> bytes \<Rightarrow> bytes \<Rightarrow> bytes"
  sb_open :: "bytes \<Rightarrow> bytes \<Rightarrow> bytes \<Rightarrow> bytes option"
  bx_open :: "bytes \<Rightarrow> bytes \<Rightarrow> bytes \<Rightarrow> bytes \<Rightarrow> bytes option"

text \<open>What the library documents: opening undoes sealing, which adds a tag of 16 bytes.\<close>

definition secretbox_ok :: "sodium \<Rightarrow> bool" where
  "secretbox_ok so \<longleftrightarrow>
     (\<forall>m n k. sb_open so (sb_seal so m n k) n k = Some m \<and> length (sb_seal so m n k) = length m + 16)"

definition get_nonce :: "u64 \<Rightarrow> bytes" where
  "get_nonce seqnum = to_le_bytes seqnum @ replicate 16 0"

record encrypt =
  en_key :: bytes
  en_tx :: u64
  en_rx :: u64

definition encrypt_new :: "bytes \<Rightarrow> encrypt" where
  "encrypt_new key = \<lparr>en_key = key, en_tx = 0, en_rx = 0\<rparr>"

definition enc :: "sodium \<Rightarrow> encrypt \<Rightarrow> bytes \<Rightarrow> encrypt \<times> bytes" where
  "enc so e data =
     (let e' = e\<lparr>en_tx := en_tx e + 1\<rparr> in (e', sb_seal so data (get_nonce (en_tx e')) (en_key e')))"

definition dec :: "sodium \<Rightarrow> encrypt \<Rightarrow> bytes \<Rightarrow> encrypt \<times> bytes option" where
  "dec so e data =
     (if length data \<le> 1 then (e, Some data)
      else let e' = e\<lparr>en_rx := en_rx e + 1\<rparr>
           in (e', sb_open so data (get_nonce (en_rx e')) (en_key e')))"

definition BOX_PUBLICKEYBYTES :: nat where "BOX_PUBLICKEYBYTES = 32"
definition BOX_NONCEBYTES :: nat where "BOX_NONCEBYTES = 24"
definition SECRETBOX_KEYBYTES :: nat where "SECRETBOX_KEYBYTES = 32"

datatype handshake_error = BadPkLength nat | BoxFailure | BadKeyLength

definition encrypt_decode :: "sodium \<Rightarrow> bytes \<Rightarrow> bytes \<Rightarrow> bytes \<Rightarrow> handshake_error + bytes" where
  "encrypt_decode so symmetric_data their_pk_b our_sk_b =
     (if length their_pk_b \<noteq> BOX_PUBLICKEYBYTES then Inl (BadPkLength (length their_pk_b))
      else (case bx_open so symmetric_data (replicate BOX_NONCEBYTES 0) their_pk_b our_sk_b of
              None \<Rightarrow> Inl BoxFailure
            | Some symmetric_key \<Rightarrow>
                if length symmetric_key \<noteq> SECRETBOX_KEYBYTES then Inl BadKeyLength else Inr symmetric_key))"

section \<open>Streams\<close>

text \<open>\<open>fs_read\<close> is the buffer of bytes that have been read and not yet been decoded.\<close>

record framed_stream =
  fs_codec :: bytes_codec
  fs_read :: bytes
  fs_secure :: "encrypt option"
  fs_send_timeout :: u64

definition stream_from :: framed_stream where
  "stream_from = \<lparr>fs_codec = codec_new, fs_read = [], fs_secure = None, fs_send_timeout = 0\<rparr>"

definition set_send_timeout :: "u64 \<Rightarrow> framed_stream \<Rightarrow> framed_stream" where
  "set_send_timeout ms s = s\<lparr>fs_send_timeout := ms\<rparr>"

definition stream_set_raw :: "framed_stream \<Rightarrow> framed_stream" where
  "stream_set_raw s = s\<lparr>fs_codec := set_raw (fs_codec s), fs_secure := None\<rparr>"

definition is_secured :: "framed_stream \<Rightarrow> bool" where
  "is_secured s \<longleftrightarrow> fs_secure s \<noteq> None"

definition set_key :: "bytes \<Rightarrow> framed_stream \<Rightarrow> framed_stream" where
  "set_key key s = s\<lparr>fs_secure := Some (encrypt_new key)\<rparr>"

text \<open>The bytes a send puts on the wire, or the error of the encoder.\<close>

definition send_bytes :: "bytes \<Rightarrow> framed_stream \<Rightarrow> framed_stream \<times> (io_error + bytes)" where
  "send_bytes data s = (s, codec_encode (fs_codec s) data [])"

definition send_raw :: "sodium \<Rightarrow> bytes \<Rightarrow> framed_stream \<Rightarrow> framed_stream \<times> (io_error + bytes)" where
  "send_raw so msg s =
     (case fs_secure s of
        Some key \<Rightarrow> (case enc so key msg of (key', m) \<Rightarrow> send_bytes m (s\<lparr>fs_secure := Some key'\<rparr>))
      | None \<Rightarrow> send_bytes msg s)"

datatype next_result = Waiting | Item bytes | DecodeError io_error | DecryptionError

text \<open>One attempt of \<open>next\<close> on the bytes that have been read.\<close>

definition poll_next :: "sodium \<Rightarrow> framed_stream \<Rightarrow> framed_stream \<times> next_result" where
  "poll_next so s =
     (case codec_decode (fs_codec s) (fs_read s) of
        (c, rest, res) \<Rightarrow>
          let s' = s\<lparr>fs_codec := c, fs_read := rest\<rparr>
          in (case res of
                Inl e \<Rightarrow> (s', DecodeError e)
              | Inr None \<Rightarrow> (s', Waiting)
              | Inr (Some data) \<Rightarrow>
                  (case fs_secure s of
                     None \<Rightarrow> (s', Item data)
                   | Some key \<Rightarrow>
                       (case dec so key data of
                          (key', Some plain) \<Rightarrow> (s'\<lparr>fs_secure := Some key'\<rparr>, Item plain)
                        | (key', None) \<Rightarrow> (s'\<lparr>fs_secure := Some key'\<rparr>, DecryptionError)))))"

definition feed :: "bytes \<Rightarrow> framed_stream \<Rightarrow> framed_stream" where
  "feed chunk s = s\<lparr>fs_read := fs_read s @ chunk\<rparr>"

text \<open>\<open>next\<close> on the chunks in which the bytes arrive: it ends with a result, or waits with all of them read.\<close>

fun stream_next :: "sodium \<Rightarrow> framed_stream \<Rightarrow> bytes list \<Rightarrow> framed_stream \<times> bytes list \<times> next_result" where
  "stream_next so s chunks =
     (case poll_next so s of
        (s', Waiting) \<Rightarrow>
          (case chunks of [] \<Rightarrow> (s', [], Waiting) | chunk # chunks' \<Rightarrow> stream_next so (feed chunk s') chunks')
      | (s', r) \<Rightarrow> (s', chunks, r))"

declare stream_next.simps [simp del]

section \<open>Two ends of a connection\<close>

datatype chan_event = Sent bytes | Received bytes | Moved | Broken

record link =
  lk_sender :: framed_stream
  lk_wire :: bytes
  lk_receiver :: framed_stream

inductive link_step :: "sodium \<Rightarrow> link \<Rightarrow> chan_event \<Rightarrow> link \<Rightarrow> bool" for so where
  send: "send_raw so m (lk_sender l) = (s', Inr out) \<Longrightarrow>
     link_step so l (Sent m) (l\<lparr>lk_sender := s', lk_wire := lk_wire l @ out\<rparr>)"
| arrive: "link_step so l Moved (l\<lparr>lk_wire := drop n (lk_wire l), lk_receiver := feed (take n (lk_wire l)) (lk_receiver l)\<rparr>)"
| receive: "poll_next so (lk_receiver l) = (r', Item m) \<Longrightarrow> link_step so l (Received m) (l\<lparr>lk_receiver := r'\<rparr>)"
| wait: "poll_next so (lk_receiver l) = (r', Waiting) \<Longrightarrow> link_step so l Moved (l\<lparr>lk_receiver := r'\<rparr>)"
| broken: "poll_next so (lk_receiver l) = (r', x) \<Longrightarrow> x = DecryptionError \<or> x = DecodeError e \<Longrightarrow>
     link_step so l Broken (l\<lparr>lk_receiver := r'\<rparr>)"

inductive_cases link_stepE:
  "link_step so l (Sent m) l'" "link_step so l (Received m) l'" "link_step so l Moved l'" "link_step so l Broken l'"


section \<open>A queue as the specification\<close>

text \<open>
  An implementation of a queue of messages by steps with events: \<open>rel s q\<close> says that
  in state \<open>s\<close> the messages \<open>q\<close> are on their way.
\<close>

inductive chan_run :: "('s \<Rightarrow> chan_event \<Rightarrow> 's \<Rightarrow> bool) \<Rightarrow> 's \<Rightarrow> chan_event list \<Rightarrow> 's \<Rightarrow> bool" for step where
  run_Nil: "chan_run step s [] s"
| run_snoc: "chan_run step s es s' \<Longrightarrow> step s' e s'' \<Longrightarrow> chan_run step s (es @ [e]) s''"

definition sent_of :: "chan_event list \<Rightarrow> bytes list" where
  "sent_of es = List.map_filter (\<lambda>e. case e of Sent m \<Rightarrow> Some m | _ \<Rightarrow> None) es"

definition received_of :: "chan_event list \<Rightarrow> bytes list" where
  "received_of es = List.map_filter (\<lambda>e. case e of Received m \<Rightarrow> Some m | _ \<Rightarrow> None) es"

lemma event_lists [simp]:
  "sent_of [] = []" "received_of [] = []"
  "sent_of (es @ [e]) = sent_of es @ (case e of Sent m \<Rightarrow> [m] | _ \<Rightarrow> [])"
  "received_of (es @ [e]) = received_of es @ (case e of Received m \<Rightarrow> [m] | _ \<Rightarrow> [])"
  by (simp_all add: sent_of_def received_of_def List.map_filter_def split: chan_event.split)

locale queue_refinement =
  fixes step :: "'s \<Rightarrow> chan_event \<Rightarrow> 's \<Rightarrow> bool"
    and rel :: "'s \<Rightarrow> bytes list \<Rightarrow> bool"
  assumes rel_sent: "\<lbrakk>rel s q; step s (Sent m) s'\<rbrakk> \<Longrightarrow> rel s' (q @ [m])"
    and rel_received: "\<lbrakk>rel s q; step s (Received m) s'\<rbrakk> \<Longrightarrow> \<exists>q'. q = m # q' \<and> rel s' q'"
    and rel_moved: "\<lbrakk>rel s q; step s Moved s'\<rbrakk> \<Longrightarrow> rel s' q"
    and rel_broken: "\<lbrakk>rel s q; step s Broken s'\<rbrakk> \<Longrightarrow> False"
begin

lemma run_is_queue:
  assumes "chan_run step s es s'" "rel s []"
  shows "\<exists>q. rel s' q \<and> sent_of es = received_of es @ q \<and> Broken \<notin> set es"
  using assms
proof (induction rule: chan_run.induct)
  case (run_snoc s es s' e s'')
  then obtain q where q: "rel s' q" "sent_of es = received_of es @ q" "Broken \<notin> set es" by blast
  show ?case
  proof (cases e)
    case (Sent m)
    then show ?thesis using q run_snoc rel_sent [of s' q m s''] by auto
  next
    case (Received m)
    then obtain q' where "q = m # q'" "rel s'' q'" using q run_snoc rel_received [of s' q m s''] by auto
    then show ?thesis using q Received by auto
  next
    case Moved
    then show ?thesis using q run_snoc rel_moved [of s' q s''] by auto
  next
    case Broken
    then show ?thesis using q run_snoc rel_broken [of s' q s''] by auto
  qed
qed auto

end

section \<open>Frames on the wire\<close>

definition frame_of :: "bytes \<Rightarrow> bytes" where
  "frame_of f = (case encode_head (length f) of Some h \<Rightarrow> h @ f | None \<Rightarrow> [])"

definition framable :: "bytes \<Rightarrow> bool" where
  "framable f \<longleftrightarrow> encode_head (length f) \<noteq> None"

text \<open>The decoder \<open>c\<close> still has to read the frames of \<open>fs\<close>, the first one from where it stopped.\<close>

definition unread :: "bytes_codec \<Rightarrow> bytes \<Rightarrow> bytes list \<Rightarrow> bool" where
  "unread c bs fs \<longleftrightarrow> \<not> bc_raw c \<and> bc_max_packet_length c = - 1 \<and> (\<forall>f \<in> set fs. framable f) \<and>
     (case bc_state c of
        Head \<Rightarrow> bs = concat (map frame_of fs)
      | Data n \<Rightarrow> (\<exists>f fs'. fs = f # fs' \<and> unat n = length f \<and> bs = f @ concat (map frame_of fs')))"

lemma framable_length: "framable f \<Longrightarrow> length f < 2 ^ 30"
  by (auto simp: framable_def encode_head_def Let_def split: if_splits)

lemma unread_append: "\<lbrakk>unread c bs fs; framable f\<rbrakk> \<Longrightarrow> unread c (bs @ frame_of f) (fs @ [f])"
  by (auto simp: unread_def split: decode_state.splits)

lemma decode_body_unread:
  assumes "unread (c\<lparr>bc_state := Data n\<rparr>) (b @ w) fs" "decode_body (c\<lparr>bc_state := Data n\<rparr>) n b = (c', b', r)"
  shows "(r = Inr None \<and> unread c' (b' @ w) fs \<and> w \<noteq> []) \<or> (\<exists>d fs'. r = Inr (Some d) \<and> fs = d # fs' \<and> unread c' (b' @ w) fs')"
proof -
  obtain f fs' where f: "fs = f # fs'" "unat n = length f" "b @ w = f @ concat (map frame_of fs')"
    using assms(1) by (auto simp: unread_def)
  show ?thesis
  proof (cases "length b < length f")
    case True
    then have "w \<noteq> []" using f(3) by (metis append_Nil2 length_append not_add_less1)
    then show ?thesis using assms f True by (auto simp: decode_body_def decode_data_def)
  next
    case False
    then have "take (length f) b = f" "drop (length f) b @ w = concat (map frame_of fs')"
      using f(3) by (metis append_eq_conv_conj not_less take_append take_all_iff diff_is_0_eq take0 append_Nil2,
        metis append_eq_conv_conj drop_append diff_is_0_eq drop0 not_less)
    then have "r = Inr (Some f)" "c' = c\<lparr>bc_state := Head\<rparr>" "b' @ w = concat (map frame_of fs')"
      using assms(2) f(2) False by (auto simp: decode_body_def decode_data_def)
    then show ?thesis using assms(1) f(1) by (auto simp: unread_def)
  qed
qed

lemma decode_unread:
  assumes u: "unread c (b @ w) fs" and d: "codec_decode c b = (c', b', r)"
  shows "(r = Inr None \<and> unread c' (b' @ w) fs \<and> (w = [] \<longrightarrow> fs = [])) \<or>
    (\<exists>d fs'. r = Inr (Some d) \<and> fs = d # fs' \<and> unread c' (b' @ w) fs')"
proof (cases "bc_state c")
  case (Data n)
  then have c: "c\<lparr>bc_state := Data n\<rparr> = c" by simp
  have "decode_body c n b = (c', b', r)" using d u Data by (simp add: codec_decode_def unread_def)
  then show ?thesis using decode_body_unread [of n c b w fs c' b' r] u unfolding c by blast
next
  case Head
  have raw: "\<not> bc_raw c" using u by (simp add: unread_def)
  have bs: "b @ w = concat (map frame_of fs)" using u Head by (simp add: unread_def)
  show ?thesis
  proof (cases "decode_head c b")
    case (Inl e)
    then have *: "decode_head c (b @ w) = Inl e" by (rule decode_head_more_err)
    moreover have "fs \<noteq> []" using * bs by (auto simp: decode_head_def)
    ultimately show ?thesis using u bs by (auto simp: unread_def decode_head_def not_less split: if_splits)
  next
    case (Inr p)
    obtain n s where p: "p = (n, s)" by (cases p)
    show ?thesis
    proof (cases n)
      case None
      then have s: "s = b" using Inr p decode_head_wait by auto
      have "fs = []" if w: "w = []"
      proof (rule ccontr)
        assume "fs \<noteq> []"
        then obtain f fs' where f: "fs = f # fs'" by (cases fs) auto
        then obtain h where h: "encode_head (length f) = Some h" using u by (auto simp: unread_def framable_def)
        have "b = h @ f @ concat (map frame_of fs')" using bs w f h by (simp add: frame_of_def)
        moreover have "is_head h (length f)" using h by (rule encode_head_is_head)
        ultimately show False
          using decode_head_complete [of h "length f" c "f @ concat (map frame_of fs')"] Inr p None u
            framable_length [of f] f by (auto simp: unread_def)
      qed
      then show ?thesis using u d Head raw Inr p None s by (simp add: codec_decode_def)
    next
      case (Some k)
      have m: "decode_head c (b @ w) = Inr (Some k, s @ w)"
        using decode_head_more [of c b k s w] Inr p Some by simp
      then obtain f fs' where f: "fs = f # fs'" using bs by (cases fs) (auto simp: decode_head_def)
      then obtain h where h: "encode_head (length f) = Some h" using u by (auto simp: unread_def framable_def)
      have "decode_head c (h @ f @ concat (map frame_of fs')) = Inr (Some (of_nat (length f)), f @ concat (map frame_of fs'))"
        using decode_head_complete [OF encode_head_is_head [OF h], of c] u framable_length [of f] f
        by (auto simp: unread_def)
      moreover have "b @ w = h @ f @ concat (map frame_of fs')" using bs f h by (simp add: frame_of_def)
      ultimately have k: "k = of_nat (length f)" "s @ w = f @ concat (map frame_of fs')" using m by auto
      have "unat k = length f" using framable_length [of f] u f k by (auto simp: unread_def unat_of_nat)
      then have "unread (c\<lparr>bc_state := Data k\<rparr>) (s @ w) fs" using u k f by (auto simp: unread_def)
      then show ?thesis
        using decode_body_unread [of k c s w fs c' b' r] d Head raw Inr p Some by (auto simp: codec_decode_def)
    qed
  qed
qed


section \<open>The stream is a queue\<close>

fun sealed :: "sodium \<Rightarrow> bytes \<Rightarrow> u64 \<Rightarrow> bytes list \<Rightarrow> bytes list" where
  "sealed so key n [] = []"
| "sealed so key n (m # ms) = sb_seal so m (get_nonce (n + 1)) key # sealed so key (n + 1) ms"

lemma sealed_append: "sealed so key n (ms @ [m]) =
    sealed so key n ms @ [sb_seal so m (get_nonce (n + of_nat (length ms) + 1)) key]"
  by (induction ms arbitrary: n) (simp_all add: add.commute add.left_commute)

text \<open>The keys agree and the sender is ahead by the messages on their way.\<close>

fun in_step :: "encrypt option \<Rightarrow> encrypt option \<Rightarrow> nat \<Rightarrow> bool" where
  "in_step None None k = True"
| "in_step (Some a) (Some b) k = (en_key a = en_key b \<and> en_tx a = en_rx b + of_nat k)"
| "in_step _ _ k = False"

definition payloads :: "sodium \<Rightarrow> encrypt option \<Rightarrow> bytes list \<Rightarrow> bytes list" where
  "payloads so sec q = (case sec of None \<Rightarrow> q | Some e \<Rightarrow> sealed so (en_key e) (en_rx e) q)"

definition link_rel :: "sodium \<Rightarrow> link \<Rightarrow> bytes list \<Rightarrow> bool" where
  "link_rel so l q \<longleftrightarrow> secretbox_ok so \<and> \<not> bc_raw (fs_codec (lk_sender l)) \<and>
     in_step (fs_secure (lk_sender l)) (fs_secure (lk_receiver l)) (length q) \<and>
     unread (fs_codec (lk_receiver l)) (fs_read (lk_receiver l) @ lk_wire l) (payloads so (fs_secure (lk_receiver l)) q)"

lemma codec_encode_frame:
  "\<not> bc_raw c \<Longrightarrow> codec_encode c f [] = Inr out \<longleftrightarrow> framable f \<and> out = frame_of f"
  by (auto simp: codec_encode_def framable_def frame_of_def split: option.splits)

lemma link_rel_sent:
  assumes rel: "link_rel so l q" and send: "send_raw so m (lk_sender l) = (s', Inr out)"
  shows "link_rel so (l\<lparr>lk_sender := s', lk_wire := lk_wire l @ out\<rparr>) (q @ [m])"
proof (cases "fs_secure (lk_sender l)")
  case None
  then have r: "fs_secure (lk_receiver l) = None" using rel by (cases "fs_secure (lk_receiver l)") (auto simp: link_rel_def)
  have "s' = lk_sender l" "framable m" "out = frame_of m"
    using send None rel by (auto simp: send_raw_def send_bytes_def link_rel_def codec_encode_frame)
  then show ?thesis
    using rel r None unread_append [of "fs_codec (lk_receiver l)" "fs_read (lk_receiver l) @ lk_wire l" q m]
    by (simp add: link_rel_def payloads_def)
next
  case (Some a)
  then obtain b where b: "fs_secure (lk_receiver l) = Some b" "en_key a = en_key b" "en_tx a = en_rx b + of_nat (length q)"
    using rel by (cases "fs_secure (lk_receiver l)") (auto simp: link_rel_def)
  let ?f = "sb_seal so m (get_nonce (en_tx a + 1)) (en_key a)"
  have s: "s' = (lk_sender l)\<lparr>fs_secure := Some (a\<lparr>en_tx := en_tx a + 1\<rparr>)\<rparr>" "framable ?f" "out = frame_of ?f"
    using send Some rel by (auto simp: send_raw_def send_bytes_def enc_def link_rel_def codec_encode_frame Let_def)
  then show ?thesis
    using rel b Some unread_append [OF _ s(2), of "fs_codec (lk_receiver l)" "fs_read (lk_receiver l) @ lk_wire l"
        "sealed so (en_key b) (en_rx b) q"]
    by (simp add: link_rel_def payloads_def sealed_append add.commute add.left_commute)
qed

lemma link_rel_poll:
  assumes rel: "link_rel so l q" and poll: "poll_next so (lk_receiver l) = (r', x)"
  shows "(x = Waiting \<and> link_rel so (l\<lparr>lk_receiver := r'\<rparr>) q \<and> (lk_wire l = [] \<longrightarrow> q = [])) \<or>
    (\<exists>m q'. x = Item m \<and> q = m # q' \<and> link_rel so (l\<lparr>lk_receiver := r'\<rparr>) q')"
proof -
  let ?r = "lk_receiver l"
  obtain c' b' res where d: "codec_decode (fs_codec ?r) (fs_read ?r) = (c', b', res)" by (metis prod_cases3)
  have u: "unread (fs_codec ?r) (fs_read ?r @ lk_wire l) (payloads so (fs_secure ?r) q)" using rel by (simp add: link_rel_def)
  have ok: "sb_open so (sb_seal so m n k) n k = Some m" "\<not> length (sb_seal so m n k) \<le> 1" for m n k
    using rel by (auto simp: link_rel_def secretbox_ok_def)
  consider "res = Inr None" "unread c' (b' @ lk_wire l) (payloads so (fs_secure ?r) q)"
      "lk_wire l = [] \<longrightarrow> payloads so (fs_secure ?r) q = []"
    | f fs' where "res = Inr (Some f)" "payloads so (fs_secure ?r) q = f # fs'" "unread c' (b' @ lk_wire l) fs'"
    using decode_unread [OF u d] by blast
  then show ?thesis
  proof cases
    case 1
    have "q = []" if "payloads so (fs_secure ?r) q = []"
      using that by (cases q) (auto simp: payloads_def split: option.splits)
    then show ?thesis using 1 rel poll d by (auto simp: poll_next_def link_rel_def Let_def)
  next
    case (2 f fs')
    then obtain m q' where q: "q = m # q'" by (cases q) (auto simp: payloads_def split: option.splits)
    show ?thesis
    proof (cases "fs_secure ?r")
      case None
      then show ?thesis using 2 rel poll d q by (auto simp: poll_next_def link_rel_def Let_def payloads_def elim: in_step.elims)
    next
      case (Some e)
      then have f: "f = sb_seal so m (get_nonce (en_rx e + 1)) (en_key e)" "fs' = sealed so (en_key e) (en_rx e + 1) q'"
        using 2(2) q by (auto simp: payloads_def)
      obtain a where a: "fs_secure (lk_sender l) = Some a" "en_key a = en_key e" "en_tx a = en_rx e + of_nat (length q)"
        using rel Some by (cases "fs_secure (lk_sender l)") (auto simp: link_rel_def)
      have "x = Item m" "r' = ?r\<lparr>fs_codec := c', fs_read := b', fs_secure := Some (e\<lparr>en_rx := en_rx e + 1\<rparr>)\<rparr>"
        using poll d 2(1) Some f ok by (auto simp: poll_next_def dec_def Let_def)
      then show ?thesis using rel q a f 2(3) Some
        by (auto simp: link_rel_def payloads_def add.commute add.left_commute)
    qed
  qed
qed

lemma link_rel_arrive:
  "link_rel so l q \<Longrightarrow>
     link_rel so (l\<lparr>lk_wire := drop n (lk_wire l), lk_receiver := feed (take n (lk_wire l)) (lk_receiver l)\<rparr>) q"
  by (simp add: link_rel_def feed_def)

interpretation lk: queue_refinement "link_step so" "link_rel so" for so
proof
  fix s q m s'
  show "link_rel so s q \<Longrightarrow> link_step so s (Sent m) s' \<Longrightarrow> link_rel so s' (q @ [m])"
    by (erule link_stepE) (auto intro: link_rel_sent)
  show "link_rel so s q \<Longrightarrow> link_step so s (Received m) s' \<Longrightarrow> \<exists>q'. q = m # q' \<and> link_rel so s' q'"
    by (erule link_stepE) (auto dest: link_rel_poll)
  show "link_rel so s q \<Longrightarrow> link_step so s Moved s' \<Longrightarrow> link_rel so s' q"
    by (erule link_stepE) (auto intro: link_rel_arrive dest: link_rel_poll)
  show "link_rel so s q \<Longrightarrow> link_step so s Broken s' \<Longrightarrow> False"
    by (erule link_stepE) (auto dest: link_rel_poll)
qed


definition connect :: "bytes option \<Rightarrow> link" where
  "connect key =
     (let s = (case key of Some k \<Rightarrow> set_key k stream_from | None \<Rightarrow> stream_from)
      in \<lparr>lk_sender = s, lk_wire = [], lk_receiver = s\<rparr>)"

lemma connect_rel: "secretbox_ok so \<Longrightarrow> link_rel so (connect key) []"
  by (cases key) (simp_all add: connect_def link_rel_def set_key_def stream_from_def codec_new_def encrypt_new_def
      unread_def payloads_def Let_def)

text \<open>
  C28.  A stream, encrypted or not, is a queue: in whatever order messages are sent, bytes
  arrive and the receiver is polled, the messages received are the first of those
  sent, in order and unaltered; no frame and no decryption fails; and once all bytes
  have arrived the receiver gets the next message, if there is one.
\<close>
theorem secure_stream_is_queue:
  assumes "secretbox_ok so" "chan_run (link_step so) (connect key) es l"
  shows "\<exists>q. sent_of es = received_of es @ q \<and> Broken \<notin> set es \<and>
    (lk_wire l = [] \<longrightarrow> snd (poll_next so (lk_receiver l)) = (case q of [] \<Rightarrow> Waiting | m # _ \<Rightarrow> Item m))"
proof -
  obtain q where q: "link_rel so l q" "sent_of es = received_of es @ q" "Broken \<notin> set es"
    using lk.run_is_queue [OF assms(2) connect_rel [OF assms(1)]] by blast
  obtain r' x where p: "poll_next so (lk_receiver l) = (r', x)" by fastforce
  have "lk_wire l = [] \<Longrightarrow> x = (case q of [] \<Rightarrow> Waiting | m # _ \<Rightarrow> Item m)"
    using link_rel_poll [OF q(1) p] by auto
  then show ?thesis using q p by auto
qed

text \<open>A library that puts a tag of zeros in front of the message.\<close>

definition plain_sodium :: sodium where
  "plain_sodium = \<lparr>sb_seal = \<lambda>m n k. replicate 16 0 @ m, sb_open = \<lambda>c n k. Some (drop 16 c), bx_open = \<lambda>c n p s. Some c\<rparr>"

lemma plain_sodium_ok: "secretbox_ok plain_sodium"
  by (simp add: secretbox_ok_def plain_sodium_def)

theorem secure_stream_is_queue_witness:
  "\<exists>l es. chan_run (link_step plain_sodium) (connect (Some [1, 2])) es l \<and> sent_of es = [[5, 6]] \<and>
     (\<exists>q. sent_of es = received_of es @ q \<and> Broken \<notin> set es)"
proof -
  let ?l = "connect (Some [1, 2])"
  obtain s' out where "send_raw plain_sodium [5, 6] (lk_sender ?l) = (s', Inr out)"
    by (auto simp: connect_def set_key_def stream_from_def send_raw_def enc_def plain_sodium_def send_bytes_def
        codec_encode_def codec_new_def encode_head_def Let_def)
  then have "link_step plain_sodium ?l (Sent [5, 6]) (?l\<lparr>lk_sender := s', lk_wire := lk_wire ?l @ out\<rparr>)"
    by (rule link_step.send)
  then have r: "chan_run (link_step plain_sodium) ?l ([] @ [Sent [5, 6]]) (?l\<lparr>lk_sender := s', lk_wire := lk_wire ?l @ out\<rparr>)"
    using chan_run.intros by metis
  have "sent_of ([] @ [Sent [5, 6]]) = [[5, 6]]" by (simp only: event_lists) simp
  then show ?thesis using r secure_stream_is_queue [OF plain_sodium_ok r] by metis
qed

section \<open>Reading chunks\<close>

lemma stream_next_rel:
  assumes "link_rel so \<lparr>lk_sender = s, lk_wire = concat chunks, lk_receiver = r\<rparr> q"
    and "stream_next so r chunks = (r', chunks', x)"
  shows "link_rel so \<lparr>lk_sender = s, lk_wire = concat chunks', lk_receiver = r'\<rparr> (tl q) \<and>
    x = (case q of [] \<Rightarrow> Waiting | m # _ \<Rightarrow> Item m)"
  using assms
proof (induction chunks arbitrary: r)
  case Nil
  obtain r1 y where p: "poll_next so r = (r1, y)" by fastforce
  then show ?case
    using link_rel_poll [OF Nil.prems(1), of r1 y] Nil.prems(2)
    by (subst (asm) stream_next.simps) (auto split: next_result.splits)
next
  case (Cons chunk chunks)
  obtain r1 y where p: "poll_next so r = (r1, y)" by fastforce
  have step: "(y = Waiting \<and> link_rel so \<lparr>lk_sender = s, lk_wire = concat (chunk # chunks), lk_receiver = r1\<rparr> q) \<or>
      (\<exists>m q'. y = Item m \<and> q = m # q' \<and> link_rel so \<lparr>lk_sender = s, lk_wire = concat (chunk # chunks), lk_receiver = r1\<rparr> q')"
    using link_rel_poll [OF Cons.prems(1), of r1 y] p by auto
  show ?case
  proof (cases "y = Waiting")
    case True
    then have "link_rel so \<lparr>lk_sender = s, lk_wire = concat chunks, lk_receiver = feed chunk r1\<rparr> q"
      using step link_rel_arrive [of so "\<lparr>lk_sender = s, lk_wire = concat (chunk # chunks), lk_receiver = r1\<rparr>" q "length chunk"]
      by simp
    moreover have "stream_next so (feed chunk r1) chunks = (r', chunks', x)"
      using Cons.prems(2) p True by (subst (asm) stream_next.simps) simp
    ultimately show ?thesis by (rule Cons.IH)
  next
    case False
    then show ?thesis using step Cons.prems(2) p by (subst (asm) stream_next.simps) auto
  qed
qed

fun send_all :: "sodium \<Rightarrow> bytes list \<Rightarrow> framed_stream \<Rightarrow> framed_stream \<times> (io_error + bytes)" where
  "send_all so [] s = (s, Inr [])"
| "send_all so (m # ms) s =
     (case send_raw so m s of
        (s', Inl e) \<Rightarrow> (s', Inl e)
      | (s', Inr out) \<Rightarrow>
          (case send_all so ms s' of (s'', Inl e) \<Rightarrow> (s'', Inl e) | (s'', Inr rest) \<Rightarrow> (s'', Inr (out @ rest))))"

fun receive :: "sodium \<Rightarrow> framed_stream \<Rightarrow> bytes list \<Rightarrow> nat \<Rightarrow> next_result list" where
  "receive so r chunks 0 = []"
| "receive so r chunks (Suc n) =
     (case stream_next so r chunks of (r', chunks', x) \<Rightarrow> x # receive so r' chunks' n)"

lemma send_all_rel:
  assumes "link_rel so \<lparr>lk_sender = s, lk_wire = w, lk_receiver = r\<rparr> q" "send_all so ms s = (s', Inr out)"
  shows "link_rel so \<lparr>lk_sender = s', lk_wire = w @ out, lk_receiver = r\<rparr> (q @ ms)"
  using assms
proof (induction ms arbitrary: s w q out)
  case (Cons m ms)
  obtain s1 o1 rest where o1: "send_raw so m s = (s1, Inr o1)" "send_all so ms s1 = (s', Inr rest)" "out = o1 @ rest"
    using Cons.prems(2) by (auto split: prod.splits sum.splits)
  have "link_rel so \<lparr>lk_sender = s1, lk_wire = w @ o1, lk_receiver = r\<rparr> (q @ [m])"
    using link_rel_sent [OF Cons.prems(1), of m s1 o1] o1(1) by simp
  then show ?case using Cons.IH [OF _ o1(2)] o1(3) by fastforce
qed simp

lemma receive_rel:
  "link_rel so \<lparr>lk_sender = s, lk_wire = concat chunks, lk_receiver = r\<rparr> q \<Longrightarrow>
     receive so r chunks (length q + k) = map Item q @ replicate k Waiting"
proof (induction "length q + k" arbitrary: r chunks q k)
  case (Suc n)
  obtain r' chunks' x where x: "stream_next so r chunks = (r', chunks', x)" by (metis prod_cases3)
  note n = stream_next_rel [OF Suc.prems x]
  show ?case
  proof (cases q)
    case Nil
    then obtain j where "k = Suc j" using Suc.hyps(2) by (cases k) auto
    then show ?thesis using Suc.hyps(1) [of "[]" j chunks' r'] Suc.hyps(2) x n Nil by simp
  next
    case (Cons m q')
    then show ?thesis using Suc.hyps(1) [of q' k chunks' r'] Suc.hyps(2) x n by simp
  qed
qed simp

text \<open>
  C29.  However the network cuts the bytes of the sent messages into chunks, \<open>next\<close> always
  comes to an end: it returns the messages one after the other, unaltered, and
  waits only when all of them have been returned.
\<close>
theorem stream_next_delivers:
  assumes "secretbox_ok so" "send_all so ms (lk_sender (connect key)) = (s', Inr out)" "concat chunks = out"
  shows "receive so (lk_receiver (connect key)) chunks (length ms + k) = map Item ms @ replicate k Waiting"
proof -
  have c: "connect key = \<lparr>lk_sender = lk_sender (connect key), lk_wire = [], lk_receiver = lk_receiver (connect key)\<rparr>"
    by (simp add: connect_def Let_def)
  have "link_rel so \<lparr>lk_sender = s', lk_wire = concat chunks, lk_receiver = lk_receiver (connect key)\<rparr> ms"
    using send_all_rel [of so "lk_sender (connect key)" "[]" "lk_receiver (connect key)" "[]" ms s' out]
      connect_rel [OF assms(1), of key] c assms(2,3) by simp
  then show ?thesis by (rule receive_rel)
qed

theorem stream_next_delivers_witness:
  "receive plain_sodium (lk_receiver (connect None)) [[8, 5], [6], [4, 9]] 3 = [Item [5, 6], Item [9], Waiting]"
proof -
  have "send_all plain_sodium [[5, 6], [9]] (lk_sender (connect None)) = (stream_from, Inr [8, 5, 6, 4, 9])"
    by (simp add: connect_def stream_from_def send_raw_def send_bytes_def codec_encode_def codec_new_def encode_head_def Let_def)
  then have "receive plain_sodium (lk_receiver (connect None)) [[8, 5], [6], [4, 9]] (length [[5, 6], [9 :: u8]] + 1) =
      map Item [[5, 6], [9]] @ replicate 1 Waiting"
    by (rule stream_next_delivers [OF plain_sodium_ok]) simp
  then show ?thesis by (simp add: numeral_3_eq_3)
qed

end
