(* ===== verification/Host_Port.thy ===== *)
theory Host_Port
  imports Common Text_Lines
begin

text \<open>
  Host names with ports: \<open>check_port\<close>, \<open>increase_port\<close> and \<open>split_host_port\<close> of
  \<open>libs/core-common/src/socket_client.rs\<close>, with the texts of addresses that \<open>lib.rs\<close>
  recognises by regular expressions.  The expressions are written out as functions;
  \<open>\d\<close> is an ASCII digit here.
\<close>

section \<open>Texts of addresses\<close>

definition is_hex :: "char \<Rightarrow> bool" where
  "is_hex c \<longleftrightarrow> is_digit c \<or> (65 \<le> (of_char c :: nat) \<and> (of_char c :: nat) \<le> 70) \<or>
     (97 \<le> (of_char c :: nat) \<and> (of_char c :: nat) \<le> 102)"

text \<open>One group \<open>[a-fA-F0-9]{1,4}\<close>, and the groups between the colons: at most one empty text between two of them.\<close>

definition hex_group :: "string \<Rightarrow> bool" where
  "hex_group g \<longleftrightarrow> g \<noteq> [] \<and> length g \<le> 4 \<and> list_all is_hex g"

fun hex_groups :: "string list \<Rightarrow> bool" where
  "hex_groups [] = False"
| "hex_groups [g] = hex_group g"
| "hex_groups (g # h # gs) = (hex_group g \<and> hex_groups (if h = [] then gs else h # gs))"

definition ipv6_text :: "string \<Rightarrow> bool" where
  "ipv6_text s \<longleftrightarrow> CHR '':'' \<in> set s \<and> hex_groups (split_on CHR '':'' s)"

text \<open>\<open>split("]:")\<close>.\<close>

fun split_bracket :: "string \<Rightarrow> string list" where
  "split_bracket [] = [[]]"
| "split_bracket [x] = [[x]]"
| "split_bracket (x # y # s) =
     (if x = CHR '']'' \<and> y = CHR '':'' then [] # split_bracket s
      else (case split_bracket (y # s) of a # as \<Rightarrow> (x # a) # as | [] \<Rightarrow> [[x]]))"

definition is_ipv6_str :: "string \<Rightarrow> bool" where
  "is_ipv6_str s \<longleftrightarrow> ipv6_text s \<or>
     (case split_bracket s of
        [c # i, d] \<Rightarrow> c = CHR ''['' \<and> ipv6_text i \<and> d \<noteq> [] \<and> list_all is_digit d
      | _ \<Rightarrow> False)"

definition ipv4_octet :: "string \<Rightarrow> bool" where
  "ipv4_octet g \<longleftrightarrow> length g \<le> 3 \<and> (case parse_nat g of Some n \<Rightarrow> n \<le> 255 | None \<Rightarrow> False)"

definition is_ipv4_str :: "string \<Rightarrow> bool" where
  "is_ipv4_str s \<longleftrightarrow>
     (case splitn2 CHR '':'' s of
        (a, p) \<Rightarrow> (let gs = split_on CHR ''.'' a in length gs = 4 \<and> list_all ipv4_octet gs) \<and>
          (case p of None \<Rightarrow> True | Some d \<Rightarrow> d \<noteq> [] \<and> list_all is_digit d))"

definition is_ip_str :: "string \<Rightarrow> bool" where
  "is_ip_str s \<longleftrightarrow> is_ipv4_str s \<or> is_ipv6_str s"

section \<open>Ports\<close>

text \<open>Integers of type \<open>i32\<close>: wrap-around and text.\<close>

definition wrap32 :: "int \<Rightarrow> int" where
  "wrap32 n = (n + 2 ^ 31) mod 2 ^ 32 - 2 ^ 31"

definition show_int :: "int \<Rightarrow> string" where
  "show_int n = (if n < 0 then CHR ''-'' # show_nat (nat (- n)) else show_nat (nat n))"

definition parse_port :: "string \<Rightarrow> int" where
  "parse_port s = (case parse_signed i32_max s of Some n \<Rightarrow> n | None \<Rightarrow> 0)"

definition check_port :: "string \<Rightarrow> int \<Rightarrow> string" where
  "check_port host port =
     (if is_ipv6_str host then
        if starts_with host ''['' then host else ''['' @ host @ '']:'' @ show_int port
      else if CHR '':'' \<notin> set host then host @ '':'' @ show_int port
      else host)"

definition increase_port :: "string \<Rightarrow> int \<Rightarrow> string" where
  "increase_port host offset =
     (if is_ipv6_str host then
        if starts_with host ''['' then
          (case split_bracket host of
             [a, p] \<Rightarrow> if 0 < parse_port p then a @ '']:'' @ show_int (wrap32 (parse_port p + offset)) else host
           | _ \<Rightarrow> host)
        else host
      else if CHR '':'' \<in> set host then
        (case split_on CHR '':'' host of
           [a, p] \<Rightarrow> if 0 < parse_port p then a @ '':'' @ show_int (wrap32 (parse_port p + offset)) else host
         | _ \<Rightarrow> host)
      else host)"

definition split_host_port :: "string \<Rightarrow> (string \<times> int) option" where
  "split_host_port host =
     (if is_ipv6_str host then
        if starts_with host ''['' then
          (case split_bracket host of
             [a, p] \<Rightarrow> if 0 < parse_port p then Some (a @ '']'', parse_port p) else None
           | _ \<Rightarrow> None)
        else None
      else if CHR '':'' \<in> set host then
        (case split_on CHR '':'' host of
           [a, p] \<Rightarrow> if 0 < parse_port p then Some (a, parse_port p) else None
         | _ \<Rightarrow> None)
      else None)"

text \<open>\<open>str::replace\<close> for a pattern that is not empty.\<close>

fun str_replace :: "string \<Rightarrow> string \<Rightarrow> string \<Rightarrow> string" where
  "str_replace pat new [] = []"
| "str_replace pat new (x # s) =
     (if starts_with (x # s) pat then new @ str_replace pat new (drop (length pat - 1) s)
      else x # str_replace pat new s)"

definition ipv4_to_ipv6 :: "string \<Rightarrow> bool \<Rightarrow> string" where
  "ipv4_to_ipv6 addr ipv4 =
     (if \<not> ipv4 \<and> is_ipv4_str addr
      then (let ip = fst (splitn2 CHR '':'' addr) in str_replace ip (ip @ ''.nip.io'') addr)
      else addr)"

section \<open>Lemmas\<close>

lemma split_bracket_none: "CHR '']'' \<notin> set s \<Longrightarrow> split_bracket s = [s]"
  by (induction s rule: split_bracket.induct) auto

lemma join_split_bracket: "join_with '']:'' (split_bracket s) = s"
proof (induction s rule: split_bracket.induct)
  case (3 x y s)
  have ne: "split_bracket t \<noteq> []" for t by (induction t rule: split_bracket.induct) (auto split: list.split)
  have cons: "ls \<noteq> [] \<Longrightarrow> join_with sep ([] # ls) = sep @ join_with sep ls" for sep and ls :: "string list" by (cases ls) auto
  show ?case
  proof (cases "x = CHR '']'' \<and> y = CHR '':''")
    case True
    then show ?thesis using 3(1) cons [OF ne] by simp
  next
    case False
    obtain a as where "split_bracket (y # s) = a # as" using ne by (meson neq_Nil_conv)
    then show ?thesis using 3(2) False by (cases as) auto
  qed
qed auto

lemma split_bracket_one:
  "CHR '']'' \<notin> set a \<Longrightarrow> CHR '']'' \<notin> set p \<Longrightarrow> split_bracket (a @ CHR '']'' # CHR '':'' # p) = [a, p]"
proof (induction a)
  case (Cons x a)
  then show ?case by (cases a) (auto simp: split_bracket_none)
qed (simp add: split_bracket_none)

lemma is_hex_not: "is_hex c \<Longrightarrow> c \<noteq> CHR ''['' \<and> c \<noteq> CHR '']'' \<and> c \<noteq> CHR '':'' \<and> c \<noteq> CHR ''-''"
  by (auto simp: is_hex_def is_digit_def)

lemma hex_groups_chars: "hex_groups gs \<Longrightarrow> g \<in> set gs \<Longrightarrow> c \<in> set g \<Longrightarrow> is_hex c"
  by (induction gs rule: hex_groups.induct) (auto simp: hex_group_def list_all_iff split: if_splits)

lemma hex_groups_last: "hex_groups gs \<Longrightarrow> hex_group (last gs)"
proof (induction gs rule: hex_groups.induct)
  case (3 g h gs)
  then show ?case by (cases "h = []") (auto split: if_splits)
qed auto

lemma ipv6_text_chars:
  assumes "ipv6_text s" "c \<in> set s"
  shows "is_hex c \<or> c = CHR '':''"
proof -
  have "c \<in> set (join_with [CHR '':''] (split_on CHR '':'' s))" using assms(2) by simp
  moreover have "c \<in> set (join_with x gs) \<Longrightarrow> c \<in> set x \<or> (\<exists>g \<in> set gs. c \<in> set g)" for x gs
    by (induction x gs rule: join_with.induct) auto
  ultimately show ?thesis using assms(1) hex_groups_chars by (fastforce simp: ipv6_text_def)
qed

lemma ipv6_text_no_bracket: "ipv6_text s \<Longrightarrow> CHR ''['' \<notin> set s \<and> CHR '']'' \<notin> set s"
  using ipv6_text_chars is_hex_not by fastforce

lemma starts_with_bracket: "starts_with s ''['' \<longleftrightarrow> (\<exists>t. s = CHR ''['' # t)"
  by (cases s) (auto simp: starts_with_def)

lemma show_nat_no: "\<not> is_digit c \<Longrightarrow> c \<notin> set (show_nat n)"
  using set_show_nat by blast

lemma show_port_digits: "0 \<le> p \<Longrightarrow> show_int p \<noteq> [] \<and> list_all is_digit (show_int p)"
  using set_show_nat by (auto simp: show_int_def list_all_iff)

lemma show_port_no: "0 \<le> p \<Longrightarrow> \<not> is_digit c \<Longrightarrow> c \<notin> set (show_int p)"
  by (simp add: show_int_def show_nat_no)

lemma parse_show_port: "0 \<le> p \<Longrightarrow> p \<le> int i32_max \<Longrightarrow> parse_port (show_int p) = p"
  by (simp add: parse_port_def show_int_def parse_signed_show_nat)

lemma wrap32_small: "- (2 ^ 31) \<le> n \<Longrightarrow> n < 2 ^ 31 \<Longrightarrow> wrap32 n = n"
  by (simp add: wrap32_def)

text \<open>A port of five digits is no group of an IPv6 address.\<close>

lemma show_nat_long: "10 ^ k \<le> n \<Longrightarrow> k < length (show_nat n)"
proof (induction k arbitrary: n)
  case (Suc k)
  have "10 ^ k \<le> n div 10" using Suc.prems by (simp add: less_eq_div_iff_mult_less_eq mult.commute)
  then have "k < length (show_nat (n div 10))" by (rule Suc.IH)
  moreover have "\<not> n < 10" using Suc.prems by (metis not_less one_le_numeral one_le_power order_trans mult_le_mono2 mult.right_neutral power_Suc)
  ultimately show ?case by (subst show_nat.simps) simp
qed simp

lemma show_port_long: "10000 \<le> p \<Longrightarrow> 4 < length (show_int p)"
  using show_nat_long [of 4 "nat p"] by (simp add: show_int_def)

lemma plain_port_not_ipv6:
  assumes "CHR '':'' \<notin> set h" "10000 \<le> p"
  shows "\<not> is_ipv6_str (h @ CHR '':'' # show_int p)"
proof -
  let ?s = "h @ CHR '':'' # show_int p"
  have colon: "CHR '':'' \<notin> set (show_int p)" using assms(2) by (intro show_port_no) (auto simp: is_digit_def)
  have parts: "split_on CHR '':'' ?s = [h, show_int p]" using assms(1) colon by simp
  have "\<not> ipv6_text ?s"
    using show_port_long [OF assms(2)] by (auto simp: ipv6_text_def parts hex_group_def)
  moreover have False if "split_bracket ?s = [CHR ''['' # i, d]" "ipv6_text i" for i d
  proof -
    have "?s = CHR ''['' # i @ CHR '']'' # CHR '':'' # d" using join_split_bracket [of ?s] that(1) by simp
    then have "length (filter (\<lambda>c. c = CHR '':'') ?s) = length (filter (\<lambda>c. c = CHR '':'') (CHR ''['' # i @ CHR '']'' # CHR '':'' # d))"
      by (rule arg_cong)
    moreover have "filter (\<lambda>c. c = CHR '':'') h = []" "filter (\<lambda>c. c = CHR '':'') (show_int p) = []"
      "filter (\<lambda>c. c = CHR '':'') i \<noteq> []"
      using assms(1) colon that(2) by (auto simp: filter_empty_conv ipv6_text_def)
    ultimately show False by simp
  qed
  ultimately show ?thesis by (auto simp: is_ipv6_str_def split: list.splits)
qed

lemma bracket_is_ipv6:
  assumes "ipv6_text i" "0 \<le> p"
  shows "is_ipv6_str (CHR ''['' # i @ CHR '']'' # CHR '':'' # show_int p)"
    "split_bracket (CHR ''['' # i @ CHR '']'' # CHR '':'' # show_int p) = [CHR ''['' # i, show_int p]"
proof -
  have "CHR '']'' \<notin> set (CHR ''['' # i)" "CHR '']'' \<notin> set (show_int p)"
    using ipv6_text_no_bracket [OF assms(1)] show_port_no [OF assms(2), of "CHR '']''"] by (auto simp: is_digit_def)
  from split_bracket_one [OF this]
  show b: "split_bracket (CHR ''['' # i @ CHR '']'' # CHR '':'' # show_int p) = [CHR ''['' # i, show_int p]" by simp
  show "is_ipv6_str (CHR ''['' # i @ CHR '']'' # CHR '':'' # show_int p)"
    using show_port_digits [OF assms(2)] assms(1) by (simp add: is_ipv6_str_def b)
qed

lemma is_ipv6_cases:
  assumes "is_ipv6_str s" "\<not> starts_with s ''[''"
  shows "ipv6_text s"
proof -
  have "starts_with s ''[''" if "split_bracket s = [CHR ''['' # i, d]" for i d
    using join_split_bracket [of s] that by (auto simp: starts_with_bracket)
  then show ?thesis using assms by (auto simp: is_ipv6_str_def split: list.splits)
qed

lemma digit_chars:
  "digit_char 0 = CHR ''0''"
  "digit_char 1 = CHR ''1''"
  "digit_char (Suc 0) = CHR ''1''"
  "digit_char 2 = CHR ''2''"
  "digit_char 3 = CHR ''3''"
  "digit_char 4 = CHR ''4''"
  "digit_char 5 = CHR ''5''"
  "digit_char 6 = CHR ''6''"
  "digit_char 7 = CHR ''7''"
  "digit_char 8 = CHR ''8''"
  "digit_char 9 = CHR ''9''"
  by (simp_all add: digit_char_def char_of_def bit_0)

text \<open>A host is left as it is, is put into brackets, or gets the port.\<close>

lemma check_port_cases:
  obtains (complete) "\<And>p. check_port h p = h" "CHR '':'' \<in> set h" "is_ipv6_str h \<longrightarrow> starts_with h ''[''"
  | (bracket) "ipv6_text h" "is_ipv6_str h" "\<not> starts_with h ''[''" "\<And>p. check_port h p = CHR ''['' # h @ CHR '']'' # CHR '':'' # show_int p"
  | (plain) "CHR '':'' \<notin> set h" "\<not> is_ipv6_str h" "\<And>p. check_port h p = h @ CHR '':'' # show_int p"
proof (cases "is_ipv6_str h")
  case True
  show ?thesis
  proof (cases "starts_with h ''[''")
    case br: True
    have "CHR '':'' \<in> set h"
      using True join_split_bracket [of h] by (auto simp: is_ipv6_str_def ipv6_text_def split: list.splits)
    then show ?thesis using True br complete by (simp add: check_port_def)
  next
    case False
    then show ?thesis using True bracket is_ipv6_cases [OF True False] by (simp add: check_port_def)
  qed
next
  case False
  then show ?thesis using complete plain by (cases "CHR '':'' \<in> set h") (simp_all add: check_port_def)
qed

lemma bracket_ops:
  assumes "ipv6_text i" "0 < p" "p \<le> int i32_max"
  defines "s \<equiv> CHR ''['' # i @ CHR '']'' # CHR '':'' # show_int p"
  shows "check_port s q = s" "split_host_port s = Some (CHR ''['' # i @ '']'', p)"
    "increase_port s k = CHR ''['' # i @ CHR '']'' # CHR '':'' # show_int (wrap32 (p + k))"
proof -
  have b: "is_ipv6_str s" "split_bracket s = [CHR ''['' # i, show_int p]" "starts_with s ''[''"
    using bracket_is_ipv6 [of i p] assms(1,2) by (simp_all add: s_def starts_with_bracket)
  have p: "parse_port (show_int p) = p" using parse_show_port assms(2,3) by simp
  show "check_port s q = s" using b by (simp add: check_port_def)
  show "split_host_port s = Some (CHR ''['' # i @ '']'', p)" using b p assms(2) by (simp add: split_host_port_def)
  show "increase_port s k = CHR ''['' # i @ CHR '']'' # CHR '':'' # show_int (wrap32 (p + k))"
    using b p assms(2) by (simp add: increase_port_def)
qed

lemma plain_ops:
  assumes "CHR '':'' \<notin> set h" "10000 \<le> p" "p \<le> int i32_max"
  defines "s \<equiv> h @ CHR '':'' # show_int p"
  shows "check_port s q = s" "split_host_port s = Some (h, p)" "increase_port s k = h @ CHR '':'' # show_int (wrap32 (p + k))"
proof -
  have "CHR '':'' \<notin> set (show_int p)" using assms(2) by (intro show_port_no) (auto simp: is_digit_def)
  then have b: "\<not> is_ipv6_str s" "split_on CHR '':'' s = [h, show_int p]" "CHR '':'' \<in> set s"
    using plain_port_not_ipv6 assms(1,2) by (simp_all add: s_def)
  have p: "parse_port (show_int p) = p" using parse_show_port assms(2,3) by simp
  show "check_port s q = s" using b by (simp add: check_port_def)
  show "split_host_port s = Some (h, p)" using b p assms(2) by (simp add: split_host_port_def)
  show "increase_port s k = h @ CHR '':'' # show_int (wrap32 (p + k))" using b p assms(2) by (simp add: increase_port_def)
qed

text \<open>
  A server given without a port gets the default port, which is read back from the result
  (an IPv6 address is put into brackets), is not added a second time, and is moved by
  \<open>increase_port\<close> as if the other port had been given at first.
\<close>

theorem check_port_default:
  assumes "10000 \<le> p" "p + k \<le> int i32_max" "10000 \<le> p + k" "p \<le> int i32_max" "check_port h p \<noteq> h"
  shows "check_port (check_port h p) q = check_port h p \<and>
    split_host_port (check_port h p) = Some (if is_ipv6_str h then ''['' @ h @ '']'' else h, p) \<and>
    increase_port (check_port h p) k = check_port h (p + k)"
proof -
  have w: "wrap32 (p + k) = p + k" using assms(2,3) by (intro wrap32_small) (auto simp: i32_max_def)
  show ?thesis
  proof (cases rule: check_port_cases [of h])
    case complete
    then show ?thesis using assms(5) by simp
  next
    case bracket
    then show ?thesis using bracket_ops [of h p] assms w by simp
  next
    case plain
    then show ?thesis using plain_ops [of h p] assms w by simp
  qed
qed

theorem check_port_default_witness:
  "check_port (check_port ''fe80::1'' 21116) 5 = ''[fe80::1]:21116'' \<and>
   increase_port (check_port ''fe80::1'' 21116) 1 = ''[fe80::1]:21117''"
proof -
  have e: "check_port ''fe80::1'' 21116 = ''[fe80::1]:21116''" "check_port ''fe80::1'' (21116 + 1) = ''[fe80::1]:21117''"
    by (simp_all add: check_port_def is_ipv6_str_def ipv6_text_def hex_group_def is_hex_def is_digit_def show_int_def show_nat.simps digit_chars starts_with_def)
  have "check_port (check_port ''fe80::1'' 21116) 5 = check_port ''fe80::1'' 21116 \<and>
    split_host_port (check_port ''fe80::1'' 21116) = Some (if is_ipv6_str ''fe80::1'' then ''['' @ ''fe80::1'' @ '']'' else ''fe80::1'', 21116) \<and>
    increase_port (check_port ''fe80::1'' 21116) 1 = check_port ''fe80::1'' (21116 + 1)"
    by (rule check_port_default) (simp_all add: e i32_max_def)
  then show ?thesis using e by simp
qed

text \<open>
  The relay server next to a rendezvous server has the same address whether the port is moved
  before or after the default ports have been added.
\<close>

lemma relay_address_agrees:
  "check_port (increase_port h 1) 21117 = check_port (increase_port (check_port h 21116) 1) 21117"
proof (cases rule: check_port_cases [of h])
  case bracket
  then have "increase_port h 1 = h" by (simp add: increase_port_def)
  then show ?thesis using bracket bracket_ops(3) [of h 21116 1] bracket_ops(1) [of h 21117 21117]
    by (simp add: i32_max_def wrap32_def)
next
  case plain
  then have "increase_port h 1 = h" by (simp add: increase_port_def)
  then show ?thesis using plain plain_ops(3) [of h 21116 1] plain_ops(1) [of h 21117 21117]
    by (simp add: i32_max_def wrap32_def)
qed simp

text \<open>A short name of hexadecimal digits with its port is taken for an IPv6 address.\<close>

lemma hex_name_taken_for_ipv6: "check_port ''cafe:443'' 21116 = ''[cafe:443]:21116''"
  by (simp add: check_port_def is_ipv6_str_def ipv6_text_def hex_group_def is_hex_def is_digit_def show_int_def show_nat.simps digit_chars starts_with_def)

end
