(* ===== verification/Client_Config.thy ===== *)
theory Client_Config
  imports Host_Port Rendezvous_Codec
begin

text \<open>
  The settings of the client, \<open>nat-client/src/config.rs\<close>: the global \<open>ClientConfig\<close> and
  the file it is saved to after every change, identity, login, forwarding rules, proxy
  settings.  The TOML and Base64 libraries, random numbers and the clock are arguments.
  Paths of files and the log are not modelled.
\<close>

section \<open>Data\<close>

record forward_rule =
  fr_id :: string
  fr_name :: string
  fr_peer_id :: string
  fr_target_host :: string
  fr_target_port :: u16
  fr_enabled :: bool

definition default_target_host :: string where "default_target_host = ''127.0.0.1''"

definition forward_rule_new :: "string \<Rightarrow> string \<Rightarrow> u16 \<Rightarrow> forward_rule" where
  "forward_rule_new new_id name target_port =
     \<lparr>fr_id = new_id, fr_name = name, fr_peer_id = [], fr_target_host = ''127.0.0.1'',
      fr_target_port = target_port, fr_enabled = True\<rparr>"

record client_config =
  cc_id :: string
  cc_uuid :: string
  cc_sk :: string
  cc_pk :: string
  cc_key_confirmed :: bool
  cc_host_keys_confirmed :: "string \<rightharpoonup> bool"
  cc_rendezvous_servers :: string
  cc_wire_protocol :: protocol
  cc_relay_server :: string
  cc_ipc_port :: u16
  cc_direct_listen_port :: u16
  cc_nat_type :: int
  cc_api_url :: string
  cc_auth_token :: string
  cc_auth_token_expires :: int
  cc_auth_user_id :: int
  cc_auth_username :: string
  cc_auth_role :: string
  cc_auth_device_row_id :: int
  cc_forward_rules :: "forward_rule list"
  cc_language :: string
  cc_dark_mode :: bool
  cc_socks5_enabled :: bool
  cc_socks5_port :: u16
  cc_socks5_exit_peer :: string
  cc_http_proxy_enabled :: bool
  cc_http_proxy_port :: u16

text \<open>The derived \<open>Default\<close>: every field has the default of its type.\<close>

definition config_default :: client_config where
  "config_default =
     \<lparr>cc_id = [], cc_uuid = [], cc_sk = [], cc_pk = [], cc_key_confirmed = False,
      cc_host_keys_confirmed = Map.empty, cc_rendezvous_servers = [], cc_wire_protocol = Proto3,
      cc_relay_server = [], cc_ipc_port = 0, cc_direct_listen_port = 0, cc_nat_type = 0, cc_api_url = [],
      cc_auth_token = [], cc_auth_token_expires = 0, cc_auth_user_id = 0, cc_auth_username = [],
      cc_auth_role = [], cc_auth_device_row_id = 0, cc_forward_rules = [], cc_language = [],
      cc_dark_mode = False, cc_socks5_enabled = False, cc_socks5_port = 0, cc_socks5_exit_peer = [],
      cc_http_proxy_enabled = False, cc_http_proxy_port = 0\<rparr>"

text \<open>The defaults that \<open>serde\<close> uses for a key that the file does not have.\<close>

definition default_language :: string where "default_language = ''zh''"
definition default_ipc_port :: u16 where "default_ipc_port = 21114"
definition default_socks5_port :: u16 where "default_socks5_port = 1080"
definition default_http_proxy_port :: u16 where "default_http_proxy_port = 8118"

section \<open>Loading and saving\<close>

text \<open>\<open>toml::from_str\<close>, \<open>toml::to_string_pretty\<close>, whether the file can be created, and Base64.\<close>

record client_env =
  ce_toml_from :: "string \<Rightarrow> client_config option"
  ce_toml_to :: "client_config \<Rightarrow> string option"
  ce_writable :: bool
  ce_base64_encode :: "bytes \<Rightarrow> string"
  ce_base64_decode :: "string \<Rightarrow> bytes option"

record client_store =
  st_config :: client_config
  st_file :: "string option"

definition config_load :: "client_env \<Rightarrow> string option \<Rightarrow> client_config" where
  "config_load ce file =
     (case file of
        Some s \<Rightarrow> (case ce_toml_from ce s of Some cfg \<Rightarrow> cfg | None \<Rightarrow> config_default)
      | None \<Rightarrow> config_default)"

definition config_save :: "client_env \<Rightarrow> client_config \<Rightarrow> string option \<Rightarrow> string option" where
  "config_save ce cfg file =
     (case ce_toml_to ce cfg of Some s \<Rightarrow> if ce_writable ce then Some s else file | None \<Rightarrow> file)"

definition store_open :: "client_env \<Rightarrow> string option \<Rightarrow> client_store" where
  "store_open ce file = \<lparr>st_config = config_load ce file, st_file = file\<rparr>"

definition config_update :: "client_env \<Rightarrow> (client_config \<Rightarrow> client_config) \<Rightarrow> client_store \<Rightarrow> client_store" where
  "config_update ce f st =
     (let cfg = f (st_config st) in \<lparr>st_config = cfg, st_file = config_save ce cfg (st_file st)\<rparr>)"

section \<open>Reading and writing settings\<close>

definition get_id :: "client_store \<Rightarrow> string" where
  "get_id st = cc_id (st_config st)"

definition set_id :: "client_env \<Rightarrow> string \<Rightarrow> client_store \<Rightarrow> client_store" where
  "set_id ce i = config_update ce (\<lambda>c. c\<lparr>cc_id := i\<rparr>)"

definition get_uuid_bytes :: "client_env \<Rightarrow> client_store \<Rightarrow> bytes" where
  "get_uuid_bytes ce st = (case ce_base64_decode ce (cc_uuid (st_config st)) of Some b \<Rightarrow> b | None \<Rightarrow> [])"

definition get_key_pair :: "client_env \<Rightarrow> client_store \<Rightarrow> bytes \<times> bytes" where
  "get_key_pair ce st =
     (let dec = (\<lambda>s. case ce_base64_decode ce s of Some b \<Rightarrow> b | None \<Rightarrow> [])
      in (dec (cc_sk (st_config st)), dec (cc_pk (st_config st))))"

definition get_key_confirmed :: "client_store \<Rightarrow> bool" where
  "get_key_confirmed st = cc_key_confirmed (st_config st)"

definition set_key_confirmed :: "client_env \<Rightarrow> bool \<Rightarrow> client_store \<Rightarrow> client_store" where
  "set_key_confirmed ce v = config_update ce (\<lambda>c. c\<lparr>cc_key_confirmed := v\<rparr>)"

definition get_host_key_confirmed :: "string \<Rightarrow> client_store \<Rightarrow> bool" where
  "get_host_key_confirmed prefix st = (case cc_host_keys_confirmed (st_config st) prefix of Some v \<Rightarrow> v | None \<Rightarrow> False)"

definition set_host_key_confirmed :: "client_env \<Rightarrow> string \<Rightarrow> bool \<Rightarrow> client_store \<Rightarrow> client_store" where
  "set_host_key_confirmed ce prefix v =
     config_update ce (\<lambda>c. c\<lparr>cc_host_keys_confirmed := (cc_host_keys_confirmed c)(prefix \<mapsto> v)\<rparr>)"

definition get_rendezvous_servers :: "client_store \<Rightarrow> string list" where
  "get_rendezvous_servers st =
     map trim (filter (\<lambda>s. trim s \<noteq> []) (split_on CHR '','' (cc_rendezvous_servers (st_config st))))"

definition get_rendezvous_wire_protocol :: "client_store \<Rightarrow> protocol" where
  "get_rendezvous_wire_protocol st = cc_wire_protocol (st_config st)"

definition config_relay_server :: "client_store \<Rightarrow> string" where
  "config_relay_server st = cc_relay_server (st_config st)"

definition get_nat_type :: "client_store \<Rightarrow> int" where
  "get_nat_type st = cc_nat_type (st_config st)"

definition set_nat_type :: "client_env \<Rightarrow> int \<Rightarrow> client_store \<Rightarrow> client_store" where
  "set_nat_type ce t = config_update ce (\<lambda>c. c\<lparr>cc_nat_type := t\<rparr>)"

text \<open>The token of the login; \<open>now\<close> is the time in seconds.\<close>

definition get_auth_token :: "int \<Rightarrow> client_store \<Rightarrow> string option" where
  "get_auth_token now st =
     (let cfg = st_config st in
      if cc_auth_token cfg = [] then None
      else if 0 < cc_auth_token_expires cfg \<and> cc_auth_token_expires cfg - 30 \<le> now then None
      else Some (cc_auth_token cfg))"

definition is_logged_in :: "int \<Rightarrow> client_store \<Rightarrow> bool" where
  "is_logged_in now st \<longleftrightarrow> get_auth_token now st \<noteq> None"

definition save_login ::
    "client_env \<Rightarrow> string \<Rightarrow> int \<Rightarrow> int \<Rightarrow> string \<Rightarrow> string \<Rightarrow> int \<Rightarrow> client_store \<Rightarrow> client_store" where
  "save_login ce token expires user_id username role device_row_id =
     config_update ce (\<lambda>c. c\<lparr>cc_auth_token := token, cc_auth_token_expires := expires, cc_auth_user_id := user_id,
       cc_auth_username := username, cc_auth_role := role, cc_auth_device_row_id := device_row_id\<rparr>)"

definition clear_login :: "client_env \<Rightarrow> client_store \<Rightarrow> client_store" where
  "clear_login ce =
     config_update ce (\<lambda>c. c\<lparr>cc_auth_token := [], cc_auth_token_expires := 0, cc_auth_user_id := 0,
       cc_auth_username := [], cc_auth_role := [], cc_auth_device_row_id := 0\<rparr>)"

definition get_api_url :: "client_store \<Rightarrow> string" where
  "get_api_url st =
     (if cc_api_url (st_config st) \<noteq> [] then cc_api_url (st_config st)
      else (case get_rendezvous_servers st of
              first # _ \<Rightarrow>
                let host = (if CHR '':'' \<in> set first then hd (split_on CHR '':'' first) else first)
                in ''http://'' @ host @ '':8080''
            | [] \<Rightarrow> []))"

definition set_api_url :: "client_env \<Rightarrow> string \<Rightarrow> client_store \<Rightarrow> client_store" where
  "set_api_url ce url = config_update ce (\<lambda>c. c\<lparr>cc_api_url := url\<rparr>)"

definition set_language :: "client_env \<Rightarrow> string \<Rightarrow> client_store \<Rightarrow> client_store" where
  "set_language ce lang = config_update ce (\<lambda>c. c\<lparr>cc_language := lang\<rparr>)"

definition set_dark_mode :: "client_env \<Rightarrow> bool \<Rightarrow> client_store \<Rightarrow> client_store" where
  "set_dark_mode ce dark = config_update ce (\<lambda>c. c\<lparr>cc_dark_mode := dark\<rparr>)"

definition get_socks5_config :: "client_store \<Rightarrow> bool \<times> u16 \<times> string" where
  "get_socks5_config st =
     (cc_socks5_enabled (st_config st), cc_socks5_port (st_config st), cc_socks5_exit_peer (st_config st))"

definition get_http_proxy_config :: "client_store \<Rightarrow> bool \<times> u16" where
  "get_http_proxy_config st = (cc_http_proxy_enabled (st_config st), cc_http_proxy_port (st_config st))"

section \<open>Forwarding rules\<close>

definition get_rules :: "client_store \<Rightarrow> forward_rule list" where
  "get_rules st = cc_forward_rules (st_config st)"

definition add_rule :: "client_env \<Rightarrow> forward_rule \<Rightarrow> client_store \<Rightarrow> client_store" where
  "add_rule ce rule =
     config_update ce (\<lambda>c.
       if list_ex (\<lambda>r. fr_name r = fr_name rule \<and> fr_target_port r = fr_target_port rule) (cc_forward_rules c) then c
       else c\<lparr>cc_forward_rules := cc_forward_rules c @ [rule]\<rparr>)"

definition remove_rule :: "client_env \<Rightarrow> string \<Rightarrow> client_store \<Rightarrow> client_store" where
  "remove_rule ce rule_id =
     config_update ce (\<lambda>c. c\<lparr>cc_forward_rules := filter (\<lambda>r. fr_id r \<noteq> rule_id) (cc_forward_rules c)\<rparr>)"

definition find_target_for_peer :: "string \<Rightarrow> client_store \<Rightarrow> (string \<times> u16) option" where
  "find_target_for_peer peer_id st =
     (let enabled = filter fr_enabled (cc_forward_rules (st_config st)) in
      case find (\<lambda>r. fr_peer_id r \<noteq> [] \<and> fr_peer_id r = peer_id) enabled of
        Some r \<Rightarrow> Some (fr_target_host r, fr_target_port r)
      | None \<Rightarrow> map_option (\<lambda>r. (fr_target_host r, fr_target_port r)) (find (\<lambda>r. fr_peer_id r = []) enabled))"

section \<open>Start\<close>

text \<open>\<open>{:09}\<close>.\<close>

definition generate_id :: "u32 \<Rightarrow> u32 \<Rightarrow> string" where
  "generate_id random t =
     (let s = show_nat (unat (xor random t) mod 1000000000) in replicate (9 - length s) (CHR ''0'') @ s)"

text \<open>What a start generates: two random numbers, the bytes of a UUID, a key pair (public, secret).\<close>

record client_fresh =
  cf_random :: u32
  cf_nanos :: u32
  cf_uuid :: bytes
  cf_keys :: "bytes \<times> bytes"

definition init_identity :: "client_env \<Rightarrow> client_fresh \<Rightarrow> string option \<Rightarrow> client_config \<Rightarrow> client_config" where
  "init_identity ce fr id_override cfg =
     (let cfg1 = (case id_override of Some i \<Rightarrow> cfg\<lparr>cc_id := i\<rparr> | None \<Rightarrow> cfg);
          cfg2 = (if cc_id cfg1 = [] then cfg1\<lparr>cc_id := generate_id (cf_random fr) (cf_nanos fr)\<rparr> else cfg1);
          cfg3 = (if cc_uuid cfg2 = [] then cfg2\<lparr>cc_uuid := ce_base64_encode ce (cf_uuid fr)\<rparr> else cfg2)
      in if cc_sk cfg3 = [] \<or> cc_pk cfg3 = []
         then cfg3\<lparr>cc_sk := ce_base64_encode ce (snd (cf_keys fr)), cc_pk := ce_base64_encode ce (fst (cf_keys fr)),
                   cc_key_confirmed := False\<rparr>
         else cfg3)"

definition client_init ::
    "client_env \<Rightarrow> client_fresh \<Rightarrow> string option \<Rightarrow> string option \<Rightarrow> string option \<Rightarrow> u16 option \<Rightarrow> protocol option
      \<Rightarrow> client_store \<Rightarrow> client_store" where
  "client_init ce fr rendezvous_servers relay_server id_override ipc_port rendezvous_wire =
     config_update ce (\<lambda>cfg.
       let cfg1 = (case rendezvous_servers of Some s \<Rightarrow> cfg\<lparr>cc_rendezvous_servers := s\<rparr> | None \<Rightarrow> cfg);
           cfg2 = (case relay_server of Some s \<Rightarrow> cfg1\<lparr>cc_relay_server := s\<rparr> | None \<Rightarrow> cfg1);
           cfg3 = (case ipc_port of Some p \<Rightarrow> cfg2\<lparr>cc_ipc_port := p\<rparr> | None \<Rightarrow> cfg2);
           cfg4 = (case rendezvous_wire of Some w \<Rightarrow> cfg3\<lparr>cc_wire_protocol := w\<rparr> | None \<Rightarrow> cfg3)
       in init_identity ce fr id_override cfg4)"

section \<open>Lemmas\<close>

lemma config_update_simps [simp]:
  "st_config (config_update ce f st) = f (st_config st)"
  "st_file (config_update ce f st) = config_save ce (f (st_config st)) (st_file st)"
  by (simp_all add: config_update_def Let_def)

lemma length_show_nat_le: "n < 10 ^ k \<Longrightarrow> 0 < k \<Longrightarrow> length (show_nat n) \<le> k"
proof (induction k arbitrary: n)
  case (Suc k)
  show ?case
  proof (cases "n < 10")
    case False
    then have "0 < k" using Suc.prems(1) by (cases k) auto
    moreover have "n div 10 < 10 ^ k" using Suc.prems(1) by (simp add: less_mult_imp_div_less mult.commute)
    ultimately have "length (show_nat (n div 10)) \<le> k" by (rule Suc.IH [rotated])
    then show ?thesis using False by (subst show_nat.simps) simp
  qed (subst show_nat.simps, simp)
qed simp

text \<open>A generated identifier has nine digits.\<close>

lemma generate_id_digits: "length (generate_id r t) = 9 \<and> list_all is_digit (generate_id r t)"
proof -
  have "length (show_nat (unat (xor r t) mod 1000000000)) \<le> 9" by (rule length_show_nat_le) simp_all
  moreover have "is_digit CHR ''0''" by (simp add: is_digit_def)
  ultimately show ?thesis using set_show_nat by (auto simp: generate_id_def Let_def list_all_iff)
qed

text \<open>The identity of a client, and when it is complete.\<close>

definition identity :: "client_config \<Rightarrow> string \<times> string \<times> string \<times> string" where
  "identity c = (cc_id c, cc_uuid c, cc_sk c, cc_pk c)"

definition complete :: "client_config \<Rightarrow> bool" where
  "complete c \<longleftrightarrow> cc_id c \<noteq> [] \<and> cc_uuid c \<noteq> [] \<and> cc_sk c \<noteq> [] \<and> cc_pk c \<noteq> []"

lemma init_identity_complete:
  assumes "\<And>b. b \<noteq> [] \<Longrightarrow> ce_base64_encode ce b \<noteq> []" "cf_uuid fr \<noteq> []" "fst (cf_keys fr) \<noteq> []" "snd (cf_keys fr) \<noteq> []"
  shows "complete (init_identity ce fr i c)"
proof -
  have "generate_id r t \<noteq> []" for r t using generate_id_digits [of r t] by auto
  then show ?thesis using assms by (auto simp: init_identity_def complete_def Let_def split: option.split)
qed

lemma init_identity_keeps: "complete c \<Longrightarrow> init_identity ce fr None c = c"
  by (simp add: init_identity_def complete_def)

lemma client_init_config:
  "st_config (client_init ce fr srv rel i ipc wire st) =
     init_identity ce fr i
       ((st_config st)\<lparr>cc_rendezvous_servers := (case srv of Some s \<Rightarrow> s | None \<Rightarrow> cc_rendezvous_servers (st_config st)),
          cc_relay_server := (case rel of Some s \<Rightarrow> s | None \<Rightarrow> cc_relay_server (st_config st)),
          cc_ipc_port := (case ipc of Some p \<Rightarrow> p | None \<Rightarrow> cc_ipc_port (st_config st)),
          cc_wire_protocol := (case wire of Some w \<Rightarrow> w | None \<Rightarrow> cc_wire_protocol (st_config st))\<rparr>)"
  by (simp add: client_init_def Let_def split: option.split)

section \<open>Properties\<close>



text \<open>
  What an incoming connection is forwarded to: a peer with an enabled rule of its own gets the
  first of these rules, every other peer the first enabled rule without a peer, or nothing.
\<close>

lemma find_target_for_peer_cases:
  obtains (own) r where "r \<in> set (get_rules st)" "fr_enabled r" "fr_peer_id r = peer_id" "peer_id \<noteq> []"
      "find_target_for_peer peer_id st = Some (fr_target_host r, fr_target_port r)"
  | (any) r where "r \<in> set (get_rules st)" "fr_enabled r" "fr_peer_id r = []"
      "\<And>r'. r' \<in> set (get_rules st) \<Longrightarrow> fr_enabled r' \<Longrightarrow> fr_peer_id r' \<noteq> [] \<Longrightarrow> fr_peer_id r' \<noteq> peer_id"
      "find_target_for_peer peer_id st = Some (fr_target_host r, fr_target_port r)"
  | (none) "find_target_for_peer peer_id st = None" "\<And>r. r \<in> set (get_rules st) \<Longrightarrow> fr_enabled r \<Longrightarrow> fr_peer_id r \<noteq> [] \<and> fr_peer_id r \<noteq> peer_id"
proof -
  let ?en = "filter fr_enabled (get_rules st)"
  have D: "x \<in> set xs \<and> P x" if "find P xs = Some x" for P and x :: forward_rule and xs
    using that by (metis find_Some_iff nth_mem)
  show thesis
  proof (cases "find (\<lambda>r. fr_peer_id r \<noteq> [] \<and> fr_peer_id r = peer_id) ?en")
    case (Some r)
    then show ?thesis using D [OF Some] by (intro own [of r]) (auto simp: find_target_for_peer_def get_rules_def Let_def)
  next
    case n: None
    show ?thesis
    proof (cases "find (\<lambda>r. fr_peer_id r = []) ?en")
      case (Some r)
      then have "find_target_for_peer peer_id st = Some (fr_target_host r, fr_target_port r)"
        using n by (simp add: find_target_for_peer_def get_rules_def Let_def)
      then show ?thesis using n D [OF Some] by (intro any [of r]) (auto simp: find_None_iff)
    next
      case None
      then have "find_target_for_peer peer_id st = None"
        using n by (simp add: find_target_for_peer_def get_rules_def Let_def)
      then show ?thesis using n None by (intro none) (auto simp: find_None_iff)
    qed
  qed
qed

lemma add_rule_again: "st_config (add_rule ce r (add_rule ce r st)) = st_config (add_rule ce r st)"
  by (simp add: add_rule_def list_ex_iff)

text \<open>No two rules have the same name and port; adding and removing rules keep this.\<close>

definition rules_distinct :: "client_store \<Rightarrow> bool" where
  "rules_distinct st \<longleftrightarrow> distinct (map (\<lambda>r. (fr_name r, fr_target_port r)) (get_rules st))"

lemma add_rule_distinct: "rules_distinct st \<Longrightarrow> rules_distinct (add_rule ce r st)"
  by (auto simp: rules_distinct_def get_rules_def add_rule_def list_ex_iff)

lemma remove_rule_distinct: "rules_distinct st \<Longrightarrow> rules_distinct (remove_rule ce i st)"
  by (simp add: rules_distinct_def get_rules_def remove_rule_def distinct_map_filter)

end
