(* ===== verification/Socks5_Proxy.thy ===== *)
theory Socks5_Proxy
  imports Client_Config Rendezvous_Msg
begin

text \<open>
  The local proxy of the client, \<open>nat-client/src/socks5.rs\<close>: recognition of SOCKS5 and
  HTTP CONNECT, the two handshakes, and the request for a relay to the exit peer; with
  the part of \<open>rendezvous_mediator.rs\<close> that reads the target on the other side.  What
  comes from the local application is a list of bytes, and its end is the end of the
  connection.  The URL-safe Base64 of the \<open>base64\<close> crate is an argument.  Writing to
  the application is taken to succeed.
\<close>

section \<open>Bytes and texts\<close>

definition str_bytes :: "string \<Rightarrow> bytes" where
  "str_bytes s = map (\<lambda>c. word_of_nat (of_char c)) s"

definition bytes_str :: "bytes \<Rightarrow> string" where
  "bytes_str bs = map (\<lambda>b. char_of (unat b)) bs"

text \<open>
  UTF-8: whether a sequence begins with a character, and how many bytes the character
  or the invalid part at the beginning has.
\<close>

definition is_cont :: "bytes \<Rightarrow> nat \<Rightarrow> nat \<Rightarrow> nat \<Rightarrow> bool" where
  "is_cont bs i lo hi \<longleftrightarrow> i < length bs \<and> lo \<le> unat (bs ! i) \<and> unat (bs ! i) \<le> hi"

definition utf8_step :: "bytes \<Rightarrow> bool \<times> nat" where
  "utf8_step bs =
     (let b = unat (bs ! 0);
          second = (if b = 0xE0 then is_cont bs 1 0xA0 0xBF else if b = 0xED then is_cont bs 1 0x80 0x9F
            else if b = 0xF0 then is_cont bs 1 0x90 0xBF else if b = 0xF4 then is_cont bs 1 0x80 0x8F
            else is_cont bs 1 0x80 0xBF)
      in if b < 0x80 then (True, 1)
         else if b < 0xC2 \<or> 0xF4 < b \<or> \<not> second then (False, 1)
         else if b < 0xE0 then (True, 2)
         else if \<not> is_cont bs 2 0x80 0xBF then (False, 2)
         else if b < 0xF0 then (True, 3)
         else if \<not> is_cont bs 3 0x80 0xBF then (False, 3)
         else (True, 4))"

lemma utf8_step_pos: "0 < snd (utf8_step bs)"
  by (simp add: utf8_step_def Let_def)

fun utf8_valid :: "bytes \<Rightarrow> bool" where
  "utf8_valid [] = True"
| "utf8_valid (b # bs) =
     (case utf8_step (b # bs) of (ok, n) \<Rightarrow> ok \<and> utf8_valid (drop (n - 1) bs))"

definition from_utf8 :: "bytes \<Rightarrow> string option" where
  "from_utf8 bs = (if utf8_valid bs then Some (bytes_str bs) else None)"

text \<open>\<open>from_utf8_lossy\<close> puts U+FFFD in the place of each invalid part.\<close>

fun from_utf8_lossy :: "bytes \<Rightarrow> string" where
  "from_utf8_lossy [] = []"
| "from_utf8_lossy (b # bs) =
     (case utf8_step (b # bs) of
        (ok, n) \<Rightarrow> (if ok then bytes_str (take n (b # bs)) else utf8 [0xEF, 0xBF, 0xBD]) @ from_utf8_lossy (drop (n - 1) bs))"

definition read_exact :: "nat \<Rightarrow> bytes \<Rightarrow> (bytes \<times> bytes) option" where
  "read_exact n inp = (if n \<le> length inp then Some (take n inp, drop n inp) else None)"

section \<open>The relay\<close>

text \<open>
  What a client does on the network: connect, send a message or raw bytes as one frame
  on a connection, connect to the target of a proxy request, try to connect to another
  client to open its own NAT, and the two sides of a KCP handshake.
\<close>

datatype client_io =
    Connect string
  | SendMsg string rendezvous_message protocol
  | SendRaw string bytes
  | Dial string
  | Syn socket_addr
  | KcpAccept socket_addr
  | KcpConnect socket_addr

text \<open>Actions are done in turn; the first one that fails ends the sequence.\<close>

fun perform :: "(client_io \<Rightarrow> bool) \<Rightarrow> client_io list \<Rightarrow> client_io list \<times> client_io option" where
  "perform ok [] = ([], None)"
| "perform ok (a # as) =
     (if ok a then (case perform ok as of (done', failed) \<Rightarrow> (a # done', failed)) else ([a], Some a))"

datatype proxy_error =
    UnexpectedEof
  | LineTooLong
  | BadVersion u8
  | BadCommand u8
  | BadAddressType u8
  | BadDomain
  | BadMethod
  | SlicePanic
  | BadRequestLine
  | NoServers
  | IoFailed client_io

record proxy_env =
  pv_store :: client_store
  pv_version :: string
  pv_b64_encode :: "bytes \<Rightarrow> string"
  pv_b64_decode :: "string \<Rightarrow> bytes option"
  pv_random :: bytes
  pv_ok :: "client_io \<Rightarrow> bool"

definition RENDEZVOUS_PORT :: int where "RENDEZVOUS_PORT = 21116"

definition hex2 :: "u8 \<Rightarrow> string" where
  "hex2 b = [hex_digit (unat b div 16), hex_digit (unat b mod 16)]"

definition proxy_uuid :: "proxy_env \<Rightarrow> string \<Rightarrow> u16 \<Rightarrow> string" where
  "proxy_uuid px target_host target_port =
     (let target_encoded = pv_b64_encode px (str_bytes (target_host @ '':'' @ show_nat (unat target_port)));
          hex8 = concat (map hex2 (take 4 (pv_random px)))
      in ''proxy:'' @ target_encoded @ '':'' @ hex8)"

definition relay_handshake :: "string \<Rightarrow> bytes" where
  "relay_handshake uuid = word_of_nat (length uuid) # str_bytes uuid"

definition proxy_relay_response :: "proxy_env \<Rightarrow> string \<Rightarrow> string \<Rightarrow> string \<Rightarrow> relay_response" where
  "proxy_relay_response px exit_peer uuid relay_server =
     \<lparr>rres_socket_addr = [], rres_uuid = uuid, rres_relay_server = relay_server, rres_union = Some (UnionId exit_peer),
      rres_refuse_reason = [], rres_version = pv_version px, rres_feedback = 0, rres_socket_addr_v6 = [], rres_upnp_port = 0\<rparr>"

definition connect_via_relay ::
    "proxy_env \<Rightarrow> string \<Rightarrow> string \<Rightarrow> u16 \<Rightarrow> client_io list \<times> (proxy_error + string)" where
  "connect_via_relay px exit_peer target_host target_port =
     (let uuid = proxy_uuid px target_host target_port; st = pv_store px in
      case get_rendezvous_servers st of
        [] \<Rightarrow> ([], Inl NoServers)
      | server # _ \<Rightarrow>
          let hbbs_addr = check_port server RENDEZVOUS_PORT;
              relay_server = (if config_relay_server st \<noteq> [] then config_relay_server st else increase_port server 1);
              relay_addr = check_port relay_server (RENDEZVOUS_PORT + 1)
          in (case perform (pv_ok px)
                 [Connect hbbs_addr,
                  SendMsg hbbs_addr (Some (RelayResponse (proxy_relay_response px exit_peer uuid relay_server)))
                    (get_rendezvous_wire_protocol st),
                  Connect relay_addr,
                  SendRaw relay_addr (relay_handshake uuid)] of
                (io, None) \<Rightarrow> (io, Inr uuid)
              | (io, Some a) \<Rightarrow> (io, Inl (IoFailed a))))"

section \<open>Handshakes\<close>

text \<open>What is written to the application, what is done on the network, and the error or the relay and the unread bytes.\<close>

record proxy_result =
  pr_written :: bytes
  pr_io :: "client_io list"
  pr_result :: "proxy_error + string \<times> bytes"

definition proxy_fail :: "bytes \<Rightarrow> proxy_error \<Rightarrow> proxy_result" where
  "proxy_fail w e = \<lparr>pr_written = w, pr_io = [], pr_result = Inl e\<rparr>"

definition parse_socks5_addr :: "u8 \<Rightarrow> bytes \<Rightarrow> proxy_error + (string \<times> u16) \<times> bytes" where
  "parse_socks5_addr atyp inp =
     (case
        (if atyp = 1 then
           (case read_exact 4 inp of
              None \<Rightarrow> Inl UnexpectedEof
            | Some (ip, r) \<Rightarrow> Inr (join_with ''.'' (map (\<lambda>b. show_nat (unat b)) ip), r))
         else if atyp = 3 then
           (case read_exact 1 inp of
              None \<Rightarrow> Inl UnexpectedEof
            | Some (len, r) \<Rightarrow>
                (case read_exact (unat (hd len)) r of
                   None \<Rightarrow> Inl UnexpectedEof
                 | Some (domain, r') \<Rightarrow>
                     (case from_utf8 domain of None \<Rightarrow> Inl BadDomain | Some d \<Rightarrow> Inr (d, r'))))
         else if atyp = 4 then
           (case read_exact 16 inp of
              None \<Rightarrow> Inl UnexpectedEof
            | Some (ip, r) \<Rightarrow> Inr (join_with '':'' (map (\<lambda>i. hex2 (ip ! (2 * i)) @ hex2 (ip ! (2 * i + 1))) [0..<8]), r))
         else Inl (BadAddressType atyp)) of
        Inl e \<Rightarrow> Inl e
      | Inr (host, r) \<Rightarrow>
          (case read_exact 2 r of
             None \<Rightarrow> Inl UnexpectedEof
           | Some (port, r') \<Rightarrow> Inr ((host, from_be_bytes port), r')))"

definition SOCKS5_METHOD :: bytes where "SOCKS5_METHOD = [5, 0]"
definition socks5_reply :: "u8 \<Rightarrow> bytes" where "socks5_reply code = [5, code, 0, 1, 0, 0, 0, 0, 0, 0]"

definition handle_socks5 :: "proxy_env \<Rightarrow> string \<Rightarrow> bytes \<Rightarrow> proxy_result" where
  "handle_socks5 px exit_peer inp =
     (case read_exact 1 inp of
        None \<Rightarrow> proxy_fail [] UnexpectedEof
      | Some (nmethods, r1) \<Rightarrow>
          (case read_exact (unat (hd nmethods)) r1 of
             None \<Rightarrow> proxy_fail [] UnexpectedEof
           | Some (_, r2) \<Rightarrow>
               (case read_exact 4 r2 of
                  None \<Rightarrow> proxy_fail SOCKS5_METHOD UnexpectedEof
                | Some (req_header, r3) \<Rightarrow>
                    let ver = req_header ! 0; cmd = req_header ! 1; atyp = req_header ! 3 in
                    if ver \<noteq> 5 then proxy_fail SOCKS5_METHOD (BadVersion ver)
                    else if cmd \<noteq> 1 then proxy_fail (SOCKS5_METHOD @ socks5_reply 7) (BadCommand cmd)
                    else (case parse_socks5_addr atyp r3 of
                            Inl e \<Rightarrow> proxy_fail SOCKS5_METHOD e
                          | Inr ((target_host, target_port), r4) \<Rightarrow>
                              (case connect_via_relay px exit_peer target_host target_port of
                                 (io, Inr uuid) \<Rightarrow>
                                   \<lparr>pr_written = SOCKS5_METHOD @ socks5_reply 0, pr_io = io, pr_result = Inr (uuid, r4)\<rparr>
                               | (io, Inl e) \<Rightarrow>
                                   \<lparr>pr_written = SOCKS5_METHOD @ socks5_reply 5, pr_io = io, pr_result = Inl e\<rparr>)))))"

text \<open>The rest of the request header, up to \<open>CR LF CR LF\<close>; \<open>tail\<close> holds the last four bytes.\<close>

definition CRLF :: bytes where "CRLF = [13, 10]"

fun skip_headers :: "bytes \<Rightarrow> bytes \<Rightarrow> bytes option" where
  "skip_headers tail [] = None"
| "skip_headers tail (b # inp) =
     (let tail' = tl tail @ [b] in if tail' = CRLF @ CRLF then Some inp else skip_headers tail' inp)"

definition trim_end :: "string \<Rightarrow> string" where
  "trim_end s = rev (dropWhile is_space (rev s))"

text \<open>\<open>splitn(3, ' ')\<close>: the second part, if there is one.\<close>

definition second_word :: "string \<Rightarrow> string option" where
  "second_word s = map_option (\<lambda>r. fst (splitn2 CHR '' '' r)) (snd (splitn2 CHR '' '' s))"

text \<open>\<open>rfind\<close> of a colon, and the texts on both sides.\<close>

definition rsplit_colon :: "string \<Rightarrow> (string \<times> string) option" where
  "rsplit_colon s =
     (case splitn2 CHR '':'' (rev s) of (b, Some a) \<Rightarrow> Some (rev a, rev b) | (_, None) \<Rightarrow> None)"

definition http_target :: "string \<Rightarrow> string \<times> u16" where
  "http_target host_port =
     (case rsplit_colon host_port of
        Some (h, p) \<Rightarrow> (h, case parse_unsigned 65535 p of Some n \<Rightarrow> word_of_nat n | None \<Rightarrow> 80)
      | None \<Rightarrow> (host_port, 80))"

text \<open>Cutting a text within a character is a panic.\<close>

definition char_boundary :: "string \<Rightarrow> nat \<Rightarrow> bool" where
  "char_boundary s i \<longleftrightarrow> length s \<le> i \<or> \<not> (128 \<le> (of_char (s ! i) :: nat) \<and> (of_char (s ! i) :: nat) < 192)"

definition HTTP_OK :: bytes where "HTTP_OK = str_bytes ''HTTP/1.1 200 Connection established'' @ CRLF @ CRLF"
definition HTTP_BAD_GATEWAY :: bytes where "HTTP_BAD_GATEWAY = str_bytes ''HTTP/1.1 502 Bad Gateway'' @ CRLF @ CRLF"

definition handle_http_connect :: "proxy_env \<Rightarrow> string \<Rightarrow> string \<Rightarrow> bytes \<Rightarrow> proxy_result" where
  "handle_http_connect px exit_peer first_line0 inp =
     (let first_line = trim_end first_line0 in
      if \<not> starts_with (to_uppercase first_line) ''CONNECT '' then
        proxy_fail [] (if char_boundary first_line (min (length first_line) 20) then BadMethod else SlicePanic)
      else (case skip_headers [0, 0, 0, 0] inp of
              None \<Rightarrow> proxy_fail [] UnexpectedEof
            | Some r \<Rightarrow>
                (case second_word first_line of
                   None \<Rightarrow> proxy_fail [] BadRequestLine
                 | Some host_port \<Rightarrow>
                     (case http_target host_port of
                        (host, port) \<Rightarrow>
                          (case connect_via_relay px exit_peer host port of
                             (io, Inr uuid) \<Rightarrow> \<lparr>pr_written = HTTP_OK, pr_io = io, pr_result = Inr (uuid, r)\<rparr>
                           | (io, Inl e) \<Rightarrow> \<lparr>pr_written = HTTP_BAD_GATEWAY, pr_io = io, pr_result = Inl e\<rparr>)))))"

text \<open>The first line, read byte by byte; \<open>line\<close> is what has been read.\<close>

fun read_request_line :: "bytes \<Rightarrow> bytes \<Rightarrow> proxy_error + bytes \<times> bytes" where
  "read_request_line line [] = Inl UnexpectedEof"
| "read_request_line line (b # inp) =
     (let line' = line @ [b] in
      if 2 \<le> length line' \<and> line' ! (length line' - 2) = 13 \<and> line' ! (length line' - 1) = 10 then Inr (line', inp)
      else if 8192 < length line' then Inl LineTooLong
      else read_request_line line' inp)"

definition proxy_handle_client :: "proxy_env \<Rightarrow> string \<Rightarrow> bytes \<Rightarrow> proxy_result" where
  "proxy_handle_client px exit_peer inp =
     (case inp of
        [] \<Rightarrow> proxy_fail [] UnexpectedEof
      | first # r \<Rightarrow>
          if first = 5 then handle_socks5 px exit_peer r
          else (case read_request_line [first] r of
                  Inl e \<Rightarrow> proxy_fail [] e
                | Inr (line, r') \<Rightarrow> handle_http_connect px exit_peer (from_utf8_lossy line) r'))"

section \<open>The exit peer\<close>

text \<open>\<open>handle_proxy_relay\<close>: the target in the UUID of a relay request.\<close>

definition proxy_target :: "(string \<Rightarrow> bytes option) \<Rightarrow> string \<Rightarrow> (string \<times> u16) option" where
  "proxy_target b64_decode uuid =
     (case snd (splitn2 CHR '':'' uuid) of
        None \<Rightarrow> None
      | Some r \<Rightarrow>
          (case b64_decode (fst (splitn2 CHR '':'' r)) of
             None \<Rightarrow> None
           | Some b \<Rightarrow>
               (case from_utf8 b of
                  None \<Rightarrow> None
                | Some target \<Rightarrow>
                    (case rsplit_colon target of
                       None \<Rightarrow> None
                     | Some (host, port_str) \<Rightarrow>
                         (let port = (case parse_unsigned 65535 port_str of Some n \<Rightarrow> word_of_nat n | None \<Rightarrow> 0)
                          in if port = 0 then None else Some (host, port))))))"

section \<open>Lemmas\<close>

lemma unat_char_byte [simp]: "unat (word_of_nat (of_char c) :: u8) = of_char (c :: char)"
  by (simp add: unat_of_nat)

lemma bytes_str_inverse [simp]: "bytes_str (str_bytes s) = s"
proof -
  have "char_of (unat (word_of_nat (of_char c) :: u8)) = c" for c :: char
    by simp
  then show ?thesis by (simp add: bytes_str_def str_bytes_def comp_def)
qed

lemma str_bytes_inverse [simp]: "str_bytes (bytes_str b) = b"
proof -
  have "word_of_nat (of_char (char_of (unat w) :: char)) = w" for w :: u8
    using unsigned_less [of w, where 'a = nat] by (simp add: of_char_of)
  then show ?thesis by (simp add: bytes_str_def str_bytes_def comp_def map_idI)
qed

lemma str_bytes_append [simp]: "str_bytes (a @ b) = str_bytes a @ str_bytes b"
  by (simp add: str_bytes_def)

lemma length_str_bytes [simp]: "length (str_bytes s) = length s"
  by (simp add: str_bytes_def)

lemma is_cont_append: "is_cont bs i lo hi \<Longrightarrow> is_cont (bs @ cs) i lo hi"
  by (auto simp: is_cont_def nth_append)

lemma utf8_step_append:
  assumes "utf8_step (b # bs) = (True, n)"
  shows "utf8_step (b # bs @ cs) = (True, n) \<and> n \<le> Suc (length bs)"
proof -
  have a: "is_cont (b # bs) i lo hi \<Longrightarrow> is_cont (b # bs @ cs) i lo hi" for i lo hi
    using is_cont_append [of "b # bs"] by simp
  have l: "is_cont (b # bs) i lo hi \<Longrightarrow> i \<le> length bs" for i lo hi by (simp add: is_cont_def)
  from assms show ?thesis by (auto simp: utf8_step_def Let_def split: if_splits dest: l intro: a)
qed

lemma utf8_valid_append: "utf8_valid a \<Longrightarrow> utf8_valid b \<Longrightarrow> utf8_valid (a @ b)"
proof (induction a rule: utf8_valid.induct)
  case (2 x a)
  obtain n where n: "utf8_step (x # a) = (True, n)" "utf8_valid (drop (n - 1) a)"
    using 2(2) by (auto split: prod.splits)
  have m: "utf8_step (x # a @ b) = (True, n)" "n \<le> Suc (length a)" using utf8_step_append [OF n(1)] by auto
  have "utf8_valid (drop (n - 1) a @ b)" using 2(1) [OF n(1) [symmetric]] n(2) 2(3) by simp
  then show ?case using m by simp
qed simp

lemma utf8_valid_ascii: "(\<And>b. b \<in> set bs \<Longrightarrow> unat b < 128) \<Longrightarrow> utf8_valid bs"
  by (induction bs) (auto simp: utf8_step_def Let_def)

definition ascii :: "string \<Rightarrow> bool" where
  "ascii s \<longleftrightarrow> (\<forall>c \<in> set s. (of_char c :: nat) < 128)"

lemma utf8_ascii: "ascii s \<Longrightarrow> utf8_valid (str_bytes s)"
  by (intro utf8_valid_ascii) (auto simp: ascii_def str_bytes_def)

lemma ascii_append [simp]: "ascii (a @ b) \<longleftrightarrow> ascii a \<and> ascii b"
  by (auto simp: ascii_def)

lemma ascii_show_nat [simp]: "ascii (show_nat n)"
  using set_show_nat by (force simp: ascii_def is_digit_def)

lemma ascii_join: "ascii sep \<Longrightarrow> (\<And>x. x \<in> set xs \<Longrightarrow> ascii x) \<Longrightarrow> ascii (join_with sep xs)"
  by (induction sep xs rule: join_with.induct) (auto simp: ascii_def)

lemma rsplit_colon_hit [simp]: "CHR '':'' \<notin> set p \<Longrightarrow> rsplit_colon (h @ CHR '':'' # p) = Some (h, p)"
  by (simp add: rsplit_colon_def)

lemma read_exact_append [simp]: "length a = n \<Longrightarrow> read_exact n (a @ b) = Some (a, b)"
  by (auto simp: read_exact_def)

lemma read_exact_1 [simp]: "read_exact (Suc 0) (x # y) = Some ([x], y)"
  by (simp add: read_exact_def)

lemma perform_all: "(\<And>a. a \<in> set as \<Longrightarrow> ok a) \<Longrightarrow> perform ok as = (as, None)"
  by (induction as) auto

text \<open>The target survives the trip to the exit peer.\<close>

lemma colon_not_digit: "CHR '':'' \<notin> set (show_nat n)"
  by (rule show_nat_no) (simp add: is_digit_def)

lemma proxy_target_uuid:
  assumes "\<And>b. pv_b64_decode px (pv_b64_encode px b) = Some b" "\<And>b. CHR '':'' \<notin> set (pv_b64_encode px b)"
    and "utf8_valid (str_bytes host)" "port \<noteq> 0"
  shows "proxy_target (pv_b64_decode px) (proxy_uuid px host port) = Some (host, port)"
proof -
  let ?t = "host @ CHR '':'' # show_nat (unat port)"
  have "utf8_valid (str_bytes host @ str_bytes ('':'' @ show_nat (unat port)))"
    using assms(3) ascii_show_nat by (intro utf8_valid_append utf8_ascii [of "'':'' @ show_nat (unat port)"]) (auto simp: ascii_def)
  then have "from_utf8 (str_bytes ?t) = Some ?t" by (simp add: from_utf8_def str_bytes_append [symmetric] del: str_bytes_append)
  moreover have "parse_unsigned 65535 (show_nat (unat port)) = Some (unat port)"
    using unsigned_less [of port, where 'a = nat] by simp
  moreover obtain hex where "proxy_uuid px host port = ''proxy'' @ CHR '':'' # pv_b64_encode px (str_bytes ?t) @ CHR '':'' # hex"
    by (simp add: proxy_uuid_def Let_def)
  moreover have "CHR '':'' \<notin> set ''proxy''" by simp
  ultimately show ?thesis using assms(1,2,4) colon_not_digit
    by (simp only: proxy_target_def splitn2_hit snd_conv fst_conv option.case rsplit_colon_hit prod.case Let_def) simp
qed

section \<open>SOCKS5 from end to end\<close>

text \<open>The address of a SOCKS5 request (RFC 1928) and the text of its host.\<close>

datatype dest = DestV4 bytes | DestDomain bytes | DestV6 bytes

fun dest_ok :: "dest \<Rightarrow> bool" where
  "dest_ok (DestV4 ip) = (length ip = 4)"
| "dest_ok (DestDomain d) = (length d < 256 \<and> utf8_valid d)"
| "dest_ok (DestV6 ip) = (length ip = 16)"

fun dest_bytes :: "dest \<Rightarrow> bytes" where
  "dest_bytes (DestV4 ip) = 1 # ip"
| "dest_bytes (DestDomain d) = 3 # word_of_nat (length d) # d"
| "dest_bytes (DestV6 ip) = 4 # ip"

fun dest_host :: "dest \<Rightarrow> string" where
  "dest_host (DestV4 ip) = join_with ''.'' (map (\<lambda>b. show_nat (unat b)) ip)"
| "dest_host (DestDomain d) = bytes_str d"
| "dest_host (DestV6 ip) = join_with '':'' (map (\<lambda>i. hex2 (ip ! (2 * i)) @ hex2 (ip ! (2 * i + 1))) [0..<8])"

lemma ascii_hex2: "ascii (hex2 b)"
proof -
  have "d < 16 \<Longrightarrow> (of_char (hex_digit d :: char) :: nat) < 128" for d by (auto simp: hex_digit_def)
  moreover have "unat b div 16 < 16" using unsigned_less [of b, where 'a = nat] by simp
  ultimately show ?thesis by (simp add: hex2_def ascii_def)
qed

lemma dest_host_utf8: "dest_ok d \<Longrightarrow> utf8_valid (str_bytes (dest_host d))"
  using ascii_hex2 by (cases d) (auto intro!: utf8_ascii ascii_join simp: ascii_def [of "''.''"] ascii_def [of "'':''"])

lemma parse_dest:
  assumes "dest_ok d"
  shows "parse_socks5_addr (hd (dest_bytes d)) (tl (dest_bytes d) @ to_be_bytes port @ r) = Inr ((dest_host d, port), r)"
proof -
  have p: "read_exact 2 (to_be_bytes port @ r) = Some (to_be_bytes port, r)" for port :: u16 and r by simp
  show ?thesis
  proof (cases d)
    case (DestDomain n)
    have "unat (word_of_nat (length n) :: u8) = length n" using assms DestDomain by (simp add: unat_of_nat)
    then show ?thesis using assms DestDomain p by (simp add: parse_socks5_addr_def from_utf8_def)
  qed (use assms p in \<open>simp_all add: parse_socks5_addr_def\<close>)
qed

definition socks5_request :: "bytes \<Rightarrow> dest \<Rightarrow> u16 \<Rightarrow> bytes" where
  "socks5_request methods d port =
     [5, word_of_nat (length methods)] @ methods @ [5, 1, 0] @ dest_bytes d @ to_be_bytes port"

lemma handle_socks5_request:
  assumes "length methods < 256" "dest_ok d"
  shows "proxy_handle_client px exit_peer (socks5_request methods d port @ r) =
    (case connect_via_relay px exit_peer (dest_host d) port of
       (io, Inr uuid) \<Rightarrow> \<lparr>pr_written = SOCKS5_METHOD @ socks5_reply 0, pr_io = io, pr_result = Inr (uuid, r)\<rparr>
     | (io, Inl e) \<Rightarrow> \<lparr>pr_written = SOCKS5_METHOD @ socks5_reply 5, pr_io = io, pr_result = Inl e\<rparr>)"
proof -
  obtain a as where d: "dest_bytes d = a # as" by (cases d) auto
  have h: "read_exact 4 (5 # 1 # 0 # a # y) = Some ([5, 1, 0, a], y)" for y
    using read_exact_append [of "[5, 1, 0, a]" 4 y] by simp
  have m: "unat (word_of_nat (length methods) :: u8) = length methods" using assms(1) by (simp add: unat_of_nat)
  have "parse_socks5_addr a (as @ to_be_bytes port @ r) = Inr ((dest_host d, port), r)"
    using parse_dest [OF assms(2), of port r] d by simp
  then show ?thesis
    by (simp add: proxy_handle_client_def socks5_request_def handle_socks5_def h m d Let_def split: prod.split sum.split)
qed

lemma connect_via_relay_ok:
  assumes "\<And>a. pv_ok px a" "get_rendezvous_servers (pv_store px) \<noteq> []"
  shows "\<exists>io addr. connect_via_relay px exit_peer host port =
    (io @ [SendRaw addr (relay_handshake (proxy_uuid px host port))], Inr (proxy_uuid px host port))"
proof -
  have ok: "pv_ok px = (\<lambda>_. True)" using assms(1) by (simp add: fun_eq_iff)
  obtain server servers where "get_rendezvous_servers (pv_store px) = server # servers"
    using assms(2) by (auto simp: neq_Nil_conv)
  then have "\<exists>a b c addr. connect_via_relay px exit_peer host port =
      ([a, b, c] @ [SendRaw addr (relay_handshake (proxy_uuid px host port))], Inr (proxy_uuid px host port))"
    by (simp add: connect_via_relay_def Let_def ok)
  then show ?thesis by blast
qed

text \<open>
  C10. A SOCKS5 CONNECT request of an application for an IPv4 address, a name or an IPv6 address is
  answered with success when the relay can be asked for, and the exit peer reads from the identifier
  of that relay exactly the host and port the application has asked for; the bytes behind the request are
  left for the tunnel.  Base64 is taken to be invertible and to use no colon.
\<close>

theorem socks5_target_reaches_exit:
  assumes "\<And>b. pv_b64_decode px (pv_b64_encode px b) = Some b" "\<And>b. CHR '':'' \<notin> set (pv_b64_encode px b)"
    and "\<And>a. pv_ok px a" "get_rendezvous_servers (pv_store px) \<noteq> []"
    and "length methods < 256" "dest_ok d" "port \<noteq> 0"
  shows "\<exists>uuid io addr. proxy_handle_client px exit_peer (socks5_request methods d port @ r) =
      \<lparr>pr_written = SOCKS5_METHOD @ socks5_reply 0, pr_io = io @ [SendRaw addr (relay_handshake uuid)], pr_result = Inr (uuid, r)\<rparr> \<and>
    proxy_target (pv_b64_decode px) uuid = Some (dest_host d, port)"
proof -
  obtain io addr where "connect_via_relay px exit_peer (dest_host d) port =
      (io @ [SendRaw addr (relay_handshake (proxy_uuid px (dest_host d) port))], Inr (proxy_uuid px (dest_host d) port))"
    using connect_via_relay_ok [OF assms(3,4)] by blast
  moreover have "proxy_target (pv_b64_decode px) (proxy_uuid px (dest_host d) port) = Some (dest_host d, port)"
    using proxy_target_uuid [OF assms(1,2) dest_host_utf8 [OF assms(6)] assms(7)] by simp
  ultimately show ?thesis using handle_socks5_request [OF assms(5,6), of px exit_peer port r] by auto
qed

text \<open>A stand-in for Base64: decimal numbers with a semicolon after each.\<close>

definition dec_encode :: "bytes \<Rightarrow> string" where
  "dec_encode b = concat (map (\<lambda>x. show_nat (unat x) @ '';'') b)"

definition dec_decode :: "string \<Rightarrow> bytes option" where
  "dec_decode s = Some (map (\<lambda>t. word_of_nat (case parse_nat t of Some n \<Rightarrow> n | None \<Rightarrow> 0)) (butlast (split_on CHR '';'' s)))"

lemma dec_roundtrip: "dec_decode (dec_encode b) = Some b"
proof -
  have "CHR '';'' \<notin> set (show_nat n)" for n by (rule show_nat_no) (simp add: is_digit_def)
  then have "split_on CHR '';'' (dec_encode b) = map (\<lambda>x. show_nat (unat x)) b @ [[]]"
    by (induction b) (simp_all add: dec_encode_def)
  then show ?thesis by (simp add: dec_decode_def comp_def)
qed

lemma dec_encode_no_colon: "CHR '':'' \<notin> set (dec_encode b)"
  using colon_not_digit by (auto simp: dec_encode_def)

definition sample_proxy :: proxy_env where
  "sample_proxy = \<lparr>pv_store = \<lparr>st_config = config_default\<lparr>cc_rendezvous_servers := ''h''\<rparr>, st_file = None\<rparr>,
     pv_version = [], pv_b64_encode = dec_encode, pv_b64_decode = dec_decode, pv_random = [1, 2, 3, 4], pv_ok = \<lambda>_. True\<rparr>"

lemma sample_servers: "get_rendezvous_servers (pv_store sample_proxy) = [''h'']"
  by (simp add: get_rendezvous_servers_def sample_proxy_def trim_def is_space_def)

theorem socks5_target_reaches_exit_witness:
  "\<exists>uuid io addr. proxy_handle_client sample_proxy ''9'' (socks5_request [0] (DestDomain (str_bytes ''a.b'')) 443 @ [7]) =
      \<lparr>pr_written = SOCKS5_METHOD @ socks5_reply 0, pr_io = io @ [SendRaw addr (relay_handshake uuid)], pr_result = Inr (uuid, [7])\<rparr> \<and>
    proxy_target dec_decode uuid = Some (''a.b'', 443)"
proof -
  have p: "pv_b64_encode sample_proxy = dec_encode" "pv_b64_decode sample_proxy = dec_decode" "pv_ok sample_proxy = (\<lambda>_. True)"
    by (simp_all add: sample_proxy_def)
  have "utf8_valid (str_bytes ''a.b'')" by (rule utf8_ascii) (simp add: ascii_def)
  then show ?thesis
    using socks5_target_reaches_exit [of sample_proxy "[0]" "DestDomain (str_bytes ''a.b'')" 443 "''9''" "[7]"]
    by (simp add: p sample_servers dec_roundtrip dec_encode_no_colon)
qed

section \<open>HTTP CONNECT\<close>

text \<open>A header is a number of lines with \<open>CR LF\<close>, none of them empty, and an empty line.\<close>

definition header_line :: "bytes \<Rightarrow> bool" where
  "header_line l \<longleftrightarrow> l \<noteq> [] \<and> 10 \<notin> set l \<and> 13 \<notin> set l"

definition header_bytes :: "bytes list \<Rightarrow> bytes" where
  "header_bytes ls = concat (map (\<lambda>l. l @ CRLF) ls) @ CRLF"

lemma skip_plain:
  "length t = 4 \<Longrightarrow> 10 \<notin> set l \<Longrightarrow> l \<noteq> [] \<Longrightarrow> \<exists>u. length u = 3 \<and> skip_headers t (l @ r) = skip_headers (u @ [last l]) r"
proof (induction l arbitrary: t)
  case (Cons b l)
  have t: "length (tl t @ [b]) = 4" "tl t @ [b] \<noteq> CRLF @ CRLF" using Cons.prems by (auto simp: CRLF_def)
  show ?case
  proof (cases "l = []")
    case True
    then show ?thesis using t Cons.prems(1) by (intro exI [of _ "tl t"]) (simp add: Let_def)
  next
    case False
    then show ?thesis using Cons.IH [OF t(1)] Cons.prems t by (simp add: Let_def)
  qed
qed simp

lemma skip_line:
  assumes "length t = 4" "header_line l"
  shows "\<exists>u. length u = 2 \<and> skip_headers t (l @ CRLF @ r) = skip_headers (u @ CRLF) r"
proof -
  obtain u where u: "length u = 3" "skip_headers t (l @ CRLF @ r) = skip_headers (u @ [last l]) (CRLF @ r)"
    using skip_plain [OF assms(1)] assms(2) by (metis header_line_def)
  obtain a b c where abc: "u = [a, b, c]" using u(1) by (auto simp: numeral_3_eq_3 length_Suc_conv)
  have "last l \<noteq> 10" using assms(2) by (metis header_line_def last_in_set)
  then show ?thesis using u(2) abc by (intro exI [of _ "[c, last l]"]) (simp add: CRLF_def Let_def)
qed

lemma skip_lines:
  assumes "length t = 4" "\<And>l. l \<in> set ls \<Longrightarrow> header_line l" "ls \<noteq> []"
  shows "skip_headers t (header_bytes ls @ r) = Some r"
  using assms
proof (induction ls arbitrary: t)
  case (Cons l ls)
  have h: "header_bytes (l # ls) @ r = l @ CRLF @ header_bytes ls @ r" by (simp add: header_bytes_def)
  obtain u where u: "length u = 2" "skip_headers t (header_bytes (l # ls) @ r) = skip_headers (u @ CRLF) (header_bytes ls @ r)"
    using skip_line [OF Cons.prems(1), of l "header_bytes ls @ r"] Cons.prems(2) unfolding h by auto
  obtain a b where ab: "u = [a, b]" using u(1) by (auto simp: numeral_2_eq_2 length_Suc_conv)
  show ?case
  proof (cases "ls = []")
    case True
    then show ?thesis using u(2) ab by (simp add: header_bytes_def CRLF_def Let_def)
  next
    case False
    then show ?thesis using u Cons.IH [of "u @ CRLF"] Cons.prems(2) by (simp add: CRLF_def)
  qed
qed simp

lemma lossy_valid: "utf8_valid bs \<Longrightarrow> from_utf8_lossy bs = bytes_str bs"
proof (induction bs rule: utf8_valid.induct)
  case (2 b bs)
  obtain n where n: "utf8_step (b # bs) = (True, n)" "utf8_valid (drop (n - 1) bs)"
    using 2(2) by (auto split: prod.splits)
  have "0 < n" using utf8_step_pos [of "b # bs"] n(1) by simp
  then have "take n (b # bs) @ drop (n - 1) bs = b # bs" by (cases n) simp_all
  then show ?case using 2(1) [OF n(1) [symmetric] ] n by (simp add: bytes_str_def flip: map_append)
qed (simp add: bytes_str_def)

lemma read_request_line_plain:
  "13 \<notin> set l \<Longrightarrow> 13 \<notin> set line \<Longrightarrow> length line + length l \<le> 8190 \<Longrightarrow>
   read_request_line line (l @ CRLF @ r) = Inr (line @ l @ CRLF, r)"
proof (induction l arbitrary: line)
  case Nil
  have "\<not> (2 \<le> length (line @ [13]) \<and> (line @ [13]) ! (length (line @ [13]) - 2) = 13 \<and> (line @ [13]) ! (length (line @ [13]) - 1) = 10)"
    by simp
  then show ?case using Nil by (simp add: CRLF_def Let_def nth_append)
next
  case (Cons b l)
  have "(line @ [b]) ! (length (line @ [b]) - 2) \<in> set line \<or> length (line @ [b]) < 2" by (cases line rule: rev_cases) (auto simp: nth_append)
  then have "\<not> (2 \<le> length (line @ [b]) \<and> (line @ [b]) ! (length (line @ [b]) - 2) = 13 \<and> (line @ [b]) ! (length (line @ [b]) - 1) = 10)"
    using Cons.prems(2) by auto
  then show ?case using Cons by (auto simp: Let_def)
qed

lemma trim_end_crlf: "l \<noteq> [] \<Longrightarrow> \<not> is_space (last l) \<Longrightarrow> trim_end (l @ [CRc, NLc]) = l"
proof -
  assume "l \<noteq> []" "\<not> is_space (last l)"
  then obtain m x where "l = m @ [x]" "\<not> is_space x" by (cases l rule: rev_cases) auto
  then show ?thesis by (simp add: trim_end_def)
qed

definition connect_line :: "string \<Rightarrow> u16 \<Rightarrow> string" where
  "connect_line host port = ''CONNECT '' @ host @ '':'' @ show_nat (unat port) @ '' HTTP/1.1''"

definition http_request :: "string \<Rightarrow> u16 \<Rightarrow> bytes list \<Rightarrow> bytes" where
  "http_request host port headers = str_bytes (connect_line host port) @ CRLF @ header_bytes headers"

definition http_host_ok :: "string \<Rightarrow> bool" where
  "http_host_ok host \<longleftrightarrow> utf8_valid (str_bytes host) \<and> CHR '' '' \<notin> set host \<and> CRc \<notin> set host \<and> length host \<le> 8000"

lemma connect_line_parts:
  assumes "http_host_ok host"
  shows "utf8_valid (str_bytes (connect_line host port) @ CRLF)" "13 \<notin> set (str_bytes (connect_line host port))"
    "trim_end (connect_line host port @ [CRc, NLc]) = connect_line host port"
    "starts_with (to_uppercase (connect_line host port)) ''CONNECT ''"
    "second_word (connect_line host port) = Some (host @ '':'' @ show_nat (unat port))"
    "length (connect_line host port) \<le> 8190"
proof -
  let ?p = "show_nat (unat port)"
  have "utf8_valid (str_bytes ''CONNECT '' @ (str_bytes host @ (str_bytes ('':'' @ ?p @ '' HTTP/1.1'') @ CRLF)))"
    using assms ascii_show_nat unfolding http_host_ok_def
    by (intro utf8_valid_append utf8_ascii [of "''CONNECT ''"] utf8_ascii [of "'':'' @ ?p @ '' HTTP/1.1''"])
      (auto simp: ascii_def CRLF_def utf8_step_def Let_def)
  then show "utf8_valid (str_bytes (connect_line host port) @ CRLF)" unfolding connect_line_def str_bytes_append append_assoc .
  have "CRc \<notin> set ?p" by (rule show_nat_no) (simp add: is_digit_def)
  moreover have "CRc \<notin> set ''CONNECT :HTTP/1.1''" by (auto dest!: arg_cong [where f = "of_char :: char \<Rightarrow> nat"])
  ultimately have "CRc \<notin> set (connect_line host port)" using assms by (simp add: connect_line_def http_host_ok_def)
  moreover have "c = CRc" if "word_of_nat (of_char c) = (13 :: u8)" for c
  proof -
    have "of_char c = (13 :: nat)" using arg_cong [OF that, of unat] by simp
    then show ?thesis by (metis char_of_char)
  qed
  ultimately show "13 \<notin> set (str_bytes (connect_line host port))" by (auto simp: str_bytes_def)
  show "trim_end (connect_line host port @ [CRc, NLc]) = connect_line host port"
    by (rule trim_end_crlf) (simp_all add: connect_line_def is_space_def)
  show "starts_with (to_uppercase (connect_line host port)) ''CONNECT ''"
    by (simp add: connect_line_def to_uppercase_def starts_with_def)
  have "CHR '' '' \<notin> set (host @ '':'' @ ?p)" using assms show_nat_no [of "CHR '' ''" "unat port"] by (auto simp: http_host_ok_def is_digit_def)
  then have "splitn2 CHR '' '' ((host @ '':'' @ ?p) @ CHR '' '' # ''HTTP/1.1'') = (host @ '':'' @ ?p, Some ''HTTP/1.1'')"
    by (rule splitn2_hit)
  moreover have "splitn2 CHR '' '' (connect_line host port) = (''CONNECT'', Some ((host @ '':'' @ ?p) @ CHR '' '' # ''HTTP/1.1''))"
    by (simp add: connect_line_def)
  ultimately show "second_word (connect_line host port) = Some (host @ '':'' @ ?p)" by (simp add: second_word_def)
  have "length ?p \<le> 5" using unsigned_less [of port, where 'a = nat] by (intro length_show_nat_le) simp_all
  then show "length (connect_line host port) \<le> 8190" using assms by (simp add: connect_line_def http_host_ok_def)
qed

text \<open>
  An HTTP CONNECT request with at least one header line is answered with success when the relay
  can be asked for, and the exit peer reads the host and port of the request; but a request without
  header lines, which ends with the empty line behind the request line, is not answered: the proxy waits for
  the end of a header of which it has already consumed the first \<open>CR LF\<close>.
\<close>

theorem http_connect_target:
  assumes "\<And>b. pv_b64_decode px (pv_b64_encode px b) = Some b" "\<And>b. CHR '':'' \<notin> set (pv_b64_encode px b)"
    and "\<And>a. pv_ok px a" "get_rendezvous_servers (pv_store px) \<noteq> []"
    and "http_host_ok host" "port \<noteq> 0" "\<And>l. l \<in> set headers \<Longrightarrow> header_line l"
  shows "if headers = [] then proxy_handle_client px exit_peer (http_request host port headers) = proxy_fail [] UnexpectedEof
    else \<exists>uuid io. proxy_handle_client px exit_peer (http_request host port headers @ r) =
        \<lparr>pr_written = HTTP_OK, pr_io = io, pr_result = Inr (uuid, r)\<rparr> \<and>
      proxy_target (pv_b64_decode px) uuid = Some (host, port)"
proof -
  note L = connect_line_parts [OF assms(5), of port]
  let ?l = "str_bytes (connect_line host port)"
  obtain l where l: "?l = 67 # l" by (simp add: connect_line_def str_bytes_def)
  have "read_request_line [67] (l @ CRLF @ x) = Inr ([67] @ l @ CRLF, x)" for x
    using L(2,6) length_str_bytes [of "connect_line host port"] by (intro read_request_line_plain) (auto simp: l)
  then have c: "proxy_handle_client px exit_peer (?l @ CRLF @ x) =
      handle_http_connect px exit_peer (from_utf8_lossy (?l @ CRLF)) x" for x
    by (simp add: proxy_handle_client_def l)
  have "bytes_str CRLF = [CRc, NLc]" by (simp add: bytes_str_def CRLF_def)
  then have "bytes_str (?l @ CRLF) = connect_line host port @ [CRc, NLc]"
    by (metis bytes_str_def bytes_str_inverse map_append)
  then have f: "from_utf8_lossy (?l @ CRLF) = connect_line host port @ [CRc, NLc]"
    using lossy_valid [OF L(1)] by simp
  have t: "http_target (host @ '':'' @ show_nat (unat port)) = (host, port)"
    using colon_not_digit unsigned_less [of port, where 'a = nat] by (simp add: http_target_def)
  obtain io where io: "connect_via_relay px exit_peer host port = (io, Inr (proxy_uuid px host port))"
    using connect_via_relay_ok [OF assms(3,4)] by blast
  have u: "proxy_target (pv_b64_decode px) (proxy_uuid px host port) = Some (host, port)"
    using proxy_target_uuid [OF assms(1,2) _ assms(6)] assms(5) by (simp add: http_host_ok_def)
  show ?thesis
  proof (cases "headers = []")
    case True
    have "skip_headers [0, 0, 0, 0] CRLF = None" by (simp add: CRLF_def Let_def)
    then show ?thesis using True c [of CRLF] f L(3,4)
      by (simp add: http_request_def header_bytes_def handle_http_connect_def Let_def)
  next
    case False
    have "skip_headers [0, 0, 0, 0] (header_bytes headers @ r) = Some r"
      using False assms(7) by (intro skip_lines) simp_all
    then show ?thesis using False c [of "header_bytes headers @ r"] f L(3-5) t io u
      by (simp add: http_request_def handle_http_connect_def Let_def)
  qed
qed

theorem http_connect_target_witness:
  "proxy_handle_client sample_proxy ''9'' (http_request ''a.b'' 443 []) = proxy_fail [] UnexpectedEof"
proof -
  have p: "pv_b64_encode sample_proxy = dec_encode" "pv_b64_decode sample_proxy = dec_decode" "pv_ok sample_proxy = (\<lambda>_. True)"
    by (simp_all add: sample_proxy_def)
  have "utf8_valid (str_bytes ''a.b'')" by (rule utf8_ascii) (simp add: ascii_def)
  moreover have "CRc \<notin> set ''a.b''" by (auto dest!: arg_cong [where f = "of_char :: char \<Rightarrow> nat"])
  ultimately have "http_host_ok ''a.b''" by (simp add: http_host_ok_def)
  then show ?thesis using http_connect_target [of sample_proxy "''a.b''" 443 "[]" "''9''" "[]"]
    by (simp add: p sample_servers dec_roundtrip dec_encode_no_colon)
qed

end
