(* ===== verification/Client_Mediator.thy ===== *)
theory Client_Mediator
  imports Socks5_Proxy Addr_Mangle
begin

text \<open>
  The client's side of the rendezvous protocol, \<open>nat-client/src/rendezvous_mediator.rs\<close>:
  the connection to a rendezvous server with its registration and keep-alive, the
  reactions to requests of other clients, the detection of the NAT type and the attempt
  to reach another client.  Each network action either succeeds or fails as an argument
  says; the two sides of a KCP handshake are such actions.  The forwarding of data is
  in \<open>Client_Bridge\<close>.
\<close>

section \<open>State\<close>

record mediator =
  rz_host :: string
  rz_host_prefix :: string
  rz_wire :: protocol

text \<open>The global variables: settings, \<open>ONLINE\<close>, \<open>SHOULD_EXIT\<close>, \<open>MANUAL_RESTARTED\<close>, \<open>NAT_DETECTED\<close>.\<close>

record client_state =
  cs_store :: client_store
  cs_online :: bool
  cs_should_exit :: bool
  cs_manual_restarted :: bool
  cs_nat_detected :: bool

text \<open>The local variables of the connection loop.\<close>

record conn_state =
  cn_last_register_sent :: "instant option"
  cn_last_recv :: instant

text \<open>
  Clock of the moment (monotonic, and seconds since 1970), libraries, the result of each
  network action, the local address of a new connection, the public UDP port the server
  reports, the parser of socket addresses, a fresh UUID.
\<close>

record med_env =
  me_now :: instant
  me_secs :: int
  me_client :: client_env
  me_wire :: wire
  me_version :: string
  me_ok :: "client_io \<Rightarrow> bool"
  me_local_addr :: socket_addr
  me_udp_port :: "u16 option"
  me_parse_addr :: "string \<Rightarrow> socket_addr option"
  me_uuid :: string
  me_micros :: nat
  me_b64_decode :: "string \<Rightarrow> bytes option"

definition REG_INTERVAL :: nat where "REG_INTERVAL = 15000"
definition KEEP_ALIVE_LIMIT :: nat where "KEEP_ALIVE_LIMIT = 22500"

section \<open>Addresses\<close>

definition get_host_prefix :: "string \<Rightarrow> string" where
  "get_host_prefix host =
     (let host_only = (case rsplit_colon host of Some (h, _) \<Rightarrow> h | None \<Rightarrow> host);
          x = hd (split_on CHR ''.'' host_only)
      in if parse_signed i32_max x \<noteq> None then host_only else x)"

definition mediator_relay_server :: "client_store \<Rightarrow> mediator \<Rightarrow> string \<Rightarrow> string" where
  "mediator_relay_server st rz provided =
     (if config_relay_server st \<noteq> [] then config_relay_server st
      else if provided \<noteq> [] then provided
      else increase_port (rz_host rz) 1)"

section \<open>Registration\<close>

definition register_peer_msg :: "client_store \<Rightarrow> rendezvous_message" where
  "register_peer_msg st = Some (RegisterPeer \<lparr>rp_id = get_id st, rp_serial = 0\<rparr>)"

definition register_pk_msg :: "med_env \<Rightarrow> client_store \<Rightarrow> rendezvous_message" where
  "register_pk_msg me st =
     Some (RegisterPk \<lparr>rk_id = get_id st, rk_uuid = get_uuid_bytes (me_client me) st, rk_pk = snd (get_key_pair (me_client me) st),
       rk_old_id = [], rk_no_register_device = False,
       rk_user_token = (case get_auth_token (me_secs me) st of Some t \<Rightarrow> t | None \<Rightarrow> [])\<rparr>)"

definition mediator_restart :: "client_state \<Rightarrow> client_state" where
  "mediator_restart cs = cs\<lparr>cs_should_exit := True, cs_manual_restarted := True\<rparr>"

text \<open>What a handler sends on its connection, and the tasks it starts.\<close>

datatype med_out = Heartbeat | Frame rendezvous_message

datatype med_task = TaskPunchHole punch_hole | TaskRequestRelay request_relay | TaskFetchLocalAddr fetch_local_addr | TaskDetectNat

definition nat_task :: "client_state \<Rightarrow> med_task list" where
  "nat_task cs = (if cs_nat_detected cs then [] else [TaskDetectNat])"

definition handle_register_pk_response ::
    "med_env \<Rightarrow> mediator \<Rightarrow> register_pk_response \<Rightarrow> client_state \<Rightarrow> client_state \<times> med_out list \<times> med_task list" where
  "handle_register_pk_response me rz rpr cs =
     (case rkr_result rpr of
        Known OK \<Rightarrow>
          (let cs1 = cs\<lparr>cs_store := set_host_key_confirmed (me_client me) (rz_host_prefix rz) True
                              (set_key_confirmed (me_client me) True (cs_store cs)), cs_online := True\<rparr>
           in (cs1, [], nat_task cs1))
      | Known UUID_MISMATCH \<Rightarrow>
          (let cs1 = cs\<lparr>cs_store := set_key_confirmed (me_client me) False (cs_store cs)\<rparr>
           in (cs1, [Frame (register_pk_msg me (cs_store cs1))], []))
      | _ \<Rightarrow> (cs, [], []))"

definition handle_configure_update :: "med_env \<Rightarrow> config_update \<Rightarrow> client_state \<Rightarrow> client_state" where
  "handle_configure_update me cu cs =
     (let servers = join_with '','' (cu_rendezvous_servers cu) in
      if servers \<noteq> [] \<and> servers \<noteq> join_with '','' (get_rendezvous_servers (cs_store cs))
      then mediator_restart (cs\<lparr>cs_store := config_update (me_client me) (\<lambda>c. c\<lparr>cc_rendezvous_servers := servers\<rparr>) (cs_store cs)\<rparr>)
      else cs)"

definition handle_msg ::
    "med_env \<Rightarrow> mediator \<Rightarrow> rendezvous_message \<Rightarrow> conn_state \<Rightarrow> client_state
      \<Rightarrow> client_state \<times> conn_state \<times> med_out list \<times> med_task list" where
  "handle_msg me rz msg cn cs =
     (case msg of
        Some (RegisterPeerResponse rpr) \<Rightarrow>
          (let cn1 = cn\<lparr>cn_last_register_sent := None\<rparr> in
           if rpr_request_pk rpr then (cs, cn1, [Frame (register_pk_msg me (cs_store cs))], [])
           else (let cs1 = cs\<lparr>cs_online := True\<rparr> in (cs1, cn1, [], nat_task cs1)))
      | Some (RegisterPkResponse rpr) \<Rightarrow>
          (case handle_register_pk_response me rz rpr cs of (cs1, outs, tasks) \<Rightarrow> (cs1, cn, outs, tasks))
      | Some (PunchHole ph) \<Rightarrow> (cs, cn, [], [TaskPunchHole ph])
      | Some (RequestRelay rr) \<Rightarrow> (cs, cn, [], [TaskRequestRelay rr])
      | Some (FetchLocalAddr fla) \<Rightarrow> (cs, cn, [], [TaskFetchLocalAddr fla])
      | Some (ConfigureUpdate cu) \<Rightarrow> (handle_configure_update me cu cs, cn, [], [])
      | _ \<Rightarrow> (cs, cn, [], []))"

section \<open>The connection loop\<close>

datatype med_event = Incoming bytes | ReadFailed | Closed | Tick

datatype med_end = ReadError | ConnectionReset | CannotParse | SendError | HeartbeatTimeout | ExitSignal

text \<open>The timer: exit, time-out, and a registration when it is due.\<close>

definition register_due :: "instant \<Rightarrow> conn_state \<Rightarrow> bool" where
  "register_due now cn \<longleftrightarrow>
     REG_INTERVAL \<le> (case cn_last_register_sent cn of Some t \<Rightarrow> as_millis (elapsed now t) | None \<Rightarrow> REG_INTERVAL)"

definition need_reg :: "mediator \<Rightarrow> client_store \<Rightarrow> bool" where
  "need_reg rz st \<longleftrightarrow> \<not> get_key_confirmed st \<or> \<not> get_host_key_confirmed (rz_host_prefix rz) st"

definition med_tick ::
    "med_env \<Rightarrow> mediator \<Rightarrow> conn_state \<Rightarrow> client_state \<Rightarrow> conn_state \<times> med_out list \<times> med_end option" where
  "med_tick me rz cn cs =
     (if cs_should_exit cs then (cn, [], Some ExitSignal)
      else if KEEP_ALIVE_LIMIT < as_millis (elapsed (me_now me) (cn_last_recv cn)) then (cn, [], Some HeartbeatTimeout)
      else if register_due (me_now me) cn
      then (cn\<lparr>cn_last_register_sent := Some (me_now me)\<rparr>,
            [Frame (if need_reg rz (cs_store cs) then register_pk_msg me (cs_store cs) else register_peer_msg (cs_store cs))], None)
      else (cn, [], None))"

text \<open>
  One turn of the loop; \<open>send_ok\<close> says whether the send of this turn succeeds (there
  is at most one).
\<close>

definition med_step ::
    "med_env \<Rightarrow> mediator \<Rightarrow> bool \<Rightarrow> med_event \<Rightarrow> conn_state \<Rightarrow> client_state
      \<Rightarrow> client_state \<times> med_out list \<times> med_task list \<times> (med_end + conn_state)" where
  "med_step me rz send_ok ev cn cs =
     (let cn1 = cn\<lparr>cn_last_recv := me_now me\<rparr> in
      case ev of
        ReadFailed \<Rightarrow> (cs, [], [], Inl ReadError)
      | Closed \<Rightarrow> (cs, [], [], Inl ConnectionReset)
      | Incoming bs \<Rightarrow>
          if bs = [] then (cs, [Heartbeat], [], if send_ok then Inr cn1 else Inl SendError)
          else (case parse_msg (me_wire me) bs of
                  None \<Rightarrow> (cs, [], [], Inl CannotParse)
                | Some msg \<Rightarrow>
                    (case handle_msg me rz msg cn1 cs of
                       (cs', cn2, outs, tasks) \<Rightarrow>
                         (cs', outs, tasks, if outs \<noteq> [] \<and> \<not> send_ok then Inl SendError else Inr cn2)))
      | Tick \<Rightarrow>
          (case med_tick me rz cn cs of
             (cn2, outs, Some e) \<Rightarrow> (cs, outs, [], Inl e)
           | (cn2, outs, None) \<Rightarrow> (cs, outs, [], if outs \<noteq> [] \<and> \<not> send_ok then Inl SendError else Inr cn2)))"

text \<open>The beginning of \<open>start_tcp\<close>, once the connection is made.\<close>

definition mediator_new :: "string \<Rightarrow> client_store \<Rightarrow> mediator" where
  "mediator_new host st =
     \<lparr>rz_host = host, rz_host_prefix = get_host_prefix host, rz_wire = get_rendezvous_wire_protocol st\<rparr>"

definition start_tcp :: "med_env \<Rightarrow> string \<Rightarrow> client_state \<Rightarrow> mediator \<times> conn_state \<times> client_state" where
  "start_tcp me host cs =
     (let rz = mediator_new host (cs_store cs)
      in (rz, \<lparr>cn_last_register_sent = None, cn_last_recv = me_now me\<rparr>,
          cs\<lparr>cs_store := set_host_key_confirmed (me_client me) (rz_host_prefix rz) False (cs_store cs)\<rparr>))"

definition mediator_start :: "med_env \<Rightarrow> string \<Rightarrow> client_state \<Rightarrow> mediator \<times> conn_state \<times> client_state" where
  "mediator_start me host cs = start_tcp me (check_port host RENDEZVOUS_PORT) cs"

text \<open>
  \<open>start_all\<close>: what is done before the connections of a round are started and after all
  of them have ended, with the seconds to wait (in tenths) before the next round.
\<close>

definition round_begin :: "client_state \<Rightarrow> (client_state \<times> string list) option" where
  "round_begin cs =
     (case get_rendezvous_servers (cs_store cs) of
        [] \<Rightarrow> None
      | servers \<Rightarrow> Some (cs\<lparr>cs_should_exit := False, cs_manual_restarted := False\<rparr>, servers))"

definition connection_ended :: "client_state \<Rightarrow> client_state" where
  "connection_ended cs = cs\<lparr>cs_should_exit := True\<rparr>"

definition round_end :: "client_state \<Rightarrow> client_state \<times> nat" where
  "round_end cs = (cs\<lparr>cs_online := False\<rparr>, if cs_manual_restarted cs then 1 else 50)"

section \<open>Requests of other clients\<close>

text \<open>
  The calls of \<open>PortForwardManager\<close>: wait for a direct connection, forward a KCP
  connection, forward a relay connection (port 0: nothing to forward to).
\<close>

datatype forward =
    InboundDirect socket_addr socket_addr string string u16
  | InboundKcp string string u16
  | RelayTunnel string socket_addr bool string u16

text \<open>A handler returns its network actions, what it hands to the port forwarding, and the action that failed.\<close>

type_synonym task_result = "client_io list \<times> forward list \<times> client_io option"

definition target_or_default :: "string \<Rightarrow> client_store \<Rightarrow> string \<times> u16" where
  "target_or_default peer_id st = (case find_target_for_peer peer_id st of Some t \<Rightarrow> t | None \<Rightarrow> (''127.0.0.1'', 0))"

definition relay_response_msg :: "med_env \<Rightarrow> client_store \<Rightarrow> bytes \<Rightarrow> string \<Rightarrow> string \<Rightarrow> bool \<Rightarrow> rendezvous_message" where
  "relay_response_msg me st socket_addr relay_server uuid initiate =
     Some (RelayResponse
       \<lparr>rres_socket_addr = socket_addr, rres_uuid = (if initiate then uuid else []),
        rres_relay_server = (if initiate then relay_server else []),
        rres_union = (if initiate then Some (UnionId (get_id st)) else None), rres_refuse_reason = [],
        rres_version = me_version me, rres_feedback = 0, rres_socket_addr_v6 = [], rres_upnp_port = 0\<rparr>)"

definition create_relay_connection ::
    "med_env \<Rightarrow> mediator \<Rightarrow> client_store \<Rightarrow> bytes \<Rightarrow> string \<Rightarrow> string \<Rightarrow> bool \<Rightarrow> bool \<Rightarrow> string \<Rightarrow> task_result" where
  "create_relay_connection me rz st socket_addr relay_server uuid secure initiate peer_id =
     (let peer_addr = AddrMangle_decode socket_addr;
          relay_addr = check_port relay_server (RENDEZVOUS_PORT + 1)
      in case perform (me_ok me)
             [Connect (rz_host rz),
              SendMsg (rz_host rz) (relay_response_msg me st socket_addr relay_server uuid initiate) (rz_wire rz),
              Connect relay_addr] of
           (io, Some a) \<Rightarrow> (io, [], Some a)
         | (io, None) \<Rightarrow>
             if initiate then (io, [RelayTunnel uuid peer_addr secure [] 0], None)
             else (case target_or_default peer_id st of
                     (target_host, target_port) \<Rightarrow>
                       (io, if target_port = 0 then [] else [RelayTunnel uuid peer_addr secure target_host target_port], None)))"

definition punch_hole_sent_msg :: "med_env \<Rightarrow> client_store \<Rightarrow> bytes \<Rightarrow> string \<Rightarrow> rendezvous_message" where
  "punch_hole_sent_msg me st socket_addr relay_server =
     Some (PunchHoleSent
       \<lparr>phs_socket_addr = socket_addr, phs_id = get_id st, phs_relay_server = relay_server, phs_nat_type = Known UNKNOWN_NAT,
        phs_version = me_version me, phs_upnp_port = ucast (case me_udp_port me of Some p \<Rightarrow> p | None \<Rightarrow> 0),
        phs_socket_addr_v6 = []\<rparr>)"

definition punch_tcp_hole ::
    "med_env \<Rightarrow> mediator \<Rightarrow> client_store \<Rightarrow> socket_addr \<Rightarrow> bytes \<Rightarrow> string \<Rightarrow> string \<Rightarrow> task_result" where
  "punch_tcp_hole me rz st peer_addr socket_addr relay_server uuid =
     (if \<not> me_ok me (Connect (rz_host rz)) then ([Connect (rz_host rz)], [], Some (Connect (rz_host rz)))
      else
        let io = [Connect (rz_host rz), Syn peer_addr];
            send = SendMsg (rz_host rz) (punch_hole_sent_msg me st socket_addr relay_server) (rz_wire rz)
        in if \<not> me_ok me send then (io @ [send], [], Some send)
           else (case target_or_default (show_ip (sa_ip peer_addr)) st of
                   (target_host, target_port) \<Rightarrow>
                     (io @ [send],
                      if target_port = 0 then []
                      else [InboundDirect (me_local_addr me) peer_addr uuid target_host target_port], None)))"

text \<open>The attempt with UDP: the handshake is tried when the address of the server is known.\<close>

definition punch_kcp :: "med_env \<Rightarrow> mediator \<Rightarrow> client_store \<Rightarrow> socket_addr \<Rightarrow> u16 \<Rightarrow> string \<Rightarrow> client_io list \<times> forward list" where
  "punch_kcp me rz st peer_addr peer_udp_port uuid =
     (let peer_udp_addr = socket_addr_new (sa_ip peer_addr) peer_udp_port;
          hbbs_port = (case me_parse_addr me (check_port (rz_host rz) RENDEZVOUS_PORT) of Some a \<Rightarrow> sa_port a | None \<Rightarrow> 0)
      in if hbbs_port = 0 then ([], [])
         else if me_ok me (KcpAccept peer_udp_addr) then
           (case target_or_default (show_ip (sa_ip peer_addr)) st of
              (target_host, target_port) \<Rightarrow>
                ([KcpAccept peer_udp_addr], if target_port \<noteq> 0 then [InboundKcp uuid target_host target_port] else []))
         else ([KcpAccept peer_udp_addr], []))"

definition handle_punch_hole :: "med_env \<Rightarrow> mediator \<Rightarrow> client_store \<Rightarrow> punch_hole \<Rightarrow> task_result" where
  "handle_punch_hole me rz st ph =
     (let peer_addr = AddrMangle_decode (ph_socket_addr ph);
          relay_server = mediator_relay_server st rz (ph_relay_server ph);
          uuid = me_uuid me;
          relay = create_relay_connection me rz st (ph_socket_addr ph) relay_server uuid True True [];
          peer_udp_port = ucast (ph_upnp_port ph) :: u16
      in if ph_force_relay ph \<or> ph_nat_type ph = Known SYMMETRIC then relay
         else
           (case (if peer_udp_port \<noteq> 0 then punch_kcp me rz st peer_addr peer_udp_port uuid else ([], [])) of
              (io1, f # fs) \<Rightarrow> (io1, f # fs, None)
            | (io1, []) \<Rightarrow>
                (case punch_tcp_hole me rz st peer_addr (ph_socket_addr ph) relay_server uuid of
                   (io2, fs, None) \<Rightarrow> (io1 @ io2, fs, None)
                 | (io2, _, Some _) \<Rightarrow>
                     (case relay of (io3, fs, failed) \<Rightarrow> (io1 @ io2 @ io3, fs, failed)))))"

definition handle_proxy_relay :: "med_env \<Rightarrow> mediator \<Rightarrow> client_store \<Rightarrow> request_relay \<Rightarrow> task_result" where
  "handle_proxy_relay me rz st rr =
     (case proxy_target (me_b64_decode me) (rr_uuid rr) of
        None \<Rightarrow> ([], [], None)
      | Some (host, port) \<Rightarrow>
          let relay_addr = check_port (mediator_relay_server st rz (rr_relay_server rr)) (RENDEZVOUS_PORT + 1)
          in (case perform (me_ok me)
                 [Connect relay_addr, SendRaw relay_addr (relay_handshake (rr_uuid rr)), Dial (host @ '':'' @ show_nat (unat port))] of
                (io, failed) \<Rightarrow> (io, [], failed)))"

definition handle_request_relay :: "med_env \<Rightarrow> mediator \<Rightarrow> client_store \<Rightarrow> request_relay \<Rightarrow> task_result" where
  "handle_request_relay me rz st rr =
     (if starts_with (rr_uuid rr) ''proxy:'' then handle_proxy_relay me rz st rr
      else create_relay_connection me rz st (rr_socket_addr rr) (mediator_relay_server st rz (rr_relay_server rr))
             (rr_uuid rr) (rr_secure rr) False (rr_id rr))"

definition handle_fetch_local_addr :: "med_env \<Rightarrow> mediator \<Rightarrow> client_store \<Rightarrow> fetch_local_addr \<Rightarrow> task_result" where
  "handle_fetch_local_addr me rz st fla =
     (let peer_addr = AddrMangle_decode (fla_socket_addr fla);
          msg = Some (LocalAddr
            \<lparr>la_socket_addr = AddrMangle_encode (me_micros me) peer_addr, la_local_addr = AddrMangle_encode (me_micros me) (me_local_addr me),
             la_relay_server = mediator_relay_server st rz (fla_relay_server fla), la_id = get_id st,
             la_version = me_version me, la_socket_addr_v6 = []\<rparr>)
      in case perform (me_ok me) [Connect (rz_host rz), SendMsg (rz_host rz) msg (rz_wire rz)] of (io, failed) \<Rightarrow> (io, [], failed))"

section \<open>NAT type\<close>

text \<open>The port of a \<open>TestNatResponse\<close>; \<open>None\<close> stands for a failed query.\<close>

definition nat_port :: "rendezvous_message option \<Rightarrow> int option" where
  "nat_port resp = (case resp of Some (Some (TestNatResponse tnr)) \<Rightarrow> Some (sint (tnr_port tnr)) | _ \<Rightarrow> None)"

definition detect_nat_type_inner :: "rendezvous_message option \<Rightarrow> rendezvous_message option \<Rightarrow> int option" where
  "detect_nat_type_inner resp1 resp2 =
     (case nat_port resp1 of
        None \<Rightarrow> None
      | Some port1 \<Rightarrow>
          (case nat_port resp2 of
             None \<Rightarrow> None
           | Some port2 \<Rightarrow> Some (if port1 > 0 \<and> port2 > 0 then if port1 = port2 then 1 else 2 else 0)))"

definition detect_nat_type ::
    "client_env \<Rightarrow> rendezvous_message option \<Rightarrow> rendezvous_message option \<Rightarrow> client_state \<Rightarrow> client_state" where
  "detect_nat_type ce resp1 resp2 cs =
     (case detect_nat_type_inner resp1 resp2 of
        Some t \<Rightarrow> cs\<lparr>cs_store := set_nat_type ce t (cs_store cs), cs_nat_detected := True\<rparr>
      | None \<Rightarrow> cs)"

section \<open>Reaching another client\<close>

definition connect_request :: "med_env \<Rightarrow> client_store \<Rightarrow> string \<Rightarrow> rendezvous_message" where
  "connect_request me st peer_id =
     Some (PunchHoleRequest
       \<lparr>phr_id = peer_id, phr_nat_type = Known UNKNOWN_NAT, phr_licence_key = [], phr_conn_type = Known DEFAULT_CONN,
        phr_token = get_id st, phr_version = [], phr_udp_port = 0, phr_force_relay = False,
        phr_upnp_port = ucast (case me_udp_port me of Some p \<Rightarrow> p | None \<Rightarrow> 0), phr_socket_addr_v6 = []\<rparr>)"

datatype tunnel = TunnelKcp | TunnelDirect socket_addr | TunnelRelay string

datatype connect_error = NoRendezvousServer | ActionFailed client_io | NoAnswer | UnexpectedAnswer

text \<open>The way the answer is used; \<open>resp\<close> is the parsed answer of the server, if one came in time.\<close>

definition use_answer :: "med_env \<Rightarrow> rendezvous_message option \<Rightarrow> client_io list \<times> (connect_error + tunnel)" where
  "use_answer me resp =
     (case resp of
        None \<Rightarrow> ([], Inl NoAnswer)
      | Some (Some (PunchHoleResponse phr)) \<Rightarrow>
          (let peer_addr = AddrMangle_decode (phres_socket_addr phr);
               peer_udp_port = ucast (phres_upnp_port phr) :: u16;
               kcp = KcpConnect (socket_addr_new (sa_ip peer_addr) peer_udp_port)
           in if peer_udp_port \<noteq> 0 \<and> (case me_udp_port me of Some p \<Rightarrow> p | None \<Rightarrow> 0) \<noteq> 0
              then ([kcp], Inr (if me_ok me kcp then TunnelKcp else TunnelDirect peer_addr))
              else ([], Inr (TunnelDirect peer_addr)))
      | Some (Some (RelayResponse rr)) \<Rightarrow>
          (let relay_addr = check_port (rres_relay_server rr) (RENDEZVOUS_PORT + 1) in
           case perform (me_ok me) [Connect relay_addr, SendRaw relay_addr (relay_handshake (rres_uuid rr))] of
             (io, None) \<Rightarrow> (io, Inr (TunnelRelay (rres_uuid rr)))
           | (io, Some a) \<Rightarrow> (io, Inl (ActionFailed a)))
      | _ \<Rightarrow> ([], Inl UnexpectedAnswer))"

definition connect_to_peer ::
    "med_env \<Rightarrow> client_store \<Rightarrow> string \<Rightarrow> rendezvous_message option \<Rightarrow> client_io list \<times> (connect_error + tunnel)" where
  "connect_to_peer me st peer_id resp =
     (case get_rendezvous_servers st of
        [] \<Rightarrow> ([], Inl NoRendezvousServer)
      | server # _ \<Rightarrow>
          let host = check_port server RENDEZVOUS_PORT in
          (case perform (me_ok me)
              [Connect host, SendMsg host (connect_request me st peer_id) (get_rendezvous_wire_protocol st)] of
             (io, Some a) \<Rightarrow> (io, Inl (ActionFailed a))
           | (io, None) \<Rightarrow> (case use_answer me resp of (io', r) \<Rightarrow> (io @ io', r))))"

end
