(* ===== verification/Client_Props.thy ===== *)
theory Client_Props
  imports Client_Mediator Rendezvous_Props
begin

text \<open>
  Properties of the client's mediator and of the client together with the rendezvous
  server.
\<close>

section \<open>The connection loop\<close>

text \<open>A sequence of turns of the loop, each with the environment of its moment, until one of them ends it.\<close>

fun med_run ::
    "mediator \<Rightarrow> (med_env \<times> bool \<times> med_event) list \<Rightarrow> conn_state \<Rightarrow> client_state
      \<Rightarrow> client_state \<times> med_out list \<times> med_task list \<times> (med_end + conn_state)" where
  "med_run rz [] cn cs = (cs, [], [], Inr cn)"
| "med_run rz ((me, ok, ev) # evs) cn cs =
     (case med_step me rz ok ev cn cs of
        (cs1, outs, tasks, Inl e) \<Rightarrow> (cs1, outs, tasks, Inl e)
      | (cs1, outs, tasks, Inr cn1) \<Rightarrow>
          (case med_run rz evs cn1 cs1 of
             (cs2, outs2, tasks2, r) \<Rightarrow> (cs2, outs @ outs2, tasks @ tasks2, r)))"

section \<open>Registration\<close>

lemma store_pk_memory:
  "store_pk env k p addr uuid pk ip pm = (pm', OK) \<Longrightarrow>
   \<exists>w. get_in_memory k pm' = Some w \<and> p_uuid w = uuid \<and> p_pk w = pk \<and> p_socket_addr w = addr \<and> p_last_reg_time w = env_now env"
  by (auto simp: store_pk_def Let_def mem.look_put split: if_splits prod.splits)

lemma update_pk_memory:
  "update_pk env k p addr uuid pk ip tok pm = (pm', OK) \<Longrightarrow>
   \<exists>w. get_in_memory k pm' = Some w \<and> p_uuid w = uuid \<and> p_pk w = pk \<and> p_socket_addr w = addr \<and> p_last_reg_time w = env_now env"
  by (auto simp: update_pk_def Let_def split: if_splits option.splits dest!: store_pk_memory)

lemma register_due_first: "register_due now (cn\<lparr>cn_last_register_sent := None\<rparr>)"
  by (simp add: register_due_def)

lemma online_now: "p_last_reg_time p = now \<Longrightarrow> peer_online now p"
  by (simp add: peer_online_def elapsed_def as_millis_def REG_TIMEOUT_def)

lemma confirm_not_need_reg:
  "\<not> need_reg rz (set_host_key_confirmed ce (rz_host_prefix rz) True (set_key_confirmed ce True st))"
  by (simp add: need_reg_def get_key_confirmed_def get_host_key_confirmed_def set_host_key_confirmed_def set_key_confirmed_def)

lemma start_needs_reg:
  "mediator_start me host cs = (rz, cn, cs1) \<Longrightarrow>
   need_reg rz (cs_store cs1) \<and> cn_last_register_sent cn = None \<and> cn_last_recv cn = me_now me \<and> cs_should_exit cs1 = cs_should_exit cs"
  by (auto simp: mediator_start_def start_tcp_def Let_def need_reg_def get_host_key_confirmed_def set_host_key_confirmed_def)

lemma tcp_register_pk_reply:
  assumes "tcp_register_pk env rk proto addr (Some s) sh = (sink', sh', outs, open')"
    and "outs = [SinkSend s (register_pk_response_msg OK) proto]"
  shows "\<exists>p. get_in_memory (rk_id rk) (sh_pm sh') = Some p \<and> p_uuid p = rk_uuid rk \<and> p_pk p = rk_pk rk \<and>
    p_socket_addr p = addr \<and> peer_online (re_now env) p"
proof -
  obtain pm1 p0 where g: "pm_get_or (re_peer env) (rk_id rk) (sh_pm sh) = (pm1, p0)" by fastforce
  obtain pm2 res where u: "update_pk (re_peer env) (rk_id rk) p0 addr (rk_uuid rk) (rk_pk rk)
      (show_ip (sa_ip addr)) (trim_token (rk_user_token rk)) pm1 = (pm2, res)" by fastforce
  have sh': "sh_pm sh' = set_protocol (rk_id rk) proto pm2" "outs = [SinkSend s (register_pk_response_msg res) proto]"
    using assms(1) g u by (auto simp: tcp_register_pk_def send_to_sink_def)
  then have "res = OK" using assms(2) by (simp add: register_pk_response_msg_def)
  then show ?thesis using update_pk_memory [of "re_peer env" "rk_id rk" p0] u sh'(1)
    by (fastforce simp: set_protocol_look intro: online_now)
qed

text \<open>
  C9. A client comes online: on a new connection its first timer tick sends its identity; when the
  server answers OK, the server has the client's key and UUID under its identifier, considers it online at
  the address of the connection, and the client, on that answer, is online and has no
  registration left to do on this host.
\<close>

theorem client_comes_online:
  assumes "mediator_start me host cs = (rz, cn, cs1)" "\<not> cs_should_exit cs"
    and "handle_tcp_msg env cfg (register_pk_msg me (cs_store cs1)) proto addr key ws (Some s) sh = (sink', sh', outs, open')"
    and "outs = [SinkSend s (register_pk_response_msg OK) proto]"
    and "handle_msg me' rz (register_pk_response_msg OK) cn' cs1 = (cs2, cn2, outs2, tasks2)"
  shows "(\<exists>cn1. med_step me rz True Tick cn cs1 = (cs1, [Frame (register_pk_msg me (cs_store cs1))], [], Inr cn1)) \<and>
    (\<exists>p. get_in_memory (get_id (cs_store cs1)) (sh_pm sh') = Some p \<and> p_uuid p = get_uuid_bytes (me_client me) (cs_store cs1) \<and>
      p_pk p = snd (get_key_pair (me_client me) (cs_store cs1)) \<and> p_socket_addr p = addr \<and> peer_online (re_now env) p) \<and>
    cs_online cs2 \<and> \<not> need_reg rz (cs_store cs2)"
proof -
  note st = start_needs_reg [OF assms(1)]
  have "KEEP_ALIVE_LIMIT < as_millis (elapsed (me_now me) (me_now me)) \<longleftrightarrow> False"
    by (simp add: KEEP_ALIVE_LIMIT_def elapsed_def as_millis_def)
  then have "\<exists>cn1. med_step me rz True Tick cn cs1 = (cs1, [Frame (register_pk_msg me (cs_store cs1))], [], Inr cn1)"
    using st assms(2) by (simp add: med_step_def med_tick_def register_due_def Let_def)
  moreover have "\<exists>p. get_in_memory (get_id (cs_store cs1)) (sh_pm sh') = Some p \<and> p_uuid p = get_uuid_bytes (me_client me) (cs_store cs1) \<and>
      p_pk p = snd (get_key_pair (me_client me) (cs_store cs1)) \<and> p_socket_addr p = addr \<and> peer_online (re_now env) p"
    using assms(3) tcp_register_pk_reply [OF _ assms(4)] by (fastforce simp: handle_tcp_msg_def register_pk_msg_def)
  moreover have "cs_online cs2 \<and> \<not> need_reg rz (cs_store cs2)"
    using assms(5) confirm_not_need_reg
    by (auto simp: handle_msg_def register_pk_response_msg_def handle_register_pk_response_def Let_def)
  ultimately show ?thesis by blast
qed

section \<open>Keep-alive\<close>

text \<open>
  Once a client is registered, each answer to its keep-alive message makes the next timer tick
  send another one, whatever the time: with a server that answers, every tick of half a second sends
  a message instead of one in fifteen seconds.
\<close>

lemma keep_alive_turn:
  assumes "\<not> cs_should_exit cs" "\<not> need_reg rz (cs_store cs)" "cs_online cs" "cs_nat_detected cs"
    and "cn_last_register_sent cn = None" "cn_last_recv cn = me_now me"
    and "bs \<noteq> []" "parse_msg (me_wire me) bs = Some (register_peer_response_msg False)"
  shows "\<exists>cn1. med_step me rz True Tick cn cs = (cs, [Frame (register_peer_msg (cs_store cs))], [], Inr cn1) \<and>
    med_step me rz True (Incoming bs) cn1 cs = (cs, [], [], Inr cn)"
proof -
  have "as_millis (elapsed t t) = 0" for t by (simp add: elapsed_def as_millis_def)
  then show ?thesis using assms
    by (simp add: med_step_def med_tick_def register_due_def Let_def KEEP_ALIVE_LIMIT_def handle_msg_def
        register_peer_response_msg_def nat_task_def)
qed

theorem keep_alive_every_tick:
  assumes "\<not> cs_should_exit cs" "\<not> need_reg rz (cs_store cs)" "cs_online cs" "cs_nat_detected cs"
    and "cn_last_register_sent cn = None" "cn_last_recv cn = me_now me"
    and "bs \<noteq> []" "parse_msg (me_wire me) bs = Some (register_peer_response_msg False)"
  shows "med_run rz (concat (replicate n [(me, True, Tick), (me, True, Incoming bs)])) cn cs =
    (cs, replicate n (Frame (register_peer_msg (cs_store cs))), [], Inr cn)"
proof (induction n)
  case (Suc n)
  obtain cn1 where "med_step me rz True Tick cn cs = (cs, [Frame (register_peer_msg (cs_store cs))], [], Inr cn1)"
    "med_step me rz True (Incoming bs) cn1 cs = (cs, [], [], Inr cn)"
    using keep_alive_turn [OF assms] by blast
  then show ?case using Suc by simp
qed simp

section \<open>Requests that cannot arrive\<close>

text \<open>
  A connection that only registers: its sink is not in the punch map, and nothing is
  sent on it.
\<close>

definition unstashed :: "sink \<Rightarrow> shared \<Rightarrow> bool" where
  "unstashed s sh \<longleftrightarrow> (\<forall>k p. (k, s, p) \<notin> set (sh_tcp_punch sh))"

definition silent :: "sink \<Rightarrow> out list \<Rightarrow> bool" where
  "silent s outs \<longleftrightarrow> (\<forall>m p. SinkSend s m p \<notin> set outs)"

lemma silent_simps [simp]:
  "silent s []" "silent s (outs @ outs') \<longleftrightarrow> silent s outs \<and> silent s outs'"
  "silent s [SinkSend t m p] \<longleftrightarrow> t \<noteq> s" "silent s [UdpReply m p a]"
  by (auto simp: silent_def)

lemma send_to_tcp_silent:
  "send_to_tcp msg a sh = (sh', outs) \<Longrightarrow> unstashed s sh \<Longrightarrow> silent s outs \<and> unstashed s sh'"
  by (auto simp: send_to_tcp_def Let_def unstashed_def AList.delete_eq split: option.splits prod.splits dest!: map_of_SomeD)

lemma set_update_alist: "(k', t, p) \<in> set (AList.update k (u, q) xs) \<Longrightarrow> t = u \<or> (k', t, p) \<in> set xs"
  by (induction xs) (auto split: if_splits)

lemma stash_unstashed: "t \<noteq> Some s \<Longrightarrow> unstashed s sh \<Longrightarrow> unstashed s (stash_sink t a p sh)"
  by (auto simp: stash_sink_def unstashed_def dest!: set_update_alist split: option.split)

lemma get_pk_punch: "sh_tcp_punch (fst (get_pk env cfg v i sh)) = sh_tcp_punch sh"
  by (auto simp: get_pk_def split: option.splits prod.splits)

lemma push_tx_punch [simp]: "sh_tcp_punch (push_tx x sh) = sh_tcp_punch sh"
  by (simp add: push_tx_def)

lemma answer_to_silent:
  "answer_to udp msg a sh = (sh', outs) \<Longrightarrow> unstashed s sh \<Longrightarrow> silent s outs \<and> unstashed s sh'"
  by (auto simp: answer_to_def dest: send_to_tcp_silent split: if_splits)

lemma answer_pk_silent:
  "answer_to udp m b (fst (get_pk env cfg v i sh)) = (sh', outs) \<Longrightarrow> unstashed s sh \<Longrightarrow> silent s outs \<and> unstashed s sh'"
  by (erule answer_to_silent) (simp add: unstashed_def get_pk_punch)

lemma hole_sent_silent:
  "handle_hole_sent env cfg phs a udp sh = (sh', outs) \<Longrightarrow> unstashed s sh \<Longrightarrow> silent s outs \<and> unstashed s sh'"
  by (rule answer_pk_silent [of udp]) (simp_all add: handle_hole_sent_def Let_def case_prod_beta)

lemma local_addr_silent:
  "handle_local_addr env cfg la a udp sh = (sh', outs) \<Longrightarrow> unstashed s sh \<Longrightarrow> silent s outs \<and> unstashed s sh'"
  by (rule answer_pk_silent [of udp]) (simp_all add: handle_local_addr_def Let_def case_prod_beta)

lemma tcp_punch_silent:
  assumes "tcp_punch_hole env cfg ph proto a key ws t sh = (t', sh', outs, op)" "t \<noteq> Some s" "unstashed s sh"
  shows "silent s outs \<and> unstashed s sh' \<and> t' \<noteq> Some s"
proof -
  obtain sh1 msg to_addr tp where h: "handle_punch_hole_request env cfg a ph key ws (stash_sink t a proto sh) = (sh1, msg, to_addr, tp)"
    by (rule prod_cases4)
  have u: "unstashed s sh1" using stash_unstashed [OF assms(2,3)] punch_request_frame(1) [OF h] by (simp add: unstashed_def)
  obtain sh2 outs2 where "handle_tcp_punch_hole_request env cfg a ph key ws (stash_sink t a proto sh) = (sh2, outs2)"
    "silent s outs2 \<and> unstashed s sh2"
  proof (cases to_addr)
    case None
    obtain sh2 outs2 where "send_to_tcp msg a sh1 = (sh2, outs2)" by fastforce
    then show ?thesis using that [of sh2 outs2] h None send_to_tcp_silent [OF _ u]
      by (simp add: handle_tcp_punch_hole_request_def)
  next
    case (Some b)
    then show ?thesis using that [of "push_tx (Msg msg b tp) sh1" "[]"] h u
      by (simp add: handle_tcp_punch_hole_request_def unstashed_def)
  qed
  then show ?thesis using assms(1) by (auto simp: tcp_punch_hole_def)
qed

text \<open>An answer about a relay is passed on to the connection that waits at the address it names.\<close>

lemma get_pk_tx: "sh_tx (fst (get_pk env cfg v i sh)) = sh_tx sh"
  by (auto simp: get_pk_def split: option.splits prod.splits)

lemma tcp_relay_response_shape:
  assumes "tcp_relay_response env cfg rr a t sh = (t', sh', outs, op)"
  shows "\<exists>x m. send_to_tcp m (AddrMangle_decode (rres_socket_addr rr)) x = (sh', outs) \<and>
    sh_tcp_punch x = sh_tcp_punch sh \<and> sh_tx x = sh_tx sh \<and> t' = t \<and> \<not> op"
proof -
  let ?rr = "rr\<lparr>rres_socket_addr := []\<rparr>" and ?b = "AddrMangle_decode (rres_socket_addr rr)"
  obtain sh1 rr2 where 1: "(if rres_get_id ?rr \<noteq> []
      then (case get_pk env cfg (rres_version ?rr) (rres_get_id ?rr) sh of (sh', pk) \<Rightarrow> (sh', ?rr\<lparr>rres_union := Some (UnionPk pk)\<rparr>))
      else (sh, ?rr)) = (sh1, rr2)" by fastforce
  have u1: "sh_tcp_punch sh1 = sh_tcp_punch sh \<and> sh_tx sh1 = sh_tx sh"
    using 1 get_pk_punch [of env cfg "rres_version ?rr" "rres_get_id ?rr" sh] get_pk_tx [of env cfg "rres_version ?rr" "rres_get_id ?rr" sh]
    by (auto split: if_splits prod.splits)
  obtain sh2 rr3 where 2: "(if rres_relay_server rr2 = [] then (sh1, rr2)
      else if is_lan cfg ?b then (sh1, rr2\<lparr>rres_relay_server := in_local_ip (sc_inner cfg)\<rparr>)
      else if rres_relay_server rr2 = in_local_ip (sc_inner cfg)
      then (case get_relay_server cfg sh1 of (sh', relay) \<Rightarrow> (sh', rr2\<lparr>rres_relay_server := relay\<rparr>))
      else (sh1, rr2)) = (sh2, rr3)" by fastforce
  have u2: "sh_tcp_punch sh2 = sh_tcp_punch sh \<and> sh_tx sh2 = sh_tx sh"
    using 2 get_relay_server_frame [of cfg sh1] u1 by (auto split: if_splits prod.splits)
  obtain sh3 outs' where 3: "send_to_tcp (Some (RelayResponse rr3)) ?b sh2 = (sh3, outs')" by fastforce
  have "t' = t \<and> sh' = sh3 \<and> outs = outs' \<and> \<not> op"
    using assms(1) unfolding tcp_relay_response_def Let_def 1 prod.case 2 3 by simp
  then show ?thesis using 3 u2 by blast
qed

lemma relay_response_silent:
  assumes "tcp_relay_response env cfg rr a t sh = (t', sh', outs, op)" "unstashed s sh"
  shows "silent s outs \<and> unstashed s sh' \<and> t' = t"
  using tcp_relay_response_shape [OF assms(1)] assms(2) send_to_tcp_silent by (metis unstashed_def)

lemma tcp_msg_silent:
  assumes "handle_tcp_msg env cfg msg proto a key ws t sh = (t', sh', outs, op)" "t \<noteq> Some s" "unstashed s sh"
  shows "silent s outs \<and> unstashed s sh' \<and> t' \<noteq> Some s"
proof -
  have own: "silent s (send_to_sink t m p)" for m p using assms(2) by (cases t) (auto simp: send_to_sink_def)
  consider (punch) ph where "msg = Some (PunchHoleRequest ph)" | (relay) rf where "msg = Some (RequestRelay rf)"
    | (resp) rr where "msg = Some (RelayResponse rr)" | (sent) phs where "msg = Some (PunchHoleSent phs)"
    | (la) l where "msg = Some (LocalAddr l)" | (nat) n where "msg = Some (TestNatRequest n)"
    | (pk) rf where "msg = Some (RegisterPk rf)" | (peer) rp where "msg = Some (RegisterPeer rp)"
    | (none) "handle_tcp_msg env cfg msg proto a key ws t sh = (t, sh, [], False)"
    by (cases msg; cases "the msg") (auto simp: handle_tcp_msg_def)
  then show ?thesis
  proof cases
    case punch
    then show ?thesis using assms tcp_punch_silent by (simp add: handle_tcp_msg_def)
  next
    case relay
    then show ?thesis using assms stash_unstashed [OF assms(2,3), of a proto]
      by (auto simp: handle_tcp_msg_def tcp_request_relay_def Let_def unstashed_def split: option.splits)
  next
    case resp
    then show ?thesis using assms relay_response_silent by (fastforce simp: handle_tcp_msg_def)
  next
    case sent
    then show ?thesis using assms hole_sent_silent [of env cfg phs a False sh sh' outs s]
      by (cases "handle_hole_sent env cfg phs a False sh") (simp add: handle_tcp_msg_def)
  next
    case la
    then show ?thesis using assms local_addr_silent [of env cfg l a False sh sh' outs s]
      by (cases "handle_local_addr env cfg l a False sh") (simp add: handle_tcp_msg_def)
  next
    case nat
    then show ?thesis using assms own by (auto simp: handle_tcp_msg_def tcp_test_nat_def Let_def)
  next
    case pk
    then show ?thesis using assms own
      by (auto simp: handle_tcp_msg_def tcp_register_pk_def Let_def unstashed_def split: prod.splits)
  next
    case peer
    then show ?thesis using assms own
      by (auto simp: handle_tcp_msg_def tcp_register_peer_def Let_def refresh_addr_def unstashed_def split: prod.splits if_splits option.splits)
  next
    case none
    then show ?thesis using assms by simp
  qed
qed

text \<open>The messages of all TCP connections, each with the sink of its connection and the moment it is handled.\<close>

record tcp_input =
  ti_env :: renv
  ti_msg :: rendezvous_message
  ti_proto :: protocol
  ti_addr :: socket_addr
  ti_ws :: bool
  ti_sink :: "sink option"

fun serve_tcp :: "server_cfg \<Rightarrow> string \<Rightarrow> tcp_input list \<Rightarrow> shared \<Rightarrow> shared \<times> out list" where
  "serve_tcp cfg key [] sh = (sh, [])"
| "serve_tcp cfg key (x # xs) sh =
     (case handle_tcp_msg (ti_env x) cfg (ti_msg x) (ti_proto x) (ti_addr x) key (ti_ws x) (ti_sink x) sh of
        (_, sh1, outs, _) \<Rightarrow> (case serve_tcp cfg key xs sh1 of (sh2, outs2) \<Rightarrow> (sh2, outs @ outs2)))"

lemma serve_tcp_silent:
  "unstashed s sh \<Longrightarrow> (\<And>x. x \<in> set xs \<Longrightarrow> ti_sink x \<noteq> Some s) \<Longrightarrow>
   silent s (snd (serve_tcp cfg key xs sh)) \<and> unstashed s (fst (serve_tcp cfg key xs sh))"
proof (induction xs arbitrary: sh)
  case (Cons x xs)
  obtain t' sh1 outs op where h: "handle_tcp_msg (ti_env x) cfg (ti_msg x) (ti_proto x) (ti_addr x) key (ti_ws x) (ti_sink x) sh = (t', sh1, outs, op)"
    by (rule prod_cases4)
  have "silent s outs \<and> unstashed s sh1" using tcp_msg_silent [OF h] Cons.prems by simp
  then show ?case using Cons.IH [of sh1] Cons.prems h by (cases "serve_tcp cfg key xs sh1") simp
qed simp

text \<open>
  A client that has registered over TCP, as the client of this repository does, gets no request
  through its connection: whatever other connections send, connection requests for its identifier
  included, nothing is written to the connection it registered on.  (The requests go to the UDP
  socket of the server, for the address of the TCP connection.)
\<close>

theorem tcp_client_gets_no_request:
  assumes "handle_tcp_msg env cfg (register_pk_msg me st) proto addr key ws (Some s) sh = (sink', sh', outs, open')"
    and "unstashed s sh" "\<And>x. x \<in> set xs \<Longrightarrow> ti_sink x \<noteq> Some s"
  shows "sink' = Some s \<and> silent s (snd (serve_tcp cfg key xs sh'))"
proof -
  have "sink' = Some s" "unstashed s sh'"
    using assms(1,2) by (auto simp: handle_tcp_msg_def register_pk_msg_def tcp_register_pk_def Let_def unstashed_def split: prod.splits)
  then show ?thesis using serve_tcp_silent [of s sh' xs] assms(3) by simp
qed

text \<open>The address of a message without one is 0.0.0.0:0.\<close>

definition no_addr :: socket_addr where "no_addr = V4 (Ipv4Addr 0 0 0 0) 0"

lemma decode_nothing: "AddrMangle_decode [] = no_addr"
proof -
  have "(from_le_bytes (replicate n 0) :: u128) = 0" for n using from_le_bytes_append_zeros [of "[]" n] by simp
  moreover have "to_le_bytes (0 :: u32) = [0, 0, 0, 0]" by (simp add: to_le_bytes_def upt_rec)
  ultimately show ?thesis by (simp add: AddrMangle_decode_def no_addr_def demangle_v4_def Let_def)
qed

lemma perform_subset: "set (fst (perform ok as)) \<subseteq> set as"
  by (induction as) (auto split: prod.splits)

lemma connect_via_relay_msg:
  assumes "SendMsg hbbs msg proto \<in> set (fst (connect_via_relay px exit_peer host port))"
  shows "\<exists>uuid relay. msg = Some (RelayResponse (proxy_relay_response px exit_peer uuid relay))"
proof -
  obtain server servers where s: "get_rendezvous_servers (pv_store px) = server # servers"
    using assms by (auto simp: connect_via_relay_def Let_def split: list.splits)
  obtain as where "fst (connect_via_relay px exit_peer host port) = fst (perform (pv_ok px) as)"
    "\<And>h m p. SendMsg h m p \<in> set as \<Longrightarrow> \<exists>uuid relay. m = Some (RelayResponse (proxy_relay_response px exit_peer uuid relay))"
  proof
    let ?relay = "if config_relay_server (pv_store px) \<noteq> [] then config_relay_server (pv_store px) else increase_port server 1"
    let ?as = "[Connect (check_port server RENDEZVOUS_PORT),
      SendMsg (check_port server RENDEZVOUS_PORT)
        (Some (RelayResponse (proxy_relay_response px exit_peer (proxy_uuid px host port) ?relay))) (get_rendezvous_wire_protocol (pv_store px)),
      Connect (check_port ?relay (RENDEZVOUS_PORT + 1)),
      SendRaw (check_port ?relay (RENDEZVOUS_PORT + 1)) (relay_handshake (proxy_uuid px host port))]"
    show "fst (connect_via_relay px exit_peer host port) = fst (perform (pv_ok px) ?as)"
      unfolding connect_via_relay_def s Let_def list.case by (cases "perform (pv_ok px) ?as") (simp split: option.split del: perform.simps)
    show "\<exists>uuid relay. m = Some (RelayResponse (proxy_relay_response px exit_peer uuid relay))" if "SendMsg h m p \<in> set ?as" for h m p
      using that by auto
  qed
  then show ?thesis using assms perform_subset by (metis subsetD)
qed

text \<open>
  The exit peer of a proxy connection is not told about it: the message with which the proxy
  asks for the relay is an answer without an address, for which the server looks up the waiting connection
  0.0.0.0:0; if there is none, it sends nothing and queues nothing for any peer.
\<close>

theorem proxy_request_goes_nowhere:
  assumes "SendMsg hbbs msg proto \<in> set (fst (connect_via_relay px exit_peer host port))"
    and "map_of (sh_tcp_punch sh) no_addr = None"
    and "handle_tcp_msg env cfg msg proto addr key ws sink sh = (sink', sh', outs, open')"
  shows "outs = [] \<and> sh_tx sh' = sh_tx sh \<and> \<not> open'"
proof -
  from connect_via_relay_msg [OF assms(1)]
  obtain uuid relay where m: "msg = Some (RelayResponse (proxy_relay_response px exit_peer uuid relay))" by blast
  then obtain x n where x: "send_to_tcp n no_addr x = (sh', outs)" "sh_tcp_punch x = sh_tcp_punch sh" "sh_tx x = sh_tx sh" "\<not> open'"
    using assms(3) tcp_relay_response_shape [of env cfg "proxy_relay_response px exit_peer uuid relay" addr sink sh]
    by (fastforce simp: handle_tcp_msg_def proxy_relay_response_def decode_nothing)
  then show ?thesis using assms(2) by (auto simp: send_to_tcp_def Let_def no_addr_def)
qed

text \<open>
  A refused request looks like a success: a server with a key refuses every connection request of
  this client, which sends no key; the client does not look at the reason and reports a tunnel, to
  the address 0.0.0.0:0.
\<close>

theorem refused_request_looks_connected:
  assumes "key \<noteq> []"
    and "handle_tcp_msg env cfg (connect_request me st peer_id) proto addr key ws (Some s) sh = (sink', sh', outs, open')"
  shows "outs = [SinkSend s (punch_failure_msg LICENSE_MISMATCH) proto] \<and>
    use_answer me' (Some (punch_failure_msg LICENSE_MISMATCH)) = ([], Inr (TunnelDirect no_addr))"
proof -
  have "outs = [SinkSend s (punch_failure_msg LICENSE_MISMATCH) proto]"
    using assms by (auto simp: handle_tcp_msg_def connect_request_def tcp_punch_hole_def handle_tcp_punch_hole_request_def
        handle_punch_hole_request_def stash_sink_def send_to_tcp_def Let_def update_conv')
  moreover have "use_answer me' (Some (punch_failure_msg LICENSE_MISMATCH)) = ([], Inr (TunnelDirect no_addr))"
    by (simp add: use_answer_def punch_failure_msg_def empty_punch_hole_response_def decode_nothing Let_def)
  ultimately show ?thesis by blast
qed

section \<open>Forwarding\<close>

fun forward_target :: "forward \<Rightarrow> string \<times> u16" where
  "forward_target (InboundDirect l p u h port) = (h, port)"
| "forward_target (InboundKcp u h port) = (h, port)"
| "forward_target (RelayTunnel u p s h port) = (h, port)"

text \<open>A target comes from an enabled rule for this peer or for all peers; or there is none.\<close>

definition by_rule :: "client_store \<Rightarrow> string \<Rightarrow> forward \<Rightarrow> bool" where
  "by_rule st peer f \<longleftrightarrow> snd (forward_target f) = 0 \<or>
     (\<exists>r \<in> set (get_rules st). fr_enabled r \<and> (fr_peer_id r = [] \<or> fr_peer_id r = peer) \<and>
        forward_target f = (fr_target_host r, fr_target_port r))"

lemma target_or_default_rule:
  "snd (target_or_default peer st) = 0 \<or>
   (\<exists>r \<in> set (get_rules st). fr_enabled r \<and> (fr_peer_id r = [] \<or> fr_peer_id r = peer) \<and>
      target_or_default peer st = (fr_target_host r, fr_target_port r))"
  by (cases rule: find_target_for_peer_cases [of st peer]) (auto simp: target_or_default_def)

lemma relay_by_rule:
  "create_relay_connection me rz st a rs u sec init peer = (io, fs, failed) \<Longrightarrow> f \<in> set fs \<Longrightarrow>
   if init then snd (forward_target f) = 0 else by_rule st peer f"
  using target_or_default_rule [of peer st]
  by (auto simp: create_relay_connection_def by_rule_def Let_def simp del: perform.simps split: prod.splits option.splits if_splits)

lemma tcp_hole_by_rule:
  "punch_tcp_hole me rz st peer a rs u = (io, fs, failed) \<Longrightarrow> f \<in> set fs \<Longrightarrow> by_rule st (show_ip (sa_ip peer)) f"
  using target_or_default_rule [of "show_ip (sa_ip peer)" st]
  by (auto simp: punch_tcp_hole_def by_rule_def Let_def split: prod.splits if_splits)

lemma kcp_by_rule:
  "punch_kcp me rz st peer p u = (io, fs) \<Longrightarrow> f \<in> set fs \<Longrightarrow> by_rule st (show_ip (sa_ip peer)) f"
  using target_or_default_rule [of "show_ip (sa_ip peer)" st]
  by (auto simp: punch_kcp_def by_rule_def Let_def split: prod.splits if_splits)


text \<open>
  A relay that the server forces carries nothing: the client that is asked takes it for a
  connection of its own and hands over no target, so what arrives is read and dropped.
\<close>

theorem forced_relay_has_no_target:
  assumes "sh_always_use_relay sh" "punch_message env cfg addr peer_addr req ws sh = (sh', Some (PunchHole ph))"
    and "handle_punch_hole me rz st ph = (io, fs, failed)" "f \<in> set fs"
  shows "snd (forward_target f) = 0"
proof -
  have "ph_nat_type ph = Known SYMMETRIC"
    using assms(1,2) by (auto simp: punch_message_def Let_def split: prod.splits if_splits)
  then have "create_relay_connection me rz st (ph_socket_addr ph) (mediator_relay_server st rz (ph_relay_server ph)) (me_uuid me) True True [] =
      (io, fs, failed)"
    using assms(3) by (simp add: handle_punch_hole_def Let_def)
  from relay_by_rule [OF this assms(4)] show ?thesis by simp
qed

lemma relay_no_kcp: "create_relay_connection me rz st x y z u v w = (io, fs, failed) \<Longrightarrow> KcpAccept a \<notin> set io"
proof -
  let ?as = "[Connect (rz_host rz), SendMsg (rz_host rz) (relay_response_msg me st x y z v) (rz_wire rz),
    Connect (check_port y (RENDEZVOUS_PORT + 1))]"
  have "fst (create_relay_connection me rz st x y z u v w) = fst (perform (me_ok me) ?as)"
    by (simp add: create_relay_connection_def Let_def case_prod_beta del: perform.simps split: option.split)
  then show "create_relay_connection me rz st x y z u v w = (io, fs, failed) \<Longrightarrow> ?thesis"
    using perform_subset [of "me_ok me" ?as] by auto
qed

lemma tcp_hole_no_kcp: "punch_tcp_hole me rz st x y z u = (io, fs, failed) \<Longrightarrow> KcpAccept a \<notin> set io"
  by (auto simp: punch_tcp_hole_def Let_def split: prod.splits if_splits)

lemma connect_kcp_answer:
  assumes "connect_to_peer me st peer_id resp = (io, r)" "KcpConnect b \<in> set io"
  shows "\<exists>phr. resp = Some (Some (PunchHoleResponse phr))"
proof -
  have p: "KcpConnect b \<notin> set (fst (perform ok [Connect h, SendMsg g m w]))" "KcpConnect b \<notin> set (fst (perform ok [Connect h, SendRaw g y]))" for ok h g m w y
    using perform_subset [of ok "[Connect h, SendMsg g m w]"] perform_subset [of ok "[Connect h, SendRaw g y]"] by auto
  then have "KcpConnect b \<in> set (fst (use_answer me resp))"
    using assms by (auto simp: connect_to_peer_def Let_def case_prod_beta simp del: perform.simps split: list.splits option.splits)
  then show ?thesis using p
    by (auto simp: use_answer_def Let_def case_prod_beta simp del: perform.simps split: option.splits rendezvous_union.splits)
qed

text \<open>
  The KCP handshake comes too early: a client that is asked for a connection waits for the handshake
  before it does anything else, in particular before it sends the message without which the
  other client does not begin the handshake.
\<close>

theorem kcp_accept_comes_first:
  assumes "handle_punch_hole me rz st ph = (io, fs, failed)" "KcpAccept a \<in> set io"
    and "connect_to_peer me' st' peer_id resp = (io', r)" "KcpConnect b \<in> set io'"
  shows "(\<exists>rest. io = KcpAccept a # rest \<and> KcpAccept a \<notin> set rest) \<and> (\<exists>phr. resp = Some (Some (PunchHoleResponse phr)))"
proof -
  let ?p = "AddrMangle_decode (ph_socket_addr ph)"
  let ?r = "create_relay_connection me rz st (ph_socket_addr ph) (mediator_relay_server st rz (ph_relay_server ph)) (me_uuid me) True True []"
  let ?t = "punch_tcp_hole me rz st ?p (ph_socket_addr ph) (mediator_relay_server st rz (ph_relay_server ph)) (me_uuid me)"
  obtain ior fr xr iot ft xt iok fk where e: "?r = (ior, fr, xr)" "?t = (iot, ft, xt)"
    "(if (ucast (ph_upnp_port ph) :: u16) \<noteq> 0 then punch_kcp me rz st ?p (ucast (ph_upnp_port ph)) (me_uuid me) else ([], [])) = (iok, fk)"
    by (metis surj_pair)
  have no: "KcpAccept a \<notin> set ior" "KcpAccept a \<notin> set iot"
    using relay_no_kcp [OF e(1)] tcp_hole_no_kcp [OF e(2)] by blast+
  have "iok = [] \<or> (\<exists>x. iok = [KcpAccept x])" using e(3) by (auto simp: punch_kcp_def Let_def split: if_splits prod.splits)
  moreover have "io = ior \<or> io = iok \<or> io = iok @ iot \<or> io = iok @ iot @ ior"
    using assms(1) e unfolding handle_punch_hole_def Let_def e by (auto split: if_splits list.splits option.splits)
  ultimately have "\<exists>rest. io = KcpAccept a # rest \<and> KcpAccept a \<notin> set rest" using assms(2) no by auto
  moreover have "\<exists>phr. resp = Some (Some (PunchHoleResponse phr))"
    using assms(3,4) connect_kcp_answer by blast
  ultimately show ?thesis by blast
qed

section \<open>Witnesses\<close>

definition sample_me :: med_env where
  "sample_me = \<lparr>me_now = 7, me_secs = 100,
     me_client = \<lparr>ce_toml_from = \<lambda>_. None, ce_toml_to = \<lambda>_. None, ce_writable = False, ce_base64_encode = dec_encode, ce_base64_decode = dec_decode\<rparr>,
     me_wire = \<lparr>w_parse_from_bytes = \<lambda>_. Some (register_peer_response_msg False), w_write_to_bytes = \<lambda>_. Some [8],
       w_read_message = \<lambda>_. None, w_write_message = \<lambda>_. Some [0]\<rparr>,
     me_version = ''1'', me_ok = \<lambda>_. True, me_local_addr = V4 (Ipv4Addr 10 0 0 1) 4000, me_udp_port = Some 5000,
     me_parse_addr = \<lambda>_. Some (V4 (Ipv4Addr 9 8 7 6) 21116), me_uuid = ''u'', me_micros = 77, me_b64_decode = dec_decode\<rparr>"

definition sample_store :: client_store where
  "sample_store = \<lparr>st_config = config_default\<lparr>cc_id := ''123456789'', cc_uuid := ''1;'', cc_pk := ''2;'', cc_sk := ''3;'',
     cc_rendezvous_servers := ''h'', cc_forward_rules := [forward_rule_new ''r'' ''ssh'' 22]\<rparr>, st_file = None\<rparr>"

definition sample_cs :: client_state where
  "sample_cs = \<lparr>cs_store = sample_store, cs_online = False, cs_should_exit = False, cs_manual_restarted = False, cs_nat_detected = False\<rparr>"

lemma sample_register:
  "snd (snd (handle_tcp_msg test_renv test_cfg (register_pk_msg sample_me (cs_store (snd (snd (mediator_start sample_me ''h'' sample_cs))))) Proto3
      (V4 (Ipv4Addr 1 2 3 4) 5) [] False (Some 3) test_shared)) = ([SinkSend 3 (register_pk_response_msg OK) Proto3], True)"
proof -
  let ?st = "cs_store (snd (snd (mediator_start sample_me ''h'' sample_cs)))"
  have "get_auth_token 100 ?st = None"
    by (simp add: mediator_start_def start_tcp_def Let_def get_auth_token_def set_host_key_confirmed_def sample_cs_def sample_store_def config_default_def)
  then obtain rk where rk: "register_pk_msg sample_me ?st = Some (RegisterPk rk)" "rk_user_token rk = []"
    by (auto simp: register_pk_msg_def sample_me_def)
  obtain pm1 p where g: "pm_get_or (re_peer test_renv) (rk_id rk) (sh_pm test_shared) = (pm1, p)" by fastforce
  have "trim_token [] = None" by (simp add: trim_token_def)
  moreover have "\<not> require_jwt (re_peer test_renv)" "env_db_up (re_peer test_renv)"
    by (simp_all add: test_renv_def test_env_def require_jwt_def)
  then have "snd (update_pk (re_peer test_renv) (rk_id rk) p (V4 (Ipv4Addr 1 2 3 4) 5) (rk_uuid rk) (rk_pk rk) ip None pm1) = OK" for ip
    by (rule update_pk_untokened_OK)
  ultimately show ?thesis using rk g
    by (simp add: handle_tcp_msg_def tcp_register_pk_def Let_def send_to_sink_def case_prod_beta)
qed

theorem client_comes_online_witness:
  "\<exists>rz cn cs1 (sh' :: shared). mediator_start sample_me ''h'' sample_cs = (rz, cn, cs1) \<and>
     (\<exists>p. get_in_memory (get_id (cs_store cs1)) (sh_pm sh') = Some p \<and> peer_online (re_now test_renv) p) \<and>
     cs_online (fst (handle_msg sample_me rz (register_pk_response_msg OK) cn cs1))"
proof -
  obtain rz cn cs1 where m: "mediator_start sample_me ''h'' sample_cs = (rz, cn, cs1)" by (rule prod_cases3)
  obtain sk sh' outs op where h: "handle_tcp_msg test_renv test_cfg (register_pk_msg sample_me (cs_store cs1)) Proto3
      (V4 (Ipv4Addr 1 2 3 4) 5) [] False (Some 3) test_shared = (sk, sh', outs, op)" by (rule prod_cases4)
  obtain cs2 cn2 o2 t2 where r: "handle_msg sample_me rz (register_pk_response_msg OK) cn cs1 = (cs2, cn2, o2, t2)" by (rule prod_cases4)
  have "outs = [SinkSend 3 (register_pk_response_msg OK) Proto3]" using sample_register m h by simp
  moreover have "\<not> cs_should_exit sample_cs" by (simp add: sample_cs_def)
  ultimately have "\<exists>p. get_in_memory (get_id (cs_store cs1)) (sh_pm sh') = Some p \<and> peer_online (re_now test_renv) p" "cs_online cs2"
    using client_comes_online [OF m _ h _ r] by blast+
  moreover have "fst (handle_msg sample_me rz (register_pk_response_msg OK) cn cs1) = cs2" using r by simp
  ultimately show ?thesis using m by blast
qed

theorem tcp_client_gets_no_request_witness:
  "\<exists>sh'. silent 3 (snd (serve_tcp test_cfg [] [\<lparr>ti_env = test_renv, ti_msg = connect_request sample_me sample_store ''123456789'',
     ti_proto = Proto3, ti_addr = V4 (Ipv4Addr 5 6 7 8) 9, ti_ws = False, ti_sink = Some 4\<rparr>] sh'))"
proof -
  obtain sk sh' outs op where h: "handle_tcp_msg test_renv test_cfg (register_pk_msg sample_me sample_store) Proto3
      (V4 (Ipv4Addr 1 2 3 4) 5) [] False (Some 3) test_shared = (sk, sh', outs, op)" by (rule prod_cases4)
  have "unstashed 3 test_shared" by (simp add: unstashed_def test_shared_def)
  then show ?thesis
    using tcp_client_gets_no_request [OF h, of "[\<lparr>ti_env = test_renv, ti_msg = connect_request sample_me sample_store ''123456789'',
     ti_proto = Proto3, ti_addr = V4 (Ipv4Addr 5 6 7 8) 9, ti_ws = False, ti_sink = Some 4\<rparr>]"] by auto
qed

theorem refused_request_looks_connected_witness:
  "fst (snd (snd (handle_tcp_msg test_renv test_cfg (connect_request sample_me sample_store ''5'') Proto3
     (V4 (Ipv4Addr 1 2 3 4) 5) ''k'' False (Some 3) test_shared))) = [SinkSend 3 (punch_failure_msg LICENSE_MISMATCH) Proto3]"
proof -
  obtain sk sh' outs op where h: "handle_tcp_msg test_renv test_cfg (connect_request sample_me sample_store ''5'') Proto3
      (V4 (Ipv4Addr 1 2 3 4) 5) ''k'' False (Some 3) test_shared = (sk, sh', outs, op)" by (rule prod_cases4)
  then show ?thesis using refused_request_looks_connected [OF _ h] by simp
qed

definition sample_ph :: punch_hole where
  "sample_ph = \<lparr>ph_socket_addr = AddrMangle_encode 77 (V4 (Ipv4Addr 5 6 7 8) 9), ph_relay_server = [], ph_nat_type = Known ASYMMETRIC, ph_udp_port = 0,
     ph_force_relay = False, ph_upnp_port = 6000, ph_socket_addr_v6 = [], ph_control_permissions = None\<rparr>"

definition sample_rz :: mediator where
  "sample_rz = \<lparr>rz_host = ''h:21116'', rz_host_prefix = ''h'', rz_wire = Proto3\<rparr>"

lemma sample_target: "target_or_default x sample_store = (''127.0.0.1'', 22)"
  by (simp add: target_or_default_def find_target_for_peer_def sample_store_def config_default_def forward_rule_new_def Let_def)

lemma sample_punch:
  "\<exists>a. handle_punch_hole sample_me sample_rz sample_store sample_ph = ([KcpAccept a], [InboundKcp ''u'' ''127.0.0.1'' 22], None)"
  by (simp add: handle_punch_hole_def punch_kcp_def sample_target sample_ph_def sample_me_def Let_def)


theorem forced_relay_has_no_target_witness:
  "\<exists>ph f. snd (punch_message test_renv test_cfg (V4 (Ipv4Addr 1 2 3 4) 5) (V4 (Ipv4Addr 9 9 9 9) 99) test_ph False
       (test_shared\<lparr>sh_always_use_relay := True\<rparr>)) = Some (PunchHole ph) \<and>
     f \<in> set (fst (snd (handle_punch_hole sample_me sample_rz sample_store ph))) \<and> snd (forward_target f) = 0"
proof -
  let ?sh = "test_shared\<lparr>sh_always_use_relay := True\<rparr>"
  obtain sh' ph where m: "punch_message test_renv test_cfg (V4 (Ipv4Addr 1 2 3 4) 5) (V4 (Ipv4Addr 9 9 9 9) 99) test_ph False ?sh = (sh', Some (PunchHole ph))"
    "ph_nat_type ph = Known SYMMETRIC"
    by (auto simp: punch_message_def Let_def is_lan_def test_cfg_def same_ip_def get_relay_server_def)
  obtain io fs failed where h: "handle_punch_hole sample_me sample_rz sample_store ph = (io, fs, failed)" by (rule prod_cases3)
  have "\<exists>f. f \<in> set fs" using h m(2) by (auto simp: handle_punch_hole_def create_relay_connection_def sample_me_def Let_def)
  then show ?thesis using forced_relay_has_no_target [OF _ m(1) h] m(1) h by auto
qed

theorem kcp_accept_comes_first_witness:
  "\<exists>a rest. fst (handle_punch_hole sample_me sample_rz sample_store sample_ph) = KcpAccept a # rest"
proof -
  obtain a where p: "handle_punch_hole sample_me sample_rz sample_store sample_ph = ([KcpAccept a], [InboundKcp ''u'' ''127.0.0.1'' 22], None)"
    using sample_punch by blast
  let ?r = "Some (Some (PunchHoleResponse (empty_punch_hole_response\<lparr>phres_upnp_port := 1\<rparr>)))"
  have "get_rendezvous_servers sample_store = [''h'']"
    by (simp add: get_rendezvous_servers_def sample_store_def trim_def is_space_def)
  then obtain io r b where "connect_to_peer sample_me sample_store ''5'' ?r = (io, r)" "KcpConnect b \<in> set io"
    by (auto simp: connect_to_peer_def use_answer_def sample_me_def Let_def)
  then show ?thesis using kcp_accept_comes_first [OF p, of a] p by auto
qed

theorem keep_alive_every_tick_witness:
  "\<exists>cn cs. snd (snd (snd (med_run sample_rz (concat (replicate 3 [(sample_me, True, Tick), (sample_me, True, Incoming [1])])) cn cs))) = Inr cn \<and>
     length (fst (snd (med_run sample_rz (concat (replicate 3 [(sample_me, True, Tick), (sample_me, True, Incoming [1])])) cn cs))) = 3"
proof -
  let ?cs = "sample_cs\<lparr>cs_store := set_host_key_confirmed (me_client sample_me) ''h'' True (set_key_confirmed (me_client sample_me) True sample_store),
    cs_online := True, cs_nat_detected := True\<rparr>"
  let ?cn = "\<lparr>cn_last_register_sent = None, cn_last_recv = 7\<rparr>"
  have "\<not> need_reg sample_rz (cs_store ?cs)" using confirm_not_need_reg [of sample_rz "me_client sample_me" sample_store] by (simp add: sample_rz_def)
  moreover have "parse_msg (me_wire sample_me) [1] = Some (register_peer_response_msg False)"
    by (simp add: sample_me_def parse_msg_def detect_def)
  moreover have "\<not> cs_should_exit ?cs" "me_now sample_me = 7" by (simp_all add: sample_cs_def sample_me_def)
  ultimately show ?thesis using keep_alive_every_tick [of ?cs sample_rz ?cn sample_me "[1]" 3] by (intro exI [of _ ?cn] exI [of _ ?cs]) simp
qed

theorem proxy_request_goes_nowhere_witness:
  "\<exists>hbbs msg. SendMsg hbbs msg Proto3 \<in> set (fst (connect_via_relay sample_proxy ''9'' ''a.b'' 443)) \<and>
     fst (snd (snd (handle_tcp_msg test_renv test_cfg msg Proto3 (V4 (Ipv4Addr 1 2 3 4) 5) [] False (Some 3) test_shared))) = []"
proof -
  obtain hbbs msg where m: "SendMsg hbbs msg Proto3 \<in> set (fst (connect_via_relay sample_proxy ''9'' ''a.b'' 443))"
    using sample_servers by (auto simp: connect_via_relay_def sample_proxy_def get_rendezvous_wire_protocol_def config_default_def Let_def)
  obtain sk sh' outs op where h: "handle_tcp_msg test_renv test_cfg msg Proto3 (V4 (Ipv4Addr 1 2 3 4) 5) [] False (Some 3) test_shared = (sk, sh', outs, op)"
    by (rule prod_cases4)
  have "map_of (sh_tcp_punch test_shared) no_addr = None" by (simp add: test_shared_def)
  then show ?thesis using proxy_request_goes_nowhere [OF m _ h] m h by (intro exI [of _ hbbs] exI [of _ msg]) simp
qed

end
