(* ===== verification/Client_Bridge.thy ===== *)
theory Client_Bridge
  imports Client_Mediator
begin

text \<open>
  The tunnels of the client, \<open>nat-client/src/port_forward.rs\<close> with the bridges of
  \<open>socks5.rs\<close> and \<open>rendezvous_mediator.rs\<close>: the table of active connections, and
  the two tasks that copy between a local application and the other end.  A bridge over
  a relay keeps the relay stream behind a mutex, which its receiving task holds while
  it waits for a frame; a bridge between two TCP streams has no lock.  The end of a
  stream and the close signal are modelled; listening sockets, failing writes and the KCP
  library are not.
\<close>

section \<open>Active connections\<close>

datatype pf_conn_type = Direct | Relay

text \<open>\<open>ac_close\<close>: whether the sender of the close signal is still there.\<close>

record active_conn =
  ac_uuid :: string
  ac_conn_type :: pf_conn_type
  ac_peer_addr :: string
  ac_local_port :: "u16 option"
  ac_bytes_sent :: u64
  ac_bytes_recv :: u64
  ac_created_at :: u64
  ac_close :: bool

type_synonym conn_table = "(string \<times> active_conn) list"

definition new_conn :: "string \<Rightarrow> pf_conn_type \<Rightarrow> string \<Rightarrow> u16 option \<Rightarrow> u64 \<Rightarrow> active_conn" where
  "new_conn uuid ty peer port now =
     \<lparr>ac_uuid = uuid, ac_conn_type = ty, ac_peer_addr = peer, ac_local_port = port, ac_bytes_sent = 0, ac_bytes_recv = 0,
      ac_created_at = now, ac_close = True\<rparr>"

definition register_conn :: "active_conn \<Rightarrow> conn_table \<Rightarrow> conn_table" where
  "register_conn conn t = AList.update (ac_uuid conn) conn t"

definition remove_conn :: "string \<Rightarrow> conn_table \<Rightarrow> conn_table" where
  "remove_conn uuid t = AList.delete uuid t"

definition get_active_connections :: "conn_table \<Rightarrow> active_conn list" where
  "get_active_connections t = map snd t"

text \<open>\<open>close\<close> takes the sender and uses it: the new table, and whether the signal was sent.\<close>

definition conn_close :: "active_conn \<Rightarrow> conn_table \<Rightarrow> conn_table \<times> bool" where
  "conn_close conn t =
     (if ac_close conn then (AList.update (ac_uuid conn) (conn\<lparr>ac_close := False\<rparr>) t, True) else (t, False))"

section \<open>Bridges\<close>

text \<open>
  The five functions that start a pair of copying tasks.  They differ in the lock and in
  whether the connection is entered in the table, where it can be closed.
\<close>

datatype bridge_fn = Bridge_with_relay | Bridge_relay_and_target | Register_relay | Create_outbound_relay | Proxy_with_close

fun bridge_locked :: "bridge_fn \<Rightarrow> bool" where
  "bridge_locked Proxy_with_close = False"
| "bridge_locked _ = True"

fun bridge_listed :: "bridge_fn \<Rightarrow> bool" where
  "bridge_listed Bridge_with_relay = False"
| "bridge_listed Bridge_relay_and_target = False"
| "bridge_listed _ = True"

text \<open>
  One end of a tunnel: what the application has still to send before it closes, what it
  has received, in pieces of at most 32 KiB as they are read, where the two tasks are, and
  whether the connection is in the table.
\<close>

datatype sender = ReadingLocal | WantsToSend bytes | SenderDone

datatype receiver = WantsLock | AwaitsFrame | WritesLocal bytes | ReceiverDone

record bridge =
  br_in :: "bytes list"
  br_out :: "bytes list"
  br_sender :: sender
  br_receiver :: receiver
  br_listed :: bool

definition bridge_start :: "bridge_fn \<Rightarrow> bytes list \<Rightarrow> bridge" where
  "bridge_start f pieces =
     \<lparr>br_in = pieces, br_out = [], br_sender = ReadingLocal, br_receiver = WantsLock, br_listed = bridge_listed f\<rparr>"

text \<open>The lock is free unless the receiving task waits with it; a send keeps it only while it writes.\<close>

definition lock_free :: "bridge_fn \<Rightarrow> bridge \<Rightarrow> bool" where
  "lock_free f b \<longleftrightarrow> \<not> bridge_locked f \<or> br_receiver b \<noteq> AwaitsFrame"

text \<open>
  What travels between the ends: pieces, and the end of the stream.  A plain stream is split
  into halves, and the end of the task that owns the writing half ends the stream; a relay
  stream is shared, and it ends when both tasks have ended.
\<close>

datatype frame = Piece bytes | EndOfStream

definition end_by_sender :: "bridge_fn \<Rightarrow> bridge \<Rightarrow> frame list" where
  "end_by_sender f b = (if bridge_locked f \<and> br_receiver b \<noteq> ReceiverDone then [] else [EndOfStream])"

definition end_by_receiver :: "bridge_fn \<Rightarrow> bridge \<Rightarrow> frame list" where
  "end_by_receiver f b = (if bridge_locked f \<and> br_sender b = SenderDone then [EndOfStream] else [])"

text \<open>
  A turn of one end, with the frames on their way from it and to it.  \<open>select!\<close> drops the
  handles of the tasks that have not ended, which lets them run on: the end of one task
  and the close signal only take the connection from the table.
\<close>

inductive bridge_step :: "bridge_fn \<Rightarrow> bridge \<times> frame list \<times> frame list \<Rightarrow> bridge \<times> frame list \<times> frame list \<Rightarrow> bool" for f where
  read_local: "br_sender b = ReadingLocal \<Longrightarrow> br_in b = p # ps \<Longrightarrow>
    bridge_step f (b, out, inc) (b\<lparr>br_in := ps, br_sender := WantsToSend p\<rparr>, out, inc)"
| read_end: "br_sender b = ReadingLocal \<Longrightarrow> br_in b = [] \<Longrightarrow>
    bridge_step f (b, out, inc) (b\<lparr>br_sender := SenderDone\<rparr>, out @ end_by_sender f b, inc)"
| send_piece: "br_sender b = WantsToSend p \<Longrightarrow> lock_free f b \<Longrightarrow>
    bridge_step f (b, out, inc) (b\<lparr>br_sender := ReadingLocal\<rparr>, out @ [Piece p], inc)"
| take_lock: "br_receiver b = WantsLock \<Longrightarrow> bridge_step f (b, out, inc) (b\<lparr>br_receiver := AwaitsFrame\<rparr>, out, inc)"
| got_piece: "br_receiver b = AwaitsFrame \<Longrightarrow>
    bridge_step f (b, out, Piece p # inc) (b\<lparr>br_receiver := WritesLocal p\<rparr>, out, inc)"
| got_end: "br_receiver b = AwaitsFrame \<Longrightarrow>
    bridge_step f (b, out, EndOfStream # inc) (b\<lparr>br_receiver := ReceiverDone\<rparr>, out @ end_by_receiver f b, inc)"
| write_local: "br_receiver b = WritesLocal p \<Longrightarrow>
    bridge_step f (b, out, inc) (b\<lparr>br_receiver := WantsLock, br_out := br_out b @ [p]\<rparr>, out, inc)"
| select_ends: "br_sender b = SenderDone \<or> br_receiver b = ReceiverDone \<Longrightarrow> br_listed b \<Longrightarrow>
    bridge_step f (b, out, inc) (b\<lparr>br_listed := False\<rparr>, out, inc)"
| close_signal: "br_listed b \<Longrightarrow> bridge_step f (b, out, inc) (b\<lparr>br_listed := False\<rparr>, out, inc)"

inductive_cases bridge_stepE: "bridge_step f (b, out, inc) (b', out', inc')"

text \<open>Two ends and the frames between them.\<close>

record tunnel_state =
  ts_a :: bridge
  ts_b :: bridge
  ts_ab :: "frame list"
  ts_ba :: "frame list"

inductive tunnel_step :: "bridge_fn \<Rightarrow> bridge_fn \<Rightarrow> tunnel_state \<Rightarrow> tunnel_state \<Rightarrow> bool" for fa fb where
  left: "bridge_step fa (ts_a t, ts_ab t, ts_ba t) (a, ab, ba) \<Longrightarrow> tunnel_step fa fb t (t\<lparr>ts_a := a, ts_ab := ab, ts_ba := ba\<rparr>)"
| right: "bridge_step fb (ts_b t, ts_ba t, ts_ab t) (b, ba, ab) \<Longrightarrow> tunnel_step fa fb t (t\<lparr>ts_b := b, ts_ba := ba, ts_ab := ab\<rparr>)"

definition tunnel_start :: "bridge_fn \<Rightarrow> bridge_fn \<Rightarrow> bytes list \<Rightarrow> bytes list \<Rightarrow> tunnel_state" where
  "tunnel_start fa fb pa pb = \<lparr>ts_a = bridge_start fa pa, ts_b = bridge_start fb pb, ts_ab = [], ts_ba = []\<rparr>"

inductive tunnel_reach :: "bridge_fn \<Rightarrow> bridge_fn \<Rightarrow> tunnel_state \<Rightarrow> tunnel_state \<Rightarrow> bool" for fa fb where
  here: "tunnel_reach fa fb t t"
| step: "tunnel_reach fa fb t t' \<Longrightarrow> tunnel_step fa fb t' t'' \<Longrightarrow> tunnel_reach fa fb t t''"

section \<open>What is sent arrives in order\<close>

fun frame_bytes :: "frame \<Rightarrow> bytes list" where
  "frame_bytes (Piece p) = [p]"
| "frame_bytes EndOfStream = []"

definition sender_has :: "sender \<Rightarrow> bytes list" where
  "sender_has s = (case s of WantsToSend p \<Rightarrow> [p] | _ \<Rightarrow> [])"

definition receiver_has :: "receiver \<Rightarrow> bytes list" where
  "receiver_has r = (case r of WritesLocal p \<Rightarrow> [p] | _ \<Rightarrow> [])"

text \<open>What has been received, what is on its way, and what is still to be sent.\<close>

definition in_order :: "bridge \<Rightarrow> frame list \<Rightarrow> bridge \<Rightarrow> bytes list" where
  "in_order a wire b =
     br_out b @ receiver_has (br_receiver b) @ concat (map frame_bytes wire) @ sender_has (br_sender a) @ br_in a"

lemmas bridge_defs = in_order_def sender_has_def receiver_has_def end_by_sender_def end_by_receiver_def

lemma bridge_step_order:
  assumes "bridge_step f (a, ab, ba) (a', ab', ba')"
  shows "in_order a' ab' b = in_order a ab b \<and> in_order b ba' a' = in_order b ba a"
  using assms by (elim bridge_stepE) (auto simp: bridge_defs)

lemma tunnel_order:
  assumes "tunnel_reach fa fb (tunnel_start fa fb pa pb) t"
  shows "in_order (ts_a t) (ts_ab t) (ts_b t) = pa \<and> in_order (ts_b t) (ts_ba t) (ts_a t) = pb"
using assms
proof (induction "tunnel_start fa fb pa pb" t)
  case here
  show ?case by (simp add: tunnel_start_def bridge_start_def bridge_defs)
next
  case (step t' t'')
  from step(3,2) show ?case
    by (cases rule: tunnel_step.cases) (auto dest: bridge_step_order)
qed



section \<open>Both ends wait\<close>

definition deaf :: "bytes list \<Rightarrow> bytes list \<Rightarrow> tunnel_state \<Rightarrow> bool" where
  "deaf oa ob t \<longleftrightarrow> br_receiver (ts_a t) = AwaitsFrame \<and> br_receiver (ts_b t) = AwaitsFrame \<and> ts_ab t = [] \<and> ts_ba t = [] \<and>
     br_out (ts_a t) = oa \<and> br_out (ts_b t) = ob"

lemma deaf_step: "tunnel_step fa fb t t' \<Longrightarrow> bridge_locked fa \<Longrightarrow> bridge_locked fb \<Longrightarrow> deaf oa ob t \<Longrightarrow> deaf oa ob t'"
  by (erule tunnel_step.cases; erule bridge_step.cases) (auto simp: deaf_def lock_free_def end_by_sender_def)

lemma deaf_forever:
  "tunnel_reach fa fb t t' \<Longrightarrow> bridge_locked fa \<Longrightarrow> bridge_locked fb \<Longrightarrow> deaf oa ob t \<Longrightarrow> deaf oa ob t'"
  by (induction rule: tunnel_reach.induct) (auto intro: deaf_step)

lemma both_take_lock:
  "\<exists>t. tunnel_reach fa fb (tunnel_start fa fb pa pb) t \<and> deaf [] [] t"
proof -
  let ?s = "tunnel_start fa fb pa pb"
  let ?t1 = "?s\<lparr>ts_a := (bridge_start fa pa)\<lparr>br_receiver := AwaitsFrame\<rparr>\<rparr>"
  let ?t2 = "?t1\<lparr>ts_b := (bridge_start fb pb)\<lparr>br_receiver := AwaitsFrame\<rparr>\<rparr>"
  have l: "bridge_step f (bridge_start f p, [], []) ((bridge_start f p)\<lparr>br_receiver := AwaitsFrame\<rparr>, [], [])" for f p
    by (rule bridge_step.take_lock) (simp add: bridge_start_def)
  have "tunnel_step fa fb ?s (?s\<lparr>ts_a := (bridge_start fa pa)\<lparr>br_receiver := AwaitsFrame\<rparr>, ts_ab := [], ts_ba := []\<rparr>)"
    by (rule tunnel_step.left) (simp add: tunnel_start_def l)
  moreover have "tunnel_step fa fb ?t1 (?t1\<lparr>ts_b := (bridge_start fb pb)\<lparr>br_receiver := AwaitsFrame\<rparr>, ts_ba := [], ts_ab := []\<rparr>)"
    by (rule tunnel_step.right) (simp add: tunnel_start_def l)
  ultimately have "tunnel_step fa fb ?s ?t1" "tunnel_step fa fb ?t1 ?t2" by (simp_all add: tunnel_start_def)
  then have "tunnel_reach fa fb ?s ?t2" by (rule tunnel_reach.step [OF tunnel_reach.step [OF tunnel_reach.here]])
  moreover have "deaf [] [] ?t2" by (simp add: deaf_def tunnel_start_def bridge_start_def)
  ultimately show ?thesis by blast
qed

text \<open>
  Two ends over a relay can block each other: when both receiving tasks take the lock before
  anything was sent, both wait for the other with the lock that a send needs, and whatever the
  applications send, nothing is ever delivered in either direction.
\<close>

theorem relay_bridges_block:
  assumes "bridge_locked fa" "bridge_locked fb"
  shows "\<exists>t. tunnel_reach fa fb (tunnel_start fa fb pa pb) t \<and>
     (\<forall>t'. tunnel_reach fa fb t t' \<longrightarrow> br_out (ts_a t') = [] \<and> br_out (ts_b t') = [])"
  using both_take_lock [of fa fb pa pb] deaf_forever [OF _ assms] by (metis deaf_def)

theorem relay_bridges_block_witness:
  "\<exists>t. tunnel_reach Bridge_with_relay Bridge_relay_and_target (tunnel_start Bridge_with_relay Bridge_relay_and_target [[1]] []) t \<and>
     br_out (ts_b t) = []"
  using relay_bridges_block [of Bridge_with_relay Bridge_relay_and_target "[[1]]" "[]"] tunnel_reach.here by fastforce

text \<open>
  A tunnel over a relay does not end by itself: no end of a stream is ever sent, because the receiving tasks
  keep the stream; when an application closes, the other one is not told.
\<close>

definition endless :: "tunnel_state \<Rightarrow> bool" where
  "endless t \<longleftrightarrow> br_receiver (ts_a t) \<noteq> ReceiverDone \<and> br_receiver (ts_b t) \<noteq> ReceiverDone \<and>
     EndOfStream \<notin> set (ts_ab t) \<and> EndOfStream \<notin> set (ts_ba t)"

lemma endless_step: "tunnel_step fa fb t t' \<Longrightarrow> bridge_locked fa \<Longrightarrow> bridge_locked fb \<Longrightarrow> endless t \<Longrightarrow> endless t'"
  by (erule tunnel_step.cases; erule bridge_step.cases) (auto simp: endless_def end_by_sender_def)

lemma relay_tunnel_endless:
  assumes "tunnel_reach fa fb (tunnel_start fa fb pa pb) t" "bridge_locked fa" "bridge_locked fb"
  shows "endless t"
  using assms
proof (induction "tunnel_start fa fb pa pb" t)
  case here
  show ?case by (simp add: endless_def tunnel_start_def bridge_start_def)
qed (blast intro: endless_step)

section \<open>Bridges without a lock\<close>

text \<open>The work that is left to one end and for the frames on their way from it.\<close>

definition bridge_work :: "bridge \<Rightarrow> nat" where
  "bridge_work b = 5 * length (br_in b) +
     (case br_sender b of ReadingLocal \<Rightarrow> 5 | WantsToSend _ \<Rightarrow> 9 | SenderDone \<Rightarrow> 0) +
     (case br_receiver b of WritesLocal _ \<Rightarrow> 6 | WantsLock \<Rightarrow> 5 | AwaitsFrame \<Rightarrow> 4 | ReceiverDone \<Rightarrow> 0) +
     (if br_listed b then 1 else 0)"

definition tunnel_work :: "tunnel_state \<Rightarrow> nat" where
  "tunnel_work t = bridge_work (ts_a t) + bridge_work (ts_b t) + 3 * length (ts_ab t) + 3 * length (ts_ba t)"

lemma bridge_step_work:
  "bridge_step f (b, out, inc) (b', out', inc') \<Longrightarrow>
   bridge_work b' + 3 * length out' + 3 * length inc' < bridge_work b + 3 * length out + 3 * length inc"
  by (elim bridge_stepE) (auto simp: bridge_work_def end_by_sender_def end_by_receiver_def)

lemma tunnel_step_work: "tunnel_step fa fb t t' \<Longrightarrow> tunnel_work t' < tunnel_work t"
  by (erule tunnel_step.cases) (auto simp: tunnel_work_def dest!: bridge_step_work)

definition ended :: "bridge \<Rightarrow> bool" where
  "ended b \<longleftrightarrow> br_sender b = SenderDone \<and> br_receiver b = ReceiverDone \<and> \<not> br_listed b"

text \<open>On the wire from a plain end the end of the stream comes last, and is there from the end of its sender to the end of the other receiver.\<close>

definition end_last :: "bridge \<Rightarrow> frame list \<Rightarrow> bridge \<Rightarrow> bool" where
  "end_last a wire b \<longleftrightarrow>
     (if br_sender a = SenderDone \<and> br_receiver b \<noteq> ReceiverDone then \<exists>ps. wire = map Piece ps @ [EndOfStream]
      else EndOfStream \<notin> set wire) \<and> (br_sender a = SenderDone \<longrightarrow> br_in a = []) \<and> (br_receiver b = ReceiverDone \<longrightarrow> wire = [] \<and> br_sender a = SenderDone)"

lemma only_pieces: "EndOfStream \<notin> set w \<Longrightarrow> \<exists>ps. w = map Piece ps"
proof (induction w)
  case (Cons x w)
  then obtain ps where "w = map Piece ps" by auto
  with Cons(2) show ?case by (cases x) (auto intro: exI [of _ "_ # ps"])
qed simp

lemma end_only_last: "EndOfStream # w = map Piece ps @ [EndOfStream] \<Longrightarrow> w = []"
  by (cases ps) auto

lemma piece_first: "Piece p # w = map Piece ps @ [EndOfStream] \<Longrightarrow> \<exists>qs. w = map Piece qs @ [EndOfStream]"
  by (cases ps) auto

lemma end_last_step:
  assumes "bridge_step Proxy_with_close (a, ab, ba) (a', ab', ba')" "end_last a ab b" "end_last b ba a"
  shows "end_last a' ab' b \<and> end_last b ba' a'"
  using assms
  by (elim bridge_stepE)
    (auto simp: end_last_def end_by_sender_def end_by_receiver_def dest: only_pieces end_only_last piece_first split: if_splits)

lemma tunnel_end_last:
  assumes "tunnel_reach Proxy_with_close Proxy_with_close (tunnel_start Proxy_with_close Proxy_with_close pa pb) t"
  shows "end_last (ts_a t) (ts_ab t) (ts_b t) \<and> end_last (ts_b t) (ts_ba t) (ts_a t)"
  using assms
proof (induction "tunnel_start Proxy_with_close Proxy_with_close pa pb" t)
  case here
  show ?case by (simp add: end_last_def tunnel_start_def bridge_start_def)
next
  case (step t' t'')
  from step(3,2) show ?case
    by (cases rule: tunnel_step.cases) (auto dest: end_last_step)
qed

lemma bridge_idle:
  assumes "\<not> (\<exists>x. bridge_step Proxy_with_close (b, out, inc) x)"
  shows "br_sender b = SenderDone" "\<not> br_listed b"
    "br_receiver b = ReceiverDone \<or> br_receiver b = AwaitsFrame \<and> inc = []"
proof -
  show s: "br_sender b = SenderDone"
  proof (cases "br_sender b")
    case ReadingLocal
    then show ?thesis using assms bridge_step.read_local [of b] bridge_step.read_end [of b] by (cases "br_in b") blast+
  next
    case (WantsToSend p)
    then show ?thesis using assms bridge_step.send_piece [of b p Proxy_with_close out inc] by (auto simp: lock_free_def)
  qed simp
  show "\<not> br_listed b" using assms bridge_step.close_signal [of b] by blast
  show "br_receiver b = ReceiverDone \<or> br_receiver b = AwaitsFrame \<and> inc = []"
  proof (cases "br_receiver b")
    case AwaitsFrame
    then show ?thesis
      using assms bridge_step.got_piece [of b Proxy_with_close out] bridge_step.got_end [of b Proxy_with_close out]
      by (metis frame.exhaust neq_Nil_conv)
  qed (use assms bridge_step.take_lock [of b] bridge_step.write_local [of b] in blast)+
qed



end
