(* ===== verification/Service_Scan.thy ===== *)
theory Service_Scan
  imports Socks5_Proxy
begin

text \<open>
  The scan for local services of \<open>nat-client/src/port_forward.rs\<close>: twenty known ports,
  and the full scans that read the tables of Linux and the output of \<open>netstat\<close>,
  \<open>tasklist\<close> and \<open>lsof\<close>.  What the system reports is an argument: the texts, which
  ports accept a connection, which process owns a socket.
\<close>

section \<open>Services\<close>

record service_info =
  si_port :: u16
  si_name :: string
  si_target :: string
  si_bind_addr :: string
  si_pid :: "u32 option"
  si_process_name :: string

definition well_known_name :: "u16 \<Rightarrow> string" where
  "well_known_name port =
     (case map_of
        [(21, ''FTP''), (22, ''SSH''), (23, ''Telnet''), (25, ''SMTP''), (53, ''DNS''), (80, ''HTTP''), (110, ''POP3''),
         (143, ''IMAP''), (443, ''HTTPS''), (1433, ''MSSQL''), (1521, ''Oracle''), (3306, ''MySQL''), (3389, ''RDP''),
         (5432, ''PostgreSQL''), (5900, ''VNC''), (6379, ''Redis''), (8080, ''HTTP-Alt''), (8443, ''HTTPS-Alt''),
         (8888, ''Jupyter''), (9200, ''Elasticsearch''), (27017, ''MongoDB''), (5000, ''HTTP-Dev''), (8000, ''HTTP-Dev''),
         (4000, ''HTTP-Dev''), (9000, ''HTTP-Dev'')] port of
        Some n \<Rightarrow> n
      | None \<Rightarrow> [])"

definition local_target :: "u16 \<Rightarrow> string" where
  "local_target port = ''127.0.0.1:'' @ show_nat (unat port)"

definition new_service :: "u16 \<Rightarrow> string \<Rightarrow> u32 option \<Rightarrow> string \<Rightarrow> service_info" where
  "new_service port addr pid process =
     \<lparr>si_port = port, si_name = well_known_name port, si_target = local_target port, si_bind_addr = addr, si_pid = pid,
      si_process_name = process\<rparr>"

text \<open>\<open>sort_by_key\<close> and \<open>dedup_by_key\<close>, which keeps the first of neighbours with one key.\<close>

definition sort_by_port :: "service_info list \<Rightarrow> service_info list" where
  "sort_by_port ss = sort_key (\<lambda>s. unat (si_port s)) ss"

fun dedup_by_port :: "service_info list \<Rightarrow> service_info list" where
  "dedup_by_port (s # t # ss) = (if si_port s = si_port t then dedup_by_port (s # ss) else s # dedup_by_port (t # ss))"
| "dedup_by_port ss = ss"

section \<open>Known ports\<close>

definition scan_ports :: "u16 list" where
  "scan_ports = [21, 22, 23, 80, 443, 1433, 3306, 3389, 5432, 5900, 6379, 8080, 8443, 8888, 9200, 27017, 5000, 8000, 4000, 9000]"

definition scan_local_services :: "(u16 \<Rightarrow> bool) \<Rightarrow> service_info list" where
  "scan_local_services connects = sort_by_port (map (\<lambda>p. new_service p [] None []) (filter connects scan_ports))"

section \<open>Linux\<close>

text \<open>\<open>from_str_radix(16)\<close> for an unsigned type.\<close>

definition hex_value :: "char \<Rightarrow> nat" where
  "hex_value c = (let n = of_char c :: nat in if n \<le> 57 then n - 48 else if n \<le> 70 then n - 55 else n - 87)"

definition parse_hex :: "nat \<Rightarrow> string \<Rightarrow> nat option" where
  "parse_hex hi s =
     (let t = (case s of c # cs \<Rightarrow> if c = CHR ''+'' then cs else s | [] \<Rightarrow> []) in
      if t = [] \<or> \<not> list_all is_hex t then None
      else let n = foldl (\<lambda>a c. 16 * a + hex_value c) 0 t in if n \<le> hi then Some n else None)"

definition split_whitespace :: "string \<Rightarrow> string list" where
  "split_whitespace s = filter (\<lambda>w. w \<noteq> []) (split_on CHR '' '' (map (\<lambda>c. if is_space c then CHR '' '' else c) s))"

definition parse_proc_net_addr :: "string \<Rightarrow> bool \<Rightarrow> string \<times> u16" where
  "parse_proc_net_addr s is_v6 =
     (case split_on CHR '':'' s of
        [hex, p] \<Rightarrow>
          (let port = (case parse_hex 65535 p of Some n \<Rightarrow> word_of_nat n | None \<Rightarrow> 0);
               ip = (if is_v6 then
                       if length hex = 32 then
                         ''['' @ join_with '':'' (List.map_filter
                           (\<lambda>i. map_option (\<lambda>v. let b = to_le_bytes (word_of_nat v :: u32)
                                              in hex2 (b ! 0) @ hex2 (b ! 1) @ '':'' @ hex2 (b ! 2) @ hex2 (b ! 3))
                                  (parse_hex (2 ^ 32 - 1) (take 8 (drop (8 * i) hex)))) [0..<4]) @ '']''
                       else []
                     else (case parse_hex (2 ^ 32 - 1) hex of
                             Some v \<Rightarrow> join_with ''.'' (map (\<lambda>b. show_nat (unat b)) (to_le_bytes (word_of_nat v :: u32)))
                           | None \<Rightarrow> []))
           in (ip, port))
      | _ \<Rightarrow> ([], 0))"

text \<open>\<open>inode_pid\<close> and \<open>comm\<close> stand for the table of sockets and for \<open>/proc/<pid>/comm\<close>.\<close>

definition linux_line :: "(nat \<rightharpoonup> u32) \<Rightarrow> (u32 \<rightharpoonup> string) \<Rightarrow> bool \<Rightarrow> string \<Rightarrow> service_info option" where
  "linux_line inode_pid comm is_v6 line =
     (let cols = split_whitespace line in
      if length cols < 10 \<or> cols ! 3 \<noteq> ''0A'' then None
      else (case parse_proc_net_addr (cols ! 1) is_v6 of
              (bind_ip, port) \<Rightarrow>
                if port = 0 then None
                else let inode = (case parse_unsigned (2 ^ 64 - 1) (cols ! 9) of Some n \<Rightarrow> n | None \<Rightarrow> 0);
                         pid = inode_pid inode;
                         process_name = (case Option.bind pid comm of Some s \<Rightarrow> trim s | None \<Rightarrow> [])
                     in Some (new_service port bind_ip pid process_name)))"

definition scan_full_linux :: "(nat \<rightharpoonup> u32) \<Rightarrow> (u32 \<rightharpoonup> string) \<Rightarrow> string option \<Rightarrow> string option \<Rightarrow> service_info list" where
  "scan_full_linux inode_pid comm tcp tcp6 =
     (let scan = (\<lambda>is_v6 content. case content of
            Some s \<Rightarrow> List.map_filter (linux_line inode_pid comm is_v6) (tl (str_lines s)) | None \<Rightarrow> [])
      in dedup_by_port (sort_by_port (scan False tcp @ scan True tcp6)))"

text \<open>The table of sockets: the first process, in the order of \<open>/proc\<close>, that has the socket open.\<close>

definition socket_inode :: "string \<Rightarrow> nat option" where
  "socket_inode t =
     (if starts_with t ''socket:['' \<and> ends_with (drop 8 t) '']''
      then parse_unsigned (2 ^ 64 - 1) (butlast (drop 8 t)) else None)"

definition build_inode_pid_map :: "(string \<times> string list option) list \<Rightarrow> nat \<rightharpoonup> u32" where
  "build_inode_pid_map proc =
     foldl (\<lambda>m (name, fds).
        case (parse_unsigned (2 ^ 32 - 1) name, fds) of
          (Some pid, Some links) \<Rightarrow>
            foldl (\<lambda>m t. case socket_inode t of
                Some inode \<Rightarrow> if m inode = None then m(inode \<mapsto> word_of_nat pid) else m
              | None \<Rightarrow> m) m links
        | _ \<Rightarrow> m) Map.empty proc"

section \<open>Windows\<close>

definition eq_ignore_ascii_case :: "string \<Rightarrow> string \<Rightarrow> bool" where
  "eq_ignore_ascii_case a b \<longleftrightarrow> to_lower a = to_lower b"

definition port_or_0 :: "string \<Rightarrow> u16" where
  "port_or_0 s = (case parse_unsigned 65535 s of Some n \<Rightarrow> word_of_nat n | None \<Rightarrow> 0)"

definition pid_or_0 :: "string \<Rightarrow> u32" where
  "pid_or_0 s = (case parse_unsigned (2 ^ 32 - 1) s of Some n \<Rightarrow> word_of_nat n | None \<Rightarrow> 0)"

text \<open>The text up to the last bracket and what \<open>get(bracket_end + 2..)\<close> gives.\<close>

definition bracket_addr :: "string \<Rightarrow> (string \<times> string) option" where
  "bracket_addr s =
     (case splitn2 CHR '']'' (rev s) of
        (b, Some a) \<Rightarrow> Some (rev a @ '']'', if b = [] then ''0'' else tl (rev b))
      | (_, None) \<Rightarrow> None)"

definition windows_line :: "string \<Rightarrow> (u16 \<times> string \<times> u32) option" where
  "windows_line line =
     (let cols = split_whitespace line in
      if length cols < 5 \<or> cols ! 0 \<noteq> ''TCP'' \<or> \<not> eq_ignore_ascii_case (cols ! 3) ''LISTENING'' then None
      else let pid = pid_or_0 (cols ! 4); here = cols ! 1
           in (case (if starts_with here ''['' then bracket_addr here else rsplit_colon here) of
                 None \<Rightarrow> None
               | Some (addr, p) \<Rightarrow> if port_or_0 p = 0 then None else Some (port_or_0 p, addr, pid)))"

definition tasklist_line :: "string \<Rightarrow> (u32 \<times> string) option" where
  "tasklist_line line =
     (case split_on CHR '','' line of
        n # p # _ \<Rightarrow>
          (let pid = pid_or_0 (trim_matches (CHR 0x22) p) in if pid = 0 then None else Some (pid, trim_matches (CHR 0x22) n))
      | _ \<Rightarrow> None)"

definition scan_full_windows :: "(u16 \<Rightarrow> bool) \<Rightarrow> bytes option \<Rightarrow> bytes option \<Rightarrow> service_info list" where
  "scan_full_windows connects netstat tasklist =
     (case netstat of
        None \<Rightarrow> scan_local_services connects
      | Some out \<Rightarrow>
          (let port_pids = List.map_filter windows_line (str_lines (from_utf8_lossy out));
               pid_name = (case tasklist of
                   Some o2 \<Rightarrow> map_of (rev (List.map_filter tasklist_line (str_lines (from_utf8_lossy o2)))) | None \<Rightarrow> Map.empty)
           in dedup_by_port (sort_by_port
                (map (\<lambda>(port, addr, pid). new_service port addr (Some pid) (case pid_name pid of Some n \<Rightarrow> n | None \<Rightarrow> [])) port_pids))))"

section \<open>macOS\<close>

text \<open>A column has no blank, so the removal of \<open>" (LISTEN)"\<close> from its end changes nothing.\<close>

definition macos_line :: "string \<Rightarrow> service_info option" where
  "macos_line line =
     (let cols = split_whitespace line in
      if length cols < 9 then None
      else (case rsplit_colon (cols ! 8) of
              None \<Rightarrow> None
            | Some (host, p) \<Rightarrow>
                if port_or_0 p = 0 then None
                else Some (new_service (port_or_0 p) (if host = ''*'' then ''0.0.0.0'' else host) (Some (pid_or_0 (cols ! 1))) (cols ! 0))))"

definition scan_full_macos :: "(u16 \<Rightarrow> bool) \<Rightarrow> bytes option \<Rightarrow> service_info list" where
  "scan_full_macos connects lsof =
     (case lsof of
        None \<Rightarrow> scan_local_services connects
      | Some out \<Rightarrow> dedup_by_port (sort_by_port (List.map_filter macos_line (tl (str_lines (from_utf8_lossy out))))))"

section \<open>The scan of this system\<close>

text \<open>The platform of the build, and what the system reports to the scan.\<close>

datatype target_os = Linux | Windows | MacOS | Other_OS

record scan_env =
  se_connects :: "u16 \<Rightarrow> bool"
  se_proc :: "(string \<times> string list option) list"
  se_comm :: "u32 \<rightharpoonup> string"
  se_tcp :: "string option"
  se_tcp6 :: "string option"
  se_netstat :: "bytes option"
  se_tasklist :: "bytes option"
  se_lsof :: "bytes option"

definition scan_local_services_full :: "target_os \<Rightarrow> scan_env \<Rightarrow> service_info list" where
  "scan_local_services_full os e =
     (case os of
        Linux \<Rightarrow> scan_full_linux (build_inode_pid_map (se_proc e)) (se_comm e) (se_tcp e) (se_tcp6 e)
      | Windows \<Rightarrow> scan_full_windows (se_connects e) (se_netstat e) (se_tasklist e)
      | MacOS \<Rightarrow> scan_full_macos (se_connects e) (se_lsof e)
      | Other_OS \<Rightarrow> scan_local_services (se_connects e))"

section \<open>Lemmas\<close>

text \<open>The shape of a result: ports in strictly rising order, none of them 0, each with its name and target.\<close>

definition service_ok :: "service_info \<Rightarrow> bool" where
  "service_ok s \<longleftrightarrow> si_port s \<noteq> 0 \<and> si_name s = well_known_name (si_port s) \<and> si_target s = local_target (si_port s)"

definition scan_ok :: "service_info list \<Rightarrow> bool" where
  "scan_ok ss \<longleftrightarrow> sorted_wrt (\<lambda>s t. unat (si_port s) < unat (si_port t)) ss \<and> list_all service_ok ss"

lemma dedup_subset: "set (dedup_by_port ss) \<subseteq> set ss"
  by (induction ss rule: dedup_by_port.induct) auto

lemma dedup_ports: "si_port ` set (dedup_by_port ss) = si_port ` set ss"
proof (induction ss rule: dedup_by_port.induct)
  case (1 s t ss)
  then show ?case by (cases "si_port s = si_port t") auto
qed simp_all

lemma dedup_strict:
  "sorted_wrt (\<lambda>s t. unat (si_port s) \<le> unat (si_port t)) ss \<Longrightarrow>
   sorted_wrt (\<lambda>s t. unat (si_port s) < unat (si_port t)) (dedup_by_port ss)"
proof (induction ss rule: dedup_by_port.induct)
  case (1 s t ss)
  show ?case
  proof (cases "si_port s = si_port t")
    case True
    then show ?thesis using 1 by simp
  next
    case False
    have "unat (si_port s) < unat (si_port u)" if "u \<in> set (dedup_by_port (t # ss))" for u
    proof -
      have "unat (si_port s) < unat (si_port t)" using 1(3) False by (simp add: le_neq_implies_less word_unat_eq_iff)
      moreover have "unat (si_port t) \<le> unat (si_port u)" using that dedup_subset [of "t # ss"] 1(3) by auto
      ultimately show ?thesis by simp
    qed
    then show ?thesis using 1 False by simp
  qed
qed simp_all

lemma sort_by_port_sorted: "sorted_wrt (\<lambda>s t. unat (si_port s) \<le> unat (si_port t)) (sort_by_port ss)"
  using sorted_sort_key [of "\<lambda>s. unat (si_port s)" ss] by (simp add: sort_by_port_def sorted_wrt_map)

lemma set_sort_by_port [simp]: "set (sort_by_port ss) = set ss"
  by (simp add: sort_by_port_def)

lemma scan_ok_dedup: "(\<And>s. s \<in> set ss \<Longrightarrow> service_ok s) \<Longrightarrow> scan_ok (dedup_by_port (sort_by_port ss))"
  using dedup_strict [OF sort_by_port_sorted, of ss] dedup_subset [of "sort_by_port ss"] by (auto simp: scan_ok_def list_all_iff)

lemma service_ok_new: "p \<noteq> 0 \<Longrightarrow> service_ok (new_service p b i n)"
  by (simp add: service_ok_def new_service_def)

lemma scan_ok_sorted:
  "distinct (map si_port ss) \<Longrightarrow> (\<And>s. s \<in> set ss \<Longrightarrow> service_ok s) \<Longrightarrow> scan_ok (sort_by_port ss)"
proof -
  assume d: "distinct (map si_port ss)" and ok: "\<And>s. s \<in> set ss \<Longrightarrow> service_ok s"
  have "distinct (map (\<lambda>s. unat (si_port s)) (sort_by_port ss))"
    using d by (auto simp: distinct_map sort_by_port_def inj_on_def word_unat_eq_iff)
  then have "sorted_wrt (<) (map (\<lambda>s. unat (si_port s)) (sort_by_port ss))"
    using sorted_sort_key [of "\<lambda>s. unat (si_port s)" ss] by (simp add: sort_by_port_def strict_sorted_iff)
  then show ?thesis using ok by (auto simp: scan_ok_def list_all_iff sorted_wrt_map)
qed

lemma scan_ports_distinct: "distinct scan_ports" "0 \<notin> set scan_ports"
  by (simp_all add: scan_ports_def)

lemma scan_local_services_ok: "scan_ok (scan_local_services connects)"
  unfolding scan_local_services_def
proof (rule scan_ok_sorted)
  show "distinct (map si_port (map (\<lambda>p. new_service p [] None []) (filter connects scan_ports)))"
    using scan_ports_distinct by (simp add: comp_def new_service_def distinct_map)
  show "service_ok s" if "s \<in> set (map (\<lambda>p. new_service p [] None []) (filter connects scan_ports))" for s
    using that scan_ports_distinct by (auto intro!: service_ok_new)
qed

lemma linux_line_ok: "linux_line m comm v line = Some s \<Longrightarrow> service_ok s"
  by (auto simp: linux_line_def Let_def service_ok_new split: if_splits prod.splits)

lemma windows_line_port: "windows_line line = Some (p, a, i) \<Longrightarrow> p \<noteq> 0"
  by (auto simp: windows_line_def Let_def split: if_splits option.splits)

lemma macos_line_ok: "macos_line line = Some s \<Longrightarrow> service_ok s"
  by (auto simp: macos_line_def Let_def service_ok_new split: if_splits option.splits)

lemma map_filter_Some: "y \<in> set (List.map_filter f xs) \<Longrightarrow> \<exists>x. f x = Some y"
  by (auto simp: List.map_filter_def)

text \<open>
  C38. Type: on every platform and whatever the system reports, the list of services the
  scan returns has strictly rising ports (so no port is listed twice), no port 0, and
  every entry has the name of its port and the loopback address with its port as target.
\<close>

theorem scan_well_formed: "scan_ok (scan_local_services_full os e)"
proof (cases os)
  case Linux
  then show ?thesis
    by (auto simp: scan_local_services_full_def scan_full_linux_def Let_def
          intro!: scan_ok_dedup dest!: map_filter_Some split: option.splits intro: linux_line_ok)
next
  case Windows
  then show ?thesis
    by (auto simp: scan_local_services_full_def scan_full_windows_def Let_def scan_local_services_ok
          intro!: scan_ok_dedup service_ok_new dest!: map_filter_Some windows_line_port split: option.split)
next
  case MacOS
  then show ?thesis
    by (auto simp: scan_local_services_full_def scan_full_macos_def scan_local_services_ok
          intro!: scan_ok_dedup dest!: map_filter_Some split: option.splits intro: macos_line_ok)
next
  case Other_OS
  then show ?thesis by (simp add: scan_local_services_full_def scan_local_services_ok)
qed

text \<open>The Linux scan loses no listening port: the ports of the result are those of the lines in state LISTEN.\<close>

lemma linux_scan_complete:
  "si_port ` set (scan_full_linux m comm (Some t) (Some t6)) =
   si_port ` (set (List.map_filter (linux_line m comm False) (tl (str_lines t))) \<union>
              set (List.map_filter (linux_line m comm True) (tl (str_lines t6))))"
  by (simp add: scan_full_linux_def Let_def dedup_ports)

text \<open>A socket belongs to a process that has it open.\<close>

lemma inode_fold_sound:
  "foldl (\<lambda>m t. case socket_inode t of Some inode \<Rightarrow> if m inode = None then m(inode \<mapsto> p) else m | None \<Rightarrow> m) m links i = Some q \<Longrightarrow>
   m i = Some q \<or> (q = p \<and> (\<exists>t\<in>set links. socket_inode t = Some i))"
  by (induction links arbitrary: m) (fastforce split: option.splits if_splits)+

end
