(* ===== verification/Stored_Secrets.thy ===== *)
theory Stored_Secrets
  imports Secure_Stream Socks5_Proxy
begin

text \<open>
  Secrets in the settings files, \<open>libs/core-common/src/password_security.rs\<close>: a value is
  sealed with a key made from the identifier of the machine, Base64-encoded and marked by a
  version.  Sodium, Base64, the identifier of the machine and the stored key pair are
  arguments.
\<close>

section \<open>Encryption of values\<close>

record crypt_env =
  ks_sodium :: sodium
  ks_uuid :: bytes
  ks_existing_pk :: "bytes option"
  ks_b64_encode :: "bytes \<Rightarrow> string"
  ks_b64_decode :: "bytes \<Rightarrow> bytes option"

definition VERSION_LEN :: nat where "VERSION_LEN = 2"
definition MACBYTES :: nat where "MACBYTES = 16"
definition KEYBYTES :: nat where "KEYBYTES = 32"
definition NONCEBYTES :: nat where "NONCEBYTES = 24"

text \<open>\<open>resize\<close> with 0.\<close>

definition key_of :: "bytes \<Rightarrow> bytes" where
  "key_of b = take KEYBYTES b @ replicate (KEYBYTES - length b) 0"

definition symmetric_crypt :: "crypt_env \<Rightarrow> bytes \<Rightarrow> bool \<Rightarrow> bytes option" where
  "symmetric_crypt env data encrypt =
     (let uuid = ks_uuid env; nonce = replicate NONCEBYTES 0 in
      if encrypt then Some (sb_seal (ks_sodium env) data nonce (key_of uuid))
      else (case sb_open (ks_sodium env) data nonce (key_of uuid) of
              Some m \<Rightarrow> Some m
            | None \<Rightarrow>
                (case ks_existing_pk env of
                   Some pk \<Rightarrow> if pk \<noteq> uuid then sb_open (ks_sodium env) data nonce (key_of pk) else None
                 | None \<Rightarrow> None)))"

definition encrypt_value :: "crypt_env \<Rightarrow> bytes \<Rightarrow> string option" where
  "encrypt_value env v = (if v \<noteq> [] then map_option (ks_b64_encode env) (symmetric_crypt env v True) else None)"

definition decrypt_value :: "crypt_env \<Rightarrow> bytes \<Rightarrow> bytes option" where
  "decrypt_value env v =
     (if v \<noteq> [] then (case ks_b64_decode env v of Some c \<Rightarrow> symmetric_crypt env c False | None \<Rightarrow> None) else None)"

definition is_encrypted :: "crypt_env \<Rightarrow> bytes \<Rightarrow> bool" where
  "is_encrypted env v \<longleftrightarrow>
     VERSION_LEN < length v \<and> take 2 v = str_bytes ''00'' \<and>
     (case ks_b64_decode env (drop VERSION_LEN v) of Some decoded \<Rightarrow> MACBYTES \<le> length decoded | None \<Rightarrow> False)"

section \<open>Values in the files\<close>

definition encrypt_vec_or_original :: "crypt_env \<Rightarrow> bytes \<Rightarrow> string \<Rightarrow> nat \<Rightarrow> bytes" where
  "encrypt_vec_or_original env v version max_len =
     (if is_encrypted env v then v
      else if max_len < length v then []
      else if version = ''00'' then
        (case encrypt_value env v of Some s \<Rightarrow> str_bytes (version @ s) | None \<Rightarrow> v)
      else v)"

definition decrypt_vec_or_original :: "crypt_env \<Rightarrow> bytes \<Rightarrow> string \<Rightarrow> bytes \<times> bool \<times> bool" where
  "decrypt_vec_or_original env v current_version =
     (let version = from_utf8_lossy (take VERSION_LEN v);
          original = (v, False, v \<noteq> [] \<and> \<not> is_encrypted env v)
      in if VERSION_LEN < length v \<and> version = ''00'' then
           (case decrypt_value env (drop VERSION_LEN v) of
              Some m \<Rightarrow> (m, True, version \<noteq> current_version)
            | None \<Rightarrow> original)
         else original)"

text \<open>\<open>chars().count()\<close>: the bytes that do not continue a character.\<close>

definition char_count :: "string \<Rightarrow> nat" where
  "char_count s = length (filter (\<lambda>c. \<not> (128 \<le> (of_char c :: nat) \<and> (of_char c :: nat) < 192)) s)"

definition encrypt_str_or_original :: "crypt_env \<Rightarrow> string \<Rightarrow> string \<Rightarrow> nat \<Rightarrow> string" where
  "encrypt_str_or_original env s version max_len =
     (if is_encrypted env (str_bytes s) then s
      else if max_len < char_count s then []
      else if version = ''00'' then
        (case encrypt_value env (str_bytes s) of Some e \<Rightarrow> version @ e | None \<Rightarrow> s)
      else s)"

definition decrypt_str_or_original :: "crypt_env \<Rightarrow> string \<Rightarrow> string \<Rightarrow> string \<times> bool \<times> bool" where
  "decrypt_str_or_original env s current_version =
     (let original = (s, False, s \<noteq> [] \<and> \<not> is_encrypted env (str_bytes s)) in
      if VERSION_LEN < length s \<and> starts_with s ''00'' then
        (case decrypt_value env (str_bytes (drop VERSION_LEN s)) of
           Some m \<Rightarrow> (from_utf8_lossy m, True, ''00'' \<noteq> current_version)
         | None \<Rightarrow> original)
      else original)"

section \<open>Passwords of the remote desktop\<close>

datatype verification_method = OnlyUseTemporaryPassword | OnlyUsePermanentPassword | UseBothPasswords

datatype approve_mode = Both | Password | Click

text \<open>\<open>get_option\<close> is an argument here; \<open>Core_Config\<close> provides it.\<close>

definition get_verification_method :: "(string \<Rightarrow> string) \<Rightarrow> verification_method" where
  "get_verification_method get_option =
     (let method = get_option ''verification-method'' in
      if method = ''use-temporary-password'' then OnlyUseTemporaryPassword
      else if method = ''use-permanent-password'' then OnlyUsePermanentPassword
      else UseBothPasswords)"

definition temporary_password_length :: "(string \<Rightarrow> string) \<Rightarrow> nat" where
  "temporary_password_length get_option =
     (let len = get_option ''temporary-password-length'' in if len = ''8'' then 8 else if len = ''10'' then 10 else 6)"

definition temporary_enabled :: "(string \<Rightarrow> string) \<Rightarrow> bool" where
  "temporary_enabled get_option \<longleftrightarrow> get_verification_method get_option \<noteq> OnlyUsePermanentPassword"

definition permanent_enabled :: "(string \<Rightarrow> string) \<Rightarrow> bool" where
  "permanent_enabled get_option \<longleftrightarrow> get_verification_method get_option \<noteq> OnlyUseTemporaryPassword"

definition has_valid_password :: "(string \<Rightarrow> string) \<Rightarrow> string \<Rightarrow> bool \<Rightarrow> bool" where
  "has_valid_password get_option temporary_password has_permanent_password \<longleftrightarrow>
     temporary_enabled get_option \<and> temporary_password \<noteq> [] \<or> permanent_enabled get_option \<and> has_permanent_password"

definition get_approve_mode :: "(string \<Rightarrow> string) \<Rightarrow> approve_mode" where
  "get_approve_mode get_option =
     (let mode = get_option ''approve-mode'' in
      if mode = ''password'' then Password else if mode = ''click'' then Click else Both)"

definition hide_cm :: "(string \<Rightarrow> string \<Rightarrow> bool) \<Rightarrow> (string \<Rightarrow> string) \<Rightarrow> bool" where
  "hide_cm option2bool get_option \<longleftrightarrow>
     get_approve_mode get_option = Password \<and> get_verification_method get_option = OnlyUsePermanentPassword \<and>
     option2bool ''allow-hide-cm'' (get_option ''allow-hide-cm'')"

lemma some_method_enabled: "temporary_enabled get_option \<or> permanent_enabled get_option"
  by (simp add: temporary_enabled_def permanent_enabled_def)

section \<open>Round trips\<close>

text \<open>What Base64 documents: decoding undoes encoding, and nothing decodes to nothing.\<close>

definition base64_ok :: "crypt_env \<Rightarrow> bool" where
  "base64_ok env \<longleftrightarrow> (\<forall>b. ks_b64_decode env (str_bytes (ks_b64_encode env b)) = Some b) \<and> ks_b64_decode env [] = Some []"

lemma str_bytes_00 [simp]: "str_bytes ''00'' = [48, 48]"
  by (simp add: str_bytes_def)

lemma str_bytes_Cons: "str_bytes (c # s) = word_of_nat (of_char c) # str_bytes s" "str_bytes [] = []"
  by (simp_all add: str_bytes_def)

lemma lossy_00: "from_utf8_lossy [48, 48] = ''00''"
proof -
  have "utf8_valid [48, 48]" by (simp add: utf8_step_def)
  from lossy_valid [OF this] show ?thesis
    using bytes_str_inverse [of "''00''"] by (simp del: from_utf8_lossy.simps)
qed

lemma base64_not_Nil: "base64_ok env \<Longrightarrow> b \<noteq> [] \<Longrightarrow> ks_b64_encode env b \<noteq> []"
proof
  assume ok: "base64_ok env" and "b \<noteq> []" "ks_b64_encode env b = []"
  have "ks_b64_decode env (str_bytes (ks_b64_encode env b)) = Some b" "ks_b64_decode env [] = Some []"
    using ok by (simp_all add: base64_ok_def)
  with \<open>ks_b64_encode env b = []\<close> \<open>b \<noteq> []\<close> show False by (simp add: str_bytes_def)
qed

lemma encrypt_value_props:
  assumes "secretbox_ok (ks_sodium env)" "base64_ok env" "v \<noteq> []"
  obtains s where "encrypt_value env v = Some s" "s \<noteq> []" "decrypt_value env (str_bytes s) = Some v"
    "\<exists>c. ks_b64_decode env (str_bytes s) = Some c \<and> MACBYTES \<le> length c"
proof -
  let ?c = "sb_seal (ks_sodium env) v (replicate NONCEBYTES 0) (key_of (ks_uuid env))"
  have c: "length ?c = length v + 16" "sb_open (ks_sodium env) ?c (replicate NONCEBYTES 0) (key_of (ks_uuid env)) = Some v"
    using assms(1) by (simp_all add: secretbox_ok_def)
  then have "?c \<noteq> []" by auto
  then have ne: "ks_b64_encode env ?c \<noteq> []" by (rule base64_not_Nil [OF assms(2)])
  have d: "ks_b64_decode env (str_bytes (ks_b64_encode env ?c)) = Some ?c" using assms(2) by (simp add: base64_ok_def)
  show ?thesis
  proof
    show "encrypt_value env v = Some (ks_b64_encode env ?c)" using assms(3) by (simp add: encrypt_value_def symmetric_crypt_def)
    show "ks_b64_encode env ?c \<noteq> []" by (rule ne)
    show "decrypt_value env (str_bytes (ks_b64_encode env ?c)) = Some v"
      using d c ne by (simp add: decrypt_value_def symmetric_crypt_def str_bytes_def)
    show "\<exists>d. ks_b64_decode env (str_bytes (ks_b64_encode env ?c)) = Some d \<and> MACBYTES \<le> length d"
      using d c by (simp add: MACBYTES_def)
  qed
qed

lemma encrypt_vec_roundtrip:
  assumes "secretbox_ok (ks_sodium env)" "base64_ok env" "v \<noteq> []" "length v \<le> max_len" "\<not> is_encrypted env v"
  shows "is_encrypted env (encrypt_vec_or_original env v ''00'' max_len) \<and>
    decrypt_vec_or_original env (encrypt_vec_or_original env v ''00'' max_len) ''00'' = (v, True, False)"
proof -
  obtain s c where s: "encrypt_value env v = Some s" "s \<noteq> []" "decrypt_value env (str_bytes s) = Some v"
    and c: "ks_b64_decode env (str_bytes s) = Some c" "MACBYTES \<le> length c"
    using encrypt_value_props [OF assms(1-3)] by metis
  have "encrypt_vec_or_original env v ''00'' max_len = 48 # 48 # str_bytes s"
    using assms(4,5) s by (simp add: encrypt_vec_or_original_def str_bytes_def)
  then show ?thesis
    using s c by (simp add: is_encrypted_def decrypt_vec_or_original_def VERSION_LEN_def lossy_00 numeral_2_eq_2 del: from_utf8_lossy.simps)
qed

lemma encrypt_str_roundtrip:
  assumes "secretbox_ok (ks_sodium env)" "base64_ok env" "s \<noteq> []" "char_count s \<le> max_len"
    and "\<not> is_encrypted env (str_bytes s)" "utf8_valid (str_bytes s)"
  shows "is_encrypted env (str_bytes (encrypt_str_or_original env s ''00'' max_len)) \<and>
    decrypt_str_or_original env (encrypt_str_or_original env s ''00'' max_len) ''00'' = (s, True, False)"
proof -
  have "str_bytes s \<noteq> []" using assms(3) by (simp add: str_bytes_def)
  then obtain e c where e: "encrypt_value env (str_bytes s) = Some e" "e \<noteq> []" "decrypt_value env (str_bytes e) = Some (str_bytes s)"
    and c: "ks_b64_decode env (str_bytes e) = Some c" "MACBYTES \<le> length c"
    using encrypt_value_props [OF assms(1,2)] by metis
  have "encrypt_str_or_original env s ''00'' max_len = ''00'' @ e"
    using assms(4,5) e by (simp add: encrypt_str_or_original_def)
  moreover have "from_utf8_lossy (str_bytes s) = s" using lossy_valid [OF assms(6)] by simp
  ultimately show ?thesis
    using e c by (simp add: is_encrypted_def decrypt_str_or_original_def VERSION_LEN_def starts_with_def numeral_2_eq_2
        str_bytes_Cons)
qed

end
