(* ===== verification/Core_Config.thy ===== *)
theory Core_Config
  imports Stored_Secrets Host_Port
begin

text \<open>
  The settings of the shared library, \<open>libs/core-common/src/config.rs\<close>: the two main files
  with their secrets, the permanent password, options in three layers, trusted devices, the
  identifier, the local and the default settings.  The library that reads and writes the
  files, SHA-256, JSON, the network card and random numbers are arguments.
\<close>

section \<open>Data\<close>

record core_config =
  gc_id :: string
  gc_enc_id :: string
  gc_password :: string
  gc_salt :: string
  gc_key_pair :: "bytes \<times> bytes"
  gc_key_confirmed :: bool
  gc_keys_confirmed :: "string \<rightharpoonup> bool"

record socks5_server =
  ss_proxy :: string
  ss_username :: string
  ss_password :: string

record core_config2 =
  g2_rendezvous_server :: string
  g2_nat_type :: int
  g2_serial :: int
  g2_unlock_pin :: string
  g2_trusted_devices :: string
  g2_socks :: "socks5_server option"
  g2_options :: "string \<rightharpoonup> string"

record trusted_device =
  td_hwid :: bytes
  td_time :: int
  td_id :: string
  td_name :: string
  td_platform :: string

definition core_default :: core_config where
  "core_default = \<lparr>gc_id = [], gc_enc_id = [], gc_password = [], gc_salt = [], gc_key_pair = ([], []), gc_key_confirmed = False,
     gc_keys_confirmed = Map.empty\<rparr>"

definition core_default2 :: core_config2 where
  "core_default2 = \<lparr>g2_rendezvous_server = [], g2_nat_type = 0, g2_serial = 0, g2_unlock_pin = [], g2_trusted_devices = [],
     g2_socks = None, g2_options = Map.empty\<rparr>"

text \<open>The settings fixed at build time, the libraries, and what the moment gives.\<close>

record core_env =
  ge_crypt :: crypt_env
  ge_overwrite :: "string \<rightharpoonup> string"
  ge_default :: "string \<rightharpoonup> string"
  ge_hard :: "string \<rightharpoonup> string"
  ge_builtin :: "string \<rightharpoonup> string"
  ge_exe_server :: string
  ge_prod_server :: string
  ge_sha256 :: "bytes \<Rightarrow> bytes"
  ge_load :: "string option \<Rightarrow> core_config option"
  ge_dump :: "core_config \<Rightarrow> string option"
  ge_load2 :: "string option \<Rightarrow> core_config2 option"
  ge_dump2 :: "core_config2 \<Rightarrow> string option"
  ge_devices_from :: "string \<Rightarrow> trusted_device list option"
  ge_devices_to :: "trusted_device list \<Rightarrow> string"
  ge_now :: int
  ge_random :: "nat \<Rightarrow> nat"
  ge_hostname :: "string option"
  ge_macs :: "bytes option list"

record core_state =
  gs_config :: core_config
  gs_file :: "string option"
  gs_config2 :: core_config2
  gs_file2 :: "string option"
  gs_trusted :: "trusted_device list \<times> bool"
  gs_online :: "(string \<times> int) list"

section \<open>The permanent password\<close>

definition PASSWORD_ENC_VERSION :: string where "PASSWORD_ENC_VERSION = ''00''"
definition ENCRYPT_MAX_LEN :: nat where "ENCRYPT_MAX_LEN = 128"
definition PERMANENT_PASSWORD_HASH_PREFIX :: string where "PERMANENT_PASSWORD_HASH_PREFIX = ''01''"
definition PERMANENT_PASSWORD_H1_LEN :: nat where "PERMANENT_PASSWORD_H1_LEN = 32"
definition DEFAULT_SALT_LEN :: nat where "DEFAULT_SALT_LEN = 32"
definition SERIAL :: int where "SERIAL = 3"
definition RENDEZVOUS_SERVERS :: "string list" where "RENDEZVOUS_SERVERS = [''rs-ny.rustdesk.com'']"

definition decode_permanent_password_h1_from_storage :: "core_env \<Rightarrow> string \<Rightarrow> bytes option" where
  "decode_permanent_password_h1_from_storage env storage =
     (if \<not> starts_with storage PERMANENT_PASSWORD_HASH_PREFIX then None
      else (case ks_b64_decode (ge_crypt env) (str_bytes (drop 2 storage)) of
              Some v \<Rightarrow> if length v \<noteq> PERMANENT_PASSWORD_H1_LEN then None else Some v
            | None \<Rightarrow> None))"

definition is_permanent_password_hashed_storage :: "core_env \<Rightarrow> string \<Rightarrow> bool" where
  "is_permanent_password_hashed_storage env v \<longleftrightarrow> decode_permanent_password_h1_from_storage env v \<noteq> None"

definition compute_permanent_password_h1 :: "core_env \<Rightarrow> string \<Rightarrow> string \<Rightarrow> bytes" where
  "compute_permanent_password_h1 env password salt =
     take PERMANENT_PASSWORD_H1_LEN (ge_sha256 env (str_bytes password @ str_bytes salt))"

definition encode_permanent_password_storage_from_h1 :: "core_env \<Rightarrow> bytes \<Rightarrow> string" where
  "encode_permanent_password_storage_from_h1 env h1 = PERMANENT_PASSWORD_HASH_PREFIX @ ks_b64_encode (ge_crypt env) h1"

definition password_is_empty_or_not_hashed :: "core_env \<Rightarrow> string \<Rightarrow> bool" where
  "password_is_empty_or_not_hashed env storage \<longleftrightarrow> storage = [] \<or> \<not> is_permanent_password_hashed_storage env storage"

definition CHARS :: string where "CHARS = ''23456789abcdefghijkmnpqrstuvwxyz''"
definition NUM_CHARS :: string where "NUM_CHARS = ''0123456789''"

definition get_auto_password_with_chars :: "core_env \<Rightarrow> nat \<Rightarrow> string \<Rightarrow> string" where
  "get_auto_password_with_chars env len chars = map (\<lambda>i. chars ! (ge_random env i mod length chars)) [0..<len]"

definition get_auto_password :: "core_env \<Rightarrow> nat \<Rightarrow> string" where
  "get_auto_password env len = get_auto_password_with_chars env len CHARS"

definition get_auto_numeric_password :: "core_env \<Rightarrow> nat \<Rightarrow> string" where
  "get_auto_numeric_password env len = get_auto_password_with_chars env len NUM_CHARS"

definition with_salt :: "core_env \<Rightarrow> core_config \<Rightarrow> core_config" where
  "with_salt env c = (if gc_salt c = [] then c\<lparr>gc_salt := get_auto_password env DEFAULT_SALT_LEN\<rparr> else c)"

definition migrate_permanent_password_to_hashed_storage :: "core_env \<Rightarrow> core_config \<Rightarrow> core_config \<times> bool" where
  "migrate_permanent_password_to_hashed_storage env c =
     (let pw = gc_password c;
          hashed = (\<lambda>plain c'. c'\<lparr>gc_password :=
              encode_permanent_password_storage_from_h1 env (compute_permanent_password_h1 env plain (gc_salt c'))\<rparr>)
      in if pw = [] \<or> is_permanent_password_hashed_storage env pw then (c, False)
         else if starts_with pw PASSWORD_ENC_VERSION then
           (case decrypt_str_or_original (ge_crypt env) pw PASSWORD_ENC_VERSION of
              (plain, decrypted, looks_like_plaintext) \<Rightarrow>
                if \<not> decrypted \<and> \<not> looks_like_plaintext then (c, False)
                else if is_permanent_password_hashed_storage env plain then ((with_salt env c)\<lparr>gc_password := plain\<rparr>, True)
                else (hashed plain (with_salt env c), True))
         else (hashed pw (with_salt env c), True))"

section \<open>Identifiers\<close>

definition option2bool :: "string \<Rightarrow> string \<Rightarrow> bool" where
  "option2bool option value =
     (if starts_with option ''enable-'' then value \<noteq> ''N''
      else if starts_with option ''allow-'' \<or> option = ''stop-service'' \<or> option = ''direct-server'' \<or> option = ''force-always-relay''
      then value = ''Y''
      else value \<noteq> ''N'')"

text \<open>The last four bytes of the address of the network card.\<close>

definition get_auto_id :: "bytes option \<Rightarrow> string option" where
  "get_auto_id mac =
     map_option (\<lambda>ma. show_nat (unat ((foldl (\<lambda>i x. push_bit 8 i OR ucast x) (0 :: u32) (drop 2 ma)) AND 0x1FFFFFFF))) mac"

definition gen_id :: "core_env \<Rightarrow> bytes option \<Rightarrow> string option" where
  "gen_id env mac =
     (if (case ge_builtin env ''allow-hostname-as-id'' of Some v \<Rightarrow> option2bool ''allow-hostname-as-id'' v | None \<Rightarrow> False)
      then (case ge_hostname env of Some h \<Rightarrow> Some (str_replace '' '' ''-'' h) | None \<Rightarrow> get_auto_id mac)
      else get_auto_id mac)"

section \<open>Loading and storing\<close>

definition config_store :: "core_env \<Rightarrow> core_config \<Rightarrow> string option \<Rightarrow> string option" where
  "config_store env c file =
     (let c1 = fst (migrate_permanent_password_to_hashed_storage env c);
          c2 = c1\<lparr>gc_enc_id := encrypt_str_or_original (ge_crypt env) (gc_id c1) PASSWORD_ENC_VERSION ENCRYPT_MAX_LEN, gc_id := []\<rparr>
      in case ge_dump env c2 of Some s \<Rightarrow> Some s | None \<Rightarrow> file)"

text \<open>The three attempts to make an identifier.\<close>

fun new_id :: "core_env \<Rightarrow> bytes option list \<Rightarrow> string option" where
  "new_id env [] = None"
| "new_id env (mac # macs) = (case gen_id env mac of Some i \<Rightarrow> Some i | None \<Rightarrow> new_id env macs)"

definition core_load :: "core_env \<Rightarrow> string option \<Rightarrow> core_config \<times> string option" where
  "core_load env file =
     (let c0 = (case ge_load env file of Some c \<Rightarrow> c | None \<Rightarrow> core_default) in
      case migrate_permanent_password_to_hashed_storage env c0 of (c, store) \<Rightarrow>
      (case decrypt_str_or_original (ge_crypt env) (gc_enc_id c) PASSWORD_ENC_VERSION of (i, encrypted, store2) \<Rightarrow>
        let (c1, store1) =
          (if encrypted then (c\<lparr>gc_id := i\<rparr>, store \<or> store2)
           else if gc_id c \<noteq> [] \<and> gc_enc_id c = [] \<and>
             \<not> fst (snd (decrypt_str_or_original (ge_crypt env) (gc_id c) PASSWORD_ENC_VERSION)) then (c, True)
           else (case new_id env (take 3 (ge_macs env)) of Some n \<Rightarrow> (c\<lparr>gc_id := n\<rparr>, True) | None \<Rightarrow> (c, store)))
        in (c1, if store1 then config_store env c1 file else file)))"

definition config2_store :: "core_env \<Rightarrow> core_config2 \<Rightarrow> string option \<Rightarrow> string option" where
  "config2_store env c file =
     (let enc = (\<lambda>s. encrypt_str_or_original (ge_crypt env) s PASSWORD_ENC_VERSION ENCRYPT_MAX_LEN);
          c1 = c\<lparr>g2_socks := map_option (\<lambda>s. s\<lparr>ss_password := enc (ss_password s)\<rparr>) (g2_socks c),
                 g2_unlock_pin := enc (g2_unlock_pin c)\<rparr>
      in case ge_dump2 env c1 of Some s \<Rightarrow> Some s | None \<Rightarrow> file)"

definition config2_load :: "core_env \<Rightarrow> string option \<Rightarrow> core_config2 \<times> string option" where
  "config2_load env file =
     (let c = (case ge_load2 env file of Some c \<Rightarrow> c | None \<Rightarrow> core_default2);
          dec = (\<lambda>s. decrypt_str_or_original (ge_crypt env) s PASSWORD_ENC_VERSION);
          c1 = c\<lparr>g2_socks := map_option (\<lambda>s. s\<lparr>ss_password := fst (dec (ss_password s))\<rparr>) (g2_socks c),
                 g2_unlock_pin := fst (dec (g2_unlock_pin c))\<rparr>;
          store = ((case g2_socks c of Some s \<Rightarrow> snd (snd (dec (ss_password s))) | None \<Rightarrow> False) \<or> snd (snd (dec (g2_unlock_pin c))))
      in (c1, if store then config2_store env c1 file else file))"

text \<open>An update under the lock that is followed by \<open>store\<close>.\<close>

definition update1 :: "core_env \<Rightarrow> (core_config \<Rightarrow> core_config) \<Rightarrow> core_state \<Rightarrow> core_state" where
  "update1 env f st = (let c = f (gs_config st) in st\<lparr>gs_config := c, gs_file := config_store env c (gs_file st)\<rparr>)"

definition update2 :: "core_env \<Rightarrow> (core_config2 \<Rightarrow> core_config2) \<Rightarrow> core_state \<Rightarrow> core_state" where
  "update2 env f st = (let c = f (gs_config2 st) in st\<lparr>gs_config2 := c, gs_file2 := config2_store env c (gs_file2 st)\<rparr>)"

section \<open>Options\<close>

text \<open>What is fixed for the program comes before what the user has chosen, and that before the defaults.\<close>

definition get_or :: "('k \<rightharpoonup> 'v) \<Rightarrow> ('k \<rightharpoonup> 'v) \<Rightarrow> ('k \<rightharpoonup> 'v) \<Rightarrow> 'k \<Rightarrow> 'v option" where
  "get_or a b c k = (case a k of Some v \<Rightarrow> Some v | None \<Rightarrow> (case b k of Some v \<Rightarrow> Some v | None \<Rightarrow> c k))"

definition is_option_can_save :: "('k \<rightharpoonup> 'v) \<Rightarrow> 'k \<Rightarrow> ('k \<rightharpoonup> 'v) \<Rightarrow> 'v \<Rightarrow> bool" where
  "is_option_can_save overwrite k defaults v \<longleftrightarrow> \<not> (overwrite k \<noteq> None \<or> defaults k = Some v)"

definition or_empty :: "string option \<Rightarrow> string" where
  "or_empty v = (case v of Some s \<Rightarrow> s | None \<Rightarrow> [])"

definition get_option :: "core_env \<Rightarrow> core_state \<Rightarrow> string \<Rightarrow> string" where
  "get_option env st k = or_empty (get_or (ge_overwrite env) (g2_options (gs_config2 st)) (ge_default env) k)"

definition get_bool_option :: "core_env \<Rightarrow> core_state \<Rightarrow> string \<Rightarrow> bool" where
  "get_bool_option env st k = option2bool k (get_option env st k)"

definition put_option :: "string \<Rightarrow> string option \<Rightarrow> core_config2 \<Rightarrow> core_config2" where
  "put_option k v c = c\<lparr>g2_options := (g2_options c)(k := v)\<rparr>"

definition set_option :: "core_env \<Rightarrow> string \<Rightarrow> string \<Rightarrow> core_state \<Rightarrow> core_state" where
  "set_option env k v st =
     (let own = g2_options (gs_config2 st) in
      if \<not> is_option_can_save (ge_overwrite env) k (ge_default env) v
      then if own k \<noteq> None then update2 env (put_option k None) st else st
      else let v2 = (if v = [] then None else Some v)
           in if v2 \<noteq> own k then update2 env (put_option k v2) st else st)"

definition get_options :: "core_env \<Rightarrow> core_state \<Rightarrow> string \<rightharpoonup> string" where
  "get_options env st = (ge_default env ++ g2_options (gs_config2 st)) ++ ge_overwrite env"

definition purify_options :: "core_env \<Rightarrow> (string \<rightharpoonup> string) \<Rightarrow> string \<rightharpoonup> string" where
  "purify_options env v =
     (\<lambda>k. case v k of Some x \<Rightarrow> if is_option_can_save (ge_overwrite env) k (ge_default env) x then Some x else None | None \<Rightarrow> None)"

definition set_options :: "core_env \<Rightarrow> (string \<rightharpoonup> string) \<Rightarrow> core_state \<Rightarrow> core_state" where
  "set_options env v st =
     (let v' = purify_options env v in
      if g2_options (gs_config2 st) = v' then st else update2 env (\<lambda>c. c\<lparr>g2_options := v'\<rparr>) st)"

section \<open>Setters and getters\<close>

definition core_set_id :: "core_env \<Rightarrow> string \<Rightarrow> core_state \<Rightarrow> core_state" where
  "core_set_id env i st = (if i = gc_id (gs_config st) then st else update1 env (\<lambda>c. c\<lparr>gc_id := i\<rparr>) st)"

definition core_get_id :: "core_env \<Rightarrow> bytes option \<Rightarrow> core_state \<Rightarrow> string \<times> core_state" where
  "core_get_id env mac st =
     (if gc_id (gs_config st) = [] then
        (case gen_id env mac of Some i \<Rightarrow> (i, core_set_id env i st) | None \<Rightarrow> ([], st))
      else (gc_id (gs_config st), st))"

definition core_set_key_confirmed :: "core_env \<Rightarrow> bool \<Rightarrow> core_state \<Rightarrow> core_state" where
  "core_set_key_confirmed env v st =
     (if gc_key_confirmed (gs_config st) = v then st
      else update1 env (\<lambda>c. let c1 = c\<lparr>gc_key_confirmed := v\<rparr> in if \<not> v then c1\<lparr>gc_keys_confirmed := Map.empty\<rparr> else c1) st)"

definition core_get_host_key_confirmed :: "string \<Rightarrow> core_state \<Rightarrow> bool" where
  "core_get_host_key_confirmed host st \<longleftrightarrow> gc_keys_confirmed (gs_config st) host = Some True"

definition core_set_host_key_confirmed :: "core_env \<Rightarrow> string \<Rightarrow> bool \<Rightarrow> core_state \<Rightarrow> core_state" where
  "core_set_host_key_confirmed env host v st =
     (if core_get_host_key_confirmed host st = v then st
      else update1 env (\<lambda>c. c\<lparr>gc_keys_confirmed := (gc_keys_confirmed c)(host \<mapsto> v)\<rparr>) st)"

definition core_set_nat_type :: "core_env \<Rightarrow> int \<Rightarrow> core_state \<Rightarrow> core_state" where
  "core_set_nat_type env t st = (if t = g2_nat_type (gs_config2 st) then st else update2 env (\<lambda>c. c\<lparr>g2_nat_type := t\<rparr>) st)"

definition set_serial :: "core_env \<Rightarrow> int \<Rightarrow> core_state \<Rightarrow> core_state" where
  "set_serial env n st = (if n = g2_serial (gs_config2 st) then st else update2 env (\<lambda>c. c\<lparr>g2_serial := n\<rparr>) st)"

definition get_serial :: "core_state \<Rightarrow> int" where
  "get_serial st = max (g2_serial (gs_config2 st)) SERIAL"

definition core_rendezvous_servers :: "core_env \<Rightarrow> core_state \<Rightarrow> string list" where
  "core_rendezvous_servers env st =
     (let custom = get_option env st ''custom-rendezvous-server'';
          ss = filter (\<lambda>x. CHR ''.'' \<in> set x) (split_on CHR '','' (get_option env st ''rendezvous-servers''))
      in if ge_exe_server env \<noteq> [] then [ge_exe_server env]
         else if custom \<noteq> [] then [custom]
         else if ge_prod_server env \<noteq> [] then [ge_prod_server env]
         else if g2_serial (gs_config2 st) > SERIAL \<and> ss \<noteq> [] then ss
         else RENDEZVOUS_SERVERS)"

definition get_rendezvous_server :: "core_env \<Rightarrow> core_state \<Rightarrow> string" where
  "get_rendezvous_server env st =
     (let custom = get_option env st ''custom-rendezvous-server'';
          s = (if ge_exe_server env \<noteq> [] then ge_exe_server env
               else if custom \<noteq> [] then custom
               else if ge_prod_server env \<noteq> [] then ge_prod_server env
               else if g2_rendezvous_server (gs_config2 st) \<noteq> [] then g2_rendezvous_server (gs_config2 st)
               else (case core_rendezvous_servers env st of s # _ \<Rightarrow> s | [] \<Rightarrow> []))
      in if CHR '':'' \<notin> set s then s @ '':'' @ show_nat 21116 else s)"

text \<open>The server with the smallest positive delay, in the order in which the table is read.\<close>

definition fastest :: "(string \<times> int) list \<Rightarrow> string \<times> int" where
  "fastest t = foldl (\<lambda>(h, d) (h', d'). if d' > 0 \<and> d' < d then (h', d') else (h, d)) ([], int i64_max) t"

definition update_latency :: "core_env \<Rightarrow> string \<Rightarrow> int \<Rightarrow> core_state \<Rightarrow> core_state" where
  "update_latency env host latency st =
     (let t = AList.update host latency (gs_online st); st1 = st\<lparr>gs_online := t\<rparr>; h = fst (fastest t)
      in if h \<noteq> [] \<and> h \<noteq> g2_rendezvous_server (gs_config2 st1)
         then update2 env (\<lambda>c. c\<lparr>g2_rendezvous_server := h\<rparr>) st1 else st1)"

definition builtin_is :: "core_env \<Rightarrow> string \<Rightarrow> string \<Rightarrow> bool" where
  "builtin_is env k v \<longleftrightarrow> ge_builtin env k = Some v"

definition get_unlock_pin :: "core_env \<Rightarrow> core_state \<Rightarrow> string" where
  "get_unlock_pin env st = (if builtin_is env ''disable-unlock-pin'' ''Y'' then [] else g2_unlock_pin (gs_config2 st))"

definition set_unlock_pin :: "core_env \<Rightarrow> string \<Rightarrow> core_state \<Rightarrow> core_state" where
  "set_unlock_pin env pin st =
     (if builtin_is env ''disable-unlock-pin'' ''Y'' \<or> pin = g2_unlock_pin (gs_config2 st) then st
      else update2 env (\<lambda>c. c\<lparr>g2_unlock_pin := pin\<rparr>) st)"

section \<open>Trusted devices\<close>

definition DAYS_90 :: int where "DAYS_90 = 90 * 24 * 60 * 60 * 1000"

definition outdate :: "core_env \<Rightarrow> trusted_device \<Rightarrow> bool" where
  "outdate env d \<longleftrightarrow> td_time d + DAYS_90 < ge_now env"

definition set_trusted_devices :: "core_env \<Rightarrow> trusted_device list \<Rightarrow> core_state \<Rightarrow> core_state" where
  "set_trusted_devices env ds st =
     (let kept = filter (\<lambda>d. \<not> outdate env d) ds; devices = ge_devices_to env kept; max_len = 1024 * 1024
      in if length devices > max_len then st
         else (update2 env (\<lambda>c. c\<lparr>g2_trusted_devices :=
                  encrypt_str_or_original (ge_crypt env) devices PASSWORD_ENC_VERSION max_len\<rparr>) st)\<lparr>gs_trusted := (kept, True)\<rparr>)"

definition get_trusted_devices :: "core_env \<Rightarrow> core_state \<Rightarrow> trusted_device list \<times> core_state" where
  "get_trusted_devices env st =
     (if snd (gs_trusted st) then (fst (gs_trusted st), st)
      else (case decrypt_str_or_original (ge_crypt env) (g2_trusted_devices (gs_config2 st)) PASSWORD_ENC_VERSION of
              (text, succ, store) \<Rightarrow>
                if succ then
                  let ds = (case ge_devices_from env text of Some ds \<Rightarrow> ds | None \<Rightarrow> []);
                      kept = filter (\<lambda>d. \<not> outdate env d) ds;
                      st1 = (if store \<or> length kept \<noteq> length ds then set_trusted_devices env kept st else st)
                  in (kept, st1\<lparr>gs_trusted := (kept, True)\<rparr>)
                else ([], st)))"

definition add_trusted_device :: "core_env \<Rightarrow> trusted_device \<Rightarrow> core_state \<Rightarrow> core_state" where
  "add_trusted_device env d st =
     (case get_trusted_devices env st of
        (ds, st1) \<Rightarrow> set_trusted_devices env (filter (\<lambda>x. td_hwid x \<noteq> td_hwid d) ds @ [d]) st1)"

definition remove_trusted_devices :: "core_env \<Rightarrow> bytes list \<Rightarrow> core_state \<Rightarrow> core_state" where
  "remove_trusted_devices env hwids st =
     (case get_trusted_devices env st of
        (ds, st1) \<Rightarrow> set_trusted_devices env (filter (\<lambda>x. td_hwid x \<notin> set hwids) ds) st1)"

definition clear_trusted_devices :: "core_env \<Rightarrow> core_state \<Rightarrow> core_state" where
  "clear_trusted_devices env st = set_trusted_devices env [] st"

section \<open>Setting and checking the password\<close>

definition set_permanent_password :: "core_env \<Rightarrow> string \<Rightarrow> core_state \<Rightarrow> core_state" where
  "set_permanent_password env password st =
     (if builtin_is env ''disable-change-permanent-password'' ''Y'' then st
      else if ge_hard env ''password'' = Some password \<and> gc_password (gs_config st) = [] then st
      else
        let c = (if password = [] then gs_config st else with_salt env (gs_config st));
            stored = (if password = [] then []
              else encode_permanent_password_storage_from_h1 env (compute_permanent_password_h1 env password (gc_salt c)));
            st1 = st\<lparr>gs_config := c\<rparr>
        in if stored = gc_password c then st1
           else clear_trusted_devices env (update1 env (\<lambda>c. c\<lparr>gc_password := stored\<rparr>) st1))"

definition set_permanent_password_storage_for_sync :: "core_env \<Rightarrow> string \<Rightarrow> string \<Rightarrow> core_state \<Rightarrow> bool \<times> core_state" where
  "set_permanent_password_storage_for_sync env storage salt st =
     (if gc_password (gs_config st) = storage \<and> gc_salt (gs_config st) = salt then (False, st)
      else (True, clear_trusted_devices env (update1 env (\<lambda>c. c\<lparr>gc_password := storage, gc_salt := salt\<rparr>) st)))"

definition matches_permanent_password_plain :: "core_env \<Rightarrow> string \<Rightarrow> core_state \<Rightarrow> bool" where
  "matches_permanent_password_plain env input st =
     (let storage = gc_password (gs_config st); salt = gc_salt (gs_config st) in
      if input = [] then False
      else if storage = [] then ge_hard env ''password'' = Some input
      else (case decode_permanent_password_h1_from_storage env storage of
              Some h1 \<Rightarrow> salt \<noteq> [] \<and> compute_permanent_password_h1 env input salt = h1
            | None \<Rightarrow> storage = input))"

definition has_permanent_password :: "core_env \<Rightarrow> core_state \<Rightarrow> bool" where
  "has_permanent_password env st \<longleftrightarrow>
     gc_password (gs_config st) \<noteq> [] \<or> (case ge_hard env ''password'' of Some v \<Rightarrow> v \<noteq> [] | None \<Rightarrow> False)"

definition set_salt :: "core_env \<Rightarrow> string \<Rightarrow> core_state \<Rightarrow> core_state" where
  "set_salt env salt st =
     (let c = gs_config st in
      if salt = gc_salt c then st
      else if \<not> password_is_empty_or_not_hashed env (gc_password c) \<and> gc_salt c \<noteq> [] then st
      else update1 env (\<lambda>c. c\<lparr>gc_salt := salt\<rparr>) st)"

definition get_salt :: "core_env \<Rightarrow> core_state \<Rightarrow> string \<times> core_state" where
  "get_salt env st =
     (if gc_salt (gs_config st) = [] then
        let salt = get_auto_password env DEFAULT_SALT_LEN in (salt, set_salt env salt st)
      else (gc_salt (gs_config st), st))"

section \<open>Proxy\<close>

definition get_socks_from_custom_client_advanced_settings :: "(string \<rightharpoonup> string) \<Rightarrow> socks5_server option" where
  "get_socks_from_custom_client_advanced_settings settings =
     map_option (\<lambda>url. \<lparr>ss_proxy = url, ss_username = or_empty (settings ''proxy-username''),
       ss_password = or_empty (settings ''proxy-password'')\<rparr>) (settings ''proxy-url'')"

definition get_socks :: "core_env \<Rightarrow> core_state \<Rightarrow> socks5_server option" where
  "get_socks env st =
     (case get_socks_from_custom_client_advanced_settings (ge_overwrite env) of
        Some s \<Rightarrow> Some s
      | None \<Rightarrow>
          (case g2_socks (gs_config2 st) of
             Some s \<Rightarrow> Some s
           | None \<Rightarrow> get_socks_from_custom_client_advanced_settings (ge_default env)))"

definition set_socks :: "core_env \<Rightarrow> socks5_server option \<Rightarrow> core_state \<Rightarrow> core_state" where
  "set_socks env socks st =
     (let s = (case socks of Some s \<Rightarrow> s | None \<Rightarrow> \<lparr>ss_proxy = [], ss_username = [], ss_password = []\<rparr>);
          d = ge_default env
      in if ge_overwrite env ''proxy-url'' \<noteq> None \<or> g2_socks (gs_config2 st) = socks then st
         else if g2_socks (gs_config2 st) = None \<and> d ''proxy-url'' \<noteq> None \<and> d ''proxy-url'' = Some (ss_proxy s) \<and>
           d ''proxy-username'' = Some (ss_username s) \<and> d ''proxy-password'' = Some (ss_password s) then st
         else update2 env (\<lambda>c. c\<lparr>g2_socks := socks\<rparr>) st)"

definition network_is_proxy :: "core_env \<Rightarrow> core_state \<Rightarrow> bool" where
  "network_is_proxy env st \<longleftrightarrow>
     ge_overwrite env ''proxy-url'' \<noteq> None \<or> g2_socks (gs_config2 st) \<noteq> None \<or> ge_default env ''proxy-url'' \<noteq> None"

section \<open>Local settings\<close>

text \<open>The settings of one user on one machine and the default settings of the display.\<close>

record local_config =
  lc_remote_id :: string
  lc_kb_layout_type :: string
  lc_size :: "int \<times> int \<times> int \<times> int"
  lc_fav :: "string list"
  lc_options :: "string \<rightharpoonup> string"
  lc_ui_flutter :: "string \<rightharpoonup> string"

text \<open>\<open>le_overwrite\<close>, \<open>le_default\<close>: the fixed settings and the defaults; the second component counts the calls of \<open>store\<close>.\<close>

record layer_env =
  le_overwrite :: "string \<rightharpoonup> string"
  le_default :: "string \<rightharpoonup> string"

type_synonym local_state = "local_config \<times> nat"

definition local_get_option :: "layer_env \<Rightarrow> local_state \<Rightarrow> string \<Rightarrow> string" where
  "local_get_option le st k = or_empty (get_or (le_overwrite le) (lc_options (fst st)) (le_default le) k)"

definition local_store :: "local_config \<Rightarrow> local_state \<Rightarrow> local_state" where
  "local_store c st = (c, Suc (snd st))"

definition local_put :: "string \<Rightarrow> string option \<Rightarrow> local_state \<Rightarrow> local_state" where
  "local_put k v st = local_store ((fst st)\<lparr>lc_options := (lc_options (fst st))(k := v)\<rparr>) st"

definition local_set_option :: "layer_env \<Rightarrow> string \<Rightarrow> string \<Rightarrow> local_state \<Rightarrow> local_state" where
  "local_set_option le k v st =
     (let own = lc_options (fst st) in
      if \<not> is_option_can_save (le_overwrite le) k (le_default le) v
      then if own k \<noteq> None then local_put k None st else st
      else if k = ''lang'' \<and> v = ''default'' then local_put k (Some []) st
      else let v2 = (if v = [] then None else Some v) in if v2 \<noteq> own k then local_put k v2 st else st)"

definition get_flutter_option :: "layer_env \<Rightarrow> local_state \<Rightarrow> string \<Rightarrow> string" where
  "get_flutter_option le st k = or_empty (get_or (le_overwrite le) (lc_ui_flutter (fst st)) (le_default le) k)"

definition set_flutter_option :: "string \<Rightarrow> string \<Rightarrow> local_state \<Rightarrow> local_state" where
  "set_flutter_option k v st =
     (let v2 = (if v = [] then None else Some v) in
      if v2 \<noteq> lc_ui_flutter (fst st) k
      then local_store ((fst st)\<lparr>lc_ui_flutter := (lc_ui_flutter (fst st))(k := v2)\<rparr>) st else st)"

definition set_size :: "int \<Rightarrow> int \<Rightarrow> int \<Rightarrow> int \<Rightarrow> local_state \<Rightarrow> local_state" where
  "set_size x y w h st =
     (if (x, y, w, h) = lc_size (fst st) \<or> w < 300 \<or> h < 300 then st
      else local_store ((fst st)\<lparr>lc_size := (x, y, w, h)\<rparr>) st)"

definition set_remote_id :: "string \<Rightarrow> local_state \<Rightarrow> local_state" where
  "set_remote_id i st = (if i = lc_remote_id (fst st) then st else local_store ((fst st)\<lparr>lc_remote_id := i\<rparr>) st)"

definition set_fav :: "string list \<Rightarrow> local_state \<Rightarrow> local_state" where
  "set_fav fav st = (if lc_fav (fst st) = fav then st else local_store ((fst st)\<lparr>lc_fav := fav\<rparr>) st)"

definition set_kb_layout_type :: "string \<Rightarrow> local_state \<Rightarrow> local_state" where
  "set_kb_layout_type t st = local_store ((fst st)\<lparr>lc_kb_layout_type := t\<rparr>) st"

text \<open>\<open>UserDefaultConfig\<close>: its options.\<close>

type_synonym default_state = "(string \<rightharpoonup> string) \<times> nat"

definition default_set :: "layer_env \<Rightarrow> string \<Rightarrow> string \<Rightarrow> default_state \<Rightarrow> default_state" where
  "default_set le key v st =
     (if \<not> is_option_can_save (le_overwrite le) key (le_default le) v
      then if fst st key \<noteq> None then ((fst st)(key := None), Suc (snd st)) else st
      else ((fst st)(key := if v = [] then None else Some v), Suc (snd st)))"

definition get_after :: "layer_env \<Rightarrow> default_state \<Rightarrow> string \<Rightarrow> string option" where
  "get_after le st k = get_or (le_overwrite le) (fst st) (le_default le) k"

definition get_string :: "layer_env \<Rightarrow> default_state \<Rightarrow> string \<Rightarrow> string \<Rightarrow> string list \<Rightarrow> string" where
  "get_string le st key dflt others =
     (case get_after le st key of Some option \<Rightarrow> if option \<in> set others then option else dflt | None \<Rightarrow> dflt)"

text \<open>\<open>get_num_string\<close> at \<open>i32\<close>.\<close>

definition get_num_string :: "layer_env \<Rightarrow> default_state \<Rightarrow> string \<Rightarrow> int \<Rightarrow> int \<Rightarrow> int \<Rightarrow> string" where
  "get_num_string le st key dflt lo hi =
     (case get_after le st key of
        Some option \<Rightarrow>
          (let v = (case parse_signed i32_max option of Some v \<Rightarrow> v | None \<Rightarrow> dflt)
           in if lo \<le> v \<and> v \<le> hi then show_int v else show_int dflt)
      | None \<Rightarrow> show_int dflt)"

section \<open>Layered options\<close>

text \<open>
  The contract of an option store: after \<open>put\<close> the user's own layer has the value, unless the value is empty, the option is
  fixed, or the value is the default anyway.
\<close>

locale layered_options =
  fixes ov df :: "string \<rightharpoonup> string"
    and own :: "'s \<Rightarrow> string \<rightharpoonup> string"
    and put :: "string \<Rightarrow> string \<Rightarrow> 's \<Rightarrow> 's"
    and ok :: "string \<Rightarrow> string \<Rightarrow> bool"
  assumes put_own: "ok k v \<Longrightarrow> own (put k v s) = (own s)(k := if v = [] \<or> ov k \<noteq> None \<or> df k = Some v then None else Some v)"
begin

lemma put_get:
  assumes "ok k v"
  shows "get_or ov (own (put k v s)) df j =
    (if j \<noteq> k then get_or ov (own s) df j
     else case ov k of Some x \<Rightarrow> Some x | None \<Rightarrow> if v = [] then df k else Some v)"
  using assms by (auto simp: put_own get_or_def split: option.splits)

lemma put_twice: "ok k v \<Longrightarrow> ok k w \<Longrightarrow> own (put k w (put k v s)) = own (put k w s)"
  by (simp add: put_own)

text \<open>What the user's own layer holds is needed: it is not fixed, not empty and not the default.\<close>

definition lean :: "'s \<Rightarrow> bool" where
  "lean s \<longleftrightarrow> (\<forall>k v. own s k = Some v \<longrightarrow> v \<noteq> [] \<and> ov k = None \<and> df k \<noteq> Some v)"

lemma put_lean: "ok k v \<Longrightarrow> lean s \<Longrightarrow> lean (put k v s)"
  by (auto simp: lean_def put_own)

end

lemma update2_options [simp]: "g2_options (gs_config2 (update2 env f st)) = g2_options (f (gs_config2 st))"
  by (simp add: update2_def Let_def)

interpretation core_opts: layered_options "ge_overwrite env" "ge_default env" "\<lambda>st. g2_options (gs_config2 st)" "set_option env"
    "\<lambda>k v. True" for env
  by unfold_locales (auto simp: set_option_def is_option_can_save_def put_option_def Let_def fun_eq_iff)

interpretation local_opts: layered_options "le_overwrite le" "le_default le" "\<lambda>st. lc_options (fst st)" "local_set_option le"
    "\<lambda>k v. \<not> (k = ''lang'' \<and> v = ''default'')" for le
  by unfold_locales (auto simp: local_set_option_def is_option_can_save_def local_put_def local_store_def Let_def fun_eq_iff)

interpretation default_opts: layered_options "le_overwrite le" "le_default le" fst "default_set le" "\<lambda>k v. True" for le
  by unfold_locales (auto simp: default_set_def is_option_can_save_def fun_eq_iff)

text \<open>
  C21. Reading an option after it was set: a fixed option keeps its fixed value, an option set to the empty text
  has its default, every other option has the value it was set to, and no other option changes.
\<close>

theorem option_set_get:
  "get_option env (set_option env k v st) j =
    (if j \<noteq> k then get_option env st j
     else case ge_overwrite env k of Some x \<Rightarrow> x | None \<Rightarrow> if v = [] then or_empty (ge_default env k) else v)"
  by (simp add: get_option_def core_opts.put_get or_empty_def split: option.split)

section \<open>The password\<close>

lemma decode_encode_h1:
  assumes "base64_ok (ge_crypt env)" "length h = PERMANENT_PASSWORD_H1_LEN"
  shows "decode_permanent_password_h1_from_storage env (encode_permanent_password_storage_from_h1 env h) = Some h"
  using assms by (simp add: decode_permanent_password_h1_from_storage_def encode_permanent_password_storage_from_h1_def
      PERMANENT_PASSWORD_HASH_PREFIX_def base64_ok_def starts_with_def numeral_2_eq_2)

lemma length_h1: "(\<And>b. length (ge_sha256 env b) = 32) \<Longrightarrow> length (compute_permanent_password_h1 env p s) = PERMANENT_PASSWORD_H1_LEN"
  by (simp add: compute_permanent_password_h1_def PERMANENT_PASSWORD_H1_LEN_def)

lemma with_salt_salt: "gc_salt (with_salt env c) \<noteq> []" "gc_password (with_salt env c) = gc_password c"
  by (simp_all add: with_salt_def get_auto_password_def get_auto_password_with_chars_def DEFAULT_SALT_LEN_def)

lemma update2_config [simp]: "gs_config (update2 env f st) = gs_config st"
  by (simp add: update2_def Let_def)

lemma update1_config [simp]: "gs_config (update1 env f st) = f (gs_config st)"
  by (simp add: update1_def Let_def)

lemma clear_trusted_config [simp]: "gs_config (clear_trusted_devices env st) = gs_config st"
  by (simp add: clear_trusted_devices_def set_trusted_devices_def Let_def)

lemma clear_trusted_none:
  "length (ge_devices_to env []) \<le> 1024 * 1024 \<Longrightarrow> fst (get_trusted_devices env (clear_trusted_devices env st)) = []"
  by (simp add: clear_trusted_devices_def set_trusted_devices_def get_trusted_devices_def Let_def)

lemma set_permanent_password_config:
  assumes "p \<noteq> []" "\<not> builtin_is env ''disable-change-permanent-password'' ''Y''"
    and "\<not> (ge_hard env ''password'' = Some p \<and> gc_password (gs_config st) = [])"
  shows "gs_config (set_permanent_password env p st) =
    (with_salt env (gs_config st))\<lparr>gc_password := encode_permanent_password_storage_from_h1 env
      (compute_permanent_password_h1 env p (gc_salt (with_salt env (gs_config st))))\<rparr>"
  using assms by (auto simp: set_permanent_password_def Let_def)

text \<open>
  After a permanent password is set, exactly the texts with the same salted hash are accepted, the empty text never;
  and when this changed the stored password, no device is trusted any more.  (Changes disabled by the
  build and the password that the build presets are the two cases in which nothing is set.)
\<close>

theorem permanent_password_set:
  assumes "base64_ok (ge_crypt env)" "\<And>b. length (ge_sha256 env b) = 32" "length (ge_devices_to env []) \<le> 1024 * 1024"
    and "p \<noteq> []" "\<not> builtin_is env ''disable-change-permanent-password'' ''Y''"
    and "\<not> (ge_hard env ''password'' = Some p \<and> gc_password (gs_config st) = [])"
    and "st' = set_permanent_password env p st"
  shows "(\<forall>q. matches_permanent_password_plain env q st' \<longleftrightarrow>
      q \<noteq> [] \<and> compute_permanent_password_h1 env q (gc_salt (gs_config st')) = compute_permanent_password_h1 env p (gc_salt (gs_config st'))) \<and>
    (gc_password (gs_config st') = gc_password (gs_config st) \<or> fst (get_trusted_devices env st') = [])"
proof
  let ?c = "with_salt env (gs_config st)"
  let ?stored = "encode_permanent_password_storage_from_h1 env (compute_permanent_password_h1 env p (gc_salt ?c))"
  have c: "gs_config st' = ?c\<lparr>gc_password := ?stored\<rparr>" using set_permanent_password_config [OF assms(4-6)] assms(7) by simp
  have "?stored \<noteq> []" by (simp add: encode_permanent_password_storage_from_h1_def PERMANENT_PASSWORD_HASH_PREFIX_def)
  moreover have "decode_permanent_password_h1_from_storage env ?stored = Some (compute_permanent_password_h1 env p (gc_salt ?c))"
    by (intro decode_encode_h1 length_h1 assms)
  ultimately show "\<forall>q. matches_permanent_password_plain env q st' \<longleftrightarrow>
      q \<noteq> [] \<and> compute_permanent_password_h1 env q (gc_salt (gs_config st')) = compute_permanent_password_h1 env p (gc_salt (gs_config st'))"
    using c by (simp add: matches_permanent_password_plain_def Let_def with_salt_salt)
  show "gc_password (gs_config st') = gc_password (gs_config st) \<or> fst (get_trusted_devices env st') = []"
  proof (cases "?stored = gc_password ?c")
    case True
    then show ?thesis using c by (simp add: with_salt_salt)
  next
    case False
    then have "st' = clear_trusted_devices env (update1 env (\<lambda>c. c\<lparr>gc_password := ?stored\<rparr>) (st\<lparr>gs_config := ?c\<rparr>))"
      using assms(4-7) by (auto simp: set_permanent_password_def Let_def)
    then show ?thesis using clear_trusted_none [OF assms(3)] by simp
  qed
qed

section \<open>Files\<close>

text \<open>The identifiers that can be stored: short texts that do not look like stored secrets.\<close>

definition storable :: "core_env \<Rightarrow> string \<Rightarrow> bool" where
  "storable env s \<longleftrightarrow> s \<noteq> [] \<and> char_count s \<le> ENCRYPT_MAX_LEN \<and> utf8_valid (str_bytes s) \<and> \<not> is_encrypted (ge_crypt env) (str_bytes s)"

lemma storable_roundtrip:
  assumes "secretbox_ok (ks_sodium (ge_crypt env))" "base64_ok (ge_crypt env)" "storable env s"
  shows "decrypt_str_or_original (ge_crypt env) (encrypt_str_or_original (ge_crypt env) s PASSWORD_ENC_VERSION ENCRYPT_MAX_LEN)
    PASSWORD_ENC_VERSION = (s, True, False)"
  using encrypt_str_roundtrip [OF assms(1,2)] assms(3) by (auto simp: storable_def PASSWORD_ENC_VERSION_def)

text \<open>
  What the settings file holds is read back: after a configuration with an identifier and no or a hashed password is
  stored, a later start reads the same configuration from the file, identifier and password included, and
  does not write the file again.  The file itself holds the identifier only encrypted.
\<close>

theorem config_store_load:
  assumes "secretbox_ok (ks_sodium (ge_crypt env))" "base64_ok (ge_crypt env)"
    and "\<And>c s. ge_dump env c = Some s \<Longrightarrow> ge_load env (Some s) = Some c"
    and "ge_dump env (c\<lparr>gc_enc_id := encrypt_str_or_original (ge_crypt env) (gc_id c) PASSWORD_ENC_VERSION ENCRYPT_MAX_LEN, gc_id := []\<rparr>) \<noteq> None"
    and "storable env (gc_id c)" "gc_password c = [] \<or> is_permanent_password_hashed_storage env (gc_password c)"
  shows "\<exists>e. core_load env (config_store env c file) = (c\<lparr>gc_enc_id := e\<rparr>, config_store env c file) \<and>
    ge_load env (config_store env c file) = Some (c\<lparr>gc_enc_id := e, gc_id := []\<rparr>) \<and> is_encrypted (ge_crypt env) (str_bytes e)"
proof (intro exI conjI)
  let ?e = "encrypt_str_or_original (ge_crypt env) (gc_id c) PASSWORD_ENC_VERSION ENCRYPT_MAX_LEN"
  let ?c = "c\<lparr>gc_enc_id := ?e, gc_id := []\<rparr>"
  have m: "migrate_permanent_password_to_hashed_storage env c = (c, False)"
    "migrate_permanent_password_to_hashed_storage env ?c = (?c, False)"
    using assms(6) by (auto simp: migrate_permanent_password_to_hashed_storage_def)
  obtain s where s: "ge_dump env ?c = Some s" "ge_load env (Some s) = Some ?c" using assms(3,4) by blast
  have f: "config_store env c file = Some s" using m s by (simp add: config_store_def Let_def)
  show "ge_load env (config_store env c file) = Some ?c" using f s by simp
  show "core_load env (config_store env c file) = (c\<lparr>gc_enc_id := ?e\<rparr>, config_store env c file)"
    using f s m(2) storable_roundtrip [OF assms(1,2,5)] by (simp add: core_load_def Let_def)
  show "is_encrypted (ge_crypt env) (str_bytes ?e)"
    using encrypt_str_roundtrip [OF assms(1,2)] assms(5) by (auto simp: storable_def PASSWORD_ENC_VERSION_def)
qed

section \<open>Concrete libraries\<close>

definition plain_crypt :: crypt_env where
  "plain_crypt = \<lparr>ks_sodium = plain_sodium, ks_uuid = [7], ks_existing_pk = None, ks_b64_encode = bytes_str, ks_b64_decode = Some\<rparr>"

lemma plain_crypt_ok: "secretbox_ok (ks_sodium plain_crypt)" "base64_ok plain_crypt"
  by (simp_all add: plain_crypt_def plain_sodium_ok base64_ok_def)

definition sample_core :: core_config where
  "sample_core = core_default\<lparr>gc_id := ''123456789''\<rparr>"

definition sample_stored :: core_config where
  "sample_stored = sample_core\<lparr>gc_enc_id := encrypt_str_or_original plain_crypt ''123456789'' PASSWORD_ENC_VERSION ENCRYPT_MAX_LEN, gc_id := []\<rparr>"

definition sample_core_env :: core_env where
  "sample_core_env = \<lparr>ge_crypt = plain_crypt, ge_overwrite = Map.empty, ge_default = Map.empty, ge_hard = Map.empty, ge_builtin = Map.empty,
     ge_exe_server = [], ge_prod_server = [], ge_sha256 = (\<lambda>b. take 32 (b @ replicate 32 0)),
     ge_load = (\<lambda>f. if f = Some ''stored'' then Some sample_stored else None),
     ge_dump = (\<lambda>c. if c = sample_stored then Some ''stored'' else None), ge_load2 = (\<lambda>f. None), ge_dump2 = (\<lambda>c. None),
     ge_devices_from = (\<lambda>s. None), ge_devices_to = (\<lambda>ds. ''[]''), ge_now = 0, ge_random = (\<lambda>i. i), ge_hostname = None, ge_macs = []\<rparr>"

definition sample_core_state :: core_state where
  "sample_core_state = \<lparr>gs_config = sample_core, gs_file = None, gs_config2 = core_default2, gs_file2 = None, gs_trusted = ([], False),
     gs_online = []\<rparr>"

theorem config_store_load_witness:
  "\<exists>e. core_load sample_core_env (config_store sample_core_env sample_core None) =
     (sample_core\<lparr>gc_enc_id := e\<rparr>, config_store sample_core_env sample_core None)"
proof -
  have "utf8_valid (str_bytes ''123456789'')" by (rule utf8_ascii) (simp add: ascii_def)
  then have s: "storable sample_core_env (gc_id sample_core)"
    by (simp add: storable_def sample_core_env_def sample_core_def char_count_def ENCRYPT_MAX_LEN_def is_encrypted_def str_bytes_def plain_crypt_def)
  have "ge_load sample_core_env (Some s) = Some c" if "ge_dump sample_core_env c = Some s" for c s
    using that by (auto simp: sample_core_env_def split: if_splits)
  moreover have "ge_dump sample_core_env (sample_core\<lparr>gc_enc_id := encrypt_str_or_original (ge_crypt sample_core_env) (gc_id sample_core)
      PASSWORD_ENC_VERSION ENCRYPT_MAX_LEN, gc_id := []\<rparr>) \<noteq> None"
    by (simp add: sample_core_env_def sample_stored_def sample_core_def)
  ultimately show ?thesis
    using config_store_load [of sample_core_env sample_core None] plain_crypt_ok s
    by (auto simp: sample_core_env_def sample_core_def core_default_def)
qed

theorem permanent_password_set_witness:
  "matches_permanent_password_plain sample_core_env ''pw'' (set_permanent_password sample_core_env ''pw'' sample_core_state)"
  using permanent_password_set [of sample_core_env "''pw''" sample_core_state] plain_crypt_ok
  by (simp add: sample_core_env_def builtin_is_def)

end
