(* ===== verification/Client_Auth.thy ===== *)
theory Client_Auth
  imports Client_Mediator Api_Props
begin

text \<open>
  Accounts in the client, \<open>nat-client/src/auth.rs\<close>: registration, login with the binding of
  the device, the requests for the user's data, and the watch over the token.  The client sees
  the server as a record of calls; \<open>web_auth\<close> is that record for the handlers of \<open>Web_Api\<close>.
\<close>

section \<open>Calls of the server\<close>

text \<open>An answer of the server as the client reads it; no answer when the request or the reading of JSON fails.\<close>

record 'a api_reply =
  rp_success :: bool
  rp_data :: "'a option"
  rp_message :: "api_error option"

type_synonym 'a reply = "'a api_reply option"

text \<open>The data of a login as JSON: either field may be absent, and the user may not be readable.\<close>

record login_json =
  lj_token :: "string option"
  lj_user :: "user_info option option"

text \<open>The data of a subscription as JSON, the fields the client looks at.\<close>

record subscription_json =
  sj_plan_display_name :: "string option"
  sj_current_device_count :: "int option"
  sj_device_limit :: "int option"
  sj_expires_at :: "string option"

record 'srv auth_api =
  aa_login :: "string \<Rightarrow> string \<Rightarrow> string option \<Rightarrow> 'srv \<Rightarrow> login_json reply"
  aa_register :: "register_request \<Rightarrow> 'srv \<Rightarrow> 'srv \<times> user_info reply"
  aa_add_device :: "string \<Rightarrow> string \<Rightarrow> string option \<Rightarrow> 'srv \<Rightarrow> 'srv \<times> device_info reply"
  aa_change_password :: "string \<Rightarrow> string \<Rightarrow> string \<Rightarrow> string \<Rightarrow> 'srv \<Rightarrow> 'srv \<times> unit reply"
  aa_devices :: "string \<Rightarrow> int \<Rightarrow> 'srv \<Rightarrow> device_info list reply"
  aa_remove_device :: "string \<Rightarrow> string \<Rightarrow> 'srv \<Rightarrow> 'srv \<times> unit reply"
  aa_user :: "string \<Rightarrow> int \<Rightarrow> 'srv \<Rightarrow> user_info reply"
  aa_subscription :: "string \<Rightarrow> 'srv \<Rightarrow> subscription_json reply"

text \<open>The clock, the name of the computer, and the libraries for Base64 and JSON.\<close>

record auth_env =
  au_client :: client_env
  au_now :: int
  au_hostname :: "string option"
  au_b64_nopad :: "string \<Rightarrow> bytes option"
  au_b64_url :: "string \<Rightarrow> bytes option"
  au_claims :: "bytes \<Rightarrow> (int \<times> int option) option"

datatype auth_error =
    NoServer | RequestFailed | RegisterFailed "api_error option" | LoginFailed "api_error option" | NoData | NoToken | NoUser
  | BadUser | NoLogin | ChangeFailed "api_error option" | ListFailed "api_error option" | RemoveFailed "api_error option"
  | NoUserInfo "api_error option"

text \<open>The claims of a token, without a check of its signature: the expiry and the row of the device.\<close>

definition parse_jwt_claims :: "auth_env \<Rightarrow> string \<Rightarrow> (int \<times> int option) option" where
  "parse_jwt_claims au token =
     (case split_on CHR ''.'' token of
        _ # payload # _ \<Rightarrow>
          (let padded = (if length payload mod 4 = 2 then payload @ ''=='' else if length payload mod 4 = 3 then payload @ ''='' else payload)
           in case (case au_b64_nopad au payload of Some b \<Rightarrow> Some b | None \<Rightarrow> au_b64_url au padded) of
                Some b \<Rightarrow> au_claims au b
              | None \<Rightarrow> None)
      | _ \<Rightarrow> None)"

section \<open>Status\<close>

record auth_status =
  as_logged_in :: bool
  as_user_id :: int
  as_username :: string
  as_role :: string
  as_device_row_id :: int
  as_token_expires :: int
  as_token_remaining_secs :: int

definition auth_status_of :: "int \<Rightarrow> client_store \<Rightarrow> auth_status" where
  "auth_status_of now st =
     (let cfg = st_config st in
      \<lparr>as_logged_in = is_logged_in now st, as_user_id = cc_auth_user_id cfg, as_username = cc_auth_username cfg,
       as_role = cc_auth_role cfg, as_device_row_id = cc_auth_device_row_id cfg, as_token_expires = cc_auth_token_expires cfg,
       as_token_remaining_secs = (if cc_auth_token_expires cfg > 0 then cc_auth_token_expires cfg - now else 0)\<rparr>)"

section \<open>Login and registration\<close>

definition expires_of :: "(int \<times> int option) option \<Rightarrow> int" where
  "expires_of claims = (case claims of Some (exp, _) \<Rightarrow> exp | None \<Rightarrow> 0)"

definition udid_of :: "(int \<times> int option) option \<Rightarrow> int" where
  "udid_of claims = (case claims of Some (_, Some k) \<Rightarrow> k | _ \<Rightarrow> 0)"

definition keep_login :: "auth_env \<Rightarrow> string \<Rightarrow> user_info \<Rightarrow> int \<Rightarrow> client_store \<Rightarrow> client_store" where
  "keep_login au token user udid st =
     save_login (au_client au) token (expires_of (parse_jwt_claims au token)) (ui_id user) (ui_username user) (ui_role user) udid st"

definition device_name_or :: "auth_env \<Rightarrow> string option \<Rightarrow> string" where
  "device_name_or au device_name =
     (case device_name of
        Some s \<Rightarrow> s
      | None \<Rightarrow> ''nat-client@'' @ (case au_hostname au of Some h \<Rightarrow> h | None \<Rightarrow> ''unknown''))"

text \<open>The last step: the token that names the device, or else the one without it.\<close>

definition login_again ::
    "auth_env \<Rightarrow> string \<Rightarrow> user_info option option \<Rightarrow> login_json reply \<Rightarrow> client_store \<Rightarrow> client_store \<times> (auth_error + auth_status)" where
  "login_again au tmp_token user2 resp3 st =
     (case resp3 of
        None \<Rightarrow> (st, Inl RequestFailed)
      | Some r3 \<Rightarrow>
          if \<not> rp_success r3 then
            (case user2 of
               None \<Rightarrow> (st, Inl NoUser)
             | Some None \<Rightarrow> (st, Inl BadUser)
             | Some (Some u) \<Rightarrow> let st1 = keep_login au tmp_token u 0 st in (st1, Inr (auth_status_of (au_now au) st1)))
          else
            (let d3 = (case rp_data r3 of Some d \<Rightarrow> d | None \<Rightarrow> \<lparr>lj_token = None, lj_user = None\<rparr>);
                 token = (case lj_token d3 of Some t \<Rightarrow> t | None \<Rightarrow> tmp_token)
             in case (case lj_user d3 of Some u \<Rightarrow> Some u | None \<Rightarrow> user2) of
                  Some (Some u) \<Rightarrow>
                    let st1 = keep_login au token u (udid_of (parse_jwt_claims au token)) st in (st1, Inr (auth_status_of (au_now au) st1))
                | _ \<Rightarrow> (st, Inl BadUser)))"

text \<open>The token and the user of a successful answer that has both.\<close>

definition login_fields :: "login_json api_reply \<Rightarrow> (string \<times> user_info option) option" where
  "login_fields r =
     (case rp_data r of
        Some d \<Rightarrow>
          (case (lj_token d, lj_user d) of (Some t, Some u) \<Rightarrow> if rp_success r then Some (t, u) else None | _ \<Rightarrow> None)
      | None \<Rightarrow> None)"

definition client_login ::
    "auth_env \<Rightarrow> 'srv auth_api \<Rightarrow> string \<Rightarrow> string \<Rightarrow> string option \<Rightarrow> client_store \<Rightarrow> 'srv
      \<Rightarrow> client_store \<times> 'srv \<times> (auth_error + auth_status)" where
  "client_login au api username password device_name st srv =
     (if get_api_url st = [] then (st, srv, Inl NoServer)
      else
        let my_peer_id = get_id st in
        case aa_login api username password (Some my_peer_id) srv of
          None \<Rightarrow> (st, srv, Inl RequestFailed)
        | Some r1 \<Rightarrow>
            (case login_fields r1 of
               Some (token, u) \<Rightarrow>
                 (case u of
                    None \<Rightarrow> (st, srv, Inl BadUser)
                  | Some user \<Rightarrow>
                      let st1 = keep_login au token user (udid_of (parse_jwt_claims au token)) st
                      in (st1, srv, Inr (auth_status_of (au_now au) st1)))
             | None \<Rightarrow>
                 (case aa_login api username password None srv of
                    None \<Rightarrow> (st, srv, Inl RequestFailed)
                  | Some r2 \<Rightarrow>
                      if \<not> rp_success r2 then (st, srv, Inl (LoginFailed (rp_message r2)))
                      else (case rp_data r2 of
                              None \<Rightarrow> (st, srv, Inl NoData)
                            | Some d2 \<Rightarrow>
                                (case lj_token d2 of
                                   None \<Rightarrow> (st, srv, Inl NoToken)
                                 | Some tmp_token \<Rightarrow>
                                     (case aa_add_device api tmp_token my_peer_id (Some (device_name_or au device_name)) srv of
                                        (srv1, None) \<Rightarrow> (st, srv1, Inl RequestFailed)
                                      | (srv1, Some _) \<Rightarrow>
                                          (case login_again au tmp_token (lj_user d2)
                                                  (aa_login api username password (Some my_peer_id) srv1) st of
                                             (st1, r) \<Rightarrow> (st1, srv1, r))))))))"

definition client_register ::
    "auth_env \<Rightarrow> 'srv auth_api \<Rightarrow> string \<Rightarrow> string \<Rightarrow> string \<Rightarrow> string option \<Rightarrow> client_store \<Rightarrow> 'srv
      \<Rightarrow> client_store \<times> 'srv \<times> (auth_error + auth_status)" where
  "client_register au api username email password device_name st srv =
     (if get_api_url st = [] then (st, srv, Inl NoServer)
      else
        case aa_register api \<lparr>rq_username = username, rq_email = email, rq_password = password, rq_confirm_password = password\<rparr> srv of
          (srv1, None) \<Rightarrow> (st, srv1, Inl RequestFailed)
        | (srv1, Some r) \<Rightarrow>
            if \<not> rp_success r then (st, srv1, Inl (RegisterFailed (rp_message r)))
            else client_login au api username password device_name st srv1)"

definition client_logout :: "auth_env \<Rightarrow> client_store \<Rightarrow> client_store" where
  "client_logout au st = clear_login (au_client au) st"

section \<open>Requests of a user who is logged in\<close>

definition client_change_password ::
    "auth_env \<Rightarrow> 'srv auth_api \<Rightarrow> string \<Rightarrow> string \<Rightarrow> client_store \<Rightarrow> 'srv \<Rightarrow> client_store \<times> 'srv \<times> (auth_error + unit)" where
  "client_change_password au api old_password new_password st srv =
     (case get_auth_token (au_now au) st of
        None \<Rightarrow> (st, srv, Inl NoLogin)
      | Some token \<Rightarrow>
          (case aa_change_password api token old_password new_password new_password srv of
             (srv1, None) \<Rightarrow> (st, srv1, Inl RequestFailed)
           | (srv1, Some r) \<Rightarrow>
               if rp_success r then (clear_login (au_client au) st, srv1, Inr ()) else (st, srv1, Inl (ChangeFailed (rp_message r)))))"

definition list_devices :: "auth_env \<Rightarrow> 'srv auth_api \<Rightarrow> client_store \<Rightarrow> 'srv \<Rightarrow> auth_error + device_info list" where
  "list_devices au api st srv =
     (case get_auth_token (au_now au) st of
        None \<Rightarrow> Inl NoLogin
      | Some token \<Rightarrow>
          (case aa_devices api token (cc_auth_user_id (st_config st)) srv of
             None \<Rightarrow> Inl RequestFailed
           | Some r \<Rightarrow>
               if rp_success r then Inr (case rp_data r of Some ds \<Rightarrow> ds | None \<Rightarrow> []) else Inl (ListFailed (rp_message r))))"

definition client_remove_device ::
    "auth_env \<Rightarrow> 'srv auth_api \<Rightarrow> string \<Rightarrow> client_store \<Rightarrow> 'srv \<Rightarrow> 'srv \<times> (auth_error + unit)" where
  "client_remove_device au api device_id st srv =
     (case get_auth_token (au_now au) st of
        None \<Rightarrow> (srv, Inl NoLogin)
      | Some token \<Rightarrow>
          (case aa_remove_device api token device_id srv of
             (srv1, None) \<Rightarrow> (srv1, Inl RequestFailed)
           | (srv1, Some r) \<Rightarrow> (srv1, if rp_success r then Inr () else Inl (RemoveFailed (rp_message r)))))"

definition get_user_info :: "auth_env \<Rightarrow> 'srv auth_api \<Rightarrow> client_store \<Rightarrow> 'srv \<Rightarrow> auth_error + user_info" where
  "get_user_info au api st srv =
     (case get_auth_token (au_now au) st of
        None \<Rightarrow> Inl NoLogin
      | Some token \<Rightarrow>
          (case aa_user api token (cc_auth_user_id (st_config st)) srv of
             None \<Rightarrow> Inl RequestFailed
           | Some r \<Rightarrow> (case rp_data r of Some u \<Rightarrow> Inr u | None \<Rightarrow> Inl (NoUserInfo (rp_message r)))))"

record subscription_summary =
  ss_plan_display_name :: string
  ss_device_used :: int
  ss_device_limit :: int
  ss_expires_at :: string

text \<open>Whether the answer is a success is not looked at: an error shows as the free plan with no devices.\<close>

definition client_get_my_subscription ::
    "auth_env \<Rightarrow> 'srv auth_api \<Rightarrow> client_store \<Rightarrow> 'srv \<Rightarrow> auth_error + subscription_summary" where
  "client_get_my_subscription au api st srv =
     (case get_auth_token (au_now au) st of
        None \<Rightarrow> Inl NoLogin
      | Some token \<Rightarrow>
          if get_api_url st = [] then Inl NoServer
          else (case aa_subscription api token srv of
              None \<Rightarrow> Inl RequestFailed
            | Some r \<Rightarrow>
                let dat = (case rp_data r of Some j \<Rightarrow> j
                           | None \<Rightarrow> \<lparr>sj_plan_display_name = None, sj_current_device_count = None, sj_device_limit = None, sj_expires_at = None\<rparr>)
                in Inr \<lparr>ss_plan_display_name = (case sj_plan_display_name dat of Some n \<Rightarrow> n
                          | None \<Rightarrow> utf8 [229, 133, 141, 232, 180, 185, 231, 137, 136]),
                        ss_device_used = (case sj_current_device_count dat of Some n \<Rightarrow> n | None \<Rightarrow> 0),
                        ss_device_limit = (case sj_device_limit dat of Some n \<Rightarrow> n | None \<Rightarrow> 0),
                        ss_expires_at = (case sj_expires_at dat of Some e \<Rightarrow> e | None \<Rightarrow> [])\<rparr>))"

text \<open>One turn of the watch over the token.\<close>

definition token_watch :: "auth_env \<Rightarrow> client_store \<Rightarrow> client_store" where
  "token_watch au st =
     (let cfg = st_config st in
      if cc_auth_token cfg = [] then st
      else if cc_auth_token_expires cfg - au_now au \<le> 0 then clear_login (au_client au) st
      else st)"

section \<open>The server\<close>

text \<open>A status without a body is not JSON; the other answers are read as they were written.\<close>

definition reply_of :: "('a \<Rightarrow> 'b) \<Rightarrow> 'a answer \<Rightarrow> 'b reply" where
  "reply_of f a =
     (case a of
        Inl _ \<Rightarrow> None
      | Inr (Inl e) \<Rightarrow> Some \<lparr>rp_success = False, rp_data = None, rp_message = Some e\<rparr>
      | Inr (Inr x) \<Rightarrow> Some \<lparr>rp_success = True, rp_data = Some (f x), rp_message = None\<rparr>)"

definition bearer :: "string \<Rightarrow> auth" where
  "bearer token = Some (''Bearer '' @ token)"

definition login_json_of :: "login_response \<Rightarrow> login_json" where
  "login_json_of r = \<lparr>lj_token = Some (lr_token r), lj_user = Some (Some (lr_user r))\<rparr>"

definition subscription_json_of :: "subscription_info \<Rightarrow> subscription_json" where
  "subscription_json_of si = \<lparr>sj_plan_display_name = Some (si_plan_display_name si),
     sj_current_device_count = Some (si_current_device_count si), sj_device_limit = Some (si_device_limit si),
     sj_expires_at = si_expires_at si\<rparr>"

definition web_auth :: "api_env \<Rightarrow> (string \<times> online_conn) list \<Rightarrow> database auth_api" where
  "web_auth env online =
     \<lparr>aa_login = (\<lambda>u p dev d. reply_of login_json_of (login env u p dev d)),
      aa_register = (\<lambda>rq d. map_prod id (reply_of id) (register env rq d)),
      aa_add_device = (\<lambda>t dev name d. map_prod id (reply_of id) (api_add_device env (bearer t) dev name d)),
      aa_change_password = (\<lambda>t old new confirm d. (d, reply_of id (api_change_password new confirm))),
      aa_devices = (\<lambda>t uid d. reply_of id (snd (api_get_user_devices env (bearer t) uid online d))),
      aa_remove_device = (\<lambda>t dev d. map_prod id (reply_of id) (remove_device_by_id env (bearer t) dev d)),
      aa_user = (\<lambda>t uid d. reply_of id (snd (api_get_user env (bearer t) uid d))),
      aa_subscription = (\<lambda>t d. reply_of subscription_json_of (snd (get_my_subscription env (bearer t) d)))\<rparr>"

section \<open>What the client relies on\<close>

text \<open>
  The contract of the account service: a login that succeeds has a right password and gives a token issued for
  the user and the named device, and binding a device changes neither passwords nor tokens without a device.
\<close>

locale login_service =
  fixes api :: "'srv auth_api"
    and good :: "'srv \<Rightarrow> string \<Rightarrow> string \<Rightarrow> bool"
    and issued :: "'srv \<Rightarrow> string \<Rightarrow> string option \<Rightarrow> string \<Rightarrow> bool"
  assumes login_sound: "aa_login api u p dev s = Some r \<Longrightarrow> rp_success r \<Longrightarrow>
      good s u p \<and> (\<exists>t i. rp_data r = Some \<lparr>lj_token = Some t, lj_user = Some (Some i)\<rparr> \<and> issued s u dev t)"
    and login_replies: "aa_login api u p dev s \<noteq> None"
    and add_good: "good (fst (aa_add_device api t i n s)) u p = good s u p"
    and add_issued: "issued s u None t' \<Longrightarrow> issued (fst (aa_add_device api t i n s)) u None t'"
begin

lemma login_fails:
  assumes "\<not> good s u p"
  obtains r where "aa_login api u p dev s = Some r" "\<not> rp_success r"
  using login_sound [of u p dev s] login_replies [of u p dev s] assms by blast

lemma wrong_password:
  assumes "\<not> good s u p"
  shows "\<exists>e. client_login au api u p n st s = (st, s, Inl e)"
proof -
  obtain r1 where r1: "aa_login api u p (Some (get_id st)) s = Some r1" "\<not> rp_success r1" using login_fails [OF assms] .
  then have "login_fields r1 = None" by (simp add: login_fields_def split: option.split)
  moreover obtain r2 where "aa_login api u p None s = Some r2" "\<not> rp_success r2" using login_fails [OF assms] .
  ultimately show ?thesis using r1 by (simp add: client_login_def Let_def)
qed

lemma login_token:
  assumes "client_login au api u p n st s = (st', s', Inr status)"
  shows "good s u p \<and> (issued s' u (Some (get_id st)) (cc_auth_token (st_config st')) \<or> issued s' u None (cc_auth_token (st_config st')))"
proof -
  have g: "good s u p" using wrong_password [of s u p au n st] assms by fastforce
  have url: "get_api_url st \<noteq> []" using assms by (auto simp: client_login_def)
  obtain r1 where r1: "aa_login api u p (Some (get_id st)) s = Some r1" using login_replies by blast
  show ?thesis
  proof (cases "rp_success r1")
    case True
    then obtain t i where "rp_data r1 = Some \<lparr>lj_token = Some t, lj_user = Some (Some i)\<rparr>" "issued s u (Some (get_id st)) t"
      using login_sound [OF r1] by blast
    then show ?thesis using assms g url r1 True by (auto simp: client_login_def login_fields_def keep_login_def save_login_def Let_def config_update_def)
  next
    case False
    then have f: "login_fields r1 = None" by (simp add: login_fields_def split: option.split)
    obtain r2 where r2: "aa_login api u p None s = Some r2" using login_replies by blast
    have "rp_success r2" using assms url r1 f r2 by (auto simp: client_login_def Let_def split: if_splits)
    then obtain t i where t: "rp_data r2 = Some \<lparr>lj_token = Some t, lj_user = Some (Some i)\<rparr>" "issued s u None t"
      using login_sound [OF r2] by blast
    obtain s1 x where a: "aa_add_device api t (get_id st) (Some (device_name_or au n)) s = (s1, x)" by fastforce
    have i1: "issued s1 u None t" using add_issued [OF t(2)] a by (metis fst_conv)
    obtain r3 where r3: "aa_login api u p (Some (get_id st)) s1 = Some r3" using login_replies by blast
    have l: "login_again au t (Some (Some i)) (Some r3) st = (st', Inr status)" "s' = s1"
      using assms url r1 f r2 \<open>rp_success r2\<close> t a r3 by (auto simp: client_login_def Let_def split: option.splits prod.splits)
    show ?thesis
    proof (cases "rp_success r3")
      case True
      then obtain t3 i3 where "rp_data r3 = Some \<lparr>lj_token = Some t3, lj_user = Some (Some i3)\<rparr>" "issued s1 u (Some (get_id st)) t3"
        using login_sound [OF r3] by blast
      then show ?thesis using l g True by (auto simp: login_again_def keep_login_def save_login_def Let_def config_update_def)
    next
      case False
      then show ?thesis using l g i1 by (auto simp: login_again_def keep_login_def save_login_def Let_def config_update_def)
    qed
  qed
qed

end

section \<open>The server keeps the contract\<close>

definition web_good :: "api_env \<Rightarrow> database \<Rightarrow> string \<Rightarrow> string \<Rightarrow> bool" where
  "web_good env d username password \<longleftrightarrow>
     (\<exists>u. get_user_by_username username d = Some u \<and> u_is_active u \<and> verify_password (ae_bcrypt env) password (u_password_hash u))"

definition web_issued :: "api_env \<Rightarrow> database \<Rightarrow> string \<Rightarrow> string option \<Rightarrow> string \<Rightarrow> bool" where
  "web_issued env d username dev t \<longleftrightarrow>
     (\<exists>u udid. get_user_by_username username d = Some u \<and> login_device (u_id u) dev d = Some udid \<and>
        ae_jwt_encode env (login_claims env u udid) = Some t)"

lemma replace_device_users: "replace_device_row now rq d = Inr (d', k) \<Longrightarrow> db_users d' = db_users d"
  by (auto simp: replace_device_row_def Let_def split: if_splits)

lemma add_device_users: "add_device_to_user now rq d = Inr (d', k) \<Longrightarrow> db_users d' = db_users d"
  by (auto simp: add_device_to_user_def Let_def split: if_splits dest: replace_device_users)

lemma api_add_device_users: "db_users (fst (api_add_device env hdr dev name d)) = db_users d"
  by (auto simp: api_add_device_def with_caller_def split: option.splits sum.splits dest: add_device_users)

lemma username_of_users: "db_users d' = db_users d \<Longrightarrow> get_user_by_username u d' = get_user_by_username u d"
  by (simp add: get_user_by_username_def)

lemma login_sound_web:
  assumes "reply_of login_json_of (login env u p dev d) = Some r" "rp_success r"
  shows "web_good env d u p \<and> (\<exists>t i. rp_data r = Some \<lparr>lj_token = Some t, lj_user = Some (Some i)\<rparr> \<and> web_issued env d u dev t)"
proof -
  obtain x where x: "login env u p dev d = ok_answer x" "r = \<lparr>rp_success = True, rp_data = Some (login_json_of x), rp_message = None\<rparr>"
    using assms by (auto simp: reply_of_def split: sum.splits)
  then show ?thesis using login_ok [OF x(1)]
    by (simp add: web_good_def web_issued_def login_json_of_def) metis
qed

interpretation web: login_service "web_auth env online" "web_good env" "web_issued env" for env online
proof
  show "aa_login (web_auth env online) u p dev d \<noteq> None" for u p dev d
    by (auto simp: web_auth_def reply_of_def login_def split: sum.splits option.splits if_splits)
  fix u p t dev n d
  have "db_users (fst (aa_add_device (web_auth env online) t dev n d)) = db_users d"
    by (simp add: web_auth_def api_add_device_users)
  note users = username_of_users [OF this]
  show "web_good env (fst (aa_add_device (web_auth env online) t dev n d)) u p = web_good env d u p" by (simp add: web_good_def users)
  show "web_issued env (fst (aa_add_device (web_auth env online) t dev n d)) u None t'" if "web_issued env d u None t'" for t'
    using that by (simp add: web_issued_def users login_device_def)
qed (auto simp: web_auth_def dest: login_sound_web)

section \<open>Accounts of the client\<close>

text \<open>
  With a wrong password, an unknown or a disabled user the client saves nothing and the server
  changes nothing, whatever the client's device is.
\<close>

theorem wrong_login_changes_nothing:
  assumes "\<not> (\<exists>u. get_user_by_username username d = Some u \<and> u_is_active u \<and>
      verify_password (ae_bcrypt env) password (u_password_hash u))"
  shows "\<exists>e. client_login au (web_auth env online) username password device_name st d = (st, d, Inl e)"
  using web.wrong_password [of env d username password au online device_name st] assms by (simp add: web_good_def)

text \<open>
  What JWT documents, for the server that writes a token, the two places that verify it and the client that only
  reads it: each reads the claims that were written; a token has no blanks.
\<close>

definition jwt_agrees :: "auth_env \<Rightarrow> api_env \<Rightarrow> peer_env \<Rightarrow> bool" where
  "jwt_agrees au env penv \<longleftrightarrow>
     (\<forall>c t. ae_jwt_encode env c = Some t \<longrightarrow>
        ae_jwt_decode env t = Some c \<and> t \<noteq> [] \<and> (\<forall>x \<in> set t. \<not> is_space x) \<and>
        env_jwt_decode penv t = Some \<lparr>jc_sub = Some (SubString (cl_sub c)), jc_udid = cl_udid c\<rparr> \<and>
        parse_jwt_claims au t = Some (cl_exp c, cl_udid c))"

lemma jwt_agreesD:
  assumes "jwt_agrees au env penv" "ae_jwt_encode env c = Some t"
  shows "ae_jwt_decode env t = Some c" "t \<noteq> []" "\<And>x. x \<in> set t \<Longrightarrow> \<not> is_space x"
    "env_jwt_decode penv t = Some \<lparr>jc_sub = Some (SubString (cl_sub c)), jc_udid = cl_udid c\<rparr>"
    "parse_jwt_claims au t = Some (cl_exp c, cl_udid c)"
  using assms by (auto simp: jwt_agrees_def)

lemma login_good:
  assumes "get_user_by_username username d = Some u" "u_is_active u" "verify_password (ae_bcrypt env) password (u_password_hash u)"
    and "login_device (u_id u) dev d = Some udid" "ae_jwt_encode env (login_claims env u udid) = Some t"
  shows "aa_login (web_auth env online) username password dev d =
    Some \<lparr>rp_success = True, rp_data = Some \<lparr>lj_token = Some t, lj_user = Some (Some (user_info_of env u))\<rparr>, rp_message = None\<rparr>"
  using assms by (simp add: web_auth_def reply_of_def login_json_of_def login_def)

lemma login_unbound:
  assumes "get_user_by_username username d = Some u" "login_device (u_id u) dev d = None"
  shows "\<exists>e. aa_login (web_auth env online) username password dev d = Some \<lparr>rp_success = False, rp_data = None, rp_message = Some e\<rparr>"
  using assms by (auto simp: web_auth_def reply_of_def login_def)

lemma caller_of_token:
  assumes "jwt_agrees au env penv" "ae_jwt_encode env (login_claims env u udid) = Some t" "0 < u_id u" "u_id u \<le> int i64_max"
  shows "jwt_user_id_from_headers env (bearer t) = Some (u_id u)"
proof -
  note j = jwt_agreesD [OF assms(1,2)]
  have "trim t = t" by (rule trim_id) (use j(2,3) in simp)
  from bearer_token [OF this j(2)] have "extract_bearer_token (bearer t) = Some t" by (simp add: bearer_def)
  then show ?thesis
    using j(1) parse_show_i64 [OF assms(3,4)] by (simp add: jwt_user_id_from_headers_def jwt_sub_user_id_def login_claims_def)
qed

lemma add_device_binds:
  assumes "add_device_to_user now \<lparr>cdr_user_id = i, cdr_device_id = dev, cdr_device_name = name\<rparr> d = Inr (d', k)"
    and "get_user_device_row_id i dev d = None"
  shows "get_user_device_row_id i dev d' = Some (seq (db_user_devices d) + 1)"
proof -
  have "find (\<lambda>r. ud_user_id r = i \<and> ud_device_id r = dev \<and> ud_is_active r) (rows (db_user_devices d)) = None"
    using assms(2) by (simp add: get_user_device_row_id_def)
  then show ?thesis using assms(1)
    by (auto simp: add_device_to_user_def replace_device_row_def Let_def get_user_device_row_id_def tbl_insert_def tbl_delete_def
        delete_where_def find_append find_None_iff dest!: find_SomeD split: if_splits option.splits)
qed

lemma room_adds:
  assumes "u \<in> set (rows (db_users d))" "u_is_active u" "get_user_device_row_id (u_id u) dev d = None"
    and "get_user_device_limit now (u_id u) d \<le> 0 \<or>
      count_where (active_devices_of (u_id u)) (rows (db_user_devices d)) < get_user_device_limit now (u_id u) d"
  shows "\<exists>d' k. add_device_to_user now \<lparr>cdr_user_id = u_id u, cdr_device_id = dev, cdr_device_name = name\<rparr> d = Inr (d', k)"
proof -
  have "count_where (\<lambda>x. u_id x = u_id u \<and> u_is_active x) (rows (db_users d)) > 0"
    using assms(1,2) by (auto simp: count_where_pos)
  moreover have "\<not> count_where (\<lambda>r. ud_user_id r = u_id u \<and> ud_device_id r = dev \<and> ud_is_active r) (rows (db_user_devices d)) > 0"
    using assms(3) by (auto simp: count_where_pos get_user_device_row_id_def find_None_iff)
  ultimately show ?thesis
    using assms(1,4) by (auto simp: add_device_to_user_def replace_device_row_def Let_def)
qed

text \<open>The token of a login that names the device is accepted for it.\<close>

lemma bound_token:
  assumes "jwt_agrees au env penv" "ae_jwt_encode env (login_claims env u (Some k)) = Some t" "env_db_up penv"
    and "get_user_device_row_id (u_id u) dev d = Some k" "db_ok d" "0 < u_id u" "u_id u \<le> int i64_max"
  shows "validate_peer_token penv t dev d = Some (u_id u, k)"
  using jwt_agreesD(4) [OF assms(1,2)] assms(3) binding_of_row [OF assms(4)] assms(5) parse_show_i64 [OF assms(6,7)]
  by (simp add: validate_peer_token_def login_claims_def db_ok_def)

lemma kept_token:
  assumes "jwt_agrees au env penv" "ae_jwt_encode env (login_claims env u (Some k)) = Some t"
  shows "cc_auth_token (st_config (keep_login au t i (udid_of (parse_jwt_claims au t)) st)) = t"
    "cc_auth_device_row_id (st_config (keep_login au t i (udid_of (parse_jwt_claims au t)) st)) = k"
    "now < ae_unix env + 24 * 3600 - 30 \<Longrightarrow> get_auth_token now (keep_login au t i (udid_of (parse_jwt_claims au t)) st) = Some t"
  using jwt_agreesD [OF assms]
  by (simp_all add: keep_login_def save_login_def config_update_def Let_def udid_of_def expires_of_def login_claims_def get_auth_token_def)

text \<open>The two ways of the login: the device is known, or it is bound first.\<close>

lemma client_login_known:
  assumes "get_user_by_username username d = Some u" "u_is_active u" "verify_password (ae_bcrypt env) password (u_password_hash u)"
    and "login_device (u_id u) (Some (get_id st)) d = Some udid" "ae_jwt_encode env (login_claims env u udid) = Some t"
    and "get_api_url st \<noteq> []"
  shows "client_login au (web_auth env online) username password device_name st d =
    (let st1 = keep_login au t (user_info_of env u) (udid_of (parse_jwt_claims au t)) st in (st1, d, Inr (auth_status_of (au_now au) st1)))"
  using login_good [OF assms(1-5)] assms(6) by (simp add: client_login_def login_fields_def Let_def)

lemma client_login_new:
  assumes u: "get_user_by_username username d = Some u" "u_is_active u" "verify_password (ae_bcrypt env) password (u_password_hash u)"
    and "jwt_agrees au env penv" "ae_jwt_encode env (login_claims env u None) = Some t0" "0 < u_id u" "u_id u \<le> int i64_max"
    and "login_device (u_id u) (Some (get_id st)) d = None" "get_api_url st \<noteq> []"
    and add: "add_device_to_user (ae_now env)
        \<lparr>cdr_user_id = u_id u, cdr_device_id = get_id st, cdr_device_name = Some (device_name_or au device_name)\<rparr> d = Inr (d1, i)"
    and "login_device (u_id u) (Some (get_id st)) d1 = Some udid" "ae_jwt_encode env (login_claims env u udid) = Some t"
  shows "client_login au (web_auth env online) username password device_name st d =
    (let st1 = keep_login au t (user_info_of env u) (udid_of (parse_jwt_claims au t)) st in (st1, d1, Inr (auth_status_of (au_now au) st1)))"
proof -
  obtain e where l1: "aa_login (web_auth env online) username password (Some (get_id st)) d =
      Some \<lparr>rp_success = False, rp_data = None, rp_message = Some e\<rparr>"
    using login_unbound [OF u(1) assms(8)] by blast
  have "login_device (u_id u) None d = Some None" by (simp add: login_device_def)
  note l2 = login_good [OF u this assms(5), of online]
  have "get_user_by_username username d1 = Some u" using u(1) username_of_users [OF add_device_users [OF add]] by simp
  note l3 = login_good [OF this u(2,3) assms(11,12), of online]
  obtain x where "aa_add_device (web_auth env online) t0 (get_id st) (Some (device_name_or au device_name)) d = (d1, Some x)"
    using caller_of_token [OF assms(4-7)] add
    by (cases "find (\<lambda>r. ud_device_id r = get_id st) (get_user_devices (u_id u) d1)")
      (auto simp: web_auth_def api_add_device_def with_caller_def reply_of_def)
  then show ?thesis using assms(9) l1 l2 l3 by (simp add: client_login_def login_fields_def login_again_def Let_def)
qed


text \<open>
  Two requests of the client never succeed: a change of the password, for which the server has no
  implementation, and the removal of a device, whose statement names a column that does not exist.
\<close>

lemma client_change_password_fails:
  "\<exists>e. client_change_password au (web_auth env online) old_password new_password st d = (st, d, Inl e)"
  by (auto simp: client_change_password_def web_auth_def reply_of_def api_change_password_def split: option.split)

lemma client_remove_device_fails:
  "\<exists>e. client_remove_device au (web_auth env online) dev st d = (d, Inl e)"
  using remove_device_fails
  by (auto simp: client_remove_device_def web_auth_def reply_of_def remove_device_by_id_def with_caller_def split: option.split sum.split)

section \<open>Witnesses\<close>

text \<open>A token that carries the row of the device in plain sight.\<close>

definition row_text :: "i64 option \<Rightarrow> string" where
  "row_text k = (case k of None \<Rightarrow> ''n'' | Some i \<Rightarrow> (if 0 \<le> i then CHR ''p'' else CHR ''m'') # replicate (nat (abs i)) CHR ''x'')"

definition text_row :: "string \<Rightarrow> i64 option" where
  "text_row s = (if s = ''n'' then None else Some (if hd s = CHR ''p'' then int (length (tl s)) else - int (length (tl s))))"

lemma text_row_text [simp]: "text_row (row_text k) = k"
  by (cases k) (auto simp: text_row_def row_text_def)

lemma row_text_chars: "c \<in> set (row_text k) \<Longrightarrow> c \<in> {CHR ''n'', CHR ''p'', CHR ''m'', CHR ''x''}"
  by (auto simp: row_text_def split: option.splits if_splits)

definition ann_token :: "i64 option \<Rightarrow> string" where
  "ann_token k = ''h.'' @ row_text k"

definition ann_login_claims :: "i64 option \<Rightarrow> claims" where
  "ann_login_claims k = login_claims test_api_env ann k"

definition ann_server :: api_env where
  "ann_server = test_api_env\<lparr>
     ae_jwt_encode := (\<lambda>c. if c = ann_login_claims (cl_udid c) then Some (ann_token (cl_udid c)) else None),
     ae_jwt_decode := (\<lambda>t. Some (ann_login_claims (text_row (drop 2 t))))\<rparr>"

definition ann_verifier :: peer_env where
  "ann_verifier = test_env\<lparr>env_jwt_decode := (\<lambda>t. Some \<lparr>jc_sub = Some (SubString (cl_sub (ann_login_claims None))),
     jc_udid = text_row (drop 2 t)\<rparr>)\<rparr>"

definition ann_client_env :: auth_env where
  "ann_client_env = \<lparr>au_client = \<lparr>ce_toml_from = \<lambda>s. None, ce_toml_to = \<lambda>c. None, ce_writable = False, ce_base64_encode = \<lambda>b. [],
       ce_base64_decode = \<lambda>s. None\<rparr>,
     au_now = 0, au_hostname = None, au_b64_nopad = (\<lambda>s. Some (str_bytes s)), au_b64_url = (\<lambda>s. None),
     au_claims = (\<lambda>b. Some (24 * 3600, text_row (bytes_str b)))\<rparr>"

definition ann_store :: client_store where
  "ann_store = \<lparr>st_config = config_default\<lparr>cc_id := ''123456789'', cc_api_url := ''http://h:8080''\<rparr>, st_file = None\<rparr>"

lemma ann_server_claims: "login_claims ann_server ann k = ann_login_claims k" "cl_udid (ann_login_claims k) = k"
    "cl_sub (ann_login_claims k) = cl_sub (ann_login_claims None)" "cl_exp (ann_login_claims k) = 24 * 3600"
  by (simp_all add: ann_server_def ann_login_claims_def login_claims_def test_api_env_def)

lemma ann_token_claims: "parse_jwt_claims ann_client_env (ann_token k) = Some (24 * 3600, k)"
proof -
  have "CHR ''.'' \<notin> set (row_text k)" using row_text_chars [of "CHR ''.''" k] by auto
  then have "split_on CHR ''.'' (''h'' @ CHR ''.'' # row_text k) = [''h'', row_text k]"
    by (simp add: split_on_no_sep split_on_append_sep)
  then show ?thesis by (simp add: parse_jwt_claims_def ann_token_def ann_client_env_def Let_def)
qed

lemma ann_jwt_agrees: "jwt_agrees ann_client_env ann_server ann_verifier"
  unfolding jwt_agrees_def
proof (intro allI impI)
  fix c t
  assume "ae_jwt_encode ann_server c = Some t"
  then have c: "c = ann_login_claims (cl_udid c)" and t: "t = ann_token (cl_udid c)"
    by (simp_all add: ann_server_def split: if_splits)
  have d: "drop 2 t = row_text (cl_udid c)" "t \<noteq> []" using t by (simp_all add: ann_token_def)
  have sp: "\<not> is_space x" if "x \<in> set t" for x
    using that row_text_chars [of x "cl_udid c"] t by (auto simp: ann_token_def is_space_def)
  have "ae_jwt_decode ann_server t = Some c" using c d by (simp add: ann_server_def)
  moreover have "env_jwt_decode ann_verifier t = Some \<lparr>jc_sub = Some (SubString (cl_sub c)), jc_udid = cl_udid c\<rparr>"
    using ann_server_claims(3) [of "cl_udid c"] c d by (simp add: ann_verifier_def)
  moreover have "parse_jwt_claims ann_client_env t = Some (cl_exp c, cl_udid c)"
    using ann_token_claims [of "cl_udid c"] t c ann_server_claims(4) [of "cl_udid c"] by simp
  ultimately show "ae_jwt_decode ann_server t = Some c \<and> t \<noteq> [] \<and> (\<forall>x\<in>set t. \<not> is_space x) \<and>
      env_jwt_decode ann_verifier t = Some \<lparr>jc_sub = Some (SubString (cl_sub c)), jc_udid = cl_udid c\<rparr> \<and>
      parse_jwt_claims ann_client_env t = Some (cl_exp c, cl_udid c)"
    using d(2) sp by blast
qed


theorem wrong_login_changes_nothing_witness:
  "\<exists>e. client_login ann_client_env (web_auth ann_server []) ''bob'' ''pw'' None ann_store db_ann = (ann_store, db_ann, Inl e)"
  by (rule wrong_login_changes_nothing) (simp add: get_user_by_username_def db_ann_def ann_def)

end
