(* ===== verification/Client_Lan.thy ===== *)
theory Client_Lan
  imports Client_Mediator
begin

text \<open>
  Discovery in the local network, \<open>nat-client/src/lan.rs\<close>: the listener that answers a ping,
  the search that broadcasts one and collects the answers in one thread per interface, and
  the table of the computers found.
\<close>

section \<open>Messages\<close>

definition serialize_lan_message :: "wire \<Rightarrow> rendezvous_message \<Rightarrow> protocol \<Rightarrow> bytes" where
  "serialize_lan_message w msg proto =
     (case serialize_msg w msg proto of Some b \<Rightarrow> b
      | None \<Rightarrow> (case w_write_to_bytes w msg of Some b \<Rightarrow> b | None \<Rightarrow> []))"

text \<open>The codec, the name of the computer and of the user, the platform, and the local address that reaches a peer.\<close>

record lan_env =
  ln_wire :: wire
  ln_hostname :: "string option"
  ln_username :: string
  ln_platform :: string
  ln_local_ip :: "socket_addr \<Rightarrow> ip_addr option"

definition get_local_mac :: "lan_env \<Rightarrow> socket_addr \<Rightarrow> string" where
  "get_local_mac le peer = (case ln_local_ip le peer of Some ip \<Rightarrow> show_ip ip | None \<Rightarrow> [])"

definition lan_hostname :: "lan_env \<Rightarrow> string" where
  "lan_hostname le =
     (let h = (case ln_hostname le of Some h \<Rightarrow> h | None \<Rightarrow> ''unknown'')
      in if h = ''localhost'' then ''unknown'' else h)"

definition lan_pong :: "lan_env \<Rightarrow> client_store \<Rightarrow> socket_addr \<Rightarrow> peer_discovery" where
  "lan_pong le st from_addr =
     \<lparr>pd_cmd = ''pong'', pd_mac = get_local_mac le from_addr, pd_id = get_id st, pd_username = ln_username le,
      pd_hostname = lan_hostname le, pd_platform = ln_platform le, pd_misc = []\<rparr>"

definition lan_ping :: "client_store \<Rightarrow> peer_discovery" where
  "lan_ping st =
     \<lparr>pd_cmd = ''ping'', pd_mac = [], pd_id = get_id st, pd_username = [], pd_hostname = [],
      pd_platform = [], pd_misc = []\<rparr>"

section \<open>Computers found\<close>

record discovered_peer =
  dp_id :: string
  dp_ip :: string
  dp_mac :: string
  dp_hostname :: string
  dp_username :: string
  dp_platform :: string
  dp_online :: bool
  dp_last_seen :: "instant option"

text \<open>The table \<open>DISCOVERED_PEERS\<close>; its order is never seen, since \<open>lan_get_peers\<close> sorts.\<close>

type_synonym discovered_peers = "(string \<times> discovered_peer) list"

definition upsert_peer :: "instant \<Rightarrow> discovered_peer \<Rightarrow> discovered_peers \<Rightarrow> discovered_peers" where
  "upsert_peer now peer m =
     (let entry = (case map_of m (dp_id peer) of Some e \<Rightarrow> e | None \<Rightarrow> peer)
      in AList.update (dp_id peer)
           (entry\<lparr>dp_ip := dp_ip peer, dp_mac := dp_mac peer, dp_hostname := dp_hostname peer,
                  dp_username := dp_username peer, dp_platform := dp_platform peer,
                  dp_online := True, dp_last_seen := Some now\<rparr>) m)"

definition mark_offline :: "instant \<Rightarrow> discovered_peer \<Rightarrow> discovered_peer" where
  "mark_offline now p =
     (case dp_last_seen p of
        Some t \<Rightarrow> if 60 < as_secs (elapsed now t) then p\<lparr>dp_online := False\<rparr> else p
      | None \<Rightarrow> p)"

text \<open>\<open>sort_by\<close> on the ids, a stable sort.\<close>

fun insert_by_id :: "discovered_peer \<Rightarrow> discovered_peer list \<Rightarrow> discovered_peer list" where
  "insert_by_id p [] = [p]"
| "insert_by_id p (q # qs) = (if str_less (dp_id q) (dp_id p) then q # insert_by_id p qs else p # q # qs)"

definition lan_get_peers :: "instant \<Rightarrow> discovered_peers \<Rightarrow> discovered_peer list" where
  "lan_get_peers now m = foldr insert_by_id (map (mark_offline now) (map snd m)) []"

section \<open>Listener\<close>

definition broadcast_port :: u16 where "broadcast_port = word_of_int (RENDEZVOUS_PORT + 3)"

text \<open>
  A turn of the loop of \<open>start_listening\<close> on a datagram: the answer sent back, if any.  The buffer
  holds 2048 bytes; the rest of a longer datagram is lost.
\<close>

definition lan_reply :: "lan_env \<Rightarrow> client_store \<Rightarrow> socket_addr \<Rightarrow> bytes \<Rightarrow> (bytes \<times> socket_addr) option" where
  "lan_reply le st from_addr datagram =
     (let buf = take 2048 datagram; reply_proto = detect buf
      in case parse_msg (ln_wire le) buf of
           Some (Some (PeerDiscovery p)) \<Rightarrow>
             if pd_cmd p \<noteq> ''ping'' then None
             else if pd_id p = get_id st then None
             else (let bs = serialize_lan_message (ln_wire le) (Some (PeerDiscovery (lan_pong le st from_addr))) reply_proto
                   in if bs = [] then None else Some (bs, from_addr))
         | _ \<Rightarrow> None)"

section \<open>Search\<close>

text \<open>
  The turns of a thread of the search: the time at which the loop looks at the deadline and the
  datagram the turn receives, with the time after it; no datagram when the reading times out.
\<close>

type_synonym lan_turn = "instant \<times> (bytes \<times> socket_addr \<times> instant) option"

definition found_peer :: "peer_discovery \<Rightarrow> socket_addr \<Rightarrow> instant \<Rightarrow> discovered_peer" where
  "found_peer p from_addr now =
     \<lparr>dp_id = pd_id p, dp_ip = show_ip (sa_ip from_addr), dp_mac = pd_mac p, dp_hostname = pd_hostname p,
      dp_username = pd_username p, dp_platform = pd_platform p, dp_online = True, dp_last_seen = Some now\<rparr>"

definition lan_response :: "wire \<Rightarrow> string \<Rightarrow> bytes \<times> socket_addr \<times> instant \<Rightarrow> discovered_peer option" where
  "lan_response w my_id = (\<lambda>(datagram, from_addr, now).
     (case parse_msg w (take 2048 datagram) of
        Some (Some (PeerDiscovery p)) \<Rightarrow>
          if pd_cmd p \<noteq> ''pong'' \<or> pd_id p = my_id then None else Some (found_peer p from_addr now)
      | _ \<Rightarrow> None))"

fun collect_responses :: "wire \<Rightarrow> string \<Rightarrow> instant \<Rightarrow> lan_turn list \<Rightarrow> discovered_peer list" where
  "collect_responses w my_id deadline [] = []"
| "collect_responses w my_id deadline ((now, received) # turns) =
     (if deadline \<le> now then []
      else (case Option.bind received (lan_response w my_id) of
              Some p \<Rightarrow> p # collect_responses w my_id deadline turns
            | None \<Rightarrow> collect_responses w my_id deadline turns))"

text \<open>
  \<open>discover\<close>: the datagrams sent, the table and the list returned.  A thread is given by its start and
  its turns, one per socket that could be bound; \<open>merged\<close> is the order in which the threads push on
  the common list, and \<open>now\<close> the time when all have ended.
\<close>

definition lan_discover ::
  "lan_env \<Rightarrow> client_store \<Rightarrow> (instant \<times> lan_turn list) list \<Rightarrow> (discovered_peer list list \<Rightarrow> discovered_peer list) \<Rightarrow>
   instant \<Rightarrow> discovered_peers \<Rightarrow> (bytes \<times> socket_addr) list \<times> discovered_peers \<times> discovered_peer list" where
  "lan_discover le st threads merged now m =
     (if threads = [] then ([], m, lan_get_peers now m)
      else
        let out = serialize_lan_message (ln_wire le) (Some (PeerDiscovery (lan_ping st))) (get_rendezvous_wire_protocol st);
            bcast = V4 (Ipv4Addr 255 255 255 255) broadcast_port;
            fresh = merged (map (\<lambda>(start, turns).
                      collect_responses (ln_wire le) (get_id st) (start + 3 * nanos_per_sec) turns) threads);
            m1 = fold (upsert_peer now) fresh m
        in (map (\<lambda>_. (out, bcast)) threads, m1, lan_get_peers now m1))"

text \<open>The orders in which threads may push their results.\<close>

fun interleavings :: "'a list list \<Rightarrow> 'a list set" where
  "interleavings [] = {[]}"
| "interleavings (x # xs) = (\<Union>y\<in>interleavings xs. shuffles x y)"

section \<open>Lemmas on the table\<close>

definition table_ok :: "discovered_peers \<Rightarrow> bool" where
  "table_ok m \<longleftrightarrow> distinct (map fst m) \<and> (\<forall>(k, p) \<in> set m. dp_id p = k)"

lemma table_ok_lookup: "table_ok m \<Longrightarrow> map_of m k = Some p \<Longrightarrow> dp_id p = k"
  by (auto simp: table_ok_def dest!: map_of_SomeD)

lemma set_AList_update: "x \<in> set (AList.update k v m) \<Longrightarrow> x = (k, v) \<or> x \<in> set m"
  by (induction m) (auto split: if_splits)

lemma upsert_peer_id:
  "table_ok m \<Longrightarrow> dp_id (case map_of m (dp_id p) of Some e \<Rightarrow> e | None \<Rightarrow> p) = dp_id p"
  by (auto simp: table_ok_lookup split: option.splits)

lemma upsert_peer_ok: "table_ok m \<Longrightarrow> table_ok (upsert_peer now p m)"
  using upsert_peer_id [of m p]
  by (fastforce simp: table_ok_def upsert_peer_def Let_def AList.distinct_update dest!: set_AList_update)

lemma upsert_peer_lookup:
  assumes "table_ok m"
  shows "map_of (upsert_peer now p m) =
    (map_of m)(dp_id p \<mapsto> p\<lparr>dp_online := True, dp_last_seen := Some now\<rparr>)"
  using upsert_peer_id [OF assms, of p]
  by (cases p; cases "map_of m (dp_id p)") (auto simp: upsert_peer_def Let_def update_conv')

lemma upsert_all:
  "table_ok m \<Longrightarrow> table_ok (fold (upsert_peer now) ps m) \<and>
    map_of (fold (upsert_peer now) ps m) =
      map_of m ++ map_of (rev (map (\<lambda>p. (dp_id p, p\<lparr>dp_online := True, dp_last_seen := Some now\<rparr>)) ps))"
  by (induction ps arbitrary: m) (simp_all add: upsert_peer_ok upsert_peer_lookup)

text \<open>A computer that answered is in the table with the data of an answer.\<close>

lemma upsert_all_found:
  assumes "table_ok m" "p \<in> set ps"
  obtains p' where "p' \<in> set ps" "dp_id p' = dp_id p"
    "map_of (fold (upsert_peer now) ps m) (dp_id p) = Some (p'\<lparr>dp_online := True, dp_last_seen := Some now\<rparr>)"
proof -
  let ?l = "rev (map (\<lambda>p. (dp_id p, p\<lparr>dp_online := True, dp_last_seen := Some now\<rparr>)) ps)"
  obtain v where v: "map_of ?l (dp_id p) = Some v"
    using assms(2) by (cases "map_of ?l (dp_id p)") (auto simp: map_of_eq_None_iff image_iff)
  moreover have "(dp_id p, v) \<in> set ?l" using v by (rule map_of_SomeD)
  ultimately show ?thesis
    using that upsert_all [OF assms(1), of now ps] by (auto simp: map_add_def)
qed

lemma mark_offline_id [simp]: "dp_id (mark_offline now p) = dp_id p"
  by (auto simp: mark_offline_def split: option.splits)

lemma mark_offline_now [simp]: "mark_offline now (p\<lparr>dp_last_seen := Some now\<rparr>) = p\<lparr>dp_last_seen := Some now\<rparr>"
  by (simp add: mark_offline_def elapsed_def as_secs_def)

lemma set_insert_by_id [simp]: "set (insert_by_id p qs) = insert p (set qs)"
  by (induction qs) auto

lemma lan_get_peers_set: "set (lan_get_peers now m) = mark_offline now ` snd ` set m"
  unfolding lan_get_peers_def
proof (induction m)
  case (Cons a m)
  then show ?case by simp
qed simp

definition by_id :: "discovered_peer \<Rightarrow> discovered_peer \<Rightarrow> bool" where
  "by_id p q \<longleftrightarrow> str_less (dp_id p) (dp_id q)"

lemma insert_by_id_sorted:
  "sorted_wrt by_id qs \<Longrightarrow> dp_id p \<notin> dp_id ` set qs \<Longrightarrow> sorted_wrt by_id (insert_by_id p qs)"
proof (induction qs)
  case (Cons q qs)
  then show ?case
    using str_less_linear [of "dp_id p" "dp_id q"] by (auto simp: by_id_def intro: str_less_trans)
qed simp

text \<open>The list is in strictly increasing order of the ids, whatever the order of the table.\<close>

lemma lan_get_peers_sorted: "table_ok m \<Longrightarrow> sorted_wrt by_id (lan_get_peers now m)"
proof (induction m)
  case (Cons a m)
  then have "table_ok m" by (auto simp: table_ok_def)
  moreover have "lan_get_peers now (a # m) = insert_by_id (mark_offline now (snd a)) (lan_get_peers now m)"
    by (simp add: lan_get_peers_def)
  moreover have "dp_id (snd a) \<notin> (\<lambda>x. dp_id (snd x)) ` set m"
    using Cons.prems by (force simp: table_ok_def)
  ultimately show ?case using Cons.IH
    by (simp add: lan_get_peers_set image_image insert_by_id_sorted)
qed (simp add: lan_get_peers_def)

section \<open>Lemmas on the search\<close>

lemma interleavings_set: "ys \<in> interleavings xss \<Longrightarrow> set ys = (\<Union>xs\<in>set xss. set xs)"
proof (induction xss arbitrary: ys)
  case (Cons x xss)
  then obtain z where "z \<in> interleavings xss" "ys \<in> shuffles x z" by auto
  then show ?case using Cons.IH set_shuffles by fastforce
qed simp

lemma collect_responses_member:
  assumes "(t, Some r) \<in> set turns" "\<forall>(t', _) \<in> set turns. t' < deadline" "lan_response w my_id r = Some p"
  shows "p \<in> set (collect_responses w my_id deadline turns)"
  using assms
proof (induction turns)
  case (Cons a turns)
  then show ?case by (cases a) (fastforce split: option.splits)
qed simp


section \<open>Exchange of two computers\<close>

text \<open>
  What the protocol libraries promise of a message: it can be written, in a datagram that fits the
  buffer, reading returns it, a protobuf message with a field set does not start with 0, and a framed
  Cap'n Proto message starts with it.
\<close>

fun library_carries :: "wire \<Rightarrow> protocol \<Rightarrow> peer_discovery \<Rightarrow> bool" where
  "library_carries w Proto3 m \<longleftrightarrow>
     (case w_write_to_bytes w (Some (PeerDiscovery m)) of
        Some (b # bs) \<Rightarrow> b \<noteq> 0 \<and> length bs < 2048 \<and> w_parse_from_bytes w (b # bs) = Some (Some (PeerDiscovery m))
      | _ \<Rightarrow> False)"
| "library_carries w Capnp m \<longleftrightarrow>
     (let c = W_PeerDiscovery (Some (init_peer_discovery m)) in
      case w_write_message w c of
        Some (b # bs) \<Rightarrow> b = 0 \<and> length bs < 2048 \<and> w_read_message w (b # bs) = Some (Some c)
      | _ \<Rightarrow> False)"

lemma carried_bytes:
  assumes "library_carries w q m"
  obtains b bs where "serialize_lan_message w (Some (PeerDiscovery m)) q = b # bs" "length bs < 2048"
    "b = 0 \<longleftrightarrow> q = Capnp" "parse_msg w (b # bs) = Some (Some (PeerDiscovery m))"
proof (cases q)
  case Proto3
  then show ?thesis
    using assms that by (auto simp: serialize_lan_message_def serialize_msg_def parse_msg_def detect_def
        split: option.splits list.splits)
next
  case Capnp
  then show ?thesis
    using assms that capnp_message_trip [of "PeerDiscovery m"]
    by (auto simp: serialize_lan_message_def serialize_msg_def parse_msg_def detect_def to_capnp_def
        from_capnp_def Let_def split: option.splits list.splits)
qed

lemma carried:
  assumes "library_carries w q m"
  shows "serialize_lan_message w (Some (PeerDiscovery m)) q \<noteq> []"
    "take 2048 (serialize_lan_message w (Some (PeerDiscovery m)) q) = serialize_lan_message w (Some (PeerDiscovery m)) q"
    "detect (serialize_lan_message w (Some (PeerDiscovery m)) q) = q"
    "parse_msg w (serialize_lan_message w (Some (PeerDiscovery m)) q) = Some (Some (PeerDiscovery m))"
  by (rule carried_bytes [OF assms]; cases q; simp add: detect_def)+

lemma lan_reply_ping:
  assumes "library_carries (ln_wire le) q (lan_ping st_a)" "library_carries (ln_wire le) q (lan_pong le st_b addr_a)"
    and "get_id st_a \<noteq> get_id st_b"
  shows "lan_reply le st_b addr_a (serialize_lan_message (ln_wire le) (Some (PeerDiscovery (lan_ping st_a))) q) =
    Some (serialize_lan_message (ln_wire le) (Some (PeerDiscovery (lan_pong le st_b addr_a))) q, addr_a)"
  using carried [OF assms(1)] carried [OF assms(2)] assms(3)
  by (simp add: lan_reply_def lan_ping_def)

lemma lan_response_pong:
  assumes "library_carries w q (lan_pong le st_b addr_a)" "my_id \<noteq> get_id st_b"
  shows "lan_response w my_id (serialize_lan_message w (Some (PeerDiscovery (lan_pong le st_b addr_a))) q, addr_b, t) =
    Some (found_peer (lan_pong le st_b addr_a) addr_b t)"
  using carried [OF assms(1)] assms(2) by (simp add: lan_response_def lan_pong_def)

text \<open>Every result of a thread comes from a datagram it received.\<close>

lemma collect_responses_from:
  "p \<in> set (collect_responses w my_id deadline turns) \<Longrightarrow>
   \<exists>t r. (t, Some r) \<in> set turns \<and> lan_response w my_id r = Some p"
proof (induction turns)
  case (Cons a turns)
  obtain t rcv where a: "a = (t, rcv)" by fastforce
  show ?case
  proof (cases "Option.bind rcv (lan_response w my_id) = Some p")
    case True
    then show ?thesis using a by (cases rcv) auto
  next
    case False
    then have "p \<in> set (collect_responses w my_id deadline turns)"
      using Cons.prems a by (auto split: if_splits option.splits)
    then show ?thesis using Cons.IH by auto
  qed
qed simp

text \<open>A thread of the search receives the datagram from \<open>from_addr\<close> before its deadline.\<close>

definition hears :: "(instant \<times> lan_turn list) list \<Rightarrow> bytes \<Rightarrow> socket_addr \<Rightarrow> bool" where
  "hears threads datagram from_addr \<longleftrightarrow>
     (\<exists>(start, turns)\<in>set threads. (\<forall>(t, _)\<in>set turns. t < start + 3 * nanos_per_sec) \<and>
        (\<exists>(t, r)\<in>set turns. \<exists>t'. r = Some (datagram, from_addr, t')))"

text \<open>All answers the threads receive under the id of \<open>p\<close> carry the data of \<open>p\<close>.\<close>

definition answers_agree :: "wire \<Rightarrow> string \<Rightarrow> (instant \<times> lan_turn list) list \<Rightarrow> discovered_peer \<Rightarrow> bool" where
  "answers_agree w my_id threads p \<longleftrightarrow>
     (\<forall>(_, turns)\<in>set threads. \<forall>(_, r)\<in>set turns.
        (case Option.bind r (lan_response w my_id) of
           Some p' \<Rightarrow> dp_id p' = dp_id p \<longrightarrow> p'\<lparr>dp_last_seen := dp_last_seen p\<rparr> = p
         | None \<Rightarrow> True))"

lemma discover_lists:
  assumes "table_ok m" "\<And>rs. merged rs \<in> interleavings rs"
    and "\<And>t. lan_response (ln_wire le) (get_id st) (datagram, from_addr, t) = Some (found_peer q from_addr t)"
    and "hears threads datagram from_addr" "answers_agree (ln_wire le) (get_id st) threads (found_peer q from_addr now)"
  shows "found_peer q from_addr now \<in> set (snd (snd (lan_discover le st threads merged now m)))"
proof -
  let ?f = "\<lambda>(start, turns). collect_responses (ln_wire le) (get_id st) (start + 3 * nanos_per_sec) turns"
  let ?fresh = "merged (map ?f threads)"
  let ?m1 = "fold (upsert_peer now) ?fresh m"
  have fresh: "set ?fresh = (\<Union>th\<in>set threads. set (?f th))"
    using interleavings_set [OF assms(2)] by simp
  obtain start turns t t' where th: "(start, turns) \<in> set threads" "(t, Some (datagram, from_addr, t')) \<in> set turns"
    and early: "\<forall>(t, _)\<in>set turns. t < start + 3 * nanos_per_sec"
    using assms(4) by (auto simp: hears_def)
  have "found_peer q from_addr t' \<in> set ?fresh"
    using collect_responses_member [OF th(2) early assms(3)] th(1) fresh by force
  then obtain p where p: "p \<in> set ?fresh" "dp_id p = dp_id (found_peer q from_addr t')"
    "map_of ?m1 (dp_id (found_peer q from_addr t')) = Some (p\<lparr>dp_online := True, dp_last_seen := Some now\<rparr>)"
    by (rule upsert_all_found [OF assms(1)])
  from p(1) fresh obtain start' turns' where "(start', turns') \<in> set threads" "p \<in> set (?f (start', turns'))"
    by fastforce
  then obtain t2 r where r: "(start', turns') \<in> set threads" "(t2, Some r) \<in> set turns'"
    "lan_response (ln_wire le) (get_id st) r = Some p"
    using collect_responses_from by fastforce
  then have "p\<lparr>dp_last_seen := Some now\<rparr> = found_peer q from_addr now"
    using assms(5) p(2) by (fastforce simp: answers_agree_def found_peer_def)
  moreover from this have "p\<lparr>dp_online := True, dp_last_seen := Some now\<rparr> = p\<lparr>dp_last_seen := Some now\<rparr>"
    by (cases p) (simp add: found_peer_def)
  ultimately have "(dp_id (found_peer q from_addr t'), found_peer q from_addr now) \<in> set ?m1"
    using p(3) map_of_SomeD by metis
  moreover have "mark_offline now (found_peer q from_addr now) = found_peer q from_addr now"
    by (simp add: mark_offline_def found_peer_def elapsed_def as_secs_def)
  ultimately have "found_peer q from_addr now \<in> set (lan_get_peers now ?m1)"
    by (force simp: lan_get_peers_set)
  moreover have "threads \<noteq> []" using th(1) by auto
  ultimately show ?thesis by (simp add: lan_discover_def Let_def case_prod_unfold)
qed

text \<open>
  C19.  Discovery finds the computers that answer.  The ping of one client is answered by another, in
  the protocol of the ping; and a search in which a thread receives that answer before its
  deadline lists the other client, online, with its id, names and platform and the address the
  answer came from, whatever the order in which the threads push what they receive, provided that
  every answer under that id carries the same data.
\<close>

theorem lan_discovery:
  assumes "ln_wire le_a = w" "ln_wire le_b = w" "get_rendezvous_wire_protocol st_a = proto"
    and "library_carries w proto (lan_ping st_a)" "library_carries w proto (lan_pong le_b st_b addr_a)"
    and "get_id st_a \<noteq> get_id st_b" "table_ok m"
    and "\<And>rs. merged rs \<in> interleavings rs"
    and "answers_agree w (get_id st_a) threads (found_peer (lan_pong le_b st_b addr_a) addr_b now)"
  shows "\<exists>pong. lan_reply le_b st_b addr_a
                  (serialize_lan_message w (Some (PeerDiscovery (lan_ping st_a))) proto) = Some (pong, addr_a) \<and>
                detect pong = proto \<and>
                (hears threads pong addr_b \<longrightarrow>
                 found_peer (lan_pong le_b st_b addr_a) addr_b now
                   \<in> set (snd (snd (lan_discover le_a st_a threads merged now m))))"
proof -
  let ?pong = "serialize_lan_message w (Some (PeerDiscovery (lan_pong le_b st_b addr_a))) proto"
  have "lan_response w (get_id st_a) (?pong, addr_b, t) = Some (found_peer (lan_pong le_b st_b addr_a) addr_b t)" for t
    by (rule lan_response_pong [OF assms(5,6)])
  then have "hears threads ?pong addr_b \<longrightarrow> found_peer (lan_pong le_b st_b addr_a) addr_b now
                   \<in> set (snd (snd (lan_discover le_a st_a threads merged now m)))"
    using discover_lists [OF assms(7,8), of le_a st_a ?pong addr_b] assms(1,9) by blast
  then show ?thesis
    using lan_reply_ping [of le_b proto st_a st_b addr_a] carried(3) [OF assms(5)] assms(2,4-6) by auto
qed

definition lan_client :: "string \<Rightarrow> client_store" where
  "lan_client i = \<lparr>st_config = config_default\<lparr>cc_id := i\<rparr>, st_file = None\<rparr>"

definition lan_sample_wire :: wire where
  "lan_sample_wire =
     (let pong = \<lparr>pd_cmd = ''pong'', pd_mac = ''10.0.0.2'', pd_id = ''b'', pd_username = ''u'',
                  pd_hostname = ''unknown'', pd_platform = ''Linux'', pd_misc = []\<rparr>
      in \<lparr>w_parse_from_bytes = (\<lambda>bs. if bs = [1] then Some (Some (PeerDiscovery (lan_ping (lan_client ''a''))))
                              else if bs = [2] then Some (Some (PeerDiscovery pong)) else None),
          w_write_to_bytes = (\<lambda>m. if m = Some (PeerDiscovery pong) then Some [2] else Some [1]),
          w_read_message = (\<lambda>_. None), w_write_message = (\<lambda>_. None)\<rparr>)"

definition lan_sample_env :: lan_env where
  "lan_sample_env = \<lparr>ln_wire = lan_sample_wire, ln_hostname = Some ''localhost'', ln_username = ''u'',
     ln_platform = ''Linux'', ln_local_ip = \<lambda>_. Some (IpV4 (Ipv4Addr 10 0 0 2))\<rparr>"

lemma lan_sample_env_wire: "ln_wire lan_sample_env = lan_sample_wire"
  by (simp add: lan_sample_env_def)

lemma lan_sample_pong:
  "lan_pong lan_sample_env (lan_client ''b'') a =
     \<lparr>pd_cmd = ''pong'', pd_mac = ''10.0.0.2'', pd_id = ''b'', pd_username = ''u'',
      pd_hostname = ''unknown'', pd_platform = ''Linux'', pd_misc = []\<rparr>"
  by (simp add: lan_pong_def lan_sample_env_def lan_client_def get_id_def lan_hostname_def get_local_mac_def)
     code_simp

lemma concat_interleaved: "concat rs \<in> interleavings rs"
proof (induction rs)
  case (Cons r rs)
  have "r @ y \<in> shuffles r y" for y by (induction r) (auto intro: Cons_in_shuffles_leftI)
  then show ?case using Cons by auto
qed simp

theorem lan_discovery_witness:
  "let a = V4 (Ipv4Addr 10 0 0 1) 5000; b = V4 (Ipv4Addr 10 0 0 2) 21119;
       turns = [(0, None), (50000000, Some ([2], b, 60000000))];
       p = found_peer (lan_pong lan_sample_env (lan_client ''b'') a) b 3000000000
   in p \<in> set (snd (snd (lan_discover lan_sample_env (lan_client ''a'') [(0, turns)] concat 3000000000 [])))"
proof -
  let ?a = "V4 (Ipv4Addr 10 0 0 1) 5000" let ?b = "V4 (Ipv4Addr 10 0 0 2) 21119"
  let ?th = "[(0, [(0, None), (50000000, Some ([2], ?b, 60000000))])] :: (instant \<times> lan_turn list) list"
  have ids: "get_id (lan_client ''a'') = ''a''" "get_id (lan_client ''b'') = ''b''"
    by (simp_all add: lan_client_def get_id_def)
  have c: "library_carries lan_sample_wire Proto3 (lan_ping (lan_client ''a''))"
    "library_carries lan_sample_wire Proto3 (lan_pong lan_sample_env (lan_client ''b'') ?a)"
    by (simp_all add: lan_sample_wire_def lan_sample_pong lan_ping_def ids Let_def)
  have agree: "answers_agree lan_sample_wire ''a'' ?th
       (found_peer (lan_pong lan_sample_env (lan_client ''b'') ?a) ?b 3000000000)"
    unfolding lan_sample_pong
    by (simp add: answers_agree_def lan_response_def lan_sample_wire_def parse_msg_def detect_def found_peer_def Let_def)
  have ex: "\<exists>pong. lan_reply lan_sample_env (lan_client ''b'') ?a
       (serialize_lan_message lan_sample_wire (Some (PeerDiscovery (lan_ping (lan_client ''a'')))) Proto3) = Some (pong, ?a) \<and>
       detect pong = Proto3 \<and>
       (hears ?th pong ?b \<longrightarrow> found_peer (lan_pong lan_sample_env (lan_client ''b'') ?a) ?b 3000000000
          \<in> set (snd (snd (lan_discover lan_sample_env (lan_client ''a'') ?th concat 3000000000 []))))"
    by (rule lan_discovery [of lan_sample_env lan_sample_wire])
       (use c agree ids in \<open>simp_all add: lan_sample_env_def concat_interleaved table_ok_def
          get_rendezvous_wire_protocol_def lan_client_def config_default_def\<close>)
  moreover have "lan_reply lan_sample_env (lan_client ''b'') ?a
       (serialize_lan_message lan_sample_wire (Some (PeerDiscovery (lan_ping (lan_client ''a'')))) Proto3) = Some ([2], ?a)"
    using lan_reply_ping [of lan_sample_env Proto3 "lan_client ''a''" "lan_client ''b''" ?a, unfolded lan_sample_pong] c ids
    by (simp add: lan_sample_env_wire lan_sample_pong)
       (simp add: serialize_lan_message_def serialize_msg_def lan_sample_wire_def Let_def)
  moreover have "hears ?th [2] ?b" by (simp add: hears_def nanos_per_sec_def)
  ultimately show ?thesis by (simp add: Let_def)
qed

end
