(* ===== verification/Client_Updater.thy ===== *)
theory Client_Updater
  imports Web_Api
begin

text \<open>
  Updates of the client, \<open>nat-client/src/updater.rs\<close>: the question for the newest version, the
  thread that asks it, the download into the temporary directory, the check of its hash and
  the replacement of the program.
\<close>

section \<open>Environment\<close>

datatype platform = Windows | Macos | Linux

datatype update_error =
    NoHttpClient | NetworkError | ServerStatus nat | UnreadableAnswer | NoVersionSet | NoDownloadUrl
  | HeadFailed | DownloadFailed | DownloadStatus nat | FileNotCreated | ReadFailed | WriteFailed
  | FileUnreadable | HashMismatch string string | NoCurrentExe | ReplaceFailed | PermissionFailed
  | ExecFailed | SpawnFailed

text \<open>
  The HTTP library (an answer has a status and, where it reads as JSON, its text fields; a download
  arrives in pieces, \<open>None\<close> a failed read; its size only feeds the progress bar), the digest of SHA-256 in hexadecimal, and what of the
  operating system succeeds.
\<close>

record update_env =
  up_platform :: platform
  up_version :: string
  up_http_client :: bool
  up_get_json :: "string \<Rightarrow> (nat \<times> (string \<rightharpoonup> string) option) option"
  up_head :: "string \<Rightarrow> nat option option"
  up_get :: "string \<Rightarrow> (nat \<times> nat option \<times> bytes option list) option"
  up_sha256_hex :: "bytes \<Rightarrow> string"
  up_temp_dir :: string
  up_current_exe :: "string option"
  up_can_create :: "string \<Rightarrow> bool"
  up_can_write :: "nat \<Rightarrow> bool"
  up_can_copy :: bool
  up_can_chmod :: bool
  up_can_exec :: bool

type_synonym files = "string \<rightharpoonup> bytes"

definition is_success :: "nat \<Rightarrow> bool" where
  "is_success status \<longleftrightarrow> 200 \<le> status \<and> status < 300"

section \<open>Version check\<close>

record update_info =
  uf_version :: string
  uf_download_url :: string
  uf_sha256 :: string
  uf_changelog :: string

text \<open>The order on \<open>Vec<u64>\<close>.\<close>

fun nums_less :: "nat list \<Rightarrow> nat list \<Rightarrow> bool" where
  "nums_less _ [] = False"
| "nums_less [] (_ # _) = True"
| "nums_less (x # xs) (y # ys) = (x < y \<or> (x = y \<and> nums_less xs ys))"

definition version_nums :: "string \<Rightarrow> nat list" where
  "version_nums s = map (\<lambda>p. case parse_unsigned (2 ^ 64 - 1) p of Some n \<Rightarrow> n | None \<Rightarrow> 0) (split_on CHR ''.'' s)"

definition is_newer :: "string \<Rightarrow> string \<Rightarrow> bool" where
  "is_newer latest current = nums_less (version_nums current) (version_nums latest)"

definition platform_suffix :: "platform \<Rightarrow> string" where
  "platform_suffix p = (case p of Windows \<Rightarrow> ''windows'' | Macos \<Rightarrow> ''macos'' | Linux \<Rightarrow> ''linux'')"

definition json_str :: "(string \<rightharpoonup> string) \<Rightarrow> string \<Rightarrow> string" where
  "json_str json k = (case json k of Some v \<Rightarrow> v | None \<Rightarrow> [])"

definition platform_field :: "platform \<Rightarrow> (string \<rightharpoonup> string) \<Rightarrow> string \<Rightarrow> string" where
  "platform_field p json prefix = json_str json (prefix @ ''_'' @ platform_suffix p)"

definition version_url :: "string \<Rightarrow> string" where
  "version_url api_url = rev (dropWhile (\<lambda>c. c = CHR ''/'') (rev api_url)) @ ''/api/client/version''"

definition check_update :: "update_env \<Rightarrow> string \<Rightarrow> update_error + update_info option" where
  "check_update ue api_url =
     (if \<not> up_http_client ue then Inl NoHttpClient
      else case up_get_json ue (version_url api_url) of
        None \<Rightarrow> Inl NetworkError
      | Some (status, body) \<Rightarrow>
          if \<not> is_success status then Inl (ServerStatus status)
          else (case body of
              None \<Rightarrow> Inl UnreadableAnswer
            | Some json \<Rightarrow>
                let latest = json_str json ''version'' in
                if latest = [] then Inl NoVersionSet
                else if \<not> is_newer latest (up_version ue) then Inr None
                else let download_url = platform_field (up_platform ue) json ''download_url'' in
                if download_url = [] then Inl NoDownloadUrl
                else Inr (Some \<lparr>uf_version = latest, uf_download_url = download_url,
                                uf_sha256 = platform_field (up_platform ue) json ''sha256'',
                                uf_changelog = json_str json ''changelog''\<rparr>)))"

section \<open>Thread of the checks\<close>

definition INITIAL_DELAY :: nat where "INITIAL_DELAY = 30 * nanos_per_sec"
definition AUTO_CHECK_INTERVAL :: nat where "AUTO_CHECK_INTERVAL = 24 * 3600 * nanos_per_sec"
definition MIN_CHECK_INTERVAL :: nat where "MIN_CHECK_INTERVAL = 10 * 60 * nanos_per_sec"

text \<open>The outcome of \<open>recv_timeout\<close>, and the globals with the calls of the callback.\<close>

datatype update_msg = CheckUpdate | ExitUpdate

datatype channel_recv = Received update_msg | TimedOut | Disconnected

record update_state =
  us_url :: string
  us_info :: "update_info option"
  us_found :: "update_info list"

definition store_update_info :: "update_info \<Rightarrow> update_state \<Rightarrow> update_state" where
  "store_update_info info us = us\<lparr>us_url := uf_download_url info, us_info := Some info\<rparr>"

definition do_auto_check :: "update_env \<Rightarrow> string \<Rightarrow> update_state \<Rightarrow> update_state" where
  "do_auto_check ue api_url us =
     (case check_update ue api_url of
        Inr (Some info) \<Rightarrow> (store_update_info info us)\<lparr>us_found := us_found us @ [info]\<rparr>
      | _ \<Rightarrow> us)"

text \<open>
  A turn of the thread: what the channel gave, the time then, the world a check would see and the time
  when it would be done.  The result carries the times at which checks began.
\<close>

record update_turn =
  ut_recv :: channel_recv
  ut_now :: instant
  ut_env :: update_env
  ut_done :: instant

definition update_wait :: "instant \<Rightarrow> instant \<Rightarrow> nat" where
  "update_wait last_check now = AUTO_CHECK_INTERVAL - elapsed now last_check"

fun update_loop :: "string \<Rightarrow> instant \<Rightarrow> update_turn list \<Rightarrow> update_state \<Rightarrow> update_state \<times> instant list" where
  "update_loop api_url last_check [] us = (us, [])"
| "update_loop api_url last_check (u # turns) us =
     (let check = (let (us1, ts) = update_loop api_url (ut_done u) turns (do_auto_check (ut_env u) api_url us)
                   in (us1, ut_now u # ts))
      in case ut_recv u of
           Received CheckUpdate \<Rightarrow>
             if MIN_CHECK_INTERVAL \<le> elapsed (ut_now u) last_check then check
             else update_loop api_url last_check turns us
         | TimedOut \<Rightarrow> check
         | _ \<Rightarrow> (us, []))"

fun update_thread :: "string \<Rightarrow> update_turn list \<Rightarrow> update_state \<Rightarrow> update_state \<times> instant list" where
  "update_thread api_url [] us = (us, [])"
| "update_thread api_url (u # turns) us =
     (case ut_recv u of
        Received ExitUpdate \<Rightarrow> (us, [])
      | Disconnected \<Rightarrow> (us, [])
      | _ \<Rightarrow> (let (us1, ts) = update_loop api_url (ut_done u) turns (do_auto_check (ut_env u) api_url us)
              in (us1, ut_now u # ts)))"

section \<open>Download\<close>

definition path_join :: "string \<Rightarrow> string \<Rightarrow> string" where
  "path_join dir f = (if ends_with dir ''/'' then dir @ f else dir @ ''/'' @ f)"

definition get_download_path :: "update_env \<Rightarrow> string \<Rightarrow> string" where
  "get_download_path ue url = path_join (up_temp_dir ue) (last (split_on CHR ''/'' url))"

definition head_content_length :: "update_env \<Rightarrow> string \<Rightarrow> update_error + nat option" where
  "head_content_length ue url =
     (if \<not> up_http_client ue then Inl NoHttpClient
      else case up_head ue url of Some n \<Rightarrow> Inr n | None \<Rightarrow> Inl HeadFailed)"

text \<open>The loop that writes the pieces; an empty piece is the end.  \<open>n\<close> counts the writes.\<close>

fun write_pieces :: "update_env \<Rightarrow> string \<Rightarrow> nat \<Rightarrow> bytes option list \<Rightarrow> files \<Rightarrow> files \<times> (update_error + unit)" where
  "write_pieces ue dest n [] fs = (fs, Inr ())"
| "write_pieces ue dest n (None # _) fs = (fs, Inl ReadFailed)"
| "write_pieces ue dest n (Some [] # _) fs = (fs, Inr ())"
| "write_pieces ue dest n (Some b # pieces) fs =
     (if \<not> up_can_write ue n then (fs, Inl WriteFailed)
      else write_pieces ue dest (n + 1) pieces
             (fs(dest \<mapsto> (case fs dest of Some old \<Rightarrow> old | None \<Rightarrow> []) @ b)))"

definition download_to_file :: "update_env \<Rightarrow> string \<Rightarrow> string \<Rightarrow> files \<Rightarrow> files \<times> (update_error + unit)" where
  "download_to_file ue url dest fs =
     (if \<not> up_http_client ue then (fs, Inl NoHttpClient)
      else case up_get ue url of
        None \<Rightarrow> (fs, Inl DownloadFailed)
      | Some (status, _, pieces) \<Rightarrow>
          if \<not> is_success status then (fs, Inl (DownloadStatus status))
          else if \<not> up_can_create ue dest then (fs, Inl FileNotCreated)
          else write_pieces ue dest 0 pieces (fs(dest \<mapsto> [])))"

definition verify_sha256 :: "update_env \<Rightarrow> string \<Rightarrow> string \<Rightarrow> files \<Rightarrow> files \<times> (update_error + unit)" where
  "verify_sha256 ue path expected fs =
     (case fs path of
        None \<Rightarrow> (fs, Inl FileUnreadable)
      | Some data \<Rightarrow>
          let hash = up_sha256_hex ue data in
          if to_lower hash \<noteq> to_lower (trim expected) then (fs(path := None), Inl (HashMismatch expected hash))
          else (fs, Inr ()))"

section \<open>Replacement\<close>

text \<open>
  The program started in place of the running one, with the arguments added: on Windows the download,
  told what to replace; elsewhere the replaced program itself.
\<close>

datatype launched = Launched string "string list"

definition apply_platform :: "update_env \<Rightarrow> string \<Rightarrow> files \<Rightarrow> files \<times> (update_error + launched)" where
  "apply_platform ue new_binary fs =
     (case up_current_exe ue of
        None \<Rightarrow> (fs, Inl NoCurrentExe)
      | Some current \<Rightarrow>
          if up_platform ue = Windows then
            (if fs new_binary \<noteq> None \<and> up_can_exec ue then (fs, Inr (Launched new_binary [''--apply-update'', current]))
             else (fs(new_binary := None), Inl SpawnFailed))
          else
            (case fs new_binary of
               None \<Rightarrow> (fs, Inl ReplaceFailed)
             | Some data \<Rightarrow>
                 if \<not> up_can_copy ue then (fs, Inl ReplaceFailed)
                 else let fs1 = fs(current \<mapsto> data) in
                 if \<not> up_can_chmod ue then (fs1, Inl PermissionFailed)
                 else let fs2 = fs1(new_binary := None) in
                 if up_can_exec ue then (fs2, Inr (Launched current [])) else (fs2, Inl ExecFailed)))"

text \<open>The download, skipped where a file of the announced size is already there.\<close>

definition fetch_update :: "update_env \<Rightarrow> string \<Rightarrow> string \<Rightarrow> nat option \<Rightarrow> files \<Rightarrow> files \<times> (update_error + unit)" where
  "fetch_update ue url tmp remote_size fs =
     (let already_downloaded = (case (fs tmp, remote_size) of (Some data, Some s) \<Rightarrow> length data = s | _ \<Rightarrow> False)
      in if already_downloaded then (fs, Inr ()) else download_to_file ue url tmp fs)"

definition check_hash :: "update_env \<Rightarrow> string \<Rightarrow> string \<Rightarrow> files \<Rightarrow> files \<times> (update_error + unit)" where
  "check_hash ue tmp sha256 fs = (if sha256 \<noteq> [] then verify_sha256 ue tmp sha256 fs else (fs, Inr ()))"

definition download_and_apply :: "update_env \<Rightarrow> update_info \<Rightarrow> files \<Rightarrow> files \<times> (update_error + launched)" where
  "download_and_apply ue info fs =
     (let tmp = get_download_path ue (uf_download_url info) in
      case head_content_length ue (uf_download_url info) of
        Inl e \<Rightarrow> (fs, Inl e)
      | Inr remote_size \<Rightarrow>
          (case fetch_update ue (uf_download_url info) tmp remote_size fs of
             (fs1, Inl e) \<Rightarrow> (fs1, Inl e)
           | (fs1, Inr _) \<Rightarrow>
               (case check_hash ue tmp (uf_sha256 info) fs1 of
                  (fs2, Inl e) \<Rightarrow> (fs2, Inl e)
                | (fs2, Inr _) \<Rightarrow> apply_platform ue tmp fs2)))"

text \<open>
  \<open>--apply-update\<close>: on Windows the new program waits until the old one can be written, trying at the
  given times, copies itself over it and starts it; the result is the exit code.
\<close>

fun wait_writable :: "instant \<Rightarrow> (instant \<times> bool) list \<Rightarrow> bool option" where
  "wait_writable deadline [] = None"
| "wait_writable deadline ((now, writable) # tries) =
     (if deadline \<le> now then Some False else if writable then Some True else wait_writable deadline tries)"

definition apply_update_from_cli ::
  "update_env \<Rightarrow> instant \<Rightarrow> (instant \<times> bool) list \<Rightarrow> string \<Rightarrow> files \<Rightarrow> files \<times> (int \<times> launched option) option" where
  "apply_update_from_cli ue now tries old_path fs =
     (if up_platform ue \<noteq> Windows then (fs, Some (1, None))
      else case wait_writable (now + 30 * nanos_per_sec) tries of
        None \<Rightarrow> (fs, None)
      | Some False \<Rightarrow> (fs, Some (1, None))
      | Some True \<Rightarrow>
          (case up_current_exe ue of
             None \<Rightarrow> (fs, Some (1, None))
           | Some current \<Rightarrow>
               (case fs current of
                  Some data \<Rightarrow>
                    if up_can_copy ue then (fs(old_path \<mapsto> data), Some (0, Some (Launched old_path []))) else (fs, Some (1, None))
                | None \<Rightarrow> (fs, Some (1, None)))))"

section \<open>Order of versions\<close>

lemma nums_less_irrefl [simp]: "\<not> nums_less x x"
  by (induction x) auto

lemma nums_less_trans: "nums_less x y \<Longrightarrow> nums_less y z \<Longrightarrow> nums_less x z"
proof (induction x y arbitrary: z rule: nums_less.induct)
  case (2 y ys)
  then show ?case by (cases z) auto
next
  case (3 x xs y ys)
  then show ?case by (cases z) auto
qed simp

lemma nums_less_linear: "nums_less x y \<or> x = y \<or> nums_less y x"
proof (induction x y rule: nums_less.induct)
  case (1 x)
  then show ?case by (cases x) auto
qed auto

text \<open>An installed update is never offered again, and versions never cycle.\<close>

lemma is_newer_order:
  "\<not> is_newer v v" "is_newer a b \<Longrightarrow> is_newer b c \<Longrightarrow> is_newer a c" "is_newer a b \<Longrightarrow> \<not> is_newer b a"
  using nums_less_trans nums_less_irrefl unfolding is_newer_def by blast+

section \<open>Files\<close>

lemma write_pieces_others: "write_pieces ue dest n ps fs = (fs', r) \<Longrightarrow> p \<noteq> dest \<Longrightarrow> fs' p = fs p"
  by (induction ue dest n ps fs rule: write_pieces.induct) (auto split: if_splits)

lemma download_to_file_others: "download_to_file ue url dest fs = (fs', r) \<Longrightarrow> p \<noteq> dest \<Longrightarrow> fs' p = fs p"
  by (auto simp: download_to_file_def write_pieces_others split: if_splits option.splits)

definition hash_ok :: "update_env \<Rightarrow> string \<Rightarrow> bytes option \<Rightarrow> bool" where
  "hash_ok ue expected content \<longleftrightarrow>
     (case content of Some data \<Rightarrow> to_lower (up_sha256_hex ue data) = to_lower (trim expected) | None \<Rightarrow> False)"

lemma verify_sha256_ok:
  "verify_sha256 ue path expected fs = (fs', Inr u) \<Longrightarrow> fs' = fs \<and> hash_ok ue expected (fs path)"
  by (auto simp: verify_sha256_def hash_ok_def Let_def split: option.splits if_splits)

lemma verify_sha256_others: "verify_sha256 ue path expected fs = (fs', r) \<Longrightarrow> p \<noteq> path \<Longrightarrow> fs' p = fs p"
  by (auto simp: verify_sha256_def Let_def split: option.splits if_splits)

text \<open>What \<open>apply_platform\<close> writes over the program, and what it starts, is the file it is given.\<close>

lemma apply_platform_content:
  assumes "apply_platform ue new fs = (fs', r)" "up_current_exe ue = Some exe" "exe \<noteq> new"
  shows "fs' exe = fs exe \<or> fs' exe = fs new" "r = Inr (Launched p args) \<Longrightarrow> fs' p = fs new"
  using assms by (auto simp: apply_platform_def Let_def split: if_splits option.splits)

text \<open>The pieces of a download that succeeds are the file.\<close>

lemma write_pieces_content:
  "write_pieces ue dest n ps fs = (fs', Inr u) \<Longrightarrow> fs dest = Some d \<Longrightarrow>
   fs' dest = Some (d @ concat (map the (takeWhile (\<lambda>p. p \<noteq> Some []) ps)))"
  by (induction ue dest n ps fs arbitrary: d rule: write_pieces.induct) (auto split: if_splits)

text \<open>How far \<open>download_and_apply\<close> comes.\<close>

lemma download_and_apply_cases:
  assumes "download_and_apply ue info fs = (fs', r)"
  obtains (head) e where "fs' = fs" "r = Inl e"
  | (fetch) size e where "fetch_update ue (uf_download_url info) (get_download_path ue (uf_download_url info)) size fs = (fs', Inl e)"
      "r = Inl e"
  | (hash) size fs1 u e where "fetch_update ue (uf_download_url info) (get_download_path ue (uf_download_url info)) size fs = (fs1, Inr u)"
      "check_hash ue (get_download_path ue (uf_download_url info)) (uf_sha256 info) fs1 = (fs', Inl e)" "r = Inl e"
  | (replace) size fs1 u fs2 u' where "fetch_update ue (uf_download_url info) (get_download_path ue (uf_download_url info)) size fs = (fs1, Inr u)"
      "check_hash ue (get_download_path ue (uf_download_url info)) (uf_sha256 info) fs1 = (fs2, Inr u')"
      "apply_platform ue (get_download_path ue (uf_download_url info)) fs2 = (fs', r)"
  using assms unfolding download_and_apply_def Let_def
  by (auto split: sum.splits prod.splits)

section \<open>Properties\<close>


definition update_sample_env :: update_env where
  "update_sample_env =
     \<lparr>up_platform = Linux, up_version = ''1.2.0'', up_http_client = True,
      up_get_json = (\<lambda>_. None), up_head = (\<lambda>_. Some (Some 2)), up_get = (\<lambda>_. Some (200, None, [Some [7], Some [8], Some []])),
      up_sha256_hex = (\<lambda>b. if b = [7, 8] then ''ab'' else ''00''), up_temp_dir = ''/tmp'', up_current_exe = Some ''/bin/nat-client'',
      up_can_create = (\<lambda>_. True), up_can_write = (\<lambda>_. True), up_can_copy = True, up_can_chmod = True, up_can_exec = True\<rparr>"


text \<open>
  What the client is offered when the server answers with \<open>client_version\<close>: the settings the
  administrator made for its platform.
\<close>

definition platform_settings :: "platform \<Rightarrow> string \<times> string" where
  "platform_settings p =
     (case p of Windows \<Rightarrow> (''client_dl_win'', ''client_sha256_win'') | Macos \<Rightarrow> (''client_dl_mac'', ''client_sha256_mac'')
      | Linux \<Rightarrow> (''client_dl_linux'', ''client_sha256_linux''))"

definition setting_text :: "database \<Rightarrow> string \<Rightarrow> string" where
  "setting_text d key = (case get_setting key d of Some v \<Rightarrow> v | None \<Rightarrow> [])"

lemma json_str_version:
  "json_str (map_of (client_version d)) ''version'' = setting_text d ''client_latest_version''"
  "json_str (map_of (client_version d)) ''changelog'' = setting_text d ''client_changelog''"
  by (simp_all add: client_version_def json_str_def setting_text_def Let_def)

lemma platform_field_version:
  "platform_field p (map_of (client_version d)) ''download_url'' = setting_text d (fst (platform_settings p))"
  "platform_field p (map_of (client_version d)) ''sha256'' = setting_text d (snd (platform_settings p))"
  by (cases p; simp add: client_version_def platform_field_def json_str_def platform_suffix_def platform_settings_def setting_text_def Let_def)+

text \<open>
  The client and the server agree on the update.  A client that asks the server of this repository is
  offered an update exactly when the administrator's version is newer and a download for the client's
  platform is set, and then with that download, the hash set for the same platform, the version
  and the text of the changes.
\<close>

theorem update_offered:
  assumes "up_http_client ue" "up_get_json ue (version_url api_url) = Some (200, Some (map_of (client_version d)))"
  shows "check_update ue api_url = Inr (Some info) \<longleftrightarrow>
    is_newer (setting_text d ''client_latest_version'') (up_version ue) \<and> setting_text d ''client_latest_version'' \<noteq> [] \<and>
    setting_text d (fst (platform_settings (up_platform ue))) \<noteq> [] \<and>
    info = \<lparr>uf_version = setting_text d ''client_latest_version'',
            uf_download_url = setting_text d (fst (platform_settings (up_platform ue))),
            uf_sha256 = setting_text d (snd (platform_settings (up_platform ue))),
            uf_changelog = setting_text d ''client_changelog''\<rparr>"
  using assms by (auto simp: check_update_def is_success_def json_str_version platform_field_version Let_def)

definition version_db :: database where
  "version_db = set_setting ''client_dl_linux'' ''https://h/nc''
     (set_setting ''client_latest_version'' ''1.10.0'' fresh_db)"

lemma version_db_texts:
  "setting_text version_db ''client_latest_version'' = ''1.10.0''" "setting_text version_db ''client_dl_linux'' = ''https://h/nc''"
  "setting_text version_db ''client_sha256_linux'' = []" "setting_text version_db ''client_changelog'' = []"
  by (simp_all add: setting_text_def version_db_def get_setting_def set_setting_def update_conv'
      fresh_db_def migrate_settings_def default_settings_def migrate_subscriptions_def tbl_empty_def)

theorem update_offered_witness:
  "check_update (update_sample_env\<lparr>up_get_json := \<lambda>_. Some (200, Some (map_of (client_version version_db)))\<rparr>) ''https://h'' =
     Inr (Some \<lparr>uf_version = ''1.10.0'', uf_download_url = ''https://h/nc'', uf_sha256 = [], uf_changelog = []\<rparr>)"
proof -
  let ?ue = "update_sample_env\<lparr>up_get_json := \<lambda>_. Some (200, Some (map_of (client_version version_db)))\<rparr>"
  have newer: "is_newer ''1.10.0'' ''1.2.0''"
    by (simp add: is_newer_def version_nums_def parse_unsigned_def parse_nat_def is_digit_def)
  have env: "up_http_client ?ue" "up_version ?ue = ''1.2.0''" "platform_settings (up_platform ?ue) = (''client_dl_linux'', ''client_sha256_linux'')"
    "up_get_json ?ue (version_url ''https://h'') = Some (200, Some (map_of (client_version version_db)))"
    by (simp_all add: update_sample_env_def platform_settings_def)
  show ?thesis
    unfolding update_offered [OF env(1,4)] env(2,3) version_db_texts fst_conv snd_conv using newer by simp
qed

section \<open>Times of the checks\<close>

text \<open>
  Times the clock and the channel can give: they never go back, and a timeout comes after the wait.
  \<open>begin_at\<close> is when the turn started to wait.
\<close>

fun turns_timed :: "instant \<Rightarrow> instant \<Rightarrow> update_turn list \<Rightarrow> bool" where
  "turns_timed begin_at last_check [] = True"
| "turns_timed begin_at last_check (u # turns) \<longleftrightarrow>
     begin_at \<le> ut_now u \<and> ut_now u \<le> ut_done u \<and>
     (ut_recv u = TimedOut \<longrightarrow> begin_at + update_wait last_check begin_at \<le> ut_now u) \<and>
     (if ut_recv u = TimedOut \<or> MIN_CHECK_INTERVAL \<le> elapsed (ut_now u) last_check
      then turns_timed (ut_done u) (ut_done u) turns else turns_timed (ut_now u) last_check turns)"

lemma update_loop_spaced:
  "turns_timed begin_at last_check turns \<Longrightarrow> last_check \<le> begin_at \<Longrightarrow>
   successively (\<lambda>a b. a + MIN_CHECK_INTERVAL \<le> b) (last_check # snd (update_loop api_url last_check turns us))"
proof (induction turns arbitrary: begin_at last_check us)
  case (Cons u turns)
  have timeout: "last_check + MIN_CHECK_INTERVAL \<le> ut_now u" if "ut_recv u = TimedOut"
    using Cons.prems that
    by (auto simp: update_wait_def elapsed_def AUTO_CHECK_INTERVAL_def MIN_CHECK_INTERVAL_def nanos_per_sec_def)
  have due: "last_check + MIN_CHECK_INTERVAL \<le> ut_now u" if "MIN_CHECK_INTERVAL \<le> elapsed (ut_now u) last_check"
    using Cons.prems that by (auto simp: elapsed_def)
  have check: "successively (\<lambda>a b. a + MIN_CHECK_INTERVAL \<le> b)
      (last_check # ut_now u # snd (update_loop api_url (ut_done u) turns us1))"
    if "last_check + MIN_CHECK_INTERVAL \<le> ut_now u" "turns_timed (ut_done u) (ut_done u) turns" for us1
    using Cons.IH [OF that(2), of us1] that(1) Cons.prems(1)
    by (cases "snd (update_loop api_url (ut_done u) turns us1)") auto
  show ?case
    using Cons.prems Cons.IH timeout due check
    by (auto simp: Let_def case_prod_unfold split: channel_recv.splits update_msg.splits)
qed simp

text \<open>
  The server is not asked too often.  Whatever messages the thread receives, two checks for updates begin
  at least ten minutes apart: a request that comes sooner is dropped, and a timeout comes only
  when a day has passed since the last check.
\<close>

theorem update_checks_spaced:
  assumes "turns_timed (ut_done u) (ut_done u) turns" "ut_now u \<le> ut_done u"
  shows "successively (\<lambda>a b. a + MIN_CHECK_INTERVAL \<le> b) (snd (update_thread api_url (u # turns) us))"
proof -
  have "successively (\<lambda>a b. a + MIN_CHECK_INTERVAL \<le> b)
      (ut_now u # snd (update_loop api_url (ut_done u) turns us1))" for us1
    using update_loop_spaced [OF assms(1), of api_url us1] assms(2)
    by (cases "snd (update_loop api_url (ut_done u) turns us1)") auto
  then show ?thesis by (auto simp: case_prod_unfold Let_def split: channel_recv.splits update_msg.splits)
qed

definition update_sample_turn :: "channel_recv \<Rightarrow> instant \<Rightarrow> update_turn" where
  "update_sample_turn r t = \<lparr>ut_recv = r, ut_now = t, ut_env = update_sample_env, ut_done = t + 1\<rparr>"

theorem update_checks_spaced_witness:
  "let us = \<lparr>us_url = [], us_info = None, us_found = []\<rparr>;
       turns = map (\<lambda>m. update_sample_turn (Received CheckUpdate) (m * 60000000000)) [1, 2, 14]
   in snd (update_thread ''u'' (update_sample_turn TimedOut 30000000000 # turns) us) = [30000000000, 840000000000] \<and>
      successively (\<lambda>a b. a + MIN_CHECK_INTERVAL \<le> b)
        (snd (update_thread ''u'' (update_sample_turn TimedOut 30000000000 # turns) us))"
  unfolding Let_def
proof
  show "snd (update_thread ''u'' (update_sample_turn TimedOut 30000000000 #
      map (\<lambda>m. update_sample_turn (Received CheckUpdate) (m * 60000000000)) [1, 2, 14])
      \<lparr>us_url = [], us_info = None, us_found = []\<rparr>) = [30000000000, 840000000000]"
    by (simp add: update_sample_turn_def elapsed_def MIN_CHECK_INTERVAL_def nanos_per_sec_def)
  show "successively (\<lambda>a b. a + MIN_CHECK_INTERVAL \<le> b) (snd (update_thread ''u'' (update_sample_turn TimedOut 30000000000 #
      map (\<lambda>m. update_sample_turn (Received CheckUpdate) (m * 60000000000)) [1, 2, 14])
      \<lparr>us_url = [], us_info = None, us_found = []\<rparr>))"
    by (rule update_checks_spaced)
       (simp_all add: update_sample_turn_def elapsed_def MIN_CHECK_INTERVAL_def nanos_per_sec_def)
qed

end
