(* ===== verification/Client_Kcp.thy ===== *)
theory Client_Kcp
  imports Client_Mediator
begin

text \<open>
  The UDP tunnel of the client, \<open>nat-client/src/kcp_tunnel.rs\<close>: the public port as the rendezvous server sees it,
  the handshake of the two sides, and the loop that drives the KCP library between the
  socket and the application.
\<close>

section \<open>Public port\<close>

text \<open>
  \<open>query_udp_public_port\<close>: three tries, each with the success of the sending and the datagram received within the half
  second, if any, of which 1024 bytes are read.  A datagram that is not a message ends the query; another message
  costs a try.
\<close>

definition test_nat_msg :: rendezvous_message where
  "test_nat_msg = Some (TestNatRequest \<lparr>tnq_serial = 0\<rparr>)"

fun query_tries :: "wire \<Rightarrow> (bool \<times> bytes option) list \<Rightarrow> u16 option" where
  "query_tries w [] = None"
| "query_tries w ((sent, received) # tries) =
     (if \<not> sent then None
      else (case received of
          None \<Rightarrow> query_tries w tries
        | Some datagram \<Rightarrow>
            (case w_parse_from_bytes w (take 1024 datagram) of
               None \<Rightarrow> None
             | Some (Some (TestNatResponse r)) \<Rightarrow> Some (ucast (tnr_port r))
             | Some _ \<Rightarrow> query_tries w tries)))"

definition query_udp_public_port :: "wire \<Rightarrow> (bool \<times> bytes option) list \<Rightarrow> u16 option" where
  "query_udp_public_port w tries =
     (case w_write_to_bytes w test_nat_msg of Some _ \<Rightarrow> query_tries w (take 3 tries) | None \<Rightarrow> None)"

section \<open>Handshake\<close>

definition CONNECT_MAGIC :: bytes where "CONNECT_MAGIC = 1 # map of_char ''KCP_CONNECT''"
definition ACCEPT_MAGIC :: bytes where "ACCEPT_MAGIC = 1 # map of_char ''KCP_ACCEPT''"
definition PUNCH_MARKER :: bytes where "PUNCH_MARKER = 0 # map of_char ''PUNCH''"
definition HANDSHAKE_TIMEOUT :: nat where "HANDSHAKE_TIMEOUT = 1500000000"

text \<open>The datagrams of \<open>send_udp_probes\<close>.\<close>

definition send_udp_probes :: "socket_addr \<Rightarrow> (bytes \<times> socket_addr) list" where
  "send_udp_probes peer = replicate 10 (PUNCH_MARKER, peer)"

text \<open>
  The turns of a handshake: the time at which the deadline is looked at, and the datagram received in the turn, of
  which 256 bytes are read.  The result: the datagrams sent, and whether the tunnel was made; \<open>None\<close> while it goes on.
\<close>

type_synonym hand_turn = "instant \<times> (bytes \<times> socket_addr) option"

definition hears_magic :: "bytes \<Rightarrow> socket_addr \<Rightarrow> (bytes \<times> socket_addr) option \<Rightarrow> bool" where
  "hears_magic magic peer received \<longleftrightarrow>
     (case received of Some (datagram, src) \<Rightarrow> src = peer \<and> take 256 datagram = magic | None \<Rightarrow> False)"

fun kcp_connect :: "socket_addr \<Rightarrow> instant \<Rightarrow> hand_turn list \<Rightarrow> bytes list \<times> bool option" where
  "kcp_connect peer deadline [] = ([], None)"
| "kcp_connect peer deadline ((now, received) # turns) =
     (if deadline < now then ([], Some False)
      else if hears_magic ACCEPT_MAGIC peer received then ([CONNECT_MAGIC], Some True)
      else (let (out, r) = kcp_connect peer deadline turns in (CONNECT_MAGIC # out, r)))"

fun kcp_accept :: "socket_addr \<Rightarrow> instant \<Rightarrow> hand_turn list \<Rightarrow> bytes list \<times> bool option" where
  "kcp_accept peer deadline [] = ([], None)"
| "kcp_accept peer deadline ((now, received) # turns) =
     (if deadline < now then ([], Some False)
      else if hears_magic CONNECT_MAGIC peer received then ([ACCEPT_MAGIC], Some True)
      else kcp_accept peer deadline turns)"

section \<open>Driver\<close>

text \<open>
  The KCP library: an operation on its state, with the datagrams it writes to its output; \<open>kl_recv\<close> takes the
  next piece of data that has arrived in full.
\<close>

record 'k kcp_lib =
  kl_update :: "u32 \<Rightarrow> 'k \<Rightarrow> 'k \<times> bytes list"
  kl_input :: "bytes \<Rightarrow> 'k \<Rightarrow> 'k \<times> bytes list"
  kl_send :: "bytes \<Rightarrow> 'k \<Rightarrow> 'k \<times> bytes list"
  kl_recv :: "'k \<Rightarrow> (bytes \<times> 'k) option"

text \<open>The loop that takes all data; it ends when the library has no more.\<close>

partial_function (option) recv_all :: "'k kcp_lib \<Rightarrow> 'k \<Rightarrow> (bytes list \<times> 'k) option" where
  "recv_all l k =
     (case kl_recv l k of
        None \<Rightarrow> Some ([], k)
      | Some (d, k1) \<Rightarrow> Option.bind (recv_all l k1) (\<lambda>(ds, k2). Some (d # ds, k2)))"

datatype kcp_event =
    KcpTick u32
  | KcpPacket socket_addr bytes u32
  | KcpAppData bytes u32
  | KcpAppClosed

text \<open>A turn: the new state (none when the loop has returned), the datagrams to the peer, the data to the application.\<close>

definition kcp_driver_turn ::
    "'k kcp_lib \<Rightarrow> socket_addr \<Rightarrow> kcp_event \<Rightarrow> 'k \<Rightarrow> ('k option \<times> bytes list \<times> bytes list) option" where
  "kcp_driver_turn l peer ev k =
     (case ev of
        KcpTick now \<Rightarrow> (let (k1, out) = kl_update l now k in Some (Some k1, out, []))
      | KcpPacket src pkt now \<Rightarrow>
          if src \<noteq> peer then Some (Some k, [], [])
          else if starts_with pkt [0] then Some (Some k, [], [])
          else (let (k1, out1) = kl_input l pkt k; (k2, out2) = kl_update l now k1
                in case recv_all l k2 of
                     Some (collected, k3) \<Rightarrow> Some (Some k3, out1 @ out2, collected)
                   | None \<Rightarrow> None)
      | KcpAppData d now \<Rightarrow>
          (let (k1, out1) = kl_send l d k; (k2, out2) = kl_update l now k1 in Some (Some k2, out1 @ out2, []))
      | KcpAppClosed \<Rightarrow> Some (None, [], []))"

fun kcp_driver :: "'k kcp_lib \<Rightarrow> socket_addr \<Rightarrow> kcp_event list \<Rightarrow> 'k \<Rightarrow> ('k option \<times> bytes list \<times> bytes list) option" where
  "kcp_driver l peer [] k = Some (Some k, [], [])"
| "kcp_driver l peer (ev # evs) k =
     (case kcp_driver_turn l peer ev k of
        None \<Rightarrow> None
      | Some (None, out, app) \<Rightarrow> Some (None, out, app)
      | Some (Some k1, out, app) \<Rightarrow>
          (case kcp_driver l peer evs k1 of
             None \<Rightarrow> None
           | Some (r, out', app') \<Rightarrow> Some (r, out @ out', app @ app')))"

section \<open>Lemmas on the driver\<close>

text \<open>The loop that takes data ends with a library whose queue shrinks at every piece.\<close>

lemma recv_all_returns:
  assumes "\<And>k d k1. kl_recv l k = Some (d, k1) \<Longrightarrow> queue k1 < (queue k :: nat)"
  shows "recv_all l k \<noteq> None"
proof (induction "queue k" arbitrary: k rule: less_induct)
  case less
  show ?case
  proof (cases "kl_recv l k")
    case None
    then show ?thesis by (simp add: recv_all.simps)
  next
    case (Some x)
    then obtain d k1 where x: "x = (d, k1)" "kl_recv l k = Some (d, k1)" by (cases x) auto
    then have "recv_all l k1 \<noteq> None" using less assms by blast
    then show ?thesis using x by (subst recv_all.simps) auto
  qed
qed

lemma kcp_driver_turn_returns:
  assumes "\<And>k. recv_all l k \<noteq> None"
  shows "kcp_driver_turn l peer ev k \<noteq> None"
  using assms
  by (cases ev) (simp_all add: kcp_driver_turn_def Let_def case_prod_unfold split: option.split, metis option.distinct(1))

lemma kcp_driver_returns:
  assumes "\<And>k d k1. kl_recv l k = Some (d, k1) \<Longrightarrow> queue k1 < (queue k :: nat)"
  shows "kcp_driver l peer evs k \<noteq> None"
proof (induction evs arbitrary: k)
  case (Cons ev evs)
  have "kcp_driver_turn l peer ev k \<noteq> None"
    using recv_all_returns [of l queue, OF assms] by (rule kcp_driver_turn_returns)
  then obtain k' out app where t: "kcp_driver_turn l peer ev k = Some (k', out, app)" by auto
  show ?case
  proof (cases k')
    case (Some k1)
    then show ?thesis using t Cons.IH [of k1] by auto
  qed (use t in simp)
qed simp

text \<open>A probe, or a datagram of another address.\<close>

fun kcp_noise :: "socket_addr \<Rightarrow> kcp_event \<Rightarrow> bool" where
  "kcp_noise peer (KcpPacket src pkt now) \<longleftrightarrow> src \<noteq> peer \<or> starts_with pkt [0]"
| "kcp_noise peer _ \<longleftrightarrow> False"

lemma kcp_noise_turn: "kcp_noise peer ev \<Longrightarrow> kcp_driver_turn l peer ev k = Some (Some k, [], [])"
  by (cases ev) (auto simp: kcp_driver_turn_def)

text \<open>Strangers and late probes do not disturb a tunnel.\<close>

lemma kcp_driver_noise: "kcp_driver l peer evs k = kcp_driver l peer (filter (\<lambda>e. \<not> kcp_noise peer e) evs) k"
proof (induction evs arbitrary: k)
  case (Cons ev evs)
  then show ?case
    by (cases "kcp_noise peer ev") (auto simp: kcp_noise_turn split: option.splits)
qed simp

section \<open>Both sides of the handshake\<close>

text \<open>
  The datagrams on their way in each direction, with the magic words and the probes among them, and how far each side is.
  A step is a turn of one side, with a datagram of the other side, one of a third address or none, or the
  loss of a datagram.
\<close>

record hand_state =
  hs_to_acceptor :: "bytes list"
  hs_to_connector :: "bytes list"
  hs_connector :: "bool option"
  hs_acceptor :: "bool option"

definition hand_start :: hand_state where
  "hand_start = \<lparr>hs_to_acceptor = map fst (send_udp_probes (V4 (Ipv4Addr 0 0 0 0) 0)),
     hs_to_connector = map fst (send_udp_probes (V4 (Ipv4Addr 0 0 0 0) 0)), hs_connector = None, hs_acceptor = None\<rparr>"

text \<open>What a side may receive, with what is then left on the way.\<close>

inductive may_receive :: "socket_addr \<Rightarrow> bytes list \<Rightarrow> (bytes \<times> socket_addr) option \<Rightarrow> bytes list \<Rightarrow> bool" where
  nothing: "may_receive peer net None net"
| stranger: "src \<noteq> peer \<Longrightarrow> may_receive peer net (Some (d, src)) net"
| from_peer: "d \<in> set net \<Longrightarrow> may_receive peer net (Some (d, peer)) (remove1 d net)"

inductive hand_step :: "socket_addr \<Rightarrow> socket_addr \<Rightarrow> instant \<Rightarrow> instant \<Rightarrow> hand_state \<Rightarrow> hand_state \<Rightarrow> bool" where
  connector_turn: "hs_connector s = None \<Longrightarrow> may_receive acc (hs_to_connector s) r net \<Longrightarrow>
     kcp_connect acc dc [(now, r)] = (out, res) \<Longrightarrow>
     hand_step con acc dc da s (s\<lparr>hs_to_connector := net, hs_to_acceptor := hs_to_acceptor s @ out, hs_connector := res\<rparr>)"
| acceptor_turn: "hs_acceptor s = None \<Longrightarrow> may_receive con (hs_to_acceptor s) r net \<Longrightarrow>
     kcp_accept con da [(now, r)] = (out, res) \<Longrightarrow>
     hand_step con acc dc da s (s\<lparr>hs_to_acceptor := net, hs_to_connector := hs_to_connector s @ out, hs_acceptor := res\<rparr>)"
| lose_to_acceptor: "hand_step con acc dc da s (s\<lparr>hs_to_acceptor := remove1 d (hs_to_acceptor s)\<rparr>)"
| lose_to_connector: "hand_step con acc dc da s (s\<lparr>hs_to_connector := remove1 d (hs_to_connector s)\<rparr>)"

inductive hand_reachable :: "socket_addr \<Rightarrow> socket_addr \<Rightarrow> instant \<Rightarrow> instant \<Rightarrow> hand_state \<Rightarrow> bool" for con acc dc da where
  hand_init: "hand_reachable con acc dc da hand_start"
| hand_next: "hand_reachable con acc dc da s \<Longrightarrow> hand_step con acc dc da s s' \<Longrightarrow> hand_reachable con acc dc da s'"

lemma magic_distinct:
  "length ACCEPT_MAGIC = 11" "length CONNECT_MAGIC = 12" "hd PUNCH_MARKER = 0" "hd ACCEPT_MAGIC = 1" "hd CONNECT_MAGIC = 1"
  by (simp_all add: ACCEPT_MAGIC_def CONNECT_MAGIC_def PUNCH_MARKER_def)

lemma magic_neq: "PUNCH_MARKER \<noteq> ACCEPT_MAGIC" "CONNECT_MAGIC \<noteq> ACCEPT_MAGIC"
  by (metis magic_distinct(3,4) zero_neq_one, simp add: ACCEPT_MAGIC_def CONNECT_MAGIC_def)

lemma kcp_connect_turn:
  "kcp_connect peer dl [(now, r)] = (out, res) \<Longrightarrow>
   set out \<subseteq> {CONNECT_MAGIC} \<and> (res = Some True \<longrightarrow> hears_magic ACCEPT_MAGIC peer r)"
  by (auto split: if_splits)

lemma kcp_accept_turn:
  "kcp_accept peer dl [(now, r)] = (out, res) \<Longrightarrow> out = (if res = Some True then [ACCEPT_MAGIC] else [])"
  by (auto split: if_splits)

text \<open>Only the three kinds of datagrams travel, and the word of acceptance only once the acceptor is done.\<close>

definition hand_inv :: "hand_state \<Rightarrow> bool" where
  "hand_inv s \<longleftrightarrow>
     set (hs_to_connector s) \<subseteq> {PUNCH_MARKER, ACCEPT_MAGIC} \<and>
     (ACCEPT_MAGIC \<in> set (hs_to_connector s) \<or> hs_connector s = Some True \<longrightarrow> hs_acceptor s = Some True)"

lemma may_receive_net: "may_receive peer net r net' \<Longrightarrow> set net' \<subseteq> set net"
  by (induction rule: may_receive.induct) (use set_remove1_subset in force)+

lemma may_receive_magic:
  assumes "may_receive peer net r net'" "hears_magic ACCEPT_MAGIC peer r" "set net \<subseteq> {PUNCH_MARKER, ACCEPT_MAGIC}"
  shows "ACCEPT_MAGIC \<in> set net"
proof -
  have "take 256 PUNCH_MARKER = PUNCH_MARKER" by (simp add: PUNCH_MARKER_def)
  with assms(1) show ?thesis
    by cases (use assms(2,3) magic_neq in \<open>auto simp: hears_magic_def\<close>)
qed

lemma hand_step_inv: "hand_step con acc dc da s s' \<Longrightarrow> hand_inv s \<Longrightarrow> hand_inv s'"
proof (induction rule: hand_step.induct)
  case (connector_turn s acc r net dc now out res con da)
  then show ?case
    using may_receive_net [OF connector_turn(2)] kcp_connect_turn [OF connector_turn(3)] may_receive_magic [OF connector_turn(2)]
    by (auto simp: hand_inv_def)
next
  case (acceptor_turn s con r net da now out res acc dc)
  then show ?case using kcp_accept_turn [OF acceptor_turn(3)] by (auto simp: hand_inv_def)
next
  case (lose_to_connector con acc dc da s d)
  then show ?case using set_remove1_subset [of d "hs_to_connector s"] by (auto simp: hand_inv_def)
qed (simp add: hand_inv_def)

lemma hand_start_inv: "hand_inv hand_start"
  using magic_neq by (simp add: hand_inv_def hand_start_def send_udp_probes_def)

lemma hand_reachable_inv: "hand_reachable con acc dc da s \<Longrightarrow> hand_inv s"
  by (induction rule: hand_reachable.induct) (auto simp: hand_start_inv intro: hand_step_inv)


lemma magic_take: "take 256 ACCEPT_MAGIC = ACCEPT_MAGIC" "take 256 CONNECT_MAGIC = CONNECT_MAGIC"
  by (simp_all add: magic_distinct)

text \<open>The first two turns: the connector asks, and the acceptor hears it.\<close>

definition hand_accepted :: hand_state where
  "hand_accepted = hand_start\<lparr>hs_to_connector := hs_to_connector hand_start @ [ACCEPT_MAGIC], hs_acceptor := Some True\<rparr>"

lemma hand_accepted_reachable: "hand_reachable con acc dc da hand_accepted"
proof -
  let ?s1 = "hand_start\<lparr>hs_to_acceptor := hs_to_acceptor hand_start @ [CONNECT_MAGIC]\<rparr>"
  have "hand_step con acc dc da hand_start
      (hand_start\<lparr>hs_to_connector := hs_to_connector hand_start, hs_to_acceptor := hs_to_acceptor hand_start @ [CONNECT_MAGIC], hs_connector := None\<rparr>)"
    by (rule connector_turn [of _ _ None _ _ 0]) (simp_all add: hand_start_def may_receive.nothing hears_magic_def)
  moreover have "hand_start\<lparr>hs_to_connector := hs_to_connector hand_start, hs_to_acceptor := hs_to_acceptor hand_start @ [CONNECT_MAGIC],
      hs_connector := None\<rparr> = ?s1"
    by (simp add: hand_start_def)
  ultimately have s1: "hand_reachable con acc dc da ?s1" using hand_init hand_next by metis
  have gone: "remove1 CONNECT_MAGIC (hs_to_acceptor hand_start @ [CONNECT_MAGIC]) = hs_to_acceptor hand_start"
    using magic_distinct by (simp add: hand_start_def send_udp_probes_def remove1_append) (metis zero_neq_one)
  have "hand_step con acc dc da ?s1
      (?s1\<lparr>hs_to_acceptor := remove1 CONNECT_MAGIC (hs_to_acceptor ?s1), hs_to_connector := hs_to_connector ?s1 @ [ACCEPT_MAGIC], hs_acceptor := Some True\<rparr>)"
    by (rule acceptor_turn [of _ _ "Some (CONNECT_MAGIC, con)" _ _ 0])
       (simp_all add: may_receive.from_peer hears_magic_def magic_take, simp add: hand_start_def)
  moreover have "?s1\<lparr>hs_to_acceptor := remove1 CONNECT_MAGIC (hs_to_acceptor ?s1), hs_to_connector := hs_to_connector ?s1 @ [ACCEPT_MAGIC],
      hs_acceptor := Some True\<rparr> = hand_accepted"
    using gone by (simp add: hand_accepted_def hand_start_def)
  ultimately show ?thesis using s1 hand_next by metis
qed


text \<open>
  The converse fails: the acceptor answers once, so that with the loss of its answer it holds a tunnel to a side
  that has given up.
\<close>

lemma kcp_half_open: "\<exists>s. hand_reachable con acc dc da s \<and> hs_acceptor s = Some True \<and> hs_connector s = Some False"
proof -
  let ?s = "hand_accepted\<lparr>hs_to_connector := hs_to_connector hand_accepted, hs_to_acceptor := hs_to_acceptor hand_accepted @ [], hs_connector := Some False\<rparr>"
  have "hand_step con acc dc da hand_accepted ?s"
    by (rule connector_turn [of _ _ None _ _ "dc + 1"])
       (simp_all add: may_receive.nothing, simp add: hand_accepted_def hand_start_def)
  then have "hand_reachable con acc dc da ?s" using hand_accepted_reachable hand_next by metis
  moreover have "hs_acceptor ?s = Some True" "hs_connector ?s = Some False" by (simp_all add: hand_accepted_def)
  ultimately show ?thesis by blast
qed

end
