(* ===== verification/Client_Ipc.thy ===== *)
theory Client_Ipc
  imports Client_Auth Client_Bridge Client_Lan Service_Scan
begin

text \<open>
  The control interface of the client, \<open>nat-client/src/ipc.rs\<close>: lines of JSON on a local connection,
  each a command on the settings, the accounts, the tunnels, the discovery and the scan, and each
  answered by a line.
\<close>

section \<open>Requests and answers\<close>

record ipc_request =
  iq_cmd :: string
  iq_peer_id :: string
  iq_local_port :: u16
  iq_uuid :: string
  iq_rule_name :: string
  iq_rule_id :: string
  iq_target_host :: string
  iq_target_port :: u16
  iq_peer_id_filter :: string
  iq_username :: string
  iq_password :: string
  iq_email :: string
  iq_device_name :: string
  iq_old_password :: string
  iq_new_password :: string
  iq_device_id :: string
  iq_exit_peer :: string
  iq_port :: u16
  iq_all :: bool

datatype ipc_error =
    InvalidJson | EmptyPeerId | ConnectFailed connect_error | CannotBind u16 | EmptyUuid | NoSuchConnection string
  | EmptyCredentials | CannotLogin auth_error | EmptyRegistration | CannotRegister auth_error | EmptyPasswords
  | AuthFailed auth_error | EmptyDeviceId | EmptyRule | EmptyRuleId | UnknownCommand string

record proxy_status =
  ps_socks5_enabled :: bool
  ps_socks5_port :: u16
  ps_exit_peer :: string
  ps_http_enabled :: bool
  ps_http_port :: u16

record ipc_response =
  ir_ok :: "bool option"
  ir_error :: "ipc_error option"
  ir_id :: "string option"
  ir_online :: "bool option"
  ir_nat_type :: "int option"
  ir_peers :: "discovered_peer list option"
  ir_connections :: "active_conn list option"
  ir_local_port :: "u16 option"
  ir_pong :: "bool option"
  ir_auth :: "auth_status option"
  ir_devices :: "device_info list option"
  ir_user :: "user_info option"
  ir_subscription :: "subscription_summary option"
  ir_rules :: "forward_rule list option"
  ir_services :: "service_info list option"
  ir_proxy :: "proxy_status option"

definition ipc_default :: ipc_response where
  "ipc_default =
     \<lparr>ir_ok = None, ir_error = None, ir_id = None, ir_online = None, ir_nat_type = None, ir_peers = None,
      ir_connections = None, ir_local_port = None, ir_pong = None, ir_auth = None, ir_devices = None, ir_user = None,
      ir_subscription = None, ir_rules = None, ir_services = None, ir_proxy = None\<rparr>"

definition ipc_ok :: ipc_response where "ipc_ok = ipc_default\<lparr>ir_ok := Some True\<rparr>"

definition ipc_err :: "ipc_error \<Rightarrow> ipc_response" where "ipc_err e = ipc_default\<lparr>ir_error := Some e\<rparr>"

section \<open>World\<close>

text \<open>The globals of the client that commands use, with the state of the server behind its accounts.\<close>

record 'srv ipc_state =
  is_client :: client_state
  is_conns :: conn_table
  is_peers :: discovered_peers
  is_srv :: 'srv

text \<open>
  What a command meets: the environments of the components; for \<open>discover\<close> the turns of its threads and
  their order; for \<open>connect\<close> the answer of the rendezvous server and the port the system binds
  (the requested one, or a free one for 0); the id of a new rule; the platform.
\<close>

record 'srv ipc_env =
  ie_med :: med_env
  ie_auth :: auth_env
  ie_api :: "'srv auth_api"
  ie_lan :: lan_env
  ie_now :: instant
  ie_threads :: "(instant \<times> lan_turn list) list"
  ie_merged :: "discovered_peer list list \<Rightarrow> discovered_peer list"
  ie_answer :: "rendezvous_message option"
  ie_bind :: "u16 \<Rightarrow> u16 option"
  ie_rule_id :: string
  ie_os :: target_os
  ie_scan :: scan_env

definition ie_client :: "'srv ipc_env \<Rightarrow> client_env" where
  "ie_client ie = me_client (ie_med ie)"

definition is_store :: "'srv ipc_state \<Rightarrow> client_store" where
  "is_store s = cs_store (is_client s)"

definition with_store :: "client_store \<Rightarrow> 'srv ipc_state \<Rightarrow> 'srv ipc_state" where
  "with_store st s = s\<lparr>is_client := (is_client s)\<lparr>cs_store := st\<rparr>\<rparr>"

definition ipc_restart :: "'srv ipc_state \<Rightarrow> 'srv ipc_state" where
  "ipc_restart s = s\<lparr>is_client := mediator_restart (is_client s)\<rparr>"

section \<open>Commands\<close>

definition ipc_discover :: "'srv ipc_env \<Rightarrow> 'srv ipc_state \<Rightarrow> 'srv ipc_state \<times> ipc_response" where
  "ipc_discover ie s =
     (case lan_discover (ie_lan ie) (is_store s) (ie_threads ie) (ie_merged ie) (ie_now ie) (is_peers s) of
        (_, m, peers) \<Rightarrow> (s\<lparr>is_peers := m\<rparr>, ipc_default\<lparr>ir_peers := Some peers\<rparr>))"

definition ipc_connect :: "'srv ipc_env \<Rightarrow> ipc_request \<Rightarrow> 'srv ipc_state \<Rightarrow> 'srv ipc_state \<times> ipc_response" where
  "ipc_connect ie q s =
     (if iq_peer_id q = [] then (s, ipc_err EmptyPeerId)
      else (case connect_to_peer (ie_med ie) (is_store s) (iq_peer_id q) (ie_answer ie) of
          (_, Inl e) \<Rightarrow> (s, ipc_err (ConnectFailed e))
        | (_, Inr _) \<Rightarrow>
            (case ie_bind ie (iq_local_port q) of
               Some port \<Rightarrow> (s, ipc_default\<lparr>ir_local_port := Some port\<rparr>)
             | None \<Rightarrow> (s, ipc_err (CannotBind (iq_local_port q))))))"

definition ipc_close_conn :: "ipc_request \<Rightarrow> 'srv ipc_state \<Rightarrow> 'srv ipc_state \<times> ipc_response" where
  "ipc_close_conn q s =
     (if iq_uuid q = [] then (s, ipc_err EmptyUuid)
      else (case find (\<lambda>c. ac_uuid c = iq_uuid q) (get_active_connections (is_conns s)) of
          Some conn \<Rightarrow> (s\<lparr>is_conns := fst (conn_close conn (is_conns s))\<rparr>, ipc_ok)
        | None \<Rightarrow> (s, ipc_err (NoSuchConnection (iq_uuid q)))))"

definition opt_text :: "string \<Rightarrow> string option" where
  "opt_text x = (if x = [] then None else Some x)"

definition ipc_login :: "'srv ipc_env \<Rightarrow> ipc_request \<Rightarrow> 'srv ipc_state \<Rightarrow> 'srv ipc_state \<times> ipc_response" where
  "ipc_login ie q s =
     (if iq_username q = [] \<or> iq_password q = [] then (s, ipc_err EmptyCredentials)
      else (case client_login (ie_auth ie) (ie_api ie) (iq_username q) (iq_password q) (opt_text (iq_device_name q)) (is_store s) (is_srv s) of
          (st, srv, Inr status) \<Rightarrow> (ipc_restart (with_store st (s\<lparr>is_srv := srv\<rparr>)), ipc_default\<lparr>ir_auth := Some status\<rparr>)
        | (st, srv, Inl e) \<Rightarrow> (with_store st (s\<lparr>is_srv := srv\<rparr>), ipc_err (CannotLogin e))))"

definition ipc_register :: "'srv ipc_env \<Rightarrow> ipc_request \<Rightarrow> 'srv ipc_state \<Rightarrow> 'srv ipc_state \<times> ipc_response" where
  "ipc_register ie q s =
     (if iq_username q = [] \<or> iq_email q = [] \<or> iq_password q = [] then (s, ipc_err EmptyRegistration)
      else (case client_register (ie_auth ie) (ie_api ie) (iq_username q) (iq_email q) (iq_password q) (opt_text (iq_device_name q))
                   (is_store s) (is_srv s) of
          (st, srv, Inr status) \<Rightarrow> (ipc_restart (with_store st (s\<lparr>is_srv := srv\<rparr>)), ipc_default\<lparr>ir_auth := Some status\<rparr>)
        | (st, srv, Inl e) \<Rightarrow> (with_store st (s\<lparr>is_srv := srv\<rparr>), ipc_err (CannotRegister e))))"

definition ipc_logout :: "'srv ipc_env \<Rightarrow> 'srv ipc_state \<Rightarrow> 'srv ipc_state \<times> ipc_response" where
  "ipc_logout ie s = (ipc_restart (with_store (client_logout (ie_auth ie) (is_store s)) s), ipc_ok)"

definition ipc_change_password :: "'srv ipc_env \<Rightarrow> ipc_request \<Rightarrow> 'srv ipc_state \<Rightarrow> 'srv ipc_state \<times> ipc_response" where
  "ipc_change_password ie q s =
     (if iq_old_password q = [] \<or> iq_new_password q = [] then (s, ipc_err EmptyPasswords)
      else (case client_change_password (ie_auth ie) (ie_api ie) (iq_old_password q) (iq_new_password q) (is_store s) (is_srv s) of
          (st, srv, Inr _) \<Rightarrow> (with_store st (s\<lparr>is_srv := srv\<rparr>), ipc_ok)
        | (st, srv, Inl e) \<Rightarrow> (with_store st (s\<lparr>is_srv := srv\<rparr>), ipc_err (AuthFailed e))))"

definition ipc_remove_device :: "'srv ipc_env \<Rightarrow> ipc_request \<Rightarrow> 'srv ipc_state \<Rightarrow> 'srv ipc_state \<times> ipc_response" where
  "ipc_remove_device ie q s =
     (if iq_device_id q = [] then (s, ipc_err EmptyDeviceId)
      else (case client_remove_device (ie_auth ie) (ie_api ie) (iq_device_id q) (is_store s) (is_srv s) of
          (srv, Inr _) \<Rightarrow> (s\<lparr>is_srv := srv\<rparr>, ipc_ok)
        | (srv, Inl e) \<Rightarrow> (s\<lparr>is_srv := srv\<rparr>, ipc_err (AuthFailed e))))"

text \<open>The three commands that only ask the server.\<close>

definition ipc_query :: "('a \<Rightarrow> ipc_response) \<Rightarrow> auth_error + 'a \<Rightarrow> ipc_response" where
  "ipc_query f r = (case r of Inr x \<Rightarrow> f x | Inl e \<Rightarrow> ipc_err (AuthFailed e))"

definition ipc_rule :: "'srv ipc_env \<Rightarrow> ipc_request \<Rightarrow> forward_rule" where
  "ipc_rule ie q =
     (let rule = forward_rule_new (ie_rule_id ie) (iq_rule_name q) (iq_target_port q);
          rule1 = (if iq_target_host q \<noteq> [] then rule\<lparr>fr_target_host := iq_target_host q\<rparr> else rule)
      in if iq_peer_id_filter q \<noteq> [] then rule1\<lparr>fr_peer_id := iq_peer_id_filter q\<rparr> else rule1)"

definition ipc_add_rule :: "'srv ipc_env \<Rightarrow> ipc_request \<Rightarrow> 'srv ipc_state \<Rightarrow> 'srv ipc_state \<times> ipc_response" where
  "ipc_add_rule ie q s =
     (if iq_rule_name q = [] \<or> iq_target_port q = 0 then (s, ipc_err EmptyRule)
      else let st = add_rule (ie_client ie) (ipc_rule ie q) (is_store s)
           in (with_store st s, ipc_ok\<lparr>ir_rules := Some (get_rules st)\<rparr>))"

definition ipc_remove_rule :: "'srv ipc_env \<Rightarrow> ipc_request \<Rightarrow> 'srv ipc_state \<Rightarrow> 'srv ipc_state \<times> ipc_response" where
  "ipc_remove_rule ie q s =
     (if iq_rule_id q = [] then (s, ipc_err EmptyRuleId)
      else (with_store (remove_rule (ie_client ie) (iq_rule_id q) (is_store s)) s, ipc_ok))"

definition proxy_status_of :: "client_store \<Rightarrow> proxy_status" where
  "proxy_status_of st =
     (case (get_socks5_config st, get_http_proxy_config st) of
        ((en, port, peer), (hen, hport)) \<Rightarrow>
          \<lparr>ps_socks5_enabled = en, ps_socks5_port = port, ps_exit_peer = peer, ps_http_enabled = hen, ps_http_port = hport\<rparr>)"

definition set_exit_peer :: "string \<Rightarrow> client_config \<Rightarrow> client_config" where
  "set_exit_peer p c = (if p \<noteq> [] then c\<lparr>cc_socks5_exit_peer := p\<rparr> else c)"

definition proxy_save :: "ipc_request \<Rightarrow> client_config \<Rightarrow> client_config" where
  "proxy_save q c = set_exit_peer (iq_exit_peer q) (c\<lparr>cc_socks5_port := (if iq_port q = 0 then 1080 else iq_port q)\<rparr>)"

definition proxy_enable :: "ipc_request \<Rightarrow> client_config \<Rightarrow> client_config" where
  "proxy_enable q c =
     (let c1 = set_exit_peer (iq_exit_peer q) (c\<lparr>cc_socks5_enabled := True\<rparr>)
      in if iq_port q \<noteq> 0 then c1\<lparr>cc_socks5_port := iq_port q\<rparr> else c1)"

definition proxy_disable :: "client_config \<Rightarrow> client_config" where
  "proxy_disable c = c\<lparr>cc_socks5_enabled := False\<rparr>"

definition ipc_update :: "'srv ipc_env \<Rightarrow> (client_config \<Rightarrow> client_config) \<Rightarrow> 'srv ipc_state \<Rightarrow> 'srv ipc_state \<times> ipc_response" where
  "ipc_update ie f s = (with_store (config_update (ie_client ie) f (is_store s)) s, ipc_ok)"

section \<open>Dispatch\<close>

definition dispatch :: "'srv ipc_env \<Rightarrow> ipc_request \<Rightarrow> 'srv ipc_state \<Rightarrow> 'srv ipc_state \<times> ipc_response" where
  "dispatch ie q s =
     (let cmd = iq_cmd q; st = is_store s; cs = is_client s in
      if cmd = ''ping'' then (s, ipc_default\<lparr>ir_pong := Some True\<rparr>)
      else if cmd = ''get_id'' then (s, ipc_default\<lparr>ir_id := Some (get_id st)\<rparr>)
      else if cmd = ''get_status'' then (s, ipc_default\<lparr>ir_online := Some (cs_online cs), ir_nat_type := Some (get_nat_type st)\<rparr>)
      else if cmd = ''get_peers'' then (s, ipc_default\<lparr>ir_peers := Some (lan_get_peers (ie_now ie) (is_peers s))\<rparr>)
      else if cmd = ''discover'' then ipc_discover ie s
      else if cmd = ''get_connections'' then (s, ipc_default\<lparr>ir_connections := Some (get_active_connections (is_conns s))\<rparr>)
      else if cmd = ''restart_mediator'' then (ipc_restart s, ipc_ok)
      else if cmd = ''connect'' then ipc_connect ie q s
      else if cmd = ''close_conn'' then ipc_close_conn q s
      else if cmd = ''get_config'' then
        (s, ipc_ok\<lparr>ir_id := Some (get_id st), ir_online := Some (cs_online cs), ir_nat_type := Some (get_nat_type st)\<rparr>)
      else if cmd = ''auth_status'' then (s, ipc_default\<lparr>ir_auth := Some (auth_status_of (au_now (ie_auth ie)) st)\<rparr>)
      else if cmd = ''auth_login'' then ipc_login ie q s
      else if cmd = ''auth_logout'' then ipc_logout ie s
      else if cmd = ''auth_register'' then ipc_register ie q s
      else if cmd = ''auth_change_password'' then ipc_change_password ie q s
      else if cmd = ''auth_list_devices'' then
        (s, ipc_query (\<lambda>ds. ipc_default\<lparr>ir_devices := Some ds\<rparr>) (list_devices (ie_auth ie) (ie_api ie) st (is_srv s)))
      else if cmd = ''auth_remove_device'' then ipc_remove_device ie q s
      else if cmd = ''auth_subscription'' then
        (s, ipc_query (\<lambda>x. ipc_default\<lparr>ir_subscription := Some x\<rparr>) (client_get_my_subscription (ie_auth ie) (ie_api ie) st (is_srv s)))
      else if cmd = ''auth_profile'' then
        (s, ipc_query (\<lambda>x. ipc_default\<lparr>ir_user := Some x\<rparr>) (get_user_info (ie_auth ie) (ie_api ie) st (is_srv s)))
      else if cmd = ''list_rules'' then (s, ipc_default\<lparr>ir_rules := Some (get_rules st)\<rparr>)
      else if cmd = ''add_rule'' then ipc_add_rule ie q s
      else if cmd = ''remove_rule'' then ipc_remove_rule ie q s
      else if cmd = ''scan_services'' then
        (s, ipc_default\<lparr>ir_services := Some (if iq_all q then scan_local_services_full (ie_os ie) (ie_scan ie)
                                            else scan_local_services (se_connects (ie_scan ie)))\<rparr>)
      else if cmd = ''proxy_status'' then (s, ipc_default\<lparr>ir_proxy := Some (proxy_status_of st)\<rparr>)
      else if cmd = ''proxy_save'' then ipc_update ie (proxy_save q) s
      else if cmd = ''proxy_enable'' then ipc_update ie (proxy_enable q) s
      else if cmd = ''proxy_disable'' then ipc_update ie proxy_disable s
      else (s, ipc_err (UnknownCommand cmd)))"

text \<open>
  \<open>handle_client\<close> on the lines a connection brings, each with the world its command meets; \<open>parse_request\<close> is
  \<open>serde_json::from_str\<close>.  The connection ends with the lines.
\<close>

fun handle_client ::
    "(string \<Rightarrow> ipc_request option) \<Rightarrow> (string \<times> 'srv ipc_env) list \<Rightarrow> 'srv ipc_state \<Rightarrow> 'srv ipc_state \<times> ipc_response list" where
  "handle_client parse_request [] s = (s, [])"
| "handle_client parse_request ((line, ie) # rest) s =
     (if trim line = [] then handle_client parse_request rest s
      else let (s1, r) = (case parse_request (trim line) of Some q \<Rightarrow> dispatch ie q s | None \<Rightarrow> (s, ipc_err InvalidJson));
               (s2, rs) = handle_client parse_request rest s1
           in (s2, r # rs))"

section \<open>Errors\<close>

text \<open>Everything of the client, without the server.\<close>

definition client_part :: "'srv ipc_state \<Rightarrow> client_state \<times> conn_table \<times> discovered_peers" where
  "client_part s = (is_client s, is_conns s, is_peers s)"

lemma is_store_with_store [simp]: "is_store (with_store st s) = st"
  by (simp add: is_store_def with_store_def)

lemma client_part_with_store [simp]: "client_part (with_store (is_store s) (s\<lparr>is_srv := v\<rparr>)) = client_part s"
  by (simp add: client_part_def with_store_def is_store_def)

lemma client_part_srv [simp]: "client_part (s\<lparr>is_srv := v\<rparr>) = client_part s"
  by (simp add: client_part_def)

lemma ipc_no_error [simp]: "ir_error ipc_default = None" "ir_error ipc_ok = None" "ir_error (ipc_err e) = Some e"
  by (simp_all add: ipc_default_def ipc_ok_def ipc_err_def)

text \<open>A login, a registration or a change of the password that fails leaves the settings as they were.\<close>

lemma login_again_error: "login_again au t u r st = (st', Inl e) \<Longrightarrow> st' = st"
  by (auto simp: login_again_def Let_def split: option.splits if_splits)

lemma client_login_error: "client_login au api u p n st srv = (st', srv', Inl e) \<Longrightarrow> st' = st"
  by (auto simp: client_login_def Let_def split: if_splits option.splits prod.splits dest: login_again_error)

lemma client_register_error: "client_register au api u m p n st srv = (st', srv', Inl e) \<Longrightarrow> st' = st"
  by (auto simp: client_register_def split: if_splits option.splits prod.splits dest: client_login_error)

lemma client_change_password_error: "client_change_password au api x y st srv = (st', srv', Inl e) \<Longrightarrow> st' = st"
  by (auto simp: client_change_password_def split: if_splits option.splits prod.splits)

lemma ipc_handler_errors:
  "ipc_discover ie s = (s', r) \<Longrightarrow> ir_error r = None"
  "ipc_connect ie q s = (s', r) \<Longrightarrow> client_part s' = client_part s"
  "ipc_close_conn q s = (s', r) \<Longrightarrow> ir_error r = Some e \<Longrightarrow> client_part s' = client_part s"
  "ipc_login ie q s = (s', r) \<Longrightarrow> ir_error r = Some e \<Longrightarrow> client_part s' = client_part s"
  "ipc_register ie q s = (s', r) \<Longrightarrow> ir_error r = Some e \<Longrightarrow> client_part s' = client_part s"
  "ipc_logout ie s = (s', r) \<Longrightarrow> ir_error r = None"
  "ipc_change_password ie q s = (s', r) \<Longrightarrow> ir_error r = Some e \<Longrightarrow> client_part s' = client_part s"
  "ipc_remove_device ie q s = (s', r) \<Longrightarrow> ir_error r = Some e \<Longrightarrow> client_part s' = client_part s"
  "ipc_add_rule ie q s = (s', r) \<Longrightarrow> ir_error r = Some e \<Longrightarrow> client_part s' = client_part s"
  "ipc_remove_rule ie q s = (s', r) \<Longrightarrow> ir_error r = Some e \<Longrightarrow> client_part s' = client_part s"
  "ipc_update ie f s = (s', r) \<Longrightarrow> ir_error r = None"
  by (auto simp: ipc_discover_def ipc_connect_def ipc_close_conn_def ipc_login_def ipc_register_def ipc_logout_def
      ipc_change_password_def ipc_remove_device_def ipc_add_rule_def ipc_remove_rule_def ipc_update_def Let_def
      split: if_splits option.splits prod.splits sum.splits
      dest: client_login_error client_register_error client_change_password_error)

text \<open>
  C17.  A command that is answered with an error has done nothing to the client: its settings and the file they
  are saved in, its state of connection, its tunnels and the computers it has found are what they were.
\<close>

theorem ipc_error_changes_nothing:
  assumes "dispatch ie q s = (s', r)" "ir_error r \<noteq> None"
  shows "client_part s' = client_part s"
proof -
  obtain e where e: "ir_error r = Some e" using assms(2) by blast
  show ?thesis
    using assms(1) e unfolding dispatch_def Let_def
    by (auto simp: ipc_handler_errors split: if_splits)
qed

section \<open>Invariant\<close>

text \<open>
  The identity is \<open>i\<close>, no two rules have the same name and port, and the table of the discovery lists each
  computer once, under its id.
\<close>

definition ipc_inv :: "string \<times> string \<times> string \<times> string \<Rightarrow> 'srv ipc_state \<Rightarrow> bool" where
  "ipc_inv i s \<longleftrightarrow> identity (st_config (is_store s)) = i \<and> rules_distinct (is_store s) \<and> table_ok (is_peers s)"

text \<open>A change of the settings that touches neither the identity nor the rules.\<close>

definition settings_kept :: "client_store \<Rightarrow> client_store \<Rightarrow> bool" where
  "settings_kept st st' \<longleftrightarrow>
     identity (st_config st') = identity (st_config st) \<and> get_rules st' = get_rules st"

lemma config_update_kept:
  "identity (f (st_config st)) = identity (st_config st) \<Longrightarrow>
   cc_forward_rules (f (st_config st)) = cc_forward_rules (st_config st) \<Longrightarrow> settings_kept st (config_update ce f st)"
  by (simp add: settings_kept_def config_update_def get_rules_def Let_def)

lemma login_kept [simp]: "settings_kept st (keep_login au t u d st)" "settings_kept st (clear_login ce st)"
  unfolding keep_login_def save_login_def clear_login_def
  by (rule config_update_kept; simp add: identity_def)+

lemma settings_kept_refl [simp]: "settings_kept st st"
  by (simp add: settings_kept_def)

lemma login_again_kept: "login_again au t u r st = (st', x) \<Longrightarrow> settings_kept st st'"
  by (auto simp: login_again_def Let_def split: option.splits if_splits)

lemma client_login_kept: "client_login au api u p n st srv = (st', srv', x) \<Longrightarrow> settings_kept st st'"
  by (auto simp: client_login_def Let_def split: if_splits option.splits prod.splits dest: login_again_kept)

lemma client_register_kept: "client_register au api u m p n st srv = (st', srv', x) \<Longrightarrow> settings_kept st st'"
  by (auto simp: client_register_def split: if_splits option.splits prod.splits dest: client_login_kept)

lemma client_change_password_kept: "client_change_password au api a b st srv = (st', srv', x) \<Longrightarrow> settings_kept st st'"
  by (auto simp: client_change_password_def split: if_splits option.splits prod.splits)

lemma proxy_kept:
  "settings_kept st (config_update ce (proxy_save q) st)" "settings_kept st (config_update ce (proxy_enable q) st)"
  "settings_kept st (config_update ce proxy_disable st)"
  by (rule config_update_kept; simp add: proxy_save_def proxy_enable_def proxy_disable_def set_exit_peer_def identity_def Let_def)+

lemma ipc_inv_kept:
  "ipc_inv i s \<Longrightarrow> settings_kept (is_store s) (is_store s') \<Longrightarrow> is_peers s' = is_peers s \<Longrightarrow> ipc_inv i s'"
  by (simp add: ipc_inv_def settings_kept_def rules_distinct_def)

lemma ipc_fields [simp]:
  "is_store (ipc_restart s) = is_store s" "is_peers (ipc_restart s) = is_peers s" "is_peers (with_store st s) = is_peers s"
  "is_store (s\<lparr>is_srv := v\<rparr>) = is_store s" "is_store (s\<lparr>is_conns := t\<rparr>) = is_store s" "is_store (s\<lparr>is_peers := m\<rparr>) = is_store s"
  by (simp_all add: is_store_def ipc_restart_def with_store_def mediator_restart_def)

lemma rule_ops_identity:
  "identity (st_config (add_rule ce r st)) = identity (st_config st)"
  "identity (st_config (remove_rule ce k st)) = identity (st_config st)"
  by (simp_all add: add_rule_def remove_rule_def config_update_def identity_def Let_def)

lemma lan_discover_table:
  "lan_discover le st threads merged now m = (out, m', peers) \<Longrightarrow> table_ok m \<Longrightarrow> table_ok m'"
  using upsert_all by (auto simp: lan_discover_def Let_def split: if_splits)

lemma ipc_handler_inv:
  assumes "ipc_inv i s"
  shows "ipc_inv i (fst (ipc_discover ie s))" "ipc_inv i (fst (ipc_connect ie q s))" "ipc_inv i (fst (ipc_close_conn q s))"
    "ipc_inv i (fst (ipc_login ie q s))" "ipc_inv i (fst (ipc_register ie q s))" "ipc_inv i (fst (ipc_logout ie s))"
    "ipc_inv i (fst (ipc_change_password ie q s))" "ipc_inv i (fst (ipc_remove_device ie q s))"
    "ipc_inv i (fst (ipc_add_rule ie q s))" "ipc_inv i (fst (ipc_remove_rule ie q s))"
    "ipc_inv i (fst (ipc_update ie (proxy_save q) s))" "ipc_inv i (fst (ipc_update ie (proxy_enable q) s))"
    "ipc_inv i (fst (ipc_update ie proxy_disable s))" "ipc_inv i (ipc_restart s)"
  subgoal using assms lan_discover_table by (auto simp: ipc_discover_def ipc_inv_def split: prod.splits)
  subgoal using assms by (simp add: ipc_connect_def split: if_splits prod.splits sum.splits option.splits)
  subgoal using assms by (auto simp: ipc_close_conn_def ipc_inv_def split: if_splits option.splits)
  subgoal by (rule ipc_inv_kept [OF assms]) (auto simp: ipc_login_def split: if_splits prod.splits sum.splits dest: client_login_kept)
  subgoal by (rule ipc_inv_kept [OF assms]) (auto simp: ipc_register_def split: if_splits prod.splits sum.splits dest: client_register_kept)
  subgoal by (rule ipc_inv_kept [OF assms]) (auto simp: ipc_logout_def client_logout_def)
  subgoal by (rule ipc_inv_kept [OF assms])
      (auto simp: ipc_change_password_def split: if_splits prod.splits sum.splits dest: client_change_password_kept)
  subgoal using assms by (auto simp: ipc_remove_device_def ipc_inv_def split: if_splits prod.splits sum.splits)
  subgoal using assms by (simp add: ipc_add_rule_def ipc_inv_def Let_def add_rule_distinct rule_ops_identity)
  subgoal using assms by (simp add: ipc_remove_rule_def ipc_inv_def remove_rule_distinct rule_ops_identity)
  by (rule ipc_inv_kept [OF assms]; simp add: ipc_update_def proxy_kept)+

lemma dispatch_inv: "ipc_inv i s \<Longrightarrow> ipc_inv i (fst (dispatch ie q s))"
  unfolding dispatch_def Let_def by (simp add: ipc_handler_inv)

text \<open>
  C16.  Nothing that is written on the control connection changes who the client is.  After any lines, readable or
  not, the id, the device UUID and the key pair are the same, no two forwarding rules have the same name
  and port, and the discovery lists each computer once; and every line that is not blank has been answered.
\<close>

theorem ipc_session_invariant:
  assumes "ipc_inv i s" "handle_client parse_request lines s = (s', rs)"
  shows "ipc_inv i s' \<and> length rs = length (filter (\<lambda>(l, _). trim l \<noteq> []) lines)"
  using assms
proof (induction parse_request lines s arbitrary: s' rs rule: handle_client.induct)
  case (2 parse_request line ie rest s)
  show ?case
  proof (cases "trim line = []")
    case False
    obtain s1 r where r: "(case parse_request (trim line) of Some q \<Rightarrow> dispatch ie q s | None \<Rightarrow> (s, ipc_err InvalidJson)) = (s1, r)"
      by fastforce
    then have "ipc_inv i s1"
      using "2.prems"(1) dispatch_inv [OF "2.prems"(1), of ie] by (cases "parse_request (trim line)") (auto, metis fst_conv)
    then show ?thesis using "2.IH"(2) [OF False r [symmetric]] "2.prems" False r by (auto split: prod.splits)
  qed (use 2 in auto)
qed simp

section \<open>Witnesses\<close>

definition ipc_sample_env :: "database ipc_env" where
  "ipc_sample_env =
     \<lparr>ie_med = \<lparr>me_now = 0, me_secs = 0, me_client = au_client ann_client_env, me_wire = lan_sample_wire, me_version = ''1'',
        me_ok = (\<lambda>_. True), me_local_addr = V4 (Ipv4Addr 10 0 0 1) 4000, me_udp_port = None, me_parse_addr = (\<lambda>_. None),
        me_uuid = ''u'', me_micros = 0, me_b64_decode = (\<lambda>_. None)\<rparr>,
      ie_auth = ann_client_env, ie_api = web_auth ann_server [], ie_lan = lan_sample_env, ie_now = 0, ie_threads = [],
      ie_merged = concat, ie_answer = None, ie_bind = Some, ie_rule_id = ''r1'', ie_os = Other_OS,
      ie_scan = \<lparr>se_connects = (\<lambda>_. False), se_proc = [], se_comm = Map.empty, se_tcp = None, se_tcp6 = None, se_netstat = None,
        se_tasklist = None, se_lsof = None\<rparr>\<rparr>"

definition ipc_sample_state :: "database ipc_state" where
  "ipc_sample_state =
     \<lparr>is_client = \<lparr>cs_store = ann_store, cs_online = True, cs_should_exit = False, cs_manual_restarted = False, cs_nat_detected = True\<rparr>,
      is_conns = [], is_peers = [], is_srv = db_ann\<rparr>"

definition ipc_sample_request :: ipc_request where
  "ipc_sample_request =
     \<lparr>iq_cmd = ''auth_remove_device'', iq_peer_id = [], iq_local_port = 0, iq_uuid = [], iq_rule_name = ''SSH'', iq_rule_id = [],
      iq_target_host = [], iq_target_port = 22, iq_peer_id_filter = [], iq_username = [], iq_password = [], iq_email = [],
      iq_device_name = [], iq_old_password = [], iq_new_password = [], iq_device_id = ''d'', iq_exit_peer = [], iq_port = 0, iq_all = False\<rparr>"

theorem ipc_error_changes_nothing_witness:
  "\<exists>s' r. dispatch ipc_sample_env ipc_sample_request ipc_sample_state = (s', r) \<and> ir_error r = Some (AuthFailed NoLogin) \<and>
     client_part s' = client_part ipc_sample_state"
proof -
  have token: "get_auth_token t ann_store = None" for t by (simp add: get_auth_token_def ann_store_def config_default_def)
  obtain s' r where run: "dispatch ipc_sample_env ipc_sample_request ipc_sample_state = (s', r)" by fastforce
  have "ir_error (snd (dispatch ipc_sample_env ipc_sample_request ipc_sample_state)) = Some (AuthFailed NoLogin)"
    by (simp add: dispatch_def ipc_sample_request_def ipc_remove_device_def client_remove_device_def token
        is_store_def ipc_sample_state_def)
  then have "ir_error r = Some (AuthFailed NoLogin)" using run by simp
  then show ?thesis using ipc_error_changes_nothing [OF run] run by simp
qed

text \<open>A session of a blank line, a line that is not JSON and a new rule.\<close>

definition ipc_sample_lines :: "(string \<times> database ipc_env) list" where
  "ipc_sample_lines = map (\<lambda>l. (l, ipc_sample_env)) [''  '', ''what'', ''add'']"

definition ipc_sample_parse :: "string \<Rightarrow> ipc_request option" where
  "ipc_sample_parse l = (if l = ''add'' then Some (ipc_sample_request\<lparr>iq_cmd := ''add_rule''\<rparr>) else None)"

theorem ipc_session_invariant_witness:
  "\<exists>s' rs. handle_client ipc_sample_parse ipc_sample_lines ipc_sample_state = (s', rs) \<and>
     ipc_inv (identity (st_config ann_store)) s' \<and> length rs = 2 \<and> get_rules (is_store s') = [forward_rule_new ''r1'' ''SSH'' 22]"
proof -
  obtain s' rs where run: "handle_client ipc_sample_parse ipc_sample_lines ipc_sample_state = (s', rs)" by fastforce
  have tr: "trim ''  '' = []" "trim ''what'' = ''what''" "trim ''add'' = ''add''"
    by (simp_all add: trim_def is_space_def)
  have inv: "ipc_inv (identity (st_config ann_store)) ipc_sample_state"
    by (simp add: ipc_inv_def is_store_def ipc_sample_state_def rules_distinct_def table_ok_def get_rules_def ann_store_def config_default_def)
  have "get_rules (is_store (fst (handle_client ipc_sample_parse ipc_sample_lines ipc_sample_state))) = [forward_rule_new ''r1'' ''SSH'' 22]"
    by (simp add: ipc_sample_lines_def ipc_sample_parse_def tr dispatch_def ipc_sample_request_def ipc_add_rule_def Let_def
        case_prod_unfold get_rules_def add_rule_def ipc_rule_def ipc_sample_env_def ipc_sample_state_def is_store_def
        ann_store_def config_default_def with_store_def forward_rule_new_def)
  moreover have "length (filter (\<lambda>(l, _). trim l \<noteq> []) ipc_sample_lines) = 2"
    by (simp add: ipc_sample_lines_def tr)
  ultimately show ?thesis using ipc_session_invariant [OF inv run] run by auto
qed

end
