(* ===== verification/Client_Tunnels.thy ===== *)
theory Client_Tunnels
  imports Client_Bridge
begin

text \<open>
  The tasks of \<open>PortForwardManager\<close> in \<open>nat-client/src/port_forward.rs\<close>, from the start of a tunnel to its
  end, and the table of active connections they share.  What the tasks copy between the two ends is in
  \<open>Client_Bridge\<close>; here a bridge runs until one of its tasks ends or it is closed.
\<close>

section \<open>Tasks\<close>

text \<open>
  A task with what it was started with, and the \<open>await\<close> it is at.  The proxy that a direct outbound tunnel
  starts for each application is a task of its own.
\<close>

datatype pf_op = Inbound | OutboundDirect | DirectProxy | RegisterRelay | OutboundRelay | InboundKcp | OutboundKcp

datatype pf_phase = Handshaking | Binding | Accepting | Connecting | Bridging | Draining

record pf_task =
  pt_op :: pf_op
  pt_phase :: pf_phase
  pt_uuid :: string
  pt_peer :: string
  pt_port :: u16
  pt_target_port :: u16

text \<open>The outcome of the \<open>await\<close>: a sent handshake, the port bound, a connection accepted, the target reached, the end of a bridge.\<close>

datatype pf_event = Handshaken bool | Bound "u16 option" | Accepted bool | Connected bool | BridgeEnds

text \<open>What a task becomes (nothing when it has returned), the tasks it starts, and the table.\<close>

type_synonym pf_result = "pf_task option \<times> pf_task list \<times> conn_table"

definition goes_on :: "pf_phase \<Rightarrow> pf_task \<Rightarrow> conn_table \<Rightarrow> pf_result" where
  "goes_on ph t tab = (Some (t\<lparr>pt_phase := ph\<rparr>), [], tab)"

definition returns :: "conn_table \<Rightarrow> pf_result" where
  "returns tab = (None, [], tab)"

section \<open>Operations\<close>

text \<open>The tasks as they are started.\<close>

definition register_inbound :: "u16 \<Rightarrow> string \<Rightarrow> string \<Rightarrow> u16 \<Rightarrow> pf_task" where
  "register_inbound local_port peer uuid target_port =
     \<lparr>pt_op = Inbound, pt_phase = Binding, pt_uuid = uuid, pt_peer = peer, pt_port = local_port, pt_target_port = target_port\<rparr>"

definition create_outbound_direct :: "u16 \<Rightarrow> string \<Rightarrow> pf_task" where
  "create_outbound_direct local_port peer =
     \<lparr>pt_op = OutboundDirect, pt_phase = Binding, pt_uuid = [], pt_peer = peer, pt_port = local_port, pt_target_port = 0\<rparr>"

definition register_relay :: "string \<Rightarrow> string \<Rightarrow> u16 \<Rightarrow> pf_task" where
  "register_relay uuid peer target_port =
     \<lparr>pt_op = RegisterRelay, pt_phase = Handshaking, pt_uuid = uuid, pt_peer = peer, pt_port = 0, pt_target_port = target_port\<rparr>"

definition create_outbound_relay :: "u16 \<Rightarrow> string \<Rightarrow> pf_task" where
  "create_outbound_relay local_port uuid =
     \<lparr>pt_op = OutboundRelay, pt_phase = Handshaking, pt_uuid = uuid, pt_peer = ''relay'', pt_port = local_port, pt_target_port = 0\<rparr>"

definition register_inbound_kcp :: "string \<Rightarrow> u16 \<Rightarrow> pf_task" where
  "register_inbound_kcp uuid target_port =
     \<lparr>pt_op = InboundKcp, pt_phase = Connecting, pt_uuid = uuid, pt_peer = [], pt_port = 0, pt_target_port = target_port\<rparr>"

definition create_outbound_kcp :: "u16 \<Rightarrow> pf_task" where
  "create_outbound_kcp local_port =
     \<lparr>pt_op = OutboundKcp, pt_phase = Binding, pt_uuid = [], pt_peer = [], pt_port = local_port, pt_target_port = 0\<rparr>"

text \<open>
  A turn of each task at an event; an event that is not the one awaited changes nothing.  \<open>now\<close> is the time of the
  entry in the table and \<open>fresh\<close> the uuid drawn for an accepted application.
\<close>

definition waits :: "pf_task \<Rightarrow> conn_table \<Rightarrow> pf_result" where
  "waits t tab = (Some t, [], tab)"

definition accept_inbound :: "u64 \<Rightarrow> pf_event \<Rightarrow> pf_task \<Rightarrow> conn_table \<Rightarrow> pf_result" where
  "accept_inbound now ev t tab =
     (case (pt_phase t, ev) of
        (Binding, Bound p) \<Rightarrow> if p = None then returns tab else goes_on Accepting t tab
      | (Accepting, Accepted ok) \<Rightarrow>
          if ok then goes_on Connecting t (register_conn (new_conn (pt_uuid t) Direct (pt_peer t) (Some (pt_port t)) now) tab)
          else returns tab
      | (Connecting, Connected ok) \<Rightarrow> if ok then goes_on Bridging t tab else returns (remove_conn (pt_uuid t) tab)
      | (Bridging, BridgeEnds) \<Rightarrow> returns (remove_conn (pt_uuid t) tab)
      | _ \<Rightarrow> waits t tab)"

definition outbound_direct :: "u64 \<Rightarrow> string \<Rightarrow> pf_event \<Rightarrow> pf_task \<Rightarrow> conn_table \<Rightarrow> pf_result" where
  "outbound_direct now fresh ev t tab =
     (case (pt_phase t, ev) of
        (Binding, Bound p) \<Rightarrow> (case p of None \<Rightarrow> returns tab | Some port \<Rightarrow> goes_on Accepting (t\<lparr>pt_port := port\<rparr>) tab)
      | (Accepting, Accepted ok) \<Rightarrow> if ok then goes_on Connecting (t\<lparr>pt_uuid := fresh\<rparr>) tab else returns tab
      | (Connecting, Connected ok) \<Rightarrow>
          if ok then (Some (t\<lparr>pt_phase := Accepting, pt_uuid := []\<rparr>), [t\<lparr>pt_op := DirectProxy, pt_phase := Bridging\<rparr>],
                      register_conn (new_conn (pt_uuid t) Direct (pt_peer t) (Some (pt_port t)) now) tab)
          else goes_on Accepting (t\<lparr>pt_uuid := []\<rparr>) tab
      | _ \<Rightarrow> waits t tab)"

definition direct_proxy :: "pf_event \<Rightarrow> pf_task \<Rightarrow> conn_table \<Rightarrow> pf_result" where
  "direct_proxy ev t tab =
     (case (pt_phase t, ev) of
        (Bridging, BridgeEnds) \<Rightarrow> returns (remove_conn (pt_uuid t) tab)
      | _ \<Rightarrow> waits t tab)"

text \<open>Without a target the task only reads until the stream ends; closing it has no effect.\<close>

definition relay_inbound :: "u64 \<Rightarrow> pf_event \<Rightarrow> pf_task \<Rightarrow> conn_table \<Rightarrow> pf_result" where
  "relay_inbound now ev t tab =
     (let enter = register_conn (new_conn (pt_uuid t) Relay (pt_peer t) None now) tab in
      case (pt_phase t, ev) of
        (Handshaking, Handshaken ok) \<Rightarrow>
          if \<not> ok then returns tab else if pt_target_port t = 0 then goes_on Draining t enter else goes_on Connecting t tab
      | (Draining, BridgeEnds) \<Rightarrow> returns (remove_conn (pt_uuid t) tab)
      | (Connecting, Connected ok) \<Rightarrow> if ok then goes_on Bridging t enter else returns tab
      | (Bridging, BridgeEnds) \<Rightarrow> returns (remove_conn (pt_uuid t) tab)
      | _ \<Rightarrow> waits t tab)"

definition relay_outbound :: "u64 \<Rightarrow> pf_event \<Rightarrow> pf_task \<Rightarrow> conn_table \<Rightarrow> pf_result" where
  "relay_outbound now ev t tab =
     (case (pt_phase t, ev) of
        (Handshaking, Handshaken ok) \<Rightarrow> if ok then goes_on Binding t tab else returns tab
      | (Binding, Bound p) \<Rightarrow> (case p of None \<Rightarrow> returns tab | Some port \<Rightarrow> goes_on Accepting (t\<lparr>pt_port := port\<rparr>) tab)
      | (Accepting, Accepted ok) \<Rightarrow>
          if ok then goes_on Bridging t (register_conn (new_conn (pt_uuid t) Relay (pt_peer t) (Some (pt_port t)) now) tab)
          else returns tab
      | (Bridging, BridgeEnds) \<Rightarrow> returns (remove_conn (pt_uuid t) tab)
      | _ \<Rightarrow> waits t tab)"

definition kcp_inbound :: "pf_event \<Rightarrow> pf_task \<Rightarrow> conn_table \<Rightarrow> pf_result" where
  "kcp_inbound ev t tab =
     (case (pt_phase t, ev) of
        (Connecting, Connected ok) \<Rightarrow> if ok then goes_on Bridging t tab else returns tab
      | (Bridging, BridgeEnds) \<Rightarrow> returns tab
      | _ \<Rightarrow> waits t tab)"

definition kcp_outbound :: "pf_event \<Rightarrow> pf_task \<Rightarrow> conn_table \<Rightarrow> pf_result" where
  "kcp_outbound ev t tab =
     (case (pt_phase t, ev) of
        (Binding, Bound p) \<Rightarrow> (case p of None \<Rightarrow> returns tab | Some port \<Rightarrow> goes_on Accepting (t\<lparr>pt_port := port\<rparr>) tab)
      | (Accepting, Accepted ok) \<Rightarrow> if ok then goes_on Bridging t tab else returns tab
      | (Bridging, BridgeEnds) \<Rightarrow> returns tab
      | _ \<Rightarrow> waits t tab)"

definition pf_turn :: "u64 \<Rightarrow> string \<Rightarrow> pf_event \<Rightarrow> pf_task \<Rightarrow> conn_table \<Rightarrow> pf_result" where
  "pf_turn now fresh ev t tab =
     (case pt_op t of
        Inbound \<Rightarrow> accept_inbound now ev t tab
      | OutboundDirect \<Rightarrow> outbound_direct now fresh ev t tab
      | DirectProxy \<Rightarrow> direct_proxy ev t tab
      | RegisterRelay \<Rightarrow> relay_inbound now ev t tab
      | OutboundRelay \<Rightarrow> relay_outbound now ev t tab
      | InboundKcp \<Rightarrow> kcp_inbound ev t tab
      | OutboundKcp \<Rightarrow> kcp_outbound ev t tab)"

section \<open>All tasks together\<close>

text \<open>Tasks are started at any time, take turns in any order, and a listed connection may be closed.\<close>

record pf_system =
  fw_tasks :: "pf_task list"
  fw_conns :: conn_table

inductive started :: "pf_task \<Rightarrow> bool" where
  "started (register_inbound lp peer uuid tp)"
| "started (create_outbound_direct lp peer)"
| "started (register_relay uuid peer tp)"
| "started (create_outbound_relay lp uuid)"
| "started (register_inbound_kcp uuid tp)"
| "started (create_outbound_kcp lp)"

inductive pf_step :: "pf_system \<Rightarrow> pf_system \<Rightarrow> bool" where
  pf_start: "started t \<Longrightarrow> pf_step s (s\<lparr>fw_tasks := fw_tasks s @ [t]\<rparr>)"
| pf_run: "fw_tasks s = xs @ t # ys \<Longrightarrow> pf_turn now fresh ev t (fw_conns s) = (t', new, tab) \<Longrightarrow>
    pf_step s \<lparr>fw_tasks = xs @ (case t' of Some u \<Rightarrow> [u] | None \<Rightarrow> []) @ ys @ new, fw_conns = tab\<rparr>"
| pf_close: "map_of (fw_conns s) uuid = Some c \<Longrightarrow> pf_step s (s\<lparr>fw_conns := fst (conn_close c (fw_conns s))\<rparr>)"

inductive pf_reachable :: "pf_system \<Rightarrow> bool" where
  pf_init: "pf_reachable \<lparr>fw_tasks = [], fw_conns = []\<rparr>"
| pf_next: "pf_reachable s \<Longrightarrow> pf_step s s' \<Longrightarrow> pf_reachable s'"

text \<open>Whether a task has its connection in the table.\<close>

definition holds_entry :: "pf_task \<Rightarrow> bool" where
  "holds_entry t \<longleftrightarrow>
     (case pt_op t of
        Inbound \<Rightarrow> pt_phase t \<in> {Connecting, Bridging}
      | OutboundDirect \<Rightarrow> False
      | DirectProxy \<Rightarrow> pt_phase t = Bridging
      | RegisterRelay \<Rightarrow> pt_phase t \<in> {Draining, Bridging}
      | OutboundRelay \<Rightarrow> pt_phase t = Bridging
      | _ \<Rightarrow> False)"

definition conn_keys :: "conn_table \<Rightarrow> string set" where
  "conn_keys tab = fst ` set tab"

text \<open>
  The contract between the tasks and the table: after a turn each entry is that of a task the turn leaves behind, or
  it was there before and is not one the task had held.
\<close>

locale table_users =
  fixes turn :: "'e \<Rightarrow> 't \<Rightarrow> conn_table \<Rightarrow> 't option \<times> 't list \<times> conn_table"
    and holds :: "'t \<Rightarrow> string \<Rightarrow> bool"
  assumes turn_entries: "turn ev t tab = (t', new, tab') \<Longrightarrow> x \<in> conn_keys tab' \<Longrightarrow>
      (\<exists>u\<in>set new \<union> set_option t'. holds u x) \<or> (x \<in> conn_keys tab \<and> \<not> holds t x)"
begin

lemma owned_turn:
  assumes "turn ev t tab = (t', new, tab')" "\<forall>x\<in>conn_keys tab. \<exists>u\<in>set (xs @ t # ys). holds u x"
  shows "\<forall>x\<in>conn_keys tab'. \<exists>u\<in>set (xs @ (case t' of Some u \<Rightarrow> [u] | None \<Rightarrow> []) @ ys @ new). holds u x"
proof
  fix x assume "x \<in> conn_keys tab'"
  then consider (own) u where "u \<in> set new \<union> set_option t'" "holds u x" | (old) "x \<in> conn_keys tab" "\<not> holds t x"
    using turn_entries [OF assms(1)] by blast
  then show "\<exists>u\<in>set (xs @ (case t' of Some u \<Rightarrow> [u] | None \<Rightarrow> []) @ ys @ new). holds u x"
  proof cases
    case own
    then show ?thesis by (cases t') auto
  next
    case old
    then show ?thesis using assms(2) by auto
  qed
qed

end

lemma keys_register: "conn_keys (register_conn c tab) = insert (ac_uuid c) (conn_keys tab)"
  by (simp add: conn_keys_def register_conn_def AList.dom_update)

lemma keys_remove: "conn_keys (remove_conn u tab) = conn_keys tab - {u}"
  by (auto simp: conn_keys_def remove_conn_def AList.delete_eq)

lemma new_conn_uuid [simp]: "ac_uuid (new_conn u k p l n) = u"
  by (simp add: new_conn_def)

lemmas pf_turn_defs =
  accept_inbound_def outbound_direct_def direct_proxy_def relay_inbound_def relay_outbound_def kcp_inbound_def kcp_outbound_def
  goes_on_def returns_def waits_def holds_entry_def keys_register keys_remove Let_def

lemma pf_turn_entries:
  assumes "pf_turn now fresh ev t tab = (t', new, tab')" "x \<in> conn_keys tab'"
  shows "(\<exists>u\<in>set new \<union> set_option t'. holds_entry u \<and> pt_uuid u = x) \<or> (x \<in> conn_keys tab \<and> \<not> (holds_entry t \<and> pt_uuid t = x))"
  using assms unfolding pf_turn_def
  by (cases "pt_op t"; cases "pt_phase t"; cases ev)
     (auto simp: pf_turn_defs split: if_splits option.splits)

interpretation pf: table_users "\<lambda>(now, fresh, ev). pf_turn now fresh ev" "\<lambda>t x. holds_entry t \<and> pt_uuid t = x"
proof
  fix e t tab t' new tab' x
  assume a: "(case e of (now, fresh, ev) \<Rightarrow> pf_turn now fresh ev) t tab = (t', new, tab')" "x \<in> conn_keys tab'"
  obtain now fresh ev where "e = (now, fresh, ev)" by (cases e) auto
  then show "(\<exists>u\<in>set new \<union> set_option t'. holds_entry u \<and> pt_uuid u = x) \<or> x \<in> conn_keys tab \<and> \<not> (holds_entry t \<and> pt_uuid t = x)"
    using a pf_turn_entries [of now fresh ev t tab t' new tab' x] by simp
qed

text \<open>Every entry is kept under the uuid of its connection.\<close>

definition keyed :: "conn_table \<Rightarrow> bool" where
  "keyed tab \<longleftrightarrow> (\<forall>(k, c)\<in>set tab. ac_uuid c = k)"

lemma set_update_subset: "set (AList.update k v m) \<subseteq> insert (k, v) (set m)"
  by (induction m) auto

lemma keyed_register: "keyed tab \<Longrightarrow> keyed (register_conn c tab)"
  by (auto simp: keyed_def register_conn_def dest!: subsetD [OF set_update_subset])

lemma keyed_remove: "keyed tab \<Longrightarrow> keyed (remove_conn u tab)"
  by (auto simp: keyed_def remove_conn_def AList.delete_eq)

lemma pf_turn_keyed:
  "pf_turn now fresh ev t tab = (t', new, tab') \<Longrightarrow> keyed tab \<Longrightarrow> keyed tab'"
  unfolding pf_turn_def
  by (cases "pt_op t"; cases "pt_phase t"; cases ev)
     (auto simp: pf_turn_defs keyed_register keyed_remove split: if_splits option.splits)

lemma close_keys:
  assumes "keyed tab" "map_of tab uuid = Some c"
  shows "keyed (fst (conn_close c tab)) \<and> conn_keys (fst (conn_close c tab)) = conn_keys tab"
proof -
  have "(uuid, c) \<in> set tab" using assms(2) by (rule map_of_SomeD)
  then have "ac_uuid c = uuid" "uuid \<in> fst ` set tab" using assms(1) by (force simp: keyed_def)+
  then show ?thesis
    using assms(1) set_update_subset [of uuid "c\<lparr>ac_close := False\<rparr>" tab]
    by (auto simp: keyed_def conn_close_def conn_keys_def AList.dom_update)
qed

definition pf_inv :: "pf_system \<Rightarrow> bool" where
  "pf_inv s \<longleftrightarrow> keyed (fw_conns s) \<and>
     (\<forall>x\<in>conn_keys (fw_conns s). \<exists>t\<in>set (fw_tasks s). holds_entry t \<and> pt_uuid t = x)"

lemma pf_step_inv: "pf_step s s' \<Longrightarrow> pf_inv s \<Longrightarrow> pf_inv s'"
proof (induction rule: pf_step.induct)
  case (pf_start t s)
  then show ?case by (auto simp: pf_inv_def)
next
  case (pf_run s xs t ys now fresh ev t' new tab)
  then show ?case
    using pf.owned_turn [of "(now, fresh, ev)" t "fw_conns s" t' new tab xs ys] pf_turn_keyed [OF pf_run(2)]
    by (simp add: pf_inv_def)
next
  case (pf_close s uuid c)
  then show ?case using close_keys by (simp add: pf_inv_def)
qed

lemma pf_reachable_inv: "pf_reachable s \<Longrightarrow> pf_inv s"
proof (induction rule: pf_reachable.induct)
  case pf_init
  show ?case by (simp add: pf_inv_def conn_keys_def keyed_def)
qed (rule pf_step_inv)

text \<open>
  C25.  The list of active connections has no dead entries: whatever tunnels are started, in whatever order their tasks
  run, fail and end, and whichever are closed, a listed connection belongs to a task that is still running, is in
  the middle of its tunnel and will remove the entry when it ends.
\<close>

theorem listed_connections_live:
  assumes "pf_reachable s" "c \<in> set (get_active_connections (fw_conns s))"
  shows "\<exists>t\<in>set (fw_tasks s). holds_entry t \<and> pt_uuid t = ac_uuid c"
proof -
  obtain k where "(k, c) \<in> set (fw_conns s)" using assms(2) by (auto simp: get_active_connections_def)
  then have "ac_uuid c = k" "k \<in> conn_keys (fw_conns s)"
    using pf_reachable_inv [OF assms(1)] by (force simp: pf_inv_def keyed_def conn_keys_def)+
  then show ?thesis using pf_reachable_inv [OF assms(1)] by (simp add: pf_inv_def)
qed

text \<open>A relay tunnel that has been entered.\<close>

theorem listed_connections_live_witness:
  "let t = (register_relay ''u'' ''p'' 22)\<lparr>pt_phase := Bridging\<rparr>;
       s = \<lparr>fw_tasks = [t], fw_conns = [(''u'', new_conn ''u'' Relay ''p'' None 7)]\<rparr>
   in pf_reachable s \<and> (\<exists>t\<in>set (fw_tasks s). holds_entry t \<and> pt_uuid t = ''u'')"
proof -
  let ?t0 = "register_relay ''u'' ''p'' 22" let ?t1 = "?t0\<lparr>pt_phase := Connecting\<rparr>" let ?t2 = "?t0\<lparr>pt_phase := Bridging\<rparr>"
  let ?c = "new_conn ''u'' Relay ''p'' None 7"
  have "pf_step \<lparr>fw_tasks = [], fw_conns = []\<rparr> \<lparr>fw_tasks = [?t0], fw_conns = []\<rparr>"
    using pf_start [of ?t0 "\<lparr>fw_tasks = [], fw_conns = []\<rparr>"] started.intros(3) by simp
  then have r0: "pf_reachable \<lparr>fw_tasks = [?t0], fw_conns = []\<rparr>" using pf_init pf_next by blast
  have "pf_turn 7 [] (Handshaken True) ?t0 [] = (Some ?t1, [], [])"
    by (simp add: pf_turn_def relay_inbound_def register_relay_def goes_on_def)
  then have "pf_step \<lparr>fw_tasks = [?t0], fw_conns = []\<rparr> \<lparr>fw_tasks = [?t1], fw_conns = []\<rparr>"
    using pf_run [of "\<lparr>fw_tasks = [?t0], fw_conns = []\<rparr>" "[]" ?t0 "[]"] by fastforce
  then have r1: "pf_reachable \<lparr>fw_tasks = [?t1], fw_conns = []\<rparr>" using r0 pf_next by blast
  have "pf_turn 7 [] (Connected True) ?t1 [] = (Some ?t2, [], [(''u'', ?c)])"
    by (simp add: pf_turn_def relay_inbound_def register_relay_def goes_on_def register_conn_def)
  then have "pf_step \<lparr>fw_tasks = [?t1], fw_conns = []\<rparr> \<lparr>fw_tasks = [?t2], fw_conns = [(''u'', ?c)]\<rparr>"
    using pf_run [of "\<lparr>fw_tasks = [?t1], fw_conns = []\<rparr>" "[]" ?t1 "[]"] by fastforce
  then have r2: "pf_reachable \<lparr>fw_tasks = [?t2], fw_conns = [(''u'', ?c)]\<rparr>" using r1 pf_next by blast
  show ?thesis using listed_connections_live [OF r2, of ?c] r2 by (simp add: Let_def get_active_connections_def)
qed

end
