(* ===== verification/Server_Start.thy ===== *)
theory Server_Start
  imports Server_Cmd
begin

text \<open>
  The start of the rendezvous server: its key files (\<open>gen_sk\<close> of \<open>common.rs\<close>), the arguments in \<open>main.rs\<close>,
  \<open>RendezvousServer::start\<close> with the sockets it needs, a turn of \<open>io_loop\<close>, and the tool of \<open>utils.rs\<close>
  that checks a key pair.
\<close>

section \<open>Environment\<close>

text \<open>
  Base64, the key pairs the library generates one after the other, which files can be opened, read, created and written,
  the database, the netmask, the local address, and which ports can be bound.
\<close>

record start_env =
  he_b64_decode :: "string \<Rightarrow> bytes option"
  he_b64_encode :: "bytes \<Rightarrow> string"
  he_keypair :: "nat \<Rightarrow> bytes \<times> bytes"
  he_open :: "string \<Rightarrow> bool"
  he_readable :: "string \<Rightarrow> bool"
  he_create :: "string \<Rightarrow> bool"
  he_write :: "string \<Rightarrow> bool"
  he_open_db :: "string \<Rightarrow> peer_map option"
  he_resolves :: "string \<Rightarrow> bool"
  he_mask :: "string \<Rightarrow> (ipv4_addr \<Rightarrow> bool) option"
  he_local_ip :: "string option"
  he_udp :: "bool \<Rightarrow> u16 \<Rightarrow> bool"
  he_tcp :: "u16 \<Rightarrow> bool"
  he_parse_addr :: "string \<Rightarrow> socket_addr option"

type_synonym text_files = "string \<rightharpoonup> string"

section \<open>Key files\<close>

definition SK_FILE :: string where "SK_FILE = ''id_ed25519''"
definition PK_FILE :: string where "PK_FILE = ''id_ed25519.pub''"

text \<open>A new pair whose public key has neither a slash nor a colon as text, among the first 301.\<close>

fun choose_key :: "start_env \<Rightarrow> nat \<Rightarrow> nat \<Rightarrow> string \<times> bytes" where
  "choose_key he tries i =
     (let pk = he_b64_encode he (fst (he_keypair he i)) in
      if tries = 0 \<or> (CHR ''/'' \<notin> set pk \<and> CHR '':'' \<notin> set pk) then (pk, snd (he_keypair he i))
      else choose_key he (tries - 1) (i + 1))"

text \<open>A file that is created is empty until it is written.  A malformed key ends the process.\<close>

datatype gen_result = KeyPair string bytes | NoKey | FatalKey

definition gen_sk :: "start_env \<Rightarrow> text_files \<Rightarrow> text_files \<times> gen_result" where
  "gen_sk he fs =
     (case (if he_open he SK_FILE then fs SK_FILE else None) of
        Some contents \<Rightarrow>
          if \<not> he_readable he SK_FILE then (fs, NoKey)
          else let sk = (case he_b64_decode he (trim contents) of Some b \<Rightarrow> b | None \<Rightarrow> [])
               in if length sk = 64 then (fs, KeyPair (he_b64_encode he (drop 32 sk)) sk) else (fs, FatalKey)
      | None \<Rightarrow>
          let (pk, sk) = choose_key he 300 0 in
          if \<not> he_create he PK_FILE then (fs, NoKey)
          else let fs1 = fs(PK_FILE \<mapsto> if he_write he PK_FILE then pk else []) in
          if \<not> he_create he SK_FILE then (fs1, NoKey)
          else if he_write he SK_FILE then (fs1(SK_FILE \<mapsto> he_b64_encode he sk), KeyPair pk sk)
          else (fs1(SK_FILE \<mapsto> []), NoKey))"

definition gen_pair :: "gen_result \<Rightarrow> (string \<times> bytes option) option" where
  "gen_pair r = (case r of KeyPair pk sk \<Rightarrow> Some (pk, Some sk) | NoKey \<Rightarrow> Some ([], None) | FatalKey \<Rightarrow> None)"

section \<open>Arguments\<close>

datatype start_error = BadPort | InvalidPort | KeyExit | NoDatabase | CannotListen u16 | BadTestAddr

record hbbs_args =
  ha_port :: int
  ha_rmem :: nat
  ha_serial :: int
  ha_key :: string
  ha_db_url :: string
  ha_jwt_secret :: string

definition db_url :: "environ \<Rightarrow> string" where
  "db_url env = (case env ''DB_URL'' of Some u \<Rightarrow> u | None \<Rightarrow> ''./db_v2.sqlite3'')"

definition hbbs_main :: "environ \<Rightarrow> start_error + hbbs_args" where
  "hbbs_main env =
     (case parse_signed i32_max (get_arg_or env ''port'' ''21116'') of
        None \<Rightarrow> Inl BadPort
      | Some port \<Rightarrow>
          if port < 3 then Inl InvalidPort
          else Inr \<lparr>ha_port = port,
                    ha_rmem = (case parse_usize (get_arg env ''rmem'') of Some n \<Rightarrow> n | None \<Rightarrow> 0),
                    ha_serial = (case parse_signed i32_max (get_arg env ''serial'') of Some n \<Rightarrow> n | None \<Rightarrow> 0),
                    ha_key = get_arg_or env ''key'' ''-'',
                    ha_db_url = db_url env,
                    ha_jwt_secret = (case env ''JWT_SECRET'' of Some s \<Rightarrow> s | None \<Rightarrow> ''your-secret-key-change-in-production'')\<rparr>)"

section \<open>Start\<close>

text \<open>\<open>create_udp_listener\<close> tries IPv6 and then IPv4; the ports are cut to 16 bits.\<close>

definition port_u16 :: "int \<Rightarrow> u16" where "port_u16 p = word_of_int p"

definition create_udp_listener :: "start_env \<Rightarrow> int \<Rightarrow> bool" where
  "create_udp_listener he port \<longleftrightarrow> he_udp he True (port_u16 port) \<or> he_udp he False (port_u16 port)"

definition create_tcp_listener :: "start_env \<Rightarrow> int \<Rightarrow> bool" where
  "create_tcp_listener he port \<longleftrightarrow> he_tcp he (port_u16 port)"

definition start_inner :: "start_env \<Rightarrow> environ \<Rightarrow> int \<Rightarrow> bytes option \<Rightarrow> inner" where
  "start_inner he env serial sk =
     (let software_url = get_arg env ''software-url''; mask = he_mask he (get_arg env ''mask'')
      in \<lparr>in_serial = word_of_int serial, in_version = get_version_from_url software_url, in_software_url = software_url, in_mask = mask,
          in_local_ip = (if mask = None then [] else get_arg_or env ''local-ip'' (case he_local_ip he of Some ip \<Rightarrow> ip | None \<Rightarrow> [])),
          in_sk = sk\<rparr>)"

definition start_shared :: "environ \<Rightarrow> peer_map \<Rightarrow> shared" where
  "start_shared env pm =
     \<lparr>sh_tcp_punch = [], sh_pm = pm, sh_tx = [], sh_ip_blocker = [], sh_ip_changes = [], sh_punch_reqs = [], sh_rotation = 0,
      sh_always_use_relay = (case env ''ALWAYS_USE_RELAY'' of Some v \<Rightarrow> to_uppercase v = ''Y'' | None \<Rightarrow> False)\<rparr>"

text \<open>
  The self test asked for by \<open>TEST_HBBS\<close>: the address is parsed only when the value is some writing of yes, and then
  the value itself is parsed.
\<close>

definition test_addr :: "start_env \<Rightarrow> environ \<Rightarrow> start_error + socket_addr option" where
  "test_addr he env =
     (let v = (case env ''TEST_HBBS'' of Some v \<Rightarrow> v | None \<Rightarrow> []) in
      if to_lower v = ''yes'' then (case he_parse_addr he v of Some a \<Rightarrow> Inr (Some a) | None \<Rightarrow> Inl BadTestAddr)
      else Inr None)"

text \<open>The key argument after the first half of \<open>get_server_sk\<close>; the key files are used when it is empty or a dash.\<close>

definition key_text :: "start_env \<Rightarrow> string \<Rightarrow> string" where
  "key_text he key =
     (case he_b64_decode he key of
        Some sk \<Rightarrow> if length sk = 64 then he_b64_encode he (drop 32 sk) else key
      | None \<Rightarrow> key)"

definition rendezvous_start ::
    "start_env \<Rightarrow> environ \<Rightarrow> text_files \<Rightarrow> int \<Rightarrow> int \<Rightarrow> string \<Rightarrow>
     text_files \<times> (start_error + string \<times> server_cfg \<times> shared)" where
  "rendezvous_start he env fs port serial key0 =
     (let (fs1, gen) = (if key_text he key0 \<in> {[], ''-'', ''_''} then map_prod id gen_pair (gen_sk he fs) else (fs, Some ([], None)))
      in case gen of
           None \<Rightarrow> (fs1, Inl KeyExit)
         | Some g \<Rightarrow>
             let (key, sk) = get_server_sk (he_b64_decode he) (he_b64_encode he) g key0 in
             (fs1,
              case he_open_db he (db_url env) of
                None \<Rightarrow> Inl NoDatabase
              | Some pm \<Rightarrow>
                  let renv_resolves = he_resolves he;
                      cfg0 = \<lparr>sc_relay_servers = [], sc_relay_servers0 = [],
                              sc_rendezvous_servers = get_servers renv_resolves (get_arg env ''rendezvous-servers''),
                              sc_inner = start_inner he env serial sk\<rparr>;
                      rs = get_servers renv_resolves (get_arg env ''relay-servers'');
                      cfg = cfg0\<lparr>sc_relay_servers0 := rs, sc_relay_servers := rs\<rparr>
                  in if \<not> create_udp_listener he port then Inl (CannotListen (port_u16 port))
                     else if \<not> create_tcp_listener he port then Inl (CannotListen (port_u16 port))
                     else if \<not> create_tcp_listener he (port - 1) then Inl (CannotListen (port_u16 (port - 1)))
                     else if \<not> create_tcp_listener he (port + 2) then Inl (CannotListen (port_u16 (port + 2)))
                     else (case test_addr he env of
                             Inl e \<Rightarrow> Inl e
                           | Inr _ \<Rightarrow> Inr (key, cfg, start_shared env pm))))"

section \<open>Loop\<close>

text \<open>
  What \<open>select!\<close> of \<open>io_loop\<close> may take: the timer, the head of the queue, a datagram (with whether the answers could be
  sent), the failure of a socket, or a connection.  A connection is handed to a task, which the
  result names by its listener and address.
\<close>

datatype loop_failure = FailUdp | FailListener3 | FailListener2 | FailListener

datatype io_event =
    IoTimer "string \<Rightarrow> bool" | IoQueue | IoUdp bytes socket_addr bool | IoUdpError | IoAcceptError loop_failure
  | IoAccept loop_failure socket_addr

record io_result =
  io_cfg :: server_cfg
  io_shared :: shared
  io_outs :: "out list"
  io_sent :: "(bytes \<times> socket_addr) list"
  io_spawned :: "(loop_failure \<times> socket_addr) list"
  io_failure :: "loop_failure option"

definition io_idle :: "server_cfg \<Rightarrow> shared \<Rightarrow> io_result" where
  "io_idle cfg sh = \<lparr>io_cfg = cfg, io_shared = sh, io_outs = [], io_sent = [], io_spawned = [], io_failure = None\<rparr>"

definition io_turn :: "renv \<Rightarrow> string \<Rightarrow> io_event \<Rightarrow> server_cfg \<Rightarrow> shared \<Rightarrow> io_result" where
  "io_turn env key ev cfg sh =
     (case ev of
        IoTimer reachable \<Rightarrow> io_idle cfg (timer_tick reachable cfg sh)
      | IoQueue \<Rightarrow>
          (case sh_tx sh of
             [] \<Rightarrow> io_idle cfg sh
           | d # rest \<Rightarrow> (case recv_data env d cfg of (cfg1, sent) \<Rightarrow> (io_idle cfg1 (sh\<lparr>sh_tx := rest\<rparr>))\<lparr>io_sent := sent\<rparr>))
      | IoUdp bs addr ok \<Rightarrow>
          (case handle_udp env bs addr key cfg sh of
             (cfg1, sh1, outs) \<Rightarrow>
               (io_idle cfg1 sh1)\<lparr>io_outs := outs, io_failure := (if outs \<noteq> [] \<and> \<not> ok then Some FailUdp else None)\<rparr>)
      | IoUdpError \<Rightarrow> (io_idle cfg sh)\<lparr>io_failure := Some FailUdp\<rparr>
      | IoAcceptError l \<Rightarrow> (io_idle cfg sh)\<lparr>io_failure := Some l\<rparr>
      | IoAccept l addr \<Rightarrow> (io_idle cfg sh)\<lparr>io_spawned := [(l, addr)]\<rparr>)"

text \<open>The loop around \<open>io_loop\<close>: the socket that failed is made again, or the server ends.\<close>

definition remake_socket :: "start_env \<Rightarrow> int \<Rightarrow> loop_failure \<Rightarrow> bool" where
  "remake_socket he port f =
     (case f of FailUdp \<Rightarrow> create_udp_listener he port | FailListener \<Rightarrow> create_tcp_listener he port
      | FailListener2 \<Rightarrow> create_tcp_listener he (port - 1) | FailListener3 \<Rightarrow> create_tcp_listener he (port + 2))"

fun main_task ::
    "start_env \<Rightarrow> int \<Rightarrow> string \<Rightarrow> (renv \<times> io_event) list \<Rightarrow> server_cfg \<Rightarrow> shared \<Rightarrow> server_cfg \<times> shared \<times> bool" where
  "main_task he port key [] cfg sh = (cfg, sh, True)"
| "main_task he port key ((env, ev) # evs) cfg sh =
     (let r = io_turn env key ev cfg sh in
      case io_failure r of
        Some f \<Rightarrow> if remake_socket he port f then main_task he port key evs (io_cfg r) (io_shared r) else (io_cfg r, io_shared r, False)
      | None \<Rightarrow> main_task he port key evs (io_cfg r) (io_shared r))"

section \<open>The self test\<close>

text \<open>
  \<open>test_hbbs\<close> on its events: a tick of the timer, with whether the question could be sent, and a datagram.  It
  ends with an error when nothing has been understood for more than twelve seconds.
\<close>

datatype test_event = TestTick instant bool | TestDatagram instant bytes

fun test_hbbs :: "wire \<Rightarrow> instant \<Rightarrow> test_event list \<Rightarrow> bool" where
  "test_hbbs w last_recv [] = True"
| "test_hbbs w last_recv (TestTick now sent # evs) =
     (if 12 < as_secs (elapsed now last_recv) then False else sent \<and> test_hbbs w last_recv evs)"
| "test_hbbs w last_recv (TestDatagram now bs # evs) =
     test_hbbs w (if parse_msg w bs = None then last_recv else now) evs"

section \<open>Key tool\<close>

text \<open>\<open>sign::sign\<close> and \<open>sign::verify\<close> of the library.\<close>

record sign_lib =
  sl_sign :: "bytes \<Rightarrow> bytes \<Rightarrow> bytes"
  sl_verify :: "bytes \<Rightarrow> bytes \<Rightarrow> bytes option"

datatype tool_error = InvalidSecretKey | InvalidPublicKey | InvalidPair

definition validate_keypair :: "start_env \<Rightarrow> sign_lib \<Rightarrow> string \<Rightarrow> string \<Rightarrow> tool_error + unit" where
  "validate_keypair he sl pk sk =
     (case he_b64_decode he sk of
        None \<Rightarrow> Inl InvalidSecretKey
      | Some secret_key \<Rightarrow>
          if length secret_key \<noteq> 64 then Inl InvalidSecretKey
          else (case he_b64_decode he pk of
              None \<Rightarrow> Inl InvalidPublicKey
            | Some public_key \<Rightarrow>
                if length public_key \<noteq> 32 then Inl InvalidPublicKey
                else let test = map of_char ''This is meh.'' in
                (case sl_verify sl (sl_sign sl test secret_key) public_key of
                   Some verified \<Rightarrow> if verified = test then Inr () else Inl InvalidPair
                 | None \<Rightarrow> Inl InvalidPair)))"

section \<open>Lemmas\<close>

text \<open>What the libraries document: Base64 is undone by decoding and has no blanks, and a secret key ends with its public key.\<close>

definition key_lib_ok :: "start_env \<Rightarrow> bool" where
  "key_lib_ok he \<longleftrightarrow>
     (\<forall>b. he_b64_decode he (he_b64_encode he b) = Some b \<and> trim (he_b64_encode he b) = he_b64_encode he b) \<and>
     (\<forall>i. length (snd (he_keypair he i)) = 64 \<and> drop 32 (snd (he_keypair he i)) = fst (he_keypair he i))"

lemma choose_key_pair: "\<exists>j. choose_key he n i = (he_b64_encode he (fst (he_keypair he j)), snd (he_keypair he j))"
proof (induction n arbitrary: i)
  case (Suc n)
  then show ?case by (subst choose_key.simps) (auto simp: Let_def)
qed (auto simp: Let_def)

declare choose_key.simps [simp del]

lemma gen_sk_files:
  assumes "gen_sk he fs = (fs', KeyPair pk sk)" "key_lib_ok he"
  shows "(case fs' SK_FILE of Some s \<Rightarrow> he_b64_decode he (trim s) = Some sk | None \<Rightarrow> False) \<and>
    length sk = 64 \<and> pk = he_b64_encode he (drop 32 sk)"
proof (cases "if he_open he SK_FILE then fs SK_FILE else None")
  case None
  obtain j where "choose_key he 300 0 = (he_b64_encode he (fst (he_keypair he j)), snd (he_keypair he j))"
    using choose_key_pair by blast
  then show ?thesis
    using assms None by (auto simp: gen_sk_def Let_def key_lib_ok_def split: if_splits)
next
  case (Some s)
  then show ?thesis
    using assms by (auto simp: gen_sk_def Let_def split: if_splits option.splits)
qed

text \<open>
  C26.  The key of the server survives a restart.  When a start has ended with a key pair, read from the files or newly made, every
  later start that can read the secret key file finds the same pair and writes nothing; so the clients'
  key stays valid.
\<close>

theorem server_key_survives_restart:
  assumes "gen_sk he fs = (fs', KeyPair pk sk)" "key_lib_ok he"
    and "he_b64_decode he2 = he_b64_decode he" "he_b64_encode he2 = he_b64_encode he" "he_open he2 SK_FILE" "he_readable he2 SK_FILE"
  shows "gen_sk he2 fs' = (fs', KeyPair pk sk)"
  using gen_sk_files [OF assms(1,2)] assms(3-6)
  by (auto simp: gen_sk_def Let_def split: option.splits)

text \<open>The pair that is written to the two files is valid for the tool.\<close>

lemma generated_key_validates:
  assumes "fs SK_FILE = None" "gen_sk he fs = (fs', KeyPair pk sk)" "key_lib_ok he" "he_write he PK_FILE"
    and "\<And>i m. sl_verify sl (sl_sign sl m (snd (he_keypair he i))) (fst (he_keypair he i)) = Some m"
    and "\<And>i. length (fst (he_keypair he i)) = 32"
  shows "\<exists>p s. fs' PK_FILE = Some p \<and> fs' SK_FILE = Some s \<and> validate_keypair he sl p s = Inr ()"
proof -
  obtain j where j: "choose_key he 300 0 = (he_b64_encode he (fst (he_keypair he j)), snd (he_keypair he j))"
    using choose_key_pair by blast
  have "fs' PK_FILE = Some (he_b64_encode he (fst (he_keypair he j)))" "fs' SK_FILE = Some (he_b64_encode he (snd (he_keypair he j)))"
    using assms(1,2,4) j by (auto simp: gen_sk_def Let_def PK_FILE_def SK_FILE_def split: if_splits)
  then show ?thesis using assms(3,5,6) by (simp add: validate_keypair_def key_lib_ok_def Let_def)
qed

text \<open>A secret key file that could be created but not written ends every later start.\<close>

lemma failed_write_is_fatal:
  assumes "fs SK_FILE = None" "he_create he PK_FILE" "he_create he SK_FILE" "\<not> he_write he SK_FILE"
    and "he_b64_decode he2 [] = Some []" "he_open he2 SK_FILE" "he_readable he2 SK_FILE"
  shows "snd (gen_sk he2 (fst (gen_sk he fs))) = FatalKey"
proof -
  have "fst (gen_sk he fs) SK_FILE = Some []"
    using assms(1-4) by (cases "choose_key he 300 0") (simp add: gen_sk_def Let_def)
  then show ?thesis using assms(5-7) by (simp add: gen_sk_def trim_def)
qed

text \<open>With the self test asked for, the server does not start.\<close>

lemma self_test_prevents_start:
  assumes "env ''TEST_HBBS'' = Some v" "to_lower v = ''yes''" "he_parse_addr he v = None"
  shows "\<exists>e. snd (rendezvous_start he env fs port serial key0) = Inl e"
  using assms by (auto simp: rendezvous_start_def test_addr_def Let_def split: option.splits prod.splits)

text \<open>A port above 65535 is accepted and another one is used.\<close>

lemma port_wraps: "port_u16 (65536 + p) = port_u16 p"
  by (simp add: port_u16_def)

lemma large_port_accepted: "\<exists>a. hbbs_main [''PORT'' \<mapsto> ''65600''] = Inr a \<and> ha_port a = 65600 \<and> port_u16 (ha_port a) = 64"
proof -
  have "arg_name ''port'' = ''PORT''" by code_simp
  then show ?thesis
    by (simp add: hbbs_main_def get_arg_or_def parse_signed_def parse_unsigned_def parse_nat_def is_digit_def i32_max_def port_u16_def)
qed

text \<open>The failure of a socket loses no state: the loop goes on with what it had.\<close>

lemma socket_failure_keeps_state:
  assumes "io_failure (io_turn env key ev cfg sh) = Some f" "remake_socket he port f" "\<And>bs a ok. ev \<noteq> IoUdp bs a ok"
  shows "main_task he port key ((env, ev) # evs) cfg sh = main_task he port key evs cfg sh"
  using assms by (cases ev) (auto simp: io_turn_def io_idle_def split: list.splits prod.splits)

section \<open>Witness\<close>

text \<open>A writing of bytes as text with a mark at both ends.\<close>

definition mark_encode :: "bytes \<Rightarrow> string" where
  "mark_encode b = CHR ''k'' # map (\<lambda>w. char_of (unat w)) b @ ''k''"

definition mark_decode :: "string \<Rightarrow> bytes option" where
  "mark_decode s = Some (map (\<lambda>c. of_nat (of_char c)) (butlast (tl s)))"

lemma mark_ok: "mark_decode (mark_encode b) = Some b" "trim (mark_encode b) = mark_encode b"
proof -
  have "(of_nat (of_char (char_of (unat w) :: char)) :: u8) = w" for w :: u8
  proof -
    have "unat w < 256" using unsigned_less [of w] by simp
    then show ?thesis by (simp add: of_char_of)
  qed
  then show "mark_decode (mark_encode b) = Some b" by (simp add: mark_decode_def mark_encode_def comp_def)
  show "trim (mark_encode b) = mark_encode b" by (simp add: trim_def mark_encode_def is_space_def)
qed

definition start_sample :: start_env where
  "start_sample = \<lparr>he_b64_decode = mark_decode, he_b64_encode = mark_encode,
     he_keypair = (\<lambda>i. (replicate 32 2, replicate 32 1 @ replicate 32 2)),
     he_open = (\<lambda>_. True), he_readable = (\<lambda>_. True), he_create = (\<lambda>_. True), he_write = (\<lambda>_. True), he_open_db = (\<lambda>_. None), he_resolves = (\<lambda>_. False),
     he_mask = (\<lambda>_. None), he_local_ip = None, he_udp = (\<lambda>_ _. True), he_tcp = (\<lambda>_. True), he_parse_addr = (\<lambda>_. None)\<rparr>"

theorem server_key_survives_restart_witness:
  "\<exists>fs' pk sk. gen_sk start_sample Map.empty = (fs', KeyPair pk sk) \<and> gen_sk start_sample fs' = (fs', KeyPair pk sk)"
proof -
  have ok: "key_lib_ok start_sample" by (simp add: key_lib_ok_def start_sample_def mark_ok)
  obtain fs' pk sk where g: "gen_sk start_sample Map.empty = (fs', KeyPair pk sk)"
    by (cases "choose_key start_sample 300 0") (simp add: gen_sk_def start_sample_def Let_def)
  have "he_open start_sample SK_FILE" "he_readable start_sample SK_FILE" by (simp_all add: start_sample_def)
  then show ?thesis using server_key_survives_restart [OF g ok refl refl] g by blast
qed

end
