(* ===== verification/File_System.thy ===== *)
theory File_System
  imports Text_Lines "HOL-Library.Sublist"
begin

text \<open>
  The part of a POSIX file system that the file transfer of the shared library uses: directories, files and symbolic links,
  paths as texts, their resolution, and the system calls behind \<open>std::fs\<close>.  A file system is a map
  from locations; a location is the list of names from the root.  Names of open files are their locations,
  so a file that is renamed while it is open is not followed; no operation of a transfer writes to a
  file after it was renamed.
\<close>

section \<open>Paths and their resolution\<close>

type_synonym loc = "string list"

text \<open>
  A file has its bytes and the time of its last change in nanoseconds since 1970, a link the text of its target.  The times of
  directories are left out and read as 0.
\<close>

datatype fnode = FDir | FFile bytes nat | FLink string

type_synonym fsys = "loc \<Rightarrow> fnode option"

datatype os_error = ENOENT | ENOTDIR | EISDIR | ELOOP | ENAMETOOLONG | EACCES | EEXIST | EBADF | EIO | EINVAL | ENOTEMPTY

definition node :: "fsys \<Rightarrow> loc \<Rightarrow> fnode option" where
  "node fs l = (if l = [] then Some FDir else fs l)"

definition is_absolute :: "string \<Rightarrow> bool" where
  "is_absolute p \<longleftrightarrow> p \<noteq> [] \<and> hd p = CHR ''/''"

text \<open>The names in a path: repeated and trailing separators and single dots say nothing.\<close>

definition comps :: "string \<Rightarrow> string list" where
  "comps p = filter (\<lambda>c. c \<noteq> [] \<and> c \<noteq> ''.'') (split_on CHR ''/'' p)"

text \<open>
  Walking from a directory along names, at most \<open>n\<close> links deep.  The last name need not exist, and is looked up only
  when links are followed there too.
\<close>

fun walk :: "fsys \<Rightarrow> nat \<Rightarrow> bool \<Rightarrow> loc \<Rightarrow> string list \<Rightarrow> os_error + loc" where
  "walk fs n follow cur [] = Inr cur"
| "walk fs n follow cur (c # cs) =
     (if c = ''..'' then walk fs n follow (butlast cur) cs
      else if cs = [] \<and> \<not> follow then Inr (cur @ [c])
      else (case fs (cur @ [c]) of
          None \<Rightarrow> if cs = [] then Inr (cur @ [c]) else Inl ENOENT
        | Some FDir \<Rightarrow> walk fs n follow (cur @ [c]) cs
        | Some (FFile _ _) \<Rightarrow> if cs = [] then Inr (cur @ [c]) else Inl ENOTDIR
        | Some (FLink t) \<Rightarrow>
            (case n of 0 \<Rightarrow> Inl ELOOP | Suc m \<Rightarrow> walk fs m follow (if is_absolute t then [] else cur) (comps t @ cs))))"

text \<open>
  What the system decides: the working directory, the clock, where the process may change something, which reads
  succeed and how many bytes the k-th read may return, and the names in a directory.
\<close>

record os_env =
  os_cwd :: loc
  os_now :: nat
  os_permits :: "loc \<Rightarrow> bool"
  os_reads :: "loc \<Rightarrow> bool"
  os_grant :: "nat \<Rightarrow> nat"
  os_list :: "loc \<Rightarrow> string list"

definition MAX_LINKS :: nat where "MAX_LINKS = 40"
definition PATH_MAX :: nat where "PATH_MAX = 4096"

definition locate :: "os_env \<Rightarrow> fsys \<Rightarrow> bool \<Rightarrow> string \<Rightarrow> os_error + loc" where
  "locate os fs follow p =
     (if p = [] then Inl ENOENT
      else if PATH_MAX \<le> length p then Inl ENAMETOOLONG
      else if char_of (0 :: nat) \<in> set p then Inl EINVAL
      else walk fs MAX_LINKS follow (if is_absolute p then [] else os_cwd os) (comps p))"

text \<open>\<open>Path::join\<close>, and \<open>format!\<close> of a path with a suffix is \<open>@\<close>.\<close>

definition join_path :: "string \<Rightarrow> string \<Rightarrow> string" where
  "join_path p name =
     (if is_absolute name then name else if p = [] \<or> last p = CHR ''/'' then p @ name else p @ CHR ''/'' # name)"

section \<open>System calls\<close>

text \<open>\<open>metadata\<close> follows links, \<open>symlink_metadata\<close> does not follow the last one.\<close>

definition stat :: "os_env \<Rightarrow> fsys \<Rightarrow> bool \<Rightarrow> string \<Rightarrow> os_error + fnode" where
  "stat os fs follow p =
     (case locate os fs follow p of
        Inl e \<Rightarrow> Inl e
      | Inr l \<Rightarrow> (case node fs l of None \<Rightarrow> Inl ENOENT | Some x \<Rightarrow> Inr x))"

definition path_exists :: "os_env \<Rightarrow> fsys \<Rightarrow> string \<Rightarrow> bool" where
  "path_exists os fs p = (case stat os fs True p of Inr _ \<Rightarrow> True | Inl _ \<Rightarrow> False)"

definition is_dir :: "os_env \<Rightarrow> fsys \<Rightarrow> string \<Rightarrow> bool" where
  "is_dir os fs p \<longleftrightarrow> stat os fs True p = Inr FDir"

definition is_file :: "os_env \<Rightarrow> fsys \<Rightarrow> string \<Rightarrow> bool" where
  "is_file os fs p = (case stat os fs True p of Inr (FFile _ _) \<Rightarrow> True | _ \<Rightarrow> False)"

definition os_open :: "os_env \<Rightarrow> fsys \<Rightarrow> string \<Rightarrow> os_error + loc" where
  "os_open os fs p =
     (case locate os fs True p of
        Inl e \<Rightarrow> Inl e
      | Inr l \<Rightarrow> if node fs l = None then Inl ENOENT else if os_reads os l then Inr l else Inl EACCES)"

text \<open>\<open>File::create\<close> truncates; \<open>OpenOptions::create(true).write(true)\<close> does not.\<close>

definition os_open_write :: "bool \<Rightarrow> os_env \<Rightarrow> fsys \<Rightarrow> string \<Rightarrow> os_error + loc \<times> fsys" where
  "os_open_write trunc os fs p =
     (case locate os fs True p of
        Inl e \<Rightarrow> Inl e
      | Inr l \<Rightarrow>
          (case node fs l of
             Some FDir \<Rightarrow> Inl EISDIR
           | Some (FFile c t) \<Rightarrow>
               if os_permits os l then Inr (l, if trunc then fs(l \<mapsto> FFile [] (os_now os)) else fs) else Inl EACCES
           | Some (FLink _) \<Rightarrow> Inl ELOOP
           | None \<Rightarrow> if os_permits os l then Inr (l, fs(l \<mapsto> FFile [] (os_now os))) else Inl EACCES))"

definition overwrite_at :: "bytes \<Rightarrow> nat \<Rightarrow> bytes \<Rightarrow> bytes" where
  "overwrite_at c off data = take off c @ replicate (off - length c) 0 @ data @ drop (off + length data) c"

definition os_write_at :: "os_env \<Rightarrow> fsys \<Rightarrow> loc \<Rightarrow> nat \<Rightarrow> bytes \<Rightarrow> os_error + fsys" where
  "os_write_at os fs l off data =
     (if \<not> os_permits os l then Inl EIO
      else (case fs l of Some (FFile c t) \<Rightarrow> Inr (fs(l \<mapsto> FFile (overwrite_at c off data) (os_now os))) | _ \<Rightarrow> Inr fs))"

definition os_remove_file :: "os_env \<Rightarrow> fsys \<Rightarrow> string \<Rightarrow> os_error + fsys" where
  "os_remove_file os fs p =
     (case locate os fs False p of
        Inl e \<Rightarrow> Inl e
      | Inr l \<Rightarrow>
          (case node fs l of
             None \<Rightarrow> Inl ENOENT
           | Some FDir \<Rightarrow> Inl EISDIR
           | Some _ \<Rightarrow> if os_permits os l then Inr (fs(l := None)) else Inl EACCES))"

text \<open>A file or link replaces what is not a directory; a directory moves with all it holds, to a place that is free.\<close>

definition move_tree :: "loc \<Rightarrow> loc \<Rightarrow> fsys \<Rightarrow> fsys" where
  "move_tree src dst fs =
     (\<lambda>l. if prefix dst l then fs (src @ drop (length dst) l) else if prefix src l then None else fs l)"

definition os_rename :: "os_env \<Rightarrow> fsys \<Rightarrow> string \<Rightarrow> string \<Rightarrow> os_error + fsys" where
  "os_rename os fs p q =
     (case (locate os fs False p, locate os fs False q) of
        (Inr src, Inr dst) \<Rightarrow>
          if \<not> os_permits os src \<or> \<not> os_permits os dst then Inl EACCES
          else (case (node fs src, node fs dst) of
              (None, _) \<Rightarrow> Inl ENOENT
            | (Some FDir, None) \<Rightarrow> if prefix src dst then Inl EINVAL else Inr (move_tree src dst fs)
            | (Some FDir, Some FDir) \<Rightarrow> if src = dst then Inr fs else Inl ENOTEMPTY
            | (Some FDir, Some _) \<Rightarrow> Inl ENOTDIR
            | (Some x, Some FDir) \<Rightarrow> Inl EISDIR
            | (Some x, _) \<Rightarrow> if src = dst then Inr fs else Inr (fs(src := None, dst \<mapsto> x)))
      | (Inl e, _) \<Rightarrow> Inl e
      | (_, Inl e) \<Rightarrow> Inl e)"

definition os_set_mtime :: "os_env \<Rightarrow> fsys \<Rightarrow> string \<Rightarrow> nat \<Rightarrow> os_error + fsys" where
  "os_set_mtime os fs p t =
     (case locate os fs True p of
        Inl e \<Rightarrow> Inl e
      | Inr l \<Rightarrow>
          (case node fs l of
             None \<Rightarrow> Inl ENOENT
           | Some (FFile c _) \<Rightarrow> if os_permits os l then Inr (fs(l \<mapsto> FFile c t)) else Inl EACCES
           | _ \<Rightarrow> Inr fs))"

text \<open>\<open>create_dir_all\<close>: every missing directory on the way is made; what was made before a failure stays.\<close>

fun mkdirs :: "os_env \<Rightarrow> fsys \<Rightarrow> loc \<Rightarrow> string list \<Rightarrow> fsys \<times> bool" where
  "mkdirs os fs cur [] = (fs, True)"
| "mkdirs os fs cur (c # cs) =
     (case walk fs MAX_LINKS False cur [c] of
        Inl _ \<Rightarrow> (fs, False)
      | Inr l \<Rightarrow>
          if node fs l = None
          then (if os_permits os l then mkdirs os (fs(l \<mapsto> FDir)) l cs else (fs, False))
          else (case walk fs MAX_LINKS True cur [c] of
              Inr d \<Rightarrow> if node fs d = Some FDir then mkdirs os fs d cs else (fs, False)
            | Inl _ \<Rightarrow> (fs, False)))"

definition create_dir_all :: "os_env \<Rightarrow> fsys \<Rightarrow> string \<Rightarrow> fsys \<times> bool" where
  "create_dir_all os fs p = mkdirs os fs (if is_absolute p then [] else os_cwd os) (comps p)"

text \<open>\<open>path.parent()\<close> followed by \<open>create_dir_all\<close>.\<close>

definition create_parent :: "os_env \<Rightarrow> fsys \<Rightarrow> string \<Rightarrow> fsys" where
  "create_parent os fs p = fst (mkdirs os fs (if is_absolute p then [] else os_cwd os) (butlast (comps p)))"

text \<open>\<open>.ok()\<close> after a call that changes the file system.\<close>

definition or_same :: "fsys \<Rightarrow> os_error + fsys \<Rightarrow> fsys" where
  "or_same fs r = (case r of Inr fs' \<Rightarrow> fs' | Inl _ \<Rightarrow> fs)"

text \<open>Reading until the room is full or the file ends; every read returns at least one byte before the end.\<close>

function read_fill :: "(nat \<Rightarrow> nat) \<Rightarrow> nat \<Rightarrow> nat \<Rightarrow> bytes \<Rightarrow> bytes" where
  "read_fill grant k room rest =
     (let n = min (max 1 (grant k)) (min room (length rest)) in
      if n = 0 then [] else take n rest @ (if n = room then [] else read_fill grant (k + 1) (room - n) (drop n rest)))"
  by pat_completeness auto
termination by (relation "measure (\<lambda>(g, k, room, rest). room)") (auto simp: Let_def)

declare read_fill.simps [simp del]

lemma read_fill_eq: "read_fill grant k room rest = take room rest"
proof (induction grant k room rest rule: read_fill.induct)
  case (1 grant k room rest)
  define n where "n = min (max 1 (grant k)) (min room (length rest))"
  have n: "n \<le> room" "n = 0 \<longleftrightarrow> room = 0 \<or> rest = []" by (auto simp: n_def min_def max_def)
  have "read_fill grant (k + 1) (room - n) (drop n rest) = take (room - n) (drop n rest)" if "n \<noteq> 0" "n \<noteq> room"
    using 1 that by (simp add: n_def)
  moreover have "read_fill grant k room rest =
      (if n = 0 then [] else take n rest @ (if n = room then [] else read_fill grant (k + 1) (room - n) (drop n rest)))"
    unfolding n_def by (subst read_fill.simps) (simp only: Let_def)
  ultimately have "read_fill grant k room rest = (if n = 0 then [] else take n rest @ take (room - n) (drop n rest))"
    by simp
  also have "\<dots> = take room rest" using n by (auto simp: take_add [symmetric])
  finally show ?case .
qed

end
