(* ===== verification/File_Transfer.thy ===== *)
theory File_Transfer
  imports File_System
begin

text \<open>
  File transfer: \<open>libs/core-common/src/fs.rs\<close> on a POSIX system.  A job reads the files of one
  side and writes those of the other; blocks, digests, confirmations, skipping, resuming, and the checks of
  the names that a peer sends.
\<close>

section \<open>Data\<close>

datatype job_type = Generic | Printer

definition job_type_of_i32 :: "int \<Rightarrow> job_type" where
  "job_type_of_i32 v = (if v = 0 then Generic else if v = 1 then Printer else Generic)"

definition job_type_to_i32 :: "job_type \<Rightarrow> int" where
  "job_type_to_i32 t = (case t of Generic \<Rightarrow> 0 | Printer \<Rightarrow> 1)"

datatype file_type = DirType | DirLinkType | DirDriveType | FileType | FileLinkType

record file_entry =
  en_type :: file_type
  en_name :: string
  en_hidden :: bool
  en_size :: u64
  en_modified :: u64

datatype data_source = FilePath string | MemoryCursor bytes nat

text \<open>An open file with its position; a file is open either for reading or for writing.\<close>

datatype data_stream = FileStream loc nat bool | BufStream bytes nat

record file_digest =
  dg_size :: u64
  dg_modified :: u64

record transfer_job =
  tj_id :: int
  tj_type :: job_type
  tj_remote :: string
  tj_source :: data_source
  tj_show_hidden :: bool
  tj_is_remote :: bool
  tj_is_last_job :: bool
  tj_is_resume :: bool
  tj_file_num :: int
  tj_files :: "file_entry list"
  tj_conn_id :: int
  tj_stream :: "data_stream option"
  tj_total :: u64
  tj_finished :: u64
  tj_transferred :: u64
  tj_overwrite_detection :: bool
  tj_confirmed :: bool
  tj_skipped :: bool
  tj_waiting :: bool
  tj_overwrite_strategy :: "bool option"
  tj_digest :: file_digest

record transfer_meta =
  tm_id :: int
  tm_remote :: string
  tm_to :: string
  tm_show_hidden :: bool
  tm_file_num :: int
  tm_is_remote :: bool

record transfer_block =
  bk_id :: int
  bk_file_num :: int
  bk_data :: bytes
  bk_compressed :: bool

record transfer_digest =
  td_id :: int
  td_file_num :: int
  td_last_modified :: u64
  td_file_size :: u64
  td_is_identical :: bool
  td_transferred_size :: u64
  td_is_resume :: bool

datatype confirm_choice = Skip bool | OffsetBlk u32 | NoChoice

record send_confirm =
  cr_file_num :: int
  cr_choice :: confirm_choice

datatype ft_error =
    NullByte | Traversal | AbsoluteName | EmptyName | SymlinkComponent | ComponentCheck os_error | WrongId | WrongFileNum
  | NoStream | Sys os_error | NoDigestForBuf | NotExists | EmptyArgument | ConnectionLost | JobSkipped

text \<open>The messages the functions \<open>new_error\<close>, \<open>new_dir\<close>, \<open>new_block\<close>, \<open>new_done\<close> and \<open>send_current_digest\<close> build.\<close>

datatype file_msg =
    MsgError int ft_error int | MsgDir int string "file_entry list" | MsgBlock transfer_block | MsgDone int int
  | MsgDigest transfer_digest

text \<open>The system, the compression library (\<open>compress\<close> gives nothing when it fails), and digests as JSON.\<close>

record ft_env =
  ft_os :: os_env
  ft_compress :: "bytes \<Rightarrow> bytes option"
  ft_decompress :: "bytes \<Rightarrow> bytes option"
  ft_digest_json :: "file_digest \<Rightarrow> bytes"
  ft_parse_digest :: "bytes \<Rightarrow> file_digest option"

definition compress :: "ft_env \<Rightarrow> bytes \<Rightarrow> bytes" where
  "compress fe data = (case ft_compress fe data of Some b \<Rightarrow> b | None \<Rightarrow> [])"

definition decompress :: "ft_env \<Rightarrow> bytes \<Rightarrow> bytes" where
  "decompress fe data = (case ft_decompress fe data of Some b \<Rightarrow> b | None \<Rightarrow> [])"

text \<open>\<open>as usize\<close> of an \<open>i32\<close>, and \<open>+= 1\<close> on one.\<close>

definition as_usize :: "int \<Rightarrow> nat" where
  "as_usize i = nat (i mod 2 ^ 64)"

definition next_file_num :: "int \<Rightarrow> int" where
  "next_file_num i = (if i = int i32_max then - (2 ^ 31) else i + 1)"

section \<open>Listing\<close>

definition secs_u64 :: "nat \<Rightarrow> u64" where
  "secs_u64 ns = of_nat (as_secs ns)"

definition node_size :: "fnode \<Rightarrow> u64" where
  "node_size x = (case x of FFile c _ \<Rightarrow> of_nat (length c) | _ \<Rightarrow> 0)"

definition node_modified :: "fnode \<Rightarrow> u64" where
  "node_modified x = (case x of FFile _ t \<Rightarrow> secs_u64 t | _ \<Rightarrow> 0)"

text \<open>The names the system lists are those of files: not empty and without a separator.\<close>

definition dir_entry :: "os_env \<Rightarrow> fsys \<Rightarrow> string \<Rightarrow> bool \<Rightarrow> string \<Rightarrow> file_entry option" where
  "dir_entry os fs path include_hidden name =
     (let p = join_path path name; hidden = (hd name = CHR ''.'') in
      case stat os fs False p of
        Inl _ \<Rightarrow> None
      | Inr meta \<Rightarrow>
          if hidden \<and> \<not> include_hidden then None
          else let link = (case meta of FLink _ \<Rightarrow> True | _ \<Rightarrow> False);
                   (ty, size) = (if is_dir os fs p then (if link then DirLinkType else DirType, 0)
                                 else if link then (FileLinkType, 0) else (FileType, node_size meta))
               in Some \<lparr>en_type = ty, en_name = name, en_hidden = hidden, en_size = size, en_modified = node_modified meta\<rparr>)"

definition listed_names :: "os_env \<Rightarrow> loc \<Rightarrow> string list" where
  "listed_names os l = filter (\<lambda>c. c \<noteq> [] \<and> CHR ''/'' \<notin> set c) (os_list os l)"

definition read_dir :: "os_env \<Rightarrow> fsys \<Rightarrow> string \<Rightarrow> bool \<Rightarrow> ft_error + file_entry list" where
  "read_dir os fs path include_hidden =
     (case locate os fs True path of
        Inl e \<Rightarrow> Inl (Sys e)
      | Inr l \<Rightarrow>
          if node fs l \<noteq> Some FDir then Inl (Sys ENOTDIR)
          else if \<not> os_reads os l then Inl (Sys EACCES)
          else Inr (List.map_filter (dir_entry os fs path include_hidden) (listed_names os l)))"

lemma is_dir_short: "is_dir os fs p \<Longrightarrow> length p < PATH_MAX"
  by (auto simp: is_dir_def stat_def locate_def split: if_splits)

lemma join_path_longer:
  assumes "CHR ''/'' \<notin> set name" "name \<noteq> []"
  shows "length p < length (join_path p name)"
proof -
  have "\<not> is_absolute name" using assms by (cases name) (auto simp: is_absolute_def)
  then show ?thesis using assms(2) by (simp add: join_path_def)
qed

lemma dir_entry_name: "dir_entry os fs path h name = Some e \<Longrightarrow> en_name e = name"
  by (auto simp: dir_entry_def Let_def split: sum.splits if_splits)

lemma read_dir_names:
  assumes "read_dir os fs path h = Inr es" "e \<in> set es"
  shows "CHR ''/'' \<notin> set (en_name e) \<and> en_name e \<noteq> [] \<and> (\<exists>l. en_name e \<in> set (os_list os l))"
proof -
  obtain l where "es = List.map_filter (dir_entry os fs path h) (listed_names os l)"
    using assms(1) by (auto simp: read_dir_def split: sum.splits if_splits)
  then obtain name where "name \<in> set (listed_names os l)" "dir_entry os fs path h name = Some e"
    using assms(2) by (auto simp: List.map_filter_def)
  then show ?thesis using dir_entry_name by (auto simp: listed_names_def)
qed

text \<open>The directory tree below a path; a directory that cannot be listed is left out, unless it is the first.\<close>

function read_dir_recursive :: "os_env \<Rightarrow> fsys \<Rightarrow> string \<Rightarrow> string \<Rightarrow> bool \<Rightarrow> ft_error + file_entry list" where
  "read_dir_recursive os fs path pre include_hidden =
     (if is_dir os fs path then
        (case read_dir os fs path include_hidden of
           Inl e \<Rightarrow> Inl e
         | Inr entries \<Rightarrow>
             Inr (concat (map (\<lambda>entry.
               (case en_type entry of
                  FileType \<Rightarrow> [entry\<lparr>en_name := join_path pre (en_name entry)\<rparr>]
                | DirType \<Rightarrow>
                    (case read_dir_recursive os fs (join_path path (en_name entry)) (join_path pre (en_name entry)) include_hidden of
                       Inr tmp \<Rightarrow> tmp | Inl _ \<Rightarrow> [])
                | _ \<Rightarrow> [])) entries)))
      else if is_file os fs path then
        (let meta = (case stat os fs True path of Inr x \<Rightarrow> x | Inl _ \<Rightarrow> FDir)
         in Inr [\<lparr>en_type = FileType, en_name = [], en_hidden = False, en_size = node_size meta, en_modified = node_modified meta\<rparr>])
      else Inl NotExists)"
  by pat_completeness auto
termination
proof (relation "measure (\<lambda>(os, fs, path, pre, h). PATH_MAX - length path)")
  fix os fs path pre h es e
  assume "is_dir os fs path" "read_dir os fs path h = Inr es" "e \<in> set es"
  then show "((os, fs, join_path path (en_name e), join_path pre (en_name e), h), (os, fs, path, pre, h))
      \<in> measure (\<lambda>(os, fs, path, pre, h). PATH_MAX - length path)"
    using is_dir_short [of os fs path] join_path_longer [of "en_name e" path] read_dir_names by fastforce
qed simp

declare read_dir_recursive.simps [simp del]

definition get_recursive_files :: "os_env \<Rightarrow> fsys \<Rightarrow> string \<Rightarrow> bool \<Rightarrow> ft_error + file_entry list" where
  "get_recursive_files os fs path include_hidden = read_dir_recursive os fs path [] include_hidden"

section \<open>Names\<close>

definition get_ext :: "string \<Rightarrow> string" where
  "get_ext name = (if CHR ''.'' \<in> set name then last (split_on CHR ''.'' name) else [])"

definition is_compressed_file :: "string \<Rightarrow> bool" where
  "is_compressed_file name \<longleftrightarrow>
     get_ext name \<in> {''xz'', ''gz'', ''zip'', ''7z'', ''rar'', ''bz2'', ''tgz'', ''png'', ''jpg''}"

definition validate_file_name_no_traversal :: "string \<Rightarrow> ft_error + unit" where
  "validate_file_name_no_traversal name =
     (if char_of (0 :: nat) \<in> set name then Inl NullByte
      else if ''..'' \<in> set (filter (\<lambda>s. s \<noteq> []) (split_on CHR ''/'' name)) then Inl Traversal
      else if starts_with name ''/'' then Inl AbsoluteName
      else Inr ())"

fun validate_each :: "file_entry list \<Rightarrow> ft_error + unit" where
  "validate_each [] = Inr ()"
| "validate_each (f # fs) =
     (if en_name f = [] then Inl EmptyName
      else (case validate_file_name_no_traversal (en_name f) of Inl e \<Rightarrow> Inl e | Inr _ \<Rightarrow> validate_each fs))"

definition validate_transfer_file_names :: "file_entry list \<Rightarrow> ft_error + unit" where
  "validate_transfer_file_names files =
     (if length files = 1 \<and> en_name (hd files) = [] then Inr () else validate_each files)"

definition validate_fs_path_argument :: "string \<Rightarrow> ft_error + unit" where
  "validate_fs_path_argument path =
     (if path = [] then Inl EmptyArgument else if char_of (0 :: nat) \<in> set path then Inl NullByte else Inr ())"

text \<open>Each name on the way is looked up without following a link there; what does not exist yet is accepted.\<close>

fun no_symlinks :: "os_env \<Rightarrow> fsys \<Rightarrow> string \<Rightarrow> string list \<Rightarrow> ft_error + unit" where
  "no_symlinks os fs current [] = Inr ()"
| "no_symlinks os fs current (seg # segs) =
     (if seg = ''..'' then Inl Traversal
      else let current = join_path current seg in
      (case stat os fs False current of
         Inr (FLink _) \<Rightarrow> Inl SymlinkComponent
       | Inr _ \<Rightarrow> no_symlinks os fs current segs
       | Inl ENOENT \<Rightarrow> no_symlinks os fs current segs
       | Inl e \<Rightarrow> Inl (ComponentCheck e)))"

definition validate_no_symlink_components :: "os_env \<Rightarrow> fsys \<Rightarrow> string \<Rightarrow> string \<Rightarrow> ft_error + unit" where
  "validate_no_symlink_components os fs base name =
     (if name = [] then Inr () else if is_absolute name then Inl AbsoluteName else no_symlinks os fs base (comps name))"

definition job_join :: "string \<Rightarrow> string \<Rightarrow> string" where
  "job_join p name = (if name = [] then p else join_path p name)"

definition join_validated_path :: "os_env \<Rightarrow> fsys \<Rightarrow> string \<Rightarrow> string \<Rightarrow> ft_error + string" where
  "join_validated_path os fs base name =
     (case validate_file_name_no_traversal name of
        Inl e \<Rightarrow> Inl e
      | Inr _ \<Rightarrow>
          (case validate_no_symlink_components os fs base name of
             Inl e \<Rightarrow> Inl e
           | Inr _ \<Rightarrow> Inr (job_join base name)))"

section \<open>Jobs\<close>

text \<open>The sum of sizes wraps around in a release build.\<close>

definition sum_sizes :: "file_entry list \<Rightarrow> u64" where
  "sum_sizes files = sum_list (map en_size files)"

definition new_job :: "int \<Rightarrow> job_type \<Rightarrow> string \<Rightarrow> data_source \<Rightarrow> int \<Rightarrow> bool \<Rightarrow> bool \<Rightarrow> bool \<Rightarrow> file_entry list \<Rightarrow> u64 \<Rightarrow> transfer_job" where
  "new_job job_id ty remote source file_num show_hidden is_remote detect files total_size =
     \<lparr>tj_id = job_id, tj_type = ty, tj_remote = remote, tj_source = source, tj_show_hidden = show_hidden, tj_is_remote = is_remote,
      tj_is_last_job = False, tj_is_resume = False, tj_file_num = file_num, tj_files = files, tj_conn_id = 0, tj_stream = None,
      tj_total = total_size, tj_finished = 0, tj_transferred = 0, tj_overwrite_detection = detect, tj_confirmed = False,
      tj_skipped = False, tj_waiting = False, tj_overwrite_strategy = None, tj_digest = \<lparr>dg_size = 0, dg_modified = 0\<rparr>\<rparr>"

definition new_write :: "int \<Rightarrow> job_type \<Rightarrow> string \<Rightarrow> data_source \<Rightarrow> int \<Rightarrow> bool \<Rightarrow> bool \<Rightarrow> bool \<Rightarrow> transfer_job" where
  "new_write job_id ty remote source file_num show_hidden is_remote detect =
     new_job job_id ty remote source file_num show_hidden is_remote detect [] 0"

definition new_read ::
    "os_env \<Rightarrow> fsys \<Rightarrow> int \<Rightarrow> job_type \<Rightarrow> string \<Rightarrow> data_source \<Rightarrow> int \<Rightarrow> bool \<Rightarrow> bool \<Rightarrow> bool \<Rightarrow> ft_error + transfer_job" where
  "new_read os fs job_id ty remote source file_num show_hidden is_remote detect =
     (case source of
        FilePath p \<Rightarrow>
          (case get_recursive_files os fs p show_hidden of
             Inl e \<Rightarrow> Inl e
           | Inr files \<Rightarrow> Inr (new_job job_id ty remote source file_num show_hidden is_remote detect files (sum_sizes files)))
      | MemoryCursor c _ \<Rightarrow> Inr (new_job job_id ty remote source file_num show_hidden is_remote detect [] (of_nat (length c))))"

definition get_buf_data :: "transfer_job \<Rightarrow> bytes option" where
  "get_buf_data j = (case tj_stream j of Some (BufStream c _) \<Rightarrow> Some c | _ \<Rightarrow> None)"

fun links_free :: "os_env \<Rightarrow> fsys \<Rightarrow> string \<Rightarrow> file_entry list \<Rightarrow> ft_error + unit" where
  "links_free os fs base [] = Inr ()"
| "links_free os fs base (f # files) =
     (case validate_no_symlink_components os fs base (en_name f) of Inl e \<Rightarrow> Inl e | Inr _ \<Rightarrow> links_free os fs base files)"

definition set_files :: "os_env \<Rightarrow> fsys \<Rightarrow> file_entry list \<Rightarrow> transfer_job \<Rightarrow> ft_error + transfer_job" where
  "set_files os fs files j =
     (case validate_transfer_file_names files of
        Inl e \<Rightarrow> Inl e
      | Inr _ \<Rightarrow>
          (case (case tj_source j of FilePath base \<Rightarrow> links_free os fs base files | MemoryCursor _ _ \<Rightarrow> Inr ()) of
             Inl e \<Rightarrow> Inl e
           | Inr _ \<Rightarrow> Inr (j\<lparr>tj_total := sum_sizes files, tj_files := files\<rparr>)))"

definition set_digest :: "u64 \<Rightarrow> u64 \<Rightarrow> transfer_job \<Rightarrow> transfer_job" where
  "set_digest len modified j = j\<lparr>tj_digest := \<lparr>dg_size = len, dg_modified = modified\<rparr>\<rparr>"

definition resolve_entry_path :: "os_env \<Rightarrow> fsys \<Rightarrow> transfer_job \<Rightarrow> string \<Rightarrow> string \<Rightarrow> string option" where
  "resolve_entry_path os fs j base name =
     (if tj_type j = Generic
      then (case join_validated_path os fs base name of Inr path \<Rightarrow> Some path | Inl _ \<Rightarrow> None)
      else Some (job_join base name))"

definition download_path :: "string \<Rightarrow> string" where
  "download_path path = path @ ''.download''"

definition digest_path :: "string \<Rightarrow> string" where
  "digest_path path = path @ ''.digest''"

definition modify_time :: "os_env \<Rightarrow> transfer_job \<Rightarrow> fsys \<Rightarrow> fsys" where
  "modify_time os j fs =
     (if tj_type j = Printer then fs
      else (case tj_source j of
          MemoryCursor _ _ \<Rightarrow> fs
        | FilePath p \<Rightarrow>
            if as_usize (tj_file_num j) < length (tj_files j) then
              let entry = tj_files j ! as_usize (tj_file_num j) in
              (case resolve_entry_path os fs j p (en_name entry) of
                 None \<Rightarrow> fs
               | Some path \<Rightarrow>
                   let fs1 = or_same fs (os_remove_file os fs (digest_path path));
                       fs2 = or_same fs1 (os_rename os fs1 (download_path path) path)
                   in or_same fs2 (os_set_mtime os fs2 path (unat (en_modified entry) * nanos_per_sec)))
            else fs))"

definition remove_download_file :: "os_env \<Rightarrow> transfer_job \<Rightarrow> fsys \<Rightarrow> fsys" where
  "remove_download_file os j fs =
     (if tj_type j = Printer then fs
      else (case tj_source j of
          MemoryCursor _ _ \<Rightarrow> fs
        | FilePath p \<Rightarrow>
            if as_usize (tj_file_num j) < length (tj_files j) then
              (case resolve_entry_path os fs j p (en_name (tj_files j ! as_usize (tj_file_num j))) of
                 None \<Rightarrow> fs
               | Some path \<Rightarrow>
                   let fs1 = or_same fs (os_remove_file os fs (download_path path))
                   in or_same fs1 (os_remove_file os fs1 (digest_path path)))
            else fs))"

definition set_finished_size_on_resume :: "transfer_job \<Rightarrow> transfer_job" where
  "set_finished_size_on_resume j =
     (if tj_is_resume j \<and> 0 < tj_file_num j
      then j\<lparr>tj_finished := sum_sizes (take (as_usize (tj_file_num j)) (tj_files j))\<rparr> else j)"

section \<open>Writing\<close>

definition stream_write :: "os_env \<Rightarrow> fsys \<Rightarrow> data_stream \<Rightarrow> bytes \<Rightarrow> os_error + data_stream \<times> fsys" where
  "stream_write os fs st data =
     (case st of
        BufStream c off \<Rightarrow> Inr (BufStream (overwrite_at c off data) (off + length data), fs)
      | FileStream l off writable \<Rightarrow>
          if \<not> writable then Inl EBADF
          else (case os_write_at os fs l off data of
              Inl e \<Rightarrow> Inl e
            | Inr fs' \<Rightarrow> Inr (FileStream l (off + length data) writable, fs')))"

text \<open>
  The file of a block is opened: the last file is finished, the directories are made, the digest is written
  beside it.  \<open>sync_all\<close> of the last file is taken to succeed.
\<close>

definition open_download :: "ft_env \<Rightarrow> string \<Rightarrow> string \<Rightarrow> transfer_job \<Rightarrow> fsys \<Rightarrow> fsys \<times> (ft_error + transfer_job)" where
  "open_download fe p name j fs =
     (let os = ft_os fe in
      case (if tj_type j = Printer then Inr (fs, p, None)
            else (case join_validated_path os fs p name of
                Inl e \<Rightarrow> Inl e
              | Inr path \<Rightarrow> Inr (create_parent os fs path, download_path path, Some (digest_path path)))) of
        Inl e \<Rightarrow> (fs, Inl e)
      | Inr (fs1, path, digest) \<Rightarrow>
          (case (case digest of
                   Some dp \<Rightarrow> if path_exists os fs1 dp then os_remove_file os fs1 dp else Inr fs1
                 | None \<Rightarrow> Inr fs1) of
             Inl e \<Rightarrow> (fs1, Inl (Sys e))
           | Inr fs2 \<Rightarrow>
               (case os_open_write True os fs2 path of
                  Inl e \<Rightarrow> (fs2, Inl (Sys e))
                | Inr (l, fs3) \<Rightarrow>
                    (case digest of
                       Some dp \<Rightarrow>
                         (case os_open_write True os fs3 dp of
                            Inl _ \<Rightarrow> fs3
                          | Inr (d, fs4) \<Rightarrow> or_same fs4 (os_write_at os fs4 d 0 (ft_digest_json fe (tj_digest j))))
                     | None \<Rightarrow> fs3,
                     Inr (j\<lparr>tj_stream := Some (FileStream l 0 True)\<rparr>)))))"

definition job_prepare :: "ft_env \<Rightarrow> transfer_block \<Rightarrow> transfer_job \<Rightarrow> fsys \<Rightarrow> transfer_job \<times> fsys \<times> (ft_error + unit)" where
  "job_prepare fe block j fs =
     (case tj_source j of
        FilePath p \<Rightarrow>
          (let file_num = as_usize (bk_file_num block) in
           if length (tj_files j) \<le> file_num then (j, fs, Inl WrongFileNum)
           else if file_num \<noteq> as_usize (tj_file_num j) \<or> tj_stream j = None then
             let fs1 = modify_time (ft_os fe) j fs;
                 j1 = j\<lparr>tj_file_num := bk_file_num block\<rparr>
             in (case open_download fe p (en_name (tj_files j ! file_num)) j1 fs1 of
                   (fs2, Inl e) \<Rightarrow> (j1, fs2, Inl e)
                 | (fs2, Inr j2) \<Rightarrow> (j2, fs2, Inr ()))
           else (j, fs, Inr ()))
      | MemoryCursor c off \<Rightarrow>
          (if tj_stream j = None then j\<lparr>tj_stream := Some (BufStream c off)\<rparr> else j, fs, Inr ()))"

definition job_write :: "ft_env \<Rightarrow> transfer_block \<Rightarrow> transfer_job \<Rightarrow> fsys \<Rightarrow> transfer_job \<times> fsys \<times> (ft_error + unit)" where
  "job_write fe block j fs =
     (if bk_id block \<noteq> tj_id j then (j, fs, Inl WrongId)
      else (case job_prepare fe block j fs of
          (j1, fs1, Inl e) \<Rightarrow> (j1, fs1, Inl e)
        | (j1, fs1, Inr _) \<Rightarrow>
            let data = (if bk_compressed block then decompress fe (bk_data block) else bk_data block) in
            (case tj_stream j1 of
               None \<Rightarrow> (j1, fs1, Inl NoStream)
             | Some st \<Rightarrow>
                 (case stream_write (ft_os fe) fs1 st data of
                    Inl e \<Rightarrow> (j1, fs1, Inl (Sys e))
                  | Inr (st', fs2) \<Rightarrow>
                      (j1\<lparr>tj_stream := Some st', tj_finished := tj_finished j1 + of_nat (length data),
                          tj_transferred := tj_transferred j1 + of_nat (length (bk_data block))\<rparr>, fs2, Inr ())))))"

section \<open>Reading\<close>

text \<open>The start of the next file: no confirmation is there yet.\<close>

definition unconfirmed :: "transfer_job \<Rightarrow> transfer_job" where
  "unconfirmed j = j\<lparr>tj_confirmed := False, tj_waiting := False\<rparr>"

definition next_file :: "transfer_job \<Rightarrow> transfer_job" where
  "next_file j = unconfirmed (j\<lparr>tj_file_num := next_file_num (tj_file_num j)\<rparr>)"

definition open_data_stream :: "os_env \<Rightarrow> fsys \<Rightarrow> transfer_job \<Rightarrow> transfer_job \<times> (ft_error + bool)" where
  "open_data_stream os fs j =
     (case tj_source j of
        FilePath p \<Rightarrow>
          if length (tj_files j) \<le> as_usize (tj_file_num j) then (j\<lparr>tj_stream := None\<rparr>, Inr True)
          else if tj_stream j \<noteq> None then (j, Inr False)
          else (case os_open os fs (job_join p (en_name (tj_files j ! as_usize (tj_file_num j)))) of
              Inr l \<Rightarrow> (unconfirmed (j\<lparr>tj_stream := Some (FileStream l 0 False)\<rparr>), Inr False)
            | Inl e \<Rightarrow> (next_file j, Inl (Sys e)))
      | MemoryCursor c off \<Rightarrow>
          (if tj_stream j = None then j\<lparr>tj_source := MemoryCursor [] 0, tj_stream := Some (BufStream c off)\<rparr> else j, Inr False))"

definition get_current_digest :: "fsys \<Rightarrow> transfer_job \<Rightarrow> ft_error + u64 \<times> u64" where
  "get_current_digest fs j =
     (case tj_stream j of
        None \<Rightarrow> Inl NoStream
      | Some (BufStream _ _) \<Rightarrow> Inl NoDigestForBuf
      | Some (FileStream l _ _) \<Rightarrow>
          (case node fs l of Some x \<Rightarrow> Inr (node_modified x, node_size x) | None \<Rightarrow> Inl (Sys ENOENT)))"

definition awaits_confirmation :: "transfer_job \<Rightarrow> bool" where
  "awaits_confirmation j \<longleftrightarrow> tj_type j = Generic \<and> tj_overwrite_detection j \<and> \<not> tj_confirmed j \<and> \<not> tj_waiting j"

definition current_digest_msg :: "u64 \<Rightarrow> u64 \<Rightarrow> transfer_job \<Rightarrow> transfer_digest" where
  "current_digest_msg modified len j =
     \<lparr>td_id = tj_id j, td_file_num = tj_file_num j, td_last_modified = modified, td_file_size = len, td_is_identical = False,
      td_transferred_size = 0, td_is_resume = tj_is_resume j\<rparr>"

text \<open>\<open>up\<close> says whether the connection to the peer takes messages.\<close>

definition init_data_stream :: "os_env \<Rightarrow> bool \<Rightarrow> fsys \<Rightarrow> transfer_job \<Rightarrow> transfer_job \<times> file_msg list \<times> (ft_error + unit)" where
  "init_data_stream os up fs j =
     (case open_data_stream os fs j of
        (j1, Inl e) \<Rightarrow> (j1, [], Inl e)
      | (j1, Inr fin) \<Rightarrow>
          if fin \<or> \<not> awaits_confirmation j1 then (j1, [], Inr ())
          else (case get_current_digest fs j1 of
              Inl e \<Rightarrow> (j1, [], Inl e)
            | Inr (modified, len) \<Rightarrow>
                if up then (j1\<lparr>tj_waiting := True\<rparr>, [MsgDigest (current_digest_msg modified len j1)], Inr ())
                else (j1, [], Inl ConnectionLost)))"

definition init_data_stream_for_cm :: "os_env \<Rightarrow> fsys \<Rightarrow> transfer_job \<Rightarrow> transfer_job \<times> (ft_error + (u64 \<times> u64) option)" where
  "init_data_stream_for_cm os fs j =
     (case open_data_stream os fs j of
        (j1, Inl e) \<Rightarrow> (j1, Inl e)
      | (j1, Inr fin) \<Rightarrow>
          if fin \<or> \<not> awaits_confirmation j1 then (j1, Inr None)
          else (case get_current_digest fs j1 of
              Inl e \<Rightarrow> (j1, Inl e)
            | Inr d \<Rightarrow> (j1\<lparr>tj_waiting := True\<rparr>, Inr (Some d))))"

definition BUF_SIZE :: nat where "BUF_SIZE = 128 * 1024"

definition stream_read :: "os_env \<Rightarrow> fsys \<Rightarrow> data_stream \<Rightarrow> os_error + bytes \<times> data_stream" where
  "stream_read os fs st =
     (case st of
        BufStream c off \<Rightarrow> (let buf = read_fill (os_grant os) 0 BUF_SIZE (drop off c) in Inr (buf, BufStream c (off + length buf)))
      | FileStream l off writable \<Rightarrow>
          if writable then Inl EBADF
          else if \<not> os_reads os l then Inl EIO
          else (case node fs l of
              Some (FFile c _) \<Rightarrow>
                (let buf = read_fill (os_grant os) 0 BUF_SIZE (drop off c) in Inr (buf, FileStream l (off + length buf) writable))
            | Some _ \<Rightarrow> Inl EISDIR
            | None \<Rightarrow> Inr ([], st)))"

definition file_name_of :: "string \<Rightarrow> string" where
  "file_name_of p = (if comps p = [] \<or> last (comps p) = ''..'' then [] else last (comps p))"

definition read_name :: "transfer_job \<Rightarrow> string" where
  "read_name j =
     (case tj_source j of
        FilePath p \<Rightarrow>
          (let name = en_name (tj_files j ! as_usize (tj_file_num j)) in
           if length (tj_files j) = 1 \<and> name = [] then file_name_of p else name)
      | MemoryCursor _ _ \<Rightarrow> [])"

definition is_file_source :: "transfer_job \<Rightarrow> bool" where
  "is_file_source j = (case tj_source j of FilePath _ \<Rightarrow> True | MemoryCursor _ _ \<Rightarrow> False)"

definition job_read :: "ft_env \<Rightarrow> fsys \<Rightarrow> transfer_job \<Rightarrow> transfer_job \<times> (ft_error + transfer_block option)" where
  "job_read fe fs j =
     (if tj_type j = Generic \<and> tj_overwrite_detection j \<and> \<not> tj_confirmed j then (j, Inr None)
      else if is_file_source j \<and> length (tj_files j) \<le> as_usize (tj_file_num j) then (j\<lparr>tj_stream := None\<rparr>, Inr None)
      else (case tj_stream j of
          None \<Rightarrow> (j, Inl NoStream)
        | Some st \<Rightarrow>
            (case stream_read (ft_os fe) fs st of
               Inl e \<Rightarrow> (next_file (j\<lparr>tj_stream := None\<rparr>), Inl (Sys e))
             | Inr (buf, st') \<Rightarrow>
                 if buf = [] then
                   if \<not> is_file_source j then (j\<lparr>tj_stream := None\<rparr>, Inr None)
                   else (next_file (j\<lparr>tj_stream := None\<rparr>),
                         Inr (Some \<lparr>bk_id = tj_id j, bk_file_num = tj_file_num j, bk_data = [], bk_compressed = False\<rparr>))
                 else let tmp = compress fe buf;
                          compressed = is_file_source j \<and> \<not> is_compressed_file (read_name j) \<and> length tmp < length buf;
                          data = (if compressed then tmp else buf)
                      in (j\<lparr>tj_stream := Some st', tj_finished := tj_finished j + of_nat (length buf),
                            tj_transferred := tj_transferred j + of_nat (length data)\<rparr>,
                          Inr (Some \<lparr>bk_id = tj_id j, bk_file_num = tj_file_num j, bk_data = data, bk_compressed = compressed\<rparr>)))))"

section \<open>Confirmation\<close>

definition set_file_confirmed :: "bool \<Rightarrow> transfer_job \<Rightarrow> transfer_job" where
  "set_file_confirmed b j = j\<lparr>tj_confirmed := b, tj_skipped := False\<rparr>"

definition job_skipped :: "transfer_job \<Rightarrow> bool" where
  "job_skipped j \<longleftrightarrow> tj_skipped j \<and> length (tj_files j) = 1"

definition job_completed :: "transfer_job \<Rightarrow> bool" where
  "job_completed j \<longleftrightarrow> \<not> tj_overwrite_detection j \<or> (\<not> tj_confirmed j \<and> \<not> tj_waiting j)"

definition job_error :: "transfer_job \<Rightarrow> ft_error option" where
  "job_error j = (if job_skipped j then Some JobSkipped else None)"

definition set_file_skipped :: "transfer_job \<Rightarrow> transfer_job" where
  "set_file_skipped j =
     (let j1 = set_file_confirmed False (j\<lparr>tj_stream := None\<rparr>)
      in j1\<lparr>tj_waiting := False, tj_file_num := next_file_num (tj_file_num j1), tj_skipped := True\<rparr>)"

text \<open>
  Continuing at an offset: in the download when it is there with its digest, else in the file itself, which is opened for
  reading.  No file with that number is an index out of range, which ends the task.
\<close>

definition set_stream_offset :: "os_env \<Rightarrow> nat \<Rightarrow> u64 \<Rightarrow> transfer_job \<Rightarrow> fsys \<Rightarrow> (transfer_job \<times> fsys) option" where
  "set_stream_offset os file_num offset j fs =
     (case tj_source j of
        MemoryCursor _ _ \<Rightarrow> Some (j, fs)
      | FilePath p \<Rightarrow>
          if length (tj_files j) \<le> file_num then None
          else (case resolve_entry_path os fs j p (en_name (tj_files j ! file_num)) of
              None \<Rightarrow> Some (j, fs)
            | Some path \<Rightarrow>
                let seek = (\<lambda>l w. j\<lparr>tj_stream := Some (FileStream l (unat offset) w), tj_transferred := tj_transferred j + offset,
                                     tj_finished := tj_finished j + offset\<rparr>)
                in if path_exists os fs (download_path path) \<and> path_exists os fs (digest_path path)
                   then (case os_open_write False os fs (download_path path) of
                       Inr (l, fs1) \<Rightarrow> Some (seek l True, fs1)
                     | Inl _ \<Rightarrow> Some (j, fs))
                   else if path_exists os fs path
                   then (case os_open os fs path of Inr l \<Rightarrow> Some (seek l False, fs) | Inl _ \<Rightarrow> Some (j, fs))
                   else Some (j, fs)))"

definition job_confirm :: "os_env \<Rightarrow> send_confirm \<Rightarrow> transfer_job \<Rightarrow> fsys \<Rightarrow> (transfer_job \<times> fsys) option" where
  "job_confirm os r j fs =
     (if tj_file_num j \<noteq> cr_file_num r then Some (j, fs)
      else (case cr_choice r of
          Skip s \<Rightarrow> Some (if s then set_file_skipped j else set_file_confirmed True j, fs)
        | OffsetBlk offset \<Rightarrow>
            if 0 < offset then set_stream_offset os (as_usize (cr_file_num r)) (ucast offset) (set_file_confirmed True j) fs
            else Some (set_file_confirmed True j, fs)
        | NoChoice \<Rightarrow> Some (j, fs)))"

definition gen_meta :: "transfer_job \<Rightarrow> transfer_meta" where
  "gen_meta j =
     \<lparr>tm_id = tj_id j, tm_remote = tj_remote j,
      tm_to = (case tj_source j of FilePath p \<Rightarrow> p | MemoryCursor _ _ \<Rightarrow> []),
      tm_show_hidden = tj_show_hidden j, tm_file_num = tj_file_num j, tm_is_remote = tj_is_remote j\<rparr>"

section \<open>All jobs of a connection\<close>

fun remove_job :: "int \<Rightarrow> transfer_job list \<Rightarrow> transfer_job list" where
  "remove_job i [] = []"
| "remove_job i (j # js) = (if tj_id j = i then js else j # remove_job i js)"

definition get_job :: "int \<Rightarrow> transfer_job list \<Rightarrow> transfer_job option" where
  "get_job i js = List.find (\<lambda>j. tj_id j = i) js"

text \<open>The jobs, the messages sent, and whether the connection was lost.\<close>

fun init_jobs :: "os_env \<Rightarrow> bool \<Rightarrow> fsys \<Rightarrow> transfer_job list \<Rightarrow> transfer_job list \<times> file_msg list \<times> bool" where
  "init_jobs os up fs [] = ([], [], False)"
| "init_jobs os up fs (j # js) =
     (if tj_is_last_job j then (case init_jobs os up fs js of (js', ms, lost) \<Rightarrow> (j # js', ms, lost))
      else (case init_data_stream os up fs j of
          (j1, ms, Inr _) \<Rightarrow> (case init_jobs os up fs js of (js', ms', lost) \<Rightarrow> (j1 # js', ms @ ms', lost))
        | (j1, ms, Inl e) \<Rightarrow>
            if up then (case init_jobs os up fs js of
                (js', ms', lost) \<Rightarrow> (j1 # js', ms @ MsgError (tj_id j1) e (tj_file_num j1) # ms', lost))
            else (j1 # js, ms, True)))"

text \<open>The first job that is not one of an earlier connection reads once; the result says which job has finished.\<close>

fun read_first :: "ft_env \<Rightarrow> fsys \<Rightarrow> transfer_job list \<Rightarrow> transfer_job list \<times> file_msg option \<times> transfer_job option" where
  "read_first fe fs [] = ([], None, None)"
| "read_first fe fs (j # js) =
     (if tj_is_last_job j then (case read_first fe fs js of (js', m, fin) \<Rightarrow> (j # js', m, fin))
      else (case job_read fe fs j of
          (j1, Inl e) \<Rightarrow> (j1 # js, Some (MsgError (tj_id j1) e (tj_file_num j1)), None)
        | (j1, Inr (Some block)) \<Rightarrow> (j1 # js, Some (MsgBlock block), None)
        | (j1, Inr None) \<Rightarrow>
            if job_completed j1
            then (j1 # js,
                  Some (case job_error j1 of Some e \<Rightarrow> MsgError (tj_id j1) e (tj_file_num j1) | None \<Rightarrow> MsgDone (tj_id j1) (tj_file_num j1)),
                  Some j1)
            else (j1 # js, None, None)))"

text \<open>The result is the job that has finished, whose log is written, or that the connection was lost.\<close>

definition handle_read_jobs ::
    "ft_env \<Rightarrow> bool \<Rightarrow> fsys \<Rightarrow> transfer_job list \<Rightarrow> transfer_job list \<times> file_msg list \<times> (ft_error + transfer_job option)" where
  "handle_read_jobs fe up fs jobs =
     (case init_jobs (ft_os fe) up fs jobs of
        (js, ms, True) \<Rightarrow> (js, ms, Inl ConnectionLost)
      | (js, ms, False) \<Rightarrow>
          (case read_first fe fs js of
             (js1, None, fin) \<Rightarrow> (js1, ms, Inr None)
           | (js1, Some msg, fin) \<Rightarrow>
               if \<not> up then (js1, ms, Inl ConnectionLost)
               else (case fin of
                   Some j \<Rightarrow> (remove_job (tj_id j) js1, ms @ [msg], Inr (Some j))
                 | None \<Rightarrow> (js1, ms @ [msg], Inr None))))"

section \<open>Single files\<close>

definition remove_file :: "os_env \<Rightarrow> fsys \<Rightarrow> string \<Rightarrow> ft_error + fsys" where
  "remove_file os fs file =
     (case validate_fs_path_argument file of
        Inl e \<Rightarrow> Inl e
      | Inr _ \<Rightarrow> (case os_remove_file os fs file of Inl e \<Rightarrow> Inl (Sys e) | Inr fs' \<Rightarrow> Inr fs'))"

definition create_dir :: "os_env \<Rightarrow> fsys \<Rightarrow> string \<Rightarrow> fsys \<times> (ft_error + unit)" where
  "create_dir os fs dir =
     (case validate_fs_path_argument dir of
        Inl e \<Rightarrow> (fs, Inl e)
      | Inr _ \<Rightarrow> (case create_dir_all os fs dir of (fs', ok) \<Rightarrow> (fs', if ok then Inr () else Inl (Sys EACCES))))"

definition parent_path :: "string \<Rightarrow> string option" where
  "parent_path p =
     (if comps p = [] then None
      else Some ((if is_absolute p then ''/'' else []) @ join_with ''/'' (butlast (comps p))))"

definition rename_file :: "os_env \<Rightarrow> fsys \<Rightarrow> string \<Rightarrow> string \<Rightarrow> ft_error + fsys" where
  "rename_file os fs path new_name =
     (case validate_fs_path_argument path of
        Inl e \<Rightarrow> Inl e
      | Inr _ \<Rightarrow>
          if new_name = [] then Inl EmptyName
          else (case validate_file_name_no_traversal new_name of
              Inl e \<Rightarrow> Inl e
            | Inr _ \<Rightarrow>
                if \<not> path_exists os fs path then Inl NotExists
                else (case parent_path path of
                    None \<Rightarrow> Inl NotExists
                  | Some dir \<Rightarrow>
                      (case os_rename os fs path (join_path dir new_name) of Inl e \<Rightarrow> Inl (Sys e) | Inr fs' \<Rightarrow> Inr fs'))))"

definition transform_windows_path :: "file_entry list \<Rightarrow> file_entry list" where
  "transform_windows_path = map (\<lambda>e. e\<lparr>en_name := map (\<lambda>c. if c = char_of (92 :: nat) then CHR ''/'' else c) (en_name e)\<rparr>)"

datatype digest_check = NeedConfirm transfer_digest | NoSuchFile

definition check_digest :: "transfer_digest \<Rightarrow> u64 \<Rightarrow> u64 \<Rightarrow> bool \<Rightarrow> u64 \<Rightarrow> transfer_digest" where
  "check_digest digest modified len identical transferred =
     \<lparr>td_id = td_id digest, td_file_num = td_file_num digest, td_last_modified = modified, td_file_size = len,
      td_is_identical = identical, td_transferred_size = transferred, td_is_resume = False\<rparr>"

text \<open>The part of a download that can be continued.\<close>

definition resumable :: "ft_env \<Rightarrow> fsys \<Rightarrow> string \<Rightarrow> transfer_digest \<Rightarrow> u64 option" where
  "resumable fe fs file_path digest =
     (let os = ft_os fe in
      if path_exists os fs (digest_path file_path) \<and> path_exists os fs (download_path file_path) then
        (case (os_open os fs (digest_path file_path), stat os fs True (digest_path file_path)) of
           (Inr _, Inr (FFile content _)) \<Rightarrow>
             (case ft_parse_digest fe content of
                Some d \<Rightarrow>
                  if dg_modified d = td_last_modified digest \<and> dg_size d = td_file_size digest
                  then (case stat os fs True (download_path file_path) of
                          Inr x \<Rightarrow> if 0 < node_size x then Some (node_size x) else None
                        | Inl _ \<Rightarrow> None)
                  else None
              | None \<Rightarrow> None)
         | _ \<Rightarrow> None)
      else None)"

text \<open>The times are compared with their nanoseconds.\<close>

definition is_write_need_confirmation :: "ft_env \<Rightarrow> fsys \<Rightarrow> bool \<Rightarrow> string \<Rightarrow> transfer_digest \<Rightarrow> digest_check" where
  "is_write_need_confirmation fe fs is_resume file_path digest =
     (case (if is_resume then resumable fe fs file_path digest else None) of
        Some transferred \<Rightarrow> NeedConfirm (check_digest digest (td_last_modified digest) (td_file_size digest) True transferred)
      | None \<Rightarrow>
          (case stat (ft_os fe) fs True file_path of
             Inr (FFile c t) \<Rightarrow>
               NeedConfirm (check_digest digest (secs_u64 t) (of_nat (length c))
                 (unat (td_last_modified digest) * nanos_per_sec = t \<and> td_file_size digest = of_nat (length c)) 0)
           | _ \<Rightarrow> NoSuchFile))"

end
