(* ===== verification/File_Props.thy ===== *)
theory File_Props
  imports File_Transfer
begin

text \<open>
  What a file transfer does to the file systems of its two sides: a writer stays inside its directory whatever
  its peer sends, and a file arrives as it was sent.
\<close>

section \<open>Paths\<close>

lemma nul_char: "char_of (0 :: nat) = CHR 0x00"
  by code_simp

lemma comps_Nil [simp]: "comps [] = []"
  by (simp add: comps_def)

lemma comps_sep: "comps (p @ CHR ''/'' # s) = comps p @ comps s"
  by (simp add: comps_def split_on_append)

lemma comps_trailing: "comps (p @ [CHR ''/'']) = comps p"
  using comps_sep [of p "[]"] by simp

lemma comps_join_path:
  assumes "\<not> is_absolute name"
  shows "comps (join_path p name) = comps p @ comps name"
proof (cases "p \<noteq> [] \<and> last p = CHR ''/''")
  case True
  then obtain q where "p = q @ [CHR ''/'']" by (metis append_butlast_last_id)
  then show ?thesis using assms comps_sep [of q name] by (simp add: join_path_def comps_trailing)
next
  case False
  then show ?thesis using assms by (auto simp: join_path_def comps_sep)
qed

lemma is_absolute_append: "is_absolute p \<Longrightarrow> is_absolute (p @ q)"
  by (auto simp: is_absolute_def)

lemma is_absolute_join_path: "is_absolute p \<Longrightarrow> is_absolute (join_path p name)"
  by (auto simp: is_absolute_def join_path_def)

lemma split_on_suffix:
  "c \<notin> set suf \<Longrightarrow> split_on c (xs @ suf) = butlast (split_on c xs) @ [last (split_on c xs) @ suf]"
proof (induction xs)
  case Nil
  then show ?case by (simp add: split_on_no_sep)
next
  case (Cons x xs)
  obtain y ys where "split_on c xs = y # ys" by (cases "split_on c xs") auto
  then show ?case using Cons by (cases ys) auto
qed

text \<open>A suffix changes the last name only, or adds one.\<close>

lemma comps_suffix:
  assumes "CHR ''/'' \<notin> set suf" "2 \<le> length suf"
  shows "\<exists>pre y. comps (p @ suf) = pre @ [y @ suf] \<and> prefix pre (comps p)"
proof -
  let ?ok = "\<lambda>c. c \<noteq> [] \<and> c \<noteq> ''.''" and ?s = "split_on CHR ''/'' p"
  have "?ok (last ?s @ suf)" using assms(2) by (auto simp: append_eq_Cons_conv)
  then have c: "comps (p @ suf) = filter ?ok (butlast ?s) @ [last ?s @ suf]"
    using assms(1) by (simp add: comps_def split_on_suffix)
  have "?s = butlast ?s @ [last ?s]" by simp
  then have "comps p = filter ?ok (butlast ?s) @ filter ?ok [last ?s]"
    unfolding comps_def by (metis filter_append)
  then show ?thesis using c by auto
qed

section \<open>Resolution\<close>

definition is_link :: "fnode option \<Rightarrow> bool" where
  "is_link x = (case x of Some (FLink _) \<Rightarrow> True | _ \<Rightarrow> False)"

text \<open>What has a name is in a directory.\<close>

definition tree :: "fsys \<Rightarrow> bool" where
  "tree fs \<longleftrightarrow> (\<forall>l c. fs (l @ [c]) \<noteq> None \<longrightarrow> node fs l = Some FDir)"

text \<open>A path without a step upwards, from the root to \<open>T\<close>, on which there is no link.\<close>

definition no_links :: "fsys \<Rightarrow> loc \<Rightarrow> loc \<Rightarrow> bool" where
  "no_links fs cur cs \<longleftrightarrow> (\<forall>i<length cs. \<not> is_link (fs (cur @ take (Suc i) cs)))"

lemma no_links_Cons: "no_links fs cur (c # cs) \<longleftrightarrow> \<not> is_link (fs (cur @ [c])) \<and> no_links fs (cur @ [c]) cs"
proof
  assume a: "no_links fs cur (c # cs)"
  have "\<not> is_link (fs (cur @ take (Suc 0) (c # cs)))" using a unfolding no_links_def by (metis length_Cons zero_less_Suc)
  moreover have "\<not> is_link (fs ((cur @ [c]) @ take (Suc i) cs))" if "i < length cs" for i
  proof -
    have "\<not> is_link (fs (cur @ take (Suc (Suc i)) (c # cs)))" using a that unfolding no_links_def by (metis Suc_less_eq length_Cons)
    then show ?thesis by simp
  qed
  ultimately show "\<not> is_link (fs (cur @ [c])) \<and> no_links fs (cur @ [c]) cs" by (simp add: no_links_def)
next
  assume a: "\<not> is_link (fs (cur @ [c])) \<and> no_links fs (cur @ [c]) cs"
  show "no_links fs cur (c # cs)"
    unfolding no_links_def
  proof (intro allI impI)
    fix i assume "i < length (c # cs)"
    then show "\<not> is_link (fs (cur @ take (Suc i) (c # cs)))"
      using a by (cases i) (auto simp: no_links_def)
  qed
qed

lemma no_links_Nil [simp]: "no_links fs cur []"
  by (simp add: no_links_def)

lemma no_links_append: "no_links fs cur (ds @ zs) \<longleftrightarrow> no_links fs cur ds \<and> no_links fs (cur @ ds) zs"
  by (induction ds arbitrary: cur) (auto simp: no_links_Cons)

lemma no_links_prefix: "no_links fs cur cs \<Longrightarrow> prefix ds cs \<Longrightarrow> no_links fs cur ds"
  by (auto simp: no_links_append prefix_def)

lemma walk_no_links:
  assumes "no_links fs cur cs" "''..'' \<notin> set cs" "walk fs n fl cur cs = Inr l" "node fs cur = Some FDir"
  shows "l = cur @ cs \<and> (cs \<noteq> [] \<longrightarrow> node fs (butlast l) = Some FDir)"
  using assms
proof (induction cs arbitrary: cur)
  case (Cons c cs)
  then have nl: "\<not> is_link (fs (cur @ [c]))" "no_links fs (cur @ [c]) cs" "c \<noteq> ''..''" "''..'' \<notin> set cs"
    by (auto simp: no_links_Cons)
  show ?case
  proof (cases "cs = []")
    case True
    then show ?thesis using Cons.prems(3,4) nl by (auto simp: is_link_def split: if_splits option.splits fnode.splits)
  next
    case False
    then have "fs (cur @ [c]) = Some FDir" "walk fs n fl (cur @ [c]) cs = Inr l"
      using Cons.prems(3) nl by (auto simp: is_link_def split: option.splits fnode.splits)
    moreover from this have "node fs (cur @ [c]) = Some FDir" by (simp add: node_def)
    ultimately show ?thesis using Cons.IH [of "cur @ [c]"] nl False by auto
  qed
qed simp

text \<open>The other direction: through existing directories the walk arrives.\<close>

lemma walk_dirs:
  assumes "\<forall>i. 0 < i \<and> i < length cs \<longrightarrow> fs (cur @ take i cs) = Some FDir" "''..'' \<notin> set cs"
    and "\<not> fl \<or> \<not> is_link (fs (cur @ cs))"
  shows "walk fs n fl cur cs = Inr (cur @ cs)"
  using assms
proof (induction cs arbitrary: cur)
  case (Cons c cs)
  show ?case
  proof (cases "cs = []")
    case True
    then show ?thesis using Cons.prems by (auto simp: is_link_def split: option.splits fnode.splits)
  next
    case False
    then have "fs (cur @ take 1 (c # cs)) = Some FDir" using Cons.prems(1) by (metis One_nat_def length_Cons length_greater_0_conv Suc_less_eq zero_less_one)
    moreover have "fs ((cur @ [c]) @ take i cs) = Some FDir" if "0 < i" "i < length cs" for i
    proof -
      have "fs (cur @ take (Suc i) (c # cs)) = Some FDir" using Cons.prems(1) that by (metis Suc_less_eq length_Cons zero_less_Suc)
      then show ?thesis by simp
    qed
    ultimately show ?thesis using Cons.IH [of "cur @ [c]"] Cons.prems(2,3) False by auto
  qed
qed simp

lemma tree_dirs:
  assumes "tree fs" "fs (l @ cs) \<noteq> None" "i < length cs"
  shows "node fs (l @ take i cs) = Some FDir"
  using assms(2,3)
proof (induction cs rule: rev_induct)
  case (snoc c cs)
  have d: "node fs (l @ cs) = Some FDir" using assms(1) snoc.prems(1) unfolding tree_def by (metis append.assoc)
  show ?case
  proof (cases "i = length cs")
    case False
    then have "i < length cs" using snoc.prems(2) by simp
    moreover have "fs (l @ cs) \<noteq> None" using d calculation by (auto simp: node_def split: if_splits)
    ultimately show ?thesis using snoc.IH by simp
  qed (use d in simp)
qed simp

section \<open>Calls inside a directory\<close>

definition reserved :: "string \<Rightarrow> bool" where
  "reserved x \<longleftrightarrow> suffix ''.download'' x \<or> suffix ''.digest'' x"

text \<open>A directory in which no download and no digest is a link.\<close>

definition writable_dir :: "loc \<Rightarrow> fsys \<Rightarrow> bool" where
  "writable_dir D fs \<longleftrightarrow> tree fs \<and> node fs D = Some FDir \<and> (\<forall>cs x. reserved x \<longrightarrow> \<not> is_link (fs (D @ cs @ [x])))"

definition kept_outside :: "loc \<Rightarrow> fsys \<Rightarrow> fsys \<Rightarrow> bool" where
  "kept_outside D fs fs' \<longleftrightarrow> (\<forall>l. \<not> strict_prefix D l \<longrightarrow> fs' l = fs l)"

text \<open>A change inside the directory that makes no links.\<close>

definition evolves :: "loc \<Rightarrow> fsys \<Rightarrow> fsys \<Rightarrow> bool" where
  "evolves D fs fs' \<longleftrightarrow> writable_dir D fs' \<and> kept_outside D fs fs' \<and> (\<forall>l. is_link (fs' l) \<longrightarrow> is_link (fs l))"

definition clean :: "fsys \<Rightarrow> string \<Rightarrow> loc \<Rightarrow> bool" where
  "clean fs p T \<longleftrightarrow> is_absolute p \<and> comps p = T \<and> ''..'' \<notin> set T \<and> no_links fs [] T"

lemma kept_outside_trans: "kept_outside D fs fs1 \<Longrightarrow> kept_outside D fs1 fs2 \<Longrightarrow> kept_outside D fs fs2"
  by (simp add: kept_outside_def)

lemma evolves_refl: "writable_dir D fs \<Longrightarrow> evolves D fs fs"
  by (simp add: evolves_def kept_outside_def)

lemma evolves_trans: "evolves D fs fs1 \<Longrightarrow> evolves D fs1 fs2 \<Longrightarrow> evolves D fs fs2"
  by (auto simp: evolves_def kept_outside_def)

lemma evolves_dir: "evolves D fs fs' \<Longrightarrow> writable_dir D fs'"
  by (simp add: evolves_def)

lemma evolves_clean: "evolves D fs fs' \<Longrightarrow> clean fs p T \<Longrightarrow> clean fs' p T"
  by (auto simp: evolves_def clean_def no_links_def)

lemma locate_clean:
  assumes "clean fs p T" "locate os fs fl p = Inr l"
  shows "l = T \<and> (T \<noteq> [] \<longrightarrow> node fs (butlast T) = Some FDir)"
  using assms walk_no_links [of fs "[]" T MAX_LINKS fl l]
  by (auto simp: clean_def locate_def node_def split: if_splits)

lemma locate_inside:
  assumes "clean fs p T" "strict_prefix D T" "locate os fs fl p = Inr l"
  shows "l = T" "node fs (butlast T) = Some FDir"
  using locate_clean [OF assms(1,3)] assms(2) by auto

lemma evolves_update:
  assumes "writable_dir D fs" "strict_prefix D T" "node fs (butlast T) = Some FDir" "fs T \<noteq> Some FDir" "\<not> is_link v"
  shows "evolves D fs (fs(T := v))"
proof -
  have n: "T \<noteq> []" "D \<noteq> T" using assms(2) by auto
  have "tree (fs(T := v))"
    unfolding tree_def
  proof (intro allI impI)
    fix l c assume a: "(fs(T := v)) (l @ [c]) \<noteq> None"
    show "node (fs(T := v)) l = Some FDir"
    proof (cases "l @ [c] = T")
      case True
      then have "l = butlast T" "l \<noteq> T" by auto
      then show ?thesis using assms(3) by (auto simp: node_def split: if_splits)
    next
      case False
      then have "node fs l = Some FDir" using a assms(1) by (auto simp: writable_dir_def tree_def)
      then show ?thesis using assms(4) n by (auto simp: node_def)
    qed
  qed
  then show ?thesis using assms n by (auto simp: evolves_def kept_outside_def writable_dir_def node_def)
qed

lemma is_link_simps [simp]: "\<not> is_link None" "\<not> is_link (Some FDir)" "\<not> is_link (Some (FFile c t))" "is_link (Some (FLink p))"
  by (simp_all add: is_link_def)

lemma os_remove_file_evolves:
  assumes "writable_dir D fs" "clean fs p T" "strict_prefix D T" "os_remove_file os fs p = Inr fs'"
  shows "evolves D fs fs'"
proof -
  obtain l where "locate os fs False p = Inr l" using assms(4) by (auto simp: os_remove_file_def split: sum.splits)
  then have l: "locate os fs False p = Inr T" "node fs (butlast T) = Some FDir"
    using locate_inside [OF assms(2,3)] by auto
  then have "fs' = fs(T := None)" "fs T \<noteq> Some FDir"
    using assms(3,4) by (auto simp: os_remove_file_def node_def split: option.splits fnode.splits if_splits)
  then show ?thesis using evolves_update [OF assms(1,3) l(2), of None] by simp
qed

lemma os_open_write_evolves:
  assumes "writable_dir D fs" "clean fs p T" "strict_prefix D T" "os_open_write tr os fs p = Inr (l, fs')"
  shows "evolves D fs fs' \<and> l = T"
proof -
  have loc: "locate os fs True p = Inr l"
    using assms(4) by (auto simp: os_open_write_def split: sum.splits option.splits fnode.splits if_splits)
  then have l: "locate os fs True p = Inr T" "node fs (butlast T) = Some FDir" "l = T"
    using locate_inside [OF assms(2,3) loc] by auto
  have "T \<noteq> []" using assms(3) by auto
  then have "fs T \<noteq> Some FDir \<and> (fs' = fs \<or> (\<exists>c t. fs' = fs(T \<mapsto> FFile c t)))"
    using assms(4) l by (auto simp: os_open_write_def node_def split: option.splits fnode.splits if_splits)
  then show ?thesis using evolves_update [OF assms(1,3) l(2)] evolves_refl [OF assms(1)] l(3) by auto
qed

lemma os_set_mtime_evolves:
  assumes "writable_dir D fs" "clean fs p T" "prefix D T" "os_set_mtime os fs p t = Inr fs'"
  shows "evolves D fs fs'"
proof -
  have l: "locate os fs True p = Inr T" "T \<noteq> [] \<Longrightarrow> node fs (butlast T) = Some FDir"
    using locate_clean [OF assms(2)] assms(4) by (auto simp: os_set_mtime_def split: sum.splits)
  consider "fs' = fs" | c t' where "node fs T = Some (FFile c t')" "fs' = fs(T \<mapsto> FFile c t)"
    using assms(4) l(1) by (auto simp: os_set_mtime_def split: option.splits fnode.splits if_splits)
  then show ?thesis
  proof cases
    case 2
    then have "T \<noteq> []" "T \<noteq> D" "fs T = Some (FFile c t')"
      using assms(1) by (auto simp: node_def writable_dir_def split: if_splits)
    then show ?thesis using evolves_update [OF assms(1), of T "Some (FFile c t)"] assms(3) l(2) 2 by (auto simp: strict_prefix_def)
  qed (use evolves_refl [OF assms(1)] in simp)
qed

lemma os_write_at_evolves:
  assumes "writable_dir D fs" "strict_prefix D T" "os_write_at os fs T off data = Inr fs'"
  shows "evolves D fs fs'"
proof -
  consider "fs' = fs" | c t c' where "fs T = Some (FFile c t)" "fs' = fs(T \<mapsto> FFile c' (os_now os))"
    using assms(3) by (auto simp: os_write_at_def split: option.splits fnode.splits if_splits)
  then show ?thesis
  proof cases
    case 2
    have "T = butlast T @ [last T]" using assms(2) by (cases T) auto
    then have "node fs (butlast T) = Some FDir"
      using assms(1) 2(1) unfolding writable_dir_def tree_def by (metis option.distinct(1))
    then show ?thesis using evolves_update [OF assms(1,2)] 2 by simp
  qed (use evolves_refl [OF assms(1)] in simp)
qed

lemma move_tree_outside:
  assumes "strict_prefix D S" "strict_prefix D T"
  shows "kept_outside D fs (move_tree S T fs)"
  unfolding kept_outside_def
proof (intro allI impI)
  fix l assume "\<not> strict_prefix D l"
  then have "\<not> prefix S l" "\<not> prefix T l" using assms by (auto dest: prefix_order.less_le_trans)
  then show "move_tree S T fs l = fs l" by (simp add: move_tree_def)
qed

lemma move_tree_tree:
  assumes "tree fs" "fs S = Some FDir" "node fs (butlast T) = Some FDir" "S \<noteq> []" "T \<noteq> []" "\<not> prefix S T"
  shows "tree (move_tree S T fs)"
  unfolding tree_def
proof (intro allI impI)
  fix l c assume a: "move_tree S T fs (l @ [c]) \<noteq> None"
  consider (root) "T = l @ [c]" | (below) "prefix T l" | (other) "\<not> prefix T (l @ [c])" by auto
  then show "node (move_tree S T fs) l = Some FDir"
  proof cases
    case root
    then have "\<not> prefix T l" "\<not> prefix S l" using assms(6) by (auto dest: prefix_length_le)
    then show ?thesis using assms(3) root by (auto simp: node_def move_tree_def)
  next
    case below
    then obtain r where r: "l = T @ r" by (auto simp: prefix_def)
    then have "fs ((S @ r) @ [c]) \<noteq> None" using a by (simp add: move_tree_def)
    then have "node fs (S @ r) = Some FDir" using assms(1) unfolding tree_def by blast
    then show ?thesis using assms(4,5) r by (simp add: node_def move_tree_def)
  next
    case other
    then have "\<not> prefix S (l @ [c])" "fs (l @ [c]) \<noteq> None" using a by (auto simp: move_tree_def split: if_splits)
    moreover from this have "node fs l = Some FDir" using assms(1) unfolding tree_def by blast
    ultimately show ?thesis using other by (auto simp: node_def move_tree_def)
  qed
qed

lemma move_tree_dir:
  assumes "writable_dir D fs" "fs S = Some FDir" "node fs (butlast T) = Some FDir" "strict_prefix D S" "strict_prefix D T" "\<not> prefix S T"
  shows "writable_dir D (move_tree S T fs)"
  unfolding writable_dir_def
proof (intro conjI allI impI)
  have n: "S \<noteq> []" "T \<noteq> []" using assms(4,5) by auto
  show "tree (move_tree S T fs)" using move_tree_tree assms(1-3,6) n by (simp add: writable_dir_def)
  show "node (move_tree S T fs) D = Some FDir"
    using assms(1) move_tree_outside [OF assms(4,5), of fs] by (auto simp: writable_dir_def kept_outside_def node_def split: if_splits)
  fix cs x assume x: "reserved x"
  consider (root) "T = D @ cs @ [x]" | (below) r where "D @ cs = T @ r" | (other) "\<not> prefix T (D @ cs @ [x])"
    by (metis append.assoc prefix_def prefix_snoc)
  then show "\<not> is_link (move_tree S T fs (D @ cs @ [x]))"
  proof cases
    case root
    then show ?thesis using assms(2) by (auto simp: move_tree_def)
  next
    case below
    obtain s where s: "S = D @ s" using assms(4) by (auto simp: strict_prefix_def prefix_def)
    have e: "D @ cs @ [x] = T @ r @ [x]" using below by simp
    have "move_tree S T fs (T @ r @ [x]) = fs (D @ (s @ r) @ [x])" using s by (simp add: move_tree_def)
    then have "move_tree S T fs (D @ cs @ [x]) = fs (D @ (s @ r) @ [x])" using e by (simp only:)
    then show ?thesis using assms(1) x unfolding writable_dir_def by metis
  next
    case other
    then show ?thesis using assms(1) x by (auto simp: move_tree_def writable_dir_def)
  qed
qed

lemma move_tree_clean:
  assumes "clean fs q T" "fs S = Some FDir" "T \<noteq> []"
  shows "clean (move_tree S T fs) q T"
proof -
  have "\<not> is_link (move_tree S T fs ([] @ take (Suc i) T))" if "i < length T" for i
  proof (cases "prefix T (take (Suc i) T)")
    case True
    then have "take (Suc i) T = T" using prefix_length_le by fastforce
    then show ?thesis using assms(2) by (simp add: move_tree_def)
  next
    case False
    then show ?thesis using assms(1) that by (auto simp: move_tree_def clean_def no_links_def)
  qed
  then show ?thesis using assms(1) by (simp add: clean_def no_links_def)
qed

lemma clean_last: "clean fs p T \<Longrightarrow> T \<noteq> [] \<Longrightarrow> \<not> is_link (fs T)"
  using no_links_append [of fs "[]" "butlast T" "[last T]"] by (simp add: clean_def no_links_Cons)

lemma os_rename_inside:
  assumes "writable_dir D fs" "clean fs p S" "strict_prefix D S" "clean fs q T" "prefix D T" "os_rename os fs p q = Inr fs'"
  shows "writable_dir D fs' \<and> kept_outside D fs fs' \<and> clean fs' q T"
proof -
  obtain s d where loc: "locate os fs False p = Inr s" "locate os fs False q = Inr d"
    using assms(6) by (auto simp: os_rename_def split: sum.splits)
  have l: "s = S" "node fs (butlast S) = Some FDir" "d = T" "T \<noteq> [] \<Longrightarrow> node fs (butlast T) = Some FDir"
    using locate_inside [OF assms(2,3) loc(1)] locate_clean [OF assms(4) loc(2)] by auto
  have n: "S \<noteq> []" "node fs S = fs S" using assms(3) by (auto simp: node_def)
  have nl: "\<not> is_link (fs S)" by (rule clean_last [OF assms(2) n(1)])
  have inside: "strict_prefix D T" if "node fs T \<noteq> Some FDir"
    using that assms(1,5) by (auto simp: writable_dir_def strict_prefix_def)
  consider (same) "fs' = fs" | (dir) "fs S = Some FDir" "node fs T = None" "\<not> prefix S T" "fs' = move_tree S T fs"
    | (plain) x where "fs S = Some x" "x \<noteq> FDir" "node fs T \<noteq> Some FDir" "S \<noteq> T" "fs' = fs(S := None, T \<mapsto> x)"
    using assms(6) loc l n by (auto simp: os_rename_def split: option.splits fnode.splits if_splits)
  then show ?thesis
  proof cases
    case same
    then show ?thesis using assms(1,4) by (simp add: kept_outside_def)
  next
    case dir
    have T: "strict_prefix D T" "T \<noteq> []" using inside dir(2) by auto
    then show ?thesis
      using move_tree_dir [OF assms(1) dir(1) _ assms(3) T(1) dir(3)] move_tree_outside [OF assms(3) T(1)] move_tree_clean [OF assms(4) dir(1) T(2)] l(4) dir(4)
      by simp
  next
    case plain
    have "strict_prefix D T" "T \<noteq> []" using inside plain(3) by auto
    then have T: "strict_prefix D T" "T \<noteq> []" "node fs (butlast T) = Some FDir" using l(4) by auto
    have e1: "evolves D fs (fs(S := None))" using evolves_update [OF assms(1,3) l(2)] plain(1,2) by simp
    have "butlast T \<noteq> S" using T(3) plain(1,2) n by (auto simp: node_def split: if_splits)
    then have "node (fs(S := None)) (butlast T) = Some FDir" using T(3) by (auto simp: node_def split: if_splits)
    moreover have "fs T \<noteq> Some FDir" using plain(3) T(2) by (simp add: node_def)
    ultimately have "evolves D (fs(S := None)) fs'"
      using evolves_update [OF evolves_dir [OF e1] T(1), of "Some x"] plain nl by simp
    then have "evolves D fs fs'" using evolves_trans [OF e1] by simp
    then show ?thesis using evolves_clean [OF _ assms(4)] by (simp add: evolves_def)
  qed
qed

lemma strict_prefix_snocD: "strict_prefix (cur @ [c]) l \<Longrightarrow> strict_prefix cur l"
  by (auto simp: strict_prefix_def prefix_def)

text \<open>Making directories adds directories where nothing was.\<close>

lemma mkdirs_adds:
  assumes "mkdirs os fs cur cs = (fs', ok)" "no_links fs cur cs" "''..'' \<notin> set cs" "node fs cur = Some FDir" "tree fs"
  shows "tree fs' \<and> (\<forall>l. fs' l \<noteq> fs l \<longrightarrow> fs l = None \<and> fs' l = Some FDir \<and> prefix l (cur @ cs) \<and> strict_prefix cur l)"
  using assms
proof (induction os fs cur cs rule: mkdirs.induct)
  case (2 os fs cur c cs)
  let ?l = "cur @ [c]"
  have nl: "\<not> is_link (fs ?l)" "no_links fs ?l cs" "c \<noteq> ''..''" "''..'' \<notin> set cs"
    using 2(4,5) by (auto simp: no_links_Cons)
  have w: "walk fs MAX_LINKS fl cur [c] = Inr ?l" for fl
    using nl by (auto simp: is_link_def split: option.splits fnode.splits)
  have node: "node fs ?l = fs ?l" by (simp add: node_def)
  consider (stop) "fs' = fs" | (new) "fs ?l = None" "os_permits os ?l" "mkdirs os (fs(?l \<mapsto> FDir)) ?l cs = (fs', ok)"
    | (old) "fs ?l = Some FDir" "mkdirs os fs ?l cs = (fs', ok)"
    using 2(3) w node by (auto split: if_splits)
  then show ?case
  proof cases
    case stop
    then show ?thesis using 2 by simp
  next
    case old
    then show ?thesis using 2(2) [OF w _ w] nl 2(7) node by (auto dest: strict_prefix_snocD)
  next
    case new
    let ?fs = "fs(?l \<mapsto> FDir)"
    have tr: "tree ?fs"
      unfolding tree_def
    proof (intro allI impI)
      fix l x assume a: "?fs (l @ [x]) \<noteq> None"
      show "node ?fs l = Some FDir"
      proof (cases "l @ [x] = ?l")
        case True
        then show ?thesis using 2(6) by (auto simp: node_def)
      next
        case False
        then have "fs (l @ [x]) \<noteq> None" using a by (auto split: if_splits)
        then have "node fs l = Some FDir" using 2(7) unfolding tree_def by blast
        then show ?thesis by (auto simp: node_def split: if_splits)
      qed
    qed
    have nl': "no_links ?fs ?l cs" using nl(2) by (simp add: no_links_def)
    have d: "node ?fs ?l = Some FDir" by (simp add: node_def)
    have "node fs ?l = None" using node new(1) by simp
    then have step: "tree fs' \<and> (\<forall>l. fs' l \<noteq> ?fs l \<longrightarrow> ?fs l = None \<and> fs' l = Some FDir \<and> prefix l (?l @ cs) \<and> strict_prefix ?l l)"
      by (rule 2(1) [OF w _ new(2,3) nl' nl(4) d tr])
    have "fs l = None \<and> fs' l = Some FDir \<and> prefix l (cur @ c # cs) \<and> strict_prefix cur l" if ch: "fs' l \<noteq> fs l" for l
    proof (cases "l = ?l")
      case True
      moreover have "fs' ?l = ?fs ?l" using step by (metis option.distinct(1) fun_upd_same)
      ultimately show ?thesis using new(1) by (simp add: strict_prefix_def)
    next
      case False
      then have "fs' l \<noteq> ?fs l" using ch by simp
      then have "?fs l = None \<and> fs' l = Some FDir \<and> prefix l (?l @ cs) \<and> strict_prefix ?l l" using step by blast
      then show ?thesis using False strict_prefix_snocD [of cur c l] by simp
    qed
    then show ?thesis using step by blast
  qed
qed simp

lemma dir_prefix:
  assumes "writable_dir D fs" "prefix l D"
  shows "node fs l = Some FDir"
proof (cases "l = D")
  case False
  then obtain r where r: "D = l @ r" "r \<noteq> []" using assms(2) by (auto simp: prefix_def)
  then have "fs (l @ r) \<noteq> None" using assms(1) by (auto simp: writable_dir_def node_def split: if_splits)
  then show ?thesis using tree_dirs [of fs l r 0] assms(1) r by (simp add: writable_dir_def)
qed (use assms(1) in \<open>simp add: writable_dir_def\<close>)

lemma create_parent_evolves:
  assumes "writable_dir D fs" "clean fs p (D @ cs)"
  shows "evolves D fs (create_parent os fs p)"
proof -
  let ?P = "butlast (D @ cs)"
  obtain fs' ok where mk: "mkdirs os fs [] ?P = (fs', ok)" by (cases "mkdirs os fs [] ?P") auto
  have "prefix ?P (D @ cs)" by (rule prefixeq_butlast)
  then have "no_links fs [] ?P" "''..'' \<notin> set ?P"
    using assms(2) no_links_prefix by (auto simp: clean_def dest: in_set_butlastD)
  then have ch: "tree fs'" "fs' l \<noteq> fs l \<Longrightarrow> fs l = None \<and> fs' l = Some FDir \<and> prefix l ?P \<and> l \<noteq> []" for l
    using mkdirs_adds [OF mk] assms(1) by (auto simp: writable_dir_def node_def)
  have inside: "strict_prefix D l" if c: "fs' l \<noteq> fs l" for l
  proof -
    have "prefix l (D @ cs)" using ch(2) [OF c] \<open>prefix ?P (D @ cs)\<close> prefix_order.trans by blast
    then have "prefix l D \<or> strict_prefix D l"
      using prefix_same_cases [of l "D @ cs" D] by (auto simp: strict_prefix_def)
    moreover have "\<not> prefix l D" using dir_prefix [OF assms(1), of l] ch(2) [OF c] by (auto simp: node_def)
    ultimately show ?thesis by simp
  qed
  then have "node fs' D = node fs D" by (auto simp: node_def)
  moreover have link: "is_link (fs' l) \<longrightarrow> is_link (fs l)" for l using ch(2) [of l] by (cases "fs' l = fs l") auto
  ultimately have "evolves D fs fs'"
    using assms(1) ch(1) inside by (auto simp: evolves_def writable_dir_def kept_outside_def)
  moreover have "create_parent os fs p = fs'" using assms(2) mk by (simp add: create_parent_def clean_def)
  ultimately show ?thesis by simp
qed

section \<open>Names that are accepted\<close>

lemma comps_single: "c \<in> set (comps name) \<Longrightarrow> comps c = [c] \<and> \<not> is_absolute c"
proof -
  assume "c \<in> set (comps name)"
  then have "CHR ''/'' \<notin> set c" "c \<noteq> []" "c \<noteq> ''.''" by (auto simp: comps_def dest: split_on_sep_notin)
  then show ?thesis by (cases c) (auto simp: comps_def split_on_no_sep is_absolute_def)
qed

lemma link_is_seen:
  assumes "tree fs" "is_absolute p" "''..'' \<notin> set (comps p)" "stat os fs False p = x" "comps p \<noteq> []"
    and "x = Inl ENOENT \<or> (\<exists>y. x = Inr y \<and> \<not> is_link (Some y))"
  shows "\<not> is_link (fs (comps p))"
proof
  assume l: "is_link (fs (comps p))"
  then have "fs (comps p) \<noteq> None" by (cases "fs (comps p)") auto
  then have "fs (take i (comps p)) = Some FDir" if "0 < i" "i < length (comps p)" for i
    using tree_dirs [of fs "[]" "comps p" i] assms(1) that by (auto simp: node_def split: if_splits)
  then have d: "\<forall>i. 0 < i \<and> i < length (comps p) \<longrightarrow> fs ([] @ take i (comps p)) = Some FDir"
    by simp
  have "p \<noteq> []" using assms(2) by (auto simp: is_absolute_def)
  then have "x = Inl ENAMETOOLONG \<or> x = Inl EINVAL \<or> (\<exists>y. x = Inr y \<and> fs (comps p) = Some y)"
    using walk_dirs [OF d assms(3)] assms(2,4,5) \<open>fs (comps p) \<noteq> None\<close>
    by (auto simp: stat_def locate_def node_def split: if_splits option.splits)
  then show False using assms(6) l by auto
qed

lemma no_symlinks_links:
  assumes "no_symlinks os fs cur cs = Inr ()" "tree fs" "is_absolute cur" "''..'' \<notin> set (comps cur)"
    and "\<forall>c\<in>set cs. comps c = [c] \<and> \<not> is_absolute c"
  shows "no_links fs (comps cur) cs \<and> ''..'' \<notin> set cs"
  using assms
proof (induction cs arbitrary: cur)
  case (Cons seg segs)
  let ?cur = "join_path cur seg"
  have c: "comps ?cur = comps cur @ [seg]" "is_absolute ?cur" "seg \<noteq> ''..''"
    using Cons.prems comps_join_path is_absolute_join_path by (auto split: if_splits)
  have x: "stat os fs False ?cur = Inl ENOENT \<or> (\<exists>y. stat os fs False ?cur = Inr y \<and> \<not> is_link (Some y))"
    and rest: "no_symlinks os fs ?cur segs = Inr ()"
    using Cons.prems(1) c(3) by (auto simp: Let_def split: sum.splits fnode.splits os_error.splits)
  have nl: "\<not> is_link (fs (comps cur @ [seg]))"
    using link_is_seen [OF Cons.prems(2) c(2) _ refl _ x] c Cons.prems(4) by simp
  have "no_links fs (comps ?cur) segs \<and> ''..'' \<notin> set segs"
    using Cons.IH [OF rest] Cons.prems c by auto
  then show ?case using nl c by (simp add: no_links_Cons)
qed simp

text \<open>The path of a job: its directory is given from the root, without steps upwards and links.\<close>

definition base_dir :: "string \<Rightarrow> loc \<Rightarrow> bool" where
  "base_dir base D \<longleftrightarrow> is_absolute base \<and> comps base = D \<and> ''..'' \<notin> set D"

text \<open>The three paths of a file: its own, that of the download and that of the digest.\<close>

definition job_paths :: "loc \<Rightarrow> fsys \<Rightarrow> string \<Rightarrow> bool" where
  "job_paths D fs path \<longleftrightarrow>
     (\<exists>T. clean fs path T \<and> prefix D T) \<and>
     (\<exists>T. clean fs (download_path path) T \<and> strict_prefix D T) \<and> (\<exists>T. clean fs (digest_path path) T \<and> strict_prefix D T)"

lemma dir_no_links:
  assumes "writable_dir D fs"
  shows "no_links fs [] D"
  unfolding no_links_def
proof (intro allI impI)
  fix i assume "i < length D"
  then have "node fs (take (Suc i) D) = Some FDir" "take (Suc i) D \<noteq> []"
    using dir_prefix [OF assms, of "take (Suc i) D"] take_is_prefix [of "Suc i" D] by auto
  then have "fs (take (Suc i) D) = Some FDir" by (simp add: node_def)
  then show "\<not> is_link (fs ([] @ take (Suc i) D))" by simp
qed

lemma reserved_suffix: "reserved (y @ ''.download'')" "reserved (y @ ''.digest'')"
  unfolding reserved_def by (blast intro: suffixI)+

lemma clean_suffix:
  assumes "writable_dir D fs" "base_dir base D" "\<not> is_absolute name" "name \<noteq> []" "no_links fs D (comps name)" "''..'' \<notin> set (comps name)"
    and "CHR ''/'' \<notin> set suf" "2 < length suf" "\<And>y. reserved (y @ suf)"
  shows "\<exists>T. clean fs (join_path base name @ suf) T \<and> strict_prefix D T"
proof -
  obtain pre y where s: "comps (name @ suf) = pre @ [y @ suf]" "prefix pre (comps name)"
    using comps_suffix [OF assms(7), of name] assms(8) by auto
  have ab: "\<not> is_absolute (name @ suf)" using assms(3,4) by (auto simp: is_absolute_def)
  have p: "join_path base name @ suf = join_path base (name @ suf)" using assms(3) ab by (simp add: join_path_def)
  have "y @ suf \<noteq> ''..''" using assms(8) by (auto simp: append_eq_Cons_conv)
  moreover have "''..'' \<notin> set pre" using assms(6) s(2) by (auto dest: set_mono_prefix)
  moreover have "no_links fs D (pre @ [y @ suf])"
    using no_links_prefix [OF assms(5) s(2)] assms(1,9) by (simp add: no_links_append no_links_Cons writable_dir_def)
  ultimately have "clean fs (join_path base (name @ suf)) (D @ pre @ [y @ suf])"
    using assms(2) dir_no_links [OF assms(1)] s(1) comps_join_path [OF ab, of base] is_absolute_join_path [of base]
    by (auto simp: clean_def base_dir_def no_links_append)
  then show ?thesis using p by (auto simp: strict_prefix_def)
qed

lemma join_validated_paths:
  assumes "writable_dir D fs" "base_dir base D" "name \<noteq> []" "join_validated_path os fs base name = Inr path"
  shows "job_paths D fs path \<and> (\<exists>cs. comps path = D @ cs)"
proof -
  have v: "\<not> is_absolute name" "no_symlinks os fs base (comps name) = Inr ()" "path = join_path base name"
    using assms(3,4) by (auto simp: join_validated_path_def validate_no_symlink_components_def job_join_def split: sum.splits if_splits)
  have b: "tree fs" "is_absolute base" "comps base = D" "''..'' \<notin> set (comps base)"
    using assms(1,2) by (simp_all add: writable_dir_def base_dir_def)
  have "\<forall>c\<in>set (comps name). comps c = [c] \<and> \<not> is_absolute c" using comps_single by blast
  then have nl: "no_links fs D (comps name)" "''..'' \<notin> set (comps name)"
    using no_symlinks_links [OF v(2) b(1,2,4)] b(3) by simp_all
  have "clean fs path (D @ comps name)"
    using assms(2) dir_no_links [OF assms(1)] nl v(3) comps_join_path [OF v(1), of base] is_absolute_join_path [of base]
    by (auto simp: clean_def base_dir_def no_links_append)
  moreover have "\<exists>T. clean fs (path @ ''.download'') T \<and> strict_prefix D T"
    unfolding v(3) by (rule clean_suffix [OF assms(1,2) v(1) assms(3) nl _ _ reserved_suffix(1)]) simp_all
  moreover have "\<exists>T. clean fs (path @ ''.digest'') T \<and> strict_prefix D T"
    unfolding v(3) by (rule clean_suffix [OF assms(1,2) v(1) assms(3) nl _ _ reserved_suffix(2)]) simp_all
  ultimately show ?thesis by (auto simp: job_paths_def download_path_def digest_path_def clean_def)
qed

lemma job_paths_evolves: "evolves D fs fs' \<Longrightarrow> job_paths D fs path \<Longrightarrow> job_paths D fs' path"
  unfolding job_paths_def using evolves_clean by blast

lemma or_same_evolves: "writable_dir D fs \<Longrightarrow> (\<And>fs'. r = Inr fs' \<Longrightarrow> evolves D fs fs') \<Longrightarrow> evolves D fs (or_same fs r)"
  by (cases r) (auto simp: or_same_def evolves_refl)

lemma remove_inside:
  assumes "writable_dir D fs" "job_paths D fs path" "p \<in> {download_path path, digest_path path}"
  shows "evolves D fs (or_same fs (os_remove_file os fs p))"
proof -
  obtain T where "clean fs p T" "strict_prefix D T" using assms(2,3) by (auto simp: job_paths_def)
  then show ?thesis using or_same_evolves [OF assms(1)] os_remove_file_evolves [OF assms(1)] by blast
qed

section \<open>Jobs stay inside their directory\<close>

definition stays_in :: "loc \<Rightarrow> fsys \<Rightarrow> fsys \<Rightarrow> bool" where
  "stays_in D fs fs' \<longleftrightarrow> writable_dir D fs' \<and> kept_outside D fs fs'"

lemma stays_in_refl: "writable_dir D fs \<Longrightarrow> stays_in D fs fs"
  by (simp add: stays_in_def kept_outside_def)

lemma stays_in_trans: "stays_in D fs fs1 \<Longrightarrow> stays_in D fs1 fs2 \<Longrightarrow> stays_in D fs fs2"
  by (auto simp: stays_in_def kept_outside_def)

lemma evolves_stays: "evolves D fs fs' \<Longrightarrow> stays_in D fs fs'"
  by (simp add: evolves_def stays_in_def)

definition job_inside :: "string \<Rightarrow> loc \<Rightarrow> transfer_job \<Rightarrow> bool" where
  "job_inside base D j \<longleftrightarrow>
     tj_type j = Generic \<and> tj_source j = FilePath base \<and> (\<forall>f\<in>set (tj_files j). en_name f \<noteq> []) \<and>
     (\<forall>l off. tj_stream j = Some (FileStream l off True) \<longrightarrow> strict_prefix D l)"

lemma job_inside_path:
  assumes "writable_dir D fs" "base_dir base D" "job_inside base D j" "i < length (tj_files j)"
    and "resolve_entry_path os fs j base (en_name (tj_files j ! i)) = Some path"
  shows "job_paths D fs path"
proof -
  have "en_name (tj_files j ! i) \<noteq> []" using assms(3,4) by (simp add: job_inside_def)
  then show ?thesis
    using join_validated_paths [OF assms(1,2)] assms(3,5) by (auto simp: resolve_entry_path_def job_inside_def split: sum.splits)
qed

lemma modify_time_inside:
  assumes "writable_dir D fs" "base_dir base D" "job_inside base D j"
  shows "stays_in D fs (modify_time os j fs)"
proof (cases "modify_time os j fs = fs")
  case False
  let ?e = "tj_files j ! as_usize (tj_file_num j)"
  have j: "tj_type j = Generic" "tj_source j = FilePath base" using assms(3) by (simp_all add: job_inside_def)
  obtain path where path: "as_usize (tj_file_num j) < length (tj_files j)" "resolve_entry_path os fs j base (en_name ?e) = Some path"
    using False j by (auto simp: modify_time_def Let_def split: if_splits option.splits)
  define fs1 where "fs1 = or_same fs (os_remove_file os fs (digest_path path))"
  define fs2 where "fs2 = or_same fs1 (os_rename os fs1 (download_path path) path)"
  have mt: "modify_time os j fs = or_same fs2 (os_set_mtime os fs2 path (unat (en_modified ?e) * nanos_per_sec))"
    using path j by (simp add: modify_time_def fs1_def fs2_def Let_def)
  have jp: "job_paths D fs path" by (rule job_inside_path [OF assms path])
  have e1: "evolves D fs fs1" unfolding fs1_def by (rule remove_inside [OF assms(1) jp]) simp
  note jp1 = job_paths_evolves [OF e1 jp] and d1 = evolves_dir [OF e1]
  obtain T S where c: "clean fs1 path T" "prefix D T" "clean fs1 (download_path path) S" "strict_prefix D S"
    using jp1 by (auto simp: job_paths_def)
  have e2: "stays_in D fs1 fs2 \<and> clean fs2 path T"
    using os_rename_inside [OF d1 c(3,4,1,2)] stays_in_refl [OF d1] c(1)
    by (cases "os_rename os fs1 (download_path path) path") (auto simp: fs2_def or_same_def stays_in_def)
  then have d2: "writable_dir D fs2" by (simp add: stays_in_def)
  have "evolves D fs2 (modify_time os j fs)"
    unfolding mt by (rule or_same_evolves [OF d2]) (rule os_set_mtime_evolves [OF d2 _ c(2)], use e2 in auto)
  then show ?thesis using e1 e2 evolves_stays stays_in_trans by blast
qed (use assms(1) stays_in_refl in simp)

lemma remove_download_inside:
  assumes "writable_dir D fs" "base_dir base D" "job_inside base D j"
  shows "stays_in D fs (remove_download_file os j fs)"
proof (cases "remove_download_file os j fs = fs")
  case False
  have j: "tj_type j = Generic" "tj_source j = FilePath base" using assms(3) by (simp_all add: job_inside_def)
  obtain path where path: "as_usize (tj_file_num j) < length (tj_files j)"
      "resolve_entry_path os fs j base (en_name (tj_files j ! as_usize (tj_file_num j))) = Some path"
    using False j by (auto simp: remove_download_file_def split: if_splits option.splits)
  define fs1 where "fs1 = or_same fs (os_remove_file os fs (download_path path))"
  have jp: "job_paths D fs path" by (rule job_inside_path [OF assms path])
  have e1: "evolves D fs fs1" unfolding fs1_def by (rule remove_inside [OF assms(1) jp]) simp
  have "evolves D fs1 (or_same fs1 (os_remove_file os fs1 (digest_path path)))"
    by (rule remove_inside [OF evolves_dir [OF e1] job_paths_evolves [OF e1 jp]]) simp
  moreover have "remove_download_file os j fs = or_same fs1 (os_remove_file os fs1 (digest_path path))"
    using path j by (simp add: remove_download_file_def fs1_def Let_def)
  ultimately show ?thesis using evolves_stays evolves_trans [OF e1] by simp
qed (use assms(1) stays_in_refl in simp)

lemma open_write_inside:
  assumes "writable_dir D fs" "job_paths D fs path" "p \<in> {download_path path, digest_path path}" "os_open_write tr os fs p = Inr (l, fs')"
  shows "evolves D fs fs' \<and> strict_prefix D l"
proof -
  obtain T where "clean fs p T" "strict_prefix D T" using assms(2,3) by (auto simp: job_paths_def)
  then show ?thesis using os_open_write_evolves [OF assms(1) _ _ assms(4)] by blast
qed

lemma write_digest_inside:
  assumes "writable_dir D fs" "job_paths D fs path"
  shows "evolves D fs (case os_open_write True os fs (digest_path path) of
      Inl _ \<Rightarrow> fs | Inr (d, fs4) \<Rightarrow> or_same fs4 (os_write_at os fs4 d 0 data))"
proof (cases "os_open_write True os fs (digest_path path)")
  case (Inr r)
  obtain d fs4 where r: "r = (d, fs4)" by (cases r)
  have "evolves D fs fs4" "strict_prefix D d" using open_write_inside [OF assms, of "digest_path path"] Inr r by auto
  moreover have "evolves D fs4 (or_same fs4 (os_write_at os fs4 d 0 data))"
    by (rule or_same_evolves) (use calculation os_write_at_evolves evolves_dir in blast)+
  ultimately show ?thesis using Inr r evolves_trans by auto
qed (use assms(1) evolves_refl in simp)

lemma open_download_inside:
  assumes "writable_dir D fs" "base_dir base D" "job_inside base D j" "name \<noteq> []" "open_download fe base name j fs = (fs', r)"
  shows "stays_in D fs fs' \<and> (\<forall>j'. r = Inr j' \<longrightarrow> job_inside base D j')"
proof (cases "join_validated_path (ft_os fe) fs base name")
  case (Inl e)
  then show ?thesis using assms stays_in_refl by (auto simp: open_download_def job_inside_def)
next
  case (Inr path)
  let ?os = "ft_os fe" and ?dp = "digest_path path"
  have jp: "job_paths D fs path" "\<exists>cs. comps path = D @ cs" using join_validated_paths [OF assms(1,2,4) Inr] by auto
  define fs1 where "fs1 = create_parent ?os fs path"
  define r2 where "r2 = (if path_exists ?os fs1 ?dp then os_remove_file ?os fs1 ?dp else Inr fs1)"
  obtain T cs where "clean fs path T" "T = D @ cs" using jp by (auto simp: job_paths_def clean_def)
  then have e1: "evolves D fs fs1" unfolding fs1_def using create_parent_evolves [OF assms(1)] by blast
  note d1 = evolves_dir [OF e1] and jp1 = job_paths_evolves [OF e1 jp(1)]
  have e2: "evolves D fs1 fs2" if "r2 = Inr fs2" for fs2
    using that remove_inside [OF d1 jp1, of ?dp ?os] evolves_refl [OF d1] by (auto simp: r2_def or_same_def split: if_splits)
  have j: "tj_type j = Generic" using assms(3) by (simp add: job_inside_def)
  have od: "open_download fe base name j fs =
    (case r2 of
       Inl e \<Rightarrow> (fs1, Inl (Sys e))
     | Inr fs2 \<Rightarrow>
         (case os_open_write True ?os fs2 (download_path path) of
            Inl e \<Rightarrow> (fs2, Inl (Sys e))
          | Inr (l, fs3) \<Rightarrow>
              (case os_open_write True ?os fs3 ?dp of
                 Inl _ \<Rightarrow> fs3
               | Inr (d, fs4) \<Rightarrow> or_same fs4 (os_write_at ?os fs4 d 0 (ft_digest_json fe (tj_digest j))),
               Inr (j\<lparr>tj_stream := Some (FileStream l 0 True)\<rparr>))))"
    unfolding r2_def fs1_def using Inr j by (simp add: open_download_def Let_def split: sum.split prod.split)
  show ?thesis
  proof (cases r2)
    case (Inl e)
    then show ?thesis using od assms(5) e1 evolves_stays by auto
  next
    case r2: (Inr fs2)
    note e12 = evolves_trans [OF e1 e2 [OF r2]]
    note d2 = evolves_dir [OF e12] and jp2 = job_paths_evolves [OF e12 jp(1)]
    show ?thesis
    proof (cases "os_open_write True ?os fs2 (download_path path)")
      case (Inl e)
      then show ?thesis using od r2 assms(5) e12 evolves_stays by auto
    next
      case (Inr s)
      obtain l fs3 where s: "s = (l, fs3)" by (cases s)
      have o: "evolves D fs2 fs3" "strict_prefix D l" using open_write_inside [OF d2 jp2, of "download_path path"] Inr s by auto
      have "evolves D fs3 fs'"
        using write_digest_inside [OF evolves_dir [OF o(1)] job_paths_evolves [OF o(1) jp2]] od assms(5) r2 Inr s by simp
      then have "stays_in D fs fs'" using evolves_stays evolves_trans [OF e12] evolves_trans [OF o(1)] by blast
      moreover have "r = Inr (j\<lparr>tj_stream := Some (FileStream l 0 True)\<rparr>)" using od assms(5) r2 Inr s by simp
      ultimately show ?thesis using assms(3) o(2) by (auto simp: job_inside_def)
    qed
  qed
qed

lemma job_prepare_inside:
  assumes "writable_dir D fs" "base_dir base D" "job_inside base D j" "job_prepare fe block j fs = (j', fs', r)"
  shows "stays_in D fs fs' \<and> job_inside base D j'"
proof (cases "(j', fs') = (j, fs)")
  case False
  let ?n = "as_usize (bk_file_num block)"
  define fs1 where "fs1 = modify_time (ft_os fe) j fs"
  define j1 where "j1 = j\<lparr>tj_file_num := bk_file_num block\<rparr>"
  have src: "tj_source j = FilePath base" using assms(3) by (simp add: job_inside_def)
  obtain r' where od: "open_download fe base (en_name (tj_files j ! ?n)) j1 fs1 = (fs', r')" "?n < length (tj_files j)"
      "j' = (case r' of Inl _ \<Rightarrow> j1 | Inr j2 \<Rightarrow> j2)"
    using assms(4) False src by (auto simp: job_prepare_def Let_def fs1_def j1_def split: if_splits prod.splits sum.splits)
  have m: "stays_in D fs fs1" unfolding fs1_def by (rule modify_time_inside [OF assms(1-3)])
  have i1: "job_inside base D j1" using assms(3) by (simp add: job_inside_def j1_def)
  have "en_name (tj_files j ! ?n) \<noteq> []" using assms(3) od(2) by (simp add: job_inside_def)
  then have "stays_in D fs1 fs' \<and> (\<forall>j'. r' = Inr j' \<longrightarrow> job_inside base D j')"
    using open_download_inside [OF _ assms(2) i1 _ od(1)] m by (simp add: stays_in_def)
  then show ?thesis using m i1 od(3) stays_in_trans by (auto split: sum.splits)
qed (use assms(1,3) stays_in_refl in simp)

lemma stream_write_inside:
  assumes "writable_dir D fs" "stream_write os fs st data = Inr (st', fs')" "\<forall>l off. st = FileStream l off True \<longrightarrow> strict_prefix D l"
  shows "stays_in D fs fs' \<and> (\<forall>l off. st' = FileStream l off True \<longrightarrow> strict_prefix D l)"
proof (cases st)
  case (FileStream l off w)
  then have w: "w" "st' = FileStream l (off + length data) True" "os_write_at os fs l off data = Inr fs'"
    using assms(2) by (auto simp: stream_write_def split: if_splits sum.splits)
  then have "strict_prefix D l" using assms(3) FileStream by simp
  then show ?thesis using os_write_at_evolves [OF assms(1) _ w(3)] w(2) evolves_stays by simp
next
  case (BufStream c off)
  then show ?thesis using assms stays_in_refl by (auto simp: stream_write_def)
qed

lemma job_write_inside:
  assumes "writable_dir D fs" "base_dir base D" "job_inside base D j" "job_write fe block j fs = (j', fs', r)"
  shows "stays_in D fs fs' \<and> job_inside base D j'"
proof (cases "bk_id block = tj_id j")
  case True
  obtain j1 fs1 r1 where p: "job_prepare fe block j fs = (j1, fs1, r1)" by (cases "job_prepare fe block j fs") auto
  have i: "stays_in D fs fs1" "job_inside base D j1" using job_prepare_inside [OF assms(1-3) p] by auto
  define data where "data = (if bk_compressed block then decompress fe (bk_data block) else bk_data block)"
  have jw: "job_write fe block j fs =
    (case r1 of Inl e \<Rightarrow> (j1, fs1, Inl e)
     | Inr _ \<Rightarrow>
        (case tj_stream j1 of
           None \<Rightarrow> (j1, fs1, Inl NoStream)
         | Some st \<Rightarrow>
             (case stream_write (ft_os fe) fs1 st data of
                Inl e \<Rightarrow> (j1, fs1, Inl (Sys e))
              | Inr (st', fs2) \<Rightarrow>
                  (j1\<lparr>tj_stream := Some st', tj_finished := tj_finished j1 + of_nat (length data),
                      tj_transferred := tj_transferred j1 + of_nat (length (bk_data block))\<rparr>, fs2, Inr ()))))"
    unfolding job_write_def data_def [symmetric] Let_def using True p by simp
  show ?thesis
  proof (cases "\<exists>st st' fs2. r1 = Inr () \<and> tj_stream j1 = Some st \<and> stream_write (ft_os fe) fs1 st data = Inr (st', fs2)")
    case True
    then obtain st st' fs2 where s: "r1 = Inr ()" "tj_stream j1 = Some st" "stream_write (ft_os fe) fs1 st data = Inr (st', fs2)" by blast
    have j': "fs' = fs2" "j' = j1\<lparr>tj_stream := Some st', tj_finished := tj_finished j1 + of_nat (length data),
                      tj_transferred := tj_transferred j1 + of_nat (length (bk_data block))\<rparr>"
      using jw s assms(4) by simp_all
    have d1: "writable_dir D fs1" using i(1) by (simp add: stays_in_def)
    have "\<forall>l off. st = FileStream l off True \<longrightarrow> strict_prefix D l" using i(2) s(2) by (simp add: job_inside_def)
    then have "stays_in D fs1 fs2 \<and> (\<forall>l off. st' = FileStream l off True \<longrightarrow> strict_prefix D l)"
      by (rule stream_write_inside [OF d1 s(3)])
    then have s2: "stays_in D fs1 fs2" "\<forall>l off. st' = FileStream l off True \<longrightarrow> strict_prefix D l" by simp_all
    have "stays_in D fs fs'" using stays_in_trans [OF i(1) s2(1)] j'(1) by simp
    moreover have "job_inside base D j'" using i(2) s2(2) by (simp add: job_inside_def j'(2))
    ultimately show ?thesis ..
  next
    case False
    then have "j' = j1" "fs' = fs1" using jw assms(4) by (auto split: sum.splits option.splits)
    then show ?thesis using i by simp
  qed
qed (use assms stays_in_refl in \<open>auto simp: job_write_def\<close>)

lemma set_stream_offset_inside:
  assumes "writable_dir D fs" "base_dir base D" "job_inside base D j" "set_stream_offset os n off j fs = Some (j', fs')"
  shows "stays_in D fs fs' \<and> job_inside base D j'"
proof (cases "fs' = fs \<and> (\<exists>l. j' = j \<or> tj_stream j' = Some (FileStream l (unat off) False))")
  case True
  then show ?thesis
    using assms stays_in_refl
    by (auto simp: set_stream_offset_def job_inside_def Let_def split: option.splits if_splits sum.splits data_source.splits)
next
  case False
  have src: "tj_source j = FilePath base" using assms(3) by (simp add: job_inside_def)
  then obtain path l where p: "n < length (tj_files j)" "resolve_entry_path os fs j base (en_name (tj_files j ! n)) = Some path"
      "os_open_write False os fs (download_path path) = Inr (l, fs')"
      "j' = j\<lparr>tj_stream := Some (FileStream l (unat off) True), tj_transferred := tj_transferred j + off, tj_finished := tj_finished j + off\<rparr>"
    using assms(4) False by (auto simp: set_stream_offset_def Let_def split: option.splits if_splits sum.splits)
  have "evolves D fs fs' \<and> strict_prefix D l"
    using open_write_inside [OF assms(1) job_inside_path [OF assms(1-3) p(1,2)] _ p(3)] by simp
  then show ?thesis using assms(3) p(4) evolves_stays by (auto simp: job_inside_def)
qed

lemma job_confirm_inside:
  assumes "writable_dir D fs" "base_dir base D" "job_inside base D j" "job_confirm os r j fs = Some (j', fs')"
  shows "stays_in D fs fs' \<and> job_inside base D j'"
proof -
  have c: "job_inside base D (set_file_confirmed True j)" "job_inside base D (set_file_skipped j)"
    using assms(3) by (auto simp: job_inside_def set_file_confirmed_def set_file_skipped_def Let_def)
  show ?thesis
    using assms(4) set_stream_offset_inside [OF assms(1,2) c(1)] stays_in_refl [OF assms(1)] c assms(3)
    by (auto simp: job_confirm_def split: if_splits confirm_choice.splits)
qed

text \<open>What the peer and the user make a writing job do; a task that has ended does nothing more.\<close>

datatype job_action = AWrite transfer_block | AFinish | ADiscard | AConfirm send_confirm

fun job_act :: "ft_env \<Rightarrow> job_action \<Rightarrow> transfer_job \<Rightarrow> fsys \<Rightarrow> (transfer_job \<times> fsys) option" where
  "job_act fe (AWrite block) j fs = (case job_write fe block j fs of (j', fs', _) \<Rightarrow> Some (j', fs'))"
| "job_act fe AFinish j fs = Some (j, modify_time (ft_os fe) j fs)"
| "job_act fe ADiscard j fs = Some (j, remove_download_file (ft_os fe) j fs)"
| "job_act fe (AConfirm r) j fs = job_confirm (ft_os fe) r j fs"

fun job_acts :: "(ft_env \<times> job_action) list \<Rightarrow> transfer_job \<times> fsys \<Rightarrow> transfer_job \<times> fsys" where
  "job_acts [] s = s"
| "job_acts ((fe, a) # as) (j, fs) = (case job_act fe a j fs of None \<Rightarrow> (j, fs) | Some s \<Rightarrow> job_acts as s)"

text \<open>What holds of each action, and relates what was before to what is after it, holds of every sequence of actions.\<close>

locale guarded_actions =
  fixes act :: "'e \<Rightarrow> 'j \<Rightarrow> 'f \<Rightarrow> ('j \<times> 'f) option"
    and acts :: "'e list \<Rightarrow> 'j \<times> 'f \<Rightarrow> 'j \<times> 'f"
    and inv :: "'j \<times> 'f \<Rightarrow> bool" and rel :: "'f \<Rightarrow> 'f \<Rightarrow> bool"
  assumes acts_Nil: "acts [] s = s"
    and acts_Cons: "acts (e # es) (j, f) = (case act e j f of None \<Rightarrow> (j, f) | Some s \<Rightarrow> acts es s)"
    and act_ok: "inv (j, f) \<Longrightarrow> act e j f = Some (j', f') \<Longrightarrow> inv (j', f') \<and> rel f f'"
    and rel_refl: "inv (j, f) \<Longrightarrow> rel f f"
    and rel_trans: "rel f f1 \<Longrightarrow> rel f1 f2 \<Longrightarrow> rel f f2"
begin

lemma acts_ok: "inv s \<Longrightarrow> inv (acts es s) \<and> rel (snd s) (snd (acts es s))"
proof (induction es arbitrary: s)
  case Nil
  then show ?case using rel_refl [of "fst s" "snd s"] by (simp add: acts_Nil)
next
  case (Cons e es)
  obtain j f where s: "s = (j, f)" by (cases s)
  show ?case
  proof (cases "act e j f")
    case None
    then show ?thesis using Cons.prems s rel_refl by (simp add: acts_Cons)
  next
    case (Some y)
    obtain j' f' where y: "y = (j', f')" by (cases y)
    then have "inv (j', f')" "rel f f'" using act_ok [of j f e j' f'] Cons.prems s Some by auto
    then show ?thesis using Cons.IH [of y] Some s y rel_trans [of f f'] by (auto simp: acts_Cons)
  qed
qed

end

lemma job_act_inside:
  assumes "writable_dir D fs" "base_dir base D" "job_inside base D j" "job_act fe a j fs = Some (j', fs')"
  shows "stays_in D fs fs' \<and> job_inside base D j'"
proof (cases a)
  case (AWrite block)
  then obtain r where "job_write fe block j fs = (j', fs', r)" using assms(4) by (auto split: prod.splits)
  then show ?thesis by (rule job_write_inside [OF assms(1-3)])
qed (use assms modify_time_inside remove_download_inside job_confirm_inside in auto)

definition guarded_state :: "string \<Rightarrow> loc \<Rightarrow> transfer_job \<times> fsys \<Rightarrow> bool" where
  "guarded_state base D s \<longleftrightarrow> base_dir base D \<and> writable_dir D (snd s) \<and> job_inside base D (fst s)"

interpretation job_run: guarded_actions "\<lambda>(fe, a). job_act fe a" job_acts "guarded_state base D" "stays_in D" for base D
proof
  fix e :: "ft_env \<times> job_action" and es j and f :: fsys and j' f'
  obtain fe a where e: "e = (fe, a)" by (cases e)
  show "job_acts (e # es) (j, f) = (case (case e of (fe, a) \<Rightarrow> job_act fe a) j f of None \<Rightarrow> (j, f) | Some s \<Rightarrow> job_acts es s)"
    using e by simp
  assume "guarded_state base D (j, f)" "(case e of (fe, a) \<Rightarrow> job_act fe a) j f = Some (j', f')"
  then show "guarded_state base D (j', f') \<and> stays_in D f f'"
    using job_act_inside [of D f base j fe a j' f'] e by (auto simp: guarded_state_def stays_in_def)
qed (auto simp: guarded_state_def stays_in_refl intro: stays_in_trans)


section \<open>The names that one side lists are accepted by the other\<close>

text \<open>What a system lists: neither the directory above nor a name with a null byte.\<close>

definition lists_names :: "os_env \<Rightarrow> bool" where
  "lists_names os \<longleftrightarrow> (\<forall>l. \<forall>c\<in>set (os_list os l). c \<noteq> ''..'' \<and> char_of (0 :: nat) \<notin> set c)"

definition good_prefix :: "string \<Rightarrow> bool" where
  "good_prefix pre \<longleftrightarrow> validate_file_name_no_traversal pre = Inr () \<and> (pre = [] \<or> last pre \<noteq> CHR ''/'')"

lemma good_prefix_join:
  assumes "good_prefix pre" "CHR ''/'' \<notin> set name" "name \<noteq> []" "name \<noteq> ''..''" "char_of (0 :: nat) \<notin> set name"
  shows "good_prefix (join_path pre name)" "join_path pre name \<noteq> []"
proof -
  have rel: "\<not> is_absolute name" using assms(2,3) by (cases name) (auto simp: is_absolute_def)
  have l: "last name \<noteq> CHR ''/''" using assms(2,3) last_in_set [of name] by metis
  show "join_path pre name \<noteq> []" using assms(3) by (simp add: join_path_def)
  show "good_prefix (join_path pre name)"
  proof (cases "pre = []")
    case True
    then show ?thesis
      using assms(2-5) rel l by (cases name) (auto simp: good_prefix_def join_path_def validate_file_name_no_traversal_def starts_with_def)
  next
    case False
    then have "join_path pre name = pre @ CHR ''/'' # name" using assms(1) rel by (simp add: join_path_def good_prefix_def)
    moreover have "starts_with (pre @ s) ''/'' = starts_with pre ''/''" for s using False by (cases pre) (simp_all add: starts_with_def)
    moreover have "split_on CHR ''/'' (pre @ CHR ''/'' # name) = split_on CHR ''/'' pre @ [name]"
      using assms(2) by (simp add: split_on_append)
    ultimately show ?thesis
      using assms False l by (auto simp: good_prefix_def validate_file_name_no_traversal_def nul_char split: if_splits)
  qed
qed

lemma dir_entry_type: "dir_entry os fs path h name = Some e \<Longrightarrow> \<not> is_dir os fs (join_path path name) \<Longrightarrow> en_type e \<noteq> DirType"
  by (auto simp: dir_entry_def Let_def split: sum.splits if_splits)

lemma read_dir_types:
  assumes "read_dir os fs path h = Inr es" "e \<in> set es" "en_type e = DirType"
  shows "is_dir os fs (join_path path (en_name e))"
proof -
  obtain l where "es = List.map_filter (dir_entry os fs path h) (listed_names os l)"
    using assms(1) by (auto simp: read_dir_def split: sum.splits if_splits)
  then obtain name where n: "dir_entry os fs path h name = Some e" using assms(2) by (auto simp: List.map_filter_def)
  then show ?thesis
    using assms(3) dir_entry_name [OF n] dir_entry_type [OF n] by auto
qed

lemma listed_names_good:
  assumes "lists_names os" "read_dir_recursive os fs path pre h = Inr files" "is_dir os fs path" "good_prefix pre" "f \<in> set files"
  shows "good_prefix (en_name f) \<and> en_name f \<noteq> []"
  using assms
proof (induction os fs path pre h arbitrary: files rule: read_dir_recursive.induct)
  case (1 os fs path pre h)
  obtain es where es: "read_dir os fs path h = Inr es"
    using 1(3,4) by (subst (asm) read_dir_recursive.simps) (auto split: sum.splits)
  obtain e where e: "e \<in> set es" "f \<in> set (case en_type e of
                  FileType \<Rightarrow> [e\<lparr>en_name := join_path pre (en_name e)\<rparr>]
                | DirType \<Rightarrow>
                    (case read_dir_recursive os fs (join_path path (en_name e)) (join_path pre (en_name e)) h of Inr tmp \<Rightarrow> tmp | Inl _ \<Rightarrow> [])
                | _ \<Rightarrow> [])"
    using 1(3,4,6) es by (subst (asm) read_dir_recursive.simps) auto
  have n: "CHR ''/'' \<notin> set (en_name e)" "en_name e \<noteq> []" "en_name e \<noteq> ''..''" "char_of (0 :: nat) \<notin> set (en_name e)"
    using read_dir_names [OF es e(1)] 1(2) by (auto simp: lists_names_def)
  note j = good_prefix_join [OF 1(5) n]
  show ?case
  proof (cases "en_type e = DirType")
    case True
    then obtain tmp where t: "read_dir_recursive os fs (join_path path (en_name e)) (join_path pre (en_name e)) h = Inr tmp" "f \<in> set tmp"
      using e(2) by (cases "read_dir_recursive os fs (join_path path (en_name e)) (join_path pre (en_name e)) h") auto
    show ?thesis by (rule 1(1) [OF 1(4) es e(1) True 1(2) t(1) read_dir_types [OF es e(1) True] j(1) t(2)])
  next
    case False
    then have "f = e\<lparr>en_name := join_path pre (en_name e)\<rparr>" using e(2) by (cases "en_type e") auto
    then show ?thesis using j by simp
  qed
qed

lemma validate_each_good: "\<forall>f\<in>set files. good_prefix (en_name f) \<and> en_name f \<noteq> [] \<Longrightarrow> validate_each files = Inr ()"
  by (induction files) (auto simp: good_prefix_def)

text \<open>
  C24.  The two sides of a transfer agree on names: what the sending side lists of a file or of a whole directory tree is never
  refused by the checks of the receiving side against empty names, null bytes, steps upwards and absolute paths.
\<close>

theorem listed_files_accepted:
  assumes "lists_names os" "get_recursive_files os fs path include_hidden = Inr files"
  shows "validate_transfer_file_names files = Inr ()"
proof (cases "is_dir os fs path")
  case True
  have "good_prefix []" by (simp add: good_prefix_def validate_file_name_no_traversal_def starts_with_def)
  then have "\<forall>f\<in>set files. good_prefix (en_name f) \<and> en_name f \<noteq> []"
    using listed_names_good [OF assms(1) _ True, of "[]" include_hidden files] assms(2) by (auto simp: get_recursive_files_def)
  then show ?thesis using validate_each_good by (simp add: validate_transfer_file_names_def)
next
  case False
  then have "length files = 1 \<and> en_name (hd files) = []"
    using assms(2) by (auto simp: get_recursive_files_def read_dir_recursive.simps [of os fs path] Let_def split: if_splits)
  then show ?thesis by (simp add: validate_transfer_file_names_def)
qed

section \<open>Samples\<close>

text \<open>A system that permits everything, and a job that writes the files with some names below \<open>/d\<close>.\<close>

definition sample_os :: os_env where
  "sample_os = \<lparr>os_cwd = [], os_now = 7, os_permits = (\<lambda>_. True), os_reads = (\<lambda>_. True), os_grant = (\<lambda>_. 1), os_list = (\<lambda>_. [])\<rparr>"

definition sample_fe :: ft_env where
  "sample_fe = \<lparr>ft_os = sample_os, ft_compress = Some, ft_decompress = Some, ft_digest_json = (\<lambda>_. []), ft_parse_digest = (\<lambda>_. None)\<rparr>"

definition sample_entry :: "string \<Rightarrow> file_entry" where
  "sample_entry name = \<lparr>en_type = FileType, en_name = name, en_hidden = False, en_size = 1, en_modified = 5\<rparr>"

definition sample_job :: "string list \<Rightarrow> transfer_job" where
  "sample_job names = new_job 1 Generic [] (FilePath ''/d'') 0 False False False (map sample_entry names) 1"

definition sample_block :: "int \<Rightarrow> transfer_block" where
  "sample_block n = \<lparr>bk_id = 1, bk_file_num = n, bk_data = [42], bk_compressed = False\<rparr>"

lemmas sample_defs = sample_fe_def sample_os_def sample_job_def new_job_def sample_entry_def sample_block_def

lemmas job_call_defs = nul_char
  job_write_def job_prepare_def modify_time_def open_download_def stream_write_def resolve_entry_path_def join_validated_path_def
  validate_file_name_no_traversal_def validate_no_symlink_components_def job_join_def download_path_def digest_path_def
  os_remove_file_def os_rename_def os_set_mtime_def os_open_write_def os_write_at_def create_parent_def path_exists_def or_same_def
  stat_def locate_def comps_def is_absolute_def join_path_def node_def starts_with_def overwrite_at_def as_usize_def
  MAX_LINKS_def PATH_MAX_def nanos_per_sec_def Let_def

lemma sample_base: "base_dir ''/d'' [''d'']"
  by (simp add: base_dir_def is_absolute_def comps_def)

lemma sample_dir: "writable_dir [''d''] [[''d''] \<mapsto> FDir]"
  by (auto simp: writable_dir_def tree_def node_def)


text \<open>A directory with a file and a directory in it.\<close>

definition listing_os :: os_env where
  "listing_os = sample_os\<lparr>os_list := (\<lambda>l. if l = [''d''] then [''e'', ''f''] else if l = [''d'', ''e''] then [''g''] else [])\<rparr>"

definition listing_fs :: fsys where
  "listing_fs = [[''d''] \<mapsto> FDir, [''d'', ''e''] \<mapsto> FDir, [''d'', ''f''] \<mapsto> FFile [1] 0, [''d'', ''e'', ''g''] \<mapsto> FFile [] 0]"

theorem listed_files_accepted_witness:
  "\<exists>files. get_recursive_files listing_os listing_fs ''/d'' False = Inr files \<and> validate_transfer_file_names files = Inr ()"
proof -
  have "lists_names listing_os" by (auto simp: lists_names_def listing_os_def sample_os_def nul_char)
  moreover obtain files where "get_recursive_files listing_os listing_fs ''/d'' False = Inr files"
    by (simp add: get_recursive_files_def read_dir_recursive.simps [of _ _ "''/d''"] read_dir_def is_dir_def listing_os_def listing_fs_def
        sample_os_def job_call_defs)
  ultimately show ?thesis using listed_files_accepted by blast
qed

text \<open>A link in the place of the download is followed: the check is made for the name without the suffix.\<close>

lemma download_link_is_followed:
  "(case job_write sample_fe (sample_block 1) (sample_job [''g'', ''f'']) [[''d''] \<mapsto> FDir, [''d'', ''f.download''] \<mapsto> FLink ''/x''] of
      (_, fs, r) \<Rightarrow> r = Inr () \<and> fs [''x''] = Some (FFile [42] 7))"
  by (simp add: sample_defs job_call_defs)

text \<open>The first block of a new transfer puts what is left of an earlier one in the place of the file.\<close>

lemma stale_download_replaces_file:
  "modify_time sample_os (sample_job [''f''])
      [[''d''] \<mapsto> FDir, [''d'', ''f''] \<mapsto> FFile [1, 2, 3] 0, [''d'', ''f.download''] \<mapsto> FFile [1] 0] [''d'', ''f''] = Some (FFile [1] 5000000000)"
  by (simp add: sample_defs job_call_defs)

text \<open>A confirmation with an offset that comes after the last file ends the task.\<close>

lemma late_confirmation_panics:
  assumes "tj_source j = FilePath p" "as_usize (tj_file_num j) = length (tj_files j)" "0 < offset"
  shows "job_confirm os \<lparr>cr_file_num = tj_file_num j, cr_choice = OffsetBlk offset\<rparr> j fs = None"
  using assms by (simp add: job_confirm_def set_stream_offset_def set_file_confirmed_def)

end
