(* ===== verification/File_Round.thy ===== *)
theory File_Round
  imports File_Props
begin

text \<open>A file arrives as it was sent: the reading side, the writing side, and both together.\<close>

section \<open>The reading side\<close>

function chunk_list :: "bytes \<Rightarrow> bytes list" where
  "chunk_list c = (if c = [] then [] else take BUF_SIZE c # chunk_list (drop BUF_SIZE c))"
  by pat_completeness auto
termination by (relation "measure length") (auto simp: BUF_SIZE_def)

declare chunk_list.simps [simp del]

lemma chunk_list_Nil [simp]: "chunk_list [] = []"
  by (simp add: chunk_list.simps)

lemma concat_chunk_list: "concat (chunk_list c) = c"
proof (induction c rule: chunk_list.induct)
  case (1 c)
  then show ?case by (cases "c = []") (simp_all add: chunk_list.simps [of c])
qed

lemma chunk_list_not_Nil: "b \<in> set (chunk_list c) \<Longrightarrow> b \<noteq> []"
proof (induction c rule: chunk_list.induct)
  case (1 c)
  then show ?case by (cases "c = []") (auto simp: chunk_list.simps [of c] BUF_SIZE_def)
qed

text \<open>The block for a piece of the current file, and the empty one at its end.\<close>

definition block_of :: "ft_env \<Rightarrow> transfer_job \<Rightarrow> bytes \<Rightarrow> transfer_block" where
  "block_of fe j buf =
     (let z = \<not> is_compressed_file (read_name j) \<and> length (compress fe buf) < length buf
      in \<lparr>bk_id = tj_id j, bk_file_num = tj_file_num j, bk_data = (if z then compress fe buf else buf), bk_compressed = z\<rparr>)"

definition end_block :: "transfer_job \<Rightarrow> transfer_block" where
  "end_block j = \<lparr>bk_id = tj_id j, bk_file_num = tj_file_num j, bk_data = [], bk_compressed = False\<rparr>"

text \<open>The connection calls \<open>handle_read_jobs\<close> again and again.\<close>

fun read_rounds :: "ft_env \<Rightarrow> nat \<Rightarrow> fsys \<Rightarrow> transfer_job list \<Rightarrow> transfer_job list \<times> file_msg list" where
  "read_rounds fe 0 fs js = (js, [])"
| "read_rounds fe (Suc n) fs js =
     (case handle_read_jobs fe True fs js of (js1, ms, _) \<Rightarrow> case read_rounds fe n fs js1 of (js2, ms') \<Rightarrow> (js2, ms @ ms'))"

lemma read_rounds_append:
  "read_rounds fe m fs js = (js1, ms) \<Longrightarrow> read_rounds fe n fs js1 = (js2, ms') \<Longrightarrow> read_rounds fe (m + n) fs js = (js2, ms @ ms')"
  by (induction m arbitrary: js js1 ms) (auto split: prod.splits)

text \<open>A job that has opened its file for reading and needs no confirmation.\<close>

definition reading :: "transfer_job \<Rightarrow> loc \<Rightarrow> nat \<Rightarrow> bool" where
  "reading j l off \<longleftrightarrow>
     (\<exists>p. tj_source j = FilePath p) \<and> as_usize (tj_file_num j) < length (tj_files j) \<and> tj_stream j = Some (FileStream l off False) \<and>
     \<not> tj_overwrite_detection j \<and> \<not> tj_is_last_job j"

lemma reading_init:
  "reading j l off \<Longrightarrow> init_jobs os True fs [j] = ([j], [], False)"
  by (auto simp: reading_def init_data_stream_def open_data_stream_def awaits_confirmation_def)

definition advanced :: "ft_env \<Rightarrow> loc \<Rightarrow> nat \<Rightarrow> bytes \<Rightarrow> transfer_job \<Rightarrow> transfer_job" where
  "advanced fe l off buf j =
     j\<lparr>tj_stream := Some (FileStream l (off + length buf) False), tj_finished := tj_finished j + of_nat (length buf),
       tj_transferred := tj_transferred j + of_nat (length (bk_data (block_of fe j buf)))\<rparr>"

lemma block_of_cong:
  assumes "tj_id j = tj_id i" "tj_source j = tj_source i" "tj_files j = tj_files i" "tj_file_num j = tj_file_num i"
  shows "block_of fe j = block_of fe i"
proof -
  have "read_name j = read_name i" using assms by (simp add: read_name_def split: data_source.split)
  then show ?thesis using assms by (intro ext) (simp add: block_of_def)
qed

lemma advanced_simps [simp]:
  "tj_id (advanced fe l off buf j) = tj_id j" "tj_file_num (advanced fe l off buf j) = tj_file_num j"
  "tj_files (advanced fe l off buf j) = tj_files j" "tj_skipped (advanced fe l off buf j) = tj_skipped j"
  by (simp_all add: advanced_def)

lemma block_of_advanced: "block_of fe (advanced fe l off buf j) = block_of fe j"
  by (rule block_of_cong) (simp_all add: advanced_def)

lemma reading_advanced: "reading j l off \<Longrightarrow> reading (advanced fe l off buf j) l (off + length buf)"
  by (simp add: reading_def advanced_def)

lemma stream_read_file:
  assumes "node fs l = Some (FFile c t)" "os_reads os l"
  shows "stream_read os fs (FileStream l off False) =
    Inr (take BUF_SIZE (drop off c), FileStream l (off + length (take BUF_SIZE (drop off c))) False)"
  using assms by (simp add: stream_read_def read_fill_eq Let_def)

lemma job_read_data:
  assumes "reading j l off" "node fs l = Some (FFile c t)" "os_reads (ft_os fe) l" "buf = take BUF_SIZE (drop off c)" "buf \<noteq> []"
  shows "job_read fe fs j = (advanced fe l off buf j, Inr (Some (block_of fe j buf)))"
proof -
  have src: "is_file_source j" using assms(1) by (auto simp: reading_def is_file_source_def)
  have "stream_read (ft_os fe) fs (FileStream l off False) = Inr (buf, FileStream l (off + length buf) False)"
    using stream_read_file [OF assms(2,3), of off] assms(4) by simp
  then show ?thesis
    using assms(1,5) src by (auto simp: job_read_def reading_def advanced_def block_of_def Let_def)
qed

lemma round_data:
  assumes "reading j l off" "node fs l = Some (FFile c t)" "os_reads (ft_os fe) l" "buf = take BUF_SIZE (drop off c)" "buf \<noteq> []"
  shows "handle_read_jobs fe True fs [j] = ([advanced fe l off buf j], [MsgBlock (block_of fe j buf)], Inr None)"
  using reading_init [OF assms(1)] job_read_data [OF assms] assms(1)
  by (simp add: handle_read_jobs_def reading_def)

lemma rounds_data:
  assumes "reading j l off" "node fs l = Some (FFile c t)" "os_reads (ft_os fe) l"
  shows "\<exists>j'. read_rounds fe (length (chunk_list (drop off c))) fs [j] = ([j'], map (MsgBlock \<circ> block_of fe j) (chunk_list (drop off c))) \<and>
    reading j' l (max off (length c)) \<and> tj_id j' = tj_id j \<and> tj_file_num j' = tj_file_num j \<and> tj_files j' = tj_files j \<and> tj_skipped j' = tj_skipped j"
  using assms(1)
proof (induction "drop off c" arbitrary: j off rule: chunk_list.induct)
  case 1
  show ?case
  proof (cases "drop off c = []")
    case True
    then show ?thesis using 1(2) by (auto simp: max_def)
  next
    case False
    let ?buf = "take BUF_SIZE (drop off c)"
    let ?j = "advanced fe l off ?buf j" and ?off = "off + length ?buf"
    have b: "?buf \<noteq> []" using False by (simp add: BUF_SIZE_def)
    have d: "drop BUF_SIZE (drop off c) = drop ?off c"
      by (cases "BUF_SIZE \<le> length c - off") (simp_all add: min_def add.commute)
    obtain j' where j': "read_rounds fe (length (chunk_list (drop ?off c))) fs [?j] = ([j'], map (MsgBlock \<circ> block_of fe ?j) (chunk_list (drop ?off c)))"
        "reading j' l (max ?off (length c))" "tj_id j' = tj_id ?j" "tj_file_num j' = tj_file_num ?j" "tj_files j' = tj_files ?j" "tj_skipped j' = tj_skipped ?j"
      using 1(1) [OF False d, OF reading_advanced [OF 1(2)]] by auto
    have "max ?off (length c) = max off (length c)" using False by (auto simp: max_def min_def)
    moreover have "chunk_list (drop off c) = ?buf # chunk_list (drop ?off c)"
      using chunk_list.simps [of "drop off c"] False d by simp
    ultimately show ?thesis
      using j' round_data [OF 1(2) assms(2,3) refl b] by (simp add: block_of_advanced)
  qed
qed

lemma job_read_end:
  assumes "reading j l (length c)" "node fs l = Some (FFile c t)" "os_reads (ft_os fe) l"
  shows "job_read fe fs j = (next_file (j\<lparr>tj_stream := None\<rparr>), Inr (Some (end_block j)))"
  using assms by (auto simp: job_read_def reading_def is_file_source_def stream_read_file end_block_def)

lemma round_end:
  assumes "reading j l (length c)" "node fs l = Some (FFile c t)" "os_reads (ft_os fe) l"
  shows "handle_read_jobs fe True fs [j] = ([next_file (j\<lparr>tj_stream := None\<rparr>)], [MsgBlock (end_block j)], Inr None)"
  using reading_init [OF assms(1)] job_read_end [OF assms] assms(1)
  by (simp add: handle_read_jobs_def reading_def)

lemma round_done:
  assumes "tj_source j = FilePath p" "length (tj_files j) \<le> as_usize (tj_file_num j)" "\<not> tj_overwrite_detection j" "\<not> tj_is_last_job j" "\<not> tj_skipped j"
  shows "\<exists>r. handle_read_jobs fe True fs [j] = ([], [MsgDone (tj_id j) (tj_file_num j)], r)"
  using assms
  by (auto simp: handle_read_jobs_def init_data_stream_def open_data_stream_def job_read_def is_file_source_def job_completed_def job_error_def job_skipped_def)

text \<open>A job with one file sends its pieces, the end of the file, and that it is done.\<close>

lemma rounds_file:
  assumes j: "tj_source j = FilePath p" "tj_files j = [e]" "tj_file_num j = 0" "tj_stream j = None" "\<not> tj_overwrite_detection j"
      "\<not> tj_is_last_job j" "\<not> tj_skipped j"
    and l: "os_open (ft_os fe) fs (job_join p (en_name e)) = Inr l" "node fs l = Some (FFile c t)" "os_reads (ft_os fe) l"
  shows "read_rounds fe (length (chunk_list c) + 2) fs [j] =
    ([], map (MsgBlock \<circ> block_of fe j) (chunk_list c) @ [MsgBlock (end_block j), MsgDone (tj_id j) 1])"
proof -
  let ?j = "unconfirmed (j\<lparr>tj_stream := Some (FileStream l 0 False)\<rparr>)"
  have r: "reading ?j l 0" using j by (simp add: reading_def unconfirmed_def as_usize_def)
  have "init_jobs (ft_os fe) True fs [j] = init_jobs (ft_os fe) True fs [?j]"
    using j l(1) r by (simp add: reading_init init_data_stream_def open_data_stream_def awaits_confirmation_def as_usize_def unconfirmed_def)
  then have first: "handle_read_jobs fe True fs [j] = handle_read_jobs fe True fs [?j]" by (simp add: handle_read_jobs_def)
  obtain j' where j': "read_rounds fe (length (chunk_list c)) fs [?j] = ([j'], map (MsgBlock \<circ> block_of fe ?j) (chunk_list c))"
      "reading j' l (length c)" "tj_id j' = tj_id j" "tj_file_num j' = 0" "tj_files j' = [e]" "\<not> tj_skipped j'"
    using rounds_data [OF r l(2,3)] j by (auto simp: unconfirmed_def)
  let ?n = "next_file (j'\<lparr>tj_stream := None\<rparr>)"
  obtain q where q: "tj_source j' = FilePath q" using j'(2) by (auto simp: reading_def)
  have n: "tj_source ?n = FilePath q" "length (tj_files ?n) \<le> as_usize (tj_file_num ?n)" "\<not> tj_overwrite_detection ?n" "\<not> tj_is_last_job ?n"
      "\<not> tj_skipped ?n" "tj_id ?n = tj_id j" "tj_file_num ?n = 1"
    using j' q by (auto simp: next_file_def unconfirmed_def next_file_num_def as_usize_def reading_def i32_max_def)
  obtain r where "handle_read_jobs fe True fs [?n] = ([], [MsgDone (tj_id j) 1], r)" using round_done [OF n(1-5)] n(6,7) by auto
  moreover have "end_block j' = end_block j" using j' j(3) by (simp add: end_block_def)
  ultimately have "read_rounds fe 2 fs [j'] = ([], [MsgBlock (end_block j), MsgDone (tj_id j) 1])"
    using round_end [OF j'(2) l(2,3)] by (simp add: numeral_2_eq_2)
  then have "read_rounds fe (length (chunk_list c) + 2) fs [?j] =
      ([], map (MsgBlock \<circ> block_of fe ?j) (chunk_list c) @ [MsgBlock (end_block j), MsgDone (tj_id j) 1])"
    by (rule read_rounds_append [OF j'(1)])
  moreover have "block_of fe ?j = block_of fe j" by (rule block_of_cong) (simp_all add: unconfirmed_def)
  moreover have "read_rounds fe (length (chunk_list c) + 2) fs [j] = read_rounds fe (length (chunk_list c) + 2) fs [?j]"
    using first by simp
  ultimately show ?thesis by simp
qed

text \<open>When the compression of a piece fails, an empty block is sent in its place.\<close>

lemma failed_compression_loses_data:
  assumes "ft_compress fe buf = None" "buf \<noteq> []" "\<not> is_compressed_file (read_name j)"
  shows "bk_data (block_of fe j buf) = [] \<and> bk_compressed (block_of fe j buf)"
  using assms by (simp add: block_of_def compress_def)

section \<open>The writing side\<close>

text \<open>A relative name of which every part is a name.\<close>

definition plain_name :: "string \<Rightarrow> bool" where
  "plain_name name \<longleftrightarrow> name \<noteq> [] \<and> split_on CHR ''/'' name = comps name \<and> ''..'' \<notin> set (comps name) \<and> char_of (0 :: nat) \<notin> set name"

lemma plain_relative: "plain_name name \<Longrightarrow> \<not> is_absolute name"
proof
  assume "plain_name name" "is_absolute name"
  then obtain s where s: "name = CHR ''/'' # s" "split_on CHR ''/'' name = comps name" by (cases name) (auto simp: plain_name_def is_absolute_def)
  then have "[] \<in> set (comps name)" by (metis list.set_intros(1) split_on.simps(2))
  then show False by (simp add: comps_def)
qed

lemma plain_comps: "plain_name name \<Longrightarrow> comps name \<noteq> []"
  by (metis plain_name_def split_on_not_Nil)

lemma plain_suffix:
  assumes "plain_name name" "CHR ''/'' \<notin> set suf" "2 < length suf"
  shows "comps (name @ suf) = butlast (comps name) @ [last (comps name) @ suf]"
proof -
  let ?s = "split_on CHR ''/'' name"
  have s: "?s = comps name" using assms(1) by (simp add: plain_name_def)
  have "\<forall>c\<in>set (comps name). c \<noteq> [] \<and> c \<noteq> ''.''" by (simp add: comps_def)
  then have "\<forall>c\<in>set (butlast ?s). c \<noteq> [] \<and> c \<noteq> ''.''" using s by (auto dest: in_set_butlastD)
  moreover have "last ?s @ suf \<noteq> [] \<and> last ?s @ suf \<noteq> ''.''" using assms(3) by (auto simp: append_eq_Cons_conv)
  ultimately have "comps (name @ suf) = butlast ?s @ [last ?s @ suf]"
    using assms(2) by (simp add: comps_def split_on_suffix)
  then show ?thesis using s by simp
qed

text \<open>Walking where there are neither links nor files in the way can only fail because something is missing.\<close>

lemma walk_missing:
  assumes "no_links fs cur cs" "''..'' \<notin> set cs" "\<forall>ds c t. ds \<noteq> [] \<and> strict_prefix ds cs \<longrightarrow> fs (cur @ ds) \<noteq> Some (FFile c t)" "walk fs n fl cur cs = Inl e"
  shows "e = ENOENT"
  using assms
proof (induction cs arbitrary: cur)
  case (Cons c cs)
  have nl: "\<not> is_link (fs (cur @ [c]))" "no_links fs (cur @ [c]) cs" "c \<noteq> ''..''" "''..'' \<notin> set cs"
    using Cons.prems(1,2) by (auto simp: no_links_Cons)
  have nofile: "fs (cur @ [c]) \<noteq> Some (FFile b t)" if "cs \<noteq> []" for b t
    using Cons.prems(3) [rule_format, of "[c]"] that by (simp add: strict_prefix_def)
  have rest: "\<forall>ds b t. ds \<noteq> [] \<and> strict_prefix ds cs \<longrightarrow> fs ((cur @ [c]) @ ds) \<noteq> Some (FFile b t)"
  proof (intro allI impI)
    fix ds b t assume "ds \<noteq> [] \<and> strict_prefix ds cs"
    then show "fs ((cur @ [c]) @ ds) \<noteq> Some (FFile b t)" using Cons.prems(3) [rule_format, of "c # ds"] by simp
  qed
  show ?case
  proof (cases "cs = []")
    case True
    then show ?thesis using Cons.prems(4) nl by (auto simp: is_link_def split: option.splits fnode.splits if_splits)
  next
    case False
    then show ?thesis
      using Cons.prems(4) nl nofile Cons.IH [OF nl(2,4) rest] by (auto simp: is_link_def split: option.splits fnode.splits)
  qed
qed simp

lemma no_symlinks_ok:
  assumes "is_absolute cur" "no_links fs [] (comps cur @ cs)" "''..'' \<notin> set (comps cur @ cs)"
    and "\<forall>ds c t. ds \<noteq> [] \<and> strict_prefix ds (comps cur @ cs) \<longrightarrow> fs ds \<noteq> Some (FFile c t)"
    and "\<forall>c\<in>set cs. comps c = [c] \<and> \<not> is_absolute c \<and> char_of (0 :: nat) \<notin> set c" "char_of (0 :: nat) \<notin> set cur"
    and "length cur + length (concat cs) + length cs < PATH_MAX"
  shows "no_symlinks os fs cur cs = Inr ()"
  using assms
proof (induction cs arbitrary: cur)
  case (Cons c cs)
  let ?cur = "join_path cur c"
  have c: "comps ?cur = comps cur @ [c]" "is_absolute ?cur" "\<not> is_absolute c"
    using Cons.prems(1,5) comps_join_path [of c cur] is_absolute_join_path [of cur c] by auto
  have cp: "?cur = cur @ c \<or> ?cur = cur @ CHR ''/'' # c" using c(3) by (simp add: join_path_def)
  have nul: "char_of (0 :: nat) \<notin> set ?cur" using cp Cons.prems(5,6) by (auto simp: nul_char)
  have len: "length ?cur \<le> length cur + length c + 1" using cp by auto
  have all: "comps ?cur @ cs = comps cur @ c # cs" using c(1) by simp
  have nl: "no_links fs [] (comps ?cur)" using Cons.prems(2) no_links_prefix [of fs "[]" "comps cur @ c # cs" "comps ?cur"] c(1) by (simp add: prefix_def)
  have fl: "\<forall>ds b t. ds \<noteq> [] \<and> strict_prefix ds (comps ?cur) \<longrightarrow> fs ([] @ ds) \<noteq> Some (FFile b t)"
  proof (intro allI impI)
    fix ds b t assume "ds \<noteq> [] \<and> strict_prefix ds (comps ?cur)"
    then have "ds \<noteq> [] \<and> strict_prefix ds (comps cur @ c # cs)" using all by (metis prefixI prefix_order.less_le_trans)
    then show "fs ([] @ ds) \<noteq> Some (FFile b t)" using Cons.prems(4) by simp
  qed
  have up: "''..'' \<notin> set (comps ?cur)" using Cons.prems(3) c(1) by simp
  have st: "stat os fs False ?cur = Inl ENOENT \<or> (\<exists>x. stat os fs False ?cur = Inr x \<and> \<not> is_link (Some x))"
  proof (cases "walk fs MAX_LINKS False [] (comps ?cur)")
    case (Inl e)
    then have "e = ENOENT" using walk_missing [OF nl up fl] by simp
    then show ?thesis using Inl c(2) nul by (auto simp: stat_def locate_def is_absolute_def intro: exI) (use len Cons.prems(7) in simp)
  next
    case (Inr l)
    then have "l = comps ?cur" using walk_no_links [OF nl up] by (simp add: node_def)
    moreover have "\<not> is_link (fs (comps ?cur))" using nl c(1) by (simp add: no_links_append no_links_Cons)
    ultimately show ?thesis
      using Inr c nul len Cons.prems(7) by (auto simp: stat_def locate_def node_def is_absolute_def split: option.splits)
  qed
  have "no_symlinks os fs ?cur cs = Inr ()"
    using Cons.IH [of ?cur] c(2) Cons.prems nul len all by auto
  moreover have "c \<noteq> ''..''" using Cons.prems(3) by auto
  ultimately show ?case
    using st
  proof (elim disjE exE conjE)
    fix x assume "stat os fs False ?cur = Inr x" "\<not> is_link (Some x)"
    then show ?thesis using \<open>no_symlinks os fs ?cur cs = Inr ()\<close> \<open>c \<noteq> ''..''\<close> by (cases x) (simp_all add: Let_def)
  qed (simp add: Let_def)
qed simp

section \<open>An empty directory\<close>

text \<open>A destination: an empty directory, a plain name, a path that is not too long, and a system that permits everything.\<close>

definition fresh_target :: "os_env \<Rightarrow> fsys \<Rightarrow> string \<Rightarrow> loc \<Rightarrow> string \<Rightarrow> bool" where
  "fresh_target os fs base D name \<longleftrightarrow>
     writable_dir D fs \<and> base_dir base D \<and> (\<forall>l. strict_prefix D l \<longrightarrow> fs l = None) \<and> plain_name name \<and>
     char_of (0 :: nat) \<notin> set base \<and> length base + 2 * length name + 12 < PATH_MAX \<and> (\<forall>l. os_permits os l)"

text \<open>The directories on the way to a file have been made.\<close>

definition made_dirs :: "loc \<Rightarrow> loc \<Rightarrow> fsys \<Rightarrow> fsys" where
  "made_dirs D pre fs = (\<lambda>l. if strict_prefix D l \<and> prefix l (D @ pre) then Some FDir else fs l)"

lemma made_dirs_prefix:
  assumes "writable_dir D fs" "prefix l (D @ pre)" "l \<noteq> []"
  shows "made_dirs D pre fs l = Some FDir"
proof (cases "prefix l D")
  case True
  then show ?thesis using dir_prefix [OF assms(1) True] assms(3) by (auto simp: made_dirs_def node_def)
next
  case False
  then have "strict_prefix D l" using prefix_same_cases [OF assms(2), of D] by (auto simp: strict_prefix_def)
  then show ?thesis using assms(2) by (simp add: made_dirs_def)
qed

lemma mkdirs_through:
  assumes "\<forall>i. 0 < i \<and> i \<le> length ds \<longrightarrow> fs (cur @ take i ds) = Some FDir" "''..'' \<notin> set ds"
  shows "mkdirs os fs cur (ds @ cs) = mkdirs os fs (cur @ ds) cs"
  using assms
proof (induction ds arbitrary: cur)
  case (Cons d ds)
  have "fs (cur @ [d]) = Some FDir" using Cons.prems(1) [rule_format, of 1] by simp
  moreover have "\<forall>i. 0 < i \<and> i \<le> length ds \<longrightarrow> fs ((cur @ [d]) @ take i ds) = Some FDir"
  proof (intro allI impI)
    fix i assume "0 < i \<and> i \<le> length ds"
    then show "fs ((cur @ [d]) @ take i ds) = Some FDir" using Cons.prems(1) [rule_format, of "Suc i"] by simp
  qed
  ultimately show ?case using Cons.IH [of "cur @ [d]"] Cons.prems(2) by (auto simp: node_def)
qed simp

lemma mkdirs_fresh:
  assumes "\<forall>l. strict_prefix cur l \<longrightarrow> fs l = None" "''..'' \<notin> set cs" "\<forall>l. os_permits os l"
  shows "mkdirs os fs cur cs = (made_dirs cur cs fs, True)"
  using assms
proof (induction cs arbitrary: cur fs)
  case Nil
  have "made_dirs cur [] fs = fs" by (intro ext) (auto simp: made_dirs_def strict_prefix_def dest: prefix_order.antisym)
  then show ?case by simp
next
  case (Cons c cs)
  let ?l = "cur @ [c]" and ?fs = "fs(cur @ [c] \<mapsto> FDir)"
  have none: "fs ?l = None" using Cons.prems(1) by (simp add: strict_prefix_def)
  have "\<forall>l. strict_prefix ?l l \<longrightarrow> ?fs l = None"
    using Cons.prems(1) strict_prefix_snocD [of cur c] by auto
  then have "mkdirs os ?fs ?l cs = (made_dirs ?l cs ?fs, True)" using Cons.IH Cons.prems(2,3) by simp
  moreover have "made_dirs ?l cs ?fs = made_dirs cur (c # cs) fs"
  proof
    fix l
    have "strict_prefix cur l \<and> prefix l (cur @ c # cs) \<longleftrightarrow> l = ?l \<or> strict_prefix ?l l \<and> prefix l (cur @ c # cs)"
    proof
      assume a: "strict_prefix cur l \<and> prefix l (cur @ c # cs)"
      then obtain r where "l = cur @ r" "r \<noteq> []" by (auto simp: strict_prefix_def prefix_def)
      then obtain r' where "l = ?l @ r'" using a by (cases r) auto
      then show "l = ?l \<or> strict_prefix ?l l \<and> prefix l (cur @ c # cs)" using a by (auto simp: strict_prefix_def)
    qed (auto simp: strict_prefix_def prefix_def)
    then show "made_dirs ?l cs ?fs l = made_dirs cur (c # cs) fs l" by (auto simp: made_dirs_def)
  qed
  ultimately show ?case using none Cons.prems(2,3) by (auto simp: node_def)
qed

lemma create_parent_fresh:
  assumes "fresh_target os fs base D name"
  shows "create_parent os fs (join_path base name) = made_dirs D (butlast (comps name)) fs"
proof -
  have f: "writable_dir D fs" "base_dir base D" "plain_name name" "\<forall>l. os_permits os l" "\<forall>l. strict_prefix D l \<longrightarrow> fs l = None"
    using assms by (simp_all add: fresh_target_def)
  have c: "comps (join_path base name) = D @ comps name" "is_absolute (join_path base name)" "''..'' \<notin> set D" "''..'' \<notin> set (comps name)"
    using f(2,3) comps_join_path [OF plain_relative [OF f(3)], of base] is_absolute_join_path [of base name]
    by (auto simp: base_dir_def plain_name_def)
  have d: "\<forall>i. 0 < i \<and> i \<le> length D \<longrightarrow> fs ([] @ take i D) = Some FDir"
  proof (intro allI impI)
    fix i assume "0 < i \<and> i \<le> length D"
    then show "fs ([] @ take i D) = Some FDir" using dir_prefix [OF f(1) take_is_prefix [of i D]] by (auto simp: node_def split: if_splits)
  qed
  have "mkdirs os fs [] (D @ butlast (comps name)) = (made_dirs D (butlast (comps name)) fs, True)"
    using mkdirs_through [OF d c(3)] mkdirs_fresh [OF f(5), of "butlast (comps name)" os] f(4) c(4) by (auto dest: in_set_butlastD)
  moreover have "butlast (D @ comps name) = D @ butlast (comps name)" using plain_comps [OF f(3)] by (simp add: butlast_append)
  ultimately show ?thesis using c by (simp add: create_parent_def)
qed

text \<open>Inside the directories that were made every path is found.\<close>

lemma locate_made:
  assumes "\<forall>l. prefix l E \<and> l \<noteq> [] \<longrightarrow> S l = Some FDir" "is_absolute p" "comps p = E @ [y]" "''..'' \<notin> set (E @ [y])"
    and "\<not> is_link (S (E @ [y]))" "length p < PATH_MAX" "char_of (0 :: nat) \<notin> set p"
  shows "locate os S fl p = Inr (E @ [y])"
proof -
  have "\<forall>i. 0 < i \<and> i < length (E @ [y]) \<longrightarrow> S ([] @ take i (E @ [y])) = Some FDir"
  proof (intro allI impI)
    fix i assume i: "0 < i \<and> i < length (E @ [y])"
    then have "take i (E @ [y]) = take i E" "take i E \<noteq> []" by auto
    then show "S ([] @ take i (E @ [y])) = Some FDir" using assms(1) take_is_prefix [of i E] by simp
  qed
  then have "walk S MAX_LINKS fl [] (E @ [y]) = Inr (E @ [y])" using walk_dirs [of "E @ [y]" S "[]" fl] assms(4,5) by simp
  then show ?thesis using assms(2,3,6,7) by (auto simp: locate_def is_absolute_def)
qed

lemma split_on_subset: "p \<in> set (split_on c s) \<Longrightarrow> set p \<subseteq> set s"
proof (induction s arbitrary: p)
  case (Cons x s)
  obtain y ys where "split_on c s = y # ys" by (cases "split_on c s") auto
  then show ?case using Cons.IH [of y] Cons.IH [of p] Cons.prems by (auto split: if_splits)
qed simp

lemma split_on_sizes: "length (concat (split_on c s)) \<le> length s \<and> length (split_on c s) \<le> length s + 1"
  by (induction s) (auto split: list.splits)

definition target_dir :: "loc \<Rightarrow> string \<Rightarrow> loc" where
  "target_dir D name = D @ butlast (comps name)"

definition target :: "loc \<Rightarrow> string \<Rightarrow> string \<Rightarrow> loc" where
  "target D name suf = target_dir D name @ [last (comps name) @ suf]"

lemma target_plain: "plain_name name \<Longrightarrow> target D name [] = D @ comps name"
  using plain_comps by (simp add: target_def target_dir_def)

lemma target_path:
  assumes "fresh_target os fs base D name" "suf \<in> {[], ''.download'', ''.digest''}"
  shows "is_absolute (join_path base name @ suf)" "comps (join_path base name @ suf) = target D name suf" "''..'' \<notin> set (target D name suf)"
    "length (join_path base name @ suf) < PATH_MAX" "char_of (0 :: nat) \<notin> set (join_path base name @ suf)"
proof -
  have f: "base_dir base D" "plain_name name" "char_of (0 :: nat) \<notin> set base" "length base + 2 * length name + 12 < PATH_MAX"
    using assms(1) by (simp_all add: fresh_target_def)
  note rel = plain_relative [OF f(2)] and ne = plain_comps [OF f(2)]
  have b: "is_absolute base" "comps base = D" "''..'' \<notin> set D" using f(1) by (simp_all add: base_dir_def)
  have n: "name \<noteq> []" "''..'' \<notin> set (comps name)" "char_of (0 :: nat) \<notin> set name" using f(2) by (simp_all add: plain_name_def)
  have relS: "\<not> is_absolute (name @ suf)" using rel n(1) by (simp add: is_absolute_def)
  have p: "join_path base name @ suf = join_path base (name @ suf)" using rel relS by (simp add: join_path_def)
  have c: "comps (name @ suf) = butlast (comps name) @ [last (comps name) @ suf]"
    using plain_suffix [OF f(2)] assms(2) ne by auto
  have "last (comps name) @ suf \<noteq> ''..''"
    using assms(2) n(2) last_in_set [OF ne] by (cases "suf = []") (auto simp: append_eq_Cons_conv)
  then show "''..'' \<notin> set (target D name suf)" using b(3) n(2) by (auto simp: target_def target_dir_def dest: in_set_butlastD)
  show "is_absolute (join_path base name @ suf)" using is_absolute_join_path [OF b(1)] is_absolute_append by blast
  show "comps (join_path base name @ suf) = target D name suf"
    using comps_join_path [OF relS, of base] b(2) c p by (simp add: target_def target_dir_def)
  have len: "length (join_path base name) \<le> length base + length name + 1" using rel by (simp add: join_path_def)
  have "length suf \<le> 9" using assms(2) by auto
  then show "length (join_path base name @ suf) < PATH_MAX" using len f(4) by simp
  have "char_of (0 :: nat) \<notin> set suf" using assms(2) by (auto simp: nul_char)
  moreover have "set (join_path base name) \<subseteq> set base \<union> set name \<union> {CHR ''/''}" using rel by (auto simp: join_path_def)
  ultimately show "char_of (0 :: nat) \<notin> set (join_path base name @ suf)" using f(3) n(3) by (auto simp: nul_char)
qed

lemma target_accepted:
  assumes "fresh_target os fs base D name" "\<forall>l. prefix l (target_dir D name) \<and> l \<noteq> [] \<longrightarrow> S l = None \<or> S l = Some FDir"
    and "\<not> is_link (S (target D name []))"
  shows "join_validated_path os S base name = Inr (join_path base name)"
proof -
  have f: "base_dir base D" "plain_name name" "char_of (0 :: nat) \<notin> set base" "length base + 2 * length name + 12 < PATH_MAX"
    using assms(1) by (simp_all add: fresh_target_def)
  note rel = plain_relative [OF f(2)] and ne = plain_comps [OF f(2)]
  have b: "is_absolute base" "comps base = D" "''..'' \<notin> set D" using f(1) by (simp_all add: base_dir_def)
  have n: "name \<noteq> []" "''..'' \<notin> set (comps name)" "char_of (0 :: nat) \<notin> set name" "split_on CHR ''/'' name = comps name"
    using f(2) by (simp_all add: plain_name_def)
  have T: "comps base @ comps name = target_dir D name @ [last (comps name)]" using b(2) ne by (simp add: target_dir_def)
  have nl: "no_links S [] (comps base @ comps name)"
    unfolding T no_links_append
  proof
    show "no_links S [] (target_dir D name)"
      unfolding no_links_def
    proof (intro allI impI)
      fix i assume "i < length (target_dir D name)"
      then have "take (Suc i) (target_dir D name) \<noteq> []" by auto
      then have "S (take (Suc i) (target_dir D name)) = None \<or> S (take (Suc i) (target_dir D name)) = Some FDir"
        using assms(2) take_is_prefix [of "Suc i" "target_dir D name"] by blast
      then show "\<not> is_link (S ([] @ take (Suc i) (target_dir D name)))" by auto
    qed
    show "no_links S ([] @ target_dir D name) [last (comps name)]" using assms(3) by (simp add: no_links_Cons target_def)
  qed
  have fl: "\<forall>ds c t. ds \<noteq> [] \<and> strict_prefix ds (comps base @ comps name) \<longrightarrow> S ds \<noteq> Some (FFile c t)"
  proof (intro allI impI)
    fix ds c t assume "ds \<noteq> [] \<and> strict_prefix ds (comps base @ comps name)"
    then have "ds \<noteq> []" "prefix ds (target_dir D name)" unfolding T by (auto simp: strict_prefix_def)
    then show "S ds \<noteq> Some (FFile c t)" using assms(2) by fastforce
  qed
  have cs: "\<forall>c\<in>set (comps name). comps c = [c] \<and> \<not> is_absolute c \<and> char_of (0 :: nat) \<notin> set c"
  proof
    fix c assume c: "c \<in> set (comps name)"
    then have "set c \<subseteq> set name" using split_on_subset [of c "CHR ''/''" name] n(4) by simp
    then show "comps c = [c] \<and> \<not> is_absolute c \<and> char_of (0 :: nat) \<notin> set c" using comps_single [OF c] n(3) by auto
  qed
  have len: "length base + length (concat (comps name)) + length (comps name) < PATH_MAX"
    using split_on_sizes [of "CHR ''/''" name] n(4) f(4) by simp
  have "no_symlinks os S base (comps name) = Inr ()"
    by (rule no_symlinks_ok [OF b(1) nl _ fl cs f(3) len]) (use b n in simp)
  moreover have "validate_file_name_no_traversal name = Inr ()"
    using n rel by (cases name) (auto simp: validate_file_name_no_traversal_def starts_with_def is_absolute_def)
  ultimately show ?thesis
    using rel n(1) by (simp add: join_validated_path_def validate_no_symlink_components_def job_join_def)
qed

text \<open>A file system in which the directories of the target exist.\<close>

definition dirs_made :: "loc \<Rightarrow> string \<Rightarrow> fsys \<Rightarrow> bool" where
  "dirs_made D name S \<longleftrightarrow> (\<forall>l. prefix l (target_dir D name) \<and> l \<noteq> [] \<longrightarrow> S l = Some FDir)"

lemma dirs_made_update: "dirs_made D name S \<Longrightarrow> \<not> prefix T (target_dir D name) \<Longrightarrow> dirs_made D name (S(T := v))"
  by (auto simp: dirs_made_def)

lemma target_not_prefix: "\<not> prefix (target D name suf) (target_dir D name)"
  by (auto simp: target_def dest: prefix_length_le)

lemma locate_target:
  assumes "fresh_target os fs base D name" "suf \<in> {[], ''.download'', ''.digest''}" "dirs_made D name S" "\<not> is_link (S (target D name suf))"
  shows "locate os S fl (join_path base name @ suf) = Inr (target D name suf)"
  using locate_made [of "target_dir D name" S "join_path base name @ suf" "last (comps name) @ suf" os fl] target_path [OF assms(1,2)] assms(3,4)
  by (simp add: target_def dirs_made_def)

lemma target_distinct:
  "target D name ''.download'' \<noteq> target D name ''.digest''" "target D name [] \<noteq> target D name ''.download''"
  "target D name [] \<noteq> target D name ''.digest''" "target D name suf \<noteq> []"
  by (simp_all add: target_def)

section \<open>A file is written\<close>

definition payload :: "ft_env \<Rightarrow> transfer_block \<Rightarrow> bytes" where
  "payload fe block = (if bk_compressed block then decompress fe (bk_data block) else bk_data block)"

text \<open>A job with one file, and what is open.\<close>

definition writes_one :: "string \<Rightarrow> file_entry \<Rightarrow> int \<Rightarrow> data_stream option \<Rightarrow> transfer_job \<Rightarrow> bool" where
  "writes_one base e i st w \<longleftrightarrow>
     tj_type w = Generic \<and> tj_source w = FilePath base \<and> tj_files w = [e] \<and> tj_file_num w = 0 \<and> tj_id w = i \<and> tj_stream w = st"

text \<open>The directory while the file is received, and afterwards.\<close>

definition receiving :: "ft_env \<Rightarrow> file_digest \<Rightarrow> loc \<Rightarrow> string \<Rightarrow> bytes \<Rightarrow> fsys \<Rightarrow> fsys" where
  "receiving fe dg D name c fs =
     (made_dirs D (butlast (comps name)) fs)
       (target D name ''.download'' \<mapsto> FFile c (os_now (ft_os fe)), target D name ''.digest'' \<mapsto> FFile (ft_digest_json fe dg) (os_now (ft_os fe)))"

definition received :: "loc \<Rightarrow> file_entry \<Rightarrow> bytes \<Rightarrow> fsys \<Rightarrow> fsys" where
  "received D e c fs =
     (made_dirs D (butlast (comps (en_name e))) fs)(D @ comps (en_name e) \<mapsto> FFile c (unat (en_modified e) * nanos_per_sec))"

lemma target_inside: "plain_name name \<Longrightarrow> strict_prefix D (target D name suf)"
  by (simp add: target_def target_dir_def strict_prefix_def)

lemma made_dirs_made: "writable_dir D fs \<Longrightarrow> dirs_made D name (made_dirs D (butlast (comps name)) fs)"
  using made_dirs_prefix by (simp add: dirs_made_def target_dir_def)

lemma made_dirs_target:
  assumes "fresh_target os fs base D name"
  shows "made_dirs D (butlast (comps name)) fs (target D name suf) = None"
proof -
  have "plain_name name" "\<forall>l. strict_prefix D l \<longrightarrow> fs l = None" using assms by (simp_all add: fresh_target_def)
  then show ?thesis
    using target_inside [of name D suf] target_not_prefix [of D name suf] by (simp add: made_dirs_def target_dir_def)
qed

lemma fresh_no_links:
  assumes "\<forall>l. strict_prefix D l \<longrightarrow> fs l = None"
  shows "no_links fs D ds"
  unfolding no_links_def
proof (intro allI impI)
  fix i assume "i < length ds"
  then have "strict_prefix D (D @ take (Suc i) ds)" by (auto simp: strict_prefix_def)
  then show "\<not> is_link (fs (D @ take (Suc i) ds))" using assms by simp
qed

lemma fresh_accepted:
  assumes "fresh_target os fs base D name"
  shows "join_validated_path os fs base name = Inr (join_path base name)"
proof (rule target_accepted [OF assms])
  let ?M = "made_dirs D (butlast (comps name)) fs"
  have f: "writable_dir D fs" "\<forall>l. strict_prefix D l \<longrightarrow> fs l = None" using assms by (simp_all add: fresh_target_def)
  show "\<forall>l. prefix l (target_dir D name) \<and> l \<noteq> [] \<longrightarrow> fs l = None \<or> fs l = Some FDir"
  proof (intro allI impI)
    fix l assume "prefix l (target_dir D name) \<and> l \<noteq> []"
    then have "?M l = Some FDir" using made_dirs_made [OF f(1), of name] by (simp add: dirs_made_def)
    then show "fs l = None \<or> fs l = Some FDir" using f(2) by (auto simp: made_dirs_def split: if_splits)
  qed
  show "\<not> is_link (fs (target D name []))"
    using made_dirs_target [OF assms, of "[]"] by (auto simp: made_dirs_def split: if_splits)
qed

text \<open>Finishing where nothing has been written changes nothing.\<close>

lemma finish_fresh:
  assumes "fresh_target os fs base D (en_name e)" "writes_one base e i st w"
  shows "modify_time os w fs = fs"
proof -
  let ?p = "join_path base (en_name e)" and ?T = "target D (en_name e)"
  have w: "tj_type w = Generic" "tj_source w = FilePath base" "tj_files w = [e]" "as_usize (tj_file_num w) = 0"
    using assms(2) by (simp_all add: writes_one_def as_usize_def)
  have f: "writable_dir D fs" "\<forall>l. strict_prefix D l \<longrightarrow> fs l = None" "plain_name (en_name e)" using assms(1) by (simp_all add: fresh_target_def)
  have none: "fs (?T suf) = None" for suf using f(2) target_inside [OF f(3)] by blast
  have loc: "l = ?T suf" if "locate os fs fl (?p @ suf) = Inr l" "suf \<in> {[], ''.download'', ''.digest''}" for fl l suf
  proof -
    have E: "no_links fs [] (?T suf)"
      using no_links_append [of fs "[]" D "butlast (comps (en_name e)) @ [last (comps (en_name e)) @ suf]"] dir_no_links [OF f(1)]
        fresh_no_links [OF f(2)] by (simp add: target_def target_dir_def)
    have "clean fs (?p @ suf) (?T suf)" using target_path [OF assms(1) that(2)] E by (simp add: clean_def)
    then show ?thesis using locate_clean that(1) by blast
  qed
  have acc: "join_validated_path os fs base (en_name e) = Inr ?p" by (rule fresh_accepted [OF assms(1)])
  have n: "node fs (?T suf) = None" for suf using none target_distinct(4) by (simp add: node_def)
  have "or_same fs (os_remove_file os fs (digest_path ?p)) = fs"
    using loc [of False "''.digest''"] n by (auto simp: os_remove_file_def digest_path_def or_same_def split: sum.splits)
  moreover have "or_same fs (os_rename os fs (download_path ?p) ?p) = fs"
    using loc [of False "''.download''"] n by (auto simp: os_rename_def download_path_def or_same_def split: sum.splits)
  moreover have "or_same fs (os_set_mtime os fs ?p t) = fs" for t
    using loc [of True "[]"] n by (auto simp: os_set_mtime_def or_same_def split: sum.splits)
  ultimately show ?thesis using w acc by (simp add: modify_time_def resolve_entry_path_def Let_def)
qed

lemma open_fresh:
  assumes "fresh_target os fs base D name" "suf \<in> {''.download'', ''.digest''}" "dirs_made D name S" "S (target D name suf) = None"
  shows "os_open_write True os S (join_path base name @ suf) = Inr (target D name suf, S(target D name suf \<mapsto> FFile [] (os_now os)))"
proof -
  have "locate os S True (join_path base name @ suf) = Inr (target D name suf)"
    using locate_target [OF assms(1) _ assms(3), of suf] assms(2,4) by auto
  then show ?thesis using assms(1,4) target_distinct(4) by (simp add: os_open_write_def node_def fresh_target_def)
qed

lemma open_download_fresh:
  assumes "fresh_target (ft_os fe) fs base D (en_name e)" "writes_one base e i st w"
  shows "open_download fe base (en_name e) w fs =
    (receiving fe (tj_digest w) D (en_name e) [] fs, Inr (w\<lparr>tj_stream := Some (FileStream (target D (en_name e) ''.download'') 0 True)\<rparr>))"
proof -
  let ?os = "ft_os fe" and ?p = "join_path base (en_name e)" and ?T = "target D (en_name e)" and ?now = "os_now (ft_os fe)"
  let ?M = "made_dirs D (butlast (comps (en_name e))) fs"
  have f: "writable_dir D fs" "\<forall>l. os_permits ?os l" using assms(1) by (simp_all add: fresh_target_def)
  have M: "dirs_made D (en_name e) ?M" "?M (?T suf) = None" for suf using made_dirs_made [OF f(1)] made_dirs_target [OF assms(1)] by auto
  have acc: "join_validated_path ?os fs base (en_name e) = Inr ?p" by (rule fresh_accepted [OF assms(1)])
  have dg: "\<not> path_exists ?os ?M (digest_path ?p)"
    using locate_target [OF assms(1) _ M(1), of "''.digest''" True] M(2) target_distinct(4)
    by (simp add: path_exists_def stat_def digest_path_def node_def)
  have o1: "os_open_write True ?os ?M (download_path ?p) = Inr (?T ''.download'', ?M(?T ''.download'' \<mapsto> FFile [] ?now))"
    using open_fresh [OF assms(1) _ M(1,2), of "''.download''"] by (simp add: download_path_def)
  let ?M2 = "?M(?T ''.download'' \<mapsto> FFile [] ?now)"
  have M2: "dirs_made D (en_name e) ?M2" by (rule dirs_made_update [OF M(1) target_not_prefix])
  have o2: "os_open_write True ?os ?M2 (digest_path ?p) = Inr (?T ''.digest'', ?M2(?T ''.digest'' \<mapsto> FFile [] ?now))"
    using open_fresh [OF assms(1) _ M2, of "''.digest''"] M(2) target_distinct(1) [of D "en_name e"] by (simp add: digest_path_def)
  have o3: "os_write_at ?os (?M2(?T ''.digest'' \<mapsto> FFile [] ?now)) (?T ''.digest'') 0 data = Inr (?M2(?T ''.digest'' \<mapsto> FFile data ?now))" for data
    using f(2) by (simp add: os_write_at_def overwrite_at_def)
  show ?thesis
    using acc create_parent_fresh [OF assms(1)] dg o1 o2 o3 assms(2)
    by (simp add: open_download_def Let_def writes_one_def or_same_def receiving_def)
qed

lemma open_target:
  assumes "writes_one base e i None w" "bk_id b = i" "bk_file_num b = 0" "fresh_target (ft_os fe) fs base D (en_name e)"
  shows "job_prepare fe b w fs =
    (w\<lparr>tj_stream := Some (FileStream (target D (en_name e) ''.download'') 0 True)\<rparr>, receiving fe (tj_digest w) D (en_name e) [] fs, Inr ())"
proof -
  have w: "tj_source w = FilePath base" "tj_files w = [e]" "tj_stream w = None" "w\<lparr>tj_file_num := 0\<rparr> = w"
    using assms(1) by (simp_all add: writes_one_def)
  then show ?thesis
    using finish_fresh [OF assms(4,1)] open_download_fresh [OF assms(4,1)] assms(3) by (simp add: job_prepare_def as_usize_def Let_def)
qed

lemma job_write_open:
  assumes "bk_id b = tj_id w" "job_prepare fe b w fs = (w1, fs1, Inr ())" "tj_stream w1 = Some (FileStream l off True)"
    and "fs1 l = Some (FFile c t)" "off = length c" "os_permits (ft_os fe) l"
  shows "job_write fe b w fs =
    (w1\<lparr>tj_stream := Some (FileStream l (length (c @ payload fe b)) True), tj_finished := tj_finished w1 + of_nat (length (payload fe b)),
        tj_transferred := tj_transferred w1 + of_nat (length (bk_data b))\<rparr>,
     fs1(l \<mapsto> FFile (c @ payload fe b) (os_now (ft_os fe))), Inr ())"
  using assms by (simp add: job_write_def payload_def stream_write_def os_write_at_def overwrite_at_def Let_def)

lemma receiving_download:
  "receiving fe dg D name c fs (target D name ''.download'') = Some (FFile c (os_now (ft_os fe)))"
  "(receiving fe dg D name c fs)(target D name ''.download'' \<mapsto> FFile c' (os_now (ft_os fe))) = receiving fe dg D name c' fs"
  using target_distinct(1) [of D name] by (simp_all add: receiving_def fun_upd_twist)

text \<open>The first block opens the file, and each later one is appended.\<close>

lemma first_block:
  assumes "fresh_target (ft_os fe) fs base D (en_name e)" "writes_one base e i None w" "bk_id b = i" "bk_file_num b = 0"
  shows "\<exists>w'. job_write fe b w fs = (w', receiving fe (tj_digest w) D (en_name e) (payload fe b) fs, Inr ()) \<and> tj_digest w' = tj_digest w \<and>
    writes_one base e i (Some (FileStream (target D (en_name e) ''.download'') (length (payload fe b)) True)) w'"
proof -
  let ?l = "target D (en_name e) ''.download''" and ?w = "w\<lparr>tj_stream := Some (FileStream (target D (en_name e) ''.download'') 0 True)\<rparr>"
  have "os_permits (ft_os fe) ?l" using assms(1) by (simp add: fresh_target_def)
  moreover have "bk_id b = tj_id w" using assms(2,3) by (simp add: writes_one_def)
  ultimately show ?thesis
    using job_write_open [OF _ open_target [OF assms(2-4,1)] _ receiving_download(1), of 0] assms(2) receiving_download(2)
    by (simp add: writes_one_def)
qed

lemma next_block:
  assumes "fresh_target (ft_os fe) fs base D (en_name e)" "bk_id b = i" "bk_file_num b = 0"
    and "writes_one base e i (Some (FileStream (target D (en_name e) ''.download'') (length c) True)) w"
  shows "\<exists>w'. job_write fe b w (receiving fe dg D (en_name e) c fs) = (w', receiving fe dg D (en_name e) (c @ payload fe b) fs, Inr ()) \<and>
    tj_digest w' = tj_digest w \<and>
    writes_one base e i (Some (FileStream (target D (en_name e) ''.download'') (length (c @ payload fe b)) True)) w'"
proof -
  let ?S = "receiving fe dg D (en_name e) c fs"
  have p: "job_prepare fe b w ?S = (w, ?S, Inr ())"
    using assms(3,4) by (simp add: job_prepare_def writes_one_def as_usize_def)
  have "os_permits (ft_os fe) (target D (en_name e) ''.download'')" using assms(1) by (simp add: fresh_target_def)
  moreover have "bk_id b = tj_id w" using assms(2,4) by (simp add: writes_one_def)
  moreover have "tj_stream w = Some (FileStream (target D (en_name e) ''.download'') (length c) True)" using assms(4) by (simp add: writes_one_def)
  ultimately show ?thesis
    using job_write_open [OF _ p _ receiving_download(1) refl] assms(4) receiving_download(2) by (simp add: writes_one_def)
qed

text \<open>The side that writes: blocks are written, and a message that the transfer is done finishes the last file.\<close>

fun receive :: "ft_env \<Rightarrow> file_msg list \<Rightarrow> transfer_job \<Rightarrow> fsys \<Rightarrow> (transfer_job \<times> fsys) option" where
  "receive fe [] j fs = Some (j, fs)"
| "receive fe (MsgBlock b # ms) j fs = (case job_write fe b j fs of (j', fs', Inr _) \<Rightarrow> receive fe ms j' fs' | _ \<Rightarrow> None)"
| "receive fe (MsgDone _ _ # ms) j fs = receive fe ms j (modify_time (ft_os fe) j fs)"
| "receive fe (_ # ms) j fs = None"

lemma receive_append: "receive fe (ms @ ns) j fs = (case receive fe ms j fs of None \<Rightarrow> None | Some (j', fs') \<Rightarrow> receive fe ns j' fs')"
  by (induction fe ms j fs rule: receive.induct) (auto split: prod.splits sum.splits)

lemma receive_blocks:
  assumes "fresh_target (ft_os fe) fs base D (en_name e)" "\<forall>b\<in>set bs. bk_id b = i \<and> bk_file_num b = 0"
    and "writes_one base e i (Some (FileStream (target D (en_name e) ''.download'') (length c) True)) w"
  shows "\<exists>w'. receive fe (map MsgBlock bs) w (receiving fe dg D (en_name e) c fs) =
      Some (w', receiving fe dg D (en_name e) (c @ concat (map (payload fe) bs)) fs) \<and>
    (\<exists>st. writes_one base e i (Some st) w')"
  using assms(2,3)
proof (induction bs arbitrary: w c)
  case (Cons b bs)
  obtain w' where w': "job_write fe b w (receiving fe dg D (en_name e) c fs) = (w', receiving fe dg D (en_name e) (c @ payload fe b) fs, Inr ())"
      "writes_one base e i (Some (FileStream (target D (en_name e) ''.download'') (length (c @ payload fe b)) True)) w'"
    using next_block [OF assms(1) _ _ Cons.prems(2), of b] Cons.prems(1) by auto
  have "\<forall>b\<in>set bs. bk_id b = i \<and> bk_file_num b = 0" using Cons.prems(1) by simp
  from Cons.IH [OF this w'(2)] obtain w'' st where
    "receive fe (map MsgBlock bs) w' (receiving fe dg D (en_name e) (c @ payload fe b) fs) =
       Some (w'', receiving fe dg D (en_name e) ((c @ payload fe b) @ concat (map (payload fe) bs)) fs)" "writes_one base e i (Some st) w''"
    by blast
  then show ?case using w'(1) by auto
qed auto

lemma receive_file:
  assumes "fresh_target (ft_os fe) fs base D (en_name e)" "\<forall>b\<in>set bs. bk_id b = i \<and> bk_file_num b = 0" "bs \<noteq> []" "writes_one base e i None w"
  shows "\<exists>w' st. receive fe (map MsgBlock bs) w fs = Some (w', receiving fe (tj_digest w) D (en_name e) (concat (map (payload fe) bs)) fs) \<and>
    writes_one base e i (Some st) w'"
proof -
  obtain b bs' where bs: "bs = b # bs'" using assms(3) by (cases bs) auto
  obtain w1 where w1: "job_write fe b w fs = (w1, receiving fe (tj_digest w) D (en_name e) (payload fe b) fs, Inr ())"
      "writes_one base e i (Some (FileStream (target D (en_name e) ''.download'') (length (payload fe b)) True)) w1"
    using first_block [OF assms(1,4), of b] assms(2) bs by auto
  have "\<forall>b\<in>set bs'. bk_id b = i \<and> bk_file_num b = 0" using assms(2) bs by simp
  from receive_blocks [OF assms(1) this w1(2), of "tj_digest w"] obtain w' st where
    "receive fe (map MsgBlock bs') w1 (receiving fe (tj_digest w) D (en_name e) (payload fe b) fs) =
       Some (w', receiving fe (tj_digest w) D (en_name e) (payload fe b @ concat (map (payload fe) bs')) fs)" "writes_one base e i (Some st) w'"
    by blast
  then show ?thesis using w1(1) bs by auto
qed

text \<open>At the end the digest is removed and the download becomes the file, with the time that was announced.\<close>

lemma finish_file:
  assumes "fresh_target (ft_os fe) fs base D (en_name e)" "writes_one base e i st w"
  shows "modify_time (ft_os fe) w (receiving fe dg D (en_name e) c fs) = received D e c fs"
proof -
  let ?os = "ft_os fe" and ?p = "join_path base (en_name e)" and ?T = "target D (en_name e)" and ?now = "os_now (ft_os fe)"
  let ?M = "made_dirs D (butlast (comps (en_name e))) fs" and ?S = "receiving fe dg D (en_name e) c fs"
  have f: "writable_dir D fs" "\<forall>l. os_permits ?os l" "plain_name (en_name e)" using assms(1) by (simp_all add: fresh_target_def)
  have w: "tj_type w = Generic" "tj_source w = FilePath base" "tj_files w = [e]" "as_usize (tj_file_num w) = 0"
    using assms(2) by (simp_all add: writes_one_def as_usize_def)
  have M: "dirs_made D (en_name e) ?M" "?M (?T suf) = None" for suf using made_dirs_made [OF f(1)] made_dirs_target [OF assms(1)] by auto
  have S: "dirs_made D (en_name e) ?S"
    unfolding receiving_def by (intro dirs_made_update M(1) target_not_prefix)
  note dist = target_distinct [of D "en_name e"] and dist' = target_distinct(1-3) [of D "en_name e", symmetric]
  have sT: "?S (?T []) = None" "?S (?T ''.digest'') = Some (FFile (ft_digest_json fe dg) ?now)"
    using M(2) dist by (simp_all add: receiving_def)
  have acc: "join_validated_path ?os ?S base (en_name e) = Inr ?p"
    by (rule target_accepted [OF assms(1)]) (use S sT in \<open>auto simp: dirs_made_def\<close>)
  define S1 where "S1 = ?S(?T ''.digest'' := None)"
  have "locate ?os ?S False (?p @ ''.digest'') = Inr (?T ''.digest'')"
    by (rule locate_target [OF assms(1) _ S]) (simp_all add: sT)
  then have r1: "os_remove_file ?os ?S (digest_path ?p) = Inr S1"
    using f(2) sT dist(4) by (simp add: os_remove_file_def digest_path_def node_def S1_def)
  have S1: "dirs_made D (en_name e) S1" "S1 (?T []) = None" "S1 (?T ''.download'') = Some (FFile c ?now)"
    using dirs_made_update [OF S target_not_prefix] sT dist receiving_download(1) [of fe dg D "en_name e" c fs] by (simp_all add: S1_def)
  define S2 where "S2 = S1(?T ''.download'' := None, ?T [] \<mapsto> FFile c ?now)"
  have "locate ?os S1 False (?p @ ''.download'') = Inr (?T ''.download'')" "locate ?os S1 False (?p @ []) = Inr (?T [])"
    by (rule locate_target [OF assms(1) _ S1(1)]; simp add: S1)+
  then have r2: "os_rename ?os S1 (download_path ?p) ?p = Inr S2"
    using f(2) S1 dist by (simp add: os_rename_def download_path_def node_def S2_def)
  have S2: "dirs_made D (en_name e) S2" "S2 (?T []) = Some (FFile c ?now)"
    unfolding S2_def by (intro dirs_made_update S1(1) target_not_prefix) simp
  have "locate ?os S2 True (?p @ []) = Inr (?T [])" by (rule locate_target [OF assms(1) _ S2(1)]) (simp_all add: S2)
  then have r3: "os_set_mtime ?os S2 ?p t = Inr (S2(?T [] \<mapsto> FFile c t))" for t
    using f(2) S2 dist(4) by (simp add: os_set_mtime_def node_def)
  have "modify_time ?os w ?S = S2(?T [] \<mapsto> FFile c (unat (en_modified e) * nanos_per_sec))"
    using w acc r1 r2 r3 by (simp add: modify_time_def resolve_entry_path_def Let_def or_same_def)
  also have "\<dots> = ?M(?T [] \<mapsto> FFile c (unat (en_modified e) * nanos_per_sec))"
    using M(2) dist dist' by (auto simp: S2_def S1_def receiving_def fun_eq_iff)
  also have "\<dots> = received D e c fs" using target_plain [OF f(3)] by (simp add: received_def)
  finally show ?thesis .
qed

text \<open>
  C23.  A file arrives as it was sent.  The reading job of one side cuts a file into pieces, compresses those that become shorter,
  and ends after finitely many rounds with the message that it is done; when the messages are given to the writing
  job of the other side, whose directory is empty, this directory holds exactly the file under its name, with
  the content byte by byte and the announced time, and no download or digest is left.  The compression
  library must succeed and be undone by decompression.
\<close>

theorem file_arrives:
  assumes "tj_source r = FilePath p" "tj_files r = [e]" "tj_file_num r = 0" "tj_stream r = None" "\<not> tj_overwrite_detection r"
      "\<not> tj_is_last_job r" "\<not> tj_skipped r"
    and "os_open (ft_os fr) fs1 (job_join p (en_name e)) = Inr l" "node fs1 l = Some (FFile c t)" "os_reads (ft_os fr) l"
    and "\<And>b. \<exists>z. ft_compress fr b = Some z \<and> ft_decompress fw z = Some b"
    and "fresh_target (ft_os fw) fs2 base D (en_name e')" "writes_one base e' (tj_id r) None w"
  shows "\<exists>n ms w'. read_rounds fr n fs1 [r] = ([], ms) \<and> receive fw ms w fs2 = Some (w', received D e' c fs2)"
proof -
  define bs where "bs = map (block_of fr r) (chunk_list c) @ [end_block r]"
  have rounds: "read_rounds fr (length (chunk_list c) + 2) fs1 [r] = ([], map MsgBlock bs @ [MsgDone (tj_id r) 1])"
    using rounds_file [OF assms(1-10)] by (simp add: bs_def)
  have ids: "\<forall>b\<in>set bs. bk_id b = tj_id r \<and> bk_file_num b = 0" "bs \<noteq> []"
    using assms(3) by (auto simp: bs_def block_of_def end_block_def Let_def)
  have "payload fw (block_of fr r b) = b" for b
    using assms(11) [of b] by (auto simp: payload_def block_of_def compress_def decompress_def Let_def)
  then have "concat (map (payload fw) bs) = c"
    using concat_chunk_list [of c] by (simp add: bs_def comp_def end_block_def payload_def)
  then obtain w' st where w': "receive fw (map MsgBlock bs) w fs2 = Some (w', receiving fw (tj_digest w) D (en_name e') c fs2)" "writes_one base e' (tj_id r) (Some st) w'"
    using receive_file [OF assms(12) ids assms(13)] by auto
  then have "receive fw (map MsgBlock bs @ [MsgDone (tj_id r) 1]) w fs2 = Some (w', received D e' c fs2)"
    using finish_file [OF assms(12) w'(2)] by (simp add: receive_append)
  then show ?thesis using rounds by blast
qed

section \<open>Sample\<close>

lemma sample_fresh: "fresh_target sample_os [[''d''] \<mapsto> FDir] ''/d'' [''d''] ''a/b''"
  using sample_base sample_dir
  by (auto simp: fresh_target_def plain_name_def comps_def nul_char PATH_MAX_def sample_os_def strict_prefix_def)

text \<open>A file of two bytes is sent under the name \<open>a/b\<close> into an empty directory.\<close>

theorem file_arrives_witness:
  "\<exists>n ms w'. read_rounds sample_fe n [[''d''] \<mapsto> FDir, [''d'', ''f''] \<mapsto> FFile [1, 2] 0] [sample_job [''f'']] = ([], ms) \<and>
     receive sample_fe ms (sample_job [''a/b'']) [[''d''] \<mapsto> FDir] = Some (w', received [''d''] (sample_entry ''a/b'') [1, 2] [[''d''] \<mapsto> FDir])"
proof (rule file_arrives [where p = "''/d''" and e = "sample_entry ''f''" and l = "[''d'', ''f'']" and c = "[1, 2]" and t = 0 and base = "''/d''"])
  show "os_open (ft_os sample_fe) [[''d''] \<mapsto> FDir, [''d'', ''f''] \<mapsto> FFile [1, 2] 0] (job_join ''/d'' (en_name (sample_entry ''f''))) = Inr [''d'', ''f'']"
    by (simp add: os_open_def sample_defs job_call_defs)
  show "node [[''d''] \<mapsto> FDir, [''d'', ''f''] \<mapsto> FFile [1, 2] 0] [''d'', ''f''] = Some (FFile [1, 2] 0)" by (simp add: node_def)
  show "fresh_target (ft_os sample_fe) [[''d''] \<mapsto> FDir] ''/d'' [''d''] (en_name (sample_entry ''a/b''))"
    using sample_fresh by (simp add: sample_fe_def sample_entry_def)
qed (simp_all add: sample_defs writes_one_def)

end
