(* ===== verification/Ws_Stream.thy ===== *)
theory Ws_Stream
  imports Core_Config Host_Port Secure_Stream Addr_Mangle
begin

text \<open>
  WebSocket streams of the shared library: the memory of how a host was reached with TLS (\<open>tls.rs\<close>), connecting with its
  fallbacks, sending and receiving (\<open>websocket.rs\<close>), and the choice of the way to a target
  in \<open>socket_client.rs\<close>.  The TLS and WebSocket libraries are arguments.
\<close>

section \<open>How hosts were reached\<close>

datatype tls_type = PlainTls | NativeTls | Rustls

record tls_cache =
  tc_types :: "string \<rightharpoonup> tls_type"
  tc_danger :: "string \<rightharpoonup> bool"

definition is_plain :: "string \<Rightarrow> bool" where
  "is_plain url \<longleftrightarrow> starts_with url ''ws://'' \<or> starts_with url ''http://''"

text \<open>What follows the first occurrence of a text.\<close>

fun after_text :: "string \<Rightarrow> string \<Rightarrow> string option" where
  "after_text pat [] = (if pat = [] then Some [] else None)"
| "after_text pat (c # s) = (if starts_with (c # s) pat then Some (drop (length pat) (c # s)) else after_text pat s)"

definition get_domain_and_port_from_url :: "string \<Rightarrow> string" where
  "get_domain_and_port_from_url url =
     (let url2 = (case after_text ''://'' url of Some r \<Rightarrow> r | None \<Rightarrow> url);
          after_at = (if CHR ''@'' \<in> set url2 then last (split_on CHR ''@'' url2) else url2)
      in takeWhile (\<lambda>c. c \<noteq> CHR ''/'' \<and> c \<noteq> CHR ''?'') after_at)"

definition upsert_tls_cache :: "string \<Rightarrow> tls_type \<Rightarrow> bool \<Rightarrow> tls_cache \<Rightarrow> tls_cache" where
  "upsert_tls_cache url ty danger c =
     (if is_plain url then c
      else let d = get_domain_and_port_from_url url
           in c\<lparr>tc_types := (tc_types c)(d \<mapsto> ty), tc_danger := (tc_danger c)(d \<mapsto> danger)\<rparr>)"

definition reset_tls_cache :: "tls_cache \<Rightarrow> tls_cache" where
  "reset_tls_cache c = \<lparr>tc_types = Map.empty, tc_danger = Map.empty\<rparr>"

definition get_cached_tls_type :: "string \<Rightarrow> tls_cache \<Rightarrow> tls_type option" where
  "get_cached_tls_type url c = (if is_plain url then Some PlainTls else tc_types c (get_domain_and_port_from_url url))"

definition allow_insecure_tls_fallback :: "core_env \<Rightarrow> core_state \<Rightarrow> bool" where
  "allow_insecure_tls_fallback env st =
     option2bool ''allow-insecure-tls-fallback'' (get_option env st ''allow-insecure-tls-fallback'')"

definition get_cached_tls_accept_invalid_cert :: "bool \<Rightarrow> string \<Rightarrow> tls_cache \<Rightarrow> bool option" where
  "get_cached_tls_accept_invalid_cert allow url c =
     (if \<not> allow then Some False else if is_plain url then Some False
      else tc_danger c (get_domain_and_port_from_url url))"

text \<open>An \<open>@\<close> behind the host makes another host of the address, whose memory is then used and written.\<close>

lemma at_in_path_taken_for_host: "get_domain_and_port_from_url ''https://a.b/x@c.d'' = ''c.d''"
  by (simp add: get_domain_and_port_from_url_def starts_with_def)

section \<open>Connecting\<close>

text \<open>
  A connector with whether it accepts invalid certificates; without one the library uses its own, which verifies.
  An answer of the network may depend on the number of the attempt.
\<close>

datatype connector = PlainConnector | NativeConnector bool | RustlsConnector bool | DefaultConnector

definition accepts_invalid :: "connector \<Rightarrow> bool" where
  "accepts_invalid c = (case c of NativeConnector b \<Rightarrow> b | RustlsConnector b \<Rightarrow> b | _ \<Rightarrow> False)"

datatype connect_outcome = Established | Failed | ConnTimedOut

record ws_env =
  we_request :: "string \<Rightarrow> bool"
  we_native_builder :: "bool \<Rightarrow> bool"
  we_client_config :: "bool \<Rightarrow> bool"
  we_connect :: "nat \<Rightarrow> connector \<Rightarrow> connect_outcome"

definition get_connector :: "ws_env \<Rightarrow> tls_type \<Rightarrow> bool \<Rightarrow> connector option" where
  "get_connector we ty danger =
     (case ty of
        PlainTls \<Rightarrow> Some PlainConnector
      | NativeTls \<Rightarrow> if we_native_builder we danger then Some (NativeConnector danger) else None
      | Rustls \<Rightarrow> Some (if we_client_config we danger then RustlsConnector danger else DefaultConnector))"

text \<open>The connectors that were tried, the memory afterwards, and whether there is a connection.\<close>

type_synonym connect_result = "connector list \<times> tls_cache \<times> bool"

definition tried :: "connector \<Rightarrow> connect_result \<Rightarrow> connect_result" where
  "tried c r = (case r of (cs, cache, ok) \<Rightarrow> (c # cs, cache, ok))"

fun tls_rank :: "tls_type \<Rightarrow> bool option \<Rightarrow> nat" where
  "tls_rank Rustls None = 3"
| "tls_rank Rustls (Some _) = 2"
| "tls_rank NativeTls None = 1"
| "tls_rank _ _ = 0"

lemma tls_rank_native: "tls_rank NativeTls d < 2"
  by (cases d) simp_all

text \<open>The fifth argument is what the recursion passes on as \<open>original_danger_accept_invalid_certs\<close>.\<close>

function try_connect :: "ws_env \<Rightarrow> nat \<Rightarrow> string \<Rightarrow> tls_type \<Rightarrow> bool \<Rightarrow> bool option \<Rightarrow> bool option \<Rightarrow> tls_cache \<Rightarrow> connect_result" where
  "try_connect we n url ty is_cached danger original cache =
     (if \<not> we_request we url then ([], cache, False)
      else (case get_connector we ty (danger = Some True) of
          None \<Rightarrow> ([], cache, False)
        | Some conn \<Rightarrow>
            (case we_connect we n conn of
               ConnTimedOut \<Rightarrow> ([conn], cache, False)
             | Established \<Rightarrow> ([conn], upsert_tls_cache url ty (danger = Some True) cache, True)
             | Failed \<Rightarrow>
                 if ty = Rustls \<and> danger = None
                 then tried conn (try_connect we (Suc n) url ty is_cached (Some True) original cache)
                 else if ty = Rustls \<and> \<not> is_cached
                 then tried conn (try_connect we (Suc n) url NativeTls is_cached original original cache)
                 else if ty = NativeTls \<and> danger = None
                 then tried conn (try_connect we (Suc n) url ty is_cached (Some True) original cache)
                 else ([conn], cache, False))))"
  by pat_completeness auto
termination
proof (relation "measure (\<lambda>(we, n, url, ty, ic, d, orig, c). tls_rank ty d)")
  fix we :: ws_env and n url ty ic and d orig :: "bool option" and c
  assume "\<not> (ty = Rustls \<and> d = None)" "ty = Rustls \<and> \<not> ic"
  then obtain b where "ty = Rustls" "d = Some b" by auto
  then show "((we, Suc n, url, NativeTls, ic, orig, orig, c), we, n, url, ty, ic, d, orig, c)
      \<in> measure (\<lambda>(we, n, url, ty, ic, d, orig, c). tls_rank ty d)"
    using tls_rank_native by simp
qed auto

declare try_connect.simps [simp del]

definition ws_connect :: "ws_env \<Rightarrow> bool \<Rightarrow> string \<Rightarrow> tls_cache \<Rightarrow> connect_result" where
  "ws_connect we allow url cache =
     (let ty = get_cached_tls_type url cache;
          danger = get_cached_tls_accept_invalid_cert allow url cache
      in try_connect we 0 url (case ty of Some t \<Rightarrow> t | None \<Rightarrow> Rustls) (ty \<noteq> None) danger danger cache)"

subsection \<open>The order of the attempts\<close>

text \<open>
  What connecting amounts to: a list of kinds of connection, each with and then without
  verification unless that is settled, which is gone through while the attempts fail.
\<close>

fun rungs :: "tls_type \<Rightarrow> bool option \<Rightarrow> (tls_type \<times> bool) list" where
  "rungs PlainTls d = [(PlainTls, d = Some True)]"
| "rungs ty None = [(ty, False), (ty, True)]"
| "rungs ty (Some b) = [(ty, b)]"

definition ladder :: "tls_type \<Rightarrow> bool \<Rightarrow> bool option \<Rightarrow> (tls_type \<times> bool) list" where
  "ladder ty cached d = rungs ty d @ (if ty = Rustls \<and> \<not> cached then rungs NativeTls d else [])"

fun climb :: "ws_env \<Rightarrow> nat \<Rightarrow> string \<Rightarrow> (tls_type \<times> bool) list \<Rightarrow> tls_cache \<Rightarrow> connect_result" where
  "climb we n url [] cache = ([], cache, False)"
| "climb we n url ((ty, b) # rs) cache =
     (case get_connector we ty b of
        None \<Rightarrow> ([], cache, False)
      | Some conn \<Rightarrow>
          (case we_connect we n conn of
             ConnTimedOut \<Rightarrow> ([conn], cache, False)
           | Established \<Rightarrow> ([conn], upsert_tls_cache url ty b cache, True)
           | Failed \<Rightarrow> tried conn (climb we (Suc n) url rs cache)))"

lemma tried_nil: "tried conn ([], cache, False) = ([conn], cache, False)"
  by (simp add: tried_def)

lemma try_connect_native:
  "we_request we url \<Longrightarrow> try_connect we n url NativeTls ic d orig cache = climb we n url (rungs NativeTls d) cache"
  by (cases d) (simp_all add: try_connect.simps tried_nil split: option.splits connect_outcome.splits)

lemma try_connect_rustls_settled:
  "we_request we url \<Longrightarrow> try_connect we n url Rustls ic (Some b) orig cache =
     climb we n url ((Rustls, b) # (if ic then [] else rungs NativeTls orig)) cache"
  by (subst try_connect.simps) (simp add: try_connect_native tried_nil split: option.splits connect_outcome.splits)

lemma try_connect_ladder:
  assumes "we_request we url"
  shows "try_connect we n url ty ic d d cache = climb we n url (ladder ty ic d) cache"
proof (cases ty)
  case Rustls
  then show ?thesis using assms
    by (cases d; subst try_connect.simps)
      (simp_all add: ladder_def try_connect_rustls_settled try_connect_native tried_nil split: option.splits connect_outcome.splits)
next
  case PlainTls
  then show ?thesis using assms
    by (subst try_connect.simps) (simp add: ladder_def tried_nil split: option.splits connect_outcome.splits)
qed (simp add: assms ladder_def try_connect_native)

lemma ws_connect_is_climb:
  "ws_connect we allow url cache =
     (if we_request we url
      then climb we 0 url (ladder (case get_cached_tls_type url cache of Some t \<Rightarrow> t | None \<Rightarrow> Rustls)
         (get_cached_tls_type url cache \<noteq> None) (get_cached_tls_accept_invalid_cert allow url cache)) cache
      else ([], cache, False))"
  by (simp add: ws_connect_def Let_def try_connect_ladder) (simp add: try_connect.simps)

lemma length_ladder: "length (ladder ty ic d) \<le> 4"
  by (cases ty; cases d) (simp_all add: ladder_def)

lemma climb_result:
  assumes "climb we n url rs cache = (cs, cache', ok)"
  shows "length cs \<le> length rs" "\<And>i. i < length cs \<Longrightarrow> get_connector we (fst (rs ! i)) (snd (rs ! i)) = Some (cs ! i)"
    "\<And>i. Suc i < length cs \<Longrightarrow> we_connect we (n + i) (cs ! i) = Failed"
    "ok \<longleftrightarrow> cs \<noteq> [] \<and> we_connect we (n + length cs - 1) (last cs) = Established"
    "cache' = (if ok then upsert_tls_cache url (fst (rs ! (length cs - 1))) (snd (rs ! (length cs - 1))) cache else cache)"
proof -
  have "length cs \<le> length rs \<and> (\<forall>i < length cs. get_connector we (fst (rs ! i)) (snd (rs ! i)) = Some (cs ! i)) \<and>
    (\<forall>i. Suc i < length cs \<longrightarrow> we_connect we (n + i) (cs ! i) = Failed) \<and>
    (ok \<longleftrightarrow> cs \<noteq> [] \<and> we_connect we (n + length cs - 1) (last cs) = Established) \<and>
    cache' = (if ok then upsert_tls_cache url (fst (rs ! (length cs - 1))) (snd (rs ! (length cs - 1))) cache else cache)"
    using assms
  proof (induction rs arbitrary: n cs)
    case (Cons r rs)
    obtain ty b where r: "r = (ty, b)" by fastforce
    show ?case
    proof (cases "\<exists>conn. get_connector we ty b = Some conn \<and> we_connect we n conn = Failed")
      case False
      then show ?thesis using Cons.prems r by (auto split: option.splits connect_outcome.splits)
    next
      case True
      then obtain conn cs' where c: "get_connector we ty b = Some conn" "we_connect we n conn = Failed" "cs = conn # cs'"
        "climb we (Suc n) url rs cache = (cs', cache', ok)" using Cons.prems r by (auto simp: tried_def split: prod.splits)
      note IH = Cons.IH [OF c(4)]
      show ?thesis
      proof (cases cs')
        case Nil
        then show ?thesis using IH c r by auto
      next
        case (Cons x xs)
        then show ?thesis using IH c r by (auto simp: nth_Cons split: nat.splits)
      qed
    qed
  qed simp
  then show "length cs \<le> length rs" "\<And>i. i < length cs \<Longrightarrow> get_connector we (fst (rs ! i)) (snd (rs ! i)) = Some (cs ! i)"
    "\<And>i. Suc i < length cs \<Longrightarrow> we_connect we (n + i) (cs ! i) = Failed"
    "ok \<longleftrightarrow> cs \<noteq> [] \<and> we_connect we (n + length cs - 1) (last cs) = Established"
    "cache' = (if ok then upsert_tls_cache url (fst (rs ! (length cs - 1))) (snd (rs ! (length cs - 1))) cache else cache)"
    by blast+
qed

lemma rungs_unverified:
  "i < length (rungs ty d) \<Longrightarrow> rungs ty d ! i = (t, True) \<Longrightarrow> t \<noteq> PlainTls \<Longrightarrow>
     d = Some True \<or> d = None \<and> 0 < i \<and> rungs ty d ! (i - 1) = (t, False)"
  by (cases ty; cases d) (auto simp: nth_Cons split: nat.splits)

lemma ladder_unverified:
  assumes "i < length (ladder ty ic d)" "ladder ty ic d ! i = (t, True)" "t \<noteq> PlainTls"
  shows "d = Some True \<or> d = None \<and> 0 < i \<and> ladder ty ic d ! (i - 1) = (t, False)"
proof (cases "i < length (rungs ty d)")
  case True
  then show ?thesis using assms rungs_unverified [OF True _ assms(3)] by (auto simp: ladder_def nth_append)
next
  case False
  then have "i - length (rungs ty d) < length (rungs NativeTls d)" "rungs NativeTls d ! (i - length (rungs ty d)) = (t, True)"
    using assms by (auto simp: ladder_def nth_append split: if_splits)
  from rungs_unverified [OF this assms(3)] show ?thesis
    using assms(1) False by (auto simp: ladder_def nth_append diff_right_commute split: if_splits)
qed

lemma get_connector_unverified:
  "get_connector we ty b = Some conn \<Longrightarrow> accepts_invalid conn \<Longrightarrow> b \<and> ty \<noteq> PlainTls"
  by (auto simp: get_connector_def accepts_invalid_def split: tls_type.splits if_splits)


text \<open>A host whose certificate is not valid and whose server answers; connecting as the settings allow it.\<close>

definition sample_ws_env :: ws_env where
  "sample_ws_env = \<lparr>we_request = \<lambda>_. True, we_native_builder = \<lambda>_. True, we_client_config = \<lambda>_. True,
     we_connect = \<lambda>n c. if accepts_invalid c then Established else Failed\<rparr>"

definition insecure_core_env :: core_env where
  "insecure_core_env = sample_core_env\<lparr>ge_overwrite := [''allow-insecure-tls-fallback'' \<mapsto> ''Y'']\<rparr>"

lemma sample_fallback: "allow_insecure_tls_fallback insecure_core_env sample_core_state"
  by (simp add: allow_insecure_tls_fallback_def insecure_core_env_def get_option_def get_or_def or_empty_def option2bool_def
      starts_with_def)


end
