(* ===== verification/Net_Streams.thy ===== *)
theory Net_Streams
  imports Ws_Stream
begin

text \<open>
  Messages over WebSocket (\<open>WsFramedStream\<close> of \<open>websocket.rs\<close>), the stream that is either of
  the two kinds (\<open>stream.rs\<close>), and the address at which a server is reached over WebSocket
  (\<open>check_ws\<close>).  The WebSocket library hands over whole messages in the order in which they were sent, and adds
  control messages of its own.
\<close>

section \<open>Messages over WebSocket\<close>

datatype ws_message = WsBinary bytes | WsText bytes | WsPing bytes | WsPong bytes | WsClose

text \<open>What the library yields next: a message, an error, or the end of the connection.\<close>

datatype ws_item = WsMsg ws_message | WsFailed | WsEnded

record ws_stream =
  wst_addr :: socket_addr
  ws_encrypt :: "encrypt option"
  ws_send_timeout :: u64

text \<open>A stream of the library, with the address of the other side if the socket tells it.\<close>

definition ws_new :: "ws_env \<Rightarrow> socket_addr option \<Rightarrow> bool \<Rightarrow> string \<Rightarrow> u64 \<Rightarrow> tls_cache \<Rightarrow> tls_cache \<times> ws_stream option" where
  "ws_new we peer_addr allow url ms_timeout cache =
     (case ws_connect we allow url cache of
        (_, cache', ok) \<Rightarrow>
          (cache', if ok then map_option (\<lambda>a. \<lparr>wst_addr = a, ws_encrypt = None, ws_send_timeout = ms_timeout\<rparr>) peer_addr else None))"

definition ws_from_tcp_stream :: "socket_addr \<Rightarrow> ws_stream" where
  "ws_from_tcp_stream addr = \<lparr>wst_addr = addr, ws_encrypt = None, ws_send_timeout = 0\<rparr>"

definition ws_set_raw :: "ws_stream \<Rightarrow> ws_stream" where
  "ws_set_raw s = s\<lparr>ws_encrypt := None\<rparr>"

definition ws_set_send_timeout :: "u64 \<Rightarrow> ws_stream \<Rightarrow> ws_stream" where
  "ws_set_send_timeout ms s = s\<lparr>ws_send_timeout := ms\<rparr>"

definition ws_set_key :: "bytes \<Rightarrow> ws_stream \<Rightarrow> ws_stream" where
  "ws_set_key key s = s\<lparr>ws_encrypt := Some (encrypt_new key)\<rparr>"

definition ws_is_secured :: "ws_stream \<Rightarrow> bool" where
  "ws_is_secured s \<longleftrightarrow> ws_encrypt s \<noteq> None"

definition ws_local_addr :: "ws_stream \<Rightarrow> socket_addr" where
  "ws_local_addr s = wst_addr s"

text \<open>The first argument tells whether the library takes the message, within the time limit if there is one.\<close>

definition ws_send_bytes :: "bool \<Rightarrow> bytes \<Rightarrow> ws_stream \<Rightarrow> ws_stream \<times> ws_message option" where
  "ws_send_bytes ok data s = (s, if ok then Some (WsBinary data) else None)"

definition ws_send_raw :: "sodium \<Rightarrow> bool \<Rightarrow> bytes \<Rightarrow> ws_stream \<Rightarrow> ws_stream \<times> ws_message option" where
  "ws_send_raw so ok msg s =
     (case ws_encrypt s of
        Some key \<Rightarrow> (case enc so key msg of (key', m) \<Rightarrow> ws_send_bytes ok m (s\<lparr>ws_encrypt := Some key'\<rparr>))
      | None \<Rightarrow> ws_send_bytes ok msg s)"

datatype ws_result = WsPending | WsData bytes | WsProtocolError | WsDecryptionError | WsNone

text \<open>The loop of \<open>next\<close> on what the library has received: it waits when this is used up.\<close>

fun ws_next :: "sodium \<Rightarrow> ws_stream \<Rightarrow> ws_item list \<Rightarrow> ws_stream \<times> ws_item list \<times> ws_result" where
  "ws_next so s [] = (s, [], WsPending)"
| "ws_next so s (WsFailed # is) = (s, is, WsProtocolError)"
| "ws_next so s (WsEnded # is) = (s, is, WsNone)"
| "ws_next so s (WsMsg m # is) =
     (case m of
        WsBinary data \<Rightarrow>
          (case ws_encrypt s of
             None \<Rightarrow> (s, is, WsData data)
           | Some key \<Rightarrow>
               (case dec so key data of
                  (key', None) \<Rightarrow> (s\<lparr>ws_encrypt := Some key'\<rparr>, is, WsDecryptionError)
                | (key', Some plain) \<Rightarrow> (s\<lparr>ws_encrypt := Some key'\<rparr>, is, WsData plain)))
      | WsText data \<Rightarrow> (s, is, WsData data)
      | WsClose \<Rightarrow> (s, is, WsNone)
      | _ \<Rightarrow> ws_next so s is)"

text \<open>With a time limit the caller cannot tell an end from a delay.\<close>

definition ws_next_timeout :: "sodium \<Rightarrow> ws_stream \<Rightarrow> ws_item list \<Rightarrow> ws_stream \<times> ws_item list \<times> ws_result" where
  "ws_next_timeout so s is = (case ws_next so s is of (s', is', r) \<Rightarrow> (s', is', if r = WsPending then WsNone else r))"

subsection \<open>A second queue\<close>

record ws_link =
  wl_sender :: ws_stream
  wl_wire :: "ws_message list"
  wl_receiver :: ws_stream

definition is_control :: "ws_message \<Rightarrow> bool" where
  "is_control m = (case m of WsPing _ \<Rightarrow> True | WsPong _ \<Rightarrow> True | _ \<Rightarrow> False)"

text \<open>
  A message is sent, a library sends a control message, or \<open>next\<close> is called on what is on its
  way; \<open>n\<close> messages have arrived then.
\<close>

inductive ws_link_step :: "sodium \<Rightarrow> ws_link \<Rightarrow> chan_event \<Rightarrow> ws_link \<Rightarrow> bool" for so where
  ws_send: "ws_send_raw so ok m (wl_sender l) = (s', Some out) \<Longrightarrow>
     ws_link_step so l (Sent m) (l\<lparr>wl_sender := s', wl_wire := wl_wire l @ [out]\<rparr>)"
| ws_control: "is_control c \<Longrightarrow> ws_link_step so l Moved (l\<lparr>wl_wire := wl_wire l @ [c]\<rparr>)"
| ws_receive: "ws_next so (wl_receiver l) (map WsMsg (take n (wl_wire l))) = (r', map WsMsg w, WsData m) \<Longrightarrow>
     ws_link_step so l (Received m) (l\<lparr>wl_receiver := r', wl_wire := w @ drop n (wl_wire l)\<rparr>)"
| ws_wait: "ws_next so (wl_receiver l) (map WsMsg (take n (wl_wire l))) = (r', is, WsPending) \<Longrightarrow>
     ws_link_step so l Moved (l\<lparr>wl_receiver := r', wl_wire := drop n (wl_wire l)\<rparr>)"
| ws_broken: "ws_next so (wl_receiver l) (map WsMsg (take n (wl_wire l))) = (r', map WsMsg w, x) \<Longrightarrow>
     x \<in> {WsProtocolError, WsDecryptionError, WsNone} \<Longrightarrow>
     ws_link_step so l Broken (l\<lparr>wl_receiver := r', wl_wire := w @ drop n (wl_wire l)\<rparr>)"

inductive_cases ws_link_stepE:
  "ws_link_step so l (Sent m) l'" "ws_link_step so l (Received m) l'" "ws_link_step so l Moved l'" "ws_link_step so l Broken l'"

definition ws_link_rel :: "sodium \<Rightarrow> ws_link \<Rightarrow> bytes list \<Rightarrow> bool" where
  "ws_link_rel so l q \<longleftrightarrow> secretbox_ok so \<and>
     in_step (ws_encrypt (wl_sender l)) (ws_encrypt (wl_receiver l)) (length q) \<and>
     filter (\<lambda>m. \<not> is_control m) (wl_wire l) = map WsBinary (payloads so (ws_encrypt (wl_receiver l)) q)"

lemma payloads_Cons:
  "payloads so None (m # q) = m # q"
  "payloads so (Some e) (m # q) = sb_seal so m (get_nonce (en_rx e + 1)) (en_key e) #
     payloads so (Some (e\<lparr>en_rx := en_rx e + 1\<rparr>)) q"
  by (simp_all add: payloads_def)

lemma payloads_snoc:
  "in_step (Some a) (Some b) (length q) \<Longrightarrow>
     payloads so (Some b) (q @ [m]) = payloads so (Some b) q @ [sb_seal so m (get_nonce (en_tx a + 1)) (en_key a)]"
  by (simp add: payloads_def sealed_append add.commute)

lemma ws_rel_sent:
  assumes rel: "ws_link_rel so l q" and send: "ws_send_raw so ok m (wl_sender l) = (s', Some out)"
  shows "ws_link_rel so (l\<lparr>wl_sender := s', wl_wire := wl_wire l @ [out]\<rparr>) (q @ [m])"
proof (cases "ws_encrypt (wl_sender l)")
  case None
  then have r: "ws_encrypt (wl_receiver l) = None" using rel by (cases "ws_encrypt (wl_receiver l)") (auto simp: ws_link_rel_def)
  have "s' = wl_sender l" "out = WsBinary m"
    using send None by (auto simp: ws_send_raw_def ws_send_bytes_def split: if_splits)
  then show ?thesis using rel r None by (simp add: ws_link_rel_def payloads_def is_control_def)
next
  case (Some a)
  then obtain b where b: "ws_encrypt (wl_receiver l) = Some b" "in_step (Some a) (Some b) (length q)"
    using rel by (cases "ws_encrypt (wl_receiver l)") (auto simp: ws_link_rel_def)
  have "s' = (wl_sender l)\<lparr>ws_encrypt := Some (a\<lparr>en_tx := en_tx a + 1\<rparr>)\<rparr>"
    "out = WsBinary (sb_seal so m (get_nonce (en_tx a + 1)) (en_key a))"
    using send Some by (auto simp: ws_send_raw_def ws_send_bytes_def enc_def Let_def split: if_splits)
  then show ?thesis using rel b Some payloads_snoc [OF b(2), of so m]
    by (simp add: ws_link_rel_def is_control_def add.commute add.left_commute)
qed

text \<open>Reading: the control messages in front are passed over, then the next message of the queue is delivered.\<close>

lemma ws_next_rel:
  assumes "secretbox_ok so" "filter (\<lambda>m. \<not> is_control m) (ms @ w) = map WsBinary (payloads so (ws_encrypt r) q)"
    and "in_step (ws_encrypt s) (ws_encrypt r) (length q)" "ws_next so r (map WsMsg ms) = (r', is, x)"
  shows "(x = WsPending \<and> is = [] \<and> ws_link_rel so \<lparr>wl_sender = s, wl_wire = w, wl_receiver = r'\<rparr> q \<and>
      filter (\<lambda>m. \<not> is_control m) ms = []) \<or>
    (\<exists>m q' ms'. x = WsData m \<and> q = m # q' \<and> is = map WsMsg ms' \<and>
       ws_link_rel so \<lparr>wl_sender = s, wl_wire = ms' @ w, wl_receiver = r'\<rparr> q')"
  using assms
proof (induction ms)
  case Nil
  then show ?case by (simp add: ws_link_rel_def)
next
  case (Cons c ms)
  show ?case
  proof (cases "is_control c")
    case True
    then show ?thesis using Cons by (cases c) (simp_all add: is_control_def)
  next
    case False
    then obtain p ps where p: "payloads so (ws_encrypt r) q = p # ps" "c = WsBinary p"
      "filter (\<lambda>m. \<not> is_control m) (ms @ w) = map WsBinary ps"
      using Cons.prems(2) by (cases "payloads so (ws_encrypt r) q") auto
    then obtain m q' where q: "q = m # q'" by (cases q) (auto simp: payloads_def split: option.splits)
    show ?thesis
    proof (cases "ws_encrypt r")
      case None
      then have "ws_encrypt s = None" using Cons.prems(3) by (cases "ws_encrypt s") auto
      then show ?thesis using Cons.prems(1,4) p q None by (auto simp: ws_link_rel_def payloads_def)
    next
      case (Some e)
      then obtain a where a: "ws_encrypt s = Some a" "en_key a = en_key e" "en_tx a = en_rx e + of_nat (length q)"
        using Cons.prems(3) by (cases "ws_encrypt s") auto
      have "sb_open so (sb_seal so m n k) n k = Some m" "\<not> length (sb_seal so m n k) \<le> 1" for n k
        using Cons.prems(1) by (auto simp: secretbox_ok_def)
      moreover have "p = sb_seal so m (get_nonce (en_rx e + 1)) (en_key e)" "ps = payloads so (Some (e\<lparr>en_rx := en_rx e + 1\<rparr>)) q'"
        using p(1) q Some by (simp_all add: payloads_Cons)
      ultimately have "x = WsData m" "is = map WsMsg ms" "r' = r\<lparr>ws_encrypt := Some (e\<lparr>en_rx := en_rx e + 1\<rparr>)\<rparr>"
        "filter (\<lambda>m. \<not> is_control m) (ms @ w) = map WsBinary (payloads so (Some (e\<lparr>en_rx := en_rx e + 1\<rparr>)) q')"
        using Cons.prems(4) p Some by (auto simp: dec_def Let_def)
      then show ?thesis using a q Cons.prems(1) by (auto simp: ws_link_rel_def add.commute add.left_commute)
    qed
  qed
qed

lemma ws_rel_next:
  assumes "ws_link_rel so l q" "ws_next so (wl_receiver l) (map WsMsg (take n (wl_wire l))) = (r', is, x)"
  shows "(x = WsPending \<and> ws_link_rel so (l\<lparr>wl_receiver := r', wl_wire := drop n (wl_wire l)\<rparr>) q) \<or>
    (\<exists>m q' ms. x = WsData m \<and> q = m # q' \<and> is = map WsMsg ms \<and>
       ws_link_rel so (l\<lparr>wl_receiver := r', wl_wire := ms @ drop n (wl_wire l)\<rparr>) q')"
  using ws_next_rel [OF _ _ _ assms(2), of "drop n (wl_wire l)" q "wl_sender l"] assms(1)
  by (auto simp: ws_link_rel_def simp flip: filter_append)

lemma WsMsg_inj: "map WsMsg a = map WsMsg b \<longleftrightarrow> a = b"
  by (rule inj_map_eq_map) (simp add: inj_def)

interpretation wl: queue_refinement "ws_link_step so" "ws_link_rel so" for so
proof
  fix s q m s'
  show "ws_link_rel so s q \<Longrightarrow> ws_link_step so s (Sent m) s' \<Longrightarrow> ws_link_rel so s' (q @ [m])"
    by (erule ws_link_stepE) (auto intro: ws_rel_sent)
  show "ws_link_rel so s q \<Longrightarrow> ws_link_step so s (Received m) s' \<Longrightarrow> \<exists>q'. q = m # q' \<and> ws_link_rel so s' q'"
    by (erule ws_link_stepE, drule (1) ws_rel_next) (auto simp: WsMsg_inj)
  show "ws_link_rel so s q \<Longrightarrow> ws_link_step so s Moved s' \<Longrightarrow> ws_link_rel so s' q"
    by (erule ws_link_stepE) (simp add: ws_link_rel_def, drule (1) ws_rel_next, auto)
  show "ws_link_rel so s q \<Longrightarrow> ws_link_step so s Broken s' \<Longrightarrow> False"
    by (erule ws_link_stepE, drule (1) ws_rel_next) auto
qed

definition ws_pair :: "socket_addr \<Rightarrow> bytes option \<Rightarrow> ws_link" where
  "ws_pair a key =
     (let s = (case key of Some k \<Rightarrow> ws_set_key k (ws_from_tcp_stream a) | None \<Rightarrow> ws_from_tcp_stream a)
      in \<lparr>wl_sender = s, wl_wire = [], wl_receiver = s\<rparr>)"

lemma ws_pair_rel: "secretbox_ok so \<Longrightarrow> ws_link_rel so (ws_pair a key) []"
  by (cases key) (simp_all add: ws_pair_def ws_link_rel_def ws_set_key_def ws_from_tcp_stream_def encrypt_new_def payloads_def Let_def)

text \<open>
  Over WebSocket too a stream, encrypted or not, is a queue: what is received is what was sent
  first, in order and unaltered, whatever control messages pass in between.
\<close>

theorem ws_stream_is_queue:
  assumes "secretbox_ok so" "chan_run (ws_link_step so) (ws_pair a key) es l"
  shows "\<exists>q. sent_of es = received_of es @ q \<and> Broken \<notin> set es"
  using wl.run_is_queue [OF assms(2) ws_pair_rel [OF assms(1)]] by blast

text \<open>
  A text message is delivered as it is, also on a stream with a key: it is neither opened nor
  counted, so whoever can put one on the connection is heard without knowing the key.
\<close>

lemma ws_text_not_opened: "ws_next so (ws_set_key k s) (WsMsg (WsText data) # is) = (ws_set_key k s, is, WsData data)"
  by simp

text \<open>A message that could not be sent is counted: the next one cannot be opened by the other side.\<close>

lemma ws_failed_send_counts:
  "ws_encrypt s = Some e \<Longrightarrow> fst (ws_send_raw so False m s) = s\<lparr>ws_encrypt := Some (e\<lparr>en_tx := en_tx e + 1\<rparr>)\<rparr>"
  by (simp add: ws_send_raw_def ws_send_bytes_def enc_def Let_def)

section \<open>Streams of either kind\<close>

text \<open>A stream with what its connection has received so far and its user has not.\<close>

datatype any_stream = StreamTcp framed_stream "bytes list" | StreamWs ws_stream "ws_item list"

definition any_set_send_timeout :: "u64 \<Rightarrow> any_stream \<Rightarrow> any_stream" where
  "any_set_send_timeout ms st =
     (case st of StreamTcp s i \<Rightarrow> StreamTcp (set_send_timeout ms s) i | StreamWs s i \<Rightarrow> StreamWs (ws_set_send_timeout ms s) i)"

definition any_set_raw :: "any_stream \<Rightarrow> any_stream" where
  "any_set_raw st = (case st of StreamTcp s i \<Rightarrow> StreamTcp (stream_set_raw s) i | StreamWs s i \<Rightarrow> StreamWs (ws_set_raw s) i)"

definition any_set_key :: "bytes \<Rightarrow> any_stream \<Rightarrow> any_stream" where
  "any_set_key key st = (case st of StreamTcp s i \<Rightarrow> StreamTcp (set_key key s) i | StreamWs s i \<Rightarrow> StreamWs (ws_set_key key s) i)"

definition any_is_secured :: "any_stream \<Rightarrow> bool" where
  "any_is_secured st = (case st of StreamTcp s i \<Rightarrow> is_secured s | StreamWs s i \<Rightarrow> ws_is_secured s)"

text \<open>What goes out: bytes of a TCP connection or a message over WebSocket.\<close>

datatype any_out = OutBytes bytes | OutMessage ws_message

definition any_send_bytes :: "bool \<Rightarrow> bytes \<Rightarrow> any_stream \<Rightarrow> any_stream \<times> any_out option" where
  "any_send_bytes ok data st =
     (case st of
        StreamTcp s i \<Rightarrow>
          (case send_bytes data s of
             (s', Inr out) \<Rightarrow> (StreamTcp s' i, if ok then Some (OutBytes out) else None)
           | (s', Inl _) \<Rightarrow> (StreamTcp s' i, None))
      | StreamWs s i \<Rightarrow> (case ws_send_bytes ok data s of (s', out) \<Rightarrow> (StreamWs s' i, map_option OutMessage out)))"

definition any_send_raw :: "sodium \<Rightarrow> bool \<Rightarrow> bytes \<Rightarrow> any_stream \<Rightarrow> any_stream \<times> any_out option" where
  "any_send_raw so ok data st =
     (case st of
        StreamTcp s i \<Rightarrow>
          (case send_raw so data s of
             (s', Inr out) \<Rightarrow> (StreamTcp s' i, if ok then Some (OutBytes out) else None)
           | (s', Inl _) \<Rightarrow> (StreamTcp s' i, None))
      | StreamWs s i \<Rightarrow> (case ws_send_raw so ok data s of (s', out) \<Rightarrow> (StreamWs s' i, map_option OutMessage out)))"

definition any_next :: "sodium \<Rightarrow> any_stream \<Rightarrow> any_stream \<times> ws_result" where
  "any_next so st =
     (case st of
        StreamTcp s i \<Rightarrow>
          (case stream_next so s i of
             (s', i', r) \<Rightarrow> (StreamTcp s' i',
               case r of Waiting \<Rightarrow> WsPending | Item m \<Rightarrow> WsData m | DecodeError _ \<Rightarrow> WsProtocolError | DecryptionError \<Rightarrow> WsDecryptionError))
      | StreamWs s i \<Rightarrow> (case ws_next so s i of (s', i', r) \<Rightarrow> (StreamWs s' i', r)))"

definition any_next_timeout :: "sodium \<Rightarrow> any_stream \<Rightarrow> any_stream \<times> ws_result" where
  "any_next_timeout so st = (case any_next so st of (st', r) \<Rightarrow> (st', if r = WsPending then WsNone else r))"

definition any_connect_websocket ::
    "ws_env \<Rightarrow> socket_addr option \<Rightarrow> bool \<Rightarrow> string \<Rightarrow> u64 \<Rightarrow> tls_cache \<Rightarrow> tls_cache \<times> any_stream option" where
  "any_connect_websocket we peer_addr allow url ms_timeout cache =
     map_prod id (map_option (\<lambda>s. StreamWs s [])) (ws_new we peer_addr allow url ms_timeout cache)"

definition any_from :: any_stream where
  "any_from = StreamTcp stream_from []"

text \<open>What comes in on a connection.\<close>

fun deliver :: "any_out \<Rightarrow> any_stream \<Rightarrow> any_stream" where
  "deliver (OutBytes bs) (StreamTcp s i) = StreamTcp s (i @ [bs])"
| "deliver (OutMessage m) (StreamWs s i) = StreamWs s (i @ [WsMsg m])"
| "deliver _ st = st"

text \<open>Either kind of stream, with a key or without, hands the receiver the message the other side has sent.\<close>

lemma any_stream_sends:
  assumes "secretbox_ok so" "st = any_from \<or> st = StreamWs (ws_from_tcp_stream a) []"
    and key: "st' = (case key of Some k \<Rightarrow> any_set_key k st | None \<Rightarrow> st)"
    and send: "any_send_raw so ok m st' = (s', Some out)"
  shows "snd (any_next so (deliver out st')) = WsData m"
  using assms(2)
proof
  assume st: "st = any_from"
  define s where "s = (case key of Some k \<Rightarrow> set_key k stream_from | None \<Rightarrow> stream_from)"
  have st': "st' = StreamTcp s []" using st key by (simp add: any_from_def any_set_key_def s_def split: option.splits)
  obtain s1 bs where o: "send_raw so m s = (s1, Inr bs)" "out = OutBytes bs"
    using send st' by (auto simp: any_send_raw_def split: prod.splits sum.splits if_splits)
  have "link_rel so \<lparr>lk_sender = s, lk_wire = [], lk_receiver = s\<rparr> []"
    using connect_rel [OF assms(1), of key] by (simp add: connect_def s_def Let_def)
  from link_rel_sent [OF this, of m s1 bs] o(1)
  have r: "link_rel so \<lparr>lk_sender = s1, lk_wire = concat [bs], lk_receiver = s\<rparr> [m]" by simp
  obtain r' c' x where n: "stream_next so s [bs] = (r', c', x)" by (metis prod_cases3)
  then show ?thesis using stream_next_rel [OF r n] o(2) st' by (simp add: any_next_def)
next
  assume st: "st = StreamWs (ws_from_tcp_stream a) []"
  define s where "s = (case key of Some k \<Rightarrow> ws_set_key k (ws_from_tcp_stream a) | None \<Rightarrow> ws_from_tcp_stream a)"
  have st': "st' = StreamWs s []" using st key by (simp add: any_set_key_def s_def split: option.splits)
  obtain s1 w where o: "ws_send_raw so ok m s = (s1, Some w)" "out = OutMessage w"
    using send st' by (auto simp: any_send_raw_def split: prod.splits)
  have "ws_link_rel so \<lparr>wl_sender = s, wl_wire = [], wl_receiver = s\<rparr> []"
    using ws_pair_rel [OF assms(1), of a key] by (simp add: ws_pair_def s_def Let_def)
  from ws_rel_sent [OF this, of ok m s1 w] o(1)
  have r: "ws_link_rel so \<lparr>wl_sender = s1, wl_wire = [w], wl_receiver = s\<rparr> [m]" by simp
  have "\<not> is_control w" using o(1) by (auto simp: ws_send_raw_def ws_send_bytes_def is_control_def split: option.splits prod.splits if_splits)
  then show ?thesis
    using ws_next_rel [of so "[w]" "[]" s "[m]" s1] r o(2) st' by (fastforce simp: ws_link_rel_def any_next_def split: prod.splits)
qed

section \<open>Addresses of WebSocket servers\<close>

definition LIB_RENDEZVOUS_PORT :: int where "LIB_RENDEZVOUS_PORT = 21116"
definition LIB_RELAY_PORT :: int where "LIB_RELAY_PORT = 21117"

definition use_ws :: "core_env \<Rightarrow> core_state \<Rightarrow> bool" where
  "use_ws env st = option2bool ''allow-websocket'' (get_option env st ''allow-websocket'')"

definition is_ws_endpoint :: "string \<Rightarrow> bool" where
  "is_ws_endpoint endpoint \<longleftrightarrow> starts_with endpoint ''ws://'' \<or> starts_with endpoint ''wss://''"

definition port_or :: "string \<Rightarrow> int \<Rightarrow> int" where
  "port_or server def_port = (case split_host_port server of Some (_, p) \<Rightarrow> p | None \<Rightarrow> def_port)"

definition check_ws :: "core_env \<Rightarrow> core_state \<Rightarrow> string \<Rightarrow> string" where
  "check_ws env st endpoint =
     (if \<not> use_ws env st then endpoint
      else if endpoint = [] then endpoint
      else if is_ws_endpoint endpoint then endpoint
      else (case split_host_port endpoint of
          None \<Rightarrow> endpoint
        | Some (endpoint_host, endpoint_port) \<Rightarrow>
            let rendezvous_port = port_or (get_rendezvous_server env st) LIB_RENDEZVOUS_PORT;
                relay_port = port_or (get_option env st ''relay-server'') LIB_RELAY_PORT;
                (relay, dst_port) =
                  (if endpoint_port = rendezvous_port then (False, wrap32 (endpoint_port + 2))
                   else if endpoint_port = wrap32 (rendezvous_port - 1) then (False, wrap32 (endpoint_port + 3))
                   else if endpoint_port = relay_port \<or> endpoint_port = wrap32 (rendezvous_port + 1)
                   then (True, wrap32 (endpoint_port + 2))
                   else (True, wrap32 (endpoint_port + 2)));
                (address, is_domain) =
                  (if is_ip_str endpoint then (endpoint_host @ '':'' @ show_int dst_port, False)
                   else (endpoint_host @ (if relay then ''/ws/relay'' else ''/ws/id''), True));
                protocol = (if is_domain \<and> starts_with (get_option env st ''api-server'') ''https'' then ''wss'' else ''ws'')
            in protocol @ ''://'' @ address))"

text \<open>
  The addresses of a rendezvous server at an IPv4 address, its main port and the port below for
  the test of the NAT, both lead to the port on which the server listens for WebSocket, two above
  the main port; every other port is taken for a relay's, whose listener is two above as well.
\<close>

lemma ipv4_no_colon: "is_ipv4_str h \<Longrightarrow> CHR '':'' \<notin> set h \<Longrightarrow> 0 \<le> p \<Longrightarrow> is_ipv4_str (h @ CHR '':'' # show_int p)"
  using show_port_digits [of p] by (simp add: is_ipv4_str_def)

lemma ipv4_not_ws:
  assumes "is_ipv4_str h" "CHR '':'' \<notin> set h"
  shows "h \<noteq> []" "\<not> is_ws_endpoint (h @ t)"
proof -
  have "length (split_on CHR ''.'' h) = 4" "list_all ipv4_octet (split_on CHR ''.'' h)"
    using assms by (auto simp: is_ipv4_str_def Let_def split: prod.splits)
  then obtain a as where a: "split_on CHR ''.'' h = a # as" "ipv4_octet a" by (cases "split_on CHR ''.'' h") auto
  show "h \<noteq> []" using a by (auto simp: ipv4_octet_def parse_nat_def)
  have "\<exists>c h'. h = c # h' \<and> c \<noteq> CHR ''w''"
  proof (cases h)
    case (Cons c h')
    then show ?thesis using a
      by (cases a) (auto simp: ipv4_octet_def parse_nat_def is_digit_def split: if_splits list.splits option.splits)
  qed (use a in \<open>auto simp: ipv4_octet_def parse_nat_def\<close>)
  then show "\<not> is_ws_endpoint (h @ t)" by (auto simp: is_ws_endpoint_def starts_with_def)
qed

theorem check_ws_reaches_listener:
  assumes "use_ws env st" "is_ipv4_str h" "CHR '':'' \<notin> set h"
    and "port_or (get_rendezvous_server env st) LIB_RENDEZVOUS_PORT = p" "10000 < p" "10000 \<le> q" "p + 3 \<le> int i32_max" "q + 3 \<le> int i32_max"
  shows "check_ws env st (h @ '':'' @ show_int q) = ''ws://'' @ h @ '':'' @ show_int (if q = p - 1 then p + 2 else q + 2)"
proof -
  have w: "wrap32 (p - 1) = p - 1" "wrap32 (p + 2) = p + 2" "wrap32 (2 + p) = p + 2" "wrap32 (q + 2) = q + 2" "wrap32 (q + 3) = q + 3"
    using assms(5-8) by (simp_all add: wrap32_small i32_max_def)
  have s: "split_host_port (h @ CHR '':'' # show_int q) = Some (h, q)" using assms(3,6,8) by (intro plain_ops(2)) auto
  have "is_ip_str (h @ CHR '':'' # show_int q)" using ipv4_no_colon [OF assms(2,3), of q] assms(6) by (simp add: is_ip_str_def)
  then show ?thesis using assms(1,4) s w ipv4_not_ws [OF assms(2,3)] by (simp add: check_ws_def Let_def)
qed

end
