(* ===== verification/Lib_Proxy.thy ===== *)
theory Lib_Proxy
  imports Net_Streams Socks5_Proxy
begin

text \<open>
  Connections through the proxy of the settings: \<open>libs/core-common/src/proxy.rs\<close>.  The
  address of the proxy is parsed, the connection is made over HTTP, HTTPS with the fallbacks of
  TLS, or SOCKS5, and the answer of an HTTP proxy is read.  The libraries for URLs, TLS, SOCKS5
  and HTTP headers are arguments, as is the network.
\<close>

section \<open>The proxy of the settings\<close>

text \<open>Parts of a URL as the URL library gives them; \<open>ui_addrs\<close> resolves its host with a port to use when it has none.\<close>

record url_info =
  ui_text :: string
  ui_scheme :: string
  ui_has_host :: bool
  ui_host_port :: string
  ui_username :: string
  ui_password :: "string option"
  ui_addrs :: "u16 option \<Rightarrow> socket_addr list option"

datatype proxy_failure =
    PfIo | PfTargetParse | PfHttpParse | PfHeaderTooLong nat | PfEndOfFile | PfUrlBadScheme string | PfUrlParse
  | PfNoHttpCode | PfHttpCode nat | PfResolution string | PfNativeTls | PfTimeout | PfUnreachable

definition MAXIMUM_RESPONSE_HEADER_LENGTH :: nat where "MAXIMUM_RESPONSE_HEADER_LENGTH = 4096"
definition DEFINE_TIME_OUT :: u64 where "DEFINE_TIME_OUT = 600"

record proxy_auth =
  auth_user :: string
  auth_password :: string

datatype proxy_scheme = HttpProxy "proxy_auth option" string | HttpsProxy "proxy_auth option" string | Socks5 socket_addr "proxy_auth option" bool

record lib_proxy =
  px_intercept :: proxy_scheme
  px_ms_timeout :: u64

datatype target_addr = TargetIp socket_addr | TargetDomain string u16

text \<open>What is done on the network: a connection to the proxy, a TLS handshake, bytes written, a SOCKS5 request.\<close>

datatype proxy_act =
    Opened socket_addr socket_addr
  | Handshake tls_type bool string
  | Wrote bytes
  | SocksRequest target_addr "(string \<times> string) option"

text \<open>
  The libraries and the network, whose answers may depend on everything that was done before:
  whether a connection, a write, a handshake or a SOCKS5 request succeeds, what the proxy answers, and
  whether the time limit around it has passed.
\<close>

record net_env =
  ne_url :: "string \<Rightarrow> url_info option"
  ne_lookup :: "string \<Rightarrow> u16 \<Rightarrow> socket_addr list option"
  ne_b64 :: "bytes \<Rightarrow> string"
  ne_http_code :: "bytes \<Rightarrow> nat option option"
  ne_server_name :: "string \<Rightarrow> bool"
  ne_native_builder :: "bool \<Rightarrow> bool"
  ne_client_config :: "bool \<Rightarrow> bool"
  ne_opens :: "proxy_act list \<Rightarrow> bool"
  ne_done :: "proxy_act list \<Rightarrow> bool"
  ne_answer :: "proxy_act list \<Rightarrow> bytes"
  ne_late :: "proxy_act list \<Rightarrow> bool"

subsection \<open>Parsing\<close>

definition url_into_url :: "url_info \<Rightarrow> proxy_failure + url_info" where
  "url_into_url u = (if ui_has_host u then Inr u else Inl (PfUrlBadScheme (ui_text u)))"

definition into_url :: "net_env \<Rightarrow> string \<Rightarrow> proxy_failure + url_info" where
  "into_url ne s = (case ne_url ne s of None \<Rightarrow> Inl PfUrlParse | Some u \<Rightarrow> url_into_url u)"

definition get_basic_authorization :: "net_env \<Rightarrow> proxy_auth \<Rightarrow> string" where
  "get_basic_authorization ne a = ne_b64 ne (str_bytes (auth_user a @ '':'' @ auth_password a))"

definition get_proxy_authorization :: "net_env \<Rightarrow> proxy_auth \<Rightarrow> string" where
  "get_proxy_authorization ne a = ''Proxy-Authorization: Basic '' @ get_basic_authorization ne a @ [CRc, NLc]"

fun maybe_auth :: "proxy_scheme \<Rightarrow> proxy_auth option" where
  "maybe_auth (HttpProxy a _) = a"
| "maybe_auth (HttpsProxy a _) = a"
| "maybe_auth (Socks5 _ a _) = a"

definition scheme_socks5 :: "socket_addr \<Rightarrow> proxy_scheme" where
  "scheme_socks5 addr = Socks5 addr None False"

definition scheme_http :: "string \<Rightarrow> proxy_scheme" where
  "scheme_http host = HttpProxy None host"

definition scheme_https :: "string \<Rightarrow> proxy_scheme" where
  "scheme_https host = HttpsProxy None host"

fun set_basic_auth :: "string \<Rightarrow> string \<Rightarrow> proxy_scheme \<Rightarrow> proxy_scheme" where
  "set_basic_auth u p (HttpProxy _ h) = HttpProxy (Some \<lparr>auth_user = u, auth_password = p\<rparr>) h"
| "set_basic_auth u p (HttpsProxy _ h) = HttpsProxy (Some \<lparr>auth_user = u, auth_password = p\<rparr>) h"
| "set_basic_auth u p (Socks5 a _ r) = Socks5 a (Some \<lparr>auth_user = u, auth_password = p\<rparr>) r"

definition scheme_parse :: "url_info \<Rightarrow> proxy_failure + proxy_scheme" where
  "scheme_parse url =
     (let scheme =
        (if ui_scheme url = ''http'' then Inr (scheme_http (ui_host_port url))
         else if ui_scheme url = ''https'' then Inr (scheme_https (ui_host_port url))
         else if ui_scheme url = ''socks5'' then
           (case ui_addrs url (Some 1080) of
              None \<Rightarrow> Inl PfIo
            | Some [] \<Rightarrow> Inl PfUrlParse
            | Some (a # _) \<Rightarrow> Inr (scheme_socks5 a))
         else Inl (PfUrlBadScheme (ui_scheme url)))
      in case scheme of
           Inl e \<Rightarrow> Inl e
         | Inr sch \<Rightarrow> Inr (case ui_password url of Some pwd \<Rightarrow> set_basic_auth (ui_username url) pwd sch | None \<Rightarrow> sch))"

definition into_proxy_scheme :: "net_env \<Rightarrow> string \<Rightarrow> proxy_failure + proxy_scheme" where
  "into_proxy_scheme ne s =
     (let url = (case into_url ne s of
                   Inr u \<Rightarrow> Inr u
                 | Inl PfUrlParse \<Rightarrow> into_url ne (''socks5://'' @ s)
                 | Inl e \<Rightarrow> Inl e)
      in case url of Inl e \<Rightarrow> Inl e | Inr u \<Rightarrow> scheme_parse u)"

definition proxy_new :: "net_env \<Rightarrow> string \<Rightarrow> u64 \<Rightarrow> proxy_failure + lib_proxy" where
  "proxy_new ne s ms = (case into_proxy_scheme ne s of Inl e \<Rightarrow> Inl e | Inr sch \<Rightarrow> Inr \<lparr>px_intercept = sch, px_ms_timeout = ms\<rparr>)"

definition is_http_or_https :: "lib_proxy \<Rightarrow> bool" where
  "is_http_or_https p = (case px_intercept p of Socks5 _ _ _ \<Rightarrow> False | _ \<Rightarrow> True)"

definition basic_auth :: "string \<Rightarrow> string \<Rightarrow> lib_proxy \<Rightarrow> lib_proxy" where
  "basic_auth u pw p = p\<lparr>px_intercept := set_basic_auth u pw (px_intercept p)\<rparr>"

definition proxy_from_conf :: "net_env \<Rightarrow> socks5_server \<Rightarrow> u64 option \<Rightarrow> proxy_failure + lib_proxy" where
  "proxy_from_conf ne conf ms_timeout =
     (case proxy_new ne (ss_proxy conf) (case ms_timeout of None \<Rightarrow> DEFINE_TIME_OUT | Some t \<Rightarrow> t) of
        Inl e \<Rightarrow> Inl e
      | Inr p \<Rightarrow> Inr (if ss_password conf \<noteq> [] \<and> ss_username conf \<noteq> [] then basic_auth (ss_username conf) (ss_password conf) p else p))"

subsection \<open>Addresses\<close>

definition resolve_host :: "net_env \<Rightarrow> string \<Rightarrow> u16 \<Rightarrow> proxy_failure + socket_addr" where
  "resolve_host ne host default_port =
     (let (host_str, port) = (case splitn2 CHR '':'' host of
                                (h, Some p) \<Rightarrow> (h, map_option word_of_nat (parse_unsigned 65535 p))
                              | (h, None) \<Rightarrow> (h, None))
      in case ne_lookup ne host_str (case port of Some p \<Rightarrow> p | None \<Rightarrow> default_port) of
           None \<Rightarrow> Inl PfIo
         | Some [] \<Rightarrow> Inl (PfResolution host)
         | Some (a # _) \<Rightarrow> Inr a)"

definition scheme_socket_addrs :: "net_env \<Rightarrow> proxy_scheme \<Rightarrow> proxy_failure + socket_addr" where
  "scheme_socket_addrs ne sch =
     (case sch of
        HttpProxy _ host \<Rightarrow> resolve_host ne host 80
      | HttpsProxy _ host \<Rightarrow> resolve_host ne host 443
      | Socks5 addr _ _ \<Rightarrow> Inr addr)"

definition get_domain :: "proxy_scheme \<Rightarrow> string" where
  "get_domain sch =
     (case sch of
        HttpProxy _ host \<Rightarrow> fst (splitn2 CHR '':'' host)
      | HttpsProxy _ host \<Rightarrow> fst (splitn2 CHR '':'' host)
      | Socks5 addr _ _ \<Rightarrow> show_ip (sa_ip addr))"

definition append_default_port :: "string \<Rightarrow> u16 \<Rightarrow> string" where
  "append_default_port host port = (if CHR '':'' \<in> set host then host else host @ '':'' @ show_nat (unat port))"

fun show_socket_addr :: "socket_addr \<Rightarrow> string" where
  "show_socket_addr (V4 a p) = show_ipv4 a @ '':'' @ show_nat (unat p)"
| "show_socket_addr (V6 a p _ scope) =
     ''['' @ show_ipv6 a @ (if scope = 0 then [] else CHR ''%'' # show_nat (unat scope)) @ '']:'' @ show_nat (unat p)"

definition get_host_and_port :: "proxy_scheme \<Rightarrow> string" where
  "get_host_and_port sch =
     (case sch of
        HttpProxy _ host \<Rightarrow> append_default_port host 80
      | HttpsProxy _ host \<Rightarrow> append_default_port host 443
      | Socks5 addr _ _ \<Rightarrow> show_socket_addr addr)"

section \<open>The HTTP request and its answer\<close>

definition make_request :: "net_env \<Rightarrow> lib_proxy \<Rightarrow> string \<Rightarrow> u16 \<Rightarrow> string" where
  "make_request ne p host port =
     (let hp = host @ '':'' @ show_nat (unat port);
          request = ''CONNECT '' @ hp @ '' HTTP/1.1'' @ [CRc, NLc] @ ''Host: '' @ hp @ [CRc, NLc];
          request' = (case maybe_auth (px_intercept p) of Some a \<Rightarrow> request @ get_proxy_authorization ne a | None \<Rightarrow> request)
      in request' @ [CRc, NLc])"

definition get_domain_and_port :: "target_addr \<Rightarrow> string \<times> u16" where
  "get_domain_and_port t = (case t of TargetIp a \<Rightarrow> (show_ip (sa_ip a), sa_port a) | TargetDomain name port \<Rightarrow> (name, port))"

text \<open>One line with its line feed, and the rest.\<close>

fun take_line :: "bytes \<Rightarrow> bytes \<times> bytes" where
  "take_line [] = ([], [])"
| "take_line (b # bs) = (if b = 10 then ([b], bs) else (case take_line bs of (l, r) \<Rightarrow> (b # l, r)))"

lemma take_line_length: "take_line bs = (l, r) \<Longrightarrow> length bs = length l + length r \<and> (bs \<noteq> [] \<longrightarrow> l \<noteq> [])"
  by (induction bs arbitrary: l r) (auto split: if_splits prod.splits)

text \<open>The loop of \<open>get_response\<close> on the bytes the proxy sends before it closes the connection.\<close>

function get_response :: "bytes \<Rightarrow> bytes \<Rightarrow> proxy_failure + bytes \<times> bytes" where
  "get_response response inp =
     (if inp = [] then Inl PfEndOfFile
      else (case take_line inp of
          (line, rest) \<Rightarrow>
            if \<not> utf8_valid line then Inl PfIo
            else let response' = response @ line
                 in if MAXIMUM_RESPONSE_HEADER_LENGTH < length response' then Inl (PfHeaderTooLong (length response'))
                    else if drop (length response' - 4) response' = CRLF @ CRLF then Inr (response', rest)
                    else get_response response' rest))"
  by pat_completeness auto
termination
  by (relation "measure (\<lambda>(response, inp). length inp)") (auto dest!: sym [of _ "take_line _"] take_line_length)

declare get_response.simps [simp del]

definition recv_and_check_response :: "net_env \<Rightarrow> bytes \<Rightarrow> proxy_failure + bytes" where
  "recv_and_check_response ne inp =
     (case get_response [] inp of
        Inl e \<Rightarrow> Inl e
      | Inr (response, rest) \<Rightarrow>
          (case ne_http_code ne response of
             None \<Rightarrow> Inl PfHttpParse
           | Some (Some code) \<Rightarrow> if code = 200 then Inr rest else Inl (PfHttpCode code)
           | Some None \<Rightarrow> Inl PfNoHttpCode))"

section \<open>Connecting through the proxy\<close>

text \<open>The actions so far, the memory of TLS, and a failure or the bytes that came behind the answer of the proxy.\<close>

type_synonym proxy_run = "proxy_act list \<times> tls_cache \<times> (proxy_failure + bytes)"

definition new_stream :: "net_env \<Rightarrow> socket_addr \<Rightarrow> socket_addr \<Rightarrow> proxy_act list \<Rightarrow> proxy_act list \<times> bool" where
  "new_stream ne local px acts = (let acts' = acts @ [Opened local px] in (acts', ne_opens ne acts'))"

definition http_connect :: "net_env \<Rightarrow> lib_proxy \<Rightarrow> target_addr \<Rightarrow> proxy_act list \<Rightarrow> proxy_act list \<times> (proxy_failure + bytes)" where
  "http_connect ne p target acts =
     (case get_domain_and_port target of
        (domain, port) \<Rightarrow>
          let acts' = acts @ [Wrote (str_bytes (make_request ne p domain port))]
          in (acts', if ne_done ne acts' then recv_and_check_response ne (ne_answer ne acts') else Inl PfIo))"

definition https_connect_nativetls ::
    "net_env \<Rightarrow> lib_proxy \<Rightarrow> target_addr \<Rightarrow> bool \<Rightarrow> proxy_act list \<Rightarrow> proxy_act list \<times> (proxy_failure + bytes)" where
  "https_connect_nativetls ne p target danger acts =
     (if \<not> ne_native_builder ne danger then (acts, Inl PfNativeTls)
      else let acts' = acts @ [Handshake NativeTls danger (get_domain (px_intercept p))]
           in if ne_done ne acts' then http_connect ne p target acts' else (acts', Inl PfNativeTls))"

definition https_connect_rustls ::
    "net_env \<Rightarrow> lib_proxy \<Rightarrow> target_addr \<Rightarrow> bool \<Rightarrow> proxy_act list \<Rightarrow> proxy_act list \<times> (proxy_failure + bytes)" where
  "https_connect_rustls ne p target danger acts =
     (let domain = get_domain (px_intercept p) in
      if \<not> ne_server_name ne domain then (acts, Inl (PfResolution domain))
      else if \<not> ne_client_config ne danger then (acts, Inl PfIo)
      else let acts' = acts @ [Handshake Rustls danger domain]
           in if ne_done ne acts' then http_connect ne p target acts' else (acts', Inl PfIo))"

definition https_connect_nativetls_wrap_danger ::
    "net_env \<Rightarrow> lib_proxy \<Rightarrow> string \<Rightarrow> socket_addr \<Rightarrow> socket_addr \<Rightarrow> target_addr \<Rightarrow> bool option \<Rightarrow> tls_cache \<Rightarrow> proxy_act list \<Rightarrow>
     proxy_run" where
  "https_connect_nativetls_wrap_danger ne p url local px target danger cache acts =
     (case new_stream ne local px acts of
        (acts1, False) \<Rightarrow> (acts1, cache, Inl PfIo)
      | (acts1, True) \<Rightarrow>
          (case https_connect_nativetls ne p target (danger = Some True) acts1 of
             (acts2, r) \<Rightarrow>
               if ne_late ne acts2 then (acts2, cache, Inl PfTimeout)
               else (case r of
                       Inl e \<Rightarrow> (acts2, cache, Inl e)
                     | Inr rest \<Rightarrow> (acts2, upsert_tls_cache url NativeTls (danger = Some True) cache, Inr rest))))"

text \<open>
  \<open>unwrap_or\<close> evaluates its argument: a connection is opened also when one was passed, which only
  decides which of the two is used.
\<close>

function https_connect_rustls_wrap_danger ::
    "net_env \<Rightarrow> lib_proxy \<Rightarrow> string \<Rightarrow> socket_addr \<Rightarrow> socket_addr \<Rightarrow> target_addr \<Rightarrow> bool \<Rightarrow> bool option \<Rightarrow> bool option \<Rightarrow> tls_cache \<Rightarrow>
     proxy_act list \<Rightarrow> proxy_run" where
  "https_connect_rustls_wrap_danger ne p url local px target is_cached danger origin cache acts =
     (case new_stream ne local px acts of
        (acts1, False) \<Rightarrow> (acts1, cache, Inl PfIo)
      | (acts1, True) \<Rightarrow>
          (case https_connect_rustls ne p target (danger = Some True) acts1 of
             (acts2, r) \<Rightarrow>
               if ne_late ne acts2 then (acts2, cache, Inl PfTimeout)
               else (case r of
                       Inr rest \<Rightarrow> (acts2, upsert_tls_cache url Rustls (danger = Some True) cache, Inr rest)
                     | Inl e \<Rightarrow>
                         if danger = None
                         then https_connect_rustls_wrap_danger ne p url local px target is_cached (Some True) origin cache acts2
                         else if \<not> is_cached
                         then https_connect_nativetls_wrap_danger ne p url local px target origin cache acts2
                         else (acts2, cache, Inl e))))"
  by pat_completeness auto
termination
  by (relation "measure (\<lambda>(ne, p, url, local, px, target, ic, d, orig, c, acts). of_bool (d = None))") auto

declare https_connect_rustls_wrap_danger.simps [simp del]

definition proxy_connect ::
    "net_env \<Rightarrow> bool \<Rightarrow> lib_proxy \<Rightarrow> target_addr option \<Rightarrow> socket_addr option \<Rightarrow> tls_cache \<Rightarrow> proxy_run" where
  "proxy_connect ne allow p target local_addr cache =
     (case scheme_socket_addrs ne (px_intercept p) of
        Inl e \<Rightarrow> ([], cache, Inl e)
      | Inr px \<Rightarrow>
          (case target of
             None \<Rightarrow> ([], cache, Inl PfTargetParse)
           | Some target_addr \<Rightarrow>
               let local = (case local_addr of Some a \<Rightarrow> a | None \<Rightarrow> get_any_listen_addr (case px of V4 _ _ \<Rightarrow> True | V6 _ _ _ _ \<Rightarrow> False))
               in case new_stream ne local px [] of
                    (acts, False) \<Rightarrow> (acts, cache, Inl PfIo)
                  | (acts, True) \<Rightarrow>
                      (case px_intercept p of
                         HttpProxy _ _ \<Rightarrow>
                           (case http_connect ne p target_addr acts of
                              (acts', r) \<Rightarrow> (acts', cache, if ne_late ne acts' then Inl PfTimeout else r))
                       | HttpsProxy _ _ \<Rightarrow>
                           let url = ''https://'' @ get_host_and_port (px_intercept p);
                               tls_type = get_cached_tls_type url cache;
                               danger = get_cached_tls_accept_invalid_cert allow url cache
                           in (case tls_type of
                                 None \<Rightarrow> https_connect_rustls_wrap_danger ne p url local px target_addr False danger danger cache acts
                               | Some Rustls \<Rightarrow> https_connect_rustls_wrap_danger ne p url local px target_addr True danger danger cache acts
                               | Some NativeTls \<Rightarrow> https_connect_nativetls_wrap_danger ne p url local px target_addr danger cache acts
                               | Some PlainTls \<Rightarrow> (acts, cache, Inl PfUnreachable))
                       | Socks5 _ _ _ \<Rightarrow>
                           let acts' = acts @ [SocksRequest target_addr
                             (map_option (\<lambda>a. (auth_user a, auth_password a)) (maybe_auth (px_intercept p)))]
                           in (acts', cache, if ne_late ne acts' then Inl PfTimeout else if ne_done ne acts' then Inr [] else Inl PfIo))))"

section \<open>The answer of the proxy\<close>

lemma take_line_split: "take_line bs = (l, r) \<Longrightarrow> l @ r = bs"
  by (induction bs arbitrary: l r) (auto split: if_splits prod.splits)

lemma take_line_hit: "10 \<notin> set l \<Longrightarrow> take_line (l @ 10 # r) = (l @ [10], r)"
  by (induction l) auto

text \<open>A header of at most 4096 bytes that ends with an empty line; what follows is kept for the user of the connection.\<close>

lemma get_response_split:
  "get_response acc inp = Inr (resp, rest) \<Longrightarrow>
     resp @ rest = acc @ inp \<and> length resp \<le> MAXIMUM_RESPONSE_HEADER_LENGTH \<and> drop (length resp - 4) resp = CRLF @ CRLF"
proof (induction acc inp rule: get_response.induct)
  case (1 acc inp)
  obtain l r where t: "take_line inp = (l, r)" by fastforce
  have l: "acc @ inp = (acc @ l) @ r" using take_line_split [OF t] by simp
  have c: "inp \<noteq> [] \<and> utf8_valid l \<and> \<not> MAXIMUM_RESPONSE_HEADER_LENGTH < length (acc @ l) \<and>
      (if drop (length (acc @ l) - 4) (acc @ l) = CRLF @ CRLF then resp = acc @ l \<and> rest = r
       else get_response (acc @ l) r = Inr (resp, rest))"
    using "1.prems" by (subst (asm) get_response.simps) (auto simp: t Let_def simp del: drop_append length_append split: if_splits)
  show ?case
  proof (cases "drop (length (acc @ l) - 4) (acc @ l) = CRLF @ CRLF")
    case True
    then show ?thesis using c l by auto
  next
    case False
    then show ?thesis using "1.IH" [OF _ t [symmetric] _ refl] c l by auto
  qed
qed

lemma get_response_step:
  assumes "10 \<notin> set l" "utf8_valid (l @ [10])" "length acc + length l < MAXIMUM_RESPONSE_HEADER_LENGTH"
  shows "get_response acc (l @ 10 # r) =
    (let acc' = acc @ l @ [10] in if drop (length acc' - 4) acc' = CRLF @ CRLF then Inr (acc', r) else get_response acc' r)"
  using assms by (subst get_response.simps) (simp add: take_line_hit Let_def)

lemma get_response_HTTP_OK: "get_response [] (HTTP_OK @ data) = Inr (HTTP_OK, data)"
proof -
  let ?t = "str_bytes ''HTTP/1.1 200 Connection established'' @ [13]"
  have h: "HTTP_OK @ data = ?t @ 10 # [13] @ 10 # data" "HTTP_OK = (?t @ [10]) @ [13] @ [10]"
    by (simp_all add: HTTP_OK_def CRLF_def)
  have a: "10 \<notin> set ?t" "utf8_valid (?t @ [10])" "utf8_valid ([13] @ [10])"
    by (simp add: str_bytes_def) (rule utf8_valid_ascii; auto simp: str_bytes_def)+
  have "get_response [] (?t @ 10 # [13] @ 10 # data) = get_response (?t @ [10]) ([13] @ 10 # data)"
    using a(1,2) by (subst get_response_step) (simp_all add: MAXIMUM_RESPONSE_HEADER_LENGTH_def Let_def CRLF_def str_bytes_def)
  also have "\<dots> = Inr ((?t @ [10]) @ [13] @ [10], data)"
    using a(3) by (subst get_response_step) (simp_all add: MAXIMUM_RESPONSE_HEADER_LENGTH_def Let_def CRLF_def str_bytes_def)
  finally show ?thesis unfolding h(1) unfolding h(2) .
qed

section \<open>The client of the library and the proxy of the client\<close>

definition request_headers :: "net_env \<Rightarrow> lib_proxy \<Rightarrow> string \<Rightarrow> u16 \<Rightarrow> bytes list" where
  "request_headers ne p host port =
     str_bytes (''Host: '' @ host @ '':'' @ show_nat (unat port)) #
     (case maybe_auth (px_intercept p) of
        Some a \<Rightarrow> [str_bytes (''Proxy-Authorization: Basic '' @ get_basic_authorization ne a)]
      | None \<Rightarrow> [])"

lemma str_bytes_crlf: "str_bytes [CRc, NLc] = CRLF"
  by (simp add: str_bytes_def CRLF_def)

lemma make_request_lines: "str_bytes (make_request ne p host port) = http_request host port (request_headers ne p host port)"
  by (simp only: make_request_def http_request_def request_headers_def connect_line_def header_bytes_def Let_def str_bytes_append
      get_proxy_authorization_def append_assoc split: option.splits)
    (simp add: str_bytes_crlf)

definition header_text :: "string \<Rightarrow> bool" where
  "header_text t \<longleftrightarrow> CRc \<notin> set t \<and> NLc \<notin> set t"

lemma header_text_line:
  assumes "header_text t" "t \<noteq> []"
  shows "header_line (str_bytes t)"
proof -
  have "c = char_of n" if "word_of_nat (of_char c) = (word_of_nat n :: u8)" "n < 256" for c n
  proof -
    have "of_char c = n" using arg_cong [OF that(1), of unat] that(2) by (simp add: unat_of_nat)
    then show ?thesis by (metis char_of_char)
  qed
  from this [of _ 10] this [of _ 13] show ?thesis using assms by (auto simp: header_line_def header_text_def str_bytes_def)
qed

text \<open>
  The request of the library through an HTTP proxy, with or without a user name, is understood by
  the HTTP proxy of the client: the exit peer learns the host and the port of the target, bytes behind the request
  are passed on, and the library takes the answer for a connection and keeps the bytes behind it.
\<close>

theorem proxy_request_reaches_exit:
  assumes "\<And>b. pv_b64_decode px (pv_b64_encode px b) = Some b" "\<And>b. CHR '':'' \<notin> set (pv_b64_encode px b)"
    and "\<And>a. pv_ok px a" "get_rendezvous_servers (pv_store px) \<noteq> []"
    and "http_host_ok host" "NLc \<notin> set host" "port \<noteq> 0" "\<And>b. header_text (ne_b64 ne b)" "ne_http_code ne HTTP_OK = Some (Some 200)"
  shows "\<exists>uuid io. proxy_handle_client px exit_peer (str_bytes (make_request ne p host port) @ r) =
      \<lparr>pr_written = HTTP_OK, pr_io = io, pr_result = Inr (uuid, r)\<rparr> \<and>
    proxy_target (pv_b64_decode px) uuid = Some (host, port) \<and>
    recv_and_check_response ne (HTTP_OK @ data) = Inr data"
proof -
  let ?h = "request_headers ne p host port"
  have n: "CRc \<notin> set (show_nat k)" "NLc \<notin> set (show_nat k)" for k
    by (rule show_nat_no; simp add: is_digit_def)+
  have t: "header_text ''Host: ''" "header_text '':''" "header_text ''Proxy-Authorization: Basic ''"
    by (auto simp: header_text_def dest!: arg_cong [where f = "of_char :: char \<Rightarrow> nat"])
  have a: "header_text (x @ y) \<longleftrightarrow> header_text x \<and> header_text y" for x y by (auto simp: header_text_def)
  have "header_text host" "header_text (show_nat (unat port))" using assms(5,6) n by (simp_all add: header_text_def http_host_ok_def)
  then have "header_text (''Host: '' @ host @ '':'' @ show_nat (unat port))"
    "\<And>b. header_text (''Proxy-Authorization: Basic '' @ get_basic_authorization ne b)"
    unfolding a using t assms(8) by (simp_all add: get_basic_authorization_def)
  then have "header_line (str_bytes (''Host: '' @ host @ '':'' @ show_nat (unat port)))"
    "\<And>b. header_line (str_bytes (''Proxy-Authorization: Basic '' @ get_basic_authorization ne b))"
    by (auto intro!: header_text_line simp del: str_bytes_append)
  then have "header_line l" if "l \<in> set ?h" for l
    using that by (auto simp only: request_headers_def list.set split: option.splits)
  moreover have "?h \<noteq> []" by (simp add: request_headers_def)
  ultimately obtain uuid io where "proxy_handle_client px exit_peer (http_request host port ?h @ r) =
      \<lparr>pr_written = HTTP_OK, pr_io = io, pr_result = Inr (uuid, r)\<rparr>" "proxy_target (pv_b64_decode px) uuid = Some (host, port)"
    using http_connect_target [OF assms(1-5,7), where headers = ?h and r = r and exit_peer = exit_peer] by auto
  then show ?thesis using assms(9) by (simp add: make_request_lines recv_and_check_response_def get_response_HTTP_OK)
qed

section \<open>Handshakes and connections\<close>

definition unverified :: "proxy_act \<Rightarrow> bool" where
  "unverified a = (case a of Handshake _ danger _ \<Rightarrow> danger | _ \<Rightarrow> False)"

definition opens :: "proxy_act list \<Rightarrow> nat" where
  "opens acts = length (filter (\<lambda>a. case a of Opened _ _ \<Rightarrow> True | _ \<Rightarrow> False) acts)"

text \<open>What a step adds: unverified handshakes only if \<open>ok\<close>, and at most \<open>n\<close> connections.\<close>

definition adds :: "bool \<Rightarrow> nat \<Rightarrow> proxy_act list \<Rightarrow> proxy_act list \<Rightarrow> bool" where
  "adds ok n acts acts' \<longleftrightarrow> (\<exists>more. acts' = acts @ more \<and> (\<forall>a \<in> set more. unverified a \<longrightarrow> ok) \<and> opens more \<le> n)"

lemma adds_refl [simp]: "adds ok n acts acts"
  by (simp add: adds_def opens_def)

lemma adds_one [simp]:
  "adds ok n acts (acts @ [a]) \<longleftrightarrow> (unverified a \<longrightarrow> ok) \<and> opens [a] \<le> n"
  by (simp add: adds_def)

lemma adds_trans: "adds ok m a b \<Longrightarrow> adds ok n b c \<Longrightarrow> m + n \<le> k \<Longrightarrow> adds ok k a c"
  by (fastforce simp: adds_def opens_def)

lemma adds_mono: "adds ok m a b \<Longrightarrow> (ok \<longrightarrow> ok') \<Longrightarrow> m \<le> n \<Longrightarrow> adds ok' n a b"
  by (fastforce simp: adds_def)

lemma http_connect_adds: "adds ok 0 acts (fst (http_connect ne p t acts))"
  by (simp add: http_connect_def Let_def unverified_def opens_def split: prod.splits)

lemma new_stream_adds: "adds ok 1 acts (fst (new_stream ne l px acts))"
  by (simp add: new_stream_def Let_def unverified_def opens_def)

lemma https_connect_adds:
  "adds d 0 acts (fst (https_connect_nativetls ne p t d acts))" "adds d 0 acts (fst (https_connect_rustls ne p t d acts))"
  by (auto simp: https_connect_nativetls_def https_connect_rustls_def Let_def unverified_def opens_def
      intro: adds_trans [OF _ http_connect_adds, where m = 0])

lemma native_wrap_adds:
  "adds (d = Some True) 1 acts (fst (https_connect_nativetls_wrap_danger ne p url l px t d cache acts))"
proof -
  obtain a1 b where n: "new_stream ne l px acts = (a1, b)" by fastforce
  obtain a2 r where h: "https_connect_nativetls ne p t (d = Some True) a1 = (a2, r)" by fastforce
  have "adds (d = Some True) 1 acts a1" "adds (d = Some True) 0 a1 a2"
    using new_stream_adds [of _ acts ne l px] https_connect_adds(1) [of "d = Some True" a1 ne p t] n h by simp_all
  then show ?thesis using adds_trans [of _ 1 acts a1 0 a2 1]
    by (cases b) (simp_all add: https_connect_nativetls_wrap_danger_def n h split: sum.splits)
qed

lemma rustls_wrap_adds:
  "adds (d \<noteq> Some False \<or> orig = Some True) (2 + of_bool (d = None)) acts
     (fst (https_connect_rustls_wrap_danger ne p url l px t ic d orig cache acts))"
proof (induction ne p url l px t ic d orig cache acts rule: https_connect_rustls_wrap_danger.induct)
  case (1 ne p url l px t ic d orig cache acts)
  let ?ok = "d \<noteq> Some False \<or> orig = Some True"
  obtain a1 b where n: "new_stream ne l px acts = (a1, b)" by fastforce
  obtain a2 r where h: "https_connect_rustls ne p t (d = Some True) a1 = (a2, r)" by fastforce
  have a: "adds ?ok 1 acts a1" "adds ?ok 0 a1 a2"
    using new_stream_adds [of _ acts ne l px] adds_mono [OF https_connect_adds(2) [of "d = Some True" a1 ne p t], of ?ok 0] n h by auto
  then have a2: "adds ?ok 1 acts a2" by (rule adds_trans) simp
  show ?case
  proof (cases "b \<and> \<not> ne_late ne a2 \<and> (\<exists>e. r = Inl e) \<and> (d = None \<or> \<not> ic)")
    case False
    then have "fst (https_connect_rustls_wrap_danger ne p url l px t ic d orig cache acts) \<in> {a1, a2}"
      by (subst https_connect_rustls_wrap_danger.simps) (cases b; cases r; auto simp: n h)
    then show ?thesis using adds_mono [OF a(1), of ?ok] adds_mono [OF a2, of ?ok] by auto
  next
    case True
    show ?thesis
    proof (cases "d = None")
      case d: True
      have "adds ?ok 2 a2 (fst (https_connect_rustls_wrap_danger ne p url l px t ic (Some True) orig cache a2))"
        using "1.IH" True d n h by fastforce
      then have "adds ?ok 3 acts (fst (https_connect_rustls_wrap_danger ne p url l px t ic (Some True) orig cache a2))"
        by (rule adds_trans [OF a2]) simp
      moreover have "https_connect_rustls ne p t False a1 = (a2, r)" using h d by simp
      ultimately show ?thesis using True d by (subst https_connect_rustls_wrap_danger.simps) (auto simp: n)
    next
      case False
      have "adds ?ok 1 a2 (fst (https_connect_nativetls_wrap_danger ne p url l px t orig cache a2))"
        by (rule adds_mono [OF native_wrap_adds]) auto
      then have "adds ?ok 2 acts (fst (https_connect_nativetls_wrap_danger ne p url l px t orig cache a2))"
        by (rule adds_trans [OF a2]) simp
      then show ?thesis using True False
        by (subst https_connect_rustls_wrap_danger.simps) (auto simp: n h eval_nat_numeral)
    qed
  qed
qed

text \<open>
  Through an HTTPS proxy too a certificate is accepted without verification only when the settings allow it, and at
  most four connections to the proxy are opened.
\<close>

theorem proxy_unverified_only_allowed:
  assumes "proxy_connect ne allow p target local_addr cache = (acts, cache', r)"
  shows "(\<exists>a \<in> set acts. unverified a) \<longrightarrow> allow" "opens acts \<le> 4"
proof -
  define url where "url = ''https://'' @ get_host_and_port (px_intercept p)"
  let ?d = "get_cached_tls_accept_invalid_cert allow url cache"
  have d: "?d \<noteq> Some False \<Longrightarrow> allow" by (auto simp: get_cached_tls_accept_invalid_cert_def split: if_splits)
  have http: "adds allow 0 a (fst (http_connect ne p t a))" for t a by (rule http_connect_adds)
  have rust: "adds allow 3 a (fst (https_connect_rustls_wrap_danger ne p url l px t ic ?d ?d cache a))" for l px t ic a
    by (rule adds_mono [OF rustls_wrap_adds]) (use d in auto)
  have nat: "adds allow 3 a (fst (https_connect_nativetls_wrap_danger ne p url l px t ?d cache a))" for l px t a
    by (rule adds_mono [OF native_wrap_adds]) (use d in auto)
  have step: "adds allow 4 [] a'" if "adds allow 1 [] a" "adds allow 3 a a'" for a a'
    using that by (rule adds_trans) simp
  have one: "adds allow 4 [] a" if "adds allow 1 [] a" for a using that by (rule adds_mono) simp_all
  have zero: "adds allow 4 [] a'" if "adds allow 1 [] a" "adds allow 0 a a'" for a a' using that by (rule adds_trans) simp
  have "adds allow 4 [] acts"
  proof (cases "\<exists>px t. scheme_socket_addrs ne (px_intercept p) = Inr px \<and> target = Some t")
    case False
    then show ?thesis using assms by (auto simp: proxy_connect_def split: sum.splits option.splits)
  next
    case True
    then obtain px t where e: "scheme_socket_addrs ne (px_intercept p) = Inr px" "target = Some t" by blast
    define l where "l = (case local_addr of Some a \<Rightarrow> a | None \<Rightarrow> get_any_listen_addr (case px of V4 _ _ \<Rightarrow> True | V6 _ _ _ _ \<Rightarrow> False))"
    obtain a b where n: "new_stream ne l px [] = (a, b)" by fastforce
    then have a: "adds allow 1 [] a" using new_stream_adds [of allow "[]" ne l px] by simp
    show ?thesis
    proof (cases b)
      case False
      then show ?thesis using assms e n one [OF a] by (simp add: proxy_connect_def Let_def l_def)
    next
      case True
      show ?thesis
      proof (cases "px_intercept p")
        case (HttpProxy x1 x2)
        then show ?thesis using assms e n True zero [OF a http, of t] by (auto simp: proxy_connect_def Let_def l_def split: prod.splits)
      next
        case (HttpsProxy x1 x2)
        then show ?thesis using assms e n True step [OF a rust, of l px t] step [OF a nat, of l px t] one [OF a]
          by (simp add: proxy_connect_def Let_def l_def url_def split: option.splits tls_type.splits) (metis fst_conv)+
      next
        case (Socks5 x1 x2 x3)
        have "adds allow 4 [] (a @ [SocksRequest q c])" for q c
          using a by (rule zero) (simp add: unverified_def opens_def)
        then show ?thesis using assms e n True Socks5 by (auto simp: proxy_connect_def Let_def l_def)
      qed
    qed
  qed
  then show "(\<exists>a \<in> set acts. unverified a) \<longrightarrow> allow" "opens acts \<le> 4" by (auto simp: adds_def)
qed

text \<open>The first attempt over HTTPS opens a second connection to the proxy although it was given one.\<close>

lemma https_opens_twice:
  assumes "px_intercept p = HttpsProxy au host" "resolve_host ne host 443 = Inr px" "\<And>acts. ne_opens ne acts"
    and "get_cached_tls_type (''https://'' @ append_default_port host 443) cache = None"
  shows "\<exists>l more. fst (proxy_connect ne allow p (Some t) local_addr cache) = [Opened l px, Opened l px] @ more"
proof -
  define l where "l = (case local_addr of Some a \<Rightarrow> a | None \<Rightarrow> get_any_listen_addr (case px of V4 _ _ \<Rightarrow> True | V6 _ _ _ _ \<Rightarrow> False))"
  define url where "url = ''https://'' @ append_default_port host 443"
  define d where "d = get_cached_tls_accept_invalid_cert allow url cache"
  have n: "new_stream ne l px [] = ([Opened l px], True)" using assms(3) by (simp add: new_stream_def Let_def)
  then have f: "fst (proxy_connect ne allow p (Some t) local_addr cache) =
      fst (https_connect_rustls_wrap_danger ne p url l px t False d d cache [Opened l px])"
    using assms(1,2,4) by (simp add: proxy_connect_def scheme_socket_addrs_def get_host_and_port_def Let_def url_def d_def flip: l_def)
  let ?a = "[Opened l px, Opened l px]"
  have n2: "new_stream ne l px [Opened l px] = (?a, True)" using assms(3) by (simp add: new_stream_def Let_def)
  obtain a2 r where h: "https_connect_rustls ne p t (d = Some True) ?a = (a2, r)" by fastforce
  have "\<exists>more. a2 = ?a @ more" using https_connect_adds(2) [of "d = Some True" ?a ne p t] h by (auto simp: adds_def)
  moreover have "\<exists>more. fst (https_connect_rustls_wrap_danger ne p url l px t False (Some True) d cache a2) = a2 @ more"
    using rustls_wrap_adds [of "Some True" d a2 ne p url l px t False cache] by (auto simp: adds_def)
  moreover have "\<exists>more. fst (https_connect_nativetls_wrap_danger ne p url l px t d cache a2) = a2 @ more"
    using native_wrap_adds [of d a2 ne p url l px t cache] by (auto simp: adds_def)
  ultimately have "\<exists>more. fst (https_connect_rustls_wrap_danger ne p url l px t False d d cache [Opened l px]) = ?a @ more"
    by (subst https_connect_rustls_wrap_danger.simps) (cases r; auto simp: n2 h)
  then show ?thesis using f by metis
qed

text \<open>The host of a proxy with an IPv6 address is cut at its first colon.\<close>

lemma ipv6_proxy_host_cut:
  "ne_lookup ne ''[fe80'' 80 = None \<Longrightarrow> resolve_host ne ''[fe80::1]:8080'' 80 = Inl PfIo"
  "get_domain (HttpsProxy None ''[fe80::1]:8080'') = ''[fe80''"
  by (simp_all add: resolve_host_def get_domain_def parse_unsigned_def parse_nat_def is_digit_def)

text \<open>A name with a port and no scheme is a URL without a host for the library: it is refused, and not tried as a SOCKS5 proxy.\<close>

lemma name_without_scheme_refused:
  "ne_url ne s = Some u \<Longrightarrow> \<not> ui_has_host u \<Longrightarrow> into_proxy_scheme ne s = Inl (PfUrlBadScheme (ui_text u))"
  by (simp add: into_proxy_scheme_def into_url_def url_into_url_def)

end
