(* ===== verification/Net_Dial.thy ===== *)
theory Net_Dial
  imports Lib_Proxy
begin

text \<open>
  How the shared library makes connections: TCP sockets and listeners (\<open>tcp.rs\<close>), UDP sockets
  (\<open>udp.rs\<close>), and the choice between WebSocket, the proxy of the settings and a direct connection
  (\<open>socket_client.rs\<close>).  Sockets and name resolution are arguments.
\<close>

section \<open>Sockets\<close>

text \<open>
  The operating system: names, making and binding a socket, connecting within the time limit,
  the addresses a socket tells, and the SOCKS5 library for UDP.
\<close>

record dial_env =
  de_net :: net_env
  de_ws :: ws_env
  de_ws_peer :: "socket_addr option"
  de_into_target :: "string \<Rightarrow> string + target_addr"
  de_resolve :: "string \<Rightarrow> string + socket_addr list"
  de_bind :: "socket_addr \<Rightarrow> bool"
  de_listen :: "socket_addr \<Rightarrow> bool"
  de_socket_v6 :: bool
  de_connect :: "socket_addr \<Rightarrow> socket_addr \<Rightarrow> bool"
  de_local_addr :: "socket_addr \<Rightarrow> socket_addr \<Rightarrow> socket_addr option"
  de_test_connect :: "string \<Rightarrow> socket_addr option"
  de_socks_udp :: "string \<Rightarrow> socket_addr \<Rightarrow> (string \<times> string) option \<Rightarrow> bool"

datatype dial_error =
    NotResolved | NoAddress | NotConnected | NoLocalAddr | NotBound | NotListening | BadTarget | ProxyFailed proxy_failure
  | WsNotConnected | SocksUdpFailed

fun sa_is_ipv4 :: "socket_addr \<Rightarrow> bool" where
  "sa_is_ipv4 (V4 _ _) = True"
| "sa_is_ipv4 (V6 _ _ _ _) = False"

text \<open>What a connection is made to: an address, or a text with a host and a port.\<close>

datatype dial_target = TAddr socket_addr | TText string

fun target_text :: "dial_target \<Rightarrow> string" where
  "target_text (TAddr a) = show_socket_addr a"
| "target_text (TText s) = s"

fun target_lookup :: "dial_env \<Rightarrow> dial_target \<Rightarrow> string + socket_addr list" where
  "target_lookup de (TAddr a) = Inr [a]"
| "target_lookup de (TText s) = de_resolve de s"

fun into_target :: "dial_env \<Rightarrow> dial_target \<Rightarrow> string + target_addr" where
  "into_target de (TAddr a) = Inr (TargetIp a)"
| "into_target de (TText s) = de_into_target de s"

fun target_resolve :: "dial_target \<Rightarrow> socket_addr option" where
  "target_resolve (TAddr a) = Some a"
| "target_resolve (TText _) = None"

text \<open>The addresses are tried in turn; the result has the remote address and the local one.\<close>

fun try_addrs :: "dial_env \<Rightarrow> socket_addr option \<Rightarrow> socket_addr list \<Rightarrow> dial_error + socket_addr \<times> socket_addr" where
  "try_addrs de local_addr [] = Inl NotConnected"
| "try_addrs de local_addr (remote # rs) =
     (let l = (case local_addr of Some a \<Rightarrow> a | None \<Rightarrow> get_any_listen_addr (sa_is_ipv4 remote))
      in if de_bind de l \<and> de_connect de l remote
         then (case de_local_addr de l remote of Some a \<Rightarrow> Inr (remote, a) | None \<Rightarrow> Inl NoLocalAddr)
         else try_addrs de local_addr rs)"

definition framed_stream_new :: "dial_env \<Rightarrow> dial_target \<Rightarrow> socket_addr option \<Rightarrow> dial_error + socket_addr \<times> socket_addr" where
  "framed_stream_new de target local_addr =
     (case target_lookup de target of Inl _ \<Rightarrow> Inl NotResolved | Inr addrs \<Rightarrow> try_addrs de local_addr addrs)"

definition framed_stream_connect ::
    "dial_env \<Rightarrow> bool \<Rightarrow> dial_target \<Rightarrow> socket_addr option \<Rightarrow> socks5_server \<Rightarrow> u64 \<Rightarrow> tls_cache \<Rightarrow> proxy_run" where
  "framed_stream_connect de allow target local_addr conf ms cache =
     (case proxy_from_conf (de_net de) conf (Some ms) of
        Inl e \<Rightarrow> ([], cache, Inl e)
      | Inr p \<Rightarrow> proxy_connect (de_net de) allow p (case into_target de target of Inr t \<Rightarrow> Some t | Inl _ \<Rightarrow> None) local_addr cache)"

definition new_listener :: "dial_env \<Rightarrow> dial_target \<Rightarrow> bool \<Rightarrow> dial_error + socket_addr" where
  "new_listener de addr reuse =
     (case target_lookup de addr of
        Inl _ \<Rightarrow> Inl NotResolved
      | Inr addrs \<Rightarrow>
          if \<not> reuse then (case find (\<lambda>a. de_bind de a \<and> de_listen de a) addrs of Some a \<Rightarrow> Inr a | None \<Rightarrow> Inl NotBound)
          else (case addrs of
                  [] \<Rightarrow> Inl NoAddress
                | a # _ \<Rightarrow> if \<not> de_bind de a then Inl NotBound else if de_listen de a then Inr a else Inl NotListening))"

definition listen_any :: "dial_env \<Rightarrow> u16 \<Rightarrow> dial_error + socket_addr" where
  "listen_any de port =
     (let v6 = socket_addr_new (IpV6 (Ipv6Addr 0)) port; v4 = socket_addr_new (IpV4 (Ipv4Addr 0 0 0 0)) port
      in if de_socket_v6 de \<and> de_bind de v6 \<and> de_listen de v6 then Inr v6
         else if \<not> de_bind de v4 then Inl NotBound
         else if de_listen de v4 then Inr v4 else Inl NotListening)"

section \<open>UDP sockets\<close>

text \<open>
  A socket that was asked to be bound to a local address, or an association with a SOCKS5 proxy.  Options of a socket (reuse of
  the address, the size of its buffer) have no part in the model.
\<close>

datatype framed_socket = DirectUdp socket_addr | ProxyUdp string

definition framed_socket_new_reuse :: "dial_env \<Rightarrow> dial_target \<Rightarrow> dial_error + framed_socket" where
  "framed_socket_new_reuse de addr =
     (case target_lookup de addr of
        Inl _ \<Rightarrow> Inl NotResolved
      | Inr [] \<Rightarrow> Inl NoAddress
      | Inr (a # _) \<Rightarrow> if de_bind de a then Inr (DirectUdp a) else Inl NotBound)"

definition framed_socket_new :: "dial_env \<Rightarrow> dial_target \<Rightarrow> dial_error + framed_socket" where
  "framed_socket_new de addr = framed_socket_new_reuse de addr"

definition framed_socket_new_proxy :: "dial_env \<Rightarrow> string \<Rightarrow> socket_addr \<Rightarrow> string \<Rightarrow> string \<Rightarrow> dial_error + framed_socket" where
  "framed_socket_new_proxy de px local username password =
     (if de_socks_udp de px local (if trim username = [] then None else Some (username, password))
      then Inr (ProxyUdp px) else Inl SocksUdpFailed)"

text \<open>
  The datagrams a send gives to the network; \<open>ok\<close> tells whether the socket takes them.  A direct socket
  sends nothing to a name, and the caller is told that all is well.
\<close>

definition udp_send :: "bool \<Rightarrow> framed_socket \<Rightarrow> bytes \<Rightarrow> target_addr option \<Rightarrow> dial_error + (bytes \<times> target_addr) list" where
  "udp_send ok sock msg addr =
     (case addr of
        None \<Rightarrow> Inl BadTarget
      | Some a \<Rightarrow>
          (case sock of
             DirectUdp _ \<Rightarrow>
               (case a of TargetIp _ \<Rightarrow> if ok then Inr [(msg, a)] else Inl NotConnected | TargetDomain _ _ \<Rightarrow> Inr [])
           | ProxyUdp _ \<Rightarrow> if ok then Inr [(msg, a)] else Inl NotConnected))"

definition udp_send_raw :: "bool \<Rightarrow> framed_socket \<Rightarrow> bytes \<Rightarrow> target_addr option \<Rightarrow> dial_error + (bytes \<times> target_addr) list" where
  "udp_send_raw ok sock msg addr =
     (case addr of
        None \<Rightarrow> Inl BadTarget
      | Some a \<Rightarrow>
          (case sock of
             DirectUdp _ \<Rightarrow>
               (case a of TargetIp _ \<Rightarrow> if ok then Inr [(msg, a)] else Inl NotConnected | TargetDomain _ _ \<Rightarrow> Inr [])
           | ProxyUdp _ \<Rightarrow> if ok then Inr [(msg, a)] else Inl NotConnected))"

definition udp_send_bytes :: "bool \<Rightarrow> framed_socket \<Rightarrow> bytes \<Rightarrow> socket_addr \<Rightarrow> dial_error + (bytes \<times> target_addr) list" where
  "udp_send_bytes ok sock msg addr = (if ok then Inr [(msg, TargetIp addr)] else Inl NotConnected)"

text \<open>What the library hands over: a datagram with its source, for a proxy the one in the header of the datagram, or an error.\<close>

datatype udp_item = UdpData bytes target_addr | UdpError

definition udp_next :: "udp_item list \<Rightarrow> udp_item list \<times> (dial_error + bytes \<times> target_addr) option" where
  "udp_next is =
     (case is of
        [] \<Rightarrow> ([], None)
      | UdpData d a # rest \<Rightarrow> (rest, Some (Inr (d, a)))
      | UdpError # rest \<Rightarrow> (rest, Some (Inl NotConnected)))"

text \<open>The system tells the address of a socket, with the port it chose when the socket was bound to port 0.\<close>

definition udp_local_addr :: "(socket_addr \<Rightarrow> socket_addr option) \<Rightarrow> framed_socket \<Rightarrow> socket_addr option" where
  "udp_local_addr bound s = (case s of DirectUdp a \<Rightarrow> bound a | ProxyUdp _ \<Rightarrow> None)"

section \<open>The way to a target\<close>

definition test_if_valid_server_for_proxy :: "dial_env \<Rightarrow> string \<Rightarrow> string" where
  "test_if_valid_server_for_proxy de host = (case de_into_target de host of Inl err \<Rightarrow> err | Inr _ \<Rightarrow> [])"

definition lib_test_if_valid_server :: "dial_env \<Rightarrow> core_env \<Rightarrow> core_state \<Rightarrow> string \<Rightarrow> bool \<Rightarrow> string" where
  "lib_test_if_valid_server de env st host0 test_with_proxy =
     (let host = check_port host0 0
      in if test_with_proxy \<and> network_is_proxy env st then test_if_valid_server_for_proxy de host
         else (case de_resolve de host of Inl err \<Rightarrow> err | Inr _ \<Rightarrow> []))"

definition target_is_ipv4 :: "target_addr \<Rightarrow> bool" where
  "target_is_ipv4 t = (case t of TargetIp a \<Rightarrow> sa_is_ipv4 a | _ \<Rightarrow> True)"

definition query_nip_io :: "dial_env \<Rightarrow> socket_addr \<Rightarrow> dial_error + socket_addr" where
  "query_nip_io de addr =
     (case de_resolve de (show_ip (sa_ip addr) @ ''.nip.io:'' @ show_nat (unat (sa_port addr))) of
        Inl _ \<Rightarrow> Inl NotResolved
      | Inr as \<Rightarrow> (case find (\<lambda>a. \<not> sa_is_ipv4 a) as of Some a \<Rightarrow> Inr a | None \<Rightarrow> Inl NoAddress))"

text \<open>
  A connection: over WebSocket to an address, through the proxy (with what it was asked), or
  directly to an address from a local one.
\<close>

datatype dialled = ViaWs string ws_stream | ViaProxy "proxy_act list" bytes | ViaDirect socket_addr socket_addr

definition direct_result :: "dial_error + socket_addr \<times> socket_addr \<Rightarrow> dial_error + dialled" where
  "direct_result r = (case r of Inl e \<Rightarrow> Inl e | Inr (remote, l) \<Rightarrow> Inr (ViaDirect remote l))"

definition connect_tcp_local ::
    "dial_env \<Rightarrow> core_env \<Rightarrow> core_state \<Rightarrow> dial_target \<Rightarrow> socket_addr option \<Rightarrow> u64 \<Rightarrow> tls_cache \<Rightarrow>
     tls_cache \<times> (dial_error + dialled)" where
  "connect_tcp_local de env st target local_addr ms cache =
     (case get_socks env st of
        Some conf \<Rightarrow>
          (case framed_stream_connect de (allow_insecure_tls_fallback env st) target local_addr conf ms cache of
             (acts, cache', Inl e) \<Rightarrow> (cache', Inl (ProxyFailed e))
           | (acts, cache', Inr rest) \<Rightarrow> (cache', Inr (ViaProxy acts rest)))
      | None \<Rightarrow>
          (cache,
           case (target_resolve target, local_addr) of
             (Some target_addr, Some l) \<Rightarrow>
               if \<not> sa_is_ipv4 l \<and> sa_is_ipv4 target_addr
               then (case query_nip_io de target_addr of
                       Inl e \<Rightarrow> Inl e
                     | Inr resolved \<Rightarrow> direct_result (framed_stream_new de (TAddr resolved) (Some l)))
               else direct_result (framed_stream_new de target local_addr)
           | _ \<Rightarrow> direct_result (framed_stream_new de target local_addr)))"

definition connect_tcp ::
    "dial_env \<Rightarrow> core_env \<Rightarrow> core_state \<Rightarrow> dial_target \<Rightarrow> u64 \<Rightarrow> tls_cache \<Rightarrow> tls_cache \<times> (dial_error + dialled)" where
  "connect_tcp de env st target ms cache =
     (let target_str = check_ws env st (target_text target)
      in if is_ws_endpoint target_str
         then (case ws_new (de_ws de) (de_ws_peer de) (allow_insecure_tls_fallback env st) target_str ms cache of
                 (cache', Some s) \<Rightarrow> (cache', Inr (ViaWs target_str s))
               | (cache', None) \<Rightarrow> (cache', Inl WsNotConnected))
         else connect_tcp_local de env st target None ms cache)"

definition test_target :: "dial_env \<Rightarrow> string \<Rightarrow> dial_error + socket_addr" where
  "test_target de target =
     (case de_test_connect de target of
        Some a \<Rightarrow> Inr a
      | None \<Rightarrow>
          (case de_resolve de target of Inl _ \<Rightarrow> Inl NotResolved | Inr [] \<Rightarrow> Inl NoAddress | Inr (a # _) \<Rightarrow> Inr a))"

definition new_direct_udp_for :: "dial_env \<Rightarrow> string \<Rightarrow> dial_error + socket_addr \<times> socket_addr" where
  "new_direct_udp_for de target =
     (case test_target de target of
        Inl e \<Rightarrow> Inl e
      | Inr peer \<Rightarrow> let l = get_any_listen_addr (sa_is_ipv4 peer) in if de_bind de l then Inr (l, peer) else Inl NotBound)"

definition new_udp :: "dial_env \<Rightarrow> core_env \<Rightarrow> core_state \<Rightarrow> socket_addr \<Rightarrow> dial_error + framed_socket" where
  "new_udp de env st local =
     (case get_socks env st of
        None \<Rightarrow> framed_socket_new de (TAddr local)
      | Some conf \<Rightarrow> framed_socket_new_proxy de (ss_proxy conf) local (ss_username conf) (ss_password conf))"

definition new_udp_for :: "dial_env \<Rightarrow> core_env \<Rightarrow> core_state \<Rightarrow> string \<Rightarrow> dial_error + framed_socket \<times> target_addr" where
  "new_udp_for de env st target =
     (let res = (if \<not> network_is_proxy env st
                 then (case test_target de target of Inl e \<Rightarrow> Inl e | Inr a \<Rightarrow> Inr (sa_is_ipv4 a, TargetIp a))
                 else (case de_into_target de target of Inl _ \<Rightarrow> Inl BadTarget | Inr t \<Rightarrow> Inr (True, t)))
      in case res of
           Inl e \<Rightarrow> Inl e
         | Inr (ipv4, t) \<Rightarrow> (case new_udp de env st (get_any_listen_addr ipv4) of Inl e \<Rightarrow> Inl e | Inr s \<Rightarrow> Inr (s, t)))"

definition rebind_udp_for :: "dial_env \<Rightarrow> core_env \<Rightarrow> core_state \<Rightarrow> string \<Rightarrow> dial_error + (framed_socket \<times> target_addr) option" where
  "rebind_udp_for de env st target =
     (if network_is_proxy env st then Inr None
      else (case test_target de target of
              Inl e \<Rightarrow> Inl e
            | Inr a \<Rightarrow>
                (case framed_socket_new de (TAddr (get_any_listen_addr (sa_is_ipv4 a))) of
                   Inl e \<Rightarrow> Inl e
                 | Inr s \<Rightarrow> Inr (Some (s, TargetIp a)))))"

section \<open>What the settings of the proxy mean\<close>

lemma proxy_settings_agree: "network_is_proxy env st \<longleftrightarrow> get_socks env st \<noteq> None"
  by (auto simp: network_is_proxy_def get_socks_def get_socks_from_custom_client_advanced_settings_def split: option.splits)

text \<open>
  With a proxy in the settings every connection goes through it, except one over WebSocket, which
  leads directly to the server and verifies certificates as the settings of TLS say; datagrams go through the proxy, too, and
  what can be sent to a target is sent.  Without a proxy a UDP socket for a target is bound to an address of the
  target's family, and a datagram to the target is not dropped.
\<close>

theorem proxy_is_used:
  assumes "get_socks env st = Some conf"
  shows "case snd (connect_tcp de env st target ms cache) of
      Inr (ViaDirect _ _) \<Rightarrow> False
    | Inr (ViaWs url _) \<Rightarrow> url = check_ws env st (target_text target) \<and> is_ws_endpoint url
    | Inr (ViaProxy acts _) \<Rightarrow> (\<exists>a \<in> set acts. unverified a) \<longrightarrow> allow_insecure_tls_fallback env st
    | Inl _ \<Rightarrow> True"
    and "new_udp_for de env st host = Inr (sock, t) \<Longrightarrow> sock = ProxyUdp (ss_proxy conf) \<and> udp_send True sock m (Some t) = Inr [(m, t)]"
proof -
  obtain acts c' r where f: "framed_stream_connect de (allow_insecure_tls_fallback env st) target None conf ms cache = (acts, c', r)"
    by (metis prod_cases3)
  have "(\<exists>a \<in> set acts. unverified a) \<longrightarrow> allow_insecure_tls_fallback env st"
  proof (cases "proxy_from_conf (de_net de) conf (Some ms)")
    case (Inr p)
    then show ?thesis using f proxy_unverified_only_allowed(1) by (simp add: framed_stream_connect_def)
  qed (use f in \<open>simp add: framed_stream_connect_def\<close>)
  then show "case snd (connect_tcp de env st target ms cache) of
      Inr (ViaDirect _ _) \<Rightarrow> False
    | Inr (ViaWs url _) \<Rightarrow> url = check_ws env st (target_text target) \<and> is_ws_endpoint url
    | Inr (ViaProxy acts _) \<Rightarrow> (\<exists>a \<in> set acts. unverified a) \<longrightarrow> allow_insecure_tls_fallback env st
    | Inl _ \<Rightarrow> True"
    using assms f by (auto simp: connect_tcp_def connect_tcp_local_def Let_def split: sum.splits prod.splits option.splits)
  show "new_udp_for de env st host = Inr (sock, t) \<Longrightarrow> sock = ProxyUdp (ss_proxy conf) \<and> udp_send True sock m (Some t) = Inr [(m, t)]"
    using assms proxy_settings_agree [of env st]
    by (auto simp: new_udp_for_def new_udp_def framed_socket_new_proxy_def udp_send_def split: sum.splits if_splits)
qed

lemma direct_udp_fits:
  assumes "get_socks env st = None" "new_udp_for de env st host = Inr (sock, t)"
  shows "\<exists>a. t = TargetIp a \<and> sock = DirectUdp (get_any_listen_addr (sa_is_ipv4 a)) \<and> udp_send True sock m (Some t) = Inr [(m, t)]"
  using assms proxy_settings_agree [of env st]
  by (auto simp: new_udp_for_def new_udp_def framed_socket_new_def framed_socket_new_reuse_def udp_send_def split: sum.splits if_splits)

text \<open>A direct socket drops a datagram for a name and reports success.\<close>

lemma direct_udp_drops_names: "udp_send ok (DirectUdp l) m (Some (TargetDomain n p)) = Inr []"
  by (simp add: udp_send_def)

text \<open>A direct connection is made to the first address of the target that can be reached.\<close>

lemma try_addrs_first:
  "try_addrs de local_addr addrs = Inr (remote, l) \<Longrightarrow>
     \<exists>before after. addrs = before @ remote # after \<and>
       (\<forall>a \<in> set before. let b = (case local_addr of Some x \<Rightarrow> x | None \<Rightarrow> get_any_listen_addr (sa_is_ipv4 a)) in
          \<not> (de_bind de b \<and> de_connect de b a))"
proof (induction addrs)
  case (Cons a as)
  let ?b = "case local_addr of Some x \<Rightarrow> x | None \<Rightarrow> get_any_listen_addr (sa_is_ipv4 a)"
  show ?case
  proof (cases "de_bind de ?b \<and> de_connect de ?b a")
    case True
    then have "a = remote" using Cons.prems by (auto simp: Let_def split: option.splits)
    then show ?thesis by (intro exI [of _ "[]"] exI [of _ as]) simp
  next
    case False
    then obtain before after where "as = before @ remote # after" "\<forall>a \<in> set before. let b = (case local_addr of Some x \<Rightarrow> x
        | None \<Rightarrow> get_any_listen_addr (sa_is_ipv4 a)) in \<not> (de_bind de b \<and> de_connect de b a)"
      using Cons by (auto simp: Let_def split: if_splits)
    then show ?thesis using False by (intro exI [of _ "a # before"] exI [of _ after]) (simp add: Let_def)
  qed
qed simp

end
