(* ===== verification/Spec2Isabelle.thy ===== *)
theory Spec2Isabelle
  imports Addr_Mangle Bytes_Codec Rendezvous_Codec Common Billing Rendezvous_Props Relay_Props Api_Props
    Settings_Props Secure_Stream Client_Props Client_Bridge Service_Scan Core_Config Client_Auth
    Client_Lan Client_Updater Client_Kcp Client_Ipc Client_Tunnels Server_Start File_Round Net_Dial
begin

text \<open>
  A verification library of the NAT traversal server and its client.

  \<^bold>\<open>The program.\<close>  The repository holds two servers, a desktop client and a shared library.
  The rendezvous server \<open>hbbs\<close> (\<open>src/rendezvous_server.rs\<close> with \<open>peer.rs\<close>) knows the peers,
  answers requests for a connection and tells the other peer; it also serves the web
  interface (\<open>web.rs\<close>, \<open>api.rs\<close>, \<open>device_api.rs\<close>, \<open>password_reset.rs\<close>, \<open>settings_api.rs\<close>,
  \<open>payment.rs\<close>, \<open>subscription.rs\<close>) on the same SQLite database (\<open>database.rs\<close>).  The relay
  server \<open>hbbr\<close> (\<open>relay_server.rs\<close>, \<open>hbbr.rs\<close>) joins two connections with the same identifier.
  The client (\<open>nat-client/src\<close>) registers with \<open>hbbs\<close>, asks for connections, accepts those its
  user has allowed, forwards ports and runs a proxy.  The shared library
  (\<open>libs/core-common/src\<close>) holds the codecs, the encrypted stream and helpers.

  \<^bold>\<open>Conventions.\<close>  A Rust \<open>String\<close> is its sequence of bytes, an Isabelle string; fixed-width
  integers are words where they can wrap and \<open>int\<close> or \<open>nat\<close> otherwise, with the range written
  out where it matters; \<open>HashMap\<close>s are association lists or maps; errors are constructors of
  an error type (\<open>Inl\<close>) or \<open>None\<close>; clocks, random numbers, files, the network and third-party
  libraries (protobuf, Cap'n Proto, sodium, bcrypt, JWT, TOML, Base64) are arguments, collected
  in records called environments.  What a theorem needs of such a library is one of its hypotheses,
  and its witness instantiates the library by a concrete function.  An I/O action of the client is an element of
  the list of actions that an operation returns.  Concurrency is a step relation whose steps
  are the sections between two \<open>await\<close>s or under one lock.

  \<^bold>\<open>The theories.\<close>
    \<^item> \<open>Nat_Prelude\<close>: names of the machine types, time, byte conversions, \<open>str\<close> operations.
      \<open>Sql_Table\<close>: rows with an automatic key, with the locale \<open>auto_table\<close>.
      \<open>Text_Lines\<close>: lines, trimming and splitting of texts.  \<open>Float64\<close>: rounding of numbers.
    \<^item> \<open>Addr_Mangle\<close>: \<open>AddrMangle\<close> and \<open>try_into_v4\<close> of \<open>lib.rs\<close>; decoding undoes encoding.
      \<open>Bytes_Codec\<close>: \<open>bytes_codec.rs\<close>; frames round trip and decoding can be resumed at any byte.
      \<open>Rendezvous_Msg\<close>, \<open>Rendezvous_Codec\<close>: the messages of \<open>rendezvous.proto\<close> and
      \<open>rendezvous_codec.rs\<close>.  \<open>Secure_Stream\<close>: \<open>tcp.rs\<close>; an encrypted stream refines a queue
      (locale \<open>queue_refinement\<close>) and \<open>next\<close> delivers.  \<open>Common\<close>: \<open>common.rs\<close> and helpers of \<open>lib.rs\<close>.
      \<open>Host_Port\<close>: host and port texts of \<open>socket_client.rs\<close>.
    \<^item> \<open>Database\<close>, \<open>Subscription\<close>, \<open>Payment\<close>: tables and statements.  \<open>Db_Invariant\<close>: the
      invariant \<open>db_ok\<close> (keys, references, one active subscription) and its preservation by every
      statement.  \<open>Billing\<close>: payment callbacks and device limits.
    \<^item> \<open>Peer_Map\<close>, \<open>Rate_Limit\<close>, \<open>Rendezvous_Server\<close>, \<open>Server_Cmd\<close>: the rendezvous server,
      handler by handler; locales \<open>peer_store\<close> (lookup after update) and \<open>burst_limiter\<close>.
      \<open>Rendezvous_Props\<close>: what the answers are on every branch, who can change an identity.
    \<^item> \<open>Relay_Server\<close>, \<open>Relay_Props\<close>: admission, pairing as interleaved tasks, the relay loop;
      soundness of pairing, forwarding, no leak.
    \<^item> \<open>Web_Api\<close>, \<open>Api_Props\<close>: HTTP handlers; administrators, tokens, bindings of devices.
      \<open>Settings_Files\<close>, \<open>Settings_Props\<close>: the files an administrator edits, and that the relay
      server started next obeys them.
    \<^item> \<open>Client_Config\<close>, \<open>Socks5_Proxy\<close>, \<open>Client_Mediator\<close>, \<open>Client_Bridge\<close>,
      \<open>Service_Scan\<close>: the modules of the client.  \<open>Client_Props\<close>: the client together with
      the rendezvous server.
    \<^item> \<open>Client_Auth\<close>: \<open>auth.rs\<close>; the locale \<open>login_service\<close> is what the client relies on,
      interpreted on the handlers of \<open>Web_Api\<close>; a login binds the device.  \<open>Client_Lan\<close>:
      \<open>lan.rs\<close>; two clients find each other.  \<open>Client_Kcp\<close>: \<open>kcp_tunnel.rs\<close>; the handshake as a
      step relation with loss and strangers, and the loop that drives the KCP library.  \<open>Client_Updater\<close>:
      \<open>updater.rs\<close>; only a file with the announced hash is installed, checks are spaced, and the
      answer of the server is understood.  \<open>Client_Ipc\<close>: \<open>ipc.rs\<close>; every command on the state of
      the modules above; an error changes nothing and no command changes the identity.
      \<open>Client_Tunnels\<close>: the tasks of \<open>PortForwardManager\<close> and the table of connections they share
      (locale \<open>table_users\<close>); a listed connection belongs to a running task.
    \<^item> \<open>Server_Start\<close>: key files, arguments, listeners and the loop of \<open>hbbs\<close>; its key survives a restart.
    \<^item> \<open>Stored_Secrets\<close>, \<open>Core_Config\<close>: \<open>password_security.rs\<close> and \<open>config.rs\<close> of the shared library;
      secrets and files round trip, the permanent password, and layered options, whose
      three stores are interpretations of the locale \<open>layered_options\<close>.
    \<^item> \<open>File_System\<close>: the POSIX calls that \<open>std::fs\<close> makes, on a map from locations to directories, files and
      symbolic links.  \<open>File_Transfer\<close>: \<open>fs.rs\<close> and \<open>compress.rs\<close> on it.  \<open>File_Props\<close>: a writing job stays inside its
      directory whatever its peer sends (by the locale \<open>guarded_actions\<close>, which lifts what holds of one action to
      sequences of them), and listed names are accepted.  \<open>File_Round\<close>: a file arrives as it was sent.
    \<^item> \<open>Ws_Stream\<close>: \<open>tls.rs\<close> and connecting with TLS in \<open>websocket.rs\<close>; an unverified connection needs the
      permission of the user and a verified attempt before.  \<open>Net_Streams\<close>: messages over WebSocket, a second
      interpretation of \<open>queue_refinement\<close>, \<open>stream.rs\<close>, and \<open>check_ws\<close>, which leads to the port on which the server listens.
      \<open>Lib_Proxy\<close>: \<open>proxy.rs\<close>; its requests are understood by the proxy of \<open>Socks5_Proxy\<close>.  \<open>Net_Dial\<close>: the rest of
      \<open>socket_client.rs\<close>, \<open>udp.rs\<close> and connecting in \<open>tcp.rs\<close>; what the settings of a proxy mean for connections.

  \<^bold>\<open>Loops.\<close>  A loop over what arrives (datagrams, lines, turns of a thread, chunks of a stream) is a recursion
  over the list of what arrives, so that theorems hold for every finite prefix of a run.
  Loops over data recurse on the data.  \<open>recv_all\<close> of \<open>Client_Kcp\<close> depends on the KCP library and is
  a partial function; it returns when the queue of the library shrinks with every
  piece.  The listing of a directory tree ends because paths grow and the system refuses those of \<open>PATH_MAX\<close> bytes; a path
  is resolved through at most \<open>MAX_LINKS\<close> links, the limit of Linux.  No fuel is used.

  \<^bold>\<open>Not modelled.\<close>  Sockets, the libraries for TLS and WebSocket, and process starts (arguments of the model say what
  they give); signals, the entry point of the client and the diagnostic part of \<open>utils.rs\<close>; the windows of the client
  (\<open>nat-client/src/ui\<close>), which call the operations modelled here; HTML pages and texts; the parts of the shared
  library that come from a remote desktop and that neither server nor client calls (\<open>webrtc.rs\<close>, \<open>verifier.rs\<close>, \<open>platform\<close>, keyboard, fingerprint, the settings of remote sessions and address books in
  \<open>config.rs\<close>); copies that no target builds (\<open>rendezvous_server_commented.rs\<close>,
  \<open>rendezvous_server_capnp.rs\<close>, \<open>database_v2.rs\<close>, \<open>docs/upstream-refs\<close>).
\<close>

end
